(* ===== verification/Kordn_Prelude.thy ===== *)
theory Kordn_Prelude
  imports Main "HOL-Library.Char_ord" "HOL-Library.List_Lexorder" "HOL-Library.Sublist"
    "HOL-Library.Multiset"
begin

text \<open>
  The vocabulary every component shares. A Go \<^verbatim>\<open>string\<close> is a sequence of bytes, so it is a
  HOL \<^typ>\<open>string\<close> (a list of 8-bit \<^typ>\<open>char\<close>s); \<open><\<close> on strings is the bytewise
  lexicographic order of \<open>List_Lexorder\<close> over \<open>Char_ord\<close>, which is Go's string order, so that
  \<^verbatim>\<open>sort.Strings\<close> is \<^const>\<open>sort\<close>. A Go \<^verbatim>\<open>error\<close> result is a \<open>go_error\<close> (\<^const>\<open>None\<close> is
  nil) and a pair \<^verbatim>\<open>(T, error)\<close> is a \<open>'t go_result\<close> (\<^const>\<open>Inl\<close> is the error).

  The second part models the functions of the Go standard library packages \<^verbatim>\<open>unicode/utf8\<close>,
  \<^verbatim>\<open>unicode\<close>, \<^verbatim>\<open>strings\<close> and \<^verbatim>\<open>strconv\<close> that the sources call. Case mapping is exact on
  ASCII and on the runes outside ASCII whose simple mapping lands in ASCII (U+0130, U+0131,
  U+017F, U+212A); every other rune maps to itself. The sources only compare the results with
  ASCII strings, or reject every string with a rune outside ASCII right after.
\<close>

named_theorems go_defs \<open>definitions of the standard library model, for evaluation\<close>
named_theorems go_simps \<open>rewrite rules of the standard library model\<close>

section \<open>Results and loops\<close>

type_synonym go_error = "string option"
type_synonym 'a go_result = "string + 'a"

abbreviation is_ok :: "'e + 'a \<Rightarrow> bool" where
  "is_ok r \<equiv> \<not> isl r"

text \<open>The loop \<^verbatim>\<open>for _, x := range xs { if err := f(x); err != nil { return err } }\<close>.\<close>

primrec first_err :: "('a \<Rightarrow> 'e option) \<Rightarrow> 'a list \<Rightarrow> 'e option" where
  "first_err f [] = None"
| "first_err f (x # xs) = (case f x of None \<Rightarrow> first_err f xs | Some e \<Rightarrow> Some e)"

lemma first_err_None [simp]: "first_err f xs = None \<longleftrightarrow> (\<forall>x \<in> set xs. f x = None)"
  by (induction xs) (auto split: option.splits)

lemma first_err_cong [fundef_cong]:
  "xs = ys \<Longrightarrow> (\<And>x. x \<in> set ys \<Longrightarrow> f x = g x) \<Longrightarrow> first_err f xs = first_err g ys"
  by (induction xs arbitrary: ys) (auto split: option.splits)

text \<open>A chain of guards, each of which returns an error, succeeds when no guard fires.\<close>

lemma guard_None:
  "((if c then Some e else r) = None) \<longleftrightarrow> \<not> c \<and> r = None"
  "((case m of None \<Rightarrow> r | Some x \<Rightarrow> Some (f x)) = None) \<longleftrightarrow> m = None \<and> r = None"
  by (simp_all split: option.split)

lemma guard_Inr:
  "((if c then Inl e else r) = Inr v) \<longleftrightarrow> \<not> c \<and> r = Inr v"
  "((case m of None \<Rightarrow> r | Some x \<Rightarrow> Inl (f x)) = Inr v) \<longleftrightarrow> m = None \<and> r = Inr v"
  by (simp_all split: option.split)

text \<open>The loop that keeps a set of the values seen and stops at the first repeated one.\<close>

fun has_dup :: "'a list \<Rightarrow> bool" where
  "has_dup [] = False"
| "has_dup (x # xs) = (x \<in> set xs \<or> has_dup xs)"

lemma has_dup_distinct [simp]: "has_dup xs \<longleftrightarrow> \<not> distinct xs"
  by (induction xs) auto

lemma is_ok_iff: "is_ok r \<longleftrightarrow> (\<exists>x. r = Inr x)"
  by (cases r) auto

lemma map_sum_id_Inl [simp]: "map_sum id f r = Inl e \<longleftrightarrow> r = Inl e"
  by (cases r) auto

lemma map_sum_id_Inr: "map_sum id f r = Inr y \<longleftrightarrow> (\<exists>x. r = Inr x \<and> y = f x)"
  by (cases r) auto

section \<open>Bytes and runes\<close>

type_synonym rune = nat

definition ord :: "char \<Rightarrow> nat" where
  [go_defs]: "ord c = of_char c"

definition is_ascii :: "char \<Rightarrow> bool" where
  [go_defs]: "is_ascii c \<longleftrightarrow> ord c < 128"

definition byte_between :: "char \<Rightarrow> char \<Rightarrow> char \<Rightarrow> bool" where
  [go_defs]: "byte_between lo hi c \<longleftrightarrow> ord lo \<le> ord c \<and> ord c \<le> ord hi"

definition is_digit_byte :: "char \<Rightarrow> bool" where
  [go_defs]: "is_digit_byte c \<longleftrightarrow> byte_between CHR ''0'' CHR ''9'' c"

definition is_lower_byte :: "char \<Rightarrow> bool" where
  [go_defs]: "is_lower_byte c \<longleftrightarrow> byte_between CHR ''a'' CHR ''z'' c"

definition is_upper_byte :: "char \<Rightarrow> bool" where
  [go_defs]: "is_upper_byte c \<longleftrightarrow> byte_between CHR ''A'' CHR ''Z'' c"

definition ascii_lower_byte :: "char \<Rightarrow> char" where
  [go_defs]: "ascii_lower_byte c = (if is_upper_byte c then char_of (ord c + 32) else c)"

definition ascii_upper_byte :: "char \<Rightarrow> char" where
  [go_defs]: "ascii_upper_byte c = (if is_lower_byte c then char_of (ord c - 32) else c)"

lemma ord_lt [simp]: "ord c < 256"
  by (simp add: ord_def)

lemma ord_inject [simp]: "ord a = ord b \<longleftrightarrow> a = b"
  by (simp add: ord_def)

lemma ord_char_of [simp]: "n < 256 \<Longrightarrow> ord (char_of n) = n"
  by (simp add: ord_def)

lemma char_of_ord [simp]: "char_of (ord c) = c"
  by (simp add: ord_def)

lemma is_upper_byte_iff: "is_upper_byte c \<longleftrightarrow> 65 \<le> ord c \<and> ord c \<le> 90"
  by (simp add: is_upper_byte_def byte_between_def, simp add: ord_def)

lemma is_lower_byte_iff: "is_lower_byte c \<longleftrightarrow> 97 \<le> ord c \<and> ord c \<le> 122"
  by (simp add: is_lower_byte_def byte_between_def, simp add: ord_def)

lemma is_digit_byte_iff: "is_digit_byte c \<longleftrightarrow> 48 \<le> ord c \<and> ord c \<le> 57"
  by (simp add: is_digit_byte_def byte_between_def, simp add: ord_def)

lemmas byte_class_iff = is_upper_byte_iff is_lower_byte_iff is_digit_byte_iff

lemma ord_ascii_lower:
  "ord (ascii_lower_byte c) = (if is_upper_byte c then ord c + 32 else ord c)"
  by (simp add: ascii_lower_byte_def is_upper_byte_iff)

lemma ascii_lower_byte_idem [simp]: "ascii_lower_byte (ascii_lower_byte c) = ascii_lower_byte c"
proof -
  have "\<not> is_upper_byte (ascii_lower_byte c)"
    by (simp add: is_upper_byte_iff ord_ascii_lower)
  then show ?thesis by (simp add: ascii_lower_byte_def [of "ascii_lower_byte c"])
qed

subsection \<open>UTF-8, as \<^verbatim>\<open>unicode/utf8\<close> decodes it\<close>

text \<open>
  \<open>utf8_tail a s\<close> decodes the multi-byte sequence that starts with the lead byte \<open>a\<close> and goes
  on in \<open>s\<close>: the rune and the number of continuation bytes, or \<^const>\<open>None\<close> where the decoder
  reports an invalid byte. The bounds on the second byte exclude overlong forms, surrogates and
  values above U+10FFFF.
\<close>

definition cont_ok :: "nat \<Rightarrow> nat \<Rightarrow> string \<Rightarrow> nat \<Rightarrow> bool" where
  [go_defs]: "cont_ok lo hi s i \<longleftrightarrow> i < length s \<and> lo \<le> ord (s ! i) \<and> ord (s ! i) \<le> hi"

definition low6 :: "string \<Rightarrow> nat \<Rightarrow> nat" where
  [go_defs]: "low6 s i = ord (s ! i) mod 64"

definition second_lo :: "nat \<Rightarrow> nat" where
  [go_defs]: "second_lo b = (if b = 224 then 160 else if b = 240 then 144 else 128)"

definition second_hi :: "nat \<Rightarrow> nat" where
  [go_defs]: "second_hi b = (if b = 237 then 159 else if b = 244 then 143 else 191)"

definition utf8_tail :: "char \<Rightarrow> string \<Rightarrow> (rune \<times> nat) option" where
  [go_defs]: "utf8_tail a s =
     (let b = ord a in
      if b < 128 then Some (b, 0)
      else if 194 \<le> b \<and> b \<le> 223 then
        (if cont_ok 128 191 s 0 then Some (b mod 32 * 64 + low6 s 0, 1) else None)
      else if 224 \<le> b \<and> b \<le> 239 then
        (if cont_ok (second_lo b) (second_hi b) s 0 \<and> cont_ok 128 191 s 1
         then Some ((b mod 16 * 64 + low6 s 0) * 64 + low6 s 1, 2) else None)
      else if 240 \<le> b \<and> b \<le> 244 then
        (if cont_ok (second_lo b) (second_hi b) s 0 \<and> cont_ok 128 191 s 1 \<and> cont_ok 128 191 s 2
         then Some (((b mod 8 * 64 + low6 s 0) * 64 + low6 s 1) * 64 + low6 s 2, 3) else None)
      else None)"

text \<open>
  A string as the \<^verbatim>\<open>range\<close> loop sees it: the bytes of each step, with its rune where the bytes
  are valid. An invalid byte is a step of its own.
\<close>

fun utf8_chunks :: "string \<Rightarrow> (rune option \<times> string) list" where
  "utf8_chunks [] = []"
| "utf8_chunks (a # s) =
     (case utf8_tail a s of
        None \<Rightarrow> (None, [a]) # utf8_chunks s
      | Some (r, n) \<Rightarrow> (Some r, a # take n s) # utf8_chunks (drop n s))"

definition rune_error :: rune where
  [go_defs]: "rune_error = 65533"

definition rune_of_chunk :: "rune option \<times> string \<Rightarrow> rune" where
  [go_defs]: "rune_of_chunk ch = (case fst ch of None \<Rightarrow> rune_error | Some r \<Rightarrow> r)"

definition runes :: "string \<Rightarrow> rune list" where
  [go_defs]: "runes s = map rune_of_chunk (utf8_chunks s)"

definition valid_utf8 :: "string \<Rightarrow> bool" where
  [go_defs]: "valid_utf8 s \<longleftrightarrow> list_all (\<lambda>ch. fst ch \<noteq> None) (utf8_chunks s)"

definition encode_rune :: "rune \<Rightarrow> string" where
  [go_defs]: "encode_rune r =
     (if r < 128 then [char_of r]
      else if r < 2048 then [char_of (192 + r div 64), char_of (128 + r mod 64)]
      else if r < 65536 then
        [char_of (224 + r div 4096), char_of (128 + r div 64 mod 64), char_of (128 + r mod 64)]
      else [char_of (240 + r div 262144), char_of (128 + r div 4096 mod 64),
            char_of (128 + r div 64 mod 64), char_of (128 + r mod 64)])"

lemma concat_utf8_chunks: "concat (map snd (utf8_chunks s)) = s"
  by (induction s rule: utf8_chunks.induct) (auto split: option.splits)

lemma utf8_tail_ascii [simp]: "is_ascii a \<Longrightarrow> utf8_tail a s = Some (ord a, 0)"
  by (simp add: utf8_tail_def is_ascii_def)

lemma utf8_chunks_ascii:
  "list_all is_ascii s \<Longrightarrow> utf8_chunks s = map (\<lambda>c. (Some (ord c), [c])) s"
  by (induction s) simp_all

lemma runes_ascii [go_simps]: "list_all is_ascii s \<Longrightarrow> runes s = map ord s"
  by (simp add: runes_def utf8_chunks_ascii rune_of_chunk_def)

lemma valid_utf8_ascii [go_simps]: "list_all is_ascii s \<Longrightarrow> valid_utf8 s"
  by (simp add: valid_utf8_def utf8_chunks_ascii list_all_iff)

text \<open>
  A predicate on runes that accepts only ASCII runes sees exactly the bytes: every loop of the
  sources that rejects runes outside an ASCII character class can be read bytewise.
\<close>

lemma mod_shift: "q * d \<le> b \<Longrightarrow> b < q * d + d \<Longrightarrow> (b::nat) mod d = b - q * d"
  by (metis add_diff_cancel_left' le_add_diff_inverse less_diff_conv2 add.commute mod_less
      mod_mult_self3)

lemma lead2_ge: "194 \<le> b \<Longrightarrow> b \<le> 223 \<Longrightarrow> 128 \<le> (b::nat) mod 32 * 64 + k"
  using mod_shift [of 6 32 b] by simp

lemma low6_ge:
  "cont_ok (128 + d) h s i \<Longrightarrow> h \<le> 191 \<Longrightarrow> d \<le> low6 s i"
  using mod_shift [of 2 64 "ord (s ! i)"] by (auto simp: cont_ok_def low6_def)

lemma pack64_ge: "2 \<le> m * 64 + x \<Longrightarrow> 128 \<le> ((m::nat) * 64 + x) * 64 + k"
  using mult_le_mono1 [of 2 "m * 64 + x" 64] by simp

lemma lead3_ge:
  assumes "224 \<le> b" "b \<le> 239" "cont_ok (second_lo b) (second_hi b) s 0"
  shows "128 \<le> ((b::nat) mod 16 * 64 + low6 s 0) * 64 + k"
proof (cases "b = 224")
  case True
  with assms(3) have "32 \<le> low6 s 0"
    using low6_ge [of 32 191 s 0] by (simp add: second_lo_def second_hi_def)
  then show ?thesis by (intro pack64_ge) simp
next
  case False
  then have "1 \<le> b mod 16" using assms mod_shift [of 14 16 b] by simp
  then show ?thesis by (intro pack64_ge) simp
qed

lemma lead4_ge:
  assumes "240 \<le> b" "b \<le> 244" "cont_ok (second_lo b) (second_hi b) s 0"
  shows "128 \<le> (((b::nat) mod 8 * 64 + low6 s 0) * 64 + k) * 64 + l"
proof (cases "b = 240")
  case True
  with assms(3) have "16 \<le> low6 s 0"
    using low6_ge [of 16 191 s 0] by (simp add: second_lo_def second_hi_def)
  then have "2 \<le> b mod 8 * 64 + low6 s 0" by simp
  from pack64_ge [OF this, of k] show ?thesis by (intro pack64_ge) simp
next
  case False
  then have "2 \<le> b mod 8 * 64 + low6 s 0" using assms mod_shift [of 30 8 b] by simp
  from pack64_ge [OF this, of k] show ?thesis by (intro pack64_ge) simp
qed

lemma utf8_tail_lead_ascii:
  assumes "utf8_tail a s = Some (r, n)" and "r < 128"
  shows "is_ascii a \<and> r = ord a \<and> n = 0"
proof (cases "ord a < 128")
  case True
  with assms show ?thesis by (simp add: utf8_tail_def is_ascii_def)
next
  case False
  have "128 \<le> r"
    using assms(1) False lead2_ge [of "ord a"] lead3_ge [of "ord a" s] lead4_ge [of "ord a" s]
    by (simp add: utf8_tail_def Let_def split: if_splits) blast+
  with assms(2) show ?thesis by simp
qed

text \<open>
  \<open>ascii_pred P\<close>: the predicate \<open>P\<close> on runes holds of ASCII runes only.
\<close>

definition ascii_pred :: "(rune \<Rightarrow> bool) \<Rightarrow> bool" where
  "ascii_pred P \<longleftrightarrow> (\<forall>r. P r \<longrightarrow> r < 128)"

lemma list_all_runes_bytes:
  assumes "ascii_pred P"
  shows "list_all P (runes s) \<longleftrightarrow> list_all (\<lambda>c. P (ord c)) s"
proof
  assume *: "list_all (\<lambda>c. P (ord c)) s"
  then have "list_all is_ascii s"
    using assms by (auto simp: list_all_iff is_ascii_def ascii_pred_def)
  with * show "list_all P (runes s)" by (simp add: runes_ascii list_all_iff)
next
  show "list_all P (runes s) \<Longrightarrow> list_all (\<lambda>c. P (ord c)) s"
  proof (induction s rule: utf8_chunks.induct)
    case 1 then show ?case by simp
  next
    case (2 a s)
    show ?case
    proof (cases "utf8_tail a s")
      case None
      with "2.prems" have "P rune_error"
        by (simp add: runes_def rune_of_chunk_def)
      with assms show ?thesis by (auto simp: ascii_pred_def rune_error_def)
    next
      case (Some rn)
      obtain r n where rn: "rn = (r, n)" by (cases rn)
      with Some "2.prems" have r: "P r" "list_all P (runes (drop n s))"
        by (simp_all add: runes_def rune_of_chunk_def)
      with assms have "r < 128" by (auto simp: ascii_pred_def)
      with Some rn have "r = ord a" "n = 0" using utf8_tail_lead_ascii [of a s r n] by blast+
      moreover have "list_all (\<lambda>c. P (ord c)) (drop n s)"
        using "2.IH"(2) [OF Some rn [symmetric]] r(2) by blast
      ultimately show ?thesis using r(1) by simp
    qed
  qed
qed

section \<open>The package \<^verbatim>\<open>unicode\<close>\<close>

definition is_control_rune :: "rune \<Rightarrow> bool" where
  [go_defs]: "is_control_rune r \<longleftrightarrow> r < 32 \<or> (127 \<le> r \<and> r < 160)"

definition is_space_rune :: "rune \<Rightarrow> bool" where
  [go_defs]: "is_space_rune r \<longleftrightarrow>
     (9 \<le> r \<and> r \<le> 13) \<or> r = 32 \<or> r = 133 \<or> r = 160 \<or> r = 5760 \<or> (8192 \<le> r \<and> r \<le> 8202) \<or>
     r = 8232 \<or> r = 8233 \<or> r = 8239 \<or> r = 8287 \<or> r = 12288"

definition rune_lower :: "rune \<Rightarrow> rune" where
  [go_defs]: "rune_lower r =
     (if 65 \<le> r \<and> r \<le> 90 then r + 32 else if r = 304 then 105 else if r = 8490 then 107 else r)"

definition rune_upper :: "rune \<Rightarrow> rune" where
  [go_defs]: "rune_upper r =
     (if 97 \<le> r \<and> r \<le> 122 then r - 32 else if r = 305 then 73 else if r = 383 then 83 else r)"

text \<open>The representative of a rune under simple case folding, as \<^verbatim>\<open>strings.EqualFold\<close> uses it.\<close>

definition rune_fold :: "rune \<Rightarrow> rune" where
  [go_defs]: "rune_fold r =
     (if 65 \<le> r \<and> r \<le> 90 then r + 32 else if r = 383 then 115 else if r = 8490 then 107 else r)"

section \<open>The package \<^verbatim>\<open>strings\<close>\<close>

definition has_prefix :: "string \<Rightarrow> string \<Rightarrow> bool" where
  [go_defs]: "has_prefix s p \<longleftrightarrow> take (length p) s = p"

definition has_suffix :: "string \<Rightarrow> string \<Rightarrow> bool" where
  [go_defs]: "has_suffix s p \<longleftrightarrow> length p \<le> length s \<and> drop (length s - length p) s = p"

definition trim_prefix :: "string \<Rightarrow> string \<Rightarrow> string" where
  [go_defs]: "trim_prefix s p = (if has_prefix s p then drop (length p) s else s)"

definition trim_suffix :: "string \<Rightarrow> string \<Rightarrow> string" where
  [go_defs]: "trim_suffix s p = (if has_suffix s p then take (length s - length p) s else s)"

text \<open>\<^verbatim>\<open>strings.ContainsAny\<close> for a set of ASCII bytes, and \<^verbatim>\<open>strings.Contains\<close> for a one-byte string.\<close>

definition contains_any :: "string \<Rightarrow> string \<Rightarrow> bool" where
  [go_defs]: "contains_any s cs \<longleftrightarrow> list_ex (\<lambda>c. c \<in> set cs) s"

definition contains_byte :: "string \<Rightarrow> char \<Rightarrow> bool" where
  [go_defs]: "contains_byte s c \<longleftrightarrow> c \<in> set s"

definition count_byte :: "string \<Rightarrow> char \<Rightarrow> nat" where
  [go_defs]: "count_byte s c = count_list s c"

primrec index_byte :: "string \<Rightarrow> char \<Rightarrow> nat option" where
  "index_byte [] c = None"
| "index_byte (x # xs) c = (if x = c then Some 0 else map_option Suc (index_byte xs c))"

text \<open>\<^verbatim>\<open>strings.Cut\<close> at a one-byte separator: the part before, the part after, and whether it occurs.\<close>

definition cut :: "char \<Rightarrow> string \<Rightarrow> string \<times> string \<times> bool" where
  [go_defs]: "cut c s =
     (case dropWhile (\<lambda>x. x \<noteq> c) s of
        [] \<Rightarrow> (s, [], False)
      | _ # rest \<Rightarrow> (takeWhile (\<lambda>x. x \<noteq> c) s, rest, True))"

primrec split_byte :: "char \<Rightarrow> string \<Rightarrow> string list" where
  "split_byte c [] = [[]]"
| "split_byte c (x # xs) =
     (if x = c then [] # split_byte c xs
      else (case split_byte c xs of [] \<Rightarrow> [[x]] | w # ws \<Rightarrow> (x # w) # ws))"

text \<open>\<^verbatim>\<open>strings.SplitN\<close> with a positive limit.\<close>

fun splitn_byte :: "nat \<Rightarrow> char \<Rightarrow> string \<Rightarrow> string list" where
  "splitn_byte 0 c s = []"
| "splitn_byte (Suc 0) c s = [s]"
| "splitn_byte (Suc (Suc n)) c s =
     (case cut c s of (a, b, found) \<Rightarrow> if found then a # splitn_byte (Suc n) c b else [s])"

text \<open>\<^verbatim>\<open>strings.Split\<close> for a separator of several bytes; \<open>acc\<close> holds the current piece, reversed.\<close>

fun split_string_aux :: "string \<Rightarrow> string \<Rightarrow> string \<Rightarrow> nat \<Rightarrow> string list" where
  "split_string_aux sep acc [] skip = [rev acc]"
| "split_string_aux sep acc (x # xs) (Suc skip) = split_string_aux sep acc xs skip"
| "split_string_aux sep acc (x # xs) 0 =
     (if has_prefix (x # xs) sep
      then rev acc # split_string_aux sep [] xs (length sep - 1)
      else split_string_aux sep (x # acc) xs 0)"

definition split_string :: "string \<Rightarrow> string \<Rightarrow> string list" where
  [go_defs]: "split_string s sep = split_string_aux sep [] s 0"

fun join :: "string \<Rightarrow> string list \<Rightarrow> string" where
  "join sep [] = []"
| "join sep [w] = w"
| "join sep (w # v # ws) = w @ sep @ join sep (v # ws)"

definition map_runes :: "(rune \<Rightarrow> rune) \<Rightarrow> string \<Rightarrow> string" where
  [go_defs]: "map_runes f s = concat (map (encode_rune \<circ> f) (runes s))"

definition to_lower :: "string \<Rightarrow> string" where
  [go_defs]: "to_lower s =
     (if list_all is_ascii s then map ascii_lower_byte s else map_runes rune_lower s)"

definition to_upper :: "string \<Rightarrow> string" where
  [go_defs]: "to_upper s =
     (if list_all is_ascii s then map ascii_upper_byte s else map_runes rune_upper s)"

definition equal_fold :: "string \<Rightarrow> string \<Rightarrow> bool" where
  [go_defs]: "equal_fold s t \<longleftrightarrow> map rune_fold (runes s) = map rune_fold (runes t)"

definition space_chunk :: "rune option \<times> string \<Rightarrow> bool" where
  [go_defs]: "space_chunk ch \<longleftrightarrow> is_space_rune (rune_of_chunk ch)"

definition trim_space :: "string \<Rightarrow> string" where
  [go_defs]: "trim_space s =
     concat (map snd (rev (dropWhile space_chunk (rev (dropWhile space_chunk (utf8_chunks s))))))"

section \<open>The package \<^verbatim>\<open>strconv\<close>\<close>

fun itoa :: "nat \<Rightarrow> string" where
  "itoa n = (if n < 10 then [char_of (48 + n)] else itoa (n div 10) @ [char_of (48 + n mod 10)])"

declare itoa.simps [simp del]

text \<open>\<^verbatim>\<open>fmt.Sprint\<close> of a boolean.\<close>

definition sprint_bool :: "bool \<Rightarrow> string" where
  "sprint_bool b = (if b then ''true'' else ''false'')"

section \<open>Lemmas on the library model\<close>

lemma split_byte_nonempty [simp]: "split_byte c s \<noteq> []"
  by (cases s) (auto split: list.splits)

lemma join_Cons_nonempty: "ws \<noteq> [] \<Longrightarrow> join sep (w # ws) = w @ sep @ join sep ws"
  by (cases ws) auto

lemma join_consume: "join sep ((x # w) # ws) = x # join sep (w # ws)"
  by (cases ws) auto

lemma join_split_byte [simp]: "join [c] (split_byte c s) = s"
proof (induction s)
  case (Cons x s)
  obtain w ws where w: "split_byte c s = w # ws" by (cases "split_byte c s") auto
  with Cons show ?case by (auto simp: join_consume)
qed simp

lemma split_byte_no_sep: "w \<in> set (split_byte c s) \<Longrightarrow> c \<notin> set w"
  by (induction s arbitrary: w) (auto split: list.splits if_splits)

lemma split_byte_atom: "c \<notin> set w \<Longrightarrow> split_byte c w = [w]"
  by (induction w) auto

lemma split_byte_append: "c \<notin> set w \<Longrightarrow> split_byte c (w @ c # s) = w # split_byte c s"
  by (induction w) auto

lemma split_byte_join:
  "ws \<noteq> [] \<Longrightarrow> \<forall>w \<in> set ws. c \<notin> set w \<Longrightarrow> split_byte c (join [c] ws) = ws"
  by (induction "[c]" ws rule: join.induct) (auto simp: split_byte_atom split_byte_append)

lemma set_split_byte: "w \<in> set (split_byte c s) \<Longrightarrow> set w \<subseteq> set s"
  by (induction s arbitrary: w) (fastforce split: list.splits if_splits)+

lemma set_join_subset: "set (join sep ws) \<subseteq> set sep \<union> (\<Union>w \<in> set ws. set w)"
  by (induction sep ws rule: join.induct) auto

lemma set_join: "c \<in> set (join sep ws) \<Longrightarrow> c \<in> set sep \<or> (\<exists>w \<in> set ws. c \<in> set w)"
  using set_join_subset by fastforce

lemma index_byte_None: "index_byte s c = None \<longleftrightarrow> c \<notin> set s"
  by (induction s) auto

lemma index_byte_Some:
  "index_byte s c = Some i \<Longrightarrow>
     i < length s \<and> s ! i = c \<and> c \<notin> set (take i s) \<and> s = take i s @ c # drop (Suc i) s"
  by (induction s arbitrary: i) (auto split: if_splits)

lemma to_lower_ascii: "list_all is_ascii s \<Longrightarrow> to_lower s = map ascii_lower_byte s"
  by (simp add: to_lower_def)

lemma ascii_lower_id: "\<not> is_upper_byte c \<Longrightarrow> ascii_lower_byte c = c"
  by (simp add: ascii_lower_byte_def)

lemma to_lower_id:
  "list_all (\<lambda>c. is_ascii c \<and> \<not> is_upper_byte c) s \<Longrightarrow> to_lower s = s"
  by (simp add: to_lower_def list_all_iff ascii_lower_id map_idI)

lemma rune_fold_ascii: "is_ascii c \<Longrightarrow> rune_fold (ord c) = ord (ascii_lower_byte c)"
  by (simp add: rune_fold_def ord_ascii_lower is_upper_byte_iff is_ascii_def)

lemma map_ord_inject [simp]: "map ord s = map ord t \<longleftrightarrow> s = t"
  by (rule inj_map_eq_map) (simp add: inj_def)

lemma equal_fold_ascii:
  assumes "list_all is_ascii s" "list_all is_ascii t"
  shows "equal_fold s t \<longleftrightarrow> map ascii_lower_byte s = map ascii_lower_byte t"
proof -
  have "map rune_fold (runes u) = map ord (map ascii_lower_byte u)" if "list_all is_ascii u" for u
    using that by (auto simp: runes_ascii rune_fold_ascii list_all_iff)
  with assms show ?thesis by (simp add: equal_fold_def del: map_map)
qed

lemma trim_space_ascii [go_simps]:
  assumes "list_all is_ascii s"
  shows "trim_space s = rev (dropWhile (\<lambda>c. is_space_rune (ord c))
     (rev (dropWhile (\<lambda>c. is_space_rune (ord c)) s)))"
proof -
  let ?f = "\<lambda>c. (Some (ord c), [c])"
  have c: "space_chunk \<circ> ?f = (\<lambda>c. is_space_rune (ord c))"
    by (auto simp: space_chunk_def rune_of_chunk_def)
  have i: "concat (map (snd \<circ> ?f) xs) = xs" for xs by (induction xs) auto
  show ?thesis using assms c i by (simp add: trim_space_def utf8_chunks_ascii dropWhile_map rev_map)
qed

lemma all_dropWhile: "(\<forall>c \<in> set (dropWhile P s). P c) \<longleftrightarrow> (\<forall>c \<in> set s. P c)"
  by (induction s) auto

lemma trim_space_empty:
  "list_all is_ascii s \<Longrightarrow> trim_space s = [] \<longleftrightarrow> (\<forall>c \<in> set s. is_space_rune (ord c))"
  by (simp add: trim_space_ascii dropWhile_eq_Nil_conv all_dropWhile)

lemma split_byte_snoc: "split_byte c (s @ [c]) = split_byte c s @ [[]]"
  by (induction s) (auto split: list.splits)

subsection \<open>Decimal numbers\<close>

lemma itoa_digits: "list_all is_digit_byte (itoa n)"
proof (induction n rule: less_induct)
  case (less n)
  have d: "is_digit_byte (char_of (48 + k))" if "k < 10" for k :: nat
    using that by (simp add: is_digit_byte_iff)
  show ?case
  proof (cases "n < 10")
    case True
    then show ?thesis using d by (simp add: itoa.simps [of n])
  next
    case False
    then have "list_all is_digit_byte (itoa (n div 10))" by (intro less) simp
    then show ?thesis using False d [of "n mod 10"] by (simp add: itoa.simps [of n])
  qed
qed

lemma itoa_nonempty [simp]: "itoa n \<noteq> []"
  by (simp add: itoa.simps [of n])

definition atoi :: "string \<Rightarrow> nat" where
  "atoi s = foldl (\<lambda>v c. v * 10 + (ord c - 48)) 0 s"

lemma atoi_itoa: "atoi (itoa n) = n"
proof (induction n rule: less_induct)
  case (less n)
  show ?case
  proof (cases "n < 10")
    case True
    then show ?thesis by (simp add: itoa.simps [of n] atoi_def)
  next
    case False
    then have "atoi (itoa (n div 10)) = n div 10" by (intro less) simp
    then show ?thesis using False by (simp add: itoa.simps [of n] atoi_def)
  qed
qed

lemma itoa_inject: "itoa m = itoa n \<longleftrightarrow> m = n"
  using atoi_itoa by metis

end
