(* ===== verification/LRU_Cache.thy ===== *)
theory LRU_Cache
  imports Kordn_Prelude "HOL-Library.Word"
begin

text \<open>
  The bounded least-recently-used cache of \<^verbatim>\<open>src/internal/cache/lru.go\<close>. The Go structure is a map
  from keys to elements of a doubly linked list; here an element is an address (a natural number),
  \<open>lru_items\<close> maps a key to its element and \<open>lru_order\<close> is the list from front to back, each element
  with the entry it holds. The invariant \<open>lru_inv\<close> ties the two together; \<open>lru_abs\<close> forgets the
  addresses and leaves the entries in order of recency, and the refinement lemmas say what each
  operation does to that list. The counters are 64-bit and wrap. Every method takes the mutex for
  its whole body, so a method is one atomic step on the state; a nil receiver is \<^const>\<open>None\<close>.

  The locale \<open>result_cache\<close> is what the clients of a cache rely on; \<open>lru\<close> interprets it.
\<close>

section \<open>State\<close>

record ('k, 'v) LRU =
  lru_capacity :: int
  lru_items :: "'k \<rightharpoonup> nat"
  lru_order :: "(nat \<times> ('k \<times> 'v)) list"
  lru_next :: nat
  lru_hits :: "64 word"
  lru_misses :: "64 word"
  lru_evictions :: "64 word"

record Stats =
  Hits :: "64 word"
  Misses :: "64 word"
  Evictions :: "64 word"
  Size :: int
  Capacity :: int

text \<open>The operations of \<^verbatim>\<open>container/list\<close> the cache uses.\<close>

definition list_move_to_front :: "nat \<Rightarrow> (nat \<times> 'e) list \<Rightarrow> (nat \<times> 'e) list" where
  "list_move_to_front i xs = filter (\<lambda>e. fst e = i) xs @ filter (\<lambda>e. fst e \<noteq> i) xs"

definition list_set :: "nat \<Rightarrow> 'e \<Rightarrow> (nat \<times> 'e) list \<Rightarrow> (nat \<times> 'e) list" where
  "list_set i x xs = map (\<lambda>e. if fst e = i then (i, x) else e) xs"

definition list_remove :: "nat \<Rightarrow> (nat \<times> 'e) list \<Rightarrow> (nat \<times> 'e) list" where
  "list_remove i xs = filter (\<lambda>e. fst e \<noteq> i) xs"

section \<open>Operations\<close>

definition NewLRU :: "int \<Rightarrow> ('k, 'v) LRU go_result" where
  "NewLRU capacity =
     (if capacity \<le> 0 then Inl ''cache capacity must be positive''
      else Inr \<lparr>lru_capacity = capacity, lru_items = Map.empty, lru_order = [], lru_next = 0,
                lru_hits = 0, lru_misses = 0, lru_evictions = 0\<rparr>)"

text \<open>A panic is \<^const>\<open>None\<close>.\<close>

definition MustNewLRU :: "int \<Rightarrow> ('k, 'v) LRU option" where
  "MustNewLRU capacity = (case NewLRU capacity of Inl _ \<Rightarrow> None | Inr c \<Rightarrow> Some c)"

definition LRU_Get :: "('k, 'v) LRU option \<Rightarrow> 'k \<Rightarrow> 'v option \<times> ('k, 'v) LRU option" where
  "LRU_Get cache key =
     (case cache of
        None \<Rightarrow> (None, None)
      | Some c \<Rightarrow>
          (case lru_items c key of
             None \<Rightarrow> (None, Some (c\<lparr>lru_misses := lru_misses c + 1\<rparr>))
           | Some item \<Rightarrow>
               (map_option snd (map_of (lru_order c) item),
                Some (c\<lparr>lru_hits := lru_hits c + 1,
                        lru_order := list_move_to_front item (lru_order c)\<rparr>))))"

definition LRU_Add ::
  "('k, 'v) LRU option \<Rightarrow> 'k \<Rightarrow> 'v \<Rightarrow> (bool \<times> bool) \<times> ('k, 'v) LRU option" where
  "LRU_Add cache key val =
     (case cache of
        None \<Rightarrow> ((False, False), None)
      | Some c \<Rightarrow>
          (case lru_items c key of
             Some item \<Rightarrow>
               ((True, False),
                Some (c\<lparr>lru_order :=
                        list_move_to_front item (list_set item (key, val) (lru_order c))\<rparr>))
           | None \<Rightarrow>
               (let item = lru_next c;
                    c1 = c\<lparr>lru_order := (item, (key, val)) # lru_order c,
                          lru_items := (lru_items c)(key \<mapsto> item), lru_next := Suc item\<rparr> in
                if int (length (lru_order c1)) \<le> lru_capacity c1 then ((False, False), Some c1)
                else
                  (let oldest = last (lru_order c1); old = fst (snd oldest) in
                   ((False, True),
                    Some (c1\<lparr>lru_items := (lru_items c1)(old := None),
                            lru_order := list_remove (fst oldest) (lru_order c1),
                            lru_evictions := lru_evictions c1 + 1\<rparr>))))))"

definition LRU_Put :: "('k, 'v) LRU option \<Rightarrow> 'k \<Rightarrow> 'v \<Rightarrow> ('k, 'v) LRU option" where
  "LRU_Put cache key val = snd (LRU_Add cache key val)"

definition LRU_Remove :: "('k, 'v) LRU option \<Rightarrow> 'k \<Rightarrow> bool \<times> ('k, 'v) LRU option" where
  "LRU_Remove cache key =
     (case cache of
        None \<Rightarrow> (False, None)
      | Some c \<Rightarrow>
          (case lru_items c key of
             None \<Rightarrow> (False, Some c)
           | Some item \<Rightarrow>
               (True, Some (c\<lparr>lru_items := (lru_items c)(key := None),
                              lru_order := list_remove item (lru_order c)\<rparr>))))"

definition LRU_Len :: "('k, 'v) LRU option \<Rightarrow> int" where
  "LRU_Len cache = (case cache of None \<Rightarrow> 0 | Some c \<Rightarrow> int (card (dom (lru_items c))))"

definition LRU_Capacity :: "('k, 'v) LRU option \<Rightarrow> int" where
  "LRU_Capacity cache = (case cache of None \<Rightarrow> 0 | Some c \<Rightarrow> lru_capacity c)"

definition LRU_Stats :: "('k, 'v) LRU option \<Rightarrow> Stats" where
  "LRU_Stats cache =
     (case cache of
        None \<Rightarrow> \<lparr>Hits = 0, Misses = 0, Evictions = 0, Size = 0, Capacity = 0\<rparr>
      | Some c \<Rightarrow> \<lparr>Hits = lru_hits c, Misses = lru_misses c, Evictions = lru_evictions c,
                   Size = int (card (dom (lru_items c))), Capacity = lru_capacity c\<rparr>)"

definition LRU_Clear :: "('k, 'v) LRU option \<Rightarrow> ('k, 'v) LRU option" where
  "LRU_Clear cache = map_option (\<lambda>c. c\<lparr>lru_items := Map.empty, lru_order := []\<rparr>) cache"

definition LRU_Snapshot :: "('k, 'v) LRU option \<Rightarrow> 'v list" where
  "LRU_Snapshot cache =
     (case cache of None \<Rightarrow> [] | Some c \<Rightarrow> map (\<lambda>e. snd (snd e)) (lru_order c))"

section \<open>Invariant and abstraction\<close>

text \<open>
  The map and the list describe the same entries: the map sends a key to an element exactly when the
  list has that element with an entry of that key; elements and keys are pairwise different, every
  element is allocated, and the list is within the capacity.
\<close>

definition lru_linked :: "('k, 'v) LRU \<Rightarrow> bool" where
  "lru_linked c \<longleftrightarrow>
     distinct (map fst (lru_order c)) \<and>
     distinct (map (fst \<circ> snd) (lru_order c)) \<and>
     (\<forall>e \<in> set (lru_order c). fst e < lru_next c) \<and>
     (\<forall>k i. lru_items c k = Some i \<longleftrightarrow> (\<exists>v. (i, (k, v)) \<in> set (lru_order c)))"

definition lru_inv :: "('k, 'v) LRU \<Rightarrow> bool" where
  "lru_inv c \<longleftrightarrow>
     0 < lru_capacity c \<and> int (length (lru_order c)) \<le> lru_capacity c \<and> lru_linked c"

definition cache_inv :: "('k, 'v) LRU option \<Rightarrow> bool" where
  "cache_inv cache \<longleftrightarrow> (\<exists>c. cache = Some c \<and> lru_inv c)"

definition lru_abs :: "('k, 'v) LRU \<Rightarrow> ('k \<times> 'v) list" where
  "lru_abs c = map snd (lru_order c)"

text \<open>The abstract cache: the entries, most recently used first, and what the operations do to them.\<close>

definition touch :: "'k \<Rightarrow> ('k \<times> 'v) list \<Rightarrow> ('k \<times> 'v) list" where
  "touch k xs =
     (case map_of xs k of None \<Rightarrow> xs | Some v \<Rightarrow> (k, v) # filter (\<lambda>e. fst e \<noteq> k) xs)"

definition insert_front :: "nat \<Rightarrow> 'k \<Rightarrow> 'v \<Rightarrow> ('k \<times> 'v) list \<Rightarrow> ('k \<times> 'v) list" where
  "insert_front cap k v xs = take cap ((k, v) # filter (\<lambda>e. fst e \<noteq> k) xs)"

lemma lru_linkedD:
  assumes "lru_linked c"
  shows "distinct (map fst (lru_order c))" "distinct (map (fst \<circ> snd) (lru_order c))"
    "e \<in> set (lru_order c) \<Longrightarrow> fst e < lru_next c"
    "lru_items c k = Some i \<longleftrightarrow> (\<exists>v. (i, (k, v)) \<in> set (lru_order c))"
  using assms by (auto simp: lru_linked_def)

lemma lru_inv_linked [simp]: "lru_inv c \<Longrightarrow> lru_linked c"
  by (simp add: lru_inv_def)

lemma lru_items_None:
  assumes "lru_linked c"
  shows "lru_items c k = None \<longleftrightarrow> k \<notin> fst ` set (lru_abs c)"
proof -
  have "(\<exists>i. lru_items c k = Some i) \<longleftrightarrow> k \<in> fst ` set (lru_abs c)"
    unfolding lru_linkedD(4) [OF assms] by (force simp: lru_abs_def)
  then show ?thesis by auto
qed

lemma distinct_abs: "lru_linked c \<Longrightarrow> distinct (map fst (lru_abs c))"
  using lru_linkedD(2) [of c] by (simp add: lru_abs_def)

lemma linked_unique:
  assumes "lru_linked c" "a \<in> set (lru_order c)" "b \<in> set (lru_order c)"
  shows "fst a = fst b \<Longrightarrow> a = b" "fst (snd a) = fst (snd b) \<Longrightarrow> a = b"
  using lru_linkedD(1,2) [OF assms(1)] assms(2,3) by (auto simp: distinct_map inj_on_def)

lemma item_entry:
  assumes "lru_linked c" "lru_items c k = Some i"
  obtains v where "(i, (k, v)) \<in> set (lru_order c)"
  using assms lru_linkedD(4) by metis

lemma map_of_abs:
  assumes "lru_linked c" "lru_items c k = Some i"
  shows "map_option snd (map_of (lru_order c) i) = map_of (lru_abs c) k"
proof -
  obtain v where v: "(i, (k, v)) \<in> set (lru_order c)" using item_entry [OF assms] .
  with assms(1) have "map_of (lru_order c) i = Some (k, v)" by (simp add: lru_linkedD(1))
  moreover have "map_of (lru_abs c) k = Some v"
    using v distinct_abs [OF assms(1)] by (force simp: lru_abs_def)
  ultimately show ?thesis by simp
qed

lemma item_iff_key:
  assumes "lru_linked c" "lru_items c k = Some i" "e \<in> set (lru_order c)"
  shows "fst e = i \<longleftrightarrow> fst (snd e) = k"
proof -
  obtain v where v: "(i, (k, v)) \<in> set (lru_order c)" using item_entry [OF assms(1,2)] .
  then show ?thesis using linked_unique [OF assms(1,3) v] by (metis fst_conv snd_conv)
qed

lemma filter_key_single:
  "distinct (map fst xs) \<Longrightarrow> (k, v) \<in> set xs \<Longrightarrow> filter (\<lambda>e. fst e = k) xs = [(k, v)]"
  by (induction xs) (force simp: filter_empty_conv)+

lemma abs_filter_item:
  assumes "lru_linked c" "lru_items c k = Some i"
  shows "map snd (filter (\<lambda>e. fst e = i) (lru_order c)) = filter (\<lambda>e. fst e = k) (lru_abs c)"
    "map snd (filter (\<lambda>e. fst e \<noteq> i) (lru_order c)) = filter (\<lambda>e. fst e \<noteq> k) (lru_abs c)"
  unfolding lru_abs_def filter_map comp_def
  using item_iff_key [OF assms] by (auto intro!: arg_cong [where f = "map snd"] filter_cong)

subsection \<open>The list operations keep the links\<close>

lemma mset_move_to_front [simp]: "mset (list_move_to_front i xs) = mset xs"
  by (simp add: list_move_to_front_def)

lemma set_move_to_front [simp]: "set (list_move_to_front i xs) = set xs"
  by (rule mset_eq_setD) simp

lemma length_move_to_front [simp]: "length (list_move_to_front i xs) = length xs"
  by (rule mset_eq_length) simp

lemma distinct_move_to_front [simp]:
  "distinct (map f (list_move_to_front i xs)) = distinct (map f xs)"
  by (rule mset_eq_imp_distinct_iff) simp

lemma linked_move_to_front:
  "lru_linked c \<Longrightarrow> lru_linked (c\<lparr>lru_order := list_move_to_front i (lru_order c)\<rparr>)"
  by (simp add: lru_linked_def)

lemma set_list_set:
  assumes "lru_linked c" "lru_items c k = Some i"
  shows "(j, (k', v')) \<in> set (list_set i (k, v) (lru_order c)) \<longleftrightarrow>
     (if j = i then k' = k \<and> v' = v else (j, (k', v')) \<in> set (lru_order c))"
proof -
  obtain w where "(i, (k, w)) \<in> set (lru_order c)" using item_entry [OF assms] .
  then show ?thesis by (force simp: list_set_def)
qed

lemma linked_list_set:
  assumes "lru_linked c" "lru_items c k = Some i"
  shows "lru_linked (c\<lparr>lru_order := list_set i (k, v) (lru_order c)\<rparr>)"
proof -
  have ids: "map fst (list_set i (k, v) (lru_order c)) = map fst (lru_order c)"
    by (simp add: list_set_def)
  have keys: "map (fst \<circ> snd) (list_set i (k, v) (lru_order c)) = map (fst \<circ> snd) (lru_order c)"
    using item_iff_key [OF assms] by (simp add: list_set_def)
  have items: "lru_items c k' = Some j \<longleftrightarrow>
      (\<exists>v'. (j, (k', v')) \<in> set (list_set i (k, v) (lru_order c)))" for k' j
    using item_iff_key [OF assms] lru_linkedD(4) [OF assms(1)] assms(2)
    by (auto simp: set_list_set [OF assms]) (metis fst_conv snd_conv)+
  have "fst e < lru_next c" if "e \<in> set (list_set i (k, v) (lru_order c))" for e
  proof -
    from that have "fst e \<in> fst ` set (lru_order c)" using arg_cong [OF ids, of set] by force
    then show ?thesis using lru_linkedD(3) [OF assms(1)] by auto
  qed
  with assms(1) ids keys items show ?thesis by (simp add: lru_linked_def)
qed

lemma linked_push_front:
  assumes "lru_linked c" "lru_items c k = None"
  shows "lru_linked (c\<lparr>lru_order := (lru_next c, (k, v)) # lru_order c,
           lru_items := (lru_items c)(k \<mapsto> lru_next c), lru_next := Suc (lru_next c)\<rparr>)"
proof -
  have fresh: "lru_next c \<notin> fst ` set (lru_order c)" using lru_linkedD(3) [OF assms(1)] by force
  have new: "k \<notin> (fst \<circ> snd) ` set (lru_order c)"
    using assms lru_items_None by (force simp: lru_abs_def image_comp)
  show ?thesis
    using assms fresh new by (auto simp: lru_linked_def less_Suc_eq image_iff; force)
qed

lemma linked_remove:
  assumes "lru_linked c" "e \<in> set (lru_order c)"
  shows "lru_linked (c\<lparr>lru_items := (lru_items c)(fst (snd e) := None),
           lru_order := list_remove (fst e) (lru_order c)\<rparr>)"
proof -
  let ?o = "list_remove (fst e) (lru_order c)"
  have same: "fst a = fst e \<longleftrightarrow> fst (snd a) = fst (snd e)" if "a \<in> set (lru_order c)" for a
    using linked_unique [OF assms(1) that assms(2)] by auto
  have mem: "a \<in> set ?o \<longleftrightarrow> a \<in> set (lru_order c) \<and> fst (snd a) \<noteq> fst (snd e)" for a
    using same [of a] by (auto simp: list_remove_def)
  have "((lru_items c)(fst (snd e) := None)) k = Some i \<longleftrightarrow> (\<exists>v. (i, (k, v)) \<in> set ?o)" for k i
    using lru_linkedD(4) [OF assms(1), of k i] by (auto simp: mem)
  moreover have "distinct (map fst ?o)" "distinct (map (fst \<circ> snd) ?o)"
    using lru_linkedD(1,2) [OF assms(1)] by (simp_all add: list_remove_def distinct_map_filter)
  ultimately show ?thesis
    using lru_linkedD(3) [OF assms(1)] by (simp add: lru_linked_def mem)
qed

subsection \<open>Every operation keeps the invariant\<close>

lemma NewLRU_inv: "NewLRU cap = Inr c \<Longrightarrow> lru_inv c \<and> lru_abs c = [] \<and> lru_capacity c = cap"
  by (auto simp: NewLRU_def lru_inv_def lru_linked_def lru_abs_def split: if_splits)

lemma linked_more [simp]:
  "lru_linked (c\<lparr>lru_hits := h\<rparr>) = lru_linked c" "lru_linked (c\<lparr>lru_misses := m\<rparr>) = lru_linked c"
  "lru_linked (c\<lparr>lru_evictions := e\<rparr>) = lru_linked c"
  by (simp_all add: lru_linked_def)

lemma LRU_Get_refines:
  assumes "lru_inv c" "LRU_Get (Some c) k = (r, Some c')"
  shows "lru_inv c' \<and> lru_capacity c' = lru_capacity c \<and>
     r = map_of (lru_abs c) k \<and> lru_abs c' = touch k (lru_abs c)"
proof (cases "lru_items c k")
  case None
  moreover from None have "map_of (lru_abs c) k = None"
    using assms(1) lru_items_None [of c k] by (simp add: map_of_eq_None_iff)
  ultimately show ?thesis
    using assms by (auto simp: LRU_Get_def lru_inv_def touch_def lru_abs_def)
next
  case (Some i)
  note ln = lru_inv_linked [OF assms(1)]
  obtain v where v: "(i, (k, v)) \<in> set (lru_order c)" using item_entry [OF ln Some] .
  then have kv: "(k, v) \<in> set (lru_abs c)" by (force simp: lru_abs_def)
  have mv: "map_of (lru_abs c) k = Some v" using kv distinct_abs [OF ln] by simp
  have r: "r = Some v" and c': "c' = c\<lparr>lru_hits := lru_hits c + 1,
      lru_order := list_move_to_front i (lru_order c)\<rparr>"
    using assms(2) Some map_of_abs [OF ln Some] mv by (auto simp: LRU_Get_def)
  have "lru_abs c' = touch k (lru_abs c)"
    using filter_key_single [OF distinct_abs [OF ln] kv] mv abs_filter_item [OF ln Some]
    by (simp add: c' lru_abs_def [of "lru_order_update _ _"] list_move_to_front_def touch_def)
  moreover have "lru_inv c'"
    using assms(1) linked_move_to_front [OF ln, of i] by (simp add: c' lru_inv_def lru_linked_def)
  ultimately show ?thesis by (simp add: c' r mv)
qed

lemma remove_last_front:
  "distinct (map fst (x # xs)) \<Longrightarrow> xs \<noteq> [] \<Longrightarrow> list_remove (fst (last xs)) (x # xs) = x # butlast xs"
proof -
  assume d: "distinct (map fst (x # xs))" "xs \<noteq> []"
  have "list_remove (fst (last xs)) (butlast (x # xs) @ [last xs]) = butlast (x # xs)"
    using d by (cases xs rule: rev_cases) (force simp: list_remove_def filter_id_conv)+
  with d show ?thesis by simp
qed

lemma filter_list_set:
  "filter (\<lambda>e. fst e \<noteq> i) (list_set i x xs) = filter (\<lambda>e. fst e \<noteq> i) xs"
  by (induction xs) (auto simp: list_set_def)

lemma LRU_Add_existing:
  assumes "lru_inv c" "lru_items c k = Some i" "LRU_Add (Some c) k v = ((replaced, evicted), Some c')"
  shows "lru_inv c' \<and> lru_capacity c' = lru_capacity c \<and> replaced \<and> \<not> evicted \<and>
     lru_abs c' = insert_front (nat (lru_capacity c)) k v (lru_abs c)"
proof -
  note Some = assms(2) and ln = lru_inv_linked [OF assms(1)]
  let ?o = "list_set i (k, v) (lru_order c)"
  have c': "c' = c\<lparr>lru_order := list_move_to_front i ?o\<rparr>" and r: "replaced" "\<not> evicted"
    using assms(2,3) by (auto simp: LRU_Add_def)
  have ln2: "lru_linked (c\<lparr>lru_order := ?o\<rparr>)" by (rule linked_list_set [OF ln Some])
  have it: "lru_items (c\<lparr>lru_order := ?o\<rparr>) k = Some i" using Some by simp
  have "(i, (k, v)) \<in> set ?o" using set_list_set [OF ln Some, of i k v v] by simp
  then have kv: "(k, v) \<in> set (lru_abs (c\<lparr>lru_order := ?o\<rparr>))" by (force simp: lru_abs_def)
  have others: "filter (\<lambda>e. fst e \<noteq> i) ?o = filter (\<lambda>e. fst e \<noteq> i) (lru_order c)"
    by (rule filter_list_set)
  have len: "length (filter (\<lambda>e. fst e \<noteq> k) (lru_abs c)) < length (lru_abs c)"
  proof -
    obtain w where "(i, (k, w)) \<in> set (lru_order c)" using item_entry [OF ln Some] .
    then have "(k, w) \<in> set (lru_abs c)" by (force simp: lru_abs_def)
    then show ?thesis by (rule length_filter_less) simp
  qed
  have "lru_abs c' = map snd (filter (\<lambda>e. fst e = i) ?o) @ map snd (filter (\<lambda>e. fst e \<noteq> i) ?o)"
    by (simp add: c' lru_abs_def list_move_to_front_def)
  also have "\<dots> = (k, v) # filter (\<lambda>e. fst e \<noteq> k) (lru_abs c)"
    using filter_key_single [OF distinct_abs [OF ln2] kv] abs_filter_item(1) [OF ln2 it] others
      abs_filter_item(2) [OF ln Some] by simp
  also have "\<dots> = insert_front (nat (lru_capacity c)) k v (lru_abs c)"
  proof -
    have "length (lru_abs c) \<le> nat (lru_capacity c)"
      using assms(1) by (simp add: lru_inv_def lru_abs_def le_nat_iff)
    with len show ?thesis by (simp add: insert_front_def)
  qed
  finally have abs: "lru_abs c' = insert_front (nat (lru_capacity c)) k v (lru_abs c)" .
  have "lru_inv c'"
    using assms(1) linked_move_to_front [OF ln2, of i]
    by (simp add: c' lru_inv_def list_set_def [of i "(k, v)"])
  with abs r show ?thesis by (simp add: c')
qed

lemma LRU_Add_new:
  assumes "lru_inv c" "lru_items c k = None" "LRU_Add (Some c) k v = ((replaced, evicted), Some c')"
  shows "lru_inv c' \<and> lru_capacity c' = lru_capacity c \<and> \<not> replaced \<and>
     evicted = (int (length (lru_abs c)) = lru_capacity c) \<and>
     lru_abs c' = insert_front (nat (lru_capacity c)) k v (lru_abs c)"
proof -
  note ln = lru_inv_linked [OF assms(1)]
  let ?c1 = "c\<lparr>lru_order := (lru_next c, (k, v)) # lru_order c,
               lru_items := (lru_items c)(k \<mapsto> lru_next c), lru_next := Suc (lru_next c)\<rparr>"
  have ln1: "lru_linked ?c1" by (rule linked_push_front [OF ln assms(2)])
  have bound: "0 < lru_capacity c" "int (length (lru_order c)) \<le> lru_capacity c"
    using assms(1) by (auto simp: lru_inv_def)
  have new: "filter (\<lambda>e. fst e \<noteq> k) (lru_abs c) = lru_abs c"
    using lru_items_None [OF ln, of k] assms(2) by (auto simp: filter_id_conv)
  show ?thesis
  proof (cases "int (length (lru_order c)) < lru_capacity c")
    case True
    then have "c' = ?c1" "\<not> replaced" "\<not> evicted"
      using assms(2,3) by (auto simp: LRU_Add_def Let_def)
    then show ?thesis
      using True ln1 new bound by (simp add: lru_inv_def lru_abs_def insert_front_def)
  next
    case False
    with bound have full: "int (length (lru_order c)) = lru_capacity c" and ne: "lru_order c \<noteq> []"
      by auto
    let ?e = "last (lru_order c)"
    have rem: "list_remove (fst ?e) (lru_order ?c1) = (lru_next c, (k, v)) # butlast (lru_order c)"
      using remove_last_front [OF _ ne] lru_linkedD(1) [OF ln1] by simp
    have c': "c' = ?c1\<lparr>lru_items := (lru_items ?c1)(fst (snd ?e) := None),
        lru_order := list_remove (fst ?e) (lru_order ?c1),
        lru_evictions := lru_evictions c + 1\<rparr>" and r: "\<not> replaced" "evicted"
      using assms(2,3) full ne by (auto simp: LRU_Add_def Let_def)
    have "lru_linked c'"
      using linked_remove [OF ln1, of ?e] ne by (simp add: c')
    moreover have "lru_abs c' = insert_front (nat (lru_capacity c)) k v (lru_abs c)"
    proof -
      obtain n where n: "nat (lru_capacity c) = Suc n" using bound(1) by (cases "nat (lru_capacity c)") auto
      with full have "length (lru_order c) - 1 = n" by linarith
      then have "butlast (lru_order c) = take n (lru_order c)" by (simp add: butlast_conv_take)
      then show ?thesis
        unfolding insert_front_def new n using rem by (simp add: c' lru_abs_def take_map)
    qed
    ultimately show ?thesis
      using full bound r rem by (simp add: lru_inv_def c' lru_abs_def)
  qed
qed

lemma LRU_Add_refines:
  assumes "lru_inv c" "LRU_Add (Some c) k v = ((replaced, evicted), Some c')"
  shows "lru_inv c' \<and> lru_capacity c' = lru_capacity c \<and>
     replaced = (k \<in> fst ` set (lru_abs c)) \<and>
     evicted = (k \<notin> fst ` set (lru_abs c) \<and> int (length (lru_abs c)) = lru_capacity c) \<and>
     lru_abs c' = insert_front (nat (lru_capacity c)) k v (lru_abs c)"
proof (cases "lru_items c k")
  case None
  with LRU_Add_new [OF assms(1) None assms(2)] show ?thesis
    using lru_items_None [of c k] assms(1) by auto
next
  case (Some i)
  with LRU_Add_existing [OF assms(1) Some assms(2)] show ?thesis
    using lru_items_None [of c k] assms(1) by auto
qed

lemma LRU_Remove_refines:
  assumes "lru_inv c" "LRU_Remove (Some c) k = (present, Some c')"
  shows "lru_inv c' \<and> lru_capacity c' = lru_capacity c \<and>
     present = (k \<in> fst ` set (lru_abs c)) \<and>
     lru_abs c' = filter (\<lambda>e. fst e \<noteq> k) (lru_abs c)"
proof (cases "lru_items c k")
  case None
  then have absent: "k \<notin> fst ` set (lru_abs c)" using assms(1) lru_items_None [of c k] by simp
  then have "filter (\<lambda>e. fst e \<noteq> k) (lru_abs c) = lru_abs c" by (force simp: filter_id_conv)
  with None assms absent show ?thesis by (simp add: LRU_Remove_def)
next
  case (Some i)
  note ln = lru_inv_linked [OF assms(1)]
  obtain v where v: "(i, (k, v)) \<in> set (lru_order c)" using item_entry [OF ln Some] .
  have c': "present" "c' = c\<lparr>lru_items := (lru_items c)(k := None),
      lru_order := list_remove i (lru_order c)\<rparr>"
    using assms(2) Some by (auto simp: LRU_Remove_def)
  have "length (list_remove i (lru_order c)) \<le> length (lru_order c)"
    by (simp add: list_remove_def)
  then have "lru_inv c'"
    using linked_remove [OF ln v] assms(1) by (simp add: c' lru_inv_def)
  moreover have "k \<in> fst ` set (lru_abs c)" using Some lru_items_None [OF ln, of k] by auto
  moreover have "lru_abs c' = filter (\<lambda>e. fst e \<noteq> k) (lru_abs c)"
    using abs_filter_item(2) [OF ln Some]
    by (simp add: c' lru_abs_def [of "lru_order_update _ _"] list_remove_def)
  ultimately show ?thesis using c' by simp
qed

lemma LRU_Clear_refines:
  "lru_inv c \<Longrightarrow> LRU_Clear (Some c) = Some c' \<Longrightarrow>
     lru_inv c' \<and> lru_capacity c' = lru_capacity c \<and> lru_abs c' = []"
  by (auto simp: LRU_Clear_def lru_inv_def lru_linked_def lru_abs_def)

lemma LRU_Len_abs: "lru_inv c \<Longrightarrow> LRU_Len (Some c) = int (length (lru_abs c))"
proof -
  assume inv: "lru_inv c"
  have "dom (lru_items c) = fst ` set (lru_abs c)"
    using lru_items_None [of c] inv by (auto simp: dom_def; metis image_eqI not_None_eq fst_conv option.exhaust)
  then show ?thesis
    using distinct_card [OF distinct_abs, of c] inv by (simp add: LRU_Len_def)
qed

section \<open>The interface the clients of a cache rely on\<close>

text \<open>
  A cache may drop entries but never invents or changes one: what a lookup returns was added under
  that very key, and adding an entry leaves the others as they were or drops them.
\<close>

locale result_cache =
  fixes get :: "'c \<Rightarrow> 'k \<Rightarrow> 'v option \<times> 'c"
    and add :: "'c \<Rightarrow> 'k \<Rightarrow> 'v \<Rightarrow> 'c"
    and invar :: "'c \<Rightarrow> bool"
    and content :: "'c \<Rightarrow> 'k \<rightharpoonup> 'v"
  assumes get_value: "invar c \<Longrightarrow> fst (get c k) = content c k"
    and get_content: "invar c \<Longrightarrow> content (snd (get c k)) = content c"
    and get_invar: "invar c \<Longrightarrow> invar (snd (get c k))"
    and add_content: "invar c \<Longrightarrow> content (add c k v) \<subseteq>\<^sub>m (content c)(k \<mapsto> v)"
    and add_invar: "invar c \<Longrightarrow> invar (add c k v)"
begin

text \<open>All entries agree with the relation \<open>P\<close> between keys and values.\<close>

definition agrees :: "('k \<Rightarrow> 'v \<Rightarrow> bool) \<Rightarrow> 'c \<Rightarrow> bool" where
  "agrees P c \<longleftrightarrow> invar c \<and> (\<forall>k v. content c k = Some v \<longrightarrow> P k v)"

lemma agrees_get: "agrees P c \<Longrightarrow> agrees P (snd (get c k))"
  by (simp add: agrees_def get_content get_invar)

lemma agrees_hit: "agrees P c \<Longrightarrow> fst (get c k) = Some v \<Longrightarrow> P k v"
  by (simp add: agrees_def get_value)

lemma agrees_add: "agrees P c \<Longrightarrow> P k v \<Longrightarrow> agrees P (add c k v)"
proof -
  assume c: "agrees P c" and p: "P k v"
  have "P k' v'" if "content (add c k v) k' = Some v'" for k' v'
  proof -
    have "((content c)(k \<mapsto> v)) k' = Some v'"
      using that add_content [of c k v] c by (auto simp: agrees_def map_le_def dom_def)
    with c p show ?thesis by (auto simp: agrees_def split: if_splits)
  qed
  with c show ?thesis by (simp add: agrees_def add_invar)
qed

end

definition lru_content :: "('k, 'v) LRU option \<Rightarrow> 'k \<rightharpoonup> 'v" where
  "lru_content cache = (case cache of None \<Rightarrow> Map.empty | Some c \<Rightarrow> map_of (lru_abs c))"

lemma map_of_filter_key:
  "map_of (filter (\<lambda>e. fst e \<noteq> k) xs) j = (if j = k then None else map_of xs j)"
  by (induction xs) auto

lemma map_of_touch: "map_of (touch k xs) = map_of xs"
  by (auto simp: touch_def map_of_filter_key split: option.splits)

lemma map_of_take: "map_of (take n xs) j = Some v \<Longrightarrow> map_of xs j = Some v"
  by (induction xs arbitrary: n) (auto simp: take_Cons split: nat.splits if_splits)

lemma map_of_insert_front: "map_of (insert_front n k v xs) \<subseteq>\<^sub>m (map_of xs)(k \<mapsto> v)"
proof -
  have "((map_of xs)(k \<mapsto> v)) j = Some w" if "map_of (insert_front n k v xs) j = Some w" for j w
    using map_of_take [OF that [unfolded insert_front_def]]
    by (auto simp: map_of_filter_key split: if_splits)
  then show ?thesis unfolding map_le_def by (metis domD)
qed

lemma cache_inv_cases:
  assumes "cache_inv cache"
  obtains c where "cache = Some c" "lru_inv c"
  using assms by (auto simp: cache_inv_def)

lemma LRU_Get_content:
  assumes "cache_inv cache"
  shows "fst (LRU_Get cache k) = lru_content cache k \<and> cache_inv (snd (LRU_Get cache k)) \<and>
     lru_content (snd (LRU_Get cache k)) = lru_content cache"
proof -
  obtain c where c: "cache = Some c" "lru_inv c" using assms by (rule cache_inv_cases)
  then obtain r c' where g: "LRU_Get (Some c) k = (r, Some c')"
    by (cases "lru_items c k") (auto simp: LRU_Get_def)
  from LRU_Get_refines [OF c(2) g] show ?thesis
    by (simp add: c(1) g lru_content_def cache_inv_def map_of_touch)
qed

lemma LRU_Put_content:
  assumes "cache_inv cache"
  shows "cache_inv (LRU_Put cache k v) \<and>
     lru_content (LRU_Put cache k v) \<subseteq>\<^sub>m (lru_content cache)(k \<mapsto> v)"
proof -
  obtain c where c: "cache = Some c" "lru_inv c" using assms by (rule cache_inv_cases)
  have "snd (LRU_Add (Some c) k v) \<noteq> None"
    by (simp add: LRU_Add_def Let_def split: option.split)
  then obtain a b c' where g: "LRU_Add (Some c) k v = ((a, b), Some c')"
    by (metis not_None_eq prod.collapse)
  from LRU_Add_refines [OF c(2) g] show ?thesis
    by (simp add: c(1) g LRU_Put_def lru_content_def cache_inv_def map_of_insert_front)
qed

interpretation lru: result_cache LRU_Get LRU_Put cache_inv lru_content
  by unfold_locales (simp_all add: LRU_Get_content LRU_Put_content)

section \<open>Runs\<close>

text \<open>
  The operations as the steps of a run: the mutex makes every interleaving of callers a sequence of
  whole operations.
\<close>

datatype ('k, 'v) lru_op = OpGet 'k | OpAdd 'k 'v | OpRemove 'k | OpClear

fun lru_do :: "('k, 'v) lru_op \<Rightarrow> ('k, 'v) LRU option \<Rightarrow> ('k, 'v) LRU option" where
  "lru_do (OpGet k) c = snd (LRU_Get c k)"
| "lru_do (OpAdd k v) c = LRU_Put c k v"
| "lru_do (OpRemove k) c = snd (LRU_Remove c k)"
| "lru_do OpClear c = LRU_Clear c"

fun abs_do :: "nat \<Rightarrow> ('k, 'v) lru_op \<Rightarrow> ('k \<times> 'v) list \<Rightarrow> ('k \<times> 'v) list" where
  "abs_do n (OpGet k) xs = touch k xs"
| "abs_do n (OpAdd k v) xs = insert_front n k v xs"
| "abs_do n (OpRemove k) xs = filter (\<lambda>e. fst e \<noteq> k) xs"
| "abs_do n OpClear xs = []"

definition lru_entries :: "('k, 'v) LRU option \<Rightarrow> ('k \<times> 'v) list" where
  "lru_entries cache = (case cache of None \<Rightarrow> [] | Some c \<Rightarrow> lru_abs c)"

lemma lru_do_Some: "\<exists>c'. lru_do opn (Some c) = Some c'"
  by (cases opn) (simp_all add: LRU_Get_def LRU_Put_def LRU_Add_def LRU_Remove_def LRU_Clear_def Let_def
      split: option.split)

lemma pair_Some: "snd p = Some x \<Longrightarrow> p = (fst p, Some x)"
  by (cases p) simp

lemma lru_do_refines:
  assumes "lru_inv c" "lru_do opn (Some c) = Some c'"
  shows "lru_inv c' \<and> lru_capacity c' = lru_capacity c \<and>
     lru_abs c' = abs_do (nat (lru_capacity c)) opn (lru_abs c)"
proof (cases opn)
  case (OpGet k)
  with assms LRU_Get_refines [OF assms(1) pair_Some, of k] show ?thesis by simp
next
  case (OpAdd k v)
  with assms(2) have "LRU_Add (Some c) k v = (fst (LRU_Add (Some c) k v), Some c')"
    by (simp add: LRU_Put_def pair_Some)
  with LRU_Add_refines [OF assms(1), of k v _ _ c'] OpAdd show ?thesis by (metis abs_do.simps(2) prod.collapse)
next
  case (OpRemove k)
  with assms LRU_Remove_refines [OF assms(1) pair_Some, of k] show ?thesis by simp
next
  case OpClear
  with assms LRU_Clear_refines [OF assms(1)] show ?thesis by simp
qed

lemma lru_run_refines:
  assumes "lru_inv c" "fold lru_do ops (Some c) = Some c'"
  shows "lru_inv c' \<and> lru_capacity c' = lru_capacity c \<and>
     lru_abs c' = fold (abs_do (nat (lru_capacity c))) ops (lru_abs c)"
  using assms
proof (induction ops arbitrary: c)
  case (Cons opn ops)
  obtain d where d: "lru_do opn (Some c) = Some d" using lru_do_Some by blast
  from lru_do_refines [OF Cons.prems(1) d] Cons.IH [of d] Cons.prems(2) d show ?case by simp
qed simp

lemma lru_run_Some: "\<exists>c'. fold lru_do ops (Some c) = Some c'"
proof (induction ops arbitrary: c)
  case (Cons opn ops)
  obtain d where "lru_do opn (Some c) = Some d" using lru_do_Some by blast
  with Cons show ?case by simp
qed simp

lemma Snapshot_abs: "LRU_Snapshot (Some c) = map snd (lru_abs c)"
  by (simp add: LRU_Snapshot_def lru_abs_def)

section \<open>Properties\<close>

text \<open>
  Property C20. The cache is a least-recently-used list: after any sequence of operations on a new
  cache, its snapshot is that of the reference list that moves looked-up entries to the front,
  inserts at the front and cuts at the capacity; its length never exceeds the capacity; and the
  map and the linked list stay consistent.
\<close>

theorem lru_run_correct:
  assumes "NewLRU cap = Inr c"
  shows "\<exists>c'. fold lru_do ops (Some c) = Some c' \<and> lru_inv c' \<and>
     LRU_Snapshot (Some c') = map snd (fold (abs_do (nat cap)) ops []) \<and>
     0 \<le> LRU_Len (Some c') \<and> LRU_Len (Some c') \<le> LRU_Capacity (Some c') \<and>
     LRU_Capacity (Some c') = cap"
proof -
  note new = NewLRU_inv [OF assms]
  obtain c' where c': "fold lru_do ops (Some c) = Some c'" using lru_run_Some by blast
  from lru_run_refines [OF _ c'] new have r: "lru_inv c'" "lru_capacity c' = cap"
    "lru_abs c' = fold (abs_do (nat cap)) ops []" by auto
  have "LRU_Len (Some c') = int (length (lru_order c'))"
    using LRU_Len_abs [OF r(1)] by (simp add: lru_abs_def)
  with r c' show ?thesis by (simp add: Snapshot_abs LRU_Capacity_def lru_inv_def)
qed

theorem lru_run_correct_witness:
  "\<exists>c c'. NewLRU 2 = Inr (c :: (nat, nat) LRU) \<and>
     fold lru_do [OpAdd 1 10, OpAdd 2 20, OpGet 1, OpAdd 3 30] (Some c) = Some c' \<and>
     LRU_Snapshot (Some c') = [30, 10]"
proof -
  obtain c :: "(nat, nat) LRU" where c: "NewLRU 2 = Inr c" by (simp add: NewLRU_def)
  from lru_run_correct [OF c, of "[OpAdd 1 10, OpAdd 2 20, OpGet 1, OpAdd 3 30]"] c
  show ?thesis by (auto simp: insert_front_def touch_def)
qed

text \<open>
  Adding an entry to a consistent cache reports exactly what happened: \<^verbatim>\<open>replaced\<close> when the
  key was resident, \<^verbatim>\<open>evicted\<close> when it was not and the cache was full, in which case the single
  least recently used entry is gone; every other entry keeps its value and its place.
\<close>

theorem lru_add_reports:
  assumes "lru_inv c" and "LRU_Add (Some c) k v = ((replaced, evicted), Some c')"
  shows "replaced = (k \<in> fst ` set (lru_abs c)) \<and>
     evicted = (\<not> replaced \<and> int (length (lru_abs c)) = lru_capacity c) \<and>
     lru_abs c' = (k, v) # (if replaced then filter (\<lambda>e. fst e \<noteq> k) (lru_abs c)
                            else if evicted then butlast (lru_abs c) else lru_abs c) \<and>
     lru_evictions c' = lru_evictions c + (if evicted then 1 else 0)"
proof -
  note r = LRU_Add_refines [OF assms]
  have len: "0 < lru_capacity c" "length (lru_abs c) \<le> nat (lru_capacity c)"
    using assms(1) by (auto simp: lru_inv_def lru_abs_def le_nat_iff)
  have front: "insert_front (nat (lru_capacity c)) k v (lru_abs c) =
      (k, v) # take (nat (lru_capacity c) - 1) (filter (\<lambda>e. fst e \<noteq> k) (lru_abs c))"
    using len(1) by (cases "nat (lru_capacity c)") (auto simp: insert_front_def)
  have "lru_abs c' = (k, v) # (if replaced then filter (\<lambda>e. fst e \<noteq> k) (lru_abs c)
                            else if evicted then butlast (lru_abs c) else lru_abs c)"
  proof (cases replaced)
    case True
    then have "length (filter (\<lambda>e. fst e \<noteq> k) (lru_abs c)) < length (lru_abs c)"
      using r by (auto intro: length_filter_less)
    with True r front len show ?thesis by simp
  next
    case False
    then have id: "filter (\<lambda>e. fst e \<noteq> k) (lru_abs c) = lru_abs c"
      using r by (force simp: filter_id_conv)
    show ?thesis
    proof (cases evicted)
      case True
      then have "nat (lru_capacity c) = length (lru_abs c)" using r by linarith
      with True False r front id show ?thesis by (simp add: butlast_conv_take)
    next
      case no: False
      then have "length (lru_abs c) \<le> nat (lru_capacity c) - 1" using r False len by auto
      with no False r front id show ?thesis by simp
    qed
  qed
  moreover have "lru_evictions c' = lru_evictions c + (if evicted then 1 else 0)"
    using assms(2) by (auto simp: LRU_Add_def Let_def split: option.splits if_splits)
  ultimately show ?thesis using r by blast
qed

theorem lru_add_reports_witness:
  "\<exists>c c'. NewLRU 1 = Inr (c :: (nat, nat) LRU) \<and> lru_inv c \<and>
     LRU_Add (Some c) 1 10 = ((False, False), Some c') \<and> lru_abs c' = [(1, 10)]"
proof -
  obtain c :: "(nat, nat) LRU" where c: "NewLRU 1 = Inr c" by (simp add: NewLRU_def)
  note inv = NewLRU_inv [OF c]
  obtain c' where a: "LRU_Add (Some c) 1 10 = ((False, False), Some c')"
    using c by (auto simp: NewLRU_def LRU_Add_def Let_def)
  from lru_add_reports [OF conjunct1 [OF inv] a] inv c a show ?thesis by auto
qed

end
