(* ===== verification/Policy_Glob.thy ===== *)
theory Policy_Glob
  imports Kordn_Prelude
begin

text \<open>
  The glob patterns of the policy language, \<^verbatim>\<open>src/internal/policy/glob.go\<close>: the validation and
  compilation of a pattern, and the matcher, a two-row dynamic program with a step budget. The
  arrays of the matcher are functions from indices to booleans (every index the code touches is
  within their 513 cells); the swap of the two rows keeps the stale contents of the older one, as
  the code does; running out of the step budget is \<^const>\<open>None\<close>.

  The specification is the language \<open>glob_lang\<close> of a pattern. The main result says that the matcher
  decides it and that the budget is never exhausted for a compiled pattern.
\<close>

section \<open>Compilation\<close>

definition MaxGlobLength :: nat where
  "MaxGlobLength = 512"

definition maxGlobSteps :: nat where
  "maxGlobSteps = (MaxGlobLength + 1) * (MaxGlobLength + 1)"

record Glob =
  glob_pattern :: string
  glob_action :: bool

text \<open>The characters of \<^verbatim>\<open>"[](){}|+^$\\"\<close>, as runes.\<close>

definition unsupported_glob_runes :: "rune list" where
  "unsupported_glob_runes = map ord ''[](){}|+^$'' @ [92]"

definition action_rune :: "rune \<Rightarrow> bool" where
  "action_rune r \<longleftrightarrow> \<not> (r > 127 \<or> \<not> (r = 58 \<or> r = 42 \<or> r = 63 \<or> (97 \<le> r \<and> r \<le> 122) \<or>
     (65 \<le> r \<and> r \<le> 90) \<or> (48 \<le> r \<and> r \<le> 57) \<or> r = 45))"

definition validateGlobPattern :: "string \<Rightarrow> bool \<Rightarrow> go_error" where
  "validateGlobPattern pattern action =
     (if length pattern = 0 \<or> length pattern > MaxGlobLength \<or> \<not> valid_utf8 pattern
      then Some ''glob is empty, too long, or not valid UTF-8''
      else if list_ex (\<lambda>r. is_space_rune r \<or> is_control_rune r \<or> r \<in> set unsupported_glob_runes)
                (runes pattern)
      then Some ''glob contains unsupported syntax''
      else if action then
        (if pattern \<noteq> ''*'' \<and>
            (case index_byte pattern CHR '':'' of
               None \<Rightarrow> True
             | Some colon \<Rightarrow> colon = 0 \<or> colon = length pattern - 1 \<or>
                             count_byte pattern CHR '':'' \<noteq> 1)
         then Some ''action glob must use service:operation form''
         else if list_ex (\<lambda>r. \<not> action_rune r) (runes pattern)
         then Some ''action glob contains unsupported characters''
         else None)
      else None)"

definition asciiLower :: "string \<Rightarrow> string" where
  "asciiLower s = map ascii_lower_byte s"

definition compileGlob :: "string \<Rightarrow> bool \<Rightarrow> Glob go_result" where
  "compileGlob pattern action =
     (case validateGlobPattern pattern action of
        Some err \<Rightarrow> Inl err
      | None \<Rightarrow> Inr \<lparr>glob_pattern = (if action then asciiLower pattern else pattern),
                     glob_action = action\<rparr>)"

definition CompileGlob :: "string \<Rightarrow> Glob go_result" where
  "CompileGlob pattern = compileGlob pattern False"

definition CompileActionGlob :: "string \<Rightarrow> Glob go_result" where
  "CompileActionGlob pattern = compileGlob pattern True"

section \<open>The matcher\<close>

type_synonym row = "nat \<Rightarrow> bool"

text \<open>The loop that fills the first row.\<close>

function glob_first_row :: "string \<Rightarrow> nat \<Rightarrow> nat \<Rightarrow> row \<Rightarrow> (nat \<times> row) option" where
  "glob_first_row pattern patternIndex steps previous =
     (if patternIndex > length pattern then Some (steps, previous)
      else if steps + 1 > maxGlobSteps then None
      else glob_first_row pattern (patternIndex + 1) (steps + 1)
             (previous(patternIndex :=
                previous (patternIndex - 1) \<and> pattern ! (patternIndex - 1) = CHR ''*'')))"
  by pat_completeness auto
termination by (relation "measure (\<lambda>(p, i, s, r). Suc (length p) - i)") auto

text \<open>The inner loop: one row for the byte \<open>c\<close> of the value.\<close>

definition glob_cell :: "char \<Rightarrow> char \<Rightarrow> row \<Rightarrow> row \<Rightarrow> nat \<Rightarrow> bool" where
  "glob_cell p c previous current i =
     (if p = CHR ''*'' then previous i \<or> current (i - 1)
      else if p = CHR ''?'' then previous (i - 1)
      else previous (i - 1) \<and> p = c)"

function glob_row :: "string \<Rightarrow> char \<Rightarrow> row \<Rightarrow> nat \<Rightarrow> nat \<Rightarrow> row \<Rightarrow> (nat \<times> row) option" where
  "glob_row pattern c previous patternIndex steps current =
     (if patternIndex > length pattern then Some (steps, current)
      else if steps + 1 > maxGlobSteps then None
      else glob_row pattern c previous (patternIndex + 1) (steps + 1)
             (current(patternIndex :=
                glob_cell (pattern ! (patternIndex - 1)) c previous current patternIndex)))"
  by pat_completeness auto
termination by (relation "measure (\<lambda>(p, c, r, i, s, q). Suc (length p) - i)") auto

declare glob_first_row.simps [simp del] glob_row.simps [simp del]

text \<open>The outer loop over the bytes of the value, with the swap of the rows.\<close>

fun glob_rows :: "string \<Rightarrow> string \<Rightarrow> nat \<Rightarrow> row \<Rightarrow> row \<Rightarrow> row option" where
  "glob_rows pattern [] steps previous current = Some previous"
| "glob_rows pattern (c # rest) steps previous current =
     (case glob_row pattern c previous 1 steps (current(0 := False)) of
        None \<Rightarrow> None
      | Some (steps', current') \<Rightarrow> glob_rows pattern rest steps' current' previous)"

definition glob_table :: "string \<Rightarrow> string \<Rightarrow> row option" where
  "glob_table pattern val =
     (case glob_first_row pattern 1 0 ((\<lambda>_. False)(0 := True)) of
        None \<Rightarrow> None
      | Some (steps, previous) \<Rightarrow> glob_rows pattern val steps previous (\<lambda>_. False))"

definition Glob_Match :: "Glob \<Rightarrow> string \<Rightarrow> bool" where
  "Glob_Match g val =
     (if glob_pattern g = [] \<or> length val > MaxGlobLength \<or> \<not> valid_utf8 val then False
      else if list_ex is_control_rune (runes val) then False
      else if glob_action g \<and> list_ex (\<lambda>r. \<not> action_rune r) (runes val) then False
      else
        (let val' = (if glob_action g then asciiLower val else val) in
         case glob_table (glob_pattern g) val' of
           None \<Rightarrow> False
         | Some row \<Rightarrow> row (length (glob_pattern g))))"

definition MatchGlob :: "string \<Rightarrow> string \<Rightarrow> bool" where
  "MatchGlob pattern val =
     (case CompileGlob pattern of Inl _ \<Rightarrow> False | Inr g \<Rightarrow> Glob_Match g val)"

definition MatchActionGlob :: "string \<Rightarrow> string \<Rightarrow> bool" where
  "MatchActionGlob pattern val =
     (case CompileActionGlob pattern of Inl _ \<Rightarrow> False | Inr g \<Rightarrow> Glob_Match g val)"

section \<open>The language of a pattern\<close>

definition glob_atom :: "char \<Rightarrow> string set" where
  "glob_atom x = (if x = CHR ''*'' then UNIV else if x = CHR ''?'' then {[c] | c. True} else {[x]})"

primrec glob_lang :: "string \<Rightarrow> string set" where
  "glob_lang [] = {[]}"
| "glob_lang (x # p) = {u @ v | u v. u \<in> glob_atom x \<and> v \<in> glob_lang p}"

lemma glob_lang_append: "glob_lang (p @ q) = {u @ v | u v. u \<in> glob_lang p \<and> v \<in> glob_lang q}"
proof (induction p)
  case (Cons x p)
  show ?case unfolding append_Cons glob_lang.simps Cons by (auto; metis append_assoc)
qed auto

lemma glob_lang_snoc: "glob_lang (p @ [x]) = {u @ v | u v. u \<in> glob_lang p \<and> v \<in> glob_atom x}"
  by (simp add: glob_lang_append)

lemma glob_lang_snoc_star:
  "w \<in> glob_lang (p @ [CHR ''*'']) \<longleftrightarrow> (\<exists>u v. w = u @ v \<and> u \<in> glob_lang p)"
  by (auto simp: glob_lang_snoc glob_atom_def)

lemma star_step:
  "w @ [c] \<in> glob_lang (p @ [CHR ''*'']) \<longleftrightarrow>
     w \<in> glob_lang (p @ [CHR ''*'']) \<or> w @ [c] \<in> glob_lang p"
  unfolding glob_lang_snoc_star
proof
  assume "\<exists>u v. w @ [c] = u @ v \<and> u \<in> glob_lang p"
  then obtain u v where uv: "w @ [c] = u @ v" "u \<in> glob_lang p" by blast
  then show "(\<exists>u v. w = u @ v \<and> u \<in> glob_lang p) \<or> w @ [c] \<in> glob_lang p"
    by (cases v rule: rev_cases) auto
next
  assume "(\<exists>u v. w = u @ v \<and> u \<in> glob_lang p) \<or> w @ [c] \<in> glob_lang p"
  then show "\<exists>u v. w @ [c] = u @ v \<and> u \<in> glob_lang p"
    by (metis append_assoc append_Nil2)
qed

lemma other_step:
  "x \<noteq> CHR ''*'' \<Longrightarrow>
     w @ [c] \<in> glob_lang (p @ [x]) \<longleftrightarrow> w \<in> glob_lang p \<and> (x = CHR ''?'' \<or> x = c)"
  by (auto simp: glob_lang_snoc glob_atom_def)

lemma empty_step: "[] \<in> glob_lang (p @ [x]) \<longleftrightarrow> [] \<in> glob_lang p \<and> x = CHR ''*''"
  by (auto simp: glob_lang_snoc glob_atom_def)

text \<open>A pattern without operators stands for itself.\<close>

lemma glob_lang_literal:
  "CHR ''*'' \<notin> set p \<Longrightarrow> CHR ''?'' \<notin> set p \<Longrightarrow> glob_lang p = {p}"
  by (induction p) (auto simp: glob_atom_def)

section \<open>The dynamic program decides the language\<close>

text \<open>The cells of a row up to index \<open>i\<close> are right for the value prefix \<open>w\<close>.\<close>

definition row_ok :: "string \<Rightarrow> string \<Rightarrow> nat \<Rightarrow> row \<Rightarrow> bool" where
  "row_ok p w i r \<longleftrightarrow> (\<forall>j \<le> i. r j \<longleftrightarrow> w \<in> glob_lang (take j p))"

lemma row_okD: "row_ok p w i r \<Longrightarrow> j \<le> i \<Longrightarrow> r j \<longleftrightarrow> w \<in> glob_lang (take j p)"
  by (simp add: row_ok_def)

lemma row_ok_upd:
  "row_ok p w i r \<Longrightarrow> b \<longleftrightarrow> w \<in> glob_lang (take (Suc i) p) \<Longrightarrow> row_ok p w (Suc i) (r(Suc i := b))"
  by (simp add: row_ok_def le_Suc_eq)

lemma first_row_correct:
  assumes "row_ok p [] i r" "length p = i + n" "steps + n \<le> maxGlobSteps"
  shows "\<exists>r'. glob_first_row p (Suc i) steps r = Some (steps + n, r') \<and> row_ok p [] (length p) r'"
  using assms
proof (induction n arbitrary: i steps r)
  case 0
  then show ?case by (simp add: glob_first_row.simps [of p "Suc i"])
next
  case (Suc n)
  then have i: "i < length p" by simp
  let ?r = "r(Suc i := r i \<and> p ! i = CHR ''*'')"
  have "row_ok p [] (Suc i) ?r"
    using Suc.prems(1) row_okD [OF Suc.prems(1), of i]
    by (intro row_ok_upd) (simp_all add: take_Suc_conv_app_nth [OF i] empty_step)
  from Suc.IH [OF this, of "Suc steps"] Suc.prems i show ?case
    by (simp add: glob_first_row.simps [of p "Suc i"] fun_upd_def)
qed

lemma row_correct:
  assumes "row_ok p w (length p) prev" "row_ok p (w @ [c]) i cur" "length p = i + n"
    "steps + n \<le> maxGlobSteps"
  shows "\<exists>r'. glob_row p c prev (Suc i) steps cur = Some (steps + n, r') \<and>
     row_ok p (w @ [c]) (length p) r'"
  using assms
proof (induction n arbitrary: i steps cur)
  case 0
  then show ?case by (simp add: glob_row.simps [of p c prev "Suc i"])
next
  case (Suc n)
  then have i: "i < length p" by simp
  let ?b = "glob_cell (p ! i) c prev cur (Suc i)"
  have "?b \<longleftrightarrow> w @ [c] \<in> glob_lang (take (Suc i) p)"
    using row_okD [OF Suc.prems(1), of i] row_okD [OF Suc.prems(1), of "Suc i"]
      row_okD [OF Suc.prems(2), of i] i
    by (cases "p ! i = CHR ''*''")
       (auto simp: glob_cell_def take_Suc_conv_app_nth [OF i] star_step other_step)
  with Suc.prems(2) have "row_ok p (w @ [c]) (Suc i) (cur(Suc i := ?b))" by (rule row_ok_upd)
  from Suc.IH [OF Suc.prems(1) this, of "Suc steps"] Suc.prems i show ?case
    by (simp add: glob_row.simps [of p c prev "Suc i"] fun_upd_def)
qed

lemma row_ok_start:
  "row_ok p [] 0 ((\<lambda>_. False)(0 := True))" "row_ok p (w @ [c]) 0 (r(0 := False))"
  by (simp_all add: row_ok_def)

lemma rows_correct:
  "row_ok p w (length p) prev \<Longrightarrow> steps + length val * length p \<le> maxGlobSteps \<Longrightarrow>
     \<exists>r. glob_rows p val steps prev cur = Some r \<and> row_ok p (w @ val) (length p) r"
proof (induction val arbitrary: w steps prev cur)
  case (Cons c val)
  obtain r where r: "glob_row p c prev (Suc 0) steps (cur(0 := False)) = Some (steps + length p, r)"
    "row_ok p (w @ [c]) (length p) r"
    using row_correct [OF Cons.prems(1) row_ok_start(2), of "length p" steps c cur] Cons.prems(2)
    by auto
  from Cons.IH [OF r(2), of "steps + length p" prev] Cons.prems(2) r(1) show ?case by simp
qed simp

lemma table_correct:
  assumes "length p \<le> MaxGlobLength" "length val \<le> MaxGlobLength"
  shows "\<exists>r. glob_table p val = Some r \<and> (r (length p) \<longleftrightarrow> val \<in> glob_lang p)"
proof -
  have "(1 + length val) * length p \<le> (MaxGlobLength + 1) * (MaxGlobLength + 1)"
    using assms by (intro mult_le_mono) auto
  then have budget: "length p + length val * length p \<le> maxGlobSteps"
    by (simp add: maxGlobSteps_def)
  obtain r where r: "glob_first_row p (Suc 0) 0 ((\<lambda>_. False)(0 := True)) = Some (length p, r)"
    "row_ok p [] (length p) r"
    using first_row_correct [OF row_ok_start(1), of p "length p" 0] budget by auto
  from rows_correct [OF r(2) budget, of "\<lambda>_. False"] r(1) show ?thesis
    by (auto simp: glob_table_def row_ok_def)
qed

section \<open>What a compiled glob matches\<close>

lemma length_asciiLower [simp]: "length (asciiLower s) = length s"
  by (simp add: asciiLower_def)

lemma asciiLower_idem [simp]: "asciiLower (asciiLower s) = asciiLower s"
  by (simp add: asciiLower_def)

lemma validate_ok_length: "validateGlobPattern p a = None \<Longrightarrow> p \<noteq> [] \<and> length p \<le> MaxGlobLength"
  by (auto simp: validateGlobPattern_def split: if_splits)

lemma compileGlob_ok:
  assumes "compileGlob p a = Inr g"
  shows "glob_pattern g = (if a then asciiLower p else p) \<and> glob_action g = a \<and>
     glob_pattern g \<noteq> [] \<and> length (glob_pattern g) \<le> MaxGlobLength \<and> validateGlobPattern p a = None"
  using assms validate_ok_length [of p a]
  by (auto simp: compileGlob_def asciiLower_def split: option.splits)

text \<open>The values a glob may match at all.\<close>

definition matchable :: "string \<Rightarrow> bool" where
  "matchable val \<longleftrightarrow>
     length val \<le> MaxGlobLength \<and> valid_utf8 val \<and> list_all (\<lambda>r. \<not> is_control_rune r) (runes val)"

lemma Glob_Match_iff:
  assumes "compileGlob p a = Inr g"
  shows "Glob_Match g val \<longleftrightarrow>
     matchable val \<and>
     (if a then list_all action_rune (runes val) \<and> asciiLower val \<in> glob_lang (asciiLower p)
      else val \<in> glob_lang p)"
proof -
  note g = compileGlob_ok [OF assms]
  show ?thesis
    using g table_correct [of "glob_pattern g" "if a then asciiLower val else val"]
    by (auto simp: Glob_Match_def matchable_def Let_def list_ex_iff list_all_iff)
qed

text \<open>Every rune an action glob admits is ASCII, so the admitted values are byte strings.\<close>

lemma ascii_pred_action_rune: "ascii_pred action_rune"
  by (auto simp: ascii_pred_def action_rune_def)

lemma action_rune_lower: "action_rune (ord (ascii_lower_byte c)) \<longleftrightarrow> action_rune (ord c)"
  by (auto simp: action_rune_def ord_ascii_lower is_upper_byte_iff)

lemma action_ascii: "list_all action_rune (runes s) \<Longrightarrow> list_all is_ascii s"
  unfolding list_all_runes_bytes [OF ascii_pred_action_rune]
  by (auto simp: list_all_iff action_rune_def is_ascii_def)

lemma action_runes_lower:
  "list_all action_rune (runes (asciiLower s)) \<longleftrightarrow> list_all action_rune (runes s)"
  by (simp add: list_all_runes_bytes [OF ascii_pred_action_rune] asciiLower_def action_rune_lower
      list.pred_map comp_def)

lemma action_matchable: "list_all action_rune (runes s) \<Longrightarrow> matchable s \<longleftrightarrow> length s \<le> MaxGlobLength"
  using action_ascii [of s]
  by (auto simp: matchable_def valid_utf8_ascii list_all_iff is_control_rune_def action_rune_def)

lemma action_rune_supported:
  "action_rune r \<Longrightarrow> \<not> is_space_rune r \<and> \<not> is_control_rune r \<and> r \<notin> set unsupported_glob_runes"
  by (auto simp: action_rune_def is_space_rune_def is_control_rune_def unsupported_glob_runes_def
      ord_def)

definition action_form :: "string \<Rightarrow> bool" where
  "action_form p \<longleftrightarrow> p = ''*'' \<or>
     (\<exists>svc opn. p = svc @ CHR '':'' # opn \<and> svc \<noteq> [] \<and> opn \<noteq> [] \<and>
        CHR '':'' \<notin> set svc \<and> CHR '':'' \<notin> set opn)"

lemma first_sep_unique:
  "a @ c # b = a' @ c # b' \<Longrightarrow> c \<notin> set a \<Longrightarrow> c \<notin> set a' \<Longrightarrow> a = a' \<and> b = b'"
  by (induction a arbitrary: a') (auto simp: Cons_eq_append_conv)

lemma one_sepI:
  "p = a @ c # b \<Longrightarrow> a \<noteq> [] \<Longrightarrow> b \<noteq> [] \<Longrightarrow> c \<notin> set a \<Longrightarrow> c \<notin> set b \<Longrightarrow>
     \<exists>svc opn. p = svc @ c # opn \<and> svc \<noteq> [] \<and> opn \<noteq> [] \<and> c \<notin> set svc \<and> c \<notin> set opn"
  by blast

lemma colon_form_iff:
  "(case index_byte p CHR '':'' of
      None \<Rightarrow> True
    | Some colon \<Rightarrow> colon = 0 \<or> colon = length p - 1 \<or> count_byte p CHR '':'' \<noteq> 1) \<longleftrightarrow>
   \<not> (\<exists>svc opn. p = svc @ CHR '':'' # opn \<and> svc \<noteq> [] \<and> opn \<noteq> [] \<and>
        CHR '':'' \<notin> set svc \<and> CHR '':'' \<notin> set opn)" (is "?L \<longleftrightarrow> \<not> ?R")
proof (cases "index_byte p CHR '':''")
  case None
  then have "CHR '':'' \<notin> set p" by (simp add: index_byte_None)
  with None show ?thesis by auto
next
  case (Some i)
  note i = index_byte_Some [OF Some]
  let ?a = "take i p" and ?b = "drop (Suc i) p"
  have p: "p = ?a @ CHR '':'' # ?b" using i by simp
  have uniq: "svc = ?a \<and> opn = ?b" if "p = svc @ CHR '':'' # opn" "CHR '':'' \<notin> set svc" for svc opn
  proof -
    have "svc @ CHR '':'' # opn = ?a @ CHR '':'' # ?b" by (rule trans [OF that(1) [symmetric] p])
    moreover have "CHR '':'' \<notin> set ?a" using i by blast
    ultimately show ?thesis using that(2) by (metis first_sep_unique)
  qed
  have cnt: "count_byte p CHR '':'' = 1 \<longleftrightarrow> CHR '':'' \<notin> set ?b"
  proof -
    have "count_list p CHR '':'' = count_list ?a CHR '':'' + (1 + count_list ?b CHR '':'')"
      by (rule trans [OF arg_cong [OF p, of "\<lambda>s. count_list s CHR '':''"]]) simp
    moreover have "count_list ?a CHR '':'' = 0" using i by (simp add: count_list_0_iff)
    ultimately show ?thesis by (simp add: count_byte_def count_list_0_iff)
  qed
  have ends: "i = 0 \<longleftrightarrow> ?a = []" "i = length p - 1 \<longleftrightarrow> ?b = []"
    using i by auto
  have "?R \<longleftrightarrow> ?a \<noteq> [] \<and> ?b \<noteq> [] \<and> CHR '':'' \<notin> set ?b"
  proof
    assume ?R
    then obtain svc opn where R: "p = svc @ CHR '':'' # opn" "svc \<noteq> []" "opn \<noteq> []"
      "CHR '':'' \<notin> set svc" "CHR '':'' \<notin> set opn" by blast
    from uniq [OF R(1,4)] R(2,3,5) show "?a \<noteq> [] \<and> ?b \<noteq> [] \<and> CHR '':'' \<notin> set ?b" by blast
  next
    assume "?a \<noteq> [] \<and> ?b \<noteq> [] \<and> CHR '':'' \<notin> set ?b"
    moreover have "CHR '':'' \<notin> set ?a" using i by blast
    ultimately show ?R by (intro one_sepI [OF p]) simp_all
  qed
  with Some cnt ends show ?thesis by (simp only: option.case) blast
qed

lemma validate_action_iff:
  "validateGlobPattern p True = None \<longleftrightarrow>
     length p \<le> MaxGlobLength \<and> list_all action_rune (runes p) \<and> action_form p"
proof (cases "list_all action_rune (runes p)")
  case True
  then have "valid_utf8 p" "\<not> list_ex (\<lambda>r. is_space_rune r \<or> is_control_rune r \<or>
      r \<in> set unsupported_glob_runes) (runes p)" "\<not> list_ex (\<lambda>r. \<not> action_rune r) (runes p)"
    using action_ascii [OF True] action_rune_supported
    by (auto simp: valid_utf8_ascii list_ex_iff list_all_iff)
  moreover have "action_form p \<Longrightarrow> p \<noteq> []" by (auto simp: action_form_def)
  ultimately show ?thesis
    using True colon_form_iff [of p] by (auto simp: validateGlobPattern_def action_form_def)
next
  case False
  then show ?thesis by (auto simp: validateGlobPattern_def list_ex_iff list_all_iff)
qed

lemma ascii_lower_colon: "ascii_lower_byte c = CHR '':'' \<longleftrightarrow> c = CHR '':''"
proof -
  have "ord (ascii_lower_byte c) = ord CHR '':'' \<longleftrightarrow> ord c = ord CHR '':''"
    unfolding ord_ascii_lower is_upper_byte_iff by (auto simp: ord_def)
  then show ?thesis by (simp only: ord_inject)
qed

lemma ascii_lower_star: "ascii_lower_byte c = CHR ''*'' \<longleftrightarrow> c = CHR ''*''"
proof -
  have "ord (ascii_lower_byte c) = ord CHR ''*'' \<longleftrightarrow> ord c = ord CHR ''*''"
    unfolding ord_ascii_lower is_upper_byte_iff by (auto simp: ord_def)
  then show ?thesis by (simp only: ord_inject)
qed

lemma action_form_lower: "action_form (asciiLower p) \<longleftrightarrow> action_form p"
proof -
  have colon: "CHR '':'' \<in> set (asciiLower s) \<longleftrightarrow> CHR '':'' \<in> set s" for s
    by (induction s) (auto simp: asciiLower_def ascii_lower_colon eq_commute [of "CHR '':''"])
  have star: "asciiLower p = ''*'' \<longleftrightarrow> p = ''*''"
    by (auto simp: asciiLower_def ascii_lower_star)
  have "(\<exists>svc opn. asciiLower p = svc @ CHR '':'' # opn \<and> svc \<noteq> [] \<and> opn \<noteq> [] \<and>
          CHR '':'' \<notin> set svc \<and> CHR '':'' \<notin> set opn) \<longleftrightarrow>
        (\<exists>svc opn. p = svc @ CHR '':'' # opn \<and> svc \<noteq> [] \<and> opn \<noteq> [] \<and>
          CHR '':'' \<notin> set svc \<and> CHR '':'' \<notin> set opn)" (is "?L \<longleftrightarrow> ?R")
  proof
    assume ?L
    then obtain a b where ab: "asciiLower p = a @ CHR '':'' # b" "a \<noteq> []" "b \<noteq> []"
      "CHR '':'' \<notin> set a" "CHR '':'' \<notin> set b" by blast
    from ab(1) obtain us vs where u: "p = us @ vs" "a = asciiLower us" "CHR '':'' # b = asciiLower vs"
      unfolding asciiLower_def map_eq_append_conv by (elim exE conjE) simp
    then obtain c b' where v: "vs = c # b'" "ascii_lower_byte c = CHR '':''" "b = asciiLower b'"
      by (cases vs) (simp_all add: asciiLower_def)
    have "p = us @ CHR '':'' # b'" using u(1) v(1,2) by (simp add: ascii_lower_colon)
    moreover have "us \<noteq> []" "b' \<noteq> []" using ab(2,3) u(2) v(3) by (auto simp: asciiLower_def)
    moreover have "CHR '':'' \<notin> set us" "CHR '':'' \<notin> set b'"
      using ab(4,5) u(2) v(3) colon by simp_all
    ultimately show ?R by (rule one_sepI)
  next
    assume ?R
    then obtain a b where ab: "p = a @ CHR '':'' # b" "a \<noteq> []" "b \<noteq> []"
      "CHR '':'' \<notin> set a" "CHR '':'' \<notin> set b" by blast
    then have "asciiLower p = asciiLower a @ CHR '':'' # asciiLower b" "asciiLower a \<noteq> []"
      "asciiLower b \<noteq> []" "CHR '':'' \<notin> set (asciiLower a)" "CHR '':'' \<notin> set (asciiLower b)"
      unfolding colon by (simp_all add: asciiLower_def ascii_lower_colon)
    then show ?L by blast
  qed
  with star show ?thesis by (simp add: action_form_def)
qed

lemma MatchActionGlob_iff:
  "MatchActionGlob p val \<longleftrightarrow>
     length p \<le> MaxGlobLength \<and> list_all action_rune (runes p) \<and> action_form p \<and>
     length val \<le> MaxGlobLength \<and> list_all action_rune (runes val) \<and>
     asciiLower val \<in> glob_lang (asciiLower p)"
proof (cases "compileGlob p True")
  case (Inl e)
  then have "validateGlobPattern p True \<noteq> None" by (auto simp: compileGlob_def split: option.splits)
  with Inl validate_action_iff [of p] show ?thesis
    by (auto simp: MatchActionGlob_def CompileActionGlob_def)
next
  case (Inr g)
  with compileGlob_ok [OF Inr] validate_action_iff [of p] Glob_Match_iff [OF Inr, of val]
    action_matchable [of val]
  show ?thesis by (auto simp: MatchActionGlob_def CompileActionGlob_def)
qed

section \<open>Properties\<close>

text \<open>
  Property C40. The dynamic-programming matcher decides the pattern language: a compiled resource glob
  matches exactly the bounded, valid, control-free values in the language of the pattern, and a
  compiled action glob exactly those whose ASCII-lowered form is in the language of the lowered
  pattern and which use action characters only.
\<close>

theorem glob_match_correct:
  assumes "compileGlob p action = Inr g"
  shows "Glob_Match g val \<longleftrightarrow>
     matchable val \<and>
     (if action then list_all action_rune (runes val) \<and> asciiLower val \<in> glob_lang (asciiLower p)
      else val \<in> glob_lang p)"
  using assms by (rule Glob_Match_iff)

theorem glob_match_correct_witness:
  "compileGlob ''s3:Get*'' True = Inr \<lparr>glob_pattern = ''s3:get*'', glob_action = True\<rparr> \<and>
   (Glob_Match \<lparr>glob_pattern = ''s3:get*'', glob_action = True\<rparr> ''S3:GetObject'' \<longleftrightarrow>
     matchable ''S3:GetObject'' \<and> list_all action_rune (runes ''S3:GetObject'') \<and>
     asciiLower ''S3:GetObject'' \<in> glob_lang (asciiLower ''s3:Get*''))"
proof -
  have h: "compileGlob ''s3:Get*'' True = Inr \<lparr>glob_pattern = ''s3:get*'', glob_action = True\<rparr>"
    by (simp add: compileGlob_def validateGlobPattern_def MaxGlobLength_def go_simps go_defs
        unsupported_glob_runes_def action_rune_def asciiLower_def char_of_def bit_0)
  show ?thesis using h glob_match_correct [OF h, of "''S3:GetObject''"] by simp
qed

text \<open>
  The step budget of the matcher is never exhausted: for every pattern and value within
  the length limit the table is computed, so the early \<^verbatim>\<open>return false\<close> branches are dead code.
\<close>

theorem glob_budget_suffices:
  assumes "length p \<le> MaxGlobLength" and "length val \<le> MaxGlobLength"
  shows "\<exists>row. glob_table p val = Some row"
  using table_correct [OF assms] by blast

theorem glob_budget_suffices_witness:
  "length ''a*c'' \<le> MaxGlobLength \<and> length ''abbc'' \<le> MaxGlobLength \<and>
   (\<exists>row. glob_table ''a*c'' ''abbc'' = Some row)"
proof -
  have h: "length ''a*c'' \<le> MaxGlobLength" "length ''abbc'' \<le> MaxGlobLength"
    by (simp_all add: MaxGlobLength_def)
  show ?thesis using h glob_budget_suffices [OF h] by blast
qed

text \<open>
  Action matching is case-insensitive in ASCII on both sides: lowering the pattern or
  the value never changes the outcome, including whether the pattern is accepted at all.
\<close>

theorem match_action_case_insensitive:
  "MatchActionGlob (asciiLower p) (asciiLower val) = MatchActionGlob p val"
  by (simp add: MatchActionGlob_iff action_runes_lower action_form_lower)

end
