(* ===== verification/Aws_Types.thy ===== *)
theory Aws_Types
  imports Kordn_Prelude
begin

text \<open>
  The data shared by the proxy, the mapper and the policy engine, from
  \<^verbatim>\<open>src/internal/awsrequest/protocol.go\<close>, \<^verbatim>\<open>types.go\<close> and the first part of
  \<^verbatim>\<open>endpoint.go\<close>: the string-typed enumerations with their \<^verbatim>\<open>Valid\<close> methods, the endpoint,
  request and mapping records with their \<^verbatim>\<open>Validate\<close> methods, and the evidence that a decoder
  failure carries.

  A Go string type with constants is a \<^typ>\<open>string\<close>: a value outside the constants is
  representable, as in the code. An error message is its constant text; the values that a format
  string interpolates are left out. A Go map that a loop ranges over is an association list; the loops
  over maps below only ask whether some entry is rejected, so the order has no effect on whether
  there is an error.
\<close>

section \<open>Protocols, signing schemes and payload modes\<close>

definition ProtocolJSON10 :: string where "ProtocolJSON10 = ''json1.0''"
definition ProtocolJSON11 :: string where "ProtocolJSON11 = ''json1.1''"
definition ProtocolQuery :: string where "ProtocolQuery = ''query''"
definition ProtocolEC2Query :: string where "ProtocolEC2Query = ''ec2-query''"
definition ProtocolRESTJSON :: string where "ProtocolRESTJSON = ''rest-json''"
definition ProtocolRESTXML :: string where "ProtocolRESTXML = ''rest-xml''"

lemmas protocol_defs = ProtocolJSON10_def ProtocolJSON11_def ProtocolQuery_def
  ProtocolEC2Query_def ProtocolRESTJSON_def ProtocolRESTXML_def

definition AWSProtocol_Supported :: "string \<Rightarrow> bool" where
  "AWSProtocol_Supported p \<longleftrightarrow> p = ProtocolJSON10 \<or> p = ProtocolJSON11 \<or> p = ProtocolQuery \<or>
     p = ProtocolEC2Query \<or> p = ProtocolRESTJSON \<or> p = ProtocolRESTXML"

definition SigningHeaderV4 :: string where "SigningHeaderV4 = ''header-sigv4''"

definition SigningScheme_Supported :: "string \<Rightarrow> bool" where
  "SigningScheme_Supported s \<longleftrightarrow> s = SigningHeaderV4"

definition PayloadHashSHA256 :: string where "PayloadHashSHA256 = ''sha256''"
definition PayloadHashEmpty :: string where "PayloadHashEmpty = ''empty''"
definition PayloadHashUnsigned :: string where "PayloadHashUnsigned = ''unsigned-payload''"
definition PayloadHashStreaming :: string where "PayloadHashStreaming = ''streaming''"
definition PayloadHashEventStream :: string where "PayloadHashEventStream = ''event-stream''"
definition PayloadHashUnsupported :: string where "PayloadHashUnsupported = ''unsupported''"

lemmas payload_mode_defs = PayloadHashSHA256_def PayloadHashEmpty_def PayloadHashUnsigned_def
  PayloadHashStreaming_def PayloadHashEventStream_def PayloadHashUnsupported_def

definition PayloadHashMode_Supported :: "string \<Rightarrow> bool" where
  "PayloadHashMode_Supported m \<longleftrightarrow>
     m = PayloadHashSHA256 \<or> m = PayloadHashEmpty \<or> m = PayloadHashUnsigned"

section \<open>Endpoints\<close>

definition ScopeRegional :: string where "ScopeRegional = ''regional''"
definition ScopeGlobal :: string where "ScopeGlobal = ''global''"

record AWSEndpoint =
  ep_Partition :: string
  ep_Host :: string
  ep_Service :: string
  ep_SigningService :: string
  ep_SigningRegion :: string
  ep_Region :: string
  ep_Global :: bool
  ep_Scope :: string
  ep_FIPS :: bool
  ep_DualStack :: bool
  ep_AccountID :: string

definition AWSEndpoint_IsGlobal :: "AWSEndpoint \<Rightarrow> bool" where
  "AWSEndpoint_IsGlobal e \<longleftrightarrow> ep_Global e \<or> ep_Scope e = ScopeGlobal"

definition AWSEndpoint_EffectiveScope :: "AWSEndpoint \<Rightarrow> string" where
  "AWSEndpoint_EffectiveScope e = (if AWSEndpoint_IsGlobal e then ScopeGlobal else ScopeRegional)"

text \<open>The rune classes of the label loops.\<close>

definition dns_rune :: "rune \<Rightarrow> bool" where
  "dns_rune r \<longleftrightarrow> (97 \<le> r \<and> r \<le> 122) \<or> (48 \<le> r \<and> r \<le> 57) \<or> r = 45"

definition signing_rune :: "rune \<Rightarrow> bool" where
  "signing_rune r \<longleftrightarrow> (65 \<le> r \<and> r \<le> 90) \<or> dns_rune r"

definition digit_rune :: "rune \<Rightarrow> bool" where
  "digit_rune r \<longleftrightarrow> 48 \<le> r \<and> r \<le> 57"

definition alnum_rune :: "rune \<Rightarrow> bool" where
  "alnum_rune r \<longleftrightarrow> (65 \<le> r \<and> r \<le> 90) \<or> (97 \<le> r \<and> r \<le> 122) \<or> digit_rune r"

text \<open>
  The loop over the labels of a dotted name, the same in \<^verbatim>\<open>AWSEndpoint.Validate\<close>,
  \<^verbatim>\<open>validateEndpointService\<close>, \<^verbatim>\<open>ValidateSigningService\<close>, \<^verbatim>\<open>validateEndpointPrefix\<close> and
  \<^verbatim>\<open>NormalizeEndpointHost\<close> but for its two messages and its character class.
\<close>

definition label_error :: "string \<Rightarrow> string \<Rightarrow> (rune \<Rightarrow> bool) \<Rightarrow> string \<Rightarrow> go_error" where
  "label_error shape chars ok label =
     (if label = [] \<or> length label > 63 \<or> hd label = CHR ''-'' \<or> last label = CHR ''-''
      then Some shape
      else if list_ex (\<lambda>r. \<not> ok r) (runes label) then Some chars
      else None)"

definition labels_error :: "string \<Rightarrow> string \<Rightarrow> (rune \<Rightarrow> bool) \<Rightarrow> string \<Rightarrow> go_error" where
  "labels_error shape chars ok name =
     first_err (label_error shape chars ok) (split_byte CHR ''.'' name)"

definition validateEndpointService :: "string \<Rightarrow> go_error" where
  "validateEndpointService val =
     (if val = [] \<or> length val > 253 \<or> val \<noteq> to_lower val
      then Some ''must be a lowercase DNS-like API prefix''
      else labels_error ''must contain non-empty DNS-like labels''
             ''must contain only ASCII DNS-like labels'' dns_rune val)"

definition ValidateSigningService :: "string \<Rightarrow> go_error" where
  "ValidateSigningService val =
     (if val = [] \<or> length val > 128 then Some ''signing service must be non-empty and bounded''
      else labels_error ''signing service must contain non-empty DNS-like labels''
             ''signing service contains unsupported syntax'' signing_rune val)"

definition validSigningIdentity :: "string \<Rightarrow> bool" where
  "validSigningIdentity val \<longleftrightarrow> ValidateSigningService val = None"

definition validSigningRegion :: "string \<Rightarrow> bool" where
  "validSigningRegion val \<longleftrightarrow>
     \<not> (val = [] \<or> length val > 64) \<and> list_all dns_rune (runes val)"

definition validateEndpointAccountID :: "string \<Rightarrow> go_error" where
  "validateEndpointAccountID val =
     (if val = [] then None
      else if length val \<noteq> 12 then Some ''endpoint account ID must be exactly 12 ASCII digits''
      else if list_ex (\<lambda>r. \<not> digit_rune r) (runes val)
      then Some ''endpoint account ID must be exactly 12 ASCII digits''
      else None)"

definition host_separators :: string where
  "host_separators = '' '' @ [CHR 0x09, CHR 0x0D, CHR 0x0A] @ '':/''"

definition AWSEndpoint_Validate :: "AWSEndpoint \<Rightarrow> go_error" where
  "AWSEndpoint_Validate e =
     (if trim_space (ep_Partition e) = [] then Some ''endpoint partition is required''
      else if trim_space (ep_Host e) = [] then Some ''endpoint host is required''
      else if length (ep_Host e) > 253 \<or> ep_Host e \<noteq> to_lower (ep_Host e) \<or> has_suffix (ep_Host e) ''.''
      then Some ''endpoint host must be normalized to lowercase without a trailing dot''
      else if contains_any (ep_Host e) host_separators
      then Some ''endpoint host must be a normalized DNS host without a port''
      else case labels_error ''endpoint host contains an invalid DNS label''
                  ''endpoint host contains a non-ASCII DNS label'' dns_rune (ep_Host e) of
        Some err \<Rightarrow> Some err
      | None \<Rightarrow>
     (case validateEndpointService (ep_Service e) of
        Some err \<Rightarrow> Some (''endpoint service: '' @ err)
      | None \<Rightarrow>
      if ep_SigningService e \<noteq> [] \<and> \<not> validSigningIdentity (ep_SigningService e)
      then Some ''endpoint signing service is invalid''
      else if ep_SigningRegion e \<noteq> [] \<and> \<not> validSigningRegion (ep_SigningRegion e)
      then Some ''endpoint signing Region is invalid''
      else if ep_SigningService e \<noteq> [] \<and> ep_SigningRegion e = []
      then Some ''endpoint signing Region is required with signing service''
      else if ep_SigningRegion e \<noteq> [] \<and> ep_SigningService e = []
      then Some ''endpoint signing service is required with signing Region''
      else case validateEndpointAccountID (ep_AccountID e) of
        Some err \<Rightarrow> Some err
      | None \<Rightarrow>
      if ep_Scope e \<noteq> [] \<and> ep_Scope e \<noteq> ScopeRegional \<and> ep_Scope e \<noteq> ScopeGlobal
      then Some ''unsupported endpoint scope''
      else if ep_Scope e = ScopeRegional \<and> ep_Global e
      then Some ''regional endpoint scope conflicts with global endpoint''
      else if \<not> AWSEndpoint_IsGlobal e \<and> trim_space (ep_Region e) = []
      then Some ''regional endpoint Region is required''
      else if AWSEndpoint_IsGlobal e \<and> ep_Region e \<noteq> []
      then Some ''global endpoint Region must be empty''
      else if ep_SigningService e \<noteq> [] \<and> \<not> AWSEndpoint_IsGlobal e \<and>
              ep_SigningRegion e \<noteq> ep_Region e
      then Some ''regional endpoint signing Region disagrees with endpoint Region''
      else None))"

definition EndpointIdentityEqual :: "AWSEndpoint \<Rightarrow> AWSEndpoint \<Rightarrow> bool" where
  "EndpointIdentityEqual a b \<longleftrightarrow>
     (let serviceMatch = (ep_SigningService a = [] \<or> ep_SigningService b = [] \<or>
                          ep_SigningService a = ep_SigningService b);
          regionMatch = (ep_SigningRegion a = [] \<or> ep_SigningRegion b = [] \<or>
                         ep_SigningRegion a = ep_SigningRegion b)
      in ep_Partition a = ep_Partition b \<and> ep_Host a = ep_Host b \<and> ep_Service a = ep_Service b \<and>
         ep_Region a = ep_Region b \<and>
         AWSEndpoint_EffectiveScope a = AWSEndpoint_EffectiveScope b \<and>
         ep_FIPS a = ep_FIPS b \<and> ep_DualStack a = ep_DualStack b \<and>
         ep_AccountID a = ep_AccountID b \<and> serviceMatch \<and> regionMatch)"

section \<open>Evidence of a decoder failure\<close>

definition EvidenceUnknown :: string where "EvidenceUnknown = ''unknown''"
definition EvidenceAuthoritative :: string where "EvidenceAuthoritative = ''authoritative''"
definition EvidenceValidated :: string where "EvidenceValidated = ''validated''"

record DecodeFailureEvidence =
  ev_Service :: string
  ev_Protocol :: string
  ev_ProtocolAvailable :: bool
  ev_ProtocolCertainty :: string
  ev_Operation :: string
  ev_OperationAvailable :: bool
  ev_OperationCertainty :: string

definition validEvidenceService :: "string \<Rightarrow> bool" where
  "validEvidenceService val \<longleftrightarrow> length val \<le> 128 \<and> validateEndpointService val = None"

definition validOperation :: "string \<Rightarrow> bool" where
  "validOperation s \<longleftrightarrow> s \<noteq> [] \<and> list_all alnum_rune (runes s)"

definition validEvidenceOperation :: "string \<Rightarrow> bool" where
  "validEvidenceOperation val \<longleftrightarrow> length val \<le> 128 \<and> validOperation val"

definition DecodeFailureEvidence_Validate :: "DecodeFailureEvidence \<Rightarrow> go_error" where
  "DecodeFailureEvidence_Validate e =
     (if ev_Service e \<noteq> [] \<and> \<not> validEvidenceService (ev_Service e)
      then Some ''invalid evidence service''
      else if ev_ProtocolAvailable e \<and>
              (ev_Service e = [] \<or> \<not> AWSProtocol_Supported (ev_Protocol e) \<or>
               ev_ProtocolCertainty e \<noteq> EvidenceAuthoritative)
      then Some ''available protocol evidence is not authoritative''
      else if \<not> ev_ProtocolAvailable e \<and>
              (ev_Protocol e \<noteq> [] \<or>
               (ev_ProtocolCertainty e \<noteq> [] \<and> ev_ProtocolCertainty e \<noteq> EvidenceUnknown))
      then Some ''unavailable protocol evidence must be empty and unknown''
      else if ev_OperationAvailable e \<and>
              (\<not> ev_ProtocolAvailable e \<or> ev_Service e = [] \<or>
               \<not> validEvidenceOperation (ev_Operation e) \<or>
               ev_OperationCertainty e \<noteq> EvidenceValidated)
      then Some ''available operation evidence is not validated''
      else if \<not> ev_OperationAvailable e \<and>
              (ev_Operation e \<noteq> [] \<or>
               (ev_OperationCertainty e \<noteq> [] \<and> ev_OperationCertainty e \<noteq> EvidenceUnknown))
      then Some ''unavailable operation evidence must be empty and unknown''
      else None)"

definition DecodeFailureEvidence_HasProtocol :: "DecodeFailureEvidence \<Rightarrow> bool" where
  "DecodeFailureEvidence_HasProtocol e \<longleftrightarrow>
     ev_ProtocolAvailable e \<and> AWSProtocol_Supported (ev_Protocol e)"

definition DecodeFailureEvidence_HasOperation :: "DecodeFailureEvidence \<Rightarrow> bool" where
  "DecodeFailureEvidence_HasOperation e \<longleftrightarrow>
     ev_OperationAvailable e \<and> validEvidenceOperation (ev_Operation e)"

text \<open>
  An error value as \<^verbatim>\<open>errors.As\<close> walks it: a plain error, an error that wraps another one
  (\<^verbatim>\<open>fmt.Errorf\<close> with \<^verbatim>\<open>%w\<close>), or a \<^verbatim>\<open>*DecodeFailureError\<close> with its cause.
\<close>

datatype err_value =
    PlainError string
  | WrapError string err_value
  | DecodeFailureError DecodeFailureEvidence "err_value option"

fun DecodeFailureError_Error :: "err_value \<Rightarrow> string" where
  "DecodeFailureError_Error (PlainError t) = t"
| "DecodeFailureError_Error (WrapError t e) = t @ DecodeFailureError_Error e"
| "DecodeFailureError_Error (DecodeFailureError ev None) = ''request decode failed''"
| "DecodeFailureError_Error (DecodeFailureError ev (Some c)) = DecodeFailureError_Error c"

fun as_decode_failure :: "err_value \<Rightarrow> DecodeFailureEvidence option" where
  "as_decode_failure (PlainError t) = None"
| "as_decode_failure (WrapError t e) = as_decode_failure e"
| "as_decode_failure (DecodeFailureError ev c) = Some ev"

definition unknown_evidence :: DecodeFailureEvidence where
  "unknown_evidence = \<lparr>ev_Service = [], ev_Protocol = [], ev_ProtocolAvailable = False,
     ev_ProtocolCertainty = EvidenceUnknown, ev_Operation = [], ev_OperationAvailable = False,
     ev_OperationCertainty = EvidenceUnknown\<rparr>"

definition default_certainty :: "DecodeFailureEvidence \<Rightarrow> DecodeFailureEvidence" where
  "default_certainty evidence =
     (let e1 = (if \<not> ev_ProtocolAvailable evidence \<and> ev_ProtocolCertainty evidence = []
                then evidence\<lparr>ev_ProtocolCertainty := EvidenceUnknown\<rparr> else evidence)
      in if \<not> ev_OperationAvailable e1 \<and> ev_OperationCertainty e1 = []
         then e1\<lparr>ev_OperationCertainty := EvidenceUnknown\<rparr> else e1)"

definition NewDecodeFailureError ::
  "DecodeFailureEvidence \<Rightarrow> err_value option \<Rightarrow> err_value option" where
  "NewDecodeFailureError evidence cause =
     (case cause of
        None \<Rightarrow> None
      | Some c \<Rightarrow>
          (let e = default_certainty evidence in
           Some (DecodeFailureError
             (if DecodeFailureEvidence_Validate e \<noteq> None then unknown_evidence else e) (Some c))))"

definition DecodeFailureEvidenceFromError :: "err_value option \<Rightarrow> DecodeFailureEvidence option" where
  "DecodeFailureEvidenceFromError err =
     (case err of
        None \<Rightarrow> None
      | Some e \<Rightarrow>
          (case as_decode_failure e of
             None \<Rightarrow> None
           | Some ev \<Rightarrow> if DecodeFailureEvidence_Validate ev \<noteq> None then None else Some ev))"

definition evidence_conflict :: "DecodeFailureEvidence \<Rightarrow> DecodeFailureEvidence \<Rightarrow> bool" where
  "evidence_conflict existing evidence \<longleftrightarrow>
     (ev_Service existing \<noteq> [] \<and> ev_Service evidence \<noteq> [] \<and> ev_Service existing \<noteq> ev_Service evidence) \<or>
     (ev_ProtocolAvailable existing \<and> ev_ProtocolAvailable evidence \<and>
      ev_Protocol existing \<noteq> ev_Protocol evidence) \<or>
     (ev_OperationAvailable existing \<and> ev_OperationAvailable evidence \<and>
      ev_Operation existing \<noteq> ev_Operation evidence)"

definition merge_evidence ::
  "DecodeFailureEvidence \<Rightarrow> DecodeFailureEvidence \<Rightarrow> DecodeFailureEvidence" where
  "merge_evidence existing evidence =
     (let e1 = (if ev_Service existing = [] then existing\<lparr>ev_Service := ev_Service evidence\<rparr>
                else existing);
          e2 = (if \<not> ev_ProtocolAvailable e1 \<and> ev_ProtocolAvailable evidence
                then e1\<lparr>ev_Protocol := ev_Protocol evidence, ev_ProtocolAvailable := True,
                        ev_ProtocolCertainty := ev_ProtocolCertainty evidence\<rparr> else e1)
      in if \<not> ev_OperationAvailable e2 \<and> ev_OperationAvailable evidence
         then e2\<lparr>ev_Operation := ev_Operation evidence, ev_OperationAvailable := True,
                 ev_OperationCertainty := ev_OperationCertainty evidence\<rparr> else e2)"

definition AttachDecodeFailureEvidence ::
  "err_value option \<Rightarrow> DecodeFailureEvidence \<Rightarrow> err_value option" where
  "AttachDecodeFailureEvidence err evidence =
     (if err = None then None
      else if DecodeFailureEvidence_Validate evidence \<noteq> None then err
      else
        (case DecodeFailureEvidenceFromError err of
           None \<Rightarrow> NewDecodeFailureError evidence err
         | Some existing \<Rightarrow>
             if evidence_conflict existing evidence
             then NewDecodeFailureError unknown_evidence err
             else NewDecodeFailureError (merge_evidence existing evidence) err))"

section \<open>Verified requests\<close>

record 'req VerifiedRequest =
  vr_Request :: "'req option"
  vr_Endpoint :: AWSEndpoint
  vr_Protocol :: string
  vr_SigningScheme :: string
  vr_SigningRegion :: string
  vr_SigningService :: string
  vr_PayloadMode :: string

definition VerifiedRequest_Validate :: "'req VerifiedRequest \<Rightarrow> go_error" where
  "VerifiedRequest_Validate r =
     (if vr_Request r = None then Some ''verified request is nil''
      else case AWSEndpoint_Validate (vr_Endpoint r) of
        Some err \<Rightarrow> Some (''endpoint: '' @ err)
      | None \<Rightarrow>
      if \<not> AWSProtocol_Supported (vr_Protocol r) then Some ''unsupported AWS protocol''
      else if \<not> SigningScheme_Supported (vr_SigningScheme r) then Some ''unsupported signing scheme''
      else if vr_SigningRegion r = [] \<or> vr_SigningService r = []
      then Some ''signing Region and service are required''
      else if ep_SigningService (vr_Endpoint r) \<noteq> [] \<and>
              (vr_SigningService r \<noteq> ep_SigningService (vr_Endpoint r) \<or>
               vr_SigningRegion r \<noteq> ep_SigningRegion (vr_Endpoint r))
      then Some ''authenticated signing identity disagrees with endpoint''
      else if \<not> PayloadHashMode_Supported (vr_PayloadMode r) then Some ''unsupported payload mode''
      else None)"

section \<open>Parameter values\<close>

text \<open>A \<^verbatim>\<open>float64\<close>, as far as the finiteness test distinguishes it; a finite one is \<open>m * 2 ^ e\<close>.\<close>

datatype float64 = NaN | PosInf | NegInf | Finite int int

definition float_finite :: "float64 \<Rightarrow> bool" where
  "float_finite f \<longleftrightarrow> (case f of Finite _ _ \<Rightarrow> True | _ \<Rightarrow> False)"

definition ValueNull :: string where "ValueNull = ''null''"
definition ValueString :: string where "ValueString = ''string''"
definition ValueBoolean :: string where "ValueBoolean = ''boolean''"
definition ValueInteger :: string where "ValueInteger = ''integer''"
definition ValueNumber :: string where "ValueNumber = ''number''"
definition ValueObject :: string where "ValueObject = ''object''"
definition ValueArray :: string where "ValueArray = ''array''"

lemmas value_kind_defs = ValueNull_def ValueString_def ValueBoolean_def ValueInteger_def
  ValueNumber_def ValueObject_def ValueArray_def

datatype Value = Value
  (val_Kind: string) (val_String: string) (val_Bool: bool) (val_Int: int) (val_Float: float64)
  (val_Object: "(string \<times> Value) list") (val_Array: "Value list")

fun Value_validate :: "nat \<Rightarrow> Value \<Rightarrow> go_error" where
  "Value_validate depth (Value kind s b i f obj arr) =
     (if depth > 64 then Some ''parameter value nesting exceeds 64 levels''
      else if kind = ValueNull \<or> kind = ValueString \<or> kind = ValueBoolean \<or> kind = ValueInteger
      then None
      else if kind = ValueNumber then
        (if \<not> float_finite f then Some ''number parameter is not finite'' else None)
      else if kind = ValueObject then
        first_err (\<lambda>(key, val).
          if trim_space key = [] then Some ''object parameter key is empty''
          else map_option ((@) ''object parameter: '') (Value_validate (depth + 1) val)) obj
      else if kind = ValueArray then
        first_err (\<lambda>val. map_option ((@) ''array parameter: '') (Value_validate (depth + 1) val)) arr
      else Some ''unsupported parameter value kind'')"

definition Value_Validate :: "Value \<Rightarrow> go_error" where
  "Value_Validate v = Value_validate 0 v"

section \<open>IAM requirements and mapping results\<close>

definition ScopeExact :: string where "ScopeExact = ''exact''"
definition ScopeSet :: string where "ScopeSet = ''set''"
definition ScopeKnownGlobal :: string where "ScopeKnownGlobal = ''known_global''"
definition ScopeUnresolved :: string where "ScopeUnresolved = ''unresolved''"

lemmas scope_kind_defs = ScopeExact_def ScopeSet_def ScopeKnownGlobal_def ScopeUnresolved_def

definition ScopeKind_Valid :: "string \<Rightarrow> bool" where
  "ScopeKind_Valid s \<longleftrightarrow>
     s = ScopeExact \<or> s = ScopeSet \<or> s = ScopeKnownGlobal \<or> s = ScopeUnresolved"

record IAMRequirement =
  rq_Action :: string
  rq_Resources :: "string list"
  rq_ScopeKind :: string
  rq_Dependent :: bool
  rq_ConditionHint :: "(string \<times> string list) list"

definition iam_action_rune :: "rune \<Rightarrow> bool" where
  "iam_action_rune r \<longleftrightarrow> alnum_rune r \<or> r = 45 \<or> r = 42 \<or> r = 63"

text \<open>The loop over the resources, with the set of the resources seen.\<close>

fun resources_error :: "string set \<Rightarrow> string list \<Rightarrow> go_error" where
  "resources_error seen [] = None"
| "resources_error seen (resource # rest) =
     (if resource = [] then Some ''resource is empty''
      else if resource \<in> seen then Some ''resource is duplicated''
      else resources_error (insert resource seen) rest)"

definition IAMRequirement_Validate :: "IAMRequirement \<Rightarrow> go_error" where
  "IAMRequirement_Validate r =
     (if trim_space (rq_Action r) = [] then Some ''IAM action is required''
      else if (case index_byte (rq_Action r) CHR '':'' of
                 None \<Rightarrow> True
               | Some colon \<Rightarrow> colon = 0 \<or> colon = length (rq_Action r) - 1 \<or>
                               count_byte (rq_Action r) CHR '':'' \<noteq> 1)
      then Some ''IAM action must contain exactly one service:operation separator''
      else if list_ex (\<lambda>part. list_ex (\<lambda>c. \<not> iam_action_rune c) (runes part))
                (split_byte CHR '':'' (rq_Action r))
      then Some ''IAM action contains unsupported syntax''
      else if \<not> ScopeKind_Valid (rq_ScopeKind r) then Some ''unsupported IAM scope''
      else case resources_error {} (rq_Resources r) of
        Some err \<Rightarrow> Some err
      | None \<Rightarrow>
      if rq_ScopeKind r = ScopeExact \<and> length (rq_Resources r) \<noteq> 1
      then Some ''exact IAM scope requires one resource''
      else if rq_ScopeKind r = ScopeSet \<and> length (rq_Resources r) = 0
      then Some ''set IAM scope requires at least one resource''
      else if rq_ScopeKind r = ScopeKnownGlobal \<and>
              (length (rq_Resources r) \<noteq> 1 \<or> rq_Resources r ! 0 \<noteq> ''*'')
      then Some ''known_global IAM scope requires resource *''
      else None)"

definition ConfidenceHigh :: string where "ConfidenceHigh = ''high''"
definition ConfidenceMedium :: string where "ConfidenceMedium = ''medium''"
definition ConfidenceLow :: string where "ConfidenceLow = ''low''"
definition ConfidenceUnknown :: string where "ConfidenceUnknown = ''unknown''"
definition ConfidenceUnsupported :: string where "ConfidenceUnsupported = ''unsupported''"

lemmas confidence_defs = ConfidenceHigh_def ConfidenceMedium_def ConfidenceLow_def
  ConfidenceUnknown_def ConfidenceUnsupported_def

definition MappingConfidence_Valid :: "string \<Rightarrow> bool" where
  "MappingConfidence_Valid c \<longleftrightarrow> c = ConfidenceHigh \<or> c = ConfidenceMedium \<or> c = ConfidenceLow \<or>
     c = ConfidenceUnknown \<or> c = ConfidenceUnsupported"

record MappingEvidence =
  me_Source :: string
  me_Field :: string
  me_Value :: string

record MappingResult =
  mr_Service :: string
  mr_Operation :: string
  mr_Requirements :: "IAMRequirement list"
  mr_MapperVersion :: string
  mr_IamLiveVersion :: string
  mr_AuthorizationDataVersion :: string
  mr_Confidence :: string
  mr_Evidence :: "MappingEvidence list"

definition MappingResult_Validate :: "MappingResult \<Rightarrow> go_error" where
  "MappingResult_Validate m =
     (if trim_space (mr_Service m) = [] \<or> trim_space (mr_Operation m) = []
      then Some ''mapping service and operation are required''
      else if \<not> MappingConfidence_Valid (mr_Confidence m) then Some ''unsupported mapping confidence''
      else if trim_space (mr_MapperVersion m) = [] then Some ''mapper version is required''
      else if length (mr_Requirements m) = 0
      then Some ''mapping must contain at least one IAM requirement''
      else case first_err IAMRequirement_Validate (mr_Requirements m) of
        Some err \<Rightarrow> Some (''requirement: '' @ err)
      | None \<Rightarrow>
          first_err (\<lambda>e. if trim_space (me_Source e) = [] \<or> trim_space (me_Field e) = []
                         then Some ''evidence has no source or field'' else None)
            (mr_Evidence m))"

section \<open>Decoded requests\<close>

record DecodedAWSRequest =
  dr_Partition :: string
  dr_EndpointHost :: string
  dr_Service :: string
  dr_SigningService :: string
  dr_SigningRegion :: string
  dr_Region :: string
  dr_Scope :: string
  dr_FIPS :: bool
  dr_DualStack :: bool
  dr_AccountID :: string
  dr_CallerAccountID :: string
  dr_Protocol :: string
  dr_Operation :: string
  dr_Method :: string
  dr_CanonicalPath :: string
  dr_CanonicalQuery :: "(string \<times> string list) list"
  dr_Headers :: "(string \<times> string list) list"
  dr_Parameters :: "(string \<times> Value) list"
  dr_PayloadHashMode :: string
  dr_PayloadBytes :: int

definition validateCallerAccountID :: "string \<Rightarrow> go_error" where
  "validateCallerAccountID account =
     (if account = [] then None
      else if length account \<noteq> 12 then Some ''must be empty or exactly 12 ASCII digits''
      else if list_ex (\<lambda>c. \<not> is_digit_byte c) account
      then Some ''must be empty or exactly 12 ASCII digits''
      else None)"

definition decoded_endpoint :: "DecodedAWSRequest \<Rightarrow> AWSEndpoint" where
  "decoded_endpoint r = \<lparr>ep_Partition = dr_Partition r, ep_Host = dr_EndpointHost r,
     ep_Service = dr_Service r, ep_SigningService = dr_SigningService r,
     ep_SigningRegion = dr_SigningRegion r, ep_Region = dr_Region r, ep_Global = (dr_Region r = []),
     ep_Scope = dr_Scope r, ep_FIPS = dr_FIPS r, ep_DualStack = dr_DualStack r,
     ep_AccountID = dr_AccountID r\<rparr>"

definition decoded_methods :: "string list" where
  "decoded_methods = [''GET'', ''POST'', ''PUT'', ''PATCH'', ''DELETE'', ''HEAD'', ''OPTIONS'']"

definition DecodedAWSRequest_Validate :: "DecodedAWSRequest \<Rightarrow> go_error" where
  "DecodedAWSRequest_Validate r =
     (case validateCallerAccountID (dr_CallerAccountID r) of
        Some err \<Rightarrow> Some (''caller account ID: '' @ err)
      | None \<Rightarrow>
      if trim_space (dr_Partition r) = [] \<or> trim_space (dr_EndpointHost r) = [] \<or>
         trim_space (dr_Service r) = [] \<or> trim_space (dr_Operation r) = []
      then Some ''decoded request endpoint, service, and operation are required''
      else case AWSEndpoint_Validate (decoded_endpoint r) of
        Some err \<Rightarrow> Some (''endpoint: '' @ err)
      | None \<Rightarrow>
      if \<not> AWSProtocol_Supported (dr_Protocol r) then Some ''unsupported AWS protocol''
      else if to_upper (dr_Method r) \<notin> set decoded_methods then Some ''unsupported HTTP method''
      else if dr_CanonicalPath r = [] \<or> hd (dr_CanonicalPath r) \<noteq> CHR ''/''
      then Some ''canonical path must be absolute''
      else if \<not> PayloadHashMode_Supported (dr_PayloadHashMode r) then Some ''unsupported payload mode''
      else if dr_PayloadBytes r < 0 then Some ''payload size cannot be negative''
      else first_err (\<lambda>(key, val).
             if trim_space key = [] then Some ''request parameter name is empty''
             else map_option ((@) ''parameter: '') (Value_Validate val)) (dr_Parameters r))"

section \<open>Lemmas\<close>

lemma ascii_pred_rune_classes:
  "ascii_pred dns_rune" "ascii_pred signing_rune" "ascii_pred digit_rune" "ascii_pred alnum_rune"
  "ascii_pred iam_action_rune"
  by (auto simp: ascii_pred_def dns_rune_def signing_rune_def digit_rune_def alnum_rune_def
      iam_action_rune_def)

lemma resources_error_None:
  "resources_error seen rs = None \<longleftrightarrow> [] \<notin> set rs \<and> distinct rs \<and> set rs \<inter> seen = {}"
  by (induction seen rs rule: resources_error.induct) auto

lemma label_error_None:
  "label_error shape chars ok label = None \<longleftrightarrow>
     label \<noteq> [] \<and> length label \<le> 63 \<and> hd label \<noteq> CHR ''-'' \<and> last label \<noteq> CHR ''-'' \<and>
     list_all ok (runes label)"
  by (auto simp: label_error_def list_all_iff list_ex_iff)

lemma labels_error_None:
  "labels_error shape chars ok name = None \<longleftrightarrow>
     (\<forall>label \<in> set (split_byte CHR ''.'' name). label_error shape chars ok label = None)"
  by (simp add: labels_error_def)

text \<open>Whether a name has bad labels does not depend on the messages.\<close>

lemma label_error_messages:
  "label_error shape chars ok label = None \<longleftrightarrow> label_error shape' chars' ok label = None"
  by (simp add: label_error_None)

lemma labels_error_messages:
  "labels_error shape chars ok name = None \<longleftrightarrow> labels_error shape' chars' ok name = None"
  unfolding labels_error_None using label_error_messages by blast

definition dns_name :: "string \<Rightarrow> bool" where
  "dns_name name \<longleftrightarrow> (\<forall>label \<in> set (split_byte CHR ''.'' name).
     label \<noteq> [] \<and> length label \<le> 63 \<and> hd label \<noteq> CHR ''-'' \<and> last label \<noteq> CHR ''-'' \<and>
     list_all (\<lambda>c. dns_rune (ord c)) label)"

lemma labels_error_dns_name:
  "labels_error shape chars dns_rune name = None \<longleftrightarrow> dns_name name"
  by (simp add: labels_error_None label_error_None dns_name_def
      list_all_runes_bytes [OF ascii_pred_rune_classes(1)])

lemma dns_rune_byte:
  "dns_rune (ord c) \<Longrightarrow> is_ascii c \<and> \<not> is_upper_byte c"
  by (auto simp: dns_rune_def is_ascii_def is_upper_byte_iff)

lemma dns_name_bytes:
  assumes "dns_name name"
  shows "c \<in> set name \<Longrightarrow> dns_rune (ord c) \<or> c = CHR ''.''"
proof -
  assume "c \<in> set name"
  then have "c = CHR ''.'' \<or> (\<exists>w \<in> set (split_byte CHR ''.'' name). c \<in> set w)"
    using set_join [of c "''.''" "split_byte CHR ''.'' name"] by simp
  with assms show ?thesis by (auto simp: dns_name_def list_all_iff)
qed

lemma dns_name_lower:
  assumes "dns_name name"
  shows "to_lower name = name"
proof (rule to_lower_id)
  have "is_ascii CHR ''.'' \<and> \<not> is_upper_byte CHR ''.''"
    by (simp add: is_ascii_def is_upper_byte_iff ord_def)
  with dns_name_bytes [OF assms] dns_rune_byte
  show "list_all (\<lambda>c. is_ascii c \<and> \<not> is_upper_byte c) name" by (fastforce simp: list_all_iff)
qed

lemma validateEndpointService_None:
  "validateEndpointService s = None \<longleftrightarrow> s \<noteq> [] \<and> length s \<le> 253 \<and> dns_name s"
  using dns_name_lower [of s] by (auto simp: validateEndpointService_def labels_error_dns_name)


lemma AWSEndpoint_Validate_None:
  "AWSEndpoint_Validate e = None \<longleftrightarrow>
     trim_space (ep_Partition e) \<noteq> [] \<and> trim_space (ep_Host e) \<noteq> [] \<and>
     length (ep_Host e) \<le> 253 \<and> \<not> has_suffix (ep_Host e) ''.'' \<and>
     \<not> contains_any (ep_Host e) host_separators \<and> dns_name (ep_Host e) \<and>
     validateEndpointService (ep_Service e) = None \<and>
     (ep_SigningService e = [] \<or> validSigningIdentity (ep_SigningService e)) \<and>
     (ep_SigningRegion e = [] \<or> validSigningRegion (ep_SigningRegion e)) \<and>
     (ep_SigningService e = [] \<longleftrightarrow> ep_SigningRegion e = []) \<and>
     validateEndpointAccountID (ep_AccountID e) = None \<and>
     ep_Scope e \<in> {[], ScopeRegional, ScopeGlobal} \<and> (ep_Scope e = ScopeRegional \<longrightarrow> \<not> ep_Global e) \<and>
     (if AWSEndpoint_IsGlobal e then ep_Region e = []
      else trim_space (ep_Region e) \<noteq> [] \<and>
           (ep_SigningService e = [] \<or> ep_SigningRegion e = ep_Region e))"
  unfolding AWSEndpoint_Validate_def guard_None labels_error_dns_name
  using dns_name_lower [of "ep_Host e"] by (auto simp: not_less)

text \<open>Valid evidence, and what merging two pieces of valid evidence gives.\<close>

abbreviation valid_evidence :: "DecodeFailureEvidence \<Rightarrow> bool" where
  "valid_evidence e \<equiv> DecodeFailureEvidence_Validate e = None"

lemma unknown_evidence_valid [simp]: "valid_evidence unknown_evidence"
  by (simp add: DecodeFailureEvidence_Validate_def unknown_evidence_def)

lemma valid_evidence_iff:
  "valid_evidence e \<longleftrightarrow>
     (ev_Service e \<noteq> [] \<longrightarrow> validEvidenceService (ev_Service e)) \<and>
     (if ev_ProtocolAvailable e
      then ev_Service e \<noteq> [] \<and> AWSProtocol_Supported (ev_Protocol e) \<and>
           ev_ProtocolCertainty e = EvidenceAuthoritative
      else ev_Protocol e = [] \<and> ev_ProtocolCertainty e \<in> {[], EvidenceUnknown}) \<and>
     (if ev_OperationAvailable e
      then ev_ProtocolAvailable e \<and> validEvidenceOperation (ev_Operation e) \<and>
           ev_OperationCertainty e = EvidenceValidated
      else ev_Operation e = [] \<and> ev_OperationCertainty e \<in> {[], EvidenceUnknown})"
  by (cases "ev_ProtocolAvailable e"; cases "ev_OperationAvailable e")
     (simp_all add: DecodeFailureEvidence_Validate_def; blast)+

lemma default_certainty_valid: "valid_evidence e \<Longrightarrow> valid_evidence (default_certainty e)"
  by (cases "ev_ProtocolAvailable e"; cases "ev_OperationAvailable e")
     (simp_all add: valid_evidence_iff default_certainty_def Let_def; blast)+

lemma merge_evidence_valid:
  "valid_evidence a \<Longrightarrow> valid_evidence b \<Longrightarrow> \<not> evidence_conflict a b \<Longrightarrow>
     valid_evidence (merge_evidence a b)"
  by (cases "ev_ProtocolAvailable a"; cases "ev_OperationAvailable a";
      cases "ev_ProtocolAvailable b"; cases "ev_OperationAvailable b"; cases "ev_Service a = []")
     (simp_all add: valid_evidence_iff merge_evidence_def Let_def)

lemma FromError_New:
  "valid_evidence e \<Longrightarrow>
     DecodeFailureEvidenceFromError (NewDecodeFailureError e (Some c)) = Some (default_certainty e)"
  using default_certainty_valid [of e]
  by (simp add: DecodeFailureEvidenceFromError_def NewDecodeFailureError_def Let_def)

lemma FromError_valid: "DecodeFailureEvidenceFromError err = Some e \<Longrightarrow> valid_evidence e"
  by (auto simp: DecodeFailureEvidenceFromError_def split: option.splits if_splits)

lemma FromError_New_valid:
  "\<exists>e. DecodeFailureEvidenceFromError (NewDecodeFailureError ev (Some c)) = Some e"
  by (simp add: DecodeFailureEvidenceFromError_def NewDecodeFailureError_def Let_def)

section \<open>Properties\<close>

text \<open>
  Attaching evidence to a decoder error never loses and never invents evidence: the
  result carries valid evidence; a conflict with the evidence already attached resets it to the
  unknown evidence; otherwise the new evidence has the service, protocol and operation of the
  old one where that has them and of the attached one elsewhere, so the defensive
  re-validation in \<^verbatim>\<open>NewDecodeFailureError\<close> never discards a merge.
\<close>

theorem attach_evidence_merges:
  assumes "valid_evidence ev"
  shows "DecodeFailureEvidenceFromError (AttachDecodeFailureEvidence (Some err) ev) =
     Some (case DecodeFailureEvidenceFromError (Some err) of
             None \<Rightarrow> default_certainty ev
           | Some old \<Rightarrow> if evidence_conflict old ev then unknown_evidence
                         else default_certainty (merge_evidence old ev))"
proof (cases "DecodeFailureEvidenceFromError (Some err)")
  case None
  with assms show ?thesis by (simp add: AttachDecodeFailureEvidence_def FromError_New)
next
  case (Some old)
  have "default_certainty unknown_evidence = unknown_evidence"
    by (simp add: default_certainty_def unknown_evidence_def EvidenceUnknown_def)
  with Some assms FromError_valid [OF Some] merge_evidence_valid [of old ev] show ?thesis
    by (simp add: AttachDecodeFailureEvidence_def FromError_New)
qed

theorem attach_evidence_merges_witness:
  "valid_evidence unknown_evidence \<and>
   DecodeFailureEvidenceFromError
     (AttachDecodeFailureEvidence (Some (PlainError ''x'')) unknown_evidence) =
     Some (default_certainty unknown_evidence)"
  using attach_evidence_merges [OF unknown_evidence_valid, of "PlainError ''x''"]
  by (simp add: DecodeFailureEvidenceFromError_def)

text \<open>
  A validated requirement is enforceable: its action is one service and one operation
  around a single colon, its resources are non-empty and pairwise distinct, an exact scope has one
  resource, a set scope at least one, and a known-global scope is the single resource \<^verbatim>\<open>*\<close>.
\<close>

theorem requirement_validate_shape:
  assumes "IAMRequirement_Validate r = None"
  shows "count_byte (rq_Action r) CHR '':'' = 1 \<and> [] \<notin> set (rq_Resources r) \<and>
     distinct (rq_Resources r) \<and> ScopeKind_Valid (rq_ScopeKind r) \<and>
     (rq_ScopeKind r = ScopeExact \<longrightarrow> (\<exists>x. rq_Resources r = [x])) \<and>
     (rq_ScopeKind r = ScopeSet \<longrightarrow> rq_Resources r \<noteq> []) \<and>
     (rq_ScopeKind r = ScopeKnownGlobal \<longrightarrow> rq_Resources r = [''*''])"
proof -
  from assms have "resources_error {} (rq_Resources r) = None" "ScopeKind_Valid (rq_ScopeKind r)"
    "count_byte (rq_Action r) CHR '':'' = 1"
    "rq_ScopeKind r = ScopeExact \<longrightarrow> length (rq_Resources r) = 1"
    "rq_ScopeKind r = ScopeSet \<longrightarrow> rq_Resources r \<noteq> []"
    "rq_ScopeKind r = ScopeKnownGlobal \<longrightarrow> length (rq_Resources r) = 1 \<and> rq_Resources r ! 0 = ''*''"
    by (simp_all add: IAMRequirement_Validate_def split: if_splits option.splits)
  then show ?thesis
    by (simp add: resources_error_None length_Suc_conv) (metis nth_Cons_0)
qed

definition sample_requirement :: IAMRequirement where
  "sample_requirement = \<lparr>rq_Action = ''s3:GetObject'', rq_Resources = [''arn:aws:s3:::bucket/key''],
     rq_ScopeKind = ''exact'', rq_Dependent = False, rq_ConditionHint = []\<rparr>"

lemmas rune_class_defs = dns_rune_def signing_rune_def digit_rune_def alnum_rune_def
  iam_action_rune_def

lemma sample_requirement_valid: "IAMRequirement_Validate sample_requirement = None"
  by (simp add: IAMRequirement_Validate_def sample_requirement_def go_simps go_defs rune_class_defs
      utf8_chunks_ascii scope_kind_defs ScopeKind_Valid_def)

theorem requirement_validate_shape_witness:
  "IAMRequirement_Validate sample_requirement = None \<and>
   count_byte (rq_Action sample_requirement) CHR '':'' = 1 \<and>
   (\<exists>x. rq_Resources sample_requirement = [x])"
  using requirement_validate_shape [OF sample_requirement_valid] sample_requirement_valid
  by (simp add: sample_requirement_def scope_kind_defs)

section \<open>A sample request\<close>

text \<open>A concrete endpoint, request and mapping, on which hypotheses are shown to hold.\<close>

definition sample_endpoint :: AWSEndpoint where
  "sample_endpoint = \<lparr>ep_Partition = ''aws'', ep_Host = ''s3.us-east-1.amazonaws.com'',
     ep_Service = ''s3'', ep_SigningService = ''s3'', ep_SigningRegion = ''us-east-1'',
     ep_Region = ''us-east-1'', ep_Global = False, ep_Scope = ''regional'', ep_FIPS = False,
     ep_DualStack = False, ep_AccountID = []\<rparr>"

lemmas endpoint_eval = AWSEndpoint_Validate_None validateEndpointService_None validSigningIdentity_def
  ValidateSigningService_def validSigningRegion_def validateEndpointAccountID_def
  AWSEndpoint_IsGlobal_def guard_None

lemma sample_endpoint_valid: "AWSEndpoint_Validate sample_endpoint = None"
  unfolding endpoint_eval
  by (simp add: sample_endpoint_def go_simps go_defs dns_name_def rune_class_defs ScopeRegional_def
      ScopeGlobal_def labels_error_def label_error_def host_separators_def)

definition sample_request :: DecodedAWSRequest where
  "sample_request = \<lparr>dr_Partition = ''aws'', dr_EndpointHost = ''s3.us-east-1.amazonaws.com'',
     dr_Service = ''s3'', dr_SigningService = ''s3'', dr_SigningRegion = ''us-east-1'',
     dr_Region = ''us-east-1'', dr_Scope = ''regional'', dr_FIPS = False, dr_DualStack = False,
     dr_AccountID = [], dr_CallerAccountID = ''123456789012'', dr_Protocol = ''rest-xml'',
     dr_Operation = ''GetObject'', dr_Method = ''GET'', dr_CanonicalPath = ''/bucket/key'',
     dr_CanonicalQuery = [], dr_Headers = [], dr_Parameters = [], dr_PayloadHashMode = ''empty'',
     dr_PayloadBytes = 0\<rparr>"

lemma sample_request_endpoint: "decoded_endpoint sample_request = sample_endpoint"
  by (simp add: decoded_endpoint_def sample_request_def sample_endpoint_def)

lemma sample_request_valid: "DecodedAWSRequest_Validate sample_request = None"
  unfolding DecodedAWSRequest_Validate_def guard_None sample_request_endpoint
  by (simp add: sample_endpoint_valid)
     (simp add: sample_request_def validateCallerAccountID_def go_simps go_defs decoded_methods_def
      AWSProtocol_Supported_def protocol_defs PayloadHashMode_Supported_def payload_mode_defs)

definition sample_mapping :: MappingResult where
  "sample_mapping = \<lparr>mr_Service = ''s3'', mr_Operation = ''GetObject'',
     mr_Requirements = [sample_requirement], mr_MapperVersion = ''m1'', mr_IamLiveVersion = [],
     mr_AuthorizationDataVersion = [], mr_Confidence = ''high'', mr_Evidence = []\<rparr>"

lemma sample_mapping_valid: "MappingResult_Validate sample_mapping = None"
  unfolding MappingResult_Validate_def guard_None
  by (simp add: sample_mapping_def sample_requirement_valid)
     (simp add: go_simps go_defs MappingConfidence_Valid_def confidence_defs)

end
