(* ===== verification/Go_Http.thy ===== *)
theory Go_Http
  imports Kordn_Prelude
begin

text \<open>
  The part of the Go packages \<^verbatim>\<open>net/http\<close> and \<^verbatim>\<open>net/textproto\<close> that the sources use: header
  maps with canonical keys, requests and responses. A header is an association list from
  canonical keys to values in their order; at most one entry per key is created by the operations.
\<close>

type_synonym http_header = "(string \<times> string list) list"

section \<open>Header keys\<close>

text \<open>The bytes of a header field name, \<^verbatim>\<open>validHeaderFieldByte\<close> of \<^verbatim>\<open>net/textproto\<close>.\<close>

definition token_byte :: "char \<Rightarrow> bool" where
  [go_defs]: "token_byte c \<longleftrightarrow> is_digit_byte c \<or> is_lower_byte c \<or> is_upper_byte c \<or>
     c \<in> set (''!#$%&*+-.^_|~'' @ [CHR 0x27, CHR 0x60])"

fun canonical_key_bytes :: "bool \<Rightarrow> string \<Rightarrow> string" where
  "canonical_key_bytes upper [] = []"
| "canonical_key_bytes upper (c # cs) =
     (if upper then ascii_upper_byte c else ascii_lower_byte c) #
     canonical_key_bytes (c = CHR ''-'') cs"

definition canonical_header_key :: "string \<Rightarrow> string" where
  [go_defs]: "canonical_header_key k =
     (if list_all token_byte k then canonical_key_bytes True k else k)"

section \<open>Header maps\<close>

definition header_values :: "http_header \<Rightarrow> string \<Rightarrow> string list" where
  [go_defs]: "header_values h key = (case map_of h (canonical_header_key key) of None \<Rightarrow> [] | Some vs \<Rightarrow> vs)"

definition header_get :: "http_header \<Rightarrow> string \<Rightarrow> string" where
  [go_defs]: "header_get h key = (case header_values h key of [] \<Rightarrow> [] | v # _ \<Rightarrow> v)"

definition header_del :: "http_header \<Rightarrow> string \<Rightarrow> http_header" where
  [go_defs]: "header_del h key = filter (\<lambda>(k, _). k \<noteq> canonical_header_key key) h"

definition header_set :: "http_header \<Rightarrow> string \<Rightarrow> string \<Rightarrow> http_header" where
  [go_defs]: "header_set h key v = header_del h key @ [(canonical_header_key key, [v])]"

section \<open>URLs\<close>

text \<open>
  The fields of \<^verbatim>\<open>net/url.URL\<close> the sources read (\<open>url_User\<close> tells whether \<^verbatim>\<open>User\<close> is set)
  and the percent coding of its paths: \<^verbatim>\<open>unescape\<close>, \<^verbatim>\<open>shouldEscape\<close>, \<^verbatim>\<open>escape\<close> and
  \<^verbatim>\<open>validEncoded\<close> in the path modes, \<^verbatim>\<open>PathUnescape\<close> and \<^verbatim>\<open>EscapedPath\<close>.
\<close>

record url =
  url_Opaque :: string
  url_User :: bool
  url_Host :: string
  url_Path :: string
  url_RawPath :: string
  url_RawQuery :: string

definition upper_hex_digit :: "nat \<Rightarrow> char" where
  [go_defs]: "upper_hex_digit n = (if n < 10 then char_of (48 + n) else char_of (55 + n))"

definition unhex :: "char \<Rightarrow> nat option" where
  [go_defs]: "unhex c =
     (if byte_between CHR ''0'' CHR ''9'' c then Some (ord c - 48)
      else if byte_between CHR ''a'' CHR ''f'' c then Some (ord c - 87)
      else if byte_between CHR ''A'' CHR ''F'' c then Some (ord c - 55)
      else None)"

fun path_unescape :: "string \<Rightarrow> string option" where
  "path_unescape [] = Some []"
| "path_unescape (c # s) =
     (if c \<noteq> CHR ''%'' then map_option ((#) c) (path_unescape s)
      else (case s of
              a # b # r \<Rightarrow>
                (case (unhex a, unhex b) of
                   (Some x, Some y) \<Rightarrow> map_option ((#) (char_of (x * 16 + y))) (path_unescape r)
                 | _ \<Rightarrow> None)
            | _ \<Rightarrow> None))"

definition path_plain :: "char \<Rightarrow> bool" where
  [go_defs]: "path_plain c \<longleftrightarrow>
     is_digit_byte c \<or> is_lower_byte c \<or> is_upper_byte c \<or> c \<in> set ''-_.~$&+,/:;=@''"

definition path_escape :: "string \<Rightarrow> string" where
  [go_defs]: "path_escape s = concat (map (\<lambda>c. if path_plain c then [c]
     else [CHR ''%'', upper_hex_digit (ord c div 16), upper_hex_digit (ord c mod 16)]) s)"

definition valid_encoded_path :: "string \<Rightarrow> bool" where
  [go_defs]: "valid_encoded_path s \<longleftrightarrow>
     list_all (\<lambda>c. c \<in> set (CHR 0x27 # ''!$&()*+,;=:@[]%'') \<or> path_plain c) s"

definition escaped_path :: "url \<Rightarrow> string" where
  [go_defs]: "escaped_path u =
     (if url_RawPath u \<noteq> [] \<and> valid_encoded_path (url_RawPath u)
         \<and> path_unescape (url_RawPath u) = Some (url_Path u) then url_RawPath u
      else if url_Path u = ''*'' then ''*''
      else path_escape (url_Path u))"

section \<open>Requests\<close>

text \<open>
  The fields of \<^verbatim>\<open>http.Request\<close> the sources read. The header's order stands for the order in
  which a \<^verbatim>\<open>range\<close> loop over the header map meets its keys.
\<close>

record http_request =
  rq_Method :: string
  rq_URL :: "url option"
  rq_Host :: string
  rq_Header :: http_header
  rq_ContentLength :: int

section \<open>Responses\<close>

record http_response =
  rs_StatusCode :: nat
  rs_Status :: string
  rs_ProtoMajor :: nat
  rs_ProtoMinor :: nat
  rs_Header :: http_header
  rs_ContentLength :: nat
  rs_Body :: string

section \<open>Lemmas\<close>

lemma map_of_header_del:
  "map_of (header_del h key) k = (if k = canonical_header_key key then None else map_of h k)"
  by (induction h) (auto simp: header_del_def)

lemma header_get_set: "header_get (header_set h key v) key = v"
  by (simp add: header_get_def header_values_def header_set_def map_of_header_del
      map_add_def)

lemma header_get_set_other:
  "canonical_header_key a \<noteq> canonical_header_key b \<Longrightarrow>
     header_get (header_set h a v) b = header_get h b"
  by (simp add: header_get_def header_values_def header_set_def map_of_header_del
      map_add_def split: option.splits)

end
