(* ===== verification/Go_Json.thy ===== *)
theory Go_Json
  imports Kordn_Prelude
begin

text \<open>
  The JSON text that \<^verbatim>\<open>encoding/json\<close> writes for strings, booleans, lists and structs, with its HTML
  escaping on, and hexadecimal digits. A struct is the list of its fields, in their order. The
  lemmas show that the text determines the data: the encoding of a valid string, and of every list and
  struct built from uniquely readable parts, can be read back from any text it starts.
\<close>

section \<open>Encoding\<close>

definition hex_digit :: "nat \<Rightarrow> char" where
  "hex_digit n = (if n < 10 then char_of (48 + n) else char_of (87 + n))"

definition hex_encode :: "string \<Rightarrow> string" where
  "hex_encode s = concat (map (\<lambda>c. [hex_digit (ord c div 16), hex_digit (ord c mod 16)]) s)"

definition quote :: char where
  [simp]: "quote = CHR 0x22"

definition backslash :: char where
  [simp]: "backslash = CHR 0x5C"

text \<open>One ASCII byte of a string.\<close>

definition json_byte :: "char \<Rightarrow> string" where
  "json_byte c =
     (if c = quote \<or> c = backslash then [backslash, c]
      else if c = CHR 0x08 then [backslash, CHR ''b'']
      else if c = CHR 0x0C then [backslash, CHR ''f'']
      else if c = CHR 0x0A then [backslash, CHR ''n'']
      else if c = CHR 0x0D then [backslash, CHR ''r'']
      else if c = CHR 0x09 then [backslash, CHR ''t'']
      else if ord c < 32 \<or> c = CHR ''<'' \<or> c = CHR ''>'' \<or> c = CHR ''&''
      then [backslash, CHR ''u'', CHR ''0'', CHR ''0'', hex_digit (ord c div 16), hex_digit (ord c mod 16)]
      else [c])"

text \<open>One step of a string: an invalid byte is replaced, U+2028 and U+2029 are escaped.\<close>

definition json_chunk :: "rune option \<times> string \<Rightarrow> string" where
  "json_chunk ch =
     (case ch of
        (None, _) \<Rightarrow> backslash # ''ufffd''
      | (Some r, bytes) \<Rightarrow>
          if r < 128 then concat (map json_byte bytes)
          else if r = 8232 then backslash # ''u2028''
          else if r = 8233 then backslash # ''u2029''
          else bytes)"

definition json_string :: "string \<Rightarrow> string" where
  "json_string s = quote # concat (map json_chunk (utf8_chunks s)) @ [quote]"

definition json_bool :: "bool \<Rightarrow> string" where
  "json_bool b = (if b then ''true'' else ''false'')"

definition json_list :: "('a \<Rightarrow> string) \<Rightarrow> 'a list \<Rightarrow> string" where
  "json_list enc xs = ''['' @ join '','' (map enc xs) @ '']''"

definition json_field :: "string \<times> string \<Rightarrow> string" where
  "json_field f = json_string (fst f) @ '':'' @ snd f"

definition json_struct :: "(string \<times> string) list \<Rightarrow> string" where
  "json_struct fields = ''{'' @ join '','' (map json_field fields) @ ''}''"

section \<open>Bytes that are not escaped\<close>

definition plain_byte :: "char \<Rightarrow> bool" where
  "plain_byte c \<longleftrightarrow> 32 \<le> ord c \<and> ord c < 128 \<and> c \<notin> set (''<>&'' @ [CHR 0x22, CHR 0x27, CHR 0x5C])"

lemma printable_not_control:
  "32 \<le> ord c \<Longrightarrow> c \<noteq> CHR 0x08 \<and> c \<noteq> CHR 0x09 \<and> c \<noteq> CHR 0x0A \<and> c \<noteq> CHR 0x0C \<and> c \<noteq> CHR 0x0D"
  by (intro conjI notI) (simp_all add: ord_def)

lemma json_byte_plain: "plain_byte c \<Longrightarrow> json_byte c = [c]"
  using printable_not_control [of c] by (simp add: plain_byte_def json_byte_def)

lemma json_plain:
  assumes "list_all plain_byte s"
  shows "json_string s = [CHR 0x22] @ s @ [CHR 0x22]"
proof -
  have a: "list_all is_ascii s" using assms by (auto simp: list_all_iff plain_byte_def is_ascii_def)
  have "concat (map json_chunk (utf8_chunks s)) = concat (map json_byte s)"
    using a by (induction s) (auto simp: json_chunk_def is_ascii_def)
  also have "\<dots> = s" using assms by (induction s) (simp_all add: json_byte_plain)
  finally show ?thesis by (simp add: json_string_def)
qed

section \<open>Unique readability\<close>

text \<open>
  \<open>readable A enc\<close>: within \<open>A\<close> the encoding of an element can be told from whatever follows it.
\<close>

definition readable :: "'a set \<Rightarrow> ('a \<Rightarrow> string) \<Rightarrow> bool" where
  "readable A enc \<longleftrightarrow>
     (\<forall>x \<in> A. \<forall>y \<in> A. \<forall>u v. enc x @ u = enc y @ v \<longrightarrow> x = y \<and> u = v)"

lemma readableD:
  "readable A enc \<Longrightarrow> x \<in> A \<Longrightarrow> y \<in> A \<Longrightarrow> enc x @ u = enc y @ v \<Longrightarrow> x = y \<and> u = v"
  unfolding readable_def by blast

lemma readable_inj:
  assumes "readable A enc" "x \<in> A" "y \<in> A" "enc x = enc y"
  shows "x = y"
proof -
  have "enc x @ [] = enc y @ []" using assms(4) by simp
  from readableD [OF assms(1-3) this] show ?thesis by blast
qed

text \<open>A sequence of readable elements up to a terminator that no element starts with.\<close>

lemma readable_terminated:
  assumes r: "readable A enc"
    and t: "\<And>x u v. x \<in> A \<Longrightarrow> enc x @ u \<noteq> t # v"
  shows "set xs \<subseteq> A \<Longrightarrow> set ys \<subseteq> A \<Longrightarrow>
     concat (map enc xs) @ t # u = concat (map enc ys) @ t # v \<Longrightarrow> xs = ys \<and> u = v"
proof (induction xs arbitrary: ys)
  case Nil
  show ?case
  proof (cases ys)
    case Nil
    with \<open>concat (map enc []) @ t # u = concat (map enc ys) @ t # v\<close> show ?thesis by simp
  next
    case (Cons y zs)
    with Nil.prems t [of y "concat (map enc zs) @ t # v" u] show ?thesis by simp
  qed
next
  case (Cons x xs)
  show ?case
  proof (cases ys)
    case Nil
    with Cons.prems t [of x "concat (map enc xs) @ t # u" v] show ?thesis by simp
  next
    case (Cons y zs)
    with Cons.prems readableD [OF r, of x y] Cons.IH [of zs] show ?thesis by simp
  qed
qed

lemma join_terminated:
  assumes "set ws \<subseteq> A"
  shows "join '','' (map enc ws) @ t # u =
     (case ws of [] \<Rightarrow> t # u
      | w # rest \<Rightarrow> enc w @ concat (map (\<lambda>x. CHR '','' # enc x) rest) @ t # u)"
proof (cases ws)
  case (Cons w rest)
  have "join '','' (map enc (w # rest)) = enc w @ concat (map (\<lambda>x. CHR '','' # enc x) rest)"
    by (induction rest arbitrary: w) auto
  with Cons show ?thesis by simp
qed simp


lemma readable_list:
  assumes r: "readable A enc" and t: "\<And>x u v. x \<in> A \<Longrightarrow> enc x @ u \<noteq> CHR '']'' # v"
  shows "readable {xs. set xs \<subseteq> A} (json_list enc)"
  unfolding readable_def
proof (intro ballI allI impI)
  fix xs ys u v
  assume A: "xs \<in> {xs. set xs \<subseteq> A}" "ys \<in> {xs. set xs \<subseteq> A}"
    and "json_list enc xs @ u = json_list enc ys @ v"
  then have eq: "join '','' (map enc xs) @ CHR '']'' # u = join '','' (map enc ys) @ CHR '']'' # v"
    by (simp add: json_list_def)
  have r': "readable A (\<lambda>x. CHR '','' # enc x)"
    unfolding readable_def
  proof (intro ballI allI impI)
    fix x y u v
    assume xy: "x \<in> A" "y \<in> A" and "(CHR '','' # enc x) @ u = (CHR '','' # enc y) @ v"
    then have "enc x @ u = enc y @ v" by simp
    from readableD [OF r xy this] show "x = y \<and> u = v" .
  qed
  have sep: "CHR '','' # enc x @ a \<noteq> CHR '']'' # b" for x a b by simp
  note js = join_terminated [of xs A enc "CHR '']''" u] join_terminated [of ys A enc "CHR '']''" v]
  show "xs = ys \<and> u = v"
  proof (cases xs)
    case Nil
    with eq js A t show ?thesis by (cases ys) (auto, metis)
  next
    case (Cons x xs')
    show ?thesis
    proof (cases ys)
      case Nil
      with eq js A t Cons show ?thesis by (auto, metis)
    next
      case (Cons y ys')
      let ?c = "\<lambda>zs. concat (map (\<lambda>x. CHR '','' # enc x) zs)"
      have e: "enc x @ (?c xs' @ CHR '']'' # u) = enc y @ (?c ys' @ CHR '']'' # v)"
        using eq js A Cons \<open>xs = x # xs'\<close> by simp
      have mem: "x \<in> A" "y \<in> A" "set xs' \<subseteq> A" "set ys' \<subseteq> A" using A Cons \<open>xs = x # xs'\<close> by auto
      from readableD [OF r mem(1,2) e] have "x = y" "?c xs' @ CHR '']'' # u = ?c ys' @ CHR '']'' # v" by auto
      with readable_terminated [OF r' _ mem(3,4), of "CHR '']''" u v] Cons \<open>xs = x # xs'\<close>
      show ?thesis by simp
    qed
  qed
qed

lemma readable_bool: "readable UNIV json_bool"
  by (auto simp: readable_def json_bool_def)


text \<open>
  \<open>reads A enc g\<close>: within \<open>A\<close> the text determines the part \<open>g\<close> of the data, whatever follows it.
  Texts made of several fields are read field by field.
\<close>

definition reads :: "'a set \<Rightarrow> ('a \<Rightarrow> string) \<Rightarrow> ('a \<Rightarrow> 'b) \<Rightarrow> bool" where
  "reads A enc g \<longleftrightarrow> (\<forall>x \<in> A. \<forall>y \<in> A. \<forall>u v. enc x @ u = enc y @ v \<longrightarrow> g x = g y \<and> u = v)"

lemma reads_append:
  assumes "reads A e g" "reads A f h"
  shows "reads A (\<lambda>x. e x @ f x) (\<lambda>x. (g x, h x))"
  unfolding reads_def
proof (intro ballI allI impI)
  fix x y u v
  assume xy: "x \<in> A" "y \<in> A" and "(e x @ f x) @ u = (e y @ f y) @ v"
  then have "e x @ (f x @ u) = e y @ (f y @ v)" by simp
  with assms(1) xy have g: "g x = g y" "f x @ u = f y @ v" unfolding reads_def by blast+
  with assms(2) xy have "h x = h y" "u = v" unfolding reads_def by blast+
  with g show "(g x, h x) = (g y, h y) \<and> u = v" by simp
qed

lemma reads_const: "reads A (\<lambda>_. c) (\<lambda>_. ())"
  by (simp add: reads_def)

lemma reads_field: "readable B enc \<Longrightarrow> p ` A \<subseteq> B \<Longrightarrow> reads A (\<lambda>x. enc (p x)) p"
  unfolding reads_def readable_def by blast

lemma reads_readable: "reads A enc g \<Longrightarrow> inj_on g A \<Longrightarrow> readable A enc"
  unfolding reads_def readable_def inj_on_def by blast

subsection \<open>Strings\<close>

definition lead_len :: "char \<Rightarrow> nat" where
  "lead_len a = (let b = ord a in if b < 128 then 0 else if b \<le> 223 then 1 else if b \<le> 239 then 2 else 3)"

lemma utf8_tail_len: "utf8_tail a s = Some (r, n) \<Longrightarrow> n = lead_len a \<and> n \<le> length s"
  by (auto simp: utf8_tail_def lead_len_def Let_def cont_ok_def Suc_le_eq split: if_splits)

lemma cont_ok_take: "i < n \<Longrightarrow> cont_ok lo hi (take n s) i = cont_ok lo hi s i"
  by (auto simp: cont_ok_def)

lemma low6_take: "i < n \<Longrightarrow> low6 (take n s) i = low6 s i"
  by (auto simp: low6_def)

lemma utf8_tail_take:
  assumes "utf8_tail a s = Some (r, n)"
  shows "utf8_tail a (take n s) = Some (r, n)"
  using assms
  by (simp add: utf8_tail_def Let_def split: if_splits) (auto simp: cont_ok_take low6_take)

text \<open>The steps of valid strings: the bytes of a step determine its rune.\<close>

definition wf_chunks :: "(rune option \<times> string) set" where
  "wf_chunks = {(Some r, a # s) | r a s. utf8_tail a s = Some (r, length s)}"

lemma valid_chunks_wf: "valid_utf8 s \<Longrightarrow> set (utf8_chunks s) \<subseteq> wf_chunks"
proof (induction s rule: utf8_chunks.induct)
  case (2 a s)
  show ?case
  proof (cases "utf8_tail a s")
    case None
    with "2.prems" show ?thesis by (simp add: valid_utf8_def)
  next
    case (Some rn)
    obtain r n where rn: "rn = (r, n)" by (cases rn)
    with Some have t: "utf8_tail a s = Some (r, n)" by simp
    have "valid_utf8 (drop n s)" using "2.prems" t by (simp add: valid_utf8_def)
    with "2.IH"(2) [OF Some rn [symmetric]] have "set (utf8_chunks (drop n s)) \<subseteq> wf_chunks" by simp
    moreover have "(Some r, a # take n s) \<in> wf_chunks"
      using utf8_tail_take [OF t] utf8_tail_len [OF t] by (simp add: wf_chunks_def)
    ultimately show ?thesis using t by simp
  qed
qed simp

lemma hex_digit_inj: "i < 16 \<Longrightarrow> j < 16 \<Longrightarrow> hex_digit i = hex_digit j \<Longrightarrow> i = j"
  by (drule arg_cong [of _ _ ord]) (simp add: hex_digit_def split: if_splits)

lemma hex_byte_inj:
  "hex_digit (ord a div 16) = hex_digit (ord b div 16) \<Longrightarrow>
   hex_digit (ord a mod 16) = hex_digit (ord b mod 16) \<Longrightarrow> a = b"
proof -
  assume *: "hex_digit (ord a div 16) = hex_digit (ord b div 16)"
    "hex_digit (ord a mod 16) = hex_digit (ord b mod 16)"
  have lt: "ord a div 16 < 16" "ord b div 16 < 16" using ord_lt [of a] ord_lt [of b] by linarith+
  have "ord a div 16 = ord b div 16" "ord a mod 16 = ord b mod 16"
    using hex_digit_inj [OF lt *(1)] hex_digit_inj [OF _ _ *(2)] by simp_all
  then have "ord a = ord b" by (metis div_mod_decomp)
  then show "a = b" by simp
qed

text \<open>The class of the escape of a byte, and what the encoding of each class looks like.\<close>

definition short_escape :: "char \<Rightarrow> char option" where
  "short_escape c =
     (if c = quote \<or> c = backslash then Some c
      else if c = CHR 0x08 then Some CHR ''b'' else if c = CHR 0x0C then Some CHR ''f''
      else if c = CHR 0x0A then Some CHR ''n'' else if c = CHR 0x0D then Some CHR ''r''
      else if c = CHR 0x09 then Some CHR ''t'' else None)"

lemma json_byte_short:
  "json_byte c =
     (case short_escape c of
        Some e \<Rightarrow> [backslash, e]
      | None \<Rightarrow>
          if ord c < 32 \<or> c \<in> set ''<>&''
          then [backslash, CHR ''u'', CHR ''0'', CHR ''0'', hex_digit (ord c div 16), hex_digit (ord c mod 16)]
          else [c])"
  by (simp add: json_byte_def short_escape_def)

lemma short_escape_inj: "short_escape a = Some e \<Longrightarrow> short_escape b = Some e \<Longrightarrow> a = b"
  by (auto simp: short_escape_def split: if_splits)

lemma short_escape_not_u: "short_escape a \<noteq> Some CHR ''u''"
  by (auto simp: short_escape_def)

lemma short_escape_None: "short_escape a = None \<Longrightarrow> a \<noteq> quote \<and> a \<noteq> backslash"
  by (auto simp: short_escape_def)

lemma json_byte_readable: "json_byte a @ u = json_byte b @ v \<Longrightarrow> a = b \<and> u = v"
  using short_escape_inj [of a _ b] short_escape_not_u [of a] short_escape_not_u [of b]
    short_escape_None [of a] short_escape_None [of b] hex_byte_inj [of a b]
  by (simp add: json_byte_short split: option.splits if_splits)


text \<open>The first byte of the encoding of a step tells ASCII steps and escapes from the others.\<close>

lemma json_byte_head: "json_byte a \<noteq> [] \<and> (hd (json_byte a) = backslash \<or> hd (json_byte a) = a)"
  by (simp add: json_byte_short split: option.splits)

lemma json_byte_not_quote: "json_byte a @ u \<noteq> quote # v"
  using short_escape_None [of a] by (simp add: json_byte_short split: option.splits)

lemma json_byte_not_u2: "json_byte a @ u \<noteq> backslash # CHR ''u'' # CHR ''2'' # v"
  using short_escape_None [of a] short_escape_not_u [of a]
  by (cases "short_escape a") (simp_all add: json_byte_short)

lemma wf_chunk_cases:
  assumes "ch \<in> wf_chunks"
  obtains (ascii) a where "ch = (Some (ord a), [a])" "is_ascii a" "json_chunk ch = json_byte a"
  | (sep) x where "ch = (Some x, snd ch)" "x = 8232 \<or> x = 8233"
      "json_chunk ch = backslash # ''u202'' @ [if x = 8232 then CHR ''8'' else CHR ''9'']"
  | (multi) r a s where "ch = (Some r, a # s)" "utf8_tail a s = Some (r, length s)" "128 \<le> ord a"
      "json_chunk ch = a # s" "r \<noteq> 8232" "r \<noteq> 8233"
proof -
  from assms obtain r a s where ch: "ch = (Some r, a # s)" and t: "utf8_tail a s = Some (r, length s)"
    by (auto simp: wf_chunks_def)
  show ?thesis
  proof (cases "ord a < 128")
    case True
    then have "r = ord a" "s = []" using t by (simp_all add: utf8_tail_def)
    with ch True show ?thesis by (intro ascii [of a]) (simp_all add: json_chunk_def is_ascii_def)
  next
    case False
    have big: "\<not> r < 128" using False utf8_tail_lead_ascii [OF t] by (auto simp: is_ascii_def)
    show ?thesis
    proof (cases "r = 8232 \<or> r = 8233")
      case True
      then show ?thesis using ch by (intro sep [of r]) (auto simp: json_chunk_def)
    next
      case no: False
      then show ?thesis using ch t False big by (intro multi [of r a s]) (simp_all add: json_chunk_def)
    qed
  qed
qed

text \<open>Two steps with the rune U+2028, or with U+2029, have the same bytes.\<close>

lemma pack_unique: "y < d \<Longrightarrow> q * d + y = (N::nat) \<Longrightarrow> y = N mod d \<and> q = N div d"
  by auto

lemma low6_lt: "low6 s i < 64"
  by (simp add: low6_def)

lemma cont_low6: "cont_ok lo hi s i \<Longrightarrow> 128 \<le> lo \<Longrightarrow> hi \<le> 191 \<Longrightarrow> ord (s ! i) = 128 + low6 s i"
  using mod_shift [of 2 64 "ord (s ! i)"] by (auto simp: cont_ok_def low6_def)

lemma second_bounds: "128 \<le> second_lo b \<and> second_hi b \<le> 191"
  by (simp add: second_lo_def second_hi_def)

lemma utf8_tail_three:
  assumes t: "utf8_tail a s = Some (r, length s)" and r: "2048 \<le> r" "r < 65536"
  shows "\<exists>x y. s = [x, y] \<and> ord a = 224 + r div 4096 \<and> ord x = 128 + r div 64 mod 64 \<and>
     ord y = 128 + r mod 64"
proof -
  consider (two) "194 \<le> ord a" "ord a \<le> 223" | (three) "224 \<le> ord a" "ord a \<le> 239"
    | (four) "240 \<le> ord a" "ord a \<le> 244"
    using t r by (fastforce simp: utf8_tail_def Let_def split: if_splits)
  then show ?thesis
  proof cases
    case two
    then have "r = ord a mod 32 * 64 + low6 s 0"
      using t by (simp add: utf8_tail_def Let_def split: if_splits)
    moreover have "ord a mod 32 \<le> 31" by (simp add: less_Suc_eq_le [symmetric])
    ultimately show ?thesis using low6_lt [of s 0] r by simp
  next
    case three
    then have v: "r = (ord a mod 16 * 64 + low6 s 0) * 64 + low6 s 1" and len: "length s = 2"
      and c: "cont_ok (second_lo (ord a)) (second_hi (ord a)) s 0" "cont_ok 128 191 s 1"
      using t by (simp_all add: utf8_tail_def Let_def split: if_splits)
    from pack_unique [OF low6_lt v [symmetric]]
    have p: "low6 s 1 = r mod 64" "ord a mod 16 * 64 + low6 s 0 = r div 64" by auto
    from pack_unique [OF low6_lt p(2)]
    have q: "low6 s 0 = r div 64 mod 64" "ord a mod 16 = r div 64 div 64" by auto
    have "ord a = 224 + ord a mod 16" using three mod_shift [of 14 16 "ord a"] by simp
    then have "ord a = 224 + r div 4096" using q(2) by (simp add: div_mult2_eq [symmetric])
    moreover have "ord (s ! 0) = 128 + r div 64 mod 64" "ord (s ! 1) = 128 + r mod 64"
      using cont_low6 [OF c(1)] cont_low6 [OF c(2)] second_bounds p q by auto
    moreover obtain x y where "s = [x, y]" using len by (auto simp: numeral_2_eq_2 length_Suc_conv)
    ultimately show ?thesis by simp
  next
    case four
    then have v: "r = ((ord a mod 8 * 64 + low6 s 0) * 64 + low6 s 1) * 64 + low6 s 2"
      and c: "cont_ok (second_lo (ord a)) (second_hi (ord a)) s 0"
      using t by (simp_all add: utf8_tail_def Let_def split: if_splits)
    have "16 \<le> ord a mod 8 * 64 + low6 s 0"
    proof (cases "ord a = 240")
      case True
      then show ?thesis using low6_ge [of 16 191 s 0] c by (simp add: second_lo_def second_hi_def)
    next
      case False
      then show ?thesis using four mod_shift [of 30 8 "ord a"] by simp
    qed
    with v r show ?thesis by simp
  qed
qed

lemma wf_chunk_rune_unique:
  assumes "(Some r, x) \<in> wf_chunks" "(Some r, y) \<in> wf_chunks" "2048 \<le> r" "r < 65536"
  shows "x = y"
proof -
  from assms obtain a s b t where x: "x = a # s" "utf8_tail a s = Some (r, length s)"
    and y: "y = b # t" "utf8_tail b t = Some (r, length t)" by (auto simp: wf_chunks_def)
  obtain x1 x2 where s: "s = [x1, x2]" "ord a = 224 + r div 4096" "ord x1 = 128 + r div 64 mod 64"
    "ord x2 = 128 + r mod 64" using utf8_tail_three [OF x(2) assms(3,4)] by blast
  obtain y1 y2 where t: "t = [y1, y2]" "ord b = 224 + r div 4096" "ord y1 = 128 + r div 64 mod 64"
    "ord y2 = 128 + r mod 64" using utf8_tail_three [OF y(2) assms(3,4)] by blast
  have "a = b" "x1 = y1" "x2 = y2" by (simp_all only: s t ord_inject [symmetric])
  with x(1) y(1) s(1) t(1) show ?thesis by simp
qed

lemma multi_readable:
  assumes "utf8_tail a s = Some (r, length s)" "utf8_tail b t = Some (r', length t)"
    "(a # s) @ u = (b # t) @ v"
  shows "a # s = b # t \<and> r = r' \<and> u = v"
proof -
  from assms(3) have ab: "a = b" "s @ u = t @ v" by simp_all
  have "length s = length t" using utf8_tail_len [OF assms(1)] utf8_tail_len [OF assms(2)] ab(1) by simp
  with ab(2) have "s = t" "u = v" by simp_all
  with ab assms(1,2) show ?thesis by simp
qed

text \<open>An escape or an ASCII step never starts with a byte above ASCII.\<close>

lemma multi_head:
  assumes "128 \<le> ord a"
  shows "a # s \<noteq> backslash # v" "is_ascii b \<Longrightarrow> json_byte b @ u \<noteq> a # s"
proof -
  show "a # s \<noteq> backslash # v" using assms by (auto simp: ord_def)
  assume b: "is_ascii b"
  then have "ord (hd (json_byte b @ u)) < 128"
    using json_byte_head [of b] by (auto simp: is_ascii_def ord_def)
  then show "json_byte b @ u \<noteq> a # s" using assms by auto
qed

lemma readable_chunks: "readable wf_chunks json_chunk"
  unfolding readable_def
proof (intro ballI allI impI)
  fix x y u v
  assume x: "x \<in> wf_chunks" and y: "y \<in> wf_chunks" and eq: "json_chunk x @ u = json_chunk y @ v"
  show "x = y \<and> u = v"
    using x
  proof (cases rule: wf_chunk_cases)
    case a: (ascii a)
    show ?thesis using y
    proof (cases rule: wf_chunk_cases)
      case b: (ascii b)
      show ?thesis using eq a b json_byte_readable [of a u b v] by simp
    next
      case (sep r)
      then show ?thesis using eq a json_byte_not_u2 [of a u] by simp
    next
      case (multi r b t)
      then show ?thesis using eq a multi_head(2) [of b a u] by simp
    qed
  next
    case a: (sep r)
    show ?thesis using y
    proof (cases rule: wf_chunk_cases)
      case b: (ascii b)
      then show ?thesis using eq a json_byte_not_u2 [of b v] by simp metis
    next
      case b: (sep r')
      have rr: "r = r'" and uv: "u = v" using eq a b by (auto split: if_splits)
      have "snd x = snd y" using wf_chunk_rune_unique [of r "snd x" "snd y"] x y a b rr by auto
      then show ?thesis using a(1) b(1) rr uv by metis
    next
      case (multi r' b t)
      then show ?thesis using eq a multi_head(1) [of b "t @ v"] by simp metis
    qed
  next
    case a: (multi r a s)
    show ?thesis using y
    proof (cases rule: wf_chunk_cases)
      case b: (ascii b)
      then show ?thesis using eq a multi_head(2) [of a b v] by simp metis
    next
      case (sep r')
      then show ?thesis using eq a multi_head(1) [of a "s @ u"] by simp metis
    next
      case b: (multi r' b t)
      show ?thesis using multi_readable [OF a(2) b(2), of u v] eq a b by simp
    qed
  qed
qed

lemma json_chunk_not_quote: "x \<in> wf_chunks \<Longrightarrow> json_chunk x @ u \<noteq> quote # v"
  by (erule wf_chunk_cases) (use json_byte_not_quote in \<open>auto simp: ord_def\<close>)

lemma readable_string: "readable {s. valid_utf8 s} json_string"
  unfolding readable_def
proof (intro ballI allI impI)
  fix s t u v
  assume s: "s \<in> {s. valid_utf8 s}" and t: "t \<in> {s. valid_utf8 s}"
    and eq: "json_string s @ u = json_string t @ v"
  have "utf8_chunks s = utf8_chunks t \<and> u = v"
    using readable_terminated [OF readable_chunks, of quote "utf8_chunks s" "utf8_chunks t" u v]
      json_chunk_not_quote valid_chunks_wf s t eq by (simp add: json_string_def)
  then show "s = t \<and> u = v" using concat_utf8_chunks by metis
qed

lemma json_string_head: "json_string s @ u = c # v \<Longrightarrow> c = quote"
  by (simp add: json_string_def)

lemma readable_string_list: "readable {xs. set xs \<subseteq> {s. valid_utf8 s}} (json_list json_string)"
  by (rule readable_list [OF readable_string]) (auto dest: json_string_head)

lemma hex_encode_Cons:
  "hex_encode (x # a) = hex_digit (ord x div 16) # hex_digit (ord x mod 16) # hex_encode a"
  by (simp add: hex_encode_def)

lemma hex_encode_inj: "hex_encode a = hex_encode b \<Longrightarrow> a = b"
proof (induction a arbitrary: b)
  case Nil
  then show ?case by (cases b) (simp_all add: hex_encode_def)
next
  case (Cons x a)
  then obtain y c where b: "b = y # c" by (cases b) (simp_all add: hex_encode_def)
  with Cons.prems have "x = y" "hex_encode a = hex_encode c"
    using hex_byte_inj [of x y] by (simp_all add: hex_encode_Cons)
  with Cons.IH b show ?case by simp
qed

end
