(* ===== verification/Reasons.thy ===== *)
theory Reasons
  imports Aws_Types Go_Http Go_Json
begin

text \<open>
  The local failure reasons and the encoder of local denials, \<^verbatim>\<open>src/internal/awserror\<close>
  (\<^verbatim>\<open>reasons.go\<close>, \<^verbatim>\<open>encode.go\<close>, \<^verbatim>\<open>json.go\<close>, \<^verbatim>\<open>xml.go\<close>). The JSON and XML marshallers of the
  standard library are modelled for the structures the encoder writes, XML with the escapes it applies
  to the ASCII bytes of a field; the encoder lets only ASCII fields through.
\<close>

section \<open>Reason codes\<close>

definition ReasonExplicitDeny :: string where "ReasonExplicitDeny = ''explicit_deny''"
definition ReasonPolicyNoMatchingAllow :: string where
  "ReasonPolicyNoMatchingAllow = ''policy_no_matching_allow''"
definition ReasonAWSRequiredWildcardNotApproved :: string where
  "ReasonAWSRequiredWildcardNotApproved = ''aws_required_wildcard_not_approved''"
definition ReasonUnknownEndpoint :: string where "ReasonUnknownEndpoint = ''unknown_endpoint''"
definition ReasonUnsupportedPartition :: string where
  "ReasonUnsupportedPartition = ''unsupported_partition''"
definition ReasonUnknownOperation :: string where "ReasonUnknownOperation = ''unknown_operation''"
definition ReasonMappingLowConfidence :: string where
  "ReasonMappingLowConfidence = ''mapping_low_confidence''"
definition ReasonResourceUnresolved :: string where
  "ReasonResourceUnresolved = ''resource_unresolved''"
definition ReasonDependentPermissionUnresolved :: string where
  "ReasonDependentPermissionUnresolved = ''dependent_permission_unresolved''"
definition ReasonInvalidInboundSignature :: string where
  "ReasonInvalidInboundSignature = ''invalid_inbound_signature''"
definition ReasonUnsupportedSigningScheme :: string where
  "ReasonUnsupportedSigningScheme = ''unsupported_signing_scheme''"
definition ReasonUnsupportedPayloadMode :: string where
  "ReasonUnsupportedPayloadMode = ''unsupported_payload_mode''"
definition ReasonRequestTooLarge :: string where "ReasonRequestTooLarge = ''request_too_large''"
definition ReasonAuditUnavailable :: string where "ReasonAuditUnavailable = ''audit_unavailable''"
definition ReasonUpstreamCredentialUnavailable :: string where
  "ReasonUpstreamCredentialUnavailable = ''upstream_credential_unavailable''"
definition ReasonUpstreamTransportError :: string where
  "ReasonUpstreamTransportError = ''upstream_transport_error''"
definition ReasonInternalFailClosed :: string where
  "ReasonInternalFailClosed = ''internal_fail_closed''"
definition ReasonAllRequirementsAllowed :: string where
  "ReasonAllRequirementsAllowed = ''all_requirements_allowed''"

lemmas reason_defs = ReasonExplicitDeny_def ReasonPolicyNoMatchingAllow_def
  ReasonAWSRequiredWildcardNotApproved_def ReasonUnknownEndpoint_def ReasonUnsupportedPartition_def
  ReasonUnknownOperation_def ReasonMappingLowConfidence_def ReasonResourceUnresolved_def
  ReasonDependentPermissionUnresolved_def ReasonInvalidInboundSignature_def
  ReasonUnsupportedSigningScheme_def ReasonUnsupportedPayloadMode_def ReasonRequestTooLarge_def
  ReasonAuditUnavailable_def ReasonUpstreamCredentialUnavailable_def ReasonUpstreamTransportError_def
  ReasonInternalFailClosed_def ReasonAllRequirementsAllowed_def

definition allReasonCodes :: "string list" where
  "allReasonCodes = [ReasonExplicitDeny, ReasonPolicyNoMatchingAllow,
     ReasonAWSRequiredWildcardNotApproved, ReasonUnknownEndpoint, ReasonUnsupportedPartition,
     ReasonUnknownOperation, ReasonMappingLowConfidence, ReasonResourceUnresolved,
     ReasonDependentPermissionUnresolved, ReasonInvalidInboundSignature,
     ReasonUnsupportedSigningScheme, ReasonUnsupportedPayloadMode, ReasonRequestTooLarge,
     ReasonAuditUnavailable, ReasonUpstreamCredentialUnavailable, ReasonUpstreamTransportError,
     ReasonInternalFailClosed, ReasonAllRequirementsAllowed]"

definition ReasonCode_Valid :: "string \<Rightarrow> bool" where
  "ReasonCode_Valid r \<longleftrightarrow> list_ex (\<lambda>candidate. r = candidate) allReasonCodes"

section \<open>Denials\<close>

definition ClassificationLocalDeny :: string where "ClassificationLocalDeny = ''local_deny''"
definition ClassificationUpstreamAccessDenied :: string where
  "ClassificationUpstreamAccessDenied = ''upstream_access_denied''"
definition ClassificationUpstreamError :: string where
  "ClassificationUpstreamError = ''upstream_error''"

lemmas classification_defs = ClassificationLocalDeny_def ClassificationUpstreamAccessDenied_def
  ClassificationUpstreamError_def

record Denial =
  dn_Service :: string
  dn_Operation :: string
  dn_ReasonCode :: string
  dn_Reason :: string
  dn_EventID :: string
  dn_RequestID :: string
  dn_Classification :: string
  dn_UpstreamResponse :: "http_response option"

definition token_rune :: "rune \<Rightarrow> bool" where
  "token_rune r \<longleftrightarrow> \<not> (r > 127 \<or> r < 33 \<or> r = 47 \<or> r = 92 \<or> r = 60 \<or> r = 62 \<or> r = 34 \<or> r = 39 \<or>
     r = 38 \<or> r = 63 \<or> r = 35 \<or> r = 37)"

definition boundedToken :: "string \<Rightarrow> nat \<Rightarrow> bool" where
  "boundedToken val limit \<longleftrightarrow>
     \<not> (val = [] \<or> length val > limit) \<and> list_all token_rune (runes val)"

definition normalizeDenial :: "Denial \<Rightarrow> Denial option" where
  "normalizeDenial denial =
     (if dn_Reason denial \<noteq> [] \<and>
         (\<not> ReasonCode_Valid (dn_Reason denial) \<or>
          (ReasonCode_Valid (dn_ReasonCode denial) \<and> dn_Reason denial \<noteq> dn_ReasonCode denial))
      then None
      else
        (let d1 = (if dn_Reason denial \<noteq> [] then denial\<lparr>dn_ReasonCode := dn_Reason denial\<rparr> else denial) in
         if dn_RequestID d1 \<noteq> [] \<and> dn_EventID d1 \<noteq> [] \<and> dn_EventID d1 \<noteq> dn_RequestID d1 then None
         else
           (let d2 = (if dn_RequestID d1 \<noteq> [] then d1\<lparr>dn_EventID := dn_RequestID d1\<rparr> else d1) in
            if \<not> boundedToken (dn_Service d2) 128 \<or> \<not> boundedToken (dn_Operation d2) 128 \<or>
               \<not> ReasonCode_Valid (dn_ReasonCode d2) \<or>
               dn_ReasonCode d2 = ReasonAllRequirementsAllowed \<or>
               \<not> boundedToken (dn_EventID d2) 128
            then None
            else Some (d2\<lparr>dn_Classification := ClassificationLocalDeny\<rparr>))))"

definition denialMessage :: "Denial \<Rightarrow> string" where
  "denialMessage d = ''Kordn denied '' @ dn_Service d @ '':'' @ dn_Operation d @ '' ('' @
     dn_ReasonCode d @ ''); event '' @ dn_EventID d"

text \<open>The package's own decimal conversion: the digits are written from the end of a buffer.\<close>

fun awserror_itoa_loop :: "nat \<Rightarrow> string \<Rightarrow> string" where
  "awserror_itoa_loop v buf =
     (if v > 0 then awserror_itoa_loop (v div 10) (char_of (48 + v mod 10) # buf) else buf)"

declare awserror_itoa_loop.simps [simp del]

definition awserror_itoa :: "nat \<Rightarrow> string" where
  "awserror_itoa v = (if v = 0 then ''0'' else awserror_itoa_loop v [])"

definition setBody :: "http_header \<Rightarrow> string \<Rightarrow> string \<Rightarrow> http_response" where
  "setBody header body contentType =
     \<lparr>rs_StatusCode = 403, rs_Status = ''403 Forbidden'', rs_ProtoMajor = 1, rs_ProtoMinor = 1,
      rs_Header = header_set (header_set header ''Content-Type'' contentType)
                    ''Content-Length'' (awserror_itoa (length body)),
      rs_ContentLength = length body, rs_Body = body\<rparr>"

section \<open>The XML marshaller\<close>

text \<open>One ASCII byte of character data, as \<^verbatim>\<open>encoding/xml\<close> writes it.\<close>

definition xml_byte :: "char \<Rightarrow> string" where
  "xml_byte c =
     (if c = CHR 0x22 then ''&#34;'' else if c = CHR 0x27 then ''&#39;''
      else if c = CHR ''&'' then ''&amp;'' else if c = CHR ''<'' then ''&lt;''
      else if c = CHR ''>'' then ''&gt;'' else if c = CHR 0x09 then ''&#x9;''
      else if c = CHR 0x0A then ''&#xA;'' else if c = CHR 0x0D then ''&#xD;''
      else if ord c < 32 then [CHR 0xEF, CHR 0xBF, CHR 0xBD]
      else [c])"

definition xml_text :: "string \<Rightarrow> string" where
  "xml_text s = concat (map xml_byte s)"

definition xml_element :: "string \<Rightarrow> string \<Rightarrow> string" where
  "xml_element tag body = ''<'' @ tag @ ''>'' @ body @ ''</'' @ tag @ ''>''"

section \<open>The encoders\<close>

definition encodeJSON :: "string \<Rightarrow> Denial \<Rightarrow> http_response" where
  "encodeJSON protocol denial =
     (let body = ''{'' @ json_string ''__type'' @ '':'' @ json_string ''AccessDeniedException'' @ '','' @
                 json_string ''message'' @ '':'' @ json_string (denialMessage denial) @ ''}'';
          header = header_set (header_set [] ''x-amzn-ErrorType'' ''AccessDeniedException'')
                     ''x-amzn-RequestId'' (dn_EventID denial);
          contentType = (if protocol = ProtocolJSON10 then ''application/x-amz-json-1.0''
                         else ''application/x-amz-json-1.1'')
      in setBody header body contentType)"

definition encodeRESTJSON :: "Denial \<Rightarrow> http_response" where
  "encodeRESTJSON denial =
     (let body = ''{'' @ json_string ''message'' @ '':'' @ json_string (denialMessage denial) @ ''}'';
          header = header_set (header_set [] ''x-amzn-ErrorType'' ''AccessDeniedException'')
                     ''x-amzn-RequestId'' (dn_EventID denial)
      in setBody header body ''application/json'')"

definition encodeQueryXML :: "Denial \<Rightarrow> http_response" where
  "encodeQueryXML denial =
     (let body = xml_element ''ErrorResponse''
            (xml_element ''Error''
               (xml_element ''Type'' (xml_text ''Sender'') @
                xml_element ''Code'' (xml_text ''AccessDenied'') @
                xml_element ''Message'' (xml_text (denialMessage denial))) @
             xml_element ''RequestId'' (xml_text (dn_EventID denial)))
      in setBody [] body ''text/xml'')"

definition encodeRESTXML :: "Denial \<Rightarrow> http_response" where
  "encodeRESTXML denial =
     (let body = xml_element ''Error''
            (xml_element ''Code'' (xml_text ''AccessDenied'') @
             xml_element ''Message'' (xml_text (denialMessage denial)) @
             xml_element ''RequestId'' (xml_text (dn_EventID denial)));
          header = header_set [] ''x-amz-request-id'' (dn_EventID denial)
      in setBody header body ''application/xml'')"

definition encodeLocal :: "string \<Rightarrow> Denial \<Rightarrow> http_response option" where
  "encodeLocal protocol denial =
     (if protocol = ProtocolJSON10 \<or> protocol = ProtocolJSON11
      then Some (encodeJSON protocol denial)
      else if protocol = ProtocolRESTJSON then Some (encodeRESTJSON denial)
      else if protocol = ProtocolQuery \<or> protocol = ProtocolEC2Query
      then Some (encodeQueryXML denial)
      else if protocol = ProtocolRESTXML then Some (encodeRESTXML denial)
      else None)"

definition Encode :: "string \<Rightarrow> Denial \<Rightarrow> http_response option" where
  "Encode protocol denial =
     (if dn_Classification denial = ClassificationUpstreamAccessDenied \<or>
         dn_Classification denial = ClassificationUpstreamError
      then dn_UpstreamResponse denial
      else if dn_Classification denial \<noteq> ClassificationLocalDeny \<or> \<not> AWSProtocol_Supported protocol
      then None
      else case normalizeDenial denial of
        None \<Rightarrow> None
      | Some d \<Rightarrow> encodeLocal protocol d)"

definition EncodeDenial ::
  "string \<Rightarrow> string \<Rightarrow> string \<Rightarrow> string \<Rightarrow> string \<Rightarrow> string \<Rightarrow> http_response option" where
  "EncodeDenial protocol service operation reason eventID classification =
     Encode protocol \<lparr>dn_Service = service, dn_Operation = operation, dn_ReasonCode = reason,
       dn_Reason = [], dn_EventID = eventID, dn_RequestID = [], dn_Classification = classification,
       dn_UpstreamResponse = None\<rparr>"

section \<open>Lemmas\<close>

lemma itoa_loop_append: "awserror_itoa_loop n (xs @ ys) = awserror_itoa_loop n xs @ ys"
proof (induction n arbitrary: xs rule: less_induct)
  case (less n)
  show ?case
  proof (cases "n > 0")
    case True
    have "n div 10 < n" using True by simp
    from less [OF this, of "char_of (48 + n mod 10) # xs"] True show ?thesis
      by (simp add: awserror_itoa_loop.simps [of n])
  next
    case False
    then show ?thesis by (simp add: awserror_itoa_loop.simps [of 0])
  qed
qed

lemma itoa_loop_itoa: "0 < n \<Longrightarrow> awserror_itoa_loop n [] = itoa n"
proof (induction n rule: less_induct)
  case (less n)
  have step: "awserror_itoa_loop n [] = awserror_itoa_loop (n div 10) [] @ [char_of (48 + n mod 10)]"
    using less.prems itoa_loop_append [of "n div 10" "[]" "[char_of (48 + n mod 10)]"]
    by (simp add: awserror_itoa_loop.simps [of n])
  show ?case
  proof (cases "n < 10")
    case True
    then show ?thesis using step by (simp add: itoa.simps [of n] awserror_itoa_loop.simps [of 0])
  next
    case False
    then show ?thesis using step less.IH [of "n div 10"] by (simp add: itoa.simps [of n])
  qed
qed

lemma itoa_0: "itoa 0 = ''0''"
  by (simp add: itoa.simps [of 0] char_of_def bit_0)

lemma awserror_itoa_itoa: "awserror_itoa n = itoa n"
  by (simp add: awserror_itoa_def itoa_loop_itoa itoa_0)

lemma xml_plain: "list_all plain_byte s \<Longrightarrow> xml_text s = s"
proof -
  have "plain_byte c \<Longrightarrow> xml_byte c = [c]" for c
    using printable_not_control [of c] by (simp add: plain_byte_def xml_byte_def)
  then show "list_all plain_byte s \<Longrightarrow> ?thesis" by (induction s) (auto simp: xml_text_def)
qed

lemma token_rune_plain: "token_rune (ord c) \<Longrightarrow> plain_byte c"
  by (auto simp: token_rune_def plain_byte_def ord_def)

lemma boundedToken_plain: "boundedToken s n \<Longrightarrow> list_all plain_byte s"
proof -
  have "ascii_pred token_rune" by (auto simp: ascii_pred_def token_rune_def)
  from list_all_runes_bytes [OF this] show "boundedToken s n \<Longrightarrow> ?thesis"
    using token_rune_plain by (auto simp: boundedToken_def list_all_iff)
qed

lemma reason_code_plain: "ReasonCode_Valid r \<Longrightarrow> list_all plain_byte r"
  by (auto simp: ReasonCode_Valid_def allReasonCodes_def reason_defs plain_byte_def ord_def)

lemma normalizeDenial_sound:
  "normalizeDenial d = Some n \<Longrightarrow>
     boundedToken (dn_Service n) 128 \<and> boundedToken (dn_Operation n) 128 \<and>
     boundedToken (dn_EventID n) 128 \<and> ReasonCode_Valid (dn_ReasonCode n) \<and>
     dn_ReasonCode n \<noteq> ReasonAllRequirementsAllowed \<and>
     dn_Classification n = ClassificationLocalDeny \<and> dn_Service n = dn_Service d \<and>
     dn_Operation n = dn_Operation d"
  by (auto simp: normalizeDenial_def Let_def split: if_splits)

lemma denialMessage_plain:
  "normalizeDenial d = Some n \<Longrightarrow> list_all plain_byte (denialMessage n)"
proof -
  assume "normalizeDenial d = Some n"
  note n = normalizeDenial_sound [OF this]
  have "list_all plain_byte ''Kordn denied ''" "list_all plain_byte '':''"
    "list_all plain_byte '' (''" "list_all plain_byte ''); event ''"
    by (simp_all add: plain_byte_def ord_def)
  moreover have "list_all plain_byte (dn_Service n)" "list_all plain_byte (dn_Operation n)"
    "list_all plain_byte (dn_EventID n)" "list_all plain_byte (dn_ReasonCode n)"
    using n boundedToken_plain [of _ 128] reason_code_plain by blast+
  ultimately show ?thesis by (simp only: denialMessage_def list_all_append)
qed

section \<open>Properties\<close>

text \<open>The document each protocol prescribes for a denial, with its message in place.\<close>

definition denial_document :: "string \<Rightarrow> string \<Rightarrow> string \<Rightarrow> string" where
  "denial_document protocol message event =
     (let q = [CHR 0x22] in
      if protocol = ProtocolJSON10 \<or> protocol = ProtocolJSON11
      then ''{'' @ q @ ''__type'' @ q @ '':'' @ q @ ''AccessDeniedException'' @ q @ '','' @
           q @ ''message'' @ q @ '':'' @ q @ message @ q @ ''}''
      else if protocol = ProtocolRESTJSON
      then ''{'' @ q @ ''message'' @ q @ '':'' @ q @ message @ q @ ''}''
      else if protocol = ProtocolQuery \<or> protocol = ProtocolEC2Query
      then ''<ErrorResponse><Error><Type>Sender</Type><Code>AccessDenied</Code><Message>'' @ message @
           ''</Message></Error><RequestId>'' @ event @ ''</RequestId></ErrorResponse>''
      else ''<Error><Code>AccessDenied</Code><Message>'' @ message @
           ''</Message><RequestId>'' @ event @ ''</RequestId></Error>'')"

lemma fixed_fields_plain:
  "json_string ''message'' = [CHR 0x22] @ ''message'' @ [CHR 0x22]"
  "json_string ''__type'' = [CHR 0x22] @ ''__type'' @ [CHR 0x22]"
  "json_string ''AccessDeniedException'' = [CHR 0x22] @ ''AccessDeniedException'' @ [CHR 0x22]"
  "xml_text ''Sender'' = ''Sender''" "xml_text ''AccessDenied'' = ''AccessDenied''"
  by (rule json_plain xml_plain; simp add: plain_byte_def ord_def)+

lemma setBody_fields:
  "rs_Body (setBody h b c) = b" "rs_StatusCode (setBody h b c) = 403"
  "rs_ContentLength (setBody h b c) = length b"
  "header_get (rs_Header (setBody h b c)) ''Content-Length'' = itoa (length b)"
  by (simp_all add: setBody_def header_get_set awserror_itoa_itoa)

lemma encodeLocal_setBody: "encodeLocal p n = Some r \<Longrightarrow> \<exists>h b c. r = setBody h b c"
  by (auto simp: encodeLocal_def encodeJSON_def encodeRESTJSON_def encodeQueryXML_def
      encodeRESTXML_def Let_def split: if_splits)

lemma encoder_bodies:
  assumes "list_all plain_byte (denialMessage n)" "list_all plain_byte (dn_EventID n)"
  shows "rs_Body (encodeRESTJSON n) = denial_document ProtocolRESTJSON (denialMessage n) (dn_EventID n)"
    "p = ProtocolJSON10 \<or> p = ProtocolJSON11 \<Longrightarrow>
       rs_Body (encodeJSON p n) = denial_document p (denialMessage n) (dn_EventID n)"
    "p = ProtocolQuery \<or> p = ProtocolEC2Query \<Longrightarrow>
       rs_Body (encodeQueryXML n) = denial_document p (denialMessage n) (dn_EventID n)"
    "rs_Body (encodeRESTXML n) = denial_document ProtocolRESTXML (denialMessage n) (dn_EventID n)"
  using json_plain [OF assms(1)] xml_plain [OF assms(1)] xml_plain [OF assms(2)]
  by (simp_all add: encodeJSON_def encodeRESTJSON_def encodeQueryXML_def encodeRESTXML_def
      denial_document_def Let_def fixed_fields_plain xml_element_def protocol_defs setBody_fields)
     (elim disjE; simp)+

lemma encodeLocal_document:
  assumes "list_all plain_byte (denialMessage n)" "list_all plain_byte (dn_EventID n)"
    "encodeLocal p n = Some r"
  shows "rs_Body r = denial_document p (denialMessage n) (dn_EventID n)"
  using assms(3) encoder_bodies [OF assms(1,2)]
  by (simp add: encodeLocal_def split: if_splits) auto

lemma encodeLocal_lengths:
  assumes "encodeLocal p n = Some r"
  shows "rs_StatusCode r = 403 \<and> rs_ContentLength r = length (rs_Body r) \<and>
     header_get (rs_Header r) ''Content-Length'' = itoa (length (rs_Body r))"
proof -
  obtain h b c where "r = setBody h b c" using encodeLocal_setBody [OF assms] by blast
  then show ?thesis by (simp add: setBody_fields)
qed

text \<open>
  A local denial is written without injection: whenever the encoder answers a local
  denial, the response is a 403 whose declared lengths are the length of its body, and its body is
  the fixed document of the protocol with the message, unescaped, in its place; the reason is never
  the allow reason. No byte of the service, operation, reason or event can break out of its field.
\<close>

theorem encode_local_denial_exact:
  assumes "dn_Classification d = ClassificationLocalDeny" and "Encode p d = Some r"
  shows "\<exists>n. normalizeDenial d = Some n \<and>
     rs_Body r = denial_document p (denialMessage n) (dn_EventID n) \<and>
     rs_StatusCode r = 403 \<and> rs_ContentLength r = length (rs_Body r) \<and>
     header_get (rs_Header r) ''Content-Length'' = itoa (length (rs_Body r)) \<and>
     dn_ReasonCode n \<noteq> ReasonAllRequirementsAllowed"
proof -
  from assms obtain n where n: "normalizeDenial d = Some n" "encodeLocal p n = Some r"
    by (auto simp: Encode_def classification_defs split: if_splits option.splits)
  note ok = normalizeDenial_sound [OF n(1)]
  from ok have "list_all plain_byte (dn_EventID n)" using boundedToken_plain by blast
  from encodeLocal_document [OF denialMessage_plain [OF n(1)] this n(2)]
    encodeLocal_lengths [OF n(2)] n ok
  show ?thesis by blast
qed

definition sample_denial :: Denial where
  "sample_denial = \<lparr>dn_Service = ''s3'', dn_Operation = ''GetObject'', dn_ReasonCode = ''explicit_deny'',
     dn_Reason = [], dn_EventID = ''ev1'', dn_RequestID = [], dn_Classification = ''local_deny'',
     dn_UpstreamResponse = None\<rparr>"

lemma sample_denial_normal: "normalizeDenial sample_denial = Some sample_denial"
  by (simp add: sample_denial_def normalizeDenial_def Let_def boundedToken_def go_simps go_defs
      token_rune_def ReasonCode_Valid_def allReasonCodes_def reason_defs classification_defs)

theorem encode_local_denial_exact_witness:
  "\<exists>r. Encode ''rest-json'' sample_denial = Some r \<and>
     rs_Body r = denial_document ''rest-json'' (denialMessage sample_denial) ''ev1''"
proof -
  have c: "dn_Classification sample_denial = ClassificationLocalDeny"
    by (simp add: sample_denial_def classification_defs)
  have e: "Encode ''rest-json'' sample_denial = Some (encodeRESTJSON sample_denial)"
    using c sample_denial_normal
    by (simp add: Encode_def classification_defs AWSProtocol_Supported_def protocol_defs
        encodeLocal_def)
  from encode_local_denial_exact [OF c e] e show ?thesis
    by (auto simp: sample_denial_normal) (simp add: sample_denial_def)
qed

text \<open>
  The hand-written decimal conversion of the response encoder agrees with
  \<^verbatim>\<open>strconv.Itoa\<close> on every length.
\<close>

theorem awserror_itoa_correct: "awserror_itoa n = itoa n"
  by (rule awserror_itoa_itoa)

text \<open>
  The encoder answers every well-formed local denial for every supported protocol, and
  an upstream denial is returned by identity, never relabelled.
\<close>

theorem encode_total:
  "(dn_Classification d = ClassificationLocalDeny \<and> AWSProtocol_Supported p \<longrightarrow>
      (Encode p d = None \<longleftrightarrow> normalizeDenial d = None)) \<and>
   (dn_Classification d \<in> {ClassificationUpstreamAccessDenied, ClassificationUpstreamError} \<longrightarrow>
      Encode p d = dn_UpstreamResponse d)"
  by (auto simp: Encode_def encodeLocal_def AWSProtocol_Supported_def classification_defs
      split: option.splits)

theorem encode_total_witness:
  "dn_Classification sample_denial = ClassificationLocalDeny \<and> AWSProtocol_Supported ''query'' \<and>
   (Encode ''query'' sample_denial = None \<longleftrightarrow> normalizeDenial sample_denial = None)"
  using encode_total [of sample_denial "''query''"]
  by (simp add: sample_denial_def classification_defs AWSProtocol_Supported_def protocol_defs)

end
