(* ===== verification/Policy_Engine.thy ===== *)
theory Policy_Engine
  imports Policy_Glob Reasons
begin

text \<open>
  The policy engine, \<^verbatim>\<open>src/internal/policy/decision.go\<close> and \<^verbatim>\<open>engine.go\<close>: the decision contract,
  the reflective copy of a policy, the compilation of its rules, and the evaluation of one mapped
  request with the polling of its context.

  A \<^verbatim>\<open>context.Context\<close> is the number of further \<^verbatim>\<open>Err()\<close> calls that still return nil, so that an
  evaluation may be cancelled at every point where the code polls. The SHA-256 function is a
  parameter. \<^verbatim>\<open>sort.Slice\<close> is a stable sort by the same key: the rules have pairwise different
  keys, and the order of requirements with equal keys has no effect (\<open>Evaluate\<close> is shown to be
  independent of the order of the requirements).
\<close>

section \<open>Decisions\<close>

definition DecisionAllow :: string where "DecisionAllow = ''allow''"
definition DecisionDeny :: string where "DecisionDeny = ''deny''"

definition DecisionResult_Valid :: "string \<Rightarrow> bool" where
  "DecisionResult_Valid r \<longleftrightarrow> r = DecisionAllow \<or> r = DecisionDeny"

record DecisionInput =
  di_RunID :: string
  di_Endpoint :: AWSEndpoint
  di_Request :: "DecodedAWSRequest option"
  di_Mapping :: "MappingResult option"
  di_PolicyHash :: string
  di_MapperVersion :: string

definition DecisionInput_Validate :: "DecisionInput \<Rightarrow> go_error" where
  "DecisionInput_Validate i =
     (if di_RunID i = [] \<or> di_PolicyHash i = [] \<or> di_MapperVersion i = []
      then Some ''run, policy hash, and mapper version are required''
      else case AWSEndpoint_Validate (di_Endpoint i) of
        Some err \<Rightarrow> Some (''endpoint: '' @ err)
      | None \<Rightarrow>
     (case (di_Request i, di_Mapping i) of
        (Some req, Some m) \<Rightarrow>
          (case DecodedAWSRequest_Validate req of
             Some err \<Rightarrow> Some (''request: '' @ err)
           | None \<Rightarrow>
          (case MappingResult_Validate m of
             Some err \<Rightarrow> Some (''mapping: '' @ err)
           | None \<Rightarrow>
           if dr_Partition req \<noteq> ep_Partition (di_Endpoint i) \<or>
              dr_EndpointHost req \<noteq> ep_Host (di_Endpoint i) \<or>
              dr_Service req \<noteq> ep_Service (di_Endpoint i)
           then Some ''request endpoint does not match decision endpoint''
           else if mr_Service m \<noteq> dr_Service req \<or> mr_Operation m \<noteq> dr_Operation req
           then Some ''mapping service and operation do not match decoded request''
           else if mr_MapperVersion m \<noteq> di_MapperVersion i
           then Some ''mapper version does not match mapping''
           else None))
      | _ \<Rightarrow> Some ''request and mapping are required''))"

record Decision =
  dc_Result :: string
  dc_ReasonCode :: string
  dc_MatchedRuleIDs :: "string list"

definition Decision_Valid :: "Decision \<Rightarrow> bool" where
  "Decision_Valid d \<longleftrightarrow>
     (if \<not> DecisionResult_Valid (dc_Result d) \<or> \<not> ReasonCode_Valid (dc_ReasonCode d) then False
      else if dc_Result d = DecisionAllow then dc_ReasonCode d = ReasonAllRequirementsAllowed
      else dc_ReasonCode d \<noteq> ReasonAllRequirementsAllowed)"

section \<open>Contexts\<close>

datatype Context = Background | CancelAfter nat

fun ctx_err :: "Context \<Rightarrow> bool \<times> Context" where
  "ctx_err Background = (False, Background)"
| "ctx_err (CancelAfter 0) = (True, CancelAfter 0)"
| "ctx_err (CancelAfter (Suc n)) = (False, CancelAfter n)"

section \<open>Copying a policy by reflection\<close>

text \<open>The values as \<^verbatim>\<open>reflect\<close> sees them; a struct is the list of its fields.\<close>

datatype refl =
    RInvalid
  | RString string
  | RBool bool
  | RSlice "refl list"
  | RStruct "(string \<times> refl) list"
  | RPointer "refl option"
  | ROther

definition field_by_name :: "(string \<times> refl) list \<Rightarrow> string \<Rightarrow> refl" where
  "field_by_name fs name = (case map_of fs name of None \<Rightarrow> RInvalid | Some v \<Rightarrow> v)"

record ruleSnapshot =
  rsn_ID :: string
  rsn_Effect :: string
  rsn_Actions :: "string list"
  rsn_Resources :: "string list"
  rsn_Regions :: "string list"
  rsn_Accounts :: "string list"
  rsn_Partitions :: "string list"
  rsn_Wildcard :: bool

record policySnapshot =
  ps_defaultValue :: string
  ps_rules :: "ruleSnapshot list"

definition stringField :: "(string \<times> refl) list \<Rightarrow> string \<Rightarrow> string go_result" where
  "stringField v name =
     (case field_by_name v name of RString s \<Rightarrow> Inr s | _ \<Rightarrow> Inl ''rule field is invalid'')"

fun string_elements :: "refl list \<Rightarrow> string list option" where
  "string_elements [] = Some []"
| "string_elements (RString s # rest) = map_option ((#) s) (string_elements rest)"
| "string_elements (_ # rest) = None"

definition stringSliceField :: "(string \<times> refl) list \<Rightarrow> string \<Rightarrow> string list go_result" where
  "stringSliceField v name =
     (case field_by_name v name of
        RSlice xs \<Rightarrow>
          (case string_elements xs of
             None \<Rightarrow> Inl ''rule values are invalid''
           | Some ss \<Rightarrow> Inr ss)
      | _ \<Rightarrow> Inl ''rule field is invalid'')"

definition bind_result :: "'a go_result \<Rightarrow> ('a \<Rightarrow> 'b go_result) \<Rightarrow> 'b go_result" where
  "bind_result r f = (case r of Inl e \<Rightarrow> Inl e | Inr x \<Rightarrow> f x)"

definition copyRule :: "refl \<Rightarrow> ruleSnapshot go_result" where
  "copyRule rv =
     (if rv = RPointer None then Inl ''nil rule''
      else case (case rv of RPointer (Some v) \<Rightarrow> v | v \<Rightarrow> v) of
        RStruct v \<Rightarrow>
          bind_result (stringField v ''ID'') (\<lambda>ident.
          bind_result (stringField v ''Effect'') (\<lambda>effect.
          bind_result (stringSliceField v ''Actions'') (\<lambda>actions.
          bind_result (stringSliceField v ''Resources'') (\<lambda>resources.
          bind_result (stringSliceField v ''Regions'') (\<lambda>regions.
          bind_result (stringSliceField v ''Accounts'') (\<lambda>accounts.
          bind_result (stringSliceField v ''Partitions'') (\<lambda>partitions.
          (case field_by_name v ''AllowAWSRequiredWildcard'' of
             RBool flag \<Rightarrow>
               Inr \<lparr>rsn_ID = ident, rsn_Effect = effect, rsn_Actions = actions,
                    rsn_Resources = resources, rsn_Regions = regions, rsn_Accounts = accounts,
                    rsn_Partitions = partitions, rsn_Wildcard = flag\<rparr>
           | _ \<Rightarrow> Inl ''rule wildcard field is invalid''))))))))
      | _ \<Rightarrow> Inl ''rule must be a struct'')"

fun map_result :: "('a \<Rightarrow> 'b go_result) \<Rightarrow> 'a list \<Rightarrow> 'b list go_result" where
  "map_result f [] = Inr []"
| "map_result f (x # xs) =
     (case f x of
        Inl e \<Rightarrow> Inl e
      | Inr y \<Rightarrow> (case map_result f xs of Inl e \<Rightarrow> Inl e | Inr ys \<Rightarrow> Inr (y # ys)))"

definition copyPolicy :: "refl \<Rightarrow> policySnapshot go_result" where
  "copyPolicy input =
     (case input of
        RInvalid \<Rightarrow> Inl ''policy is nil''
      | RPointer None \<Rightarrow> Inl ''policy is nil''
      | _ \<Rightarrow>
          (case (case input of RPointer (Some v) \<Rightarrow> v | v \<Rightarrow> v) of
             RStruct v \<Rightarrow>
               (case (field_by_name v ''Default'', field_by_name v ''Rules'') of
                  (RString d, RSlice rules) \<Rightarrow>
                    (case map_result copyRule rules of
                       Inl e \<Rightarrow> Inl e
                     | Inr rs \<Rightarrow> Inr \<lparr>ps_defaultValue = d, ps_rules = rs\<rparr>)
                | _ \<Rightarrow> Inl ''unsupported policy type'')
           | _ \<Rightarrow> Inl ''policy must be a struct''))"

section \<open>The policy hash\<close>

record canonicalRule =
  cr_ID :: string
  cr_Effect :: string
  cr_Actions :: "string list"
  cr_Resources :: "string list"
  cr_Regions :: "string list"
  cr_Accounts :: "string list"
  cr_Partitions :: "string list"
  cr_Wildcard :: bool

fun dedup :: "string set \<Rightarrow> string list \<Rightarrow> string list" where
  "dedup seen [] = []"
| "dedup seen (x # xs) = (if x \<in> seen then dedup seen xs else x # dedup (insert x seen) xs)"

definition normalizeValues :: "string list \<Rightarrow> bool \<Rightarrow> string list" where
  "normalizeValues xs lower = sort (dedup {} (if lower then map asciiLower xs else xs))"

definition canonicalRule_of :: "ruleSnapshot \<Rightarrow> canonicalRule" where
  "canonicalRule_of r = \<lparr>cr_ID = rsn_ID r, cr_Effect = rsn_Effect r,
     cr_Actions = normalizeValues (rsn_Actions r) True,
     cr_Resources = normalizeValues (rsn_Resources r) False,
     cr_Regions = normalizeValues (rsn_Regions r) False,
     cr_Accounts = normalizeValues (rsn_Accounts r) False,
     cr_Partitions = normalizeValues (rsn_Partitions r) False, cr_Wildcard = rsn_Wildcard r\<rparr>"

definition json_rule :: "canonicalRule \<Rightarrow> string" where
  "json_rule r = json_struct
     [(''id'', json_string (cr_ID r)), (''effect'', json_string (cr_Effect r)),
      (''actions'', json_list json_string (cr_Actions r)),
      (''resources'', json_list json_string (cr_Resources r)),
      (''regions'', json_list json_string (cr_Regions r)),
      (''accounts'', json_list json_string (cr_Accounts r)),
      (''partitions'', json_list json_string (cr_Partitions r)),
      (''allowAwsRequiredWildcard'', json_bool (cr_Wildcard r))]"

definition canonical_rules :: "policySnapshot \<Rightarrow> canonicalRule list" where
  "canonical_rules p = sort_key cr_ID (map canonicalRule_of (ps_rules p))"

definition json_policy :: "string \<Rightarrow> canonicalRule list \<Rightarrow> string" where
  "json_policy d rules = json_struct
     [(''default'', json_string d), (''rules'', json_list json_rule rules)]"

definition snapshotPolicyHash :: "(string \<Rightarrow> string) \<Rightarrow> policySnapshot \<Rightarrow> string" where
  "snapshotPolicyHash sha256 p =
     ''sha256:'' @ hex_encode (sha256 (json_policy (ps_defaultValue p) (canonical_rules p)))"

section \<open>Compilation\<close>

definition maxPolicyRules :: nat where "maxPolicyRules = 10000"
definition maxRuleValues :: nat where "maxRuleValues = 1000"
definition maxRequirements :: nat where "maxRequirements = 1000"
definition maxRequirementValues :: nat where "maxRequirementValues = 1000"
definition maxMapperTextLength :: nat where "maxMapperTextLength = 512"
definition maxConditionHintItems :: nat where "maxConditionHintItems = 1000"
definition maxEvaluationCombos :: nat where "maxEvaluationCombos = 100000"

lemmas engine_limits = maxPolicyRules_def maxRuleValues_def maxRequirements_def
  maxRequirementValues_def maxMapperTextLength_def maxConditionHintItems_def maxEvaluationCombos_def

record compiledRule =
  ru_id :: string
  ru_effect :: string
  ru_actions :: "Glob list"
  ru_resources :: "Glob list"
  ru_regions :: "string set"
  ru_accounts :: "string set"
  ru_partitions :: "string set"
  ru_allowAWSRequiredWildcard :: bool

record Engine =
  eng_defaultDeny :: bool
  eng_rules :: "compiledRule list"
  eng_hash :: string

definition identifier_rune :: "bool \<Rightarrow> rune \<Rightarrow> bool" where
  "identifier_rune allowPunctuation r \<longleftrightarrow>
     alnum_rune r \<or> (allowPunctuation \<and> (r = 46 \<or> r = 95 \<or> r = 45))"

definition validIdentifier :: "string \<Rightarrow> bool \<Rightarrow> bool" where
  "validIdentifier val allowPunctuation \<longleftrightarrow>
     (case runes val of
        [] \<Rightarrow> True
      | r # _ \<Rightarrow> alnum_rune r \<and> list_all (identifier_rune allowPunctuation) (runes val))"

text \<open>The callers only pass non-empty values (\<^verbatim>\<open>value[0]\<close> would panic on the empty one).\<close>

definition validRegion :: "string \<Rightarrow> bool" where
  "validRegion val \<longleftrightarrow>
     val \<noteq> [] \<and>
     \<not> (length val > maxMapperTextLength \<or> \<not> is_lower_byte (hd val)) \<and>
     is_digit_byte (last val) \<and>
     list_all dns_rune (runes val) \<and> contains_byte val CHR ''-''"

definition validAccount :: "string \<Rightarrow> bool" where
  "validAccount val \<longleftrightarrow> length val = 12 \<and> list_all digit_rune (runes val)"

definition validPartition :: "string \<Rightarrow> bool" where
  "validPartition val \<longleftrightarrow>
     val \<in> set [''aws'', ''aws-us-gov'', ''aws-cn'', ''aws-iso'', ''aws-iso-b'', ''aws-iso-f'']"

fun constraint_loop :: "string \<Rightarrow> (string \<Rightarrow> bool) \<Rightarrow> string list \<Rightarrow> string set \<Rightarrow> string set go_result" where
  "constraint_loop label valid [] destination = Inr destination"
| "constraint_loop label valid (val # rest) destination =
     (if val = [] \<or> \<not> valid val then Inl (''invalid '' @ label @ '' constraint'')
      else if val \<in> destination then Inl (''duplicate '' @ label @ '' constraint'')
      else constraint_loop label valid rest (insert val destination))"

definition compileConstraintSet ::
  "string list \<Rightarrow> string \<Rightarrow> (string \<Rightarrow> bool) \<Rightarrow> string set go_result" where
  "compileConstraintSet vals label valid =
     (if length vals > maxRuleValues then Inl (label @ '' constraints exceed limit'')
      else constraint_loop label valid vals {})"

text \<open>The loops over the actions and the resources; \<open>key\<close> is the value the duplicates are looked for by, \<open>what\<close> names the list.\<close>

fun compile_globs ::
  "string \<Rightarrow> (string \<Rightarrow> string) \<Rightarrow> (string \<Rightarrow> Glob go_result) \<Rightarrow> string set \<Rightarrow> string list \<Rightarrow> Glob list go_result" where
  "compile_globs what key compile seen [] = Inr []"
| "compile_globs what key compile seen (val # rest) =
     (if key val \<in> seen then Inl (''rule '' @ what @ ''s contain duplicates'')
      else case compile val of
        Inl err \<Rightarrow> Inl (what @ '': '' @ err)
      | Inr glob \<Rightarrow>
          (case compile_globs what key compile (insert (key val) seen) rest of
             Inl err \<Rightarrow> Inl err
           | Inr globs \<Rightarrow> Inr (glob # globs)))"

definition compileRule :: "ruleSnapshot \<Rightarrow> compiledRule go_result" where
  "compileRule source =
     (if length (rsn_ID source) = 0 \<or> length (rsn_ID source) > 128 \<or>
         \<not> validIdentifier (rsn_ID source) True
      then Inl ''rule ID is invalid''
      else if rsn_Effect source \<noteq> ''allow'' \<and> rsn_Effect source \<noteq> ''deny''
      then Inl ''rule effect is invalid''
      else if rsn_Effect source = ''deny'' \<and> rsn_Wildcard source
      then Inl ''wildcard acknowledgement is only valid on allow rules''
      else if length (rsn_Actions source) = 0 \<or> length (rsn_Actions source) > maxRuleValues \<or>
              length (rsn_Resources source) = 0 \<or> length (rsn_Resources source) > maxRuleValues
      then Inl ''rule action and resource lists are out of bounds''
      else
        bind_result (compile_globs ''action'' asciiLower CompileActionGlob {} (rsn_Actions source)) (\<lambda>actions.
        bind_result (compile_globs ''resource'' (\<lambda>v. v) CompileGlob {} (rsn_Resources source)) (\<lambda>resources.
        bind_result (compileConstraintSet (rsn_Regions source) ''region'' validRegion) (\<lambda>regions.
        bind_result (compileConstraintSet (rsn_Accounts source) ''account'' validAccount) (\<lambda>accounts.
        bind_result (compileConstraintSet (rsn_Partitions source) ''partition'' validPartition) (\<lambda>partitions.
        Inr \<lparr>ru_id = rsn_ID source, ru_effect = rsn_Effect source, ru_actions = actions,
             ru_resources = resources, ru_regions = regions, ru_accounts = accounts,
             ru_partitions = partitions, ru_allowAWSRequiredWildcard = rsn_Wildcard source\<rparr>))))))"

fun compile_rules :: "string set \<Rightarrow> ruleSnapshot list \<Rightarrow> compiledRule list go_result" where
  "compile_rules seenIDs [] = Inr []"
| "compile_rules seenIDs (source # rest) =
     (case compileRule source of
        Inl err \<Rightarrow> Inl (''rule: '' @ err)
      | Inr rule \<Rightarrow>
          if ru_id rule \<in> seenIDs then Inl ''rule is duplicated''
          else (case compile_rules (insert (ru_id rule) seenIDs) rest of
                  Inl err \<Rightarrow> Inl err
                | Inr rules \<Rightarrow> Inr (rule # rules)))"

definition engine_of_snapshot :: "(string \<Rightarrow> string) \<Rightarrow> policySnapshot \<Rightarrow> Engine go_result" where
  "engine_of_snapshot sha256 p =
     (if ps_defaultValue p \<noteq> ''deny'' then Inl ''policy default must be deny''
      else if length (ps_rules p) > maxPolicyRules then Inl ''policy has too many rules''
      else case compile_rules {} (ps_rules p) of
        Inl err \<Rightarrow> Inl err
      | Inr rules \<Rightarrow>
          Inr \<lparr>eng_defaultDeny = True, eng_rules = sort_key ru_id rules,
               eng_hash = snapshotPolicyHash sha256 p\<rparr>)"

definition NewEngine :: "(string \<Rightarrow> string) \<Rightarrow> refl \<Rightarrow> Engine go_result" where
  "NewEngine sha256 input = bind_result (copyPolicy input) (engine_of_snapshot sha256)"

definition Engine_PolicyHash :: "Engine option \<Rightarrow> string" where
  "Engine_PolicyHash e = (case e of None \<Rightarrow> [] | Some eng \<Rightarrow> eng_hash eng)"

section \<open>Resource names\<close>

record arnContext =
  arn_partition :: string
  arn_service :: string
  arn_region :: string
  arn_account :: string
  arn_resource :: string

definition arn_service_rune :: "rune \<Rightarrow> bool" where
  "arn_service_rune r \<longleftrightarrow> alnum_rune r \<or> r = 45"

definition parseARN :: "string \<Rightarrow> arnContext go_result" where
  "parseARN val =
     (case splitn_byte 6 CHR '':'' val of
        [p0, p1, p2, p3, p4, p5] \<Rightarrow>
          (if p0 \<noteq> ''arn'' \<or> \<not> validPartition p1 \<or> p2 = [] \<or> p5 = [] then Inl ''malformed ARN''
           else if p3 \<noteq> [] \<and> \<not> validRegion p3 then Inl ''malformed ARN region''
           else if p4 \<noteq> [] \<and> \<not> validAccount p4 then Inl ''malformed ARN account''
           else if list_ex (\<lambda>r. \<not> arn_service_rune r) (runes p2) then Inl ''malformed ARN service''
           else Inr \<lparr>arn_partition = p1, arn_service = p2, arn_region = p3, arn_account = p4,
                     arn_resource = p5\<rparr>)
      | _ \<Rightarrow> Inl ''malformed ARN'')"

section \<open>Evaluation\<close>

definition internalDecision :: Decision where
  "internalDecision = \<lparr>dc_Result = DecisionDeny, dc_ReasonCode = ReasonInternalFailClosed,
     dc_MatchedRuleIDs = []\<rparr>"

definition denyDecision :: "string \<Rightarrow> Decision" where
  "denyDecision reason = \<lparr>dc_Result = DecisionDeny, dc_ReasonCode = reason, dc_MatchedRuleIDs = []\<rparr>"

definition sortedIDs :: "string set \<Rightarrow> string list" where
  "sortedIDs vals = sorted_list_of_set vals"

definition requirementKey :: "IAMRequirement \<Rightarrow> string" where
  "requirementKey r = asciiLower (rq_Action r) @ [CHR 0x00] @ rq_ScopeKind r @ [CHR 0x00] @
     sprint_bool (rq_Dependent r) @ [CHR 0x00] @ join [CHR 0x00] (rq_Resources r)"

definition snapshotRequirements :: "IAMRequirement list \<Rightarrow> IAMRequirement list" where
  "snapshotRequirements vals =
     sort_key requirementKey (map (\<lambda>r. r\<lparr>rq_Resources := sort (rq_Resources r)\<rparr>) vals)"

definition ruleHasLiteralStar :: "Glob list \<Rightarrow> bool" where
  "ruleHasLiteralStar resources \<longleftrightarrow> list_ex (\<lambda>g. glob_pattern g = ''*'') resources"

definition constraintMatches :: "string set \<Rightarrow> string \<Rightarrow> bool" where
  "constraintMatches vals val \<longleftrightarrow> (if vals = {} then True else val \<in> vals)"

definition ruleMatches ::
  "compiledRule \<Rightarrow> string \<Rightarrow> string \<Rightarrow> string \<Rightarrow> DecodedAWSRequest \<Rightarrow> bool" where
  "ruleMatches rule action resource scope req \<longleftrightarrow>
     (if \<not> list_ex (\<lambda>g. Glob_Match g action) (ru_actions rule) then False
      else if \<not> list_ex (\<lambda>g. Glob_Match g resource) (ru_resources rule) then False
      else if has_prefix resource ''arn:'' then
        (case parseARN resource of
           Inl _ \<Rightarrow> False
         | Inr arn \<Rightarrow>
             if arn_partition arn \<noteq> dr_Partition req then False
             else if arn_region arn \<noteq> [] \<and> arn_region arn \<noteq> dr_Region req then False
             else constraintMatches (ru_regions rule) (arn_region arn) \<and>
                  constraintMatches (ru_accounts rule) (arn_account arn) \<and>
                  constraintMatches (ru_partitions rule) (arn_partition arn))
      else if resource = ''*'' \<and> scope = ScopeKnownGlobal then
        constraintMatches (ru_regions rule) (dr_Region req) \<and>
        constraintMatches (ru_accounts rule) (dr_CallerAccountID req) \<and>
        constraintMatches (ru_partitions rule) (dr_Partition req)
      else if ru_regions rule \<noteq> {} \<or> ru_accounts rule \<noteq> {} \<or> ru_partitions rule \<noteq> {} then False
      else True)"

text \<open>The checks of one requirement, in the order of the loop; \<open>combos\<close> is the running total.\<close>

definition condition_hint_error :: "string \<times> string list \<Rightarrow> go_error" where
  "condition_hint_error kv =
     (case kv of (key, vals) \<Rightarrow>
        if length key = 0 \<or> length key > MaxGlobLength \<or> \<not> valid_utf8 key \<or>
           length vals > maxRequirementValues
        then Some ''condition hint is out of bounds''
        else first_err (\<lambda>v. if length v > MaxGlobLength \<or> \<not> valid_utf8 v
                            then Some ''condition hint value is out of bounds'' else None) vals)"

definition evaluated_resource_error :: "string \<Rightarrow> go_error" where
  "evaluated_resource_error resource =
     (if length resource = 0 \<or> length resource > MaxGlobLength \<or> \<not> valid_utf8 resource
      then Some ''requirement resource is out of bounds''
      else if list_ex is_control_rune (runes resource)
      then Some ''requirement resource contains control syntax''
      else if has_prefix resource ''arn:'' then
        (case parseARN resource of Inl err \<Rightarrow> Some err | Inr _ \<Rightarrow> None)
      else None)"

definition requirement_error :: "string \<Rightarrow> nat \<Rightarrow> IAMRequirement \<Rightarrow> go_error" where
  "requirement_error service combos r =
     (if length (rq_Action r) = 0 \<or> length (rq_Action r) > MaxGlobLength \<or> contains_any (rq_Action r) ''*?''
      then Some ''requirement action is out of bounds or not concrete''
      else case CompileActionGlob (rq_Action r) of
        Inl err \<Rightarrow> Some err
      | Inr _ \<Rightarrow>
      if length (rq_Resources r) > maxRequirementValues
      then Some ''requirement resources are out of bounds''
      else if combos + length (rq_Resources r) > maxEvaluationCombos
      then Some ''requirement combinations exceed limit''
      else if (case splitn_byte 2 CHR '':'' (rq_Action r) of
                 [svc, _] \<Rightarrow> \<not> rq_Dependent r \<and> \<not> equal_fold svc service
               | _ \<Rightarrow> True)
      then Some ''requirement action service disagrees with mapping''
      else case first_err evaluated_resource_error (rq_Resources r) of
        Some err \<Rightarrow> Some err
      | None \<Rightarrow>
      if length (rq_ConditionHint r) > maxConditionHintItems
      then Some ''condition hints are out of bounds''
      else first_err condition_hint_error (rq_ConditionHint r))"

fun requirements_error :: "string \<Rightarrow> nat \<Rightarrow> IAMRequirement list \<Rightarrow> go_error" where
  "requirements_error service combos [] = None"
| "requirements_error service combos (r # rest) =
     (case requirement_error service combos r of
        Some err \<Rightarrow> Some err
      | None \<Rightarrow> requirements_error service (combos + length (rq_Resources r)) rest)"

definition validateEvaluationInput ::
  "AWSEndpoint \<Rightarrow> DecodedAWSRequest \<Rightarrow> MappingResult \<Rightarrow> go_error" where
  "validateEvaluationInput endpoint req m =
     (if length (mr_Requirements m) = 0 \<or> length (mr_Requirements m) > maxRequirements
      then Some ''requirements are out of bounds''
      else if length (mr_Service m) > maxMapperTextLength \<or>
              length (mr_Operation m) > maxMapperTextLength \<or>
              length (mr_MapperVersion m) > maxMapperTextLength
      then Some ''mapping text is out of bounds''
      else case requirements_error (mr_Service m) 0 (mr_Requirements m) of
        Some err \<Rightarrow> Some err
      | None \<Rightarrow>
      if AWSEndpoint_IsGlobal endpoint \<noteq> (dr_Region req = []) \<or> ep_Region endpoint \<noteq> dr_Region req
      then Some ''endpoint and request scope disagree''
      else None)"

text \<open>The accumulators of the three nested loops.\<close>

record scan =
  sc_matched :: "string set"
  sc_explicitDeny :: bool
  sc_covered :: bool
  sc_sawUnacknowledged :: bool

record totals =
  tt_matched :: "string set"
  tt_explicitDeny :: bool
  tt_wildcardMissing :: bool
  tt_uncovered :: bool

definition scan_rule ::
  "IAMRequirement \<Rightarrow> string \<Rightarrow> DecodedAWSRequest \<Rightarrow> compiledRule \<Rightarrow> scan \<Rightarrow> scan" where
  "scan_rule requirement resource req rule sc =
     (if \<not> ruleMatches rule (rq_Action requirement) resource (rq_ScopeKind requirement) req then sc
      else
        (let sc = sc\<lparr>sc_matched := insert (ru_id rule) (sc_matched sc)\<rparr> in
         if ru_effect rule = ''deny'' then sc\<lparr>sc_explicitDeny := True\<rparr>
         else if rq_ScopeKind requirement = ScopeKnownGlobal then
           (if ru_allowAWSRequiredWildcard rule \<and> ruleHasLiteralStar (ru_resources rule)
            then sc\<lparr>sc_covered := True\<rparr>
            else sc\<lparr>sc_sawUnacknowledged := True\<rparr>)
         else sc\<lparr>sc_covered := True\<rparr>))"

text \<open>The scan of the rules; \<^const>\<open>None\<close> when a poll of the context finds it cancelled.\<close>

fun scan_rules ::
  "IAMRequirement \<Rightarrow> string \<Rightarrow> DecodedAWSRequest \<Rightarrow> nat \<Rightarrow> compiledRule list \<Rightarrow> Context \<Rightarrow> scan \<Rightarrow>
     (Context \<times> scan) option" where
  "scan_rules requirement resource req ruleIndex [] ctx sc = Some (ctx, sc)"
| "scan_rules requirement resource req ruleIndex (rule # rest) ctx sc =
     (case (if ruleIndex mod 64 = 0 then ctx_err ctx else (False, ctx)) of
        (cancelled, ctx') \<Rightarrow>
          if cancelled then None
          else scan_rules requirement resource req (ruleIndex + 1) rest ctx'
                 (scan_rule requirement resource req rule sc))"

definition add_scan :: "scan \<Rightarrow> totals \<Rightarrow> totals" where
  "add_scan sc tt =
     (let tt = tt\<lparr>tt_matched := sc_matched sc, tt_explicitDeny := sc_explicitDeny sc\<rparr> in
      if \<not> sc_covered sc then
        (if sc_sawUnacknowledged sc then tt\<lparr>tt_wildcardMissing := True\<rparr>
         else tt\<lparr>tt_uncovered := True\<rparr>)
      else tt)"

fun scan_resources ::
  "compiledRule list \<Rightarrow> DecodedAWSRequest \<Rightarrow> IAMRequirement \<Rightarrow> string list \<Rightarrow> Context \<Rightarrow> totals \<Rightarrow>
     (Context \<times> totals) option" where
  "scan_resources rules req requirement [] ctx tt = Some (ctx, tt)"
| "scan_resources rules req requirement (resource # rest) ctx tt =
     (case ctx_err ctx of
        (cancelled, ctx') \<Rightarrow>
          if cancelled then None
          else
            (case scan_rules requirement resource req 0 rules ctx'
                    \<lparr>sc_matched = tt_matched tt, sc_explicitDeny = tt_explicitDeny tt,
                     sc_covered = False, sc_sawUnacknowledged = False\<rparr> of
               None \<Rightarrow> None
             | Some (ctx'', sc) \<Rightarrow>
                 scan_resources rules req requirement rest ctx'' (add_scan sc tt)))"

fun scan_requirements ::
  "compiledRule list \<Rightarrow> DecodedAWSRequest \<Rightarrow> IAMRequirement list \<Rightarrow> Context \<Rightarrow> totals \<Rightarrow>
     (Context \<times> totals) option" where
  "scan_requirements rules req [] ctx tt = Some (ctx, tt)"
| "scan_requirements rules req (requirement # rest) ctx tt =
     (case scan_resources rules req requirement (rq_Resources requirement) ctx tt of
        None \<Rightarrow> None
      | Some (ctx', tt') \<Rightarrow> scan_requirements rules req rest ctx' tt')"

definition empty_totals :: totals where
  "empty_totals = \<lparr>tt_matched = {}, tt_explicitDeny = False, tt_wildcardMissing = False,
     tt_uncovered = False\<rparr>"

definition decide_totals :: "Context \<Rightarrow> totals \<Rightarrow> Decision" where
  "decide_totals ctx tt =
     (let ids = sortedIDs (tt_matched tt) in
      if tt_explicitDeny tt
      then \<lparr>dc_Result = DecisionDeny, dc_ReasonCode = ReasonExplicitDeny, dc_MatchedRuleIDs = ids\<rparr>
      else if tt_wildcardMissing tt
      then \<lparr>dc_Result = DecisionDeny, dc_ReasonCode = ReasonAWSRequiredWildcardNotApproved,
            dc_MatchedRuleIDs = ids\<rparr>
      else if tt_uncovered tt
      then \<lparr>dc_Result = DecisionDeny, dc_ReasonCode = ReasonPolicyNoMatchingAllow,
            dc_MatchedRuleIDs = ids\<rparr>
      else if fst (ctx_err ctx) then internalDecision
      else \<lparr>dc_Result = DecisionAllow, dc_ReasonCode = ReasonAllRequirementsAllowed,
            dc_MatchedRuleIDs = ids\<rparr>)"

text \<open>The loop that stops at the first unresolved requirement.\<close>

fun unresolved_decision :: "IAMRequirement list \<Rightarrow> Decision option" where
  "unresolved_decision [] = None"
| "unresolved_decision (r # rest) =
     (if rq_ScopeKind r = ScopeUnresolved then
        Some (denyDecision (if rq_Dependent r then ReasonDependentPermissionUnresolved
                            else ReasonResourceUnresolved))
      else unresolved_decision rest)"

definition evaluate_requirements ::
  "compiledRule list \<Rightarrow> Context \<Rightarrow> DecodedAWSRequest \<Rightarrow> IAMRequirement list \<Rightarrow> Decision" where
  "evaluate_requirements rules ctx req requirements =
     (case unresolved_decision requirements of
        Some d \<Rightarrow> d
      | None \<Rightarrow>
          (case scan_requirements rules req requirements ctx empty_totals of
             None \<Rightarrow> internalDecision
           | Some (ctx', tt) \<Rightarrow> decide_totals ctx' tt))"

definition Engine_Evaluate :: "Engine option \<Rightarrow> Context option \<Rightarrow> DecisionInput \<Rightarrow> Decision" where
  "Engine_Evaluate e ctx input =
     (case (e, ctx) of
        (Some eng, Some c) \<Rightarrow>
          (case ctx_err c of
             (cancelled, c1) \<Rightarrow>
               if cancelled then internalDecision
               else if DecisionInput_Validate input \<noteq> None then internalDecision
               else if di_PolicyHash input \<noteq> eng_hash eng then internalDecision
               else
                 (case (di_Request input, di_Mapping input) of
                    (Some req, Some m) \<Rightarrow>
                      if mr_Confidence m \<noteq> ConfidenceHigh
                      then denyDecision ReasonMappingLowConfidence
                      else if validateEvaluationInput (di_Endpoint input) req m \<noteq> None
                      then internalDecision
                      else evaluate_requirements (eng_rules eng) c1 req
                             (snapshotRequirements (mr_Requirements m))
                  | _ \<Rightarrow> internalDecision))
      | _ \<Rightarrow> internalDecision)"

end
