(* ===== verification/Policy_Semantics.thy ===== *)
theory Policy_Semantics
  imports Policy_Engine
begin

text \<open>
  What the policy engine of \<open>Policy_Engine\<close> decides. The specification is declarative: a request is
  allowed when every action on every resource is granted by some rule and denied by none. The
  lemmas reduce the three nested loops, with their accumulators and polls, to it.
\<close>

section \<open>Specification\<close>

definition hits :: "DecodedAWSRequest \<Rightarrow> IAMRequirement \<Rightarrow> string \<Rightarrow> compiledRule \<Rightarrow> bool" where
  "hits req q res r \<longleftrightarrow> ruleMatches r (rq_Action q) res (rq_ScopeKind q) req"

text \<open>An allow rule grants a known-global resource only with its acknowledgement and a literal \<^verbatim>\<open>*\<close>.\<close>

definition acknowledged :: "IAMRequirement \<Rightarrow> compiledRule \<Rightarrow> bool" where
  "acknowledged q r \<longleftrightarrow>
     (rq_ScopeKind q = ScopeKnownGlobal \<longrightarrow>
        ru_allowAWSRequiredWildcard r \<and> ruleHasLiteralStar (ru_resources r))"

definition denied_by :: "compiledRule set \<Rightarrow> DecodedAWSRequest \<Rightarrow> IAMRequirement \<Rightarrow> string \<Rightarrow> bool" where
  "denied_by rules req q res \<longleftrightarrow> (\<exists>r \<in> rules. hits req q res r \<and> ru_effect r = ''deny'')"

definition granted_by :: "compiledRule set \<Rightarrow> DecodedAWSRequest \<Rightarrow> IAMRequirement \<Rightarrow> string \<Rightarrow> bool" where
  "granted_by rules req q res \<longleftrightarrow>
     (\<exists>r \<in> rules. hits req q res r \<and> ru_effect r \<noteq> ''deny'' \<and> acknowledged q r)"

definition unacknowledged_by ::
  "compiledRule set \<Rightarrow> DecodedAWSRequest \<Rightarrow> IAMRequirement \<Rightarrow> string \<Rightarrow> bool" where
  "unacknowledged_by rules req q res \<longleftrightarrow>
     (\<exists>r \<in> rules. hits req q res r \<and> ru_effect r \<noteq> ''deny'' \<and> \<not> acknowledged q r)"

definition demands :: "IAMRequirement set \<Rightarrow> (IAMRequirement \<times> string) set" where
  "demands qs = {(q, res) | q res. q \<in> qs \<and> res \<in> set (rq_Resources q)}"

definition matched_ids ::
  "compiledRule set \<Rightarrow> DecodedAWSRequest \<Rightarrow> (IAMRequirement \<times> string) set \<Rightarrow> string set" where
  "matched_ids rules req ds = {ru_id r | r q res. r \<in> rules \<and> (q, res) \<in> ds \<and> hits req q res r}"

definition spec_totals ::
  "compiledRule set \<Rightarrow> DecodedAWSRequest \<Rightarrow> (IAMRequirement \<times> string) set \<Rightarrow> totals" where
  "spec_totals rules req ds =
     \<lparr>tt_matched = matched_ids rules req ds,
      tt_explicitDeny = (\<exists>(q, res) \<in> ds. denied_by rules req q res),
      tt_wildcardMissing =
        (\<exists>(q, res) \<in> ds. \<not> granted_by rules req q res \<and> unacknowledged_by rules req q res),
      tt_uncovered =
        (\<exists>(q, res) \<in> ds. \<not> granted_by rules req q res \<and> \<not> unacknowledged_by rules req q res)\<rparr>"

section \<open>The loops compute the specification\<close>

definition join_totals :: "totals \<Rightarrow> totals \<Rightarrow> totals" where
  "join_totals a b =
     \<lparr>tt_matched = tt_matched a \<union> tt_matched b,
      tt_explicitDeny = (tt_explicitDeny a \<or> tt_explicitDeny b),
      tt_wildcardMissing = (tt_wildcardMissing a \<or> tt_wildcardMissing b),
      tt_uncovered = (tt_uncovered a \<or> tt_uncovered b)\<rparr>"

lemma join_totals_empty [simp]: "join_totals empty_totals t = t" "join_totals t empty_totals = t"
  by (simp_all add: join_totals_def empty_totals_def)

lemma spec_totals_Un:
  "spec_totals rules req (a \<union> b) = join_totals (spec_totals rules req a) (spec_totals rules req b)"
  by (auto simp: spec_totals_def join_totals_def matched_ids_def)

lemma spec_totals_empty [simp]: "spec_totals rules req {} = empty_totals"
  by (simp add: spec_totals_def empty_totals_def matched_ids_def)

lemma join_totals_assoc: "join_totals (join_totals a b) c = join_totals a (join_totals b c)"
  by (auto simp: join_totals_def)

text \<open>The scan of the rules without cancellation is a fold.\<close>

definition scan_spec ::
  "compiledRule set \<Rightarrow> DecodedAWSRequest \<Rightarrow> IAMRequirement \<Rightarrow> string \<Rightarrow> scan \<Rightarrow> scan" where
  "scan_spec rules req q res sc =
     \<lparr>sc_matched = sc_matched sc \<union> matched_ids rules req {(q, res)},
      sc_explicitDeny = (sc_explicitDeny sc \<or> denied_by rules req q res),
      sc_covered = (sc_covered sc \<or> granted_by rules req q res),
      sc_sawUnacknowledged = (sc_sawUnacknowledged sc \<or> unacknowledged_by rules req q res)\<rparr>"

lemma scan_spec_empty [simp]: "scan_spec {} req q res sc = sc"
  by (simp add: scan_spec_def matched_ids_def denied_by_def granted_by_def unacknowledged_by_def)

lemma scan_spec_insert:
  "scan_spec (insert r rules) req q res sc = scan_spec rules req q res (scan_rule q res req r sc)"
  by (auto simp: scan_spec_def scan_rule_def Let_def hits_def matched_ids_def denied_by_def
      granted_by_def unacknowledged_by_def acknowledged_def)

lemma scan_rules_background:
  "scan_rules q res req i rules Background sc = Some (Background, scan_spec (set rules) req q res sc)"
  by (induction rules arbitrary: i sc) (simp_all add: scan_spec_insert)

lemma add_scan_spec:
  "add_scan (scan_spec rules req q res
     \<lparr>sc_matched = tt_matched tt, sc_explicitDeny = tt_explicitDeny tt, sc_covered = False,
      sc_sawUnacknowledged = False\<rparr>) tt = join_totals tt (spec_totals rules req {(q, res)})"
  by (auto simp: add_scan_def scan_spec_def join_totals_def spec_totals_def Let_def)

lemma scan_resources_background:
  "scan_resources rules req q rs Background tt =
     Some (Background, join_totals tt (spec_totals (set rules) req ({q} \<times> set rs)))"
proof (induction rs arbitrary: tt)
  case (Cons r rs)
  have "{q} \<times> set (r # rs) = {(q, r)} \<union> {q} \<times> set rs" by auto
  then show ?case
    by (simp only: scan_resources.simps ctx_err.simps prod.case if_False scan_rules_background
        option.case add_scan_spec Cons spec_totals_Un join_totals_assoc)
qed simp

lemma demands_insert: "demands (insert q qs) = {q} \<times> set (rq_Resources q) \<union> demands qs"
  by (auto simp: demands_def)

lemma scan_requirements_background:
  "scan_requirements rules req qs Background tt =
     Some (Background, join_totals tt (spec_totals (set rules) req (demands (set qs))))"
proof (induction qs arbitrary: tt)
  case Nil
  then show ?case by (simp add: demands_def)
next
  case (Cons q qs)
  then show ?case
    by (simp add: scan_resources_background demands_insert spec_totals_Un join_totals_assoc)
qed

section \<open>Cancellation\<close>

lemma ctx_err_cases: "ctx_err c = (b, c') \<Longrightarrow> b \<or> ctx_err Background = (b, Background)"
  by (cases c rule: ctx_err.cases) auto

lemma scan_rules_any:
  "scan_rules q res req i rules c sc = Some (c', sc') \<Longrightarrow> sc' = scan_spec (set rules) req q res sc"
  by (induction rules arbitrary: i c sc)
     (auto simp: scan_spec_insert split: prod.splits if_splits)

lemma scan_resources_any:
  "scan_resources rules req q rs c tt = Some (c', tt') \<Longrightarrow>
     tt' = join_totals tt (spec_totals (set rules) req ({q} \<times> set rs))"
proof (induction rs arbitrary: c tt)
  case (Cons r rs)
  have split: "{q} \<times> set (r # rs) = {(q, r)} \<union> {q} \<times> set rs" by auto
  from Cons.prems obtain c1 c2 sc where
    s: "scan_rules q r req 0 rules c1 \<lparr>sc_matched = tt_matched tt, sc_explicitDeny = tt_explicitDeny tt,
          sc_covered = False, sc_sawUnacknowledged = False\<rparr> = Some (c2, sc)"
    "scan_resources rules req q rs c2 (add_scan sc tt) = Some (c', tt')"
    by (auto split: prod.splits if_splits option.splits)
  from Cons.IH [OF s(2)] scan_rules_any [OF s(1)] show ?case
    by (simp only: add_scan_spec split spec_totals_Un join_totals_assoc)
qed simp

lemma scan_requirements_any:
  "scan_requirements rules req qs c tt = Some (c', tt') \<Longrightarrow>
     tt' = join_totals tt (spec_totals (set rules) req (demands (set qs)))"
proof (induction qs arbitrary: c tt)
  case Nil
  then show ?case by (simp add: demands_def)
next
  case (Cons q qs)
  from Cons.prems obtain c1 t1 where
    s: "scan_resources rules req q (rq_Resources q) c tt = Some (c1, t1)"
    "scan_requirements rules req qs c1 t1 = Some (c', tt')"
    by (auto split: prod.splits option.splits)
  from Cons.IH [OF s(2)] scan_resources_any [OF s(1)] show ?case
    by (simp add: demands_insert spec_totals_Un join_totals_assoc)
qed

lemma decide_totals_any: "decide_totals c tt \<in> {internalDecision, decide_totals Background tt}"
  by (simp add: decide_totals_def Let_def)

definition decide_spec ::
  "compiledRule set \<Rightarrow> DecodedAWSRequest \<Rightarrow> IAMRequirement set \<Rightarrow> Decision" where
  "decide_spec rules req qs = decide_totals Background (spec_totals rules req (demands qs))"

lemma evaluate_background:
  "evaluate_requirements rules Background req qs =
     (case unresolved_decision qs of Some d \<Rightarrow> d | None \<Rightarrow> decide_spec (set rules) req (set qs))"
  by (simp add: evaluate_requirements_def scan_requirements_background decide_spec_def
      split: option.split)

lemma evaluate_any:
  "evaluate_requirements rules c req qs \<in>
     {internalDecision, evaluate_requirements rules Background req qs}"
proof (cases "unresolved_decision qs")
  case None
  show ?thesis
  proof (cases "scan_requirements rules req qs c empty_totals")
    case (Some r)
    obtain c' tt where r: "r = (c', tt)" by (cases r)
    with scan_requirements_any [of rules req qs c empty_totals c' tt] Some
    have "tt = spec_totals (set rules) req (demands (set qs))" by simp
    with Some r None decide_totals_any [of c' tt] show ?thesis
      by (simp add: evaluate_background) (simp add: evaluate_requirements_def decide_spec_def)
  qed (simp add: evaluate_requirements_def None)
qed (simp add: evaluate_requirements_def)


section \<open>Admissible inputs\<close>

definition admissible :: "Engine \<Rightarrow> DecisionInput \<Rightarrow> DecodedAWSRequest \<Rightarrow> MappingResult \<Rightarrow> bool" where
  "admissible e input req m \<longleftrightarrow>
     DecisionInput_Validate input = None \<and> di_PolicyHash input = eng_hash e \<and>
     di_Request input = Some req \<and> di_Mapping input = Some m \<and> mr_Confidence m = ConfidenceHigh \<and>
     validateEvaluationInput (di_Endpoint input) req m = None"

text \<open>Every requirement is resolved, and each of its resources is granted and not denied.\<close>

definition authorized :: "compiledRule set \<Rightarrow> DecodedAWSRequest \<Rightarrow> IAMRequirement set \<Rightarrow> bool" where
  "authorized rules req qs \<longleftrightarrow>
     (\<forall>q \<in> qs. rq_ScopeKind q \<noteq> ScopeUnresolved \<and>
        (\<forall>res \<in> set (rq_Resources q). granted_by rules req q res \<and> \<not> denied_by rules req q res))"

lemma evaluate_admissible:
  "admissible e input req m \<Longrightarrow> \<not> fst (ctx_err c) \<Longrightarrow>
     Engine_Evaluate (Some e) (Some c) input =
     evaluate_requirements (eng_rules e) (snd (ctx_err c)) req (snapshotRequirements (mr_Requirements m))"
  by (cases "ctx_err c") (simp add: Engine_Evaluate_def admissible_def)

lemma evaluate_inadmissible:
  "\<not> (\<exists>req m. admissible e input req m) \<Longrightarrow>
     Engine_Evaluate (Some e) (Some c) input \<in> {internalDecision, denyDecision ReasonMappingLowConfidence}"
  by (auto simp: Engine_Evaluate_def admissible_def split: prod.splits option.splits)

lemma admissible_unique:
  "admissible e input req m \<Longrightarrow> admissible e input req' m' \<Longrightarrow> req' = req \<and> m' = m"
  by (simp add: admissible_def)

subsection \<open>The snapshot of the requirements\<close>

definition same_demand :: "IAMRequirement \<Rightarrow> IAMRequirement \<Rightarrow> bool" where
  "same_demand q q' \<longleftrightarrow> rq_Action q = rq_Action q' \<and> rq_ScopeKind q = rq_ScopeKind q' \<and>
     set (rq_Resources q) = set (rq_Resources q')"

lemma same_demand_by:
  assumes "same_demand q q'"
  shows "denied_by rules req q = denied_by rules req q'" "granted_by rules req q = granted_by rules req q'"
    "unacknowledged_by rules req q = unacknowledged_by rules req q'" "hits req q = hits req q'"
  using assms
  by (simp_all add: same_demand_def denied_by_def granted_by_def unacknowledged_by_def hits_def
      acknowledged_def fun_eq_iff)

definition demand_covers :: "IAMRequirement set \<Rightarrow> IAMRequirement set \<Rightarrow> bool" where
  "demand_covers qs qs' \<longleftrightarrow> (\<forall>q \<in> qs. \<exists>q' \<in> qs'. same_demand q q')"

lemma demands_cover:
  assumes "demand_covers qs qs'" "(q, res) \<in> demands qs"
  shows "\<exists>q'. (q', res) \<in> demands qs' \<and> same_demand q q'"
  using assms by (force simp: demand_covers_def demands_def same_demand_def)

lemma spec_totals_mono:
  assumes "demand_covers qs qs'"
  shows "tt_matched (spec_totals rules req (demands qs)) \<subseteq> tt_matched (spec_totals rules req (demands qs'))"
    "tt_explicitDeny (spec_totals rules req (demands qs)) \<longrightarrow>
     tt_explicitDeny (spec_totals rules req (demands qs'))"
    "tt_wildcardMissing (spec_totals rules req (demands qs)) \<longrightarrow>
     tt_wildcardMissing (spec_totals rules req (demands qs'))"
    "tt_uncovered (spec_totals rules req (demands qs)) \<longrightarrow>
     tt_uncovered (spec_totals rules req (demands qs'))"
proof -
  note cov = demands_cover [OF assms]
  show "tt_matched (spec_totals rules req (demands qs)) \<subseteq> tt_matched (spec_totals rules req (demands qs'))"
  proof
    fix x
    assume "x \<in> tt_matched (spec_totals rules req (demands qs))"
    then obtain r q res where r: "x = ru_id r" "r \<in> rules" "(q, res) \<in> demands qs" "hits req q res r"
      by (auto simp: spec_totals_def matched_ids_def)
    from cov [OF r(3)] obtain q' where "(q', res) \<in> demands qs'" "same_demand q q'" by blast
    with r same_demand_by(4) [of q q'] show "x \<in> tt_matched (spec_totals rules req (demands qs'))"
      by (auto simp: spec_totals_def matched_ids_def)
  qed
  have ex: "(\<exists>(q, res) \<in> demands qs. P q res) \<longrightarrow> (\<exists>(q, res) \<in> demands qs'. P q res)"
    if "\<And>q q'. same_demand q q' \<Longrightarrow> P q = P q'" for P
    using cov that by (metis (no_types, lifting) case_prodE case_prodI2 old.prod.case)
  show "tt_explicitDeny (spec_totals rules req (demands qs)) \<longrightarrow>
     tt_explicitDeny (spec_totals rules req (demands qs'))"
    using ex [of "denied_by rules req"] same_demand_by(1) by (simp add: spec_totals_def)
  show "tt_wildcardMissing (spec_totals rules req (demands qs)) \<longrightarrow>
     tt_wildcardMissing (spec_totals rules req (demands qs'))"
    using ex [of "\<lambda>q res. \<not> granted_by rules req q res \<and> unacknowledged_by rules req q res"]
      same_demand_by(2,3) by (simp add: spec_totals_def)
  show "tt_uncovered (spec_totals rules req (demands qs)) \<longrightarrow>
     tt_uncovered (spec_totals rules req (demands qs'))"
    using ex [of "\<lambda>q res. \<not> granted_by rules req q res \<and> \<not> unacknowledged_by rules req q res"]
      same_demand_by(2,3) by (simp add: spec_totals_def)
qed

lemma spec_totals_same:
  assumes "demand_covers qs qs'" "demand_covers qs' qs"
  shows "spec_totals rules req (demands qs) = spec_totals rules req (demands qs')"
  using spec_totals_mono [OF assms(1)] spec_totals_mono [OF assms(2)]
  by (intro totals.equality) (blast+, simp)

lemma set_snapshot:
  "set (snapshotRequirements qs) = (\<lambda>r. r\<lparr>rq_Resources := sort (rq_Resources r)\<rparr>) ` set qs"
  by (simp add: snapshotRequirements_def)

lemma snapshot_same_demand: "same_demand r (r\<lparr>rq_Resources := sort (rq_Resources r)\<rparr>)"
  by (simp add: same_demand_def)

lemma same_demand_sym: "same_demand a b \<Longrightarrow> same_demand b a"
  by (simp add: same_demand_def)

lemma decide_spec_snapshot:
  "decide_spec rules req (set (snapshotRequirements qs)) = decide_spec rules req (set qs)"
proof -
  have "spec_totals rules req (demands (set (snapshotRequirements qs))) =
        spec_totals rules req (demands (set qs))"
    unfolding set_snapshot
    by (rule spec_totals_same)
       (use snapshot_same_demand same_demand_sym in \<open>force simp: demand_covers_def\<close>)+
  then show ?thesis by (simp add: decide_spec_def)
qed

lemma unresolved_None:
  "unresolved_decision qs = None \<longleftrightarrow> (\<forall>q \<in> set qs. rq_ScopeKind q \<noteq> ScopeUnresolved)"
  by (induction qs) auto

lemma unresolved_snapshot_None:
  "unresolved_decision (snapshotRequirements qs) = None \<longleftrightarrow>
     (\<forall>q \<in> set qs. rq_ScopeKind q \<noteq> ScopeUnresolved)"
  by (simp add: unresolved_None set_snapshot)

lemma unresolved_Some:
  "unresolved_decision qs = Some d \<Longrightarrow>
     d \<in> {denyDecision ReasonDependentPermissionUnresolved, denyDecision ReasonResourceUnresolved}"
  by (induction qs) (auto split: if_splits)

lemmas decision_defs = DecisionAllow_def DecisionDeny_def internalDecision_def denyDecision_def

lemma decide_spec_allow:
  "dc_Result (decide_spec rules req qs) = DecisionAllow \<longleftrightarrow>
     (\<forall>(q, res) \<in> demands qs. granted_by rules req q res \<and> \<not> denied_by rules req q res)"
  by (auto simp: decide_spec_def decide_totals_def spec_totals_def Let_def decision_defs)

lemma evaluate_background_allow:
  "dc_Result (evaluate_requirements rules Background req (snapshotRequirements qs)) = DecisionAllow \<longleftrightarrow>
     authorized (set rules) req (set qs)"
proof (cases "unresolved_decision (snapshotRequirements qs)")
  case None
  with unresolved_snapshot_None [of qs] show ?thesis
    by (auto simp: evaluate_background decide_spec_snapshot decide_spec_allow authorized_def demands_def)
next
  case (Some d)
  with unresolved_snapshot_None [of qs] unresolved_Some [OF Some] show ?thesis
    by (auto simp: evaluate_background authorized_def decision_defs)
qed

lemma deny_not_allow [simp]:
  "dc_Result internalDecision \<noteq> DecisionAllow" "dc_Result (denyDecision r) \<noteq> DecisionAllow"
  by (simp_all add: decision_defs)


section \<open>Order of the requirements\<close>

lemma requirement_error_combos:
  "requirement_error service combos r = None \<longleftrightarrow>
     requirement_error service 0 r = None \<and> combos + length (rq_Resources r) \<le> maxEvaluationCombos"
  by (auto simp: requirement_error_def split: if_splits sum.splits option.splits)

lemma requirements_error_None:
  "requirements_error service combos qs = None \<longleftrightarrow>
     (\<forall>q \<in> set qs. requirement_error service 0 q = None) \<and>
     (qs = [] \<or> combos + sum_list (map (\<lambda>q. length (rq_Resources q)) qs) \<le> maxEvaluationCombos)"
proof (induction qs arbitrary: combos)
  case (Cons q qs)
  then show ?case
    using requirement_error_combos [of service combos q]
    by (cases "requirement_error service combos q") auto
qed simp

lemma requirements_error_perm:
  "mset qs = mset qs' \<Longrightarrow>
     requirements_error service 0 qs = None \<longleftrightarrow> requirements_error service 0 qs' = None"
  using mset_eq_setD [of qs qs'] arg_cong [of "mset qs" "mset qs'" "\<lambda>m. sum_mset (image_mset (\<lambda>q. length (rq_Resources q)) m)"]
  by (auto simp: requirements_error_None sum_mset_sum_list [symmetric])

lemma mapping_validate_perm:
  "mset qs = mset (mr_Requirements m) \<Longrightarrow>
     MappingResult_Validate (m\<lparr>mr_Requirements := qs\<rparr>) = None \<longleftrightarrow> MappingResult_Validate m = None"
  using mset_eq_setD [of qs "mr_Requirements m"] mset_eq_length [of qs "mr_Requirements m"]
  by (simp add: MappingResult_Validate_def split: option.split) (metis first_err_None option.distinct(1))

lemma validateEvaluationInput_perm:
  "mset qs = mset (mr_Requirements m) \<Longrightarrow>
     validateEvaluationInput ep req (m\<lparr>mr_Requirements := qs\<rparr>) = None \<longleftrightarrow>
     validateEvaluationInput ep req m = None"
  using requirements_error_perm [of qs "mr_Requirements m" "mr_Service m"]
    mset_eq_length [of qs "mr_Requirements m"]
  by (cases "requirements_error (mr_Service m) 0 qs";
      cases "requirements_error (mr_Service m) 0 (mr_Requirements m)")
     (simp_all add: validateEvaluationInput_def)

lemma DecisionInput_Validate_None:
  "DecisionInput_Validate i = None \<longleftrightarrow>
     di_RunID i \<noteq> [] \<and> di_PolicyHash i \<noteq> [] \<and> di_MapperVersion i \<noteq> [] \<and>
     AWSEndpoint_Validate (di_Endpoint i) = None \<and>
     (\<exists>req m. di_Request i = Some req \<and> di_Mapping i = Some m \<and>
        DecodedAWSRequest_Validate req = None \<and> MappingResult_Validate m = None \<and>
        dr_Partition req = ep_Partition (di_Endpoint i) \<and>
        dr_EndpointHost req = ep_Host (di_Endpoint i) \<and>
        dr_Service req = ep_Service (di_Endpoint i) \<and> mr_Service m = dr_Service req \<and>
        mr_Operation m = dr_Operation req \<and> mr_MapperVersion m = di_MapperVersion i)"
proof (cases "di_Request i"; cases "di_Mapping i")
  fix req m
  assume "di_Request i = Some req" "di_Mapping i = Some m"
  then show ?thesis
    by (cases "DecodedAWSRequest_Validate req"; cases "MappingResult_Validate m";
        cases "AWSEndpoint_Validate (di_Endpoint i)") (simp_all add: DecisionInput_Validate_def, auto)
qed (simp_all add: DecisionInput_Validate_def split: option.split)

lemma DecisionInput_validate_perm:
  assumes "di_Mapping i = Some m" "mset qs = mset (mr_Requirements m)"
  shows "DecisionInput_Validate (i\<lparr>di_Mapping := Some (m\<lparr>mr_Requirements := qs\<rparr>)\<rparr>) = None \<longleftrightarrow>
     DecisionInput_Validate i = None"
  using assms(1) mapping_validate_perm [OF assms(2)] by (simp add: DecisionInput_Validate_None)

text \<open>The scope and the dependency of a requirement can be read off its sort key.\<close>

definition key_scope :: "string \<Rightarrow> string \<times> bool" where
  "key_scope k = (let parts = split_byte (CHR 0x00) k in (parts ! 1, parts ! 2 = ''true''))"

definition clean_requirement :: "IAMRequirement \<Rightarrow> bool" where
  "clean_requirement r \<longleftrightarrow> CHR 0x00 \<notin> set (asciiLower (rq_Action r)) \<and> CHR 0x00 \<notin> set (rq_ScopeKind r)"

lemma key_scope_key:
  "clean_requirement r \<Longrightarrow> key_scope (requirementKey r) = (rq_ScopeKind r, rq_Dependent r)"
  by (simp add: key_scope_def requirementKey_def clean_requirement_def split_byte_append
      sprint_bool_def)

lemma map_sort_key: "map f (sort_key f xs) = sort (map f xs)"
  by (rule properties_for_sort [symmetric]) simp_all

lemma unresolved_by_scope:
  "unresolved_decision qs =
     map_option (\<lambda>(_, dep). denyDecision (if dep then ReasonDependentPermissionUnresolved
                                          else ReasonResourceUnresolved))
       (find (\<lambda>(scope, _). scope = ScopeUnresolved) (map (\<lambda>q. (rq_ScopeKind q, rq_Dependent q)) qs))"
  by (induction qs) auto

lemma unresolved_snapshot_perm:
  assumes "mset qs = mset qs'" "\<forall>q \<in> set qs. clean_requirement q"
  shows "unresolved_decision (snapshotRequirements qs) = unresolved_decision (snapshotRequirements qs')"
proof -
  let ?s = "map (\<lambda>r. r\<lparr>rq_Resources := sort (rq_Resources r)\<rparr>)"
  let ?f = "\<lambda>q. (rq_ScopeKind q, rq_Dependent q)"
  have scopes: "map ?f (snapshotRequirements xs) = map key_scope (sort (map requirementKey (?s xs)))"
    if "\<forall>q \<in> set xs. clean_requirement q" for xs
  proof -
    have "\<forall>q \<in> set (snapshotRequirements xs). clean_requirement q"
      using that by (auto simp: set_snapshot clean_requirement_def)
    then have "map ?f (snapshotRequirements xs) = map key_scope (map requirementKey (snapshotRequirements xs))"
      by (simp add: key_scope_key)
    then show ?thesis by (simp only: snapshotRequirements_def map_sort_key)
  qed
  have "mset (map requirementKey (?s qs)) = mset (map requirementKey (?s qs'))"
    using assms(1) by simp
  then have "sort (map requirementKey (?s qs)) = sort (map requirementKey (?s qs'))"
    by (intro properties_for_sort) (simp_all only: mset_sort sorted_sort)
  with scopes [of qs] scopes [of qs'] assms mset_eq_setD [OF assms(1)] show ?thesis
    by (simp add: unresolved_by_scope)
qed

lemma action_clean: "list_all action_rune (runes a) \<Longrightarrow> CHR 0x00 \<notin> set (asciiLower a)"
proof -
  assume "list_all action_rune (runes a)"
  then have "list_all action_rune (runes (asciiLower a))" by (simp add: action_runes_lower)
  then have "\<forall>c \<in> set (asciiLower a). action_rune (ord c)"
    unfolding list_all_runes_bytes [OF ascii_pred_action_rune] by (simp add: list_all_iff)
  moreover have "\<not> action_rune (ord CHR 0x00)" by (simp add: action_rune_def ord_def)
  ultimately show ?thesis by auto
qed

lemma admissible_clean:
  assumes "admissible e input req m" "q \<in> set (mr_Requirements m)"
  shows "clean_requirement q"
proof -
  have "MappingResult_Validate m = None"
    using assms(1) by (auto simp: admissible_def DecisionInput_Validate_def split: option.splits if_splits)
  then have "IAMRequirement_Validate q = None"
    using assms(2) by (auto simp: MappingResult_Validate_def split: option.splits if_splits)
  then have "ScopeKind_Valid (rq_ScopeKind q)"
    by (simp add: IAMRequirement_Validate_def split: if_splits)
  then have "CHR 0x00 \<notin> set (rq_ScopeKind q)"
    by (auto simp: ScopeKind_Valid_def scope_kind_defs)
  moreover have "requirement_error (mr_Service m) 0 q = None"
    using assms by (auto simp: admissible_def validateEvaluationInput_def requirements_error_None
        split: option.splits if_splits)
  then have "\<exists>g. CompileActionGlob (rq_Action q) = Inr g"
    by (auto simp: requirement_error_def split: if_splits sum.splits)
  then have "list_all action_rune (runes (rq_Action q))"
    using compileGlob_ok validate_action_iff by (auto simp: CompileActionGlob_def)
  ultimately show ?thesis using action_clean by (simp add: clean_requirement_def)
qed


lemma admissible_perm:
  assumes "admissible e input req m" "mset qs = mset (mr_Requirements m)"
    "eng_hash e' = eng_hash e"
  shows "admissible e' (input\<lparr>di_Mapping := Some (m\<lparr>mr_Requirements := qs\<rparr>)\<rparr>) req
     (m\<lparr>mr_Requirements := qs\<rparr>)"
  using assms DecisionInput_validate_perm [of input m qs]
    validateEvaluationInput_perm [of qs m "di_Endpoint input" req]
  by (simp add: admissible_def)

section \<open>Monotonicity\<close>

lemma granted_mono: "rules \<subseteq> rules' \<Longrightarrow> granted_by rules req q res \<Longrightarrow> granted_by rules' req q res"
  by (auto simp: granted_by_def)

lemma denied_mono: "rules \<subseteq> rules' \<Longrightarrow> denied_by rules req q res \<Longrightarrow> denied_by rules' req q res"
  by (auto simp: denied_by_def)

lemma granted_deny_rules:
  "\<forall>r \<in> rules' - rules. ru_effect r = ''deny'' \<Longrightarrow> granted_by rules' req q res \<Longrightarrow>
     granted_by rules req q res"
  by (auto simp: granted_by_def)

section \<open>When a request is allowed\<close>

lemma evaluate_allow_iff_aux:
  "dc_Result (Engine_Evaluate (Some e) (Some Background) input) = DecisionAllow \<longleftrightarrow>
     (\<exists>req m. admissible e input req m \<and>
        authorized (set (eng_rules e)) req (set (mr_Requirements m)))"
proof (cases "\<exists>req m. admissible e input req m")
  case True
  then obtain req m where a: "admissible e input req m" by blast
  have "(\<exists>req' m'. admissible e input req' m' \<and>
      authorized (set (eng_rules e)) req' (set (mr_Requirements m'))) \<longleftrightarrow>
    authorized (set (eng_rules e)) req (set (mr_Requirements m))"
    using a admissible_unique [OF a] by blast
  then show ?thesis
    using evaluate_admissible [OF a, of Background] by (simp add: evaluate_background_allow)
next
  case False
  with evaluate_inadmissible [OF False, of Background] show ?thesis by auto
qed

section \<open>A sample evaluation\<close>

definition sample_rule :: "string \<Rightarrow> compiledRule" where
  "sample_rule effect = \<lparr>ru_id = ''r1'', ru_effect = effect,
     ru_actions = [\<lparr>glob_pattern = ''s3:get*'', glob_action = True\<rparr>],
     ru_resources = [\<lparr>glob_pattern = ''arn:aws:s3:::bucket/*'', glob_action = False\<rparr>],
     ru_regions = {}, ru_accounts = {}, ru_partitions = {}, ru_allowAWSRequiredWildcard = False\<rparr>"

definition sample_engine :: "string \<Rightarrow> Engine" where
  "sample_engine effect = \<lparr>eng_defaultDeny = True, eng_rules = [sample_rule effect], eng_hash = ''h''\<rparr>"

definition sample_input :: DecisionInput where
  "sample_input = \<lparr>di_RunID = ''run'', di_Endpoint = sample_endpoint,
     di_Request = Some sample_request, di_Mapping = Some sample_mapping, di_PolicyHash = ''h'',
     di_MapperVersion = ''m1''\<rparr>"

lemma sample_action_glob: "\<exists>g. CompileActionGlob ''s3:GetObject'' = Inr g"
  by (simp add: CompileActionGlob_def compileGlob_def validateGlobPattern_def MaxGlobLength_def
      go_simps go_defs unsupported_glob_runes_def action_rune_def)

lemma sample_arn:
  "parseARN ''arn:aws:s3:::bucket/key'' = Inr \<lparr>arn_partition = ''aws'', arn_service = ''s3'',
     arn_region = [], arn_account = [], arn_resource = ''bucket/key''\<rparr>"
  by (simp add: parseARN_def numeral_eq_Suc cut_def)
     (simp add: validPartition_def go_simps go_defs arn_service_rune_def alnum_rune_def digit_rune_def)

lemma sample_requirement_ok: "requirement_error ''s3'' 0 sample_requirement = None"
proof -
  obtain g where g: "CompileActionGlob ''s3:GetObject'' = Inr g" using sample_action_glob by blast
  have "evaluated_resource_error ''arn:aws:s3:::bucket/key'' = None"
    by (simp add: evaluated_resource_error_def sample_arn MaxGlobLength_def go_simps go_defs)
  moreover have "equal_fold ''s3'' ''s3''" by (simp add: equal_fold_def)
  ultimately show ?thesis
    using g by (simp add: requirement_error_def sample_requirement_def MaxGlobLength_def engine_limits
        contains_any_def numeral_2_eq_2 cut_def)
qed

lemma sample_admissible: "admissible (sample_engine effect) sample_input sample_request sample_mapping"
proof -
  have "DecisionInput_Validate sample_input = None"
    unfolding DecisionInput_Validate_None
    by (simp add: sample_input_def sample_endpoint_valid sample_request_valid sample_mapping_valid)
       (simp add: sample_request_def sample_endpoint_def sample_mapping_def)
  moreover have "validateEvaluationInput sample_endpoint sample_request sample_mapping = None"
    unfolding validateEvaluationInput_def guard_None
    by (simp add: sample_mapping_def sample_requirement_ok engine_limits)
       (simp add: sample_request_def sample_endpoint_def AWSEndpoint_IsGlobal_def ScopeGlobal_def)
  ultimately show ?thesis
    by (simp add: admissible_def sample_input_def sample_engine_def)
       (simp add: sample_mapping_def confidence_defs)
qed

lemma sample_compiled:
  "compileGlob ''s3:Get*'' True = Inr \<lparr>glob_pattern = ''s3:get*'', glob_action = True\<rparr>"
  "compileGlob ''arn:aws:s3:::bucket/*'' False =
     Inr \<lparr>glob_pattern = ''arn:aws:s3:::bucket/*'', glob_action = False\<rparr>"
  by (simp_all add: compileGlob_def validateGlobPattern_def MaxGlobLength_def go_simps go_defs
      unsupported_glob_runes_def action_rune_def asciiLower_def char_of_def bit_0)

lemma glob_lang_trailing_star: "u @ v \<in> glob_lang (u @ ''*'')" if "CHR ''*'' \<notin> set u" "CHR ''?'' \<notin> set u"
  using that by (auto simp: glob_lang_snoc_star glob_lang_literal)

lemma sample_hits: "hits sample_request sample_requirement ''arn:aws:s3:::bucket/key'' (sample_rule effect)"
proof -
  have "asciiLower ''s3:GetObject'' \<in> glob_lang (asciiLower ''s3:Get*'')"
    using glob_lang_trailing_star [of "''s3:get''" "''object''"]
    by (simp add: asciiLower_def go_defs char_of_def bit_0)
  then have "Glob_Match \<lparr>glob_pattern = ''s3:get*'', glob_action = True\<rparr> ''s3:GetObject''"
    unfolding Glob_Match_iff [OF sample_compiled(1)] matchable_def
    by (simp add: MaxGlobLength_def go_simps go_defs action_rune_def)
  moreover have "Glob_Match \<lparr>glob_pattern = ''arn:aws:s3:::bucket/*'', glob_action = False\<rparr>
      ''arn:aws:s3:::bucket/key''"
    using glob_lang_trailing_star [of "''arn:aws:s3:::bucket/''" "''key''"]
    unfolding Glob_Match_iff [OF sample_compiled(2)] matchable_def
    by (simp add: MaxGlobLength_def go_simps go_defs)
  ultimately show ?thesis
    by (simp add: hits_def ruleMatches_def sample_rule_def sample_requirement_def sample_arn
        constraintMatches_def has_prefix_def sample_request_def)
qed

lemma sample_authorized:
  "authorized {sample_rule ''allow''} sample_request (set (mr_Requirements sample_mapping))"
proof -
  have g: "granted_by {sample_rule ''allow''} sample_request sample_requirement ''arn:aws:s3:::bucket/key''"
    using sample_hits [of "''allow''"]
    by (simp add: granted_by_def acknowledged_def)
       (simp add: sample_rule_def sample_requirement_def scope_kind_defs)
  have d: "\<not> denied_by {sample_rule ''allow''} sample_request sample_requirement ''arn:aws:s3:::bucket/key''"
    by (simp add: denied_by_def) (simp add: sample_rule_def)
  from g d show ?thesis
    by (simp add: authorized_def sample_mapping_def)
       (simp add: sample_requirement_def scope_kind_defs)
qed

lemma evaluate_cancel_aux:
  "Engine_Evaluate e (Some c) input \<in>
     {internalDecision, Engine_Evaluate e (Some Background) input}"
proof (cases e)
  case (Some eng)
  show ?thesis
  proof (cases "\<exists>req m. admissible eng input req m")
    case True
    then obtain req m where a: "admissible eng input req m" by blast
    show ?thesis
    proof (cases "fst (ctx_err c)")
      case True
      then show ?thesis using Some by (cases "ctx_err c") (simp add: Engine_Evaluate_def)
    next
      case False
      from evaluate_admissible [OF a False] evaluate_admissible [OF a, of Background] Some
        evaluate_any [of "eng_rules eng" "snd (ctx_err c)" req "snapshotRequirements (mr_Requirements m)"]
      show ?thesis by simp
    qed
  next
    case False
    then show ?thesis
      using Some by (auto simp: Engine_Evaluate_def admissible_def split: prod.splits option.splits)
  qed
qed (simp add: Engine_Evaluate_def)

section \<open>Properties\<close>

text \<open>
  Property C6. The engine is sound and complete: an uncancelled evaluation allows a request exactly
  when the input is admissible (it validates, carries the hash of this policy, has high confidence
  and is within the bounds), no requirement is unresolved, and each action on each resource is
  granted by an acknowledged allow rule and matched by no deny rule.
\<close>

theorem evaluate_allow_iff:
  "dc_Result (Engine_Evaluate (Some e) (Some Background) input) = DecisionAllow \<longleftrightarrow>
     (\<exists>req m. admissible e input req m \<and>
        authorized (set (eng_rules e)) req (set (mr_Requirements m)))"
  by (rule evaluate_allow_iff_aux)

text \<open>
  Cancellation fails closed: whatever polls find the context cancelled, the decision is
  the internal denial or the decision of the uncancelled evaluation; in particular a cancelled
  evaluation never allows what the full one denies.
\<close>

theorem evaluate_cancel_safe:
  "Engine_Evaluate e (Some c) input \<in>
     {internalDecision, Engine_Evaluate e (Some Background) input}"
  by (rule evaluate_cancel_aux)

text \<open>
  Explicit denials win: for an admissible input without unresolved requirements, one deny
  rule that matches one action on one resource makes the decision the explicit denial, whatever the
  allow rules say and wherever the rule stands.
\<close>

theorem explicit_deny_wins:
  assumes "admissible e input req m"
    and "unresolved_decision (mr_Requirements m) = None"
    and "q \<in> set (mr_Requirements m)" and "res \<in> set (rq_Resources q)"
    and "denied_by (set (eng_rules e)) req q res"
  shows "dc_Result (Engine_Evaluate (Some e) (Some Background) input) = DecisionDeny \<and>
     dc_ReasonCode (Engine_Evaluate (Some e) (Some Background) input) = ReasonExplicitDeny"
proof -
  have "unresolved_decision (snapshotRequirements (mr_Requirements m)) = None"
    using assms(2) unfolding unresolved_snapshot_None unfolding unresolved_None .
  moreover have "(q, res) \<in> demands (set (mr_Requirements m))" using assms(3,4) by (auto simp: demands_def)
  then have "tt_explicitDeny (spec_totals (set (eng_rules e)) req (demands (set (mr_Requirements m))))"
    using assms(5) by (auto simp: spec_totals_def)
  ultimately show ?thesis
    using evaluate_admissible [OF assms(1), of Background]
    by (simp add: evaluate_background decide_spec_snapshot)
       (simp add: decide_spec_def decide_totals_def)
qed

theorem explicit_deny_wins_witness:
  "denied_by (set (eng_rules (sample_engine ''deny''))) sample_request sample_requirement
     ''arn:aws:s3:::bucket/key'' \<and>
   dc_ReasonCode (Engine_Evaluate (Some (sample_engine ''deny'')) (Some Background) sample_input) =
     ReasonExplicitDeny"
proof -
  have d: "denied_by (set (eng_rules (sample_engine ''deny''))) sample_request sample_requirement
     ''arn:aws:s3:::bucket/key''"
    using sample_hits [of "''deny''"] by (simp add: denied_by_def sample_engine_def) (simp add: sample_rule_def)
  have u: "unresolved_decision (mr_Requirements sample_mapping) = None"
    by (simp add: sample_mapping_def sample_requirement_def scope_kind_defs)
  have q: "sample_requirement \<in> set (mr_Requirements sample_mapping)"
    "''arn:aws:s3:::bucket/key'' \<in> set (rq_Resources sample_requirement)"
    by (simp_all add: sample_mapping_def) (simp add: sample_requirement_def)
  from d explicit_deny_wins [OF sample_admissible u q d] show ?thesis by blast
qed

lemma evaluate_valid_aux: "Decision_Valid (Engine_Evaluate e c input)"
proof -
  have reasons: "ReasonCode_Valid ReasonInternalFailClosed" "ReasonCode_Valid ReasonMappingLowConfidence"
    "ReasonCode_Valid ReasonExplicitDeny" "ReasonCode_Valid ReasonAWSRequiredWildcardNotApproved"
    "ReasonCode_Valid ReasonPolicyNoMatchingAllow" "ReasonCode_Valid ReasonAllRequirementsAllowed"
    "ReasonCode_Valid ReasonDependentPermissionUnresolved" "ReasonCode_Valid ReasonResourceUnresolved"
    by (simp_all add: ReasonCode_Valid_def allReasonCodes_def)
  note ok = Decision_Valid_def DecisionResult_Valid_def decision_defs reasons reason_defs
  have int: "Decision_Valid internalDecision" using reasons by (simp add: ok)
  have low: "Decision_Valid (denyDecision ReasonMappingLowConfidence)" using reasons by (simp add: ok)
  have dep: "Decision_Valid (denyDecision ReasonDependentPermissionUnresolved)"
    "Decision_Valid (denyDecision ReasonResourceUnresolved)" using reasons by (simp_all add: ok)
  have tot: "Decision_Valid (decide_totals c tt)" for c tt
    using int reasons by (simp add: decide_totals_def Let_def) (simp add: ok)
  have "Decision_Valid (evaluate_requirements rules c req qs)" for rules c req qs
    using int tot dep unresolved_Some [of qs]
    by (auto simp: evaluate_requirements_def split: option.splits)
  with int low show ?thesis
    by (auto simp: Engine_Evaluate_def split: option.splits prod.splits)
qed

text \<open>
  Every decision of the engine is valid, for a missing engine, a missing context, a
  cancelled context and every input: its result and its reason are of the closed sets, and the
  allow reason goes with the allow result only.
\<close>

theorem evaluate_valid: "Decision_Valid (Engine_Evaluate e c input)"
  by (rule evaluate_valid_aux)

text \<open>
  The order of the requirements is irrelevant: permuting the requirements of the mapping
  (which also changes the order in which requirements with equal sort keys are visited) leaves the
  decision unchanged, its reason and matched rules included.
\<close>

theorem evaluate_order_independent:
  assumes "di_Mapping input = Some m" and "mset qs = mset (mr_Requirements m)"
  shows "Engine_Evaluate (Some e) (Some Background)
       (input\<lparr>di_Mapping := Some (m\<lparr>mr_Requirements := qs\<rparr>)\<rparr>) =
     Engine_Evaluate (Some e) (Some Background) input"
proof (cases "\<exists>req. admissible e input req m")
  case True
  then obtain req where a: "admissible e input req m" by blast
  let ?rs = "mr_Requirements m"
  have "unresolved_decision (snapshotRequirements ?rs) = unresolved_decision (snapshotRequirements qs)"
    using unresolved_snapshot_perm [of ?rs qs] assms(2) admissible_clean [OF a] by simp
  moreover have "set qs = set ?rs" using mset_eq_setD [OF assms(2)] .
  ultimately show ?thesis
    using evaluate_admissible [OF a, of Background]
      evaluate_admissible [OF admissible_perm [OF a assms(2) refl], of Background]
    by (simp add: evaluate_background decide_spec_snapshot split: option.split)
next
  case False
  then show ?thesis
    using assms(1) DecisionInput_validate_perm [OF assms]
      validateEvaluationInput_perm [OF assms(2), of "di_Endpoint input"]
    by (cases "di_Request input") (simp_all add: Engine_Evaluate_def admissible_def, auto)
qed

theorem evaluate_order_independent_witness:
  "di_Mapping sample_input = Some sample_mapping \<and>
   mset (rev (mr_Requirements sample_mapping)) = mset (mr_Requirements sample_mapping) \<and>
   Engine_Evaluate (Some (sample_engine ''allow'')) (Some Background)
     (sample_input\<lparr>di_Mapping := Some (sample_mapping\<lparr>mr_Requirements := rev (mr_Requirements sample_mapping)\<rparr>)\<rparr>) =
   Engine_Evaluate (Some (sample_engine ''allow'')) (Some Background) sample_input"
proof -
  have m: "di_Mapping sample_input = Some sample_mapping" by (simp add: sample_input_def)
  have r: "mset (rev (mr_Requirements sample_mapping)) = mset (mr_Requirements sample_mapping)" by simp
  from evaluate_order_independent [OF m r] m r show ?thesis by blast
qed

text \<open>
  Deny rules only restrict: when an engine allows a request, the engine with some or all
  of its deny rules taken away allows it too; equivalently, adding deny rules never turns a denial
  into an allow.
\<close>

theorem deny_rules_only_restrict:
  assumes "set (eng_rules e) \<subseteq> set rules'"
    and "\<forall>r \<in> set rules' - set (eng_rules e). ru_effect r = ''deny''"
    and "dc_Result (Engine_Evaluate (Some (e\<lparr>eng_rules := rules'\<rparr>)) (Some Background) input) = DecisionAllow"
  shows "dc_Result (Engine_Evaluate (Some e) (Some Background) input) = DecisionAllow"
proof -
  from assms(3) obtain req m where a: "admissible (e\<lparr>eng_rules := rules'\<rparr>) input req m"
    "authorized (set rules') req (set (mr_Requirements m))"
    unfolding evaluate_allow_iff_aux by auto
  have "admissible e input req m" using a(1) by (simp add: admissible_def)
  moreover have "authorized (set (eng_rules e)) req (set (mr_Requirements m))"
    using a(2) assms(1,2) granted_deny_rules denied_mono by (fastforce simp: authorized_def)
  ultimately show ?thesis unfolding evaluate_allow_iff_aux by blast
qed

theorem deny_rules_only_restrict_witness:
  "dc_Result (Engine_Evaluate (Some (sample_engine ''allow'')) (Some Background) sample_input) =
     DecisionAllow"
proof -
  let ?e = "(sample_engine ''allow'')\<lparr>eng_rules := [sample_rule ''allow'']\<rparr>"
  have "admissible ?e sample_input sample_request sample_mapping"
    using sample_admissible [of "''allow''"] by (simp add: admissible_def)
  with sample_authorized have "dc_Result (Engine_Evaluate (Some ?e) (Some Background) sample_input) = DecisionAllow"
    unfolding evaluate_allow_iff_aux by auto
  from deny_rules_only_restrict [OF _ _ this] show ?thesis by (simp add: sample_engine_def)
qed

end
