(* ===== verification/Policy_Hash.thy ===== *)
theory Policy_Hash
  imports Policy_Semantics
begin

text \<open>
  The policy hash identifies the decisions of an engine. The hash is taken of a canonical JSON
  text of the policy (\<^verbatim>\<open>snapshotPolicyHash\<close> of \<^verbatim>\<open>src/internal/policy/engine.go\<close>); the lemmas show that
  the text determines the canonical policy, and that two policies with the same canonical form
  compile to engines that decide every request alike.
\<close>

section \<open>The text determines the canonical policy\<close>

definition valid_rule :: "canonicalRule \<Rightarrow> bool" where
  "valid_rule r \<longleftrightarrow> valid_utf8 (cr_ID r) \<and> valid_utf8 (cr_Effect r) \<and>
     list_all valid_utf8 (cr_Actions r @ cr_Resources r @ cr_Regions r @ cr_Accounts r @ cr_Partitions r)"

lemma json_rule_open: "json_rule r @ u = c # v \<Longrightarrow> c = CHR ''{''"
  by (simp add: json_rule_def json_struct_def)

lemma readable_rule: "readable {r. valid_rule r} json_rule"
proof -
  have sub: "cr_Actions ` {r. valid_rule r} \<subseteq> {xs. set xs \<subseteq> {s. valid_utf8 s}}"
    "cr_Resources ` {r. valid_rule r} \<subseteq> {xs. set xs \<subseteq> {s. valid_utf8 s}}"
    "cr_Regions ` {r. valid_rule r} \<subseteq> {xs. set xs \<subseteq> {s. valid_utf8 s}}"
    "cr_Accounts ` {r. valid_rule r} \<subseteq> {xs. set xs \<subseteq> {s. valid_utf8 s}}"
    "cr_Partitions ` {r. valid_rule r} \<subseteq> {xs. set xs \<subseteq> {s. valid_utf8 s}}"
    "cr_ID ` {r. valid_rule r} \<subseteq> {s. valid_utf8 s}" "cr_Effect ` {r. valid_rule r} \<subseteq> {s. valid_utf8 s}"
    by (auto simp: valid_rule_def list_all_iff)
  show ?thesis
    apply (rule reads_readable)
     apply (unfold json_rule_def json_struct_def json_field_def list.map join.simps fst_conv
        snd_conv append_assoc)
     apply (rule reads_append reads_const sub(1-5) [THEN reads_field [OF readable_string_list]]
        sub(6,7) [THEN reads_field [OF readable_string]] reads_field [OF readable_bool] subset_UNIV)+
    apply (rule inj_onI)
    apply simp
    done
qed


lemma json_policy_inj:
  assumes "valid_utf8 d" "valid_utf8 d'" "\<forall>r \<in> set rs. valid_rule r" "\<forall>r \<in> set rs'. valid_rule r"
    "json_policy d rs = json_policy d' rs'"
  shows "d = d' \<and> rs = rs'"
proof -
  let ?A = "{(d, rs). valid_utf8 d \<and> set rs \<subseteq> {r. valid_rule r}}"
  have sub: "fst ` ?A \<subseteq> {s. valid_utf8 s}" "snd ` ?A \<subseteq> {rs. set rs \<subseteq> {r. valid_rule r}}" by auto
  have rules: "readable {rs. set rs \<subseteq> {r. valid_rule r}} (json_list json_rule)"
    by (rule readable_list [OF readable_rule]) (auto dest: json_rule_open)
  have "readable ?A (\<lambda>x. json_policy (fst x) (snd x))"
    apply (rule reads_readable)
     apply (unfold json_policy_def json_struct_def json_field_def list.map join.simps fst_conv
        snd_conv append_assoc)
     apply (rule reads_append reads_const sub(1) [THEN reads_field [OF readable_string]]
        sub(2) [THEN reads_field [OF rules]])+
    apply (rule inj_onI)
    apply (simp add: prod_eq_iff)
    done
  from readable_inj [OF this, of "(d, rs)" "(d', rs')"] assms show ?thesis by auto
qed

section \<open>What compilation keeps of a rule\<close>

lemma bind_result_Inr: "bind_result r f = Inr y \<longleftrightarrow> (\<exists>x. r = Inr x \<and> f x = Inr y)"
  by (cases r) (simp_all add: bind_result_def)

lemma constraint_loop_set: "constraint_loop label valid vs dest = Inr s \<Longrightarrow> s = dest \<union> set vs \<and> list_all valid vs"
  by (induction label valid vs dest rule: constraint_loop.induct) (auto split: if_splits)

lemma compile_globs_map:
  "compile_globs what key compile seen vs = Inr gs \<Longrightarrow>
     list_all2 (\<lambda>v g. compile v = Inr g) vs gs"
  by (induction what key compile seen vs arbitrary: gs rule: compile_globs.induct)
     (auto split: if_splits sum.splits)

lemma compile_globs_patterns:
  assumes "compile_globs what key (\<lambda>p. compileGlob p a) seen vs = Inr gs"
  shows "gs = map (\<lambda>v. \<lparr>glob_pattern = (if a then asciiLower v else v), glob_action = a\<rparr>) vs \<and>
     (\<forall>v \<in> set vs. validateGlobPattern v a = None)"
  using compile_globs_map [OF assms]
  by (induction rule: list_all2_induct) (auto simp: compileGlob_def split: option.splits)

lemma compileRule_view:
  assumes "compileRule src = Inr r"
  shows "ru_id r = rsn_ID src" "ru_effect r = rsn_Effect src"
    "ru_actions r = map (\<lambda>v. \<lparr>glob_pattern = asciiLower v, glob_action = True\<rparr>) (rsn_Actions src)"
    "ru_resources r = map (\<lambda>v. \<lparr>glob_pattern = v, glob_action = False\<rparr>) (rsn_Resources src)"
    "ru_regions r = set (rsn_Regions src)" "ru_accounts r = set (rsn_Accounts src)"
    "ru_partitions r = set (rsn_Partitions src)" "ru_allowAWSRequiredWildcard r = rsn_Wildcard src"
    "validIdentifier (rsn_ID src) True" "rsn_Effect src = ''allow'' \<or> rsn_Effect src = ''deny''"
    "\<forall>v \<in> set (rsn_Actions src). validateGlobPattern v True = None"
    "\<forall>v \<in> set (rsn_Resources src). validateGlobPattern v False = None"
    "list_all validRegion (rsn_Regions src)" "list_all validAccount (rsn_Accounts src)"
    "list_all validPartition (rsn_Partitions src)"
proof -
  from assms obtain as rs gs ac ps where
    h: "validIdentifier (rsn_ID src) True" "rsn_Effect src = ''allow'' \<or> rsn_Effect src = ''deny''"
    and a: "compile_globs ''action'' asciiLower CompileActionGlob {} (rsn_Actions src) = Inr as"
    and s: "compile_globs ''resource'' (\<lambda>v. v) CompileGlob {} (rsn_Resources src) = Inr rs"
    and g: "compileConstraintSet (rsn_Regions src) ''region'' validRegion = Inr gs"
    and c: "compileConstraintSet (rsn_Accounts src) ''account'' validAccount = Inr ac"
    and p: "compileConstraintSet (rsn_Partitions src) ''partition'' validPartition = Inr ps"
    and r: "r = \<lparr>ru_id = rsn_ID src, ru_effect = rsn_Effect src, ru_actions = as,
             ru_resources = rs, ru_regions = gs, ru_accounts = ac, ru_partitions = ps,
             ru_allowAWSRequiredWildcard = rsn_Wildcard src\<rparr>"
    unfolding compileRule_def guard_Inr bind_result_Inr by auto
  have "CompileActionGlob = (\<lambda>p. compileGlob p True)" "CompileGlob = (\<lambda>p. compileGlob p False)"
    by (simp_all add: CompileActionGlob_def CompileGlob_def fun_eq_iff)
  with a s compile_globs_patterns [of "''action''" asciiLower True "{}" "rsn_Actions src" as]
    compile_globs_patterns [of "''resource''" "\<lambda>v. v" False "{}" "rsn_Resources src" rs]
  have as: "as = map (\<lambda>v. \<lparr>glob_pattern = asciiLower v, glob_action = True\<rparr>) (rsn_Actions src)"
    "\<forall>v \<in> set (rsn_Actions src). validateGlobPattern v True = None"
    and rs: "rs = map (\<lambda>v. \<lparr>glob_pattern = v, glob_action = False\<rparr>) (rsn_Resources src)"
    "\<forall>v \<in> set (rsn_Resources src). validateGlobPattern v False = None" by simp_all
  have gcp: "gs = set (rsn_Regions src) \<and> list_all validRegion (rsn_Regions src)"
    "ac = set (rsn_Accounts src) \<and> list_all validAccount (rsn_Accounts src)"
    "ps = set (rsn_Partitions src) \<and> list_all validPartition (rsn_Partitions src)"
    using g c p constraint_loop_set
    unfolding compileConstraintSet_def guard_Inr by fastforce+
  show "ru_id r = rsn_ID src" "ru_effect r = rsn_Effect src"
    "ru_actions r = map (\<lambda>v. \<lparr>glob_pattern = asciiLower v, glob_action = True\<rparr>) (rsn_Actions src)"
    "ru_resources r = map (\<lambda>v. \<lparr>glob_pattern = v, glob_action = False\<rparr>) (rsn_Resources src)"
    "ru_regions r = set (rsn_Regions src)" "ru_accounts r = set (rsn_Accounts src)"
    "ru_partitions r = set (rsn_Partitions src)" "ru_allowAWSRequiredWildcard r = rsn_Wildcard src"
    "validIdentifier (rsn_ID src) True" "rsn_Effect src = ''allow'' \<or> rsn_Effect src = ''deny''"
    "\<forall>v \<in> set (rsn_Actions src). validateGlobPattern v True = None"
    "\<forall>v \<in> set (rsn_Resources src). validateGlobPattern v False = None"
    "list_all validRegion (rsn_Regions src)" "list_all validAccount (rsn_Accounts src)"
    "list_all validPartition (rsn_Partitions src)"
    using h r as rs gcp by simp_all
qed

lemma compile_rules_list:
  "compile_rules seen srcs = Inr rules \<Longrightarrow>
     list_all2 (\<lambda>src r. compileRule src = Inr r) srcs rules \<and> distinct (map ru_id rules) \<and>
     ru_id ` set rules \<inter> seen = {}"
proof (induction seen srcs arbitrary: rules rule: compile_rules.induct)
  case (2 seen src rest)
  from "2.prems" obtain r rs where r: "compileRule src = Inr r" "ru_id r \<notin> seen"
    "compile_rules (insert (ru_id r) seen) rest = Inr rs" "rules = r # rs"
    by (auto split: sum.splits if_splits)
  with "2.IH" [OF r(1,2)] show ?case by auto
qed simp


lemma compile_rules_complete:
  "list_all2 (\<lambda>src r. compileRule src = Inr r) srcs rules \<Longrightarrow> distinct (map ru_id rules) \<Longrightarrow>
     ru_id ` set rules \<inter> seen = {} \<Longrightarrow> compile_rules seen srcs = Inr rules"
  by (induction arbitrary: seen rule: list_all2_induct) auto

section \<open>Rules that look alike decide alike\<close>

definition rule_view ::
  "compiledRule \<Rightarrow> string \<times> string \<times> Glob set \<times> Glob set \<times> string set \<times> string set \<times> string set \<times> bool" where
  "rule_view r = (ru_id r, ru_effect r, set (ru_actions r), set (ru_resources r), ru_regions r,
     ru_accounts r, ru_partitions r, ru_allowAWSRequiredWildcard r)"

lemma rule_view_hits:
  assumes "rule_view r = rule_view r'"
  shows "hits req q res r = hits req q res r' \<and> acknowledged q r = acknowledged q r' \<and>
     ru_id r = ru_id r' \<and> ru_effect r = ru_effect r'"
proof -
  have f: "ru_id r = ru_id r'" "ru_effect r = ru_effect r'" "set (ru_actions r) = set (ru_actions r')"
    "set (ru_resources r) = set (ru_resources r')" "ru_regions r = ru_regions r'"
    "ru_accounts r = ru_accounts r'" "ru_partitions r = ru_partitions r'"
    "ru_allowAWSRequiredWildcard r = ru_allowAWSRequiredWildcard r'"
    using assms by (simp_all add: rule_view_def)
  show ?thesis
    unfolding hits_def ruleMatches_def acknowledged_def ruleHasLiteralStar_def list_ex_iff f
    by (intro conjI refl)
qed

lemma view_subset_ex:
  assumes "rule_view ` rules \<subseteq> rule_view ` rules'" "r \<in> rules"
  shows "\<exists>r' \<in> rules'. rule_view r = rule_view r'"
  using assms by blast

lemma by_view_mono:
  assumes "rule_view ` rules \<subseteq> rule_view ` rules'"
  shows "denied_by rules req q res \<Longrightarrow> denied_by rules' req q res"
    "granted_by rules req q res \<Longrightarrow> granted_by rules' req q res"
    "unacknowledged_by rules req q res \<Longrightarrow> unacknowledged_by rules' req q res"
    "matched_ids rules req ds \<subseteq> matched_ids rules' req ds"
proof -
  note ex = view_subset_ex [OF assms]
  show "denied_by rules req q res \<Longrightarrow> denied_by rules' req q res"
    unfolding denied_by_def using ex rule_view_hits by metis
  show "granted_by rules req q res \<Longrightarrow> granted_by rules' req q res"
    unfolding granted_by_def using ex rule_view_hits by metis
  show "unacknowledged_by rules req q res \<Longrightarrow> unacknowledged_by rules' req q res"
    unfolding unacknowledged_by_def using ex rule_view_hits by metis
  show "matched_ids rules req ds \<subseteq> matched_ids rules' req ds"
  proof
    fix x
    assume "x \<in> matched_ids rules req ds"
    then obtain r q res where r: "x = ru_id r" "r \<in> rules" "(q, res) \<in> ds" "hits req q res r"
      by (auto simp: matched_ids_def)
    from ex [OF r(2)] obtain r' where "r' \<in> rules'" "rule_view r = rule_view r'" by blast
    with r rule_view_hits [of r r' req q res] show "x \<in> matched_ids rules' req ds"
      by (auto simp: matched_ids_def)
  qed
qed

lemma spec_totals_view:
  assumes "rule_view ` rules = rule_view ` rules'"
  shows "spec_totals rules req ds = spec_totals rules' req ds"
proof -
  have sub: "rule_view ` rules \<subseteq> rule_view ` rules'" "rule_view ` rules' \<subseteq> rule_view ` rules"
    using assms by simp_all
  have "denied_by rules req q res = denied_by rules' req q res" for q res
    using by_view_mono(1) [OF sub(1)] by_view_mono(1) [OF sub(2)] by (rule iffI)
  moreover have "granted_by rules req q res = granted_by rules' req q res" for q res
    using by_view_mono(2) [OF sub(1)] by_view_mono(2) [OF sub(2)] by (rule iffI)
  moreover have "unacknowledged_by rules req q res = unacknowledged_by rules' req q res" for q res
    using by_view_mono(3) [OF sub(1)] by_view_mono(3) [OF sub(2)] by (rule iffI)
  moreover have "matched_ids rules req ds = matched_ids rules' req ds"
    using by_view_mono(4) [OF sub(1)] by_view_mono(4) [OF sub(2)] by (rule equalityI)
  ultimately show ?thesis by (simp add: spec_totals_def)
qed

lemma evaluate_view:
  assumes "rule_view ` set (eng_rules e) = rule_view ` set (eng_rules e')" "eng_hash e = eng_hash e'"
  shows "Engine_Evaluate (Some e) (Some Background) input = Engine_Evaluate (Some e') (Some Background) input"
proof -
  have "evaluate_requirements (eng_rules e) Background req qs =
      evaluate_requirements (eng_rules e') Background req qs" for req qs
    unfolding evaluate_background decide_spec_def spec_totals_view [OF assms(1)] ..
  then show ?thesis using assms(2) by (simp add: Engine_Evaluate_def split: option.split)
qed

section \<open>Equal canonical policies\<close>

lemma set_dedup: "set (dedup seen xs) = set xs - seen"
  by (induction seen xs rule: dedup.induct) auto

lemma set_normalizeValues: "set (normalizeValues xs lower) = (if lower then asciiLower ` set xs else set xs)"
  by (simp add: normalizeValues_def set_dedup)

definition canonical_view ::
  "canonicalRule \<Rightarrow> string \<times> string \<times> Glob set \<times> Glob set \<times> string set \<times> string set \<times> string set \<times> bool" where
  "canonical_view r = (cr_ID r, cr_Effect r,
     (\<lambda>v. \<lparr>glob_pattern = v, glob_action = True\<rparr>) ` set (cr_Actions r),
     (\<lambda>v. \<lparr>glob_pattern = v, glob_action = False\<rparr>) ` set (cr_Resources r),
     set (cr_Regions r), set (cr_Accounts r), set (cr_Partitions r), cr_Wildcard r)"

lemma compileRule_canonical:
  "compileRule src = Inr r \<Longrightarrow> rule_view r = canonical_view (canonicalRule_of src)"
  using compileRule_view [of src r]
  by (simp add: rule_view_def canonical_view_def canonicalRule_of_def set_normalizeValues image_image)

lemma validate_utf8: "validateGlobPattern v a = None \<Longrightarrow> valid_utf8 v"
  by (simp add: validateGlobPattern_def split: if_splits)

lemma ascii_pred_utf8:
  "ascii_pred P \<Longrightarrow> list_all P (runes s) \<Longrightarrow> valid_utf8 s"
  using list_all_runes_bytes [of P s]
  by (auto intro!: valid_utf8_ascii simp: ascii_pred_def list_all_iff is_ascii_def)

lemma action_lower_utf8: "validateGlobPattern v True = None \<Longrightarrow> valid_utf8 (asciiLower v)"
  using validate_action_iff [of v] action_runes_lower [of v]
  by (auto intro: ascii_pred_utf8 [OF ascii_pred_action_rune])

lemma identifier_utf8: "validIdentifier s True \<Longrightarrow> valid_utf8 s"
proof (cases "runes s")
  case Nil
  then have "s = []" by (cases s) (auto simp: runes_def split: option.splits)
  then show "valid_utf8 s" by (simp add: valid_utf8_def)
next
  case (Cons r rs)
  have "ascii_pred (identifier_rune True)"
    by (auto simp: ascii_pred_def identifier_rune_def alnum_rune_def digit_rune_def)
  moreover assume "validIdentifier s True"
  ultimately show "valid_utf8 s"
    using Cons by (intro ascii_pred_utf8 [of "identifier_rune True"]) (auto simp: validIdentifier_def)
qed

lemma partition_utf8: "validPartition v \<Longrightarrow> valid_utf8 v"
  by (auto simp: validPartition_def intro!: valid_utf8_ascii) (auto simp: is_ascii_def ord_def)

lemma effect_utf8: "s = ''allow'' \<or> s = ''deny'' \<Longrightarrow> valid_utf8 s"
  by (auto intro!: valid_utf8_ascii simp: is_ascii_def ord_def)

lemma compileRule_valid:
  assumes "compileRule src = Inr r"
  shows "valid_rule (canonicalRule_of src)"
proof -
  note v = compileRule_view [OF assms]
  have "valid_utf8 (rsn_ID src)" "valid_utf8 (rsn_Effect src)"
    using v(9,10) identifier_utf8 effect_utf8 by blast+
  moreover have "\<forall>x \<in> asciiLower ` set (rsn_Actions src). valid_utf8 x"
    "\<forall>x \<in> set (rsn_Resources src). valid_utf8 x"
    using v(11,12) action_lower_utf8 validate_utf8 by blast+
  moreover have "\<forall>x \<in> set (rsn_Regions src). valid_utf8 x" "\<forall>x \<in> set (rsn_Accounts src). valid_utf8 x"
    using v(13,14) ascii_pred_utf8 [OF ascii_pred_rune_classes(1)]
      ascii_pred_utf8 [OF ascii_pred_rune_classes(3)]
    by (auto simp: list_all_iff validRegion_def validAccount_def)
  moreover have "\<forall>x \<in> set (rsn_Partitions src). valid_utf8 x"
    using v(15) partition_utf8 by (auto simp: list_all_iff)
  ultimately show ?thesis
    by (simp add: valid_rule_def canonicalRule_of_def list_all_iff set_normalizeValues ball_Un)
qed

lemma engine_of_snapshot_Inr:
  assumes "engine_of_snapshot sha p = Inr e"
  shows "\<exists>rules. list_all2 (\<lambda>src r. compileRule src = Inr r) (ps_rules p) rules \<and>
     eng_rules e = sort_key ru_id rules \<and> eng_hash e = snapshotPolicyHash sha p \<and>
     ps_defaultValue p = ''deny'' \<and> distinct (map ru_id rules)"
proof -
  from assms obtain rules where "compile_rules {} (ps_rules p) = Inr rules" "ps_defaultValue p = ''deny''"
    "e = \<lparr>eng_defaultDeny = True, eng_rules = sort_key ru_id rules, eng_hash = snapshotPolicyHash sha p\<rparr>"
    unfolding engine_of_snapshot_def guard_Inr by (auto split: sum.splits)
  with compile_rules_list [of "{}" "ps_rules p" rules] show ?thesis by auto
qed

lemma list_all2_view:
  "list_all2 (\<lambda>src r. compileRule src = Inr r) srcs rules \<Longrightarrow>
     rule_view ` set rules = canonical_view ` canonicalRule_of ` set srcs \<and>
     (\<forall>src \<in> set srcs. valid_rule (canonicalRule_of src))"
  by (induction rule: list_all2_induct) (auto simp: compileRule_canonical compileRule_valid)

lemma engine_of_snapshot_view:
  assumes "engine_of_snapshot sha p = Inr e"
  shows "rule_view ` set (eng_rules e) = canonical_view ` set (canonical_rules p)"
    "\<forall>r \<in> set (canonical_rules p). valid_rule r"
proof -
  obtain rules where "list_all2 (\<lambda>src r. compileRule src = Inr r) (ps_rules p) rules"
    "eng_rules e = sort_key ru_id rules" using engine_of_snapshot_Inr [OF assms] by blast
  with list_all2_view [of "ps_rules p" rules]
  show "rule_view ` set (eng_rules e) = canonical_view ` set (canonical_rules p)"
    "\<forall>r \<in> set (canonical_rules p). valid_rule r" by (simp_all add: canonical_rules_def)
qed

section \<open>Properties\<close>

text \<open>
  Property C7. The policy hash identifies the policy: when SHA-256 does not collide on the two
  canonical texts, two accepted policies with the same hash have the same canonical rules, and their
  engines decide every request alike. So a decision may be cached under the policy hash.
\<close>

theorem policy_hash_identifies:
  assumes "engine_of_snapshot sha256 p = Inr e" and "engine_of_snapshot sha256 q = Inr f"
    and "inj_on sha256 {json_policy (ps_defaultValue x) (canonical_rules x) | x. x \<in> {p, q}}"
    and "eng_hash e = eng_hash f"
  shows "canonical_rules p = canonical_rules q \<and>
     Engine_Evaluate (Some e) (Some Background) input = Engine_Evaluate (Some f) (Some Background) input"
proof -
  have d: "ps_defaultValue p = ''deny''" "ps_defaultValue q = ''deny''"
    using engine_of_snapshot_Inr [OF assms(1)] engine_of_snapshot_Inr [OF assms(2)] by auto
  have h: "eng_hash e = snapshotPolicyHash sha256 p" "eng_hash f = snapshotPolicyHash sha256 q"
    using engine_of_snapshot_Inr [OF assms(1)] engine_of_snapshot_Inr [OF assms(2)] by auto
  have "hex_encode (sha256 (json_policy (ps_defaultValue p) (canonical_rules p))) =
      hex_encode (sha256 (json_policy (ps_defaultValue q) (canonical_rules q)))"
    using assms(4) h by (simp add: snapshotPolicyHash_def)
  then have "sha256 (json_policy (ps_defaultValue p) (canonical_rules p)) =
      sha256 (json_policy (ps_defaultValue q) (canonical_rules q))" by (rule hex_encode_inj)
  then have "json_policy (ps_defaultValue p) (canonical_rules p) =
      json_policy (ps_defaultValue q) (canonical_rules q)"
    using assms(3) by (auto dest: inj_onD)
  then have c: "canonical_rules p = canonical_rules q"
    using json_policy_inj [OF _ _ engine_of_snapshot_view(2) [OF assms(1)]
        engine_of_snapshot_view(2) [OF assms(2)], of "''deny''" "''deny''"] d effect_utf8 by simp
  then show ?thesis
    using evaluate_view [of e f] engine_of_snapshot_view(1) [OF assms(1)]
      engine_of_snapshot_view(1) [OF assms(2)] assms(4) by simp
qed

definition sample_policy :: "string \<Rightarrow> policySnapshot" where
  "sample_policy action = \<lparr>ps_defaultValue = ''deny'', ps_rules =
     [\<lparr>rsn_ID = ''r1'', rsn_Effect = ''allow'', rsn_Actions = [action], rsn_Resources = [''*''],
       rsn_Regions = [], rsn_Accounts = [], rsn_Partitions = [], rsn_Wildcard = False\<rparr>]\<rparr>"

lemma sample_policy_compiles:
  assumes "validateGlobPattern action True = None"
  shows "\<exists>e. engine_of_snapshot sha (sample_policy action) = Inr e"
proof -
  have "validateGlobPattern ''*'' False = None"
    by (simp add: validateGlobPattern_def MaxGlobLength_def go_simps go_defs unsupported_glob_runes_def)
  moreover have "validIdentifier ''r1'' True"
    by (simp add: validIdentifier_def go_simps go_defs identifier_rune_def alnum_rune_def digit_rune_def)
  ultimately show ?thesis
    using assms by (simp add: engine_of_snapshot_def sample_policy_def compileRule_def engine_limits
        CompileActionGlob_def CompileGlob_def compileGlob_def bind_result_def compileConstraintSet_def)
qed

theorem policy_hash_identifies_witness:
  "\<exists>e f. engine_of_snapshot (\<lambda>x. x) (sample_policy ''s3:Get*'') = Inr e \<and>
     engine_of_snapshot (\<lambda>x. x) (sample_policy ''S3:get*'') = Inr f \<and> eng_hash e = eng_hash f \<and>
     canonical_rules (sample_policy ''s3:Get*'') = canonical_rules (sample_policy ''S3:get*'')"
proof -
  have v: "validateGlobPattern ''s3:Get*'' True = None" "validateGlobPattern ''S3:get*'' True = None"
    by (simp_all add: validateGlobPattern_def MaxGlobLength_def go_simps go_defs
        unsupported_glob_runes_def action_rune_def)
  obtain e f where ef: "engine_of_snapshot (\<lambda>x. x) (sample_policy ''s3:Get*'') = Inr e"
    "engine_of_snapshot (\<lambda>x. x) (sample_policy ''S3:get*'') = Inr f"
    using sample_policy_compiles v by blast
  have low: "asciiLower ''S3:get*'' = asciiLower ''s3:Get*''"
    by (simp add: asciiLower_def go_defs char_of_def bit_0)
  have "canonical_rules (sample_policy ''S3:get*'') = canonical_rules (sample_policy ''s3:Get*'')"
    by (simp add: canonical_rules_def sample_policy_def canonicalRule_of_def normalizeValues_def low)
  then have h: "eng_hash e = eng_hash f"
    using engine_of_snapshot_Inr [OF ef(1)] engine_of_snapshot_Inr [OF ef(2)]
    by (auto simp: snapshotPolicyHash_def)
  from policy_hash_identifies [OF ef _ h] ef h show ?thesis by (auto simp: inj_on_def)
qed


text \<open>
  The order of the rules in the policy file is irrelevant: a permuted policy compiles
  whenever the original does, to the very same engine, with the same hash.
\<close>

theorem rule_order_irrelevant:
  assumes "engine_of_snapshot sha256 p = Inr e" and "mset (ps_rules q) = mset (ps_rules p)"
    and "ps_defaultValue q = ps_defaultValue p"
  shows "engine_of_snapshot sha256 q = Inr e"
proof -
  obtain rules where l: "list_all2 (\<lambda>src r. compileRule src = Inr r) (ps_rules p) rules"
    "distinct (map ru_id rules)" and c: "compile_rules {} (ps_rules p) = Inr rules"
    and len: "\<not> length (ps_rules p) > maxPolicyRules" and d: "ps_defaultValue p = ''deny''"
    and e: "e = \<lparr>eng_defaultDeny = True, eng_rules = sort_key ru_id rules,
      eng_hash = snapshotPolicyHash sha256 p\<rparr>"
    using assms(1) compile_rules_list [of "{}" "ps_rules p"]
    unfolding engine_of_snapshot_def guard_Inr by (auto split: sum.splits)
  from list_all2_reorder_left_invariance [OF l(1) assms(2)]
  obtain rules' where l': "list_all2 (\<lambda>src r. compileRule src = Inr r) (ps_rules q) rules'"
    and m: "mset rules' = mset rules" by auto
  have dist: "distinct (map ru_id rules')"
    using l(2) m by (metis mset_eq_imp_distinct_iff mset_map)
  have "compile_rules {} (ps_rules q) = Inr rules'" by (rule compile_rules_complete [OF l' dist]) simp
  moreover have "sort_key ru_id rules' = sort_key ru_id rules"
    using m dist by (intro sort_key_inj_key_eq) (auto simp: distinct_map)
  moreover have "canonical_rules q = canonical_rules p"
  proof -
    have "map cr_ID (map canonicalRule_of (ps_rules p)) = map ru_id rules"
      using l(1) by (induction rule: list_all2_induct)
        (auto simp: canonicalRule_of_def compileRule_view(1))
    then have "inj_on cr_ID (set (map canonicalRule_of (ps_rules p)))"
      using l(2) by (metis distinct_map)
    moreover have m': "mset (map canonicalRule_of (ps_rules q)) = mset (map canonicalRule_of (ps_rules p))"
      using assms(2) by simp
    ultimately show ?thesis
      unfolding canonical_rules_def using mset_eq_setD [OF m']
      by (intro sort_key_inj_key_eq) (simp_all del: mset_map set_map add: m')
  qed
  moreover have "length (ps_rules q) = length (ps_rules p)" using assms(2) by (rule mset_eq_length)
  ultimately show ?thesis
    using len d e assms(3) by (simp add: engine_of_snapshot_def snapshotPolicyHash_def)
qed

theorem rule_order_irrelevant_witness:
  "\<exists>e. engine_of_snapshot (\<lambda>x. x) (sample_policy ''s3:Get*'') = Inr e \<and>
     engine_of_snapshot (\<lambda>x. x)
       ((sample_policy ''s3:Get*'')\<lparr>ps_rules := rev (ps_rules (sample_policy ''s3:Get*''))\<rparr>) = Inr e"
proof -
  have v: "validateGlobPattern ''s3:Get*'' True = None"
    by (simp add: validateGlobPattern_def MaxGlobLength_def go_simps go_defs
        unsupported_glob_runes_def action_rune_def)
  then obtain e where "engine_of_snapshot (\<lambda>x. x) (sample_policy ''s3:Get*'') = Inr e"
    using sample_policy_compiles by blast
  with rule_order_irrelevant [OF this] show ?thesis by simp
qed

end
