(* ===== verification/Endpoint.thy ===== *)
theory Endpoint
  imports Aws_Types LRU_Cache
begin

text \<open>
  The endpoint classifier, \<^verbatim>\<open>src/internal/awsrequest/endpoint.go\<close> and \<^verbatim>\<open>endpoint_catalog.go\<close>: the
  normalization of an authority, the index of endpoint families compiled from the service catalog,
  the exact host layouts, and the \<^verbatim>\<open>Classifier\<close> with its two bounded caches.

  IDNA processing (\<^verbatim>\<open>golang.org/x/net/idna\<close>) is the parameter \<open>idna\<close>. The families are an association
  list from endpoint prefixes. The labels of a host are a Go slice that
  \<^verbatim>\<open>classifyRegionalAmazonBody\<close> writes to, so the function returns the labels it leaves behind: the
  caller passes the same slice to a second attempt.
\<close>

section \<open>Normalization\<close>

text \<open>
  \<^verbatim>\<open>net.ParseIP\<close> on a name without colons: four decimal fields without leading zeros. (A name with a
  colon is rejected either way, by the label check that follows.)
\<close>

definition decimal_value :: "string \<Rightarrow> nat" where
  "decimal_value s = foldl (\<lambda>v c. v * 10 + (ord c - 48)) 0 s"

definition ipv4_field :: "string \<Rightarrow> bool" where
  "ipv4_field s \<longleftrightarrow> s \<noteq> [] \<and> list_all is_digit_byte s \<and> length s \<le> 3 \<and> decimal_value s \<le> 255 \<and>
     (length s > 1 \<longrightarrow> hd s \<noteq> CHR ''0'')"

definition parse_ipv4 :: "string \<Rightarrow> bool" where
  "parse_ipv4 s \<longleftrightarrow>
     (let fs = split_byte CHR ''.'' s in length fs = 4 \<and> list_all ipv4_field fs)"

fun port_value :: "nat \<Rightarrow> rune list \<Rightarrow> nat go_result" where
  "port_value v [] = Inr v"
| "port_value v (r # rs) =
     (if \<not> digit_rune r then Inl ''endpoint authority port is malformed''
      else if v * 10 + (r - 48) > 65535 then Inl ''endpoint authority port is invalid''
      else port_value (v * 10 + (r - 48)) rs)"

definition authority_separators :: string where
  "authority_separators = [CHR 0x00, CHR 0x0D, CHR 0x0A, CHR ''/'', CHR 0x40]"

text \<open>The split of an authority into host and port.\<close>

definition authority_parts :: "string \<Rightarrow> (string \<times> nat) go_result" where
  "authority_parts authority =
     (if count_byte authority CHR '':'' = 1 then
        (case cut CHR '':'' authority of
           (host, portText, ok) \<Rightarrow>
             if length portText > 5 then Inl ''endpoint authority port is invalid''
             else if \<not> ok \<or> host = [] \<or> portText = [] then Inl ''endpoint authority port is malformed''
             else case port_value 0 (runes portText) of
               Inl err \<Rightarrow> Inl err
             | Inr v \<Rightarrow> if v = 0 then Inl ''endpoint authority port is invalid'' else Inr (host, v))
      else if contains_byte authority CHR '':'' then Inl ''endpoint authority IPv6 form is malformed''
      else Inr (authority, 443))"

definition NormalizeEndpointHost :: "(string \<Rightarrow> string go_result) \<Rightarrow> string \<Rightarrow> (string \<times> nat) go_result" where
  "NormalizeEndpointHost idna authority =
     (if authority = [] \<or> trim_space authority \<noteq> authority \<or> contains_any authority authority_separators
      then Inl ''endpoint authority is malformed''
      else if has_prefix authority [CHR 0x5B] then Inl ''IPv6 endpoint is not an AWS DNS endpoint''
      else case authority_parts authority of
        Inl err \<Rightarrow> Inl err
      | Inr (host0, port) \<Rightarrow>
          (let host = (if has_suffix host0 ''.'' then trim_suffix host0 ''.'' else host0) in
           if host = [] \<or> has_suffix host ''.'' \<or> length host > 253
           then Inl ''endpoint hostname is malformed''
           else case idna host of
             Inl _ \<Rightarrow> Inl ''endpoint hostname is not valid IDNA''
           | Inr ascii0 \<Rightarrow>
               if ascii0 = [] \<or> length ascii0 > 253 then Inl ''endpoint hostname is not valid IDNA''
               else
                 (let ascii = to_lower ascii0 in
                  if parse_ipv4 ascii then Inl ''endpoint hostname must be DNS''
                  else case labels_error ''endpoint hostname has an invalid label''
                              ''endpoint hostname has a non-ASCII label'' dns_rune ascii of
                    Some err \<Rightarrow> Inl err
                  | None \<Rightarrow> Inr (ascii, port))))"

section \<open>Host layouts\<close>

type_synonym endpointShape = "16 word"

definition shapeRegional :: endpointShape where "shapeRegional = push_bit 0 1"
definition shapeRegionalFIPS :: endpointShape where "shapeRegionalFIPS = push_bit 1 1"
definition shapeRegionalFIPSLabel :: endpointShape where "shapeRegionalFIPSLabel = push_bit 2 1"
definition shapeRegionalFIPSLabelDualStack :: endpointShape where
  "shapeRegionalFIPSLabelDualStack = push_bit 3 1"
definition shapeRegionalDualStack :: endpointShape where "shapeRegionalDualStack = push_bit 4 1"
definition shapeRegionalFIPSDualStack :: endpointShape where
  "shapeRegionalFIPSDualStack = push_bit 5 1"
definition shapeRegionalAPIAWS :: endpointShape where "shapeRegionalAPIAWS = push_bit 6 1"
definition shapeRegionalFIPSAPIAWS :: endpointShape where "shapeRegionalFIPSAPIAWS = push_bit 7 1"
definition shapeGlobal :: endpointShape where "shapeGlobal = push_bit 8 1"
definition shapeGlobalFIPSLabel :: endpointShape where "shapeGlobalFIPSLabel = push_bit 9 1"
definition shapeGlobalFIPSSuffix :: endpointShape where "shapeGlobalFIPSSuffix = push_bit 10 1"
definition shapeRegionalGlobal :: endpointShape where "shapeRegionalGlobal = push_bit 11 1"
definition shapeAccountRegional :: endpointShape where "shapeAccountRegional = push_bit 12 1"
definition shapeAccountRegionalDualStack :: endpointShape where
  "shapeAccountRegionalDualStack = push_bit 13 1"

lemmas shape_defs = shapeRegional_def shapeRegionalFIPS_def shapeRegionalFIPSLabel_def
  shapeRegionalFIPSLabelDualStack_def shapeRegionalDualStack_def shapeRegionalFIPSDualStack_def
  shapeRegionalAPIAWS_def shapeRegionalFIPSAPIAWS_def shapeGlobal_def shapeGlobalFIPSLabel_def
  shapeGlobalFIPSSuffix_def shapeRegionalGlobal_def shapeAccountRegional_def
  shapeAccountRegionalDualStack_def

unbundle bit_operations_syntax

definition regionalShapes :: endpointShape where
  "regionalShapes = shapeRegional OR shapeRegionalFIPS OR shapeRegionalDualStack OR
     shapeRegionalFIPSDualStack OR shapeRegionalAPIAWS OR shapeRegionalFIPSAPIAWS"

record endpointFamily =
  fam_DNSPrefix :: string
  fam_Service :: string
  fam_SigningService :: string
  fam_SigningRegion :: string
  fam_Shapes :: endpointShape
  fam_AccountLabel :: bool

type_synonym families = "(string \<times> endpointFamily) list"

definition has_shape :: "endpointFamily \<Rightarrow> endpointShape \<Rightarrow> bool" where
  "has_shape family shape \<longleftrightarrow> fam_Shapes family AND shape \<noteq> 0"

definition supportedRegions :: "string list" where
  "supportedRegions = [''af-south-1'', ''ap-east-1'', ''ap-northeast-1'', ''ap-northeast-2'',
     ''ap-northeast-3'', ''ap-south-1'', ''ap-south-2'', ''ap-southeast-1'', ''ap-southeast-2'',
     ''ap-southeast-3'', ''ap-southeast-4'', ''ap-southeast-5'', ''ap-southeast-7'', ''ca-central-1'',
     ''ca-west-1'', ''eu-central-1'', ''eu-central-2'', ''eu-north-1'', ''eu-south-1'', ''eu-south-2'',
     ''eu-west-1'', ''eu-west-2'', ''eu-west-3'', ''il-central-1'', ''me-central-1'', ''me-south-1'',
     ''mx-central-1'', ''sa-east-1'', ''us-east-1'', ''us-east-2'', ''us-west-1'', ''us-west-2'']"

text \<open>
  The regular expression \<^verbatim>\<open>^[a-z]{2}(?:-[a-z0-9]+)+-[0-9]+$\<close>. The classes exclude the hyphen, so a
  match is unique and can be read off the hyphen-separated parts.
\<close>

definition lower_or_digit :: "char \<Rightarrow> bool" where
  "lower_or_digit c \<longleftrightarrow> is_lower_byte c \<or> is_digit_byte c"

definition regionPattern :: "string \<Rightarrow> bool" where
  "regionPattern s \<longleftrightarrow>
     (let parts = split_byte CHR ''-'' s in
      length parts \<ge> 3 \<and> length (hd parts) = 2 \<and> list_all is_lower_byte (hd parts) \<and>
      list_all (\<lambda>p. p \<noteq> [] \<and> list_all lower_or_digit p) (butlast (tl parts)) \<and>
      last parts \<noteq> [] \<and> list_all is_digit_byte (last parts))"

definition validCommercialRegion :: "string \<Rightarrow> bool" where
  "validCommercialRegion region \<longleftrightarrow> regionPattern region \<and> region \<in> set supportedRegions"

definition validAccountLabel :: "string \<Rightarrow> bool" where
  "validAccountLabel val \<longleftrightarrow> length val = 12 \<and> validateEndpointAccountID val = None"

definition scopeFor :: "bool \<Rightarrow> string" where
  "scopeFor global = (if global then ScopeGlobal else ScopeRegional)"

definition awsEndpointWithAccount ::
  "endpointFamily \<Rightarrow> string \<Rightarrow> string \<Rightarrow> bool \<Rightarrow> bool \<Rightarrow> bool \<Rightarrow> string \<Rightarrow> AWSEndpoint" where
  "awsEndpointWithAccount family host region global fips dualstack account =
     \<lparr>ep_Partition = ''aws'', ep_Host = host, ep_Service = fam_Service family,
      ep_SigningService = fam_SigningService family,
      ep_SigningRegion = (if \<not> global then region else fam_SigningRegion family),
      ep_Region = region, ep_Global = global, ep_Scope = scopeFor global, ep_FIPS = fips,
      ep_DualStack = dualstack, ep_AccountID = account\<rparr>"

definition awsEndpoint ::
  "endpointFamily \<Rightarrow> string \<Rightarrow> string \<Rightarrow> bool \<Rightarrow> bool \<Rightarrow> bool \<Rightarrow> AWSEndpoint" where
  "awsEndpoint family host region global fips dualstack =
     awsEndpointWithAccount family host region global fips dualstack []"

definition strip_last_fips :: "string list \<Rightarrow> string list" where
  "strip_last_fips ls = ls[length ls - 1 := trim_suffix (last ls) ''-fips'']"

definition lookup_family :: "families \<Rightarrow> string \<Rightarrow> endpointShape \<Rightarrow> endpointFamily option" where
  "lookup_family families pfx shape =
     (case map_of families pfx of
        None \<Rightarrow> None
      | Some family \<Rightarrow>
          if fam_DNSPrefix family \<noteq> pfx \<or> \<not> has_shape family shape then None else Some family)"

definition classifyAPIAWSEndpoint :: "string \<Rightarrow> string list \<Rightarrow> families \<Rightarrow> AWSEndpoint option" where
  "classifyAPIAWSEndpoint host body families =
     (if length body < 2 then None
      else if \<not> validCommercialRegion (last body) then None
      else
        (let prefixLabels = butlast body;
             fips = (prefixLabels \<noteq> [] \<and> has_suffix (last prefixLabels) ''-fips'');
             pfx = join ''.'' (if fips then strip_last_fips prefixLabels else prefixLabels) in
         map_option (\<lambda>family. awsEndpoint family host (last body) False fips True)
           (lookup_family families pfx
              (if fips then shapeRegionalFIPSAPIAWS else shapeRegionalAPIAWS))))"

definition classifyGlobalAmazonEndpoint :: "string \<Rightarrow> string list \<Rightarrow> families \<Rightarrow> AWSEndpoint option" where
  "classifyGlobalAmazonEndpoint host body families =
     (if body = [] then None
      else if hd body = ''fips'' \<and> length body = 1 then None
      else
        (case (if hd body = ''fips'' then (tl body, True, shapeGlobalFIPSLabel)
               else if has_suffix (last body) ''-fips''
               then (strip_last_fips body, True, shapeGlobalFIPSSuffix)
               else (body, False, shapeGlobal)) of
           (prefixLabels, fips, shape) \<Rightarrow>
             map_option (\<lambda>family. awsEndpoint family host [] True fips False)
               (lookup_family families (join ''.'' prefixLabels) shape)))"

text \<open>
  The layout of the labels before the region: the prefix labels, the shape, the two flags, and the
  labels as the in-place edits leave them.
\<close>

definition regional_layout ::
  "string list \<Rightarrow> string list \<times> endpointShape \<times> bool \<times> bool \<times> string list" where
  "regional_layout body =
     (let prefixLabels = butlast body in
      if length prefixLabels \<ge> 2 \<and> last prefixLabels = ''dualstack'' then
        (let shorter = butlast prefixLabels in
         if shorter \<noteq> [] \<and> hd shorter = ''fips''
         then (tl shorter, shapeRegionalFIPSLabelDualStack, True, True, body)
         else if shorter \<noteq> [] \<and> has_suffix (last shorter) ''-fips''
         then (strip_last_fips shorter, shapeRegionalFIPSDualStack, True, True,
               body[length shorter - 1 := trim_suffix (last shorter) ''-fips''])
         else (shorter, shapeRegionalDualStack, False, True, body))
      else if prefixLabels \<noteq> [] \<and> hd prefixLabels = ''fips''
      then (tl prefixLabels, shapeRegionalFIPSLabel, True, False, body)
      else if prefixLabels \<noteq> [] \<and> has_suffix (last prefixLabels) ''-fips''
      then (strip_last_fips prefixLabels, shapeRegionalFIPS, True, False,
            body[length prefixLabels - 1 := trim_suffix (last prefixLabels) ''-fips''])
      else (prefixLabels, shapeRegional, False, False, body))"

definition regional_body ::
  "string \<Rightarrow> string list \<Rightarrow> families \<Rightarrow> string \<Rightarrow> AWSEndpoint option \<times> string list" where
  "regional_body host body families account =
     (case regional_layout body of
        (prefixLabels, shape, fips, dualstack, body') \<Rightarrow>
          if account \<noteq> [] \<and> fips then (None, body')
          else
            (case lookup_family families (join ''.'' prefixLabels)
                    (if account \<noteq> []
                     then (if dualstack then shapeAccountRegionalDualStack else shapeAccountRegional)
                     else shape) of
               None \<Rightarrow> (None, body')
             | Some family \<Rightarrow>
                 if account \<noteq> [] \<and> \<not> fam_AccountLabel family then (None, body')
                 else (Some (awsEndpointWithAccount family host (last body) False fips dualstack account),
                       body')))"

definition classifyRegionalAmazonBody ::
  "string \<Rightarrow> string list \<Rightarrow> families \<Rightarrow> string \<Rightarrow> AWSEndpoint option \<times> string list" where
  "classifyRegionalAmazonBody host body families account =
     (if length body < 2 then (None, body)
      else if \<not> validCommercialRegion (last body) then (None, body)
      else
        (case map_of families (join ''.'' (butlast body)) of
           Some family \<Rightarrow>
             if has_shape family shapeRegionalGlobal
             then (if account \<noteq> [] then None
                   else Some (awsEndpointWithAccount family host [] True False False []), body)
             else regional_body host body families account
         | None \<Rightarrow> regional_body host body families account))"

definition classifyAmazonAWSEndpoint :: "string \<Rightarrow> string list \<Rightarrow> families \<Rightarrow> AWSEndpoint option" where
  "classifyAmazonAWSEndpoint host body families =
     (case classifyGlobalAmazonEndpoint host body families of
        Some endpoint \<Rightarrow> Some endpoint
      | None \<Rightarrow>
          if length body > 1 \<and> validAccountLabel (hd body) then
            (case classifyRegionalAmazonBody host (tl body) families (hd body) of
               (Some endpoint, _) \<Rightarrow> Some endpoint
             | (None, rest) \<Rightarrow> fst (classifyRegionalAmazonBody host (hd body # rest) families []))
          else fst (classifyRegionalAmazonBody host body families []))"

definition classifyCommercialHost :: "string \<Rightarrow> families \<Rightarrow> AWSEndpoint option" where
  "classifyCommercialHost host families =
     (let labels = split_byte CHR ''.'' host; n = length labels in
      if n < 3 then None
      else if labels ! (n - 2) = ''amazonaws'' \<and> labels ! (n - 1) = ''com''
      then classifyAmazonAWSEndpoint host (take (n - 2) labels) families
      else if labels ! (n - 2) = ''api'' \<and> labels ! (n - 1) = ''aws''
      then classifyAPIAWSEndpoint host (take (n - 2) labels) families
      else None)"

section \<open>The index of endpoint families\<close>

record endpointOverride =
  ov_shapes :: endpointShape
  ov_signingRegion :: string
  ov_accountLabel :: bool

definition endpointOverrides :: "(string \<times> endpointOverride) list" where
  "endpointOverrides =
     [(''sts'', \<lparr>ov_shapes = regionalShapes OR shapeGlobal OR shapeGlobalFIPSLabel OR shapeGlobalFIPSSuffix,
        ov_signingRegion = ''us-east-1'', ov_accountLabel = False\<rparr>),
      (''iam'', \<lparr>ov_shapes = shapeGlobal OR shapeGlobalFIPSLabel OR shapeGlobalFIPSSuffix,
        ov_signingRegion = ''us-east-1'', ov_accountLabel = False\<rparr>),
      (''s3'', \<lparr>ov_shapes = regionalShapes OR shapeGlobal, ov_signingRegion = ''us-east-1'',
        ov_accountLabel = False\<rparr>),
      (''ec2'', \<lparr>ov_shapes = regionalShapes OR shapeRegionalFIPSLabel OR shapeRegionalFIPSLabelDualStack,
        ov_signingRegion = [], ov_accountLabel = False\<rparr>),
      (''route53'', \<lparr>ov_shapes = shapeGlobal OR shapeGlobalFIPSLabel OR shapeGlobalFIPSSuffix,
        ov_signingRegion = ''us-east-1'', ov_accountLabel = False\<rparr>),
      (''organizations'', \<lparr>ov_shapes = regionalShapes OR shapeGlobal OR shapeGlobalFIPSLabel OR
          shapeGlobalFIPSSuffix, ov_signingRegion = ''us-east-1'', ov_accountLabel = False\<rparr>),
      (''monitoring'', \<lparr>ov_shapes = regionalShapes, ov_signingRegion = [], ov_accountLabel = False\<rparr>),
      (''budgets'', \<lparr>ov_shapes = shapeGlobal, ov_signingRegion = ''us-east-1'', ov_accountLabel = False\<rparr>),
      (''ce'', \<lparr>ov_shapes = shapeRegionalGlobal, ov_signingRegion = ''us-east-1'',
        ov_accountLabel = False\<rparr>),
      (''cloudfront'', \<lparr>ov_shapes = shapeGlobal, ov_signingRegion = ''us-east-1'',
        ov_accountLabel = False\<rparr>),
      (''s3-control'', \<lparr>ov_shapes = shapeAccountRegional OR shapeAccountRegionalDualStack,
        ov_signingRegion = [], ov_accountLabel = True\<rparr>)]"

record ServiceIdentity =
  si_EndpointPrefix :: string
  si_SigningName :: string

definition validateEndpointPrefix :: "string \<Rightarrow> go_error" where
  "validateEndpointPrefix pfx =
     (if pfx = [] \<or> pfx \<noteq> to_lower pfx \<or> length pfx > 253
      then Some ''endpoint prefix must be lowercase and non-empty''
      else labels_error ''endpoint prefix contains an invalid DNS label''
             ''endpoint prefix contains a non-ASCII DNS label'' dns_rune pfx)"

definition validateSigningName :: "string \<Rightarrow> go_error" where
  "validateSigningName name =
     (if \<not> validSigningIdentity name
      then Some ''signing name must be a bounded lowercase SigV4 service identity'' else None)"

text \<open>The loop that collects the identities; a map entry that is written again keeps its value.\<close>

fun collect_identities ::
  "(string \<times> string) list \<Rightarrow> ServiceIdentity list \<Rightarrow> (string \<times> string) list go_result" where
  "collect_identities identities [] = Inr identities"
| "collect_identities identities (service # rest) =
     (let pfx = si_EndpointPrefix service;
          signing = (if si_SigningName service = [] then pfx else si_SigningName service) in
      case validateEndpointPrefix pfx of
        Some err \<Rightarrow> Inl (''catalog endpoint prefix: invalid endpoint prefix: '' @ err)
      | None \<Rightarrow>
      case validateSigningName signing of
        Some err \<Rightarrow> Inl (''catalog endpoint prefix: invalid signing name: '' @ err)
      | None \<Rightarrow>
      case map_of identities pfx of
        Some prior \<Rightarrow>
          if prior \<noteq> signing then Inl ''catalog endpoint prefix has ambiguous signing names''
          else collect_identities identities rest
      | None \<Rightarrow> collect_identities ((pfx, signing) # identities) rest)"

definition family_of :: "string \<Rightarrow> string \<Rightarrow> endpointFamily" where
  "family_of pfx signing =
     (case map_of endpointOverrides pfx of
        None \<Rightarrow> \<lparr>fam_DNSPrefix = pfx, fam_Service = pfx, fam_SigningService = signing,
                 fam_SigningRegion = [], fam_Shapes = regionalShapes, fam_AccountLabel = False\<rparr>
      | Some ov \<Rightarrow> \<lparr>fam_DNSPrefix = pfx, fam_Service = pfx, fam_SigningService = signing,
                   fam_SigningRegion = ov_signingRegion ov, fam_Shapes = ov_shapes ov,
                   fam_AccountLabel = ov_accountLabel ov\<rparr>)"

definition compileEndpointIdentityViews :: "ServiceIdentity list \<Rightarrow> families go_result" where
  "compileEndpointIdentityViews services =
     (if services = [] then Inl ''catalog endpoint identity is empty''
      else case collect_identities [] services of
        Inl err \<Rightarrow> Inl err
      | Inr identities \<Rightarrow> Inr (map (\<lambda>(pfx, signing). (pfx, family_of pfx signing)) identities))"

section \<open>The classifier\<close>

record Classifier =
  cl_positive :: "(string, AWSEndpoint) LRU option"
  cl_negative :: "(string, unit) LRU option"
  cl_catalog :: families

definition newClassifier :: "families option \<Rightarrow> int \<Rightarrow> Classifier go_result" where
  "newClassifier index capacity0 =
     (case index of
        None \<Rightarrow> Inl ''endpoint identity index is unavailable''
      | Some families \<Rightarrow>
          if families = [] then Inl ''endpoint identity index is unavailable''
          else
            (let capacity = (if capacity0 \<le> 0 then 256 else capacity0) in
             case NewLRU capacity of
               Inl err \<Rightarrow> Inl err
             | Inr positive \<Rightarrow>
                 (case NewLRU capacity of
                    Inl err \<Rightarrow> Inl err
                  | Inr negative \<Rightarrow>
                      Inr \<lparr>cl_positive = Some positive, cl_negative = Some negative,
                           cl_catalog = families\<rparr>)))"

definition unsupported_endpoint :: string where
  "unsupported_endpoint = ''unsupported AWS endpoint''"

text \<open>The two lookups that \<^verbatim>\<open>Classify\<close> makes before and again after taking its mutex.\<close>

definition classifier_lookup ::
  "Classifier \<Rightarrow> string \<Rightarrow> AWSEndpoint go_result option \<times> Classifier" where
  "classifier_lookup c host =
     (case LRU_Get (cl_positive c) host of
        (Some endpoint, positive) \<Rightarrow> (Some (Inr endpoint), c\<lparr>cl_positive := positive\<rparr>)
      | (None, positive) \<Rightarrow>
          (case LRU_Get (cl_negative c) host of
             (Some _, negative) \<Rightarrow>
               (Some (Inl unsupported_endpoint), c\<lparr>cl_positive := positive, cl_negative := negative\<rparr>)
           | (None, negative) \<Rightarrow> (None, c\<lparr>cl_positive := positive, cl_negative := negative\<rparr>)))"

definition classifier_store ::
  "Classifier \<Rightarrow> string \<Rightarrow> AWSEndpoint go_result \<times> Classifier" where
  "classifier_store c host =
     (case classifyCommercialHost host (cl_catalog c) of
        None \<Rightarrow> (Inl unsupported_endpoint, c\<lparr>cl_negative := LRU_Put (cl_negative c) host ()\<rparr>)
      | Some endpoint \<Rightarrow> (Inr endpoint, c\<lparr>cl_positive := LRU_Put (cl_positive c) host endpoint\<rparr>))"

definition Classifier_Classify ::
  "(string \<Rightarrow> string go_result) \<Rightarrow> Classifier option \<Rightarrow> string \<Rightarrow> AWSEndpoint go_result \<times> Classifier option" where
  "Classifier_Classify idna classifier authority =
     (case classifier of
        None \<Rightarrow> (Inl ''endpoint classifier is unavailable'', None)
      | Some c \<Rightarrow>
          (case NormalizeEndpointHost idna authority of
             Inl _ \<Rightarrow> (Inl unsupported_endpoint, Some c)
           | Inr (host, port) \<Rightarrow>
               if port \<noteq> 443 then (Inl unsupported_endpoint, Some c)
               else
                 (case classifier_lookup c host of
                    (Some r, c1) \<Rightarrow> (r, Some c1)
                  | (None, c1) \<Rightarrow>
                      (case classifier_lookup c1 host of
                         (Some r, c2) \<Rightarrow> (r, Some c2)
                       | (None, c2) \<Rightarrow>
                           (case classifier_store c2 host of (r, c3) \<Rightarrow> (r, Some c3))))))"

definition adjacent_amazonaws :: "string list \<Rightarrow> bool" where
  "adjacent_amazonaws labels \<longleftrightarrow>
     list_ex (\<lambda>i. labels ! i = ''amazonaws'' \<and> labels ! (i + 1) = ''com'') [0..<length labels - 1]"

definition LooksLikeAWSHost :: "(string \<Rightarrow> string go_result) \<Rightarrow> string \<Rightarrow> bool" where
  "LooksLikeAWSHost idna authority \<longleftrightarrow>
     (case NormalizeEndpointHost idna authority of
        Inl _ \<Rightarrow> False
      | Inr (host, _) \<Rightarrow>
          (let labels = split_byte CHR ''.'' host in
           if adjacent_amazonaws labels then True
           else length labels \<ge> 2 \<and> labels ! (length labels - 2) = ''api'' \<and> last labels = ''aws''))"


section \<open>Normalized hosts\<close>

lemma dns_rune_not_space: "dns_rune r \<Longrightarrow> \<not> is_space_rune r"
  by (auto simp: dns_rune_def is_space_rune_def)

lemma dns_name_nonempty: "dns_name h \<Longrightarrow> h \<noteq> []"
  by (auto simp: dns_name_def)

lemma dns_name_ascii: "dns_name h \<Longrightarrow> list_all is_ascii h"
  using dns_name_bytes [of h] dns_rune_byte by (fastforce simp: list_all_iff is_ascii_def ord_def)

lemma dns_name_host:
  assumes "dns_name h"
  shows "trim_space h \<noteq> []" "\<not> has_suffix h ''.''" "\<not> contains_any h host_separators"
proof -
  have dot: "\<not> is_space_rune (ord CHR ''.'')" by (simp add: is_space_rune_def ord_def)
  show "trim_space h \<noteq> []"
    unfolding trim_space_empty [OF dns_name_ascii [OF assms]]
    using dns_name_bytes [OF assms, of "hd h"] dns_name_nonempty [OF assms] dns_rune_not_space dot
    by (metis list.set_sel(1))
  show "\<not> has_suffix h ''.''"
  proof
    assume "has_suffix h ''.''"
    then have "h = take (length h - 1) h @ ''.''"
      by (auto simp: has_suffix_def) (metis append_take_drop_id)
    then have "[] \<in> set (split_byte CHR ''.'' h)" by (metis split_byte_snoc in_set_conv_decomp)
    with assms show False by (auto simp: dns_name_def)
  qed
  have "c \<notin> set host_separators" if "dns_rune (ord c) \<or> c = CHR ''.''" for c
    using that by (auto simp: host_separators_def dns_rune_def ord_def)
  then show "\<not> contains_any h host_separators"
    using dns_name_bytes [OF assms] by (auto simp: contains_any_def list_ex_iff)
qed

lemma NormalizeEndpointHost_Inr:
  assumes "NormalizeEndpointHost idna a = Inr (h, p)"
  shows "dns_name h \<and> \<not> parse_ipv4 h \<and>
     (\<exists>host0 host ascii0. authority_parts a = Inr (host0, p) \<and> idna host = Inr ascii0 \<and>
        length ascii0 \<le> 253 \<and> h = to_lower ascii0)"
  using assms
  by (auto simp: NormalizeEndpointHost_def Let_def labels_error_dns_name not_less
      split: if_splits sum.splits option.splits) blast+

text \<open>What the code relies on of IDNA processing: its result is ASCII.\<close>

definition idna_ascii :: "(string \<Rightarrow> string go_result) \<Rightarrow> bool" where
  "idna_ascii idna \<longleftrightarrow> (\<forall>h a. idna h = Inr a \<longrightarrow> list_all is_ascii a)"

lemma Normalize_length:
  assumes "idna_ascii idna" "NormalizeEndpointHost idna a = Inr (h, p)"
  shows "length h \<le> 253"
  using NormalizeEndpointHost_Inr [OF assms(2)] assms(1) by (auto simp: idna_ascii_def to_lower_def)

lemma port_value_bound: "port_value v rs = Inr w \<Longrightarrow> v \<le> 65535 \<Longrightarrow> w \<le> 65535"
  by (induction v rs rule: port_value.induct) (auto split: if_splits)

lemma authority_port: "authority_parts a = Inr (h, p) \<Longrightarrow> 0 < p \<and> p \<le> 65535"
  using port_value_bound [of 0]
  by (auto simp: authority_parts_def split: if_splits prod.splits sum.splits)

section \<open>The compiled index\<close>

text \<open>What the classifier relies on of the families.\<close>

definition family_ok :: "string \<Rightarrow> endpointFamily \<Rightarrow> bool" where
  "family_ok pfx f \<longleftrightarrow>
     fam_DNSPrefix f = pfx \<and> fam_Service f = pfx \<and> validateEndpointService pfx = None \<and>
     validSigningIdentity (fam_SigningService f) \<and>
     (has_shape f shapeGlobal \<or> has_shape f shapeGlobalFIPSLabel \<or> has_shape f shapeGlobalFIPSSuffix \<or>
      has_shape f shapeRegionalGlobal \<longrightarrow> fam_SigningRegion f = ''us-east-1'')"

definition index_ok :: "families \<Rightarrow> bool" where
  "index_ok families \<longleftrightarrow> (\<forall>(pfx, f) \<in> set families. family_ok pfx f)"

lemma shape_values:
  "shapeRegional = 1" "shapeRegionalFIPS = 2" "shapeRegionalFIPSLabel = 4"
  "shapeRegionalFIPSLabelDualStack = 8" "shapeRegionalDualStack = 16" "shapeRegionalFIPSDualStack = 32"
  "shapeRegionalAPIAWS = 64" "shapeRegionalFIPSAPIAWS = 128" "shapeGlobal = 256"
  "shapeGlobalFIPSLabel = 512" "shapeGlobalFIPSSuffix = 1024" "shapeRegionalGlobal = 2048"
  "shapeAccountRegional = 4096" "shapeAccountRegionalDualStack = 8192"
  by (simp_all add: shape_defs push_bit_eq_mult)

lemma regionalShapes_value: "regionalShapes = 243"
  by (simp add: regionalShapes_def shape_values)

lemma family_of_region:
  "has_shape (family_of p s) shapeGlobal \<or> has_shape (family_of p s) shapeGlobalFIPSLabel \<or>
   has_shape (family_of p s) shapeGlobalFIPSSuffix \<or> has_shape (family_of p s) shapeRegionalGlobal \<Longrightarrow>
     fam_SigningRegion (family_of p s) = ''us-east-1''"
  by (simp add: family_of_def endpointOverrides_def has_shape_def shape_values regionalShapes_value
      split: if_splits)

lemma family_of_fields [simp]:
  "fam_DNSPrefix (family_of p s) = p" "fam_Service (family_of p s) = p"
  "fam_SigningService (family_of p s) = s"
  by (simp_all add: family_of_def split: option.split)

lemma validateEndpointPrefix_None: "validateEndpointPrefix p = None \<longleftrightarrow> validateEndpointService p = None"
  using dns_name_lower [of p]
  by (auto simp: validateEndpointPrefix_def validateEndpointService_None guard_None labels_error_dns_name)

lemma validateSigningName_None: "validateSigningName s = None \<longleftrightarrow> validSigningIdentity s"
  by (simp add: validateSigningName_def)

definition identity_ok :: "string \<times> string \<Rightarrow> bool" where
  "identity_ok i \<longleftrightarrow> validateEndpointService (fst i) = None \<and> validSigningIdentity (snd i)"

lemma collect_identities_sound:
  "collect_identities ids services = Inr out \<Longrightarrow> list_all identity_ok ids \<Longrightarrow> list_all identity_ok out"
proof (induction ids services rule: collect_identities.induct)
  case (2 ids service rest)
  from "2.prems" "2.IH" show ?case
    by (auto simp: Let_def validateEndpointPrefix_None validateSigningName_None identity_ok_def
        split: option.splits if_splits)
qed simp

lemma compile_index_ok:
  assumes "compileEndpointIdentityViews services = Inr families"
  shows "index_ok families"
proof -
  from assms obtain ids where "collect_identities [] services = Inr ids"
    "families = map (\<lambda>(pfx, signing). (pfx, family_of pfx signing)) ids"
    by (auto simp: compileEndpointIdentityViews_def split: if_splits sum.splits)
  with collect_identities_sound [of "[]" services ids] family_of_region show ?thesis
    by (auto simp: index_ok_def family_ok_def list_all_iff identity_ok_def)
qed


section \<open>What a classification is\<close>

lemma region_ok:
  "region \<in> set supportedRegions \<Longrightarrow> validSigningRegion region \<and> trim_space region \<noteq> []"
proof -
  have "list_all (\<lambda>r. r \<noteq> [] \<and> length r \<le> 64 \<and> list_all (\<lambda>c. dns_rune (ord c)) r) supportedRegions"
    by (simp add: supportedRegions_def dns_rune_def ord_def)
  moreover assume "region \<in> set supportedRegions"
  ultimately have r: "region \<noteq> []" "length region \<le> 64" "list_all (\<lambda>c. dns_rune (ord c)) region"
    by (auto simp: list_all_iff)
  then have "list_all is_ascii region" using dns_rune_byte by (auto simp: list_all_iff)
  moreover have "dns_rune (ord (hd region))" using r(1,3) by (simp add: list_all_iff)
  ultimately have "trim_space region \<noteq> []"
    using trim_space_empty [of region] dns_rune_not_space r(1) list.set_sel(1) by metis
  with r show ?thesis
    by (simp add: validSigningRegion_def list_all_runes_bytes [OF ascii_pred_rune_classes(1)])
qed

lemma us_east_1_ok: "validSigningRegion ''us-east-1''"
  using region_ok [of "''us-east-1''"] by (simp add: supportedRegions_def)

definition classified ::
  "families \<Rightarrow> string \<Rightarrow> AWSEndpoint \<Rightarrow> bool" where
  "classified families host e \<longleftrightarrow>
     (\<exists>pfx f region global fips dualstack account.
        (pfx, f) \<in> set families \<and>
        e = awsEndpointWithAccount f host region global fips dualstack account \<and>
        (if global then region = [] \<and> account = [] \<and>
           (has_shape f shapeGlobal \<or> has_shape f shapeGlobalFIPSLabel \<or>
            has_shape f shapeGlobalFIPSSuffix \<or> has_shape f shapeRegionalGlobal)
         else validCommercialRegion region) \<and>
        (account = [] \<or> validAccountLabel account \<and> fam_AccountLabel f))"

lemma lookup_family_Some:
  "lookup_family families pfx shape = Some f \<Longrightarrow> (pfx, f) \<in> set families \<and> has_shape f shape"
  by (auto simp: lookup_family_def map_of_SomeD split: option.splits if_splits)

lemma classifiedI:
  "(pfx, f) \<in> set families \<Longrightarrow> validCommercialRegion region \<Longrightarrow>
     account = [] \<or> validAccountLabel account \<and> fam_AccountLabel f \<Longrightarrow>
     classified families host (awsEndpointWithAccount f host region False fips dualstack account)"
  "(pfx, f) \<in> set families \<Longrightarrow>
     has_shape f shapeGlobal \<or> has_shape f shapeGlobalFIPSLabel \<or> has_shape f shapeGlobalFIPSSuffix \<or>
     has_shape f shapeRegionalGlobal \<Longrightarrow>
     classified families host (awsEndpointWithAccount f host [] True fips dualstack [])"
  unfolding classified_def by (metis, metis)

lemma classify_api:
  "classifyAPIAWSEndpoint host body families = Some e \<Longrightarrow> classified families host e"
  by (auto simp: classifyAPIAWSEndpoint_def Let_def awsEndpoint_def dest!: lookup_family_Some
      intro!: classifiedI(1) split: if_splits)

lemma classify_global:
  "classifyGlobalAmazonEndpoint host body families = Some e \<Longrightarrow> classified families host e"
  by (auto simp: classifyGlobalAmazonEndpoint_def awsEndpoint_def dest!: lookup_family_Some
      intro!: classifiedI(2) split: if_splits)

lemma regional_body_classified:
  assumes "regional_body host body families account = (Some e, rest)"
    "validCommercialRegion (last body)" "account = [] \<or> validAccountLabel account"
  shows "classified families host e"
  using assms
  by (auto simp: regional_body_def dest!: lookup_family_Some intro!: classifiedI(1)
      split: prod.splits if_splits option.splits)

lemma classify_regional:
  assumes "classifyRegionalAmazonBody host body families account = (Some e, rest)"
    "account = [] \<or> validAccountLabel account"
  shows "classified families host e"
  using assms
  by (auto simp: classifyRegionalAmazonBody_def dest!: map_of_SomeD regional_body_classified
      intro!: classifiedI(2) split: option.splits if_splits)

lemma classify_amazon:
  assumes "classifyAmazonAWSEndpoint host body families = Some e"
  shows "classified families host e"
proof (cases "classifyGlobalAmazonEndpoint host body families")
  case (Some g)
  with assms show ?thesis by (simp add: classifyAmazonAWSEndpoint_def classify_global)
next
  case None
  with assms consider rest where "classifyRegionalAmazonBody host (tl body) families (hd body) = (Some e, rest)"
      "validAccountLabel (hd body)"
    | b rest where "classifyRegionalAmazonBody host b families [] = (Some e, rest)"
    by (auto simp: classifyAmazonAWSEndpoint_def split: if_splits prod.splits option.splits)
       (metis prod.collapse)+
  then show ?thesis by cases (auto intro: classify_regional)
qed

lemma classify_host:
  "classifyCommercialHost host families = Some e \<Longrightarrow> classified families host e"
  by (auto simp: classifyCommercialHost_def Let_def classify_amazon classify_api split: if_splits)

lemma endpoint_valid:
  assumes "classified families host e" "index_ok families" "dns_name host" "length host \<le> 253"
  shows "AWSEndpoint_Validate e = None"
proof -
  from assms(1) obtain pfx f region global fips dualstack account where
    f: "(pfx, f) \<in> set families"
    and e: "e = awsEndpointWithAccount f host region global fips dualstack account"
    and g: "if global then region = [] \<and> account = [] \<and>
           (has_shape f shapeGlobal \<or> has_shape f shapeGlobalFIPSLabel \<or>
            has_shape f shapeGlobalFIPSSuffix \<or> has_shape f shapeRegionalGlobal)
         else validCommercialRegion region"
    and a: "account = [] \<or> validAccountLabel account \<and> fam_AccountLabel f"
    unfolding classified_def by blast
  have ok: "family_ok pfx f" using f assms(2) by (auto simp: index_ok_def)
  have aws: "trim_space ''aws'' \<noteq> []" by (simp add: go_simps go_defs)
  have acct: "validateEndpointAccountID account = None"
    using a by (elim disjE) (simp_all add: validAccountLabel_def validateEndpointAccountID_def)
  have sid: "fam_SigningService f \<noteq> []" "validSigningIdentity (fam_SigningService f)"
    using ok by (auto simp: family_ok_def validSigningIdentity_def ValidateSigningService_def)
  have scopes: "ScopeRegional \<noteq> ScopeGlobal" by (simp add: ScopeRegional_def ScopeGlobal_def)
  show ?thesis
  proof (cases global)
    case True
    with g ok have "region = []" "fam_SigningRegion f = ''us-east-1''" by (auto simp: family_ok_def)
    then show ?thesis
      unfolding AWSEndpoint_Validate_None e awsEndpointWithAccount_def
      using True assms(3,4) dns_name_host [OF assms(3)] ok aws acct sid us_east_1_ok scopes
      by (simp add: family_ok_def scopeFor_def AWSEndpoint_IsGlobal_def)
  next
    case False
    with g have "region \<in> set supportedRegions" by (simp add: validCommercialRegion_def)
    from region_ok [OF this] show ?thesis
      unfolding AWSEndpoint_Validate_None e awsEndpointWithAccount_def
      using False assms(3,4) dns_name_host [OF assms(3)] ok aws acct sid scopes
      by (simp add: family_ok_def scopeFor_def AWSEndpoint_IsGlobal_def validSigningRegion_def)
  qed
qed


section \<open>The second attempt on account-labelled hosts\<close>

text \<open>No catalog prefix starts with an account label.\<close>

definition no_account_prefix :: "families \<Rightarrow> bool" where
  "no_account_prefix families \<longleftrightarrow>
     list_all (\<lambda>(pfx, _). \<not> validAccountLabel (hd (split_byte CHR ''.'' pfx))) families"

lemma account_digits: "validAccountLabel a \<Longrightarrow> a \<noteq> [] \<and> (\<forall>c \<in> set a. digit_rune (ord c))"
proof -
  assume a: "validAccountLabel a"
  then have "a \<noteq> []" by (auto simp: validAccountLabel_def)
  moreover have "list_all digit_rune (runes a)"
    using a by (auto simp: validAccountLabel_def validateEndpointAccountID_def list_ex_iff list_all_iff
        split: if_splits)
  ultimately show ?thesis
    unfolding list_all_runes_bytes [OF ascii_pred_rune_classes(3)] by (simp add: list_all_iff)
qed

lemma account_label_facts:
  assumes "validAccountLabel a"
  shows "CHR ''.'' \<notin> set a" "a \<noteq> ''fips''" "\<not> has_suffix a ''-fips''" "a \<noteq> ''dualstack''"
proof -
  have d: "digit_rune (ord c)" if "c \<in> set a" for c using account_digits [OF assms] that by blast
  have "\<not> digit_rune (ord CHR ''.'')" "\<not> digit_rune (ord CHR ''f'')" "\<not> digit_rune (ord CHR ''d'')"
    by (simp_all add: digit_rune_def ord_def)
  then have n: "CHR ''.'' \<notin> set a" "CHR ''f'' \<notin> set a" "CHR ''d'' \<notin> set a" using d by blast+
  then show "CHR ''.'' \<notin> set a" "a \<noteq> ''fips''" "a \<noteq> ''dualstack''" by auto
  show "\<not> has_suffix a ''-fips''"
  proof
    assume "has_suffix a ''-fips''"
    then have "drop (length a - length ''-fips'') a = ''-fips''" unfolding has_suffix_def by blast
    then have "CHR ''f'' \<in> set (drop (length a - length ''-fips'') a)" by (simp only:) simp
    with n(2) show False using in_set_dropD by metis
  qed
qed

lemma split_join_hd: "c \<notin> set a \<Longrightarrow> hd (split_byte c (join [c] (a # ls))) = a"
  by (cases ls) (simp_all add: split_byte_atom split_byte_append)

lemma lookup_account_prefix:
  assumes "no_account_prefix families" "validAccountLabel a"
  shows "map_of families (join ''.'' (a # ls)) = None"
proof (rule ccontr)
  assume "map_of families (join ''.'' (a # ls)) \<noteq> None"
  then obtain f where "(join ''.'' (a # ls), f) \<in> set families" by (auto dest: map_of_SomeD)
  with assms split_join_hd [OF account_label_facts(1) [OF assms(2)], of ls] show False
    by (auto simp: no_account_prefix_def list_all_iff)
qed

lemma strip_last_fips_head:
  "ls \<noteq> [] \<Longrightarrow> \<not> has_suffix (hd ls) ''-fips'' \<Longrightarrow> has_suffix (last ls) ''-fips'' \<Longrightarrow>
     \<exists>rest. strip_last_fips ls = hd ls # rest"
  by (cases ls; cases "tl ls") (auto simp: strip_last_fips_def)

lemma regional_layout_account:
  assumes "validAccountLabel a" "rest \<noteq> []"
  shows "\<exists>ls. fst (regional_layout (a # rest)) = a # ls"
proof -
  note f = account_label_facts [OF assms(1)]
  obtain ps where ps: "butlast (a # rest) = a # ps" using assms(2) by simp
  have short: "\<exists>qs. butlast (a # ps) = a # qs" if "length (a # ps) \<ge> 2" using that by (cases ps) auto
  show ?thesis
  proof (cases "length (a # ps) \<ge> 2 \<and> last (a # ps) = ''dualstack''")
    case True
    then obtain qs where "butlast (a # ps) = a # qs" using short by blast
    with True ps f strip_last_fips_head [of "a # qs"] show ?thesis
      by (auto simp: regional_layout_def Let_def)
  next
    case False
    with ps f strip_last_fips_head [of "a # ps"] show ?thesis
      by (auto simp: regional_layout_def Let_def)
  qed
qed

lemma second_attempt_None:
  assumes "no_account_prefix families" "validAccountLabel a"
  shows "fst (classifyRegionalAmazonBody host (a # rest) families []) = None"
proof (cases "rest = []")
  case False
  obtain ls where ls: "fst (regional_layout (a # rest)) = a # ls"
    using regional_layout_account [OF assms(2) False] by blast
  obtain ps where ps: "butlast (a # rest) = a # ps" using False by simp
  have "fst (regional_body host (a # rest) families []) = None"
    using ls lookup_account_prefix [OF assms, of ls]
    by (cases "regional_layout (a # rest)") (simp add: regional_body_def lookup_family_def)
  moreover have "map_of families (join ''.'' (butlast (a # rest))) = None"
    unfolding ps by (rule lookup_account_prefix [OF assms])
  ultimately show ?thesis using False by (simp add: classifyRegionalAmazonBody_def)
qed (simp add: classifyRegionalAmazonBody_def)

section \<open>The caches are transparent\<close>

text \<open>Every cached entry agrees with the classification it stands for.\<close>

definition classifier_inv :: "Classifier \<Rightarrow> bool" where
  "classifier_inv c \<longleftrightarrow>
     lru.agrees (\<lambda>h e. classifyCommercialHost h (cl_catalog c) = Some e) (cl_positive c) \<and>
     lru.agrees (\<lambda>h _. classifyCommercialHost h (cl_catalog c) = None) (cl_negative c)"

definition pure_classify :: "families \<Rightarrow> string \<Rightarrow> AWSEndpoint go_result" where
  "pure_classify families host =
     (case classifyCommercialHost host families of
        None \<Rightarrow> Inl unsupported_endpoint | Some e \<Rightarrow> Inr e)"

lemma classifier_lookup_sound:
  assumes "classifier_inv c" "classifier_lookup c host = (r, c')"
  shows "classifier_inv c' \<and> cl_catalog c' = cl_catalog c \<and>
     (\<forall>x. r = Some x \<longrightarrow> x = pure_classify (cl_catalog c) host)"
proof -
  let ?P = "\<lambda>h e. classifyCommercialHost h (cl_catalog c) = Some e"
  let ?N = "\<lambda>h (_::unit). classifyCommercialHost h (cl_catalog c) = None"
  have p: "lru.agrees ?P (cl_positive c)" and n: "lru.agrees ?N (cl_negative c)"
    using assms(1) by (simp_all add: classifier_inv_def)
  obtain rp p' where gp: "LRU_Get (cl_positive c) host = (rp, p')" by fastforce
  obtain rn n' where gn: "LRU_Get (cl_negative c) host = (rn, n')" by fastforce
  have p': "lru.agrees ?P p'" and n': "lru.agrees ?N n'"
    using lru.agrees_get [OF p, of host] lru.agrees_get [OF n, of host] gp gn by simp_all
  show ?thesis
  proof (cases rp)
    case (Some e)
    with lru.agrees_hit [OF p, of host e] gp assms(2) p' n show ?thesis
      by (auto simp: classifier_lookup_def classifier_inv_def pure_classify_def)
  next
    case None
    show ?thesis
    proof (cases rn)
      case (Some u)
      with lru.agrees_hit [OF n, of host u] gp gn None assms(2) p' n' show ?thesis
        by (auto simp: classifier_lookup_def classifier_inv_def pure_classify_def)
    next
      case no: None
      with gp gn None assms(2) p' n' show ?thesis
        by (auto simp: classifier_lookup_def classifier_inv_def)
    qed
  qed
qed

lemma classifier_store_sound:
  assumes "classifier_inv c" "classifier_store c host = (r, c')"
  shows "classifier_inv c' \<and> cl_catalog c' = cl_catalog c \<and> r = pure_classify (cl_catalog c) host"
proof (cases "classifyCommercialHost host (cl_catalog c)")
  case None
  have "lru.agrees (\<lambda>h (_::unit). classifyCommercialHost h (cl_catalog c) = None)
      (LRU_Put (cl_negative c) host ())"
    using assms(1) None by (intro lru.agrees_add) (simp_all add: classifier_inv_def)
  with None assms show ?thesis by (auto simp: classifier_store_def classifier_inv_def pure_classify_def)
next
  case (Some e)
  have "lru.agrees (\<lambda>h e. classifyCommercialHost h (cl_catalog c) = Some e)
      (LRU_Put (cl_positive c) host e)"
    using assms(1) Some by (intro lru.agrees_add) (simp_all add: classifier_inv_def)
  with Some assms show ?thesis by (auto simp: classifier_store_def classifier_inv_def pure_classify_def)
qed

lemma agrees_new: "NewLRU cap = Inr n \<Longrightarrow> lru.agrees P (Some n)"
  using NewLRU_inv [of cap n] by (auto simp: lru.agrees_def cache_inv_def lru_content_def)

lemma newClassifier_inv:
  "newClassifier (Some families) capacity = Inr c \<Longrightarrow> classifier_inv c \<and> cl_catalog c = families"
  by (auto simp: newClassifier_def Let_def classifier_inv_def agrees_new split: if_splits sum.splits)

section \<open>Properties\<close>

text \<open>
  The caches of the classifier are transparent: whatever has been looked up before,
  classifying an authority returns what the pure classification of its normalized host returns, and
  keeps the caches sound. A negative or a positive entry never answers for another host.
\<close>

theorem classify_transparent:
  assumes "classifier_inv c" and "NormalizeEndpointHost idna authority = Inr (host, 443)"
  shows "\<exists>c'. Classifier_Classify idna (Some c) authority =
       (pure_classify (cl_catalog c) host, Some c') \<and> classifier_inv c' \<and> cl_catalog c' = cl_catalog c"
proof -
  obtain r1 c1 where 1: "classifier_lookup c host = (r1, c1)" by fastforce
  obtain r2 c2 where 2: "classifier_lookup c1 host = (r2, c2)" by fastforce
  obtain r3 c3 where 3: "classifier_store c2 host = (r3, c3)" by fastforce
  note s1 = classifier_lookup_sound [OF assms(1) 1]
  note s2 = classifier_lookup_sound [OF conjunct1 [OF s1] 2]
  note s3 = classifier_store_sound [OF conjunct1 [OF s2] 3]
  show ?thesis
    using assms(2) 1 2 3 s1 s2 s3
    by (cases r1; cases r2) (simp_all add: Classifier_Classify_def)
qed

definition sample_families :: families where
  "sample_families = [(''s3'', family_of ''s3'' ''s3''), (''s3-control'', family_of ''s3-control'' ''s3'')]"

definition sample_classifier :: Classifier where
  "sample_classifier =
     (case newClassifier (Some sample_families) 4 of
        Inr c \<Rightarrow> c
      | Inl _ \<Rightarrow> \<lparr>cl_positive = None, cl_negative = None, cl_catalog = []\<rparr>)"

lemma sample_classifier_new: "newClassifier (Some sample_families) 4 = Inr sample_classifier"
  by (simp add: sample_classifier_def newClassifier_def sample_families_def NewLRU_def)

lemma sample_normalize:
  "NormalizeEndpointHost Inr ''S3.us-east-1.amazonaws.com.'' = Inr (''s3.us-east-1.amazonaws.com'', 443)"
proof -
  have "dns_name ''s3.us-east-1.amazonaws.com''"
    using sample_endpoint_valid unfolding AWSEndpoint_Validate_None by (simp add: sample_endpoint_def)
  then have "labels_error a b dns_rune ''s3.us-east-1.amazonaws.com'' = None" for a b
    by (simp add: labels_error_dns_name)
  then show ?thesis
    by (simp add: NormalizeEndpointHost_def authority_parts_def Let_def go_simps go_defs
        authority_separators_def parse_ipv4_def ipv4_field_def char_of_def bit_0)
qed

lemma sample_compiled_families:
  "compileEndpointIdentityViews [\<lparr>si_EndpointPrefix = ''s3-control'', si_SigningName = ''s3''\<rparr>,
     \<lparr>si_EndpointPrefix = ''s3'', si_SigningName = []\<rparr>] = Inr sample_families"
proof -
  have "validateEndpointPrefix ''s3'' = None" "validateEndpointPrefix ''s3-control'' = None"
    "validSigningIdentity ''s3''"
    unfolding validateEndpointPrefix_None validateEndpointService_None
    by (simp_all add: dns_name_def validSigningIdentity_def ValidateSigningService_def labels_error_def
        label_error_def go_simps go_defs rune_class_defs)
  then show ?thesis
    by (simp add: compileEndpointIdentityViews_def sample_families_def validateSigningName_def
        Let_def)
qed

lemma sample_classified:
  "classifyCommercialHost ''s3.us-east-1.amazonaws.com'' sample_families = Some sample_endpoint"
proof -
  have region: "validCommercialRegion ''us-east-1''"
    by (simp add: validCommercialRegion_def regionPattern_def Let_def lower_or_digit_def go_defs
        supportedRegions_def)
  show ?thesis
    using region
    by (simp add: classifyCommercialHost_def Let_def classifyAmazonAWSEndpoint_def
        classifyGlobalAmazonEndpoint_def sample_families_def lookup_family_def has_suffix_def
        validAccountLabel_def classifyRegionalAmazonBody_def regional_body_def regional_layout_def
        family_of_def endpointOverrides_def has_shape_def shape_values regionalShapes_value
        awsEndpointWithAccount_def scopeFor_def sample_endpoint_def ScopeRegional_def)
qed

theorem classify_transparent_witness:
  "\<exists>c'. Classifier_Classify Inr (Some sample_classifier) ''S3.us-east-1.amazonaws.com.'' =
     (Inr sample_endpoint, Some c')"
proof -
  have "classifier_inv sample_classifier" "cl_catalog sample_classifier = sample_families"
    using newClassifier_inv [OF sample_classifier_new] by auto
  with classify_transparent [OF _ sample_normalize] sample_classified show ?thesis
    by (fastforce simp: pure_classify_def)
qed

text \<open>
  Classification is sound: when the index was compiled from a catalog and IDNA processing
  returns ASCII, every endpoint the classifier returns satisfies the endpoint contract
  (\<^verbatim>\<open>AWSEndpoint.Validate\<close>), belongs to the commercial partition, carries the exact normalized
  host, and its service and signing names are those of one catalog entry.
\<close>

theorem classify_sound:
  assumes "compileEndpointIdentityViews services = Inr families" and "idna_ascii idna"
    and "NormalizeEndpointHost idna authority = Inr (host, port)"
    and "classifyCommercialHost host families = Some e"
  shows "AWSEndpoint_Validate e = None \<and> ep_Partition e = ''aws'' \<and> ep_Host e = host \<and>
     (\<exists>f. (ep_Service e, f) \<in> set families \<and> ep_SigningService e = fam_SigningService f)"
proof -
  note ok = compile_index_ok [OF assms(1)] and c = classify_host [OF assms(4)]
  have h: "dns_name host" "length host \<le> 253"
    using NormalizeEndpointHost_Inr [OF assms(3)] Normalize_length [OF assms(2,3)] by auto
  from c obtain pfx f region global fips dualstack account where f: "(pfx, f) \<in> set families"
    "e = awsEndpointWithAccount f host region global fips dualstack account"
    unfolding classified_def by blast
  have "fam_Service f = pfx" using f(1) ok by (auto simp: index_ok_def family_ok_def)
  with f endpoint_valid [OF c ok h] show ?thesis by (auto simp: awsEndpointWithAccount_def)
qed

theorem classify_sound_witness:
  "\<exists>families. compileEndpointIdentityViews [\<lparr>si_EndpointPrefix = ''s3-control'', si_SigningName = ''s3''\<rparr>,
       \<lparr>si_EndpointPrefix = ''s3'', si_SigningName = []\<rparr>] = Inr families \<and>
     classifyCommercialHost ''s3.us-east-1.amazonaws.com'' families = Some sample_endpoint \<and>
     AWSEndpoint_Validate sample_endpoint = None"
proof -
  let ?idna = "\<lambda>h. if list_all is_ascii h then Inr h else Inl ''idna''"
  have i: "idna_ascii ?idna" by (simp add: idna_ascii_def)
  have n: "NormalizeEndpointHost ?idna ''S3.us-east-1.amazonaws.com.'' =
      Inr (''s3.us-east-1.amazonaws.com'', 443)"
    using sample_normalize
    by (simp add: NormalizeEndpointHost_def authority_parts_def Let_def go_simps go_defs
        authority_separators_def)
  from classify_sound [OF sample_compiled_families i n sample_classified] sample_compiled_families
    sample_classified show ?thesis by blast
qed

text \<open>
  The in-place edit of the label slice is harmless: when no catalog prefix starts with a
  twelve-digit label, the second attempt on an account-labelled host fails whatever labels the
  first attempt left behind, so only the account-qualified reading can classify such a host.
\<close>

theorem account_second_attempt_fails:
  assumes "no_account_prefix families" and "validAccountLabel account"
  shows "fst (classifyRegionalAmazonBody host (account # labels) families []) = None"
  using assms by (rule second_attempt_None)

theorem account_second_attempt_fails_witness:
  "no_account_prefix sample_families \<and> validAccountLabel ''123456789012'' \<and>
   fst (classifyRegionalAmazonBody ''123456789012.s3-fips.us-east-1.amazonaws.com''
     (''123456789012'' # [''s3'', ''us-east-1'']) sample_families []) = None"
proof -
  have h: "no_account_prefix sample_families" "validAccountLabel ''123456789012''"
    by (simp_all add: no_account_prefix_def sample_families_def validAccountLabel_def
        validateEndpointAccountID_def go_simps go_defs digit_rune_def)
  from account_second_attempt_fails [OF h] h show ?thesis by blast
qed

text \<open>
  Nothing that is classified escapes the rejection predicate: every authority whose host is
  classified also looks like an AWS host, so the proxy never relays it as an ordinary host.
\<close>

theorem classified_looks_like_aws:
  assumes "NormalizeEndpointHost idna authority = Inr (host, port)"
    and "classifyCommercialHost host families = Some e"
  shows "LooksLikeAWSHost idna authority"
proof -
  let ?ls = "split_byte CHR ''.'' host"
  have n: "3 \<le> length ?ls" using assms(2) by (auto simp: classifyCommercialHost_def Let_def split: if_splits)
  have "(?ls ! (length ?ls - 2) = ''amazonaws'' \<and> ?ls ! (length ?ls - 1) = ''com'') \<or>
      (?ls ! (length ?ls - 2) = ''api'' \<and> ?ls ! (length ?ls - 1) = ''aws'')"
    using assms(2) by (auto simp: classifyCommercialHost_def Let_def split: if_splits)
  moreover have "adjacent_amazonaws ?ls"
    if "?ls ! (length ?ls - 2) = ''amazonaws''" "?ls ! (length ?ls - 1) = ''com''"
    unfolding adjacent_amazonaws_def list_ex_iff
    using that n by (intro bexI [of _ "length ?ls - 2"]) (simp_all add: numeral_2_eq_2 Suc_diff_Suc)
  ultimately show ?thesis
    using assms(1) n by (auto simp: LooksLikeAWSHost_def Let_def last_conv_nth)
qed

theorem classified_looks_like_aws_witness:
  "LooksLikeAWSHost Inr ''S3.us-east-1.amazonaws.com.''"
  by (rule classified_looks_like_aws [OF sample_normalize sample_classified])

end
