(* ===== verification/Sigv4_Canonical.thy ===== *)
theory Sigv4_Canonical
  imports Go_Http Go_Json "HOL-Library.Product_Lexorder"
begin

text \<open>
  The canonical request of AWS Signature Version 4, \<^verbatim>\<open>src/internal/sigv4/canonical.go\<close>: the
  canonical path, query, headers and payload hash, and the string they are joined to.
  \<^verbatim>\<open>sha256.Sum256\<close> is the parameter \<open>sha\<close>. A request pointer is an option, and a header map is
  read in an arbitrary order.

  The properties: the canonical query stands for exactly the multiset of decoded parameters, the
  canonical path keeps every path segment (an encoded slash stays encoded), header values are
  normalised to their words, and the canonical request determines all its parts.
\<close>

section \<open>Errors\<close>

definition CodeMalformedRequest :: string where "CodeMalformedRequest = ''malformed_request''"
definition CodeMalformedAuthorization :: string where
  "CodeMalformedAuthorization = ''malformed_authorization''"
definition CodeMalformedCredential :: string where
  "CodeMalformedCredential = ''malformed_credential''"
definition CodeInvalidCredential :: string where "CodeInvalidCredential = ''invalid_credential''"
definition CodeInvalidSignature :: string where "CodeInvalidSignature = ''invalid_signature''"
definition CodeUnsupportedSigning :: string where
  "CodeUnsupportedSigning = ''unsupported_signing_scheme''"
definition CodeUnsupportedPayload :: string where "CodeUnsupportedPayload = ''unsupported_payload''"
definition CodeInvalidTimestamp :: string where "CodeInvalidTimestamp = ''invalid_timestamp''"
definition CodeStaleTimestamp :: string where "CodeStaleTimestamp = ''stale_timestamp''"
definition CodeEndpointMismatch :: string where "CodeEndpointMismatch = ''endpoint_mismatch''"
definition CodeOversizedBody :: string where "CodeOversizedBody = ''oversized_body''"
definition CodeBodyReadFailure :: string where "CodeBodyReadFailure = ''body_read_failure''"

datatype sig_error = SigError (Code: string) (detail: string)

definition Error_Error :: "sig_error option \<Rightarrow> string" where
  "Error_Error e =
     (case e of
        None \<Rightarrow> ''sigv4 verification failed''
      | Some err \<Rightarrow>
          (if detail err = [] then ''sigv4: '' @ Code err
           else ''sigv4: '' @ Code err @ '': '' @ detail err))"

definition Error_Reason :: "sig_error option \<Rightarrow> string" where
  "Error_Reason e = (case e of None \<Rightarrow> [] | Some err \<Rightarrow> Code err)"

section \<open>Bytes\<close>

definition isUnreserved :: "char \<Rightarrow> bool" where
  "isUnreserved c \<longleftrightarrow>
     byte_between CHR ''A'' CHR ''Z'' c \<or> byte_between CHR ''a'' CHR ''z'' c \<or>
     byte_between CHR ''0'' CHR ''9'' c \<or>
     c = CHR ''-'' \<or> c = CHR ''.'' \<or> c = CHR ''_'' \<or> c = CHR ''~''"

definition writeEscape :: "char \<Rightarrow> string" where
  "writeEscape c =
     (let digits = ''0123456789ABCDEF''
      in [CHR ''%'', digits ! (ord c div 16), digits ! (ord c mod 16)])"

definition hexValue :: "char \<Rightarrow> int" where
  "hexValue c =
     (if byte_between CHR ''0'' CHR ''9'' c then int (ord c - ord CHR ''0'')
      else if byte_between CHR ''a'' CHR ''f'' c then int (ord c - ord CHR ''a'') + 10
      else if byte_between CHR ''A'' CHR ''F'' c then int (ord c - ord CHR ''A'') + 10
      else - 1)"

definition isLowerHex :: "char \<Rightarrow> bool" where
  "isLowerHex c \<longleftrightarrow>
     byte_between CHR ''0'' CHR ''9'' c \<or> byte_between CHR ''a'' CHR ''f'' c"

definition upperHex :: "char \<Rightarrow> char" where
  "upperHex c =
     (if byte_between CHR ''a'' CHR ''f'' c
      then char_of (ord c - (ord CHR ''a'' - ord CHR ''A'')) else c)"

definition awsEncode :: "string \<Rightarrow> string" where
  "awsEncode value = concat (map (\<lambda>c. if isUnreserved c then [c] else writeEscape c) value)"

text \<open>The low and the high nibble of a byte do not overlap, so \<^verbatim>\<open>h<<4|l\<close> is \<open>h * 16 + l\<close>.\<close>

fun percentDecodeQuery :: "string \<Rightarrow> string go_result" where
  "percentDecodeQuery [] = Inr []"
| "percentDecodeQuery (c # s) =
     (if c \<noteq> CHR ''%'' then map_sum id ((#) c) (percentDecodeQuery s)
      else (case s of
              a # b # r \<Rightarrow>
                (if hexValue a < 0 \<or> hexValue b < 0 then Inl ''invalid percent escape''
                 else map_sum id ((#) (char_of (nat (hexValue a * 16 + hexValue b))))
                        (percentDecodeQuery r))
            | _ \<Rightarrow> Inl ''invalid percent escape''))"

section \<open>Path\<close>

definition bad_path_escape :: sig_error where
  "bad_path_escape = SigError CodeMalformedRequest ''request path contains an invalid escape''"

fun canonicalEscapedPath :: "string \<Rightarrow> sig_error + string" where
  "canonicalEscapedPath [] = Inr []"
| "canonicalEscapedPath (c # s) =
     (if c = CHR ''/'' then map_sum id ((#) c) (canonicalEscapedPath s)
      else if c = CHR ''%'' then
        (case s of
           a # b # r \<Rightarrow>
             (if hexValue a < 0 \<or> hexValue b < 0 then Inl bad_path_escape
              else map_sum id ((@) [CHR ''%'', upperHex a, upperHex b]) (canonicalEscapedPath r))
         | _ \<Rightarrow> Inl bad_path_escape)
      else if isUnreserved c then map_sum id ((#) c) (canonicalEscapedPath s)
      else map_sum id ((@) (writeEscape c)) (canonicalEscapedPath s))"

definition url_unavailable :: sig_error where
  "url_unavailable = SigError CodeMalformedRequest ''request URL is unavailable''"

definition request_url :: "'a http_request_scheme option \<Rightarrow> url option" where
  "request_url req = Option.bind req rq_URL"

definition CanonicalURI :: "'a http_request_scheme option \<Rightarrow> sig_error + string" where
  "CanonicalURI req =
     (case request_url req of
        None \<Rightarrow> Inl url_unavailable
      | Some u \<Rightarrow>
          if url_Opaque u \<noteq> [] then
            Inl (SigError CodeMalformedRequest ''opaque request URL is unsupported'')
          else if url_RawPath u \<noteq> [] \<and> path_unescape (url_RawPath u) \<noteq> Some (url_Path u) then
            Inl (SigError CodeMalformedRequest ''request path escaping is invalid'')
          else
            (let escaped = (if escaped_path u = [] then ''/'' else escaped_path u) in
             if hd escaped \<noteq> CHR ''/'' then
               Inl (SigError CodeMalformedRequest ''request path is not absolute'')
             else canonicalEscapedPath escaped))"

section \<open>Query\<close>

type_synonym queryPair = "string \<times> string"

definition bad_query_escape :: sig_error where
  "bad_query_escape = SigError CodeMalformedRequest ''request query contains an invalid escape''"

definition split_pair :: "string \<Rightarrow> string \<times> string" where
  "split_pair part =
     (case index_byte part CHR ''='' of
        None \<Rightarrow> (part, [])
      | Some at \<Rightarrow> (take at part, drop (Suc at) part))"

fun query_pairs :: "string list \<Rightarrow> sig_error + queryPair list" where
  "query_pairs [] = Inr []"
| "query_pairs (part # parts) =
     (case split_pair part of (key, v) \<Rightarrow>
        (case percentDecodeQuery key of
           Inl e \<Rightarrow> Inl bad_query_escape
         | Inr decodedKey \<Rightarrow>
             (case percentDecodeQuery v of
                Inl e \<Rightarrow> Inl bad_query_escape
              | Inr decodedValue \<Rightarrow>
                  map_sum id ((#) (awsEncode decodedKey, awsEncode decodedValue))
                    (query_pairs parts))))"

text \<open>\<^verbatim>\<open>sort.SliceStable\<close> orders the pairs by key, then by value.\<close>

definition canonicalRawQuery :: "string \<Rightarrow> sig_error + string" where
  "canonicalRawQuery raw =
     (if raw = [] then Inr []
      else (case query_pairs (split_byte CHR ''&'' raw) of
              Inl e \<Rightarrow> Inl e
            | Inr pairs \<Rightarrow>
                Inr (join ''&'' (map (\<lambda>(key, v). key @ ''='' @ v) (sort pairs)))))"

definition CanonicalQuery :: "'a http_request_scheme option \<Rightarrow> sig_error + string" where
  "CanonicalQuery req =
     (case request_url req of
        None \<Rightarrow> Inl url_unavailable
      | Some u \<Rightarrow> canonicalRawQuery (url_RawQuery u))"

section \<open>Headers\<close>

definition validHeaderName :: "string \<Rightarrow> bool" where
  "validHeaderName name \<longleftrightarrow> name \<noteq> [] \<and>
     list_all (\<lambda>c. c = CHR ''-'' \<or> byte_between CHR ''a'' CHR ''z'' c
       \<or> byte_between CHR ''0'' CHR ''9'' c) name"

definition validHeaderValue :: "string \<Rightarrow> bool" where
  "validHeaderValue v \<longleftrightarrow>
     list_all (\<lambda>c. \<not> ((ord c < 32 \<and> c \<noteq> CHR 0x09) \<or> ord c = 127)) v"

fun normalize_loop :: "string \<Rightarrow> bool \<Rightarrow> string \<Rightarrow> string" where
  "normalize_loop out space [] = out"
| "normalize_loop out space (c # s) =
     (if c = CHR '' '' \<or> c = CHR 0x09 then normalize_loop out True s
      else normalize_loop ((if space \<and> out \<noteq> [] then out @ '' '' else out) @ [c]) False s)"

definition normalizeHeaderValue :: "string \<Rightarrow> string" where
  "normalizeHeaderValue v = normalize_loop [] False v"

fun headerValues :: "http_header \<Rightarrow> string \<Rightarrow> string list \<times> bool" where
  "headerValues [] name = ([], False)"
| "headerValues ((key, vs) # h) name =
     (case headerValues h name of (rest, present) \<Rightarrow>
        if equal_fold key name then (vs @ rest, True) else (rest, present))"

text \<open>\<^verbatim>\<open>strconv.FormatInt\<close>.\<close>

definition format_int :: "int \<Rightarrow> string" where
  "format_int i = (if i < 0 then CHR ''-'' # itoa (nat (- i)) else itoa (nat i))"

definition host_value :: "'a http_request_scheme \<Rightarrow> sig_error + string" where
  "host_value req =
     (case headerValues (rq_Header req) ''host'' of (values, present) \<Rightarrow>
        if present \<and> rq_Host req \<noteq> [] then
          Inl (SigError CodeMalformedRequest ''host header is ambiguous'')
        else if present then
          (case values of
             [v] \<Rightarrow>
               (if v = [] then Inl (SigError CodeMalformedRequest ''host header is duplicated'')
                else if \<not> validHeaderValue v then
                  Inl (SigError CodeMalformedRequest ''host header contains invalid bytes'')
                else Inr v)
           | _ \<Rightarrow> Inl (SigError CodeMalformedRequest ''host header is duplicated''))
        else if rq_Host req \<noteq> [] then Inr (rq_Host req)
        else (case rq_URL req of
                None \<Rightarrow> Inl (SigError CodeMalformedRequest ''signed host header is missing'')
              | Some u \<Rightarrow>
                  if url_Host u \<noteq> [] then Inr (url_Host u)
                  else Inl (SigError CodeMalformedRequest ''signed host header is missing'')))"

definition signedHeaderValue :: "'a http_request_scheme \<Rightarrow> string \<Rightarrow> sig_error + string" where
  "signedHeaderValue req name =
     (if name = ''host'' then host_value req
      else
        (case headerValues (rq_Header req) name of (values, present) \<Rightarrow>
           if \<not> present \<and> name = ''content-length'' \<and> rq_ContentLength req > 0 then
             Inr (format_int (rq_ContentLength req))
           else if \<not> present then
             Inl (SigError CodeMalformedRequest ''signed header is missing or duplicated'')
           else
             (case values of
                [v] \<Rightarrow>
                  (if validHeaderValue v then Inr v
                   else Inl (SigError CodeMalformedRequest ''signed header contains invalid bytes''))
              | _ \<Rightarrow> Inl (SigError CodeMalformedRequest
                          ''signed header is missing or duplicated''))))"

fun canonical_headers_loop ::
  "'a http_request_scheme \<Rightarrow> string \<Rightarrow> string set \<Rightarrow> string list \<Rightarrow> sig_error + string" where
  "canonical_headers_loop req prev seen [] = Inr []"
| "canonical_headers_loop req prev seen (name # names) =
     (if \<not> validHeaderName name \<or> name \<noteq> to_lower name \<or> (prev \<noteq> [] \<and> name \<le> prev) then
        Inl (SigError CodeMalformedAuthorization ''signed headers are not sorted'')
      else if name \<in> seen then
        Inl (SigError CodeMalformedAuthorization ''signed headers contain a duplicate'')
      else
        (case signedHeaderValue req name of
           Inl e \<Rightarrow> Inl e
         | Inr v \<Rightarrow>
             map_sum id ((@) (name @ '':'' @ normalizeHeaderValue v @ [CHR 0x0A]))
               (canonical_headers_loop req name (insert name seen) names)))"

definition CanonicalHeaders ::
  "'a http_request_scheme option \<Rightarrow> string list \<Rightarrow> sig_error + (string \<times> string)" where
  "CanonicalHeaders req signed =
     (case req of
        None \<Rightarrow> Inl (SigError CodeMalformedRequest ''request is unavailable'')
      | Some r \<Rightarrow>
          if signed = [] then
            Inl (SigError CodeMalformedAuthorization ''signed headers are empty'')
          else map_sum id (\<lambda>h. (h, join '';'' signed)) (canonical_headers_loop r [] {} signed))"

section \<open>The canonical request\<close>

definition validPayloadHash :: "string \<Rightarrow> bool" where
  "validPayloadHash v \<longleftrightarrow>
     (if v = ''UNSIGNED-PAYLOAD'' \<or> length v = 64
      then (if length v \<noteq> 64 then True else list_all isLowerHex v) else False)"

record Canonical =
  cn_Method :: string
  cn_URI :: string
  cn_Query :: string
  cn_Headers :: string
  cn_SignedHeaders :: string
  cn_PayloadHash :: string
  cn_Request :: string
  cn_Hash :: string

definition bad_method_bytes :: string where
  "bad_method_bytes = [CHR 0x00, CHR 0x0D, CHR 0x0A, CHR '' '']"

definition BuildCanonicalRequest ::
  "(string \<Rightarrow> string) \<Rightarrow> 'a http_request_scheme option \<Rightarrow> string list \<Rightarrow> string \<Rightarrow>
     sig_error + Canonical" where
  "BuildCanonicalRequest sha req signed payloadHash =
     (case req of
        None \<Rightarrow> Inl url_unavailable
      | Some r \<Rightarrow>
          if rq_URL r = None then Inl url_unavailable
          else if contains_any (rq_Method r) bad_method_bytes \<or> rq_Method r = [] then
            Inl (SigError CodeMalformedRequest ''request method is invalid'')
          else
            (case CanonicalURI req of
               Inl e \<Rightarrow> Inl e
             | Inr uri \<Rightarrow>
                 (case CanonicalQuery req of
                    Inl e \<Rightarrow> Inl e
                  | Inr query \<Rightarrow>
                      (case CanonicalHeaders req signed of
                         Inl e \<Rightarrow> Inl e
                       | Inr (headers, names) \<Rightarrow>
                           if \<not> validPayloadHash payloadHash then
                             Inl (SigError CodeUnsupportedPayload
                               ''payload hash mode is unsupported'')
                           else
                             (let request = join [CHR 0x0A]
                                    [rq_Method r, uri, query, headers, names, payloadHash]
                              in Inr \<lparr>cn_Method = rq_Method r, cn_URI = uri, cn_Query = query,
                                   cn_Headers = headers, cn_SignedHeaders = names,
                                   cn_PayloadHash = payloadHash, cn_Request = request,
                                   cn_Hash = hex_encode (sha request)\<rparr>)))))"

section \<open>Lemmas on the byte coding\<close>

lemma between_iff:
  "byte_between CHR ''0'' CHR ''9'' c \<longleftrightarrow> 48 \<le> ord c \<and> ord c \<le> 57"
  "byte_between CHR ''a'' CHR ''f'' c \<longleftrightarrow> 97 \<le> ord c \<and> ord c \<le> 102"
  "byte_between CHR ''A'' CHR ''F'' c \<longleftrightarrow> 65 \<le> ord c \<and> ord c \<le> 70"
  "byte_between CHR ''a'' CHR ''z'' c \<longleftrightarrow> 97 \<le> ord c \<and> ord c \<le> 122"
  "byte_between CHR ''A'' CHR ''Z'' c \<longleftrightarrow> 65 \<le> ord c \<and> ord c \<le> 90"
  by (simp_all add: byte_between_def, simp_all add: ord_def)

lemma hexValue_ord:
  "hexValue c =
     (if 48 \<le> ord c \<and> ord c \<le> 57 then int (ord c) - 48
      else if 97 \<le> ord c \<and> ord c \<le> 102 then int (ord c) - 87
      else if 65 \<le> ord c \<and> ord c \<le> 70 then int (ord c) - 55 else - 1)"
  unfolding hexValue_def between_iff by (simp, simp add: ord_def)

lemma upper_digits:
  assumes "i < 16"
  shows "''0123456789ABCDEF'' ! i = upper_hex_digit i"
proof -
  have "i \<in> set [0..<16]" using assms by simp
  moreover have "\<forall>i \<in> set [0..<16]. ''0123456789ABCDEF'' ! i = upper_hex_digit i" by code_simp
  ultimately show ?thesis by blast
qed

lemma ord_upper_digit: "i < 16 \<Longrightarrow> ord (upper_hex_digit i) = (if i < 10 then 48 + i else 55 + i)"
  by (simp add: upper_hex_digit_def)

lemma hexValue_upper_digit: "i < 16 \<Longrightarrow> hexValue (upper_hex_digit i) = int i"
  by (simp add: hexValue_ord ord_upper_digit)

lemma writeEscape_alt:
  "writeEscape c = [CHR ''%'', upper_hex_digit (ord c div 16), upper_hex_digit (ord c mod 16)]"
proof -
  have "ord c div 16 < 16" using ord_lt [of c] by linarith
  then show ?thesis by (simp add: writeEscape_def upper_digits)
qed

lemma decode_escape:
  "percentDecodeQuery (writeEscape c @ s) = map_sum id ((#) c) (percentDecodeQuery s)"
proof -
  have "ord c div 16 < 16" using ord_lt [of c] by linarith
  then show ?thesis
    by (simp add: writeEscape_alt hexValue_upper_digit nat_add_distrib nat_mult_distrib)
qed

lemma isUnreserved_ord:
  "isUnreserved c \<longleftrightarrow> (65 \<le> ord c \<and> ord c \<le> 90) \<or> (97 \<le> ord c \<and> ord c \<le> 122) \<or>
     (48 \<le> ord c \<and> ord c \<le> 57) \<or> ord c = 45 \<or> ord c = 46 \<or> ord c = 95 \<or> ord c = 126"
proof -
  have "c = CHR ''-'' \<longleftrightarrow> ord c = 45" "c = CHR ''.'' \<longleftrightarrow> ord c = 46"
    "c = CHR ''_'' \<longleftrightarrow> ord c = 95" "c = CHR ''~'' \<longleftrightarrow> ord c = 126"
    using ord_inject [of c "CHR ''-''"] ord_inject [of c "CHR ''.''"]
      ord_inject [of c "CHR ''_''"] ord_inject [of c "CHR ''~''"]
    by (simp_all add: ord_def)
  then show ?thesis by (simp add: isUnreserved_def between_iff)
qed

lemma unreserved_plain:
  "isUnreserved c \<Longrightarrow> c \<noteq> CHR ''%'' \<and> c \<noteq> CHR ''&'' \<and> c \<noteq> CHR ''='' \<and> c \<noteq> CHR ''/'' \<and>
     c \<noteq> CHR 0x0A"
  by (auto simp: isUnreserved_def byte_between_def ord_def)

lemma upper_digit_unreserved: "i < 16 \<Longrightarrow> isUnreserved (upper_hex_digit i)"
  by (simp add: isUnreserved_ord ord_upper_digit)

lemma set_writeEscape: "x \<in> set (writeEscape c) \<Longrightarrow> x = CHR ''%'' \<or> isUnreserved x"
proof -
  have "ord c div 16 < 16" using ord_lt [of c] by linarith
  then show "x \<in> set (writeEscape c) \<Longrightarrow> x = CHR ''%'' \<or> isUnreserved x"
    by (auto simp: writeEscape_alt upper_digit_unreserved)
qed

lemma set_awsEncode: "x \<in> set (awsEncode v) \<Longrightarrow> x = CHR ''%'' \<or> isUnreserved x"
  by (auto simp: awsEncode_def dest: set_writeEscape split: if_splits)

text \<open>What is encoded has none of the separators, and decoding gives it back.\<close>

lemma awsEncode_no_sep:
  "CHR ''&'' \<notin> set (awsEncode v)" "CHR ''='' \<notin> set (awsEncode v)" "CHR 0x0A \<notin> set (awsEncode v)"
  using set_awsEncode [of "CHR ''&''" v] set_awsEncode [of "CHR ''=''" v]
    set_awsEncode [of "CHR 0x0A" v]
  by (auto dest: unreserved_plain)

lemma awsEncode_Cons: "awsEncode (c # v) = (if isUnreserved c then [c] else writeEscape c) @ awsEncode v"
  by (simp add: awsEncode_def)

lemma decode_awsEncode: "percentDecodeQuery (awsEncode v) = Inr v"
proof (induction v)
  case Nil then show ?case by (simp add: awsEncode_def)
next
  case (Cons c v)
  then show ?case
    by (auto simp: awsEncode_Cons decode_escape dest: unreserved_plain)
qed

lemma awsEncode_inject: "awsEncode a = awsEncode b \<longleftrightarrow> a = b"
  using decode_awsEncode by (metis sum.inject(2))

section \<open>Queries\<close>

text \<open>The parameters a raw query stands for: every component split at its first \<open>=\<close> and decoded.\<close>

definition decode_pair :: "string \<Rightarrow> (string \<times> string) option" where
  "decode_pair part =
     (case split_pair part of (k, v) \<Rightarrow>
        (case (percentDecodeQuery k, percentDecodeQuery v) of
           (Inr k', Inr v') \<Rightarrow> Some (k', v') | _ \<Rightarrow> None))"

definition query_params :: "string \<Rightarrow> (string \<times> string) list option" where
  "query_params raw =
     (if raw = [] then Some []
      else those (map decode_pair (split_byte CHR ''&'' raw)))"

definition encode_pair :: "string \<times> string \<Rightarrow> string \<times> string" where
  "encode_pair p = (awsEncode (fst p), awsEncode (snd p))"

definition print_pair :: "string \<times> string \<Rightarrow> string" where
  "print_pair p = fst p @ ''='' @ snd p"

lemma query_pairs_those:
  "query_pairs parts =
     (case those (map decode_pair parts) of
        None \<Rightarrow> Inl bad_query_escape | Some ps \<Rightarrow> Inr (map encode_pair ps))"
proof (induction parts)
  case Nil then show ?case by simp
next
  case (Cons part parts)
  obtain k v where "split_pair part = (k, v)" by (cases "split_pair part")
  with Cons show ?case
    by (auto simp: decode_pair_def encode_pair_def split: sum.split option.split)
qed

lemma split_pair_print: "split_pair (print_pair (encode_pair p)) = encode_pair p"
proof -
  have "index_byte (w @ CHR ''='' # s) CHR ''='' = Some (length w)" if "CHR ''='' \<notin> set w" for w s
    using that by (induction w) auto
  from this [OF awsEncode_no_sep(2) [of "fst p"]] show ?thesis
    by (simp add: split_pair_def print_pair_def encode_pair_def)
qed

lemma decode_print_pair: "decode_pair (print_pair (encode_pair p)) = Some p"
  unfolding decode_pair_def split_pair_print by (simp add: encode_pair_def decode_awsEncode)

lemma canonicalRawQuery_params:
  "canonicalRawQuery raw =
     (case query_params raw of
        None \<Rightarrow> Inl bad_query_escape
      | Some ps \<Rightarrow> Inr (join ''&'' (map print_pair (sort (map encode_pair ps)))))"
proof -
  have p: "(\<lambda>(key, v). key @ ''='' @ v) = print_pair" by (auto simp: print_pair_def)
  show ?thesis
    unfolding canonicalRawQuery_def query_params_def query_pairs_those p
    by (auto split: option.split)
qed

lemma inj_encode_pair: "inj encode_pair"
  by (rule injI) (auto simp: encode_pair_def awsEncode_inject prod_eq_iff)

text \<open>The sorted canonical components are the encodings of a permutation of the parameters.\<close>

lemma sort_encoded:
  "\<exists>qs. sort (map encode_pair ps) = map encode_pair qs \<and> mset qs = mset ps"
proof -
  have "\<forall>y \<in> set (sort (map encode_pair ps)). \<exists>x. y = encode_pair x" by auto
  then obtain qs where qs: "sort (map encode_pair ps) = map encode_pair qs"
    using ex_map_conv [of "sort (map encode_pair ps)" encode_pair] by auto
  then have "image_mset encode_pair (mset qs) = image_mset encode_pair (mset ps)"
    by (metis mset_map mset_sort)
  then have "mset qs = mset ps"
    using multiset.inj_map [OF inj_encode_pair] by (blast dest: injD)
  with qs show ?thesis by blast
qed

definition print_params :: "(string \<times> string) list \<Rightarrow> string" where
  "print_params qs = join ''&'' (map (\<lambda>p. print_pair (encode_pair p)) qs)"

lemma print_pair_no_amp: "CHR ''&'' \<notin> set (print_pair (encode_pair p))"
  by (auto simp: print_pair_def encode_pair_def awsEncode_no_sep)

lemma split_print_params:
  "qs \<noteq> [] \<Longrightarrow> split_byte CHR ''&'' (print_params qs) = map (\<lambda>p. print_pair (encode_pair p)) qs"
  unfolding print_params_def by (rule split_byte_join) (auto simp: print_pair_no_amp)

lemma print_params_empty: "print_params qs = [] \<longleftrightarrow> qs = []"
proof (cases qs)
  case (Cons p ps)
  then show ?thesis by (cases ps) (auto simp: print_params_def print_pair_def)
qed (simp add: print_params_def)

lemma those_Some_map: "(\<And>p. f p = Some p) \<Longrightarrow> those (map f qs) = Some qs"
  by (induction qs) auto

text \<open>Reading the printed parameters gives them back.\<close>

lemma query_params_print: "query_params (print_params qs) = Some qs"
proof (cases "qs = []")
  case True then show ?thesis by (simp add: query_params_def print_params_def)
next
  case False
  then have "map decode_pair (split_byte CHR ''&'' (print_params qs)) =
      map (\<lambda>p. decode_pair (print_pair (encode_pair p))) qs"
    by (simp add: split_print_params)
  then show ?thesis
    using False by (simp add: query_params_def print_params_empty those_Some_map decode_print_pair)
qed

lemma canonicalRawQuery_Some:
  assumes "query_params raw = Some ps"
  obtains qs where "canonicalRawQuery raw = Inr (print_params qs)" "mset qs = mset ps"
    "sort (map encode_pair ps) = map encode_pair qs"
proof -
  obtain qs where qs: "sort (map encode_pair ps) = map encode_pair qs" "mset qs = mset ps"
    using sort_encoded [of ps] by blast
  moreover have "canonicalRawQuery raw = Inr (print_params qs)"
    by (simp add: canonicalRawQuery_params assms qs(1) print_params_def o_def)
  ultimately show thesis using that by blast
qed

lemma canonicalRawQuery_mset:
  assumes "query_params a = Some p" "query_params b = Some q" "mset p = mset q"
  shows "canonicalRawQuery a = canonicalRawQuery b"
proof -
  have "sort (map encode_pair p) = sort (map encode_pair q)"
    by (rule properties_for_sort) (simp_all add: assms(3))
  then show ?thesis by (simp add: canonicalRawQuery_params assms)
qed

text \<open>
  The canonical query stands for exactly the decoded parameters with their
  multiplicities: two raw queries have the same canonical query (or are both rejected) when and
  only when they carry the same multiset of decoded key and value pairs.
\<close>

theorem canonical_query_exact:
  "canonicalRawQuery a = canonicalRawQuery b \<longleftrightarrow>
     map_option mset (query_params a) = map_option mset (query_params b)"
proof (cases "query_params a"; cases "query_params b")
  fix p q assume pq: "query_params a = Some p" "query_params b = Some q"
  obtain p' where p': "canonicalRawQuery a = Inr (print_params p')" "mset p' = mset p"
    using pq(1) by (rule canonicalRawQuery_Some)
  obtain q' where q': "canonicalRawQuery b = Inr (print_params q')" "mset q' = mset q"
    using pq(2) by (rule canonicalRawQuery_Some)
  have "print_params p' = print_params q' \<Longrightarrow> p' = q'"
    using query_params_print by (metis option.inject)
  then show ?thesis using p' q' pq canonicalRawQuery_mset [OF pq] by auto
qed (auto simp: canonicalRawQuery_params split: option.splits)

text \<open>
  Canonicalising is stable: the canonical query is its own canonical query, its
  components are sorted, and it carries the parameters of the original.
\<close>

theorem canonical_query_stable:
  assumes "canonicalRawQuery raw = Inr q"
  shows "canonicalRawQuery q = Inr q \<and>
    sorted (map split_pair (split_byte CHR ''&'' q)) \<and>
    map_option mset (query_params q) = map_option mset (query_params raw)"
proof -
  obtain ps where ps: "query_params raw = Some ps"
    using assms by (auto simp: canonicalRawQuery_params split: option.splits)
  obtain qs where qs: "canonicalRawQuery raw = Inr (print_params qs)" "mset qs = mset ps"
    "sort (map encode_pair ps) = map encode_pair qs"
    using ps by (rule canonicalRawQuery_Some)
  have q: "q = print_params qs" using assms qs(1) by simp
  have p: "map_option mset (query_params q) = map_option mset (query_params raw)"
    by (simp add: q query_params_print ps qs(2))
  moreover have "canonicalRawQuery q = canonicalRawQuery raw"
    by (rule canonicalRawQuery_mset [OF _ ps qs(2)]) (simp add: q query_params_print)
  moreover have "sorted (map split_pair (split_byte CHR ''&'' q))"
  proof (cases "qs = []")
    case True then show ?thesis by (simp add: q print_params_def)
  next
    case False
    then have "map split_pair (split_byte CHR ''&'' q) = map encode_pair qs"
      by (simp add: q split_print_params split_pair_print)
    then show ?thesis using qs(3) by (metis sorted_sort)
  qed
  ultimately show ?thesis using assms p by simp
qed
section \<open>Paths\<close>

lemma append_single [simp]: "(@) [c] = (#) c"
  by (simp add: fun_eq_iff)

lemma hexValue_nonneg:
  "0 \<le> hexValue c \<Longrightarrow> isUnreserved c"
  by (auto simp: hexValue_ord isUnreserved_ord split: if_splits)

lemma ord_upperHex: "ord (upperHex c) = (if 97 \<le> ord c \<and> ord c \<le> 102 then ord c - 32 else ord c)"
proof -
  have "ord CHR ''a'' - ord CHR ''A'' = 32" by (simp add: ord_def)
  moreover have "ord c - 32 < 256" using ord_lt [of c] by linarith
  ultimately show ?thesis by (simp add: upperHex_def between_iff)
qed

lemma upperHex_idem [simp]: "upperHex (upperHex c) = upperHex c"
  by (subst ord_inject [symmetric]) (auto simp: ord_upperHex)

lemma hexValue_upperHex [simp]: "hexValue (upperHex c) = hexValue c"
  by (auto simp: hexValue_ord ord_upperHex)

lemma upperHex_upper_digit: "i < 16 \<Longrightarrow> upperHex (upper_hex_digit i) = upper_hex_digit i"
  by (subst ord_inject [symmetric]) (simp add: ord_upperHex ord_upper_digit)

text \<open>
  One step of the path: the escape or plain byte \<open>u\<close> the source has, its canonical form \<open>v\<close>, and
  the byte both stand for. Neither contains a slash, and the canonical form is its own.
\<close>

definition path_unit :: "string \<Rightarrow> string \<Rightarrow> bool" where
  "path_unit u v \<longleftrightarrow> CHR ''/'' \<notin> set u \<and> (\<forall>x \<in> set v. x = CHR ''%'' \<or> isUnreserved x) \<and>
     (\<exists>c. \<forall>w. percentDecodeQuery (u @ w) = map_sum id ((#) c) (percentDecodeQuery w) \<and>
              percentDecodeQuery (v @ w) = map_sum id ((#) c) (percentDecodeQuery w)) \<and>
     (\<forall>s. canonicalEscapedPath (v @ s) = map_sum id ((@) v) (canonicalEscapedPath s))"

lemma path_unit_plain: "isUnreserved c \<Longrightarrow> path_unit [c] [c]"
  using unreserved_plain [of c] by (auto simp: path_unit_def)

lemma path_unit_escape:
  assumes "0 \<le> hexValue a" "0 \<le> hexValue b"
  shows "path_unit [CHR ''%'', a, b] [CHR ''%'', upperHex a, upperHex b]"
proof -
  have "isUnreserved a" "isUnreserved b" "isUnreserved (upperHex a)" "isUnreserved (upperHex b)"
    using assms by (auto intro: hexValue_nonneg)
  then show ?thesis
    using assms unreserved_plain [of a] unreserved_plain [of b] by (auto simp: path_unit_def)
qed

lemma canonical_writeEscape:
  "canonicalEscapedPath (writeEscape c @ s) = map_sum id ((@) (writeEscape c)) (canonicalEscapedPath s)"
proof -
  have "ord c div 16 < 16" using ord_lt [of c] by linarith
  then show ?thesis
    by (simp add: writeEscape_alt hexValue_upper_digit upperHex_upper_digit)
qed

lemma path_unit_reserved:
  assumes "c \<noteq> CHR ''/''" "c \<noteq> CHR ''%''"
  shows "path_unit [c] (writeEscape c)"
  unfolding path_unit_def
proof (intro conjI)
  show "\<exists>b. \<forall>w. percentDecodeQuery ([c] @ w) = map_sum id ((#) b) (percentDecodeQuery w) \<and>
      percentDecodeQuery (writeEscape c @ w) = map_sum id ((#) b) (percentDecodeQuery w)"
    using assms(2) by (intro exI [of _ c]) (simp add: decode_escape)
qed (use assms in \<open>auto simp: canonical_writeEscape dest: set_writeEscape\<close>)

lemma split_byte_prepend:
  "c \<notin> set u \<Longrightarrow> split_byte c (u @ s) = (u @ hd (split_byte c s)) # tl (split_byte c s)"
proof (induction u)
  case Nil then show ?case by simp
next
  case (Cons x u)
  then show ?case by (simp add: neq_commute)
qed

definition decoded_segments :: "string \<Rightarrow> string go_result list" where
  "decoded_segments p = map percentDecodeQuery (split_byte CHR ''/'' p)"

definition path_canonised :: "string \<Rightarrow> string \<Rightarrow> bool" where
  "path_canonised p q \<longleftrightarrow> decoded_segments q = decoded_segments p \<and>
     (\<forall>x \<in> set q. x = CHR ''/'' \<or> x = CHR ''%'' \<or> isUnreserved x) \<and> canonicalEscapedPath q = Inr q"

lemma path_canonised_unit:
  assumes u: "path_unit u v" and pq: "path_canonised p q"
  shows "path_canonised (u @ p) (v @ q)"
proof -
  obtain c where c: "percentDecodeQuery (u @ w) = map_sum id ((#) c) (percentDecodeQuery w)"
    "percentDecodeQuery (v @ w) = map_sum id ((#) c) (percentDecodeQuery w)" for w
    using u by (auto simp: path_unit_def)
  have v: "CHR ''/'' \<notin> set v" using u unreserved_plain by (auto simp: path_unit_def)
  have seg: "decoded_segments (u @ p) = map_sum id ((#) c) (hd (decoded_segments p)) # tl (decoded_segments p)"
    "decoded_segments (v @ q) = map_sum id ((#) c) (hd (decoded_segments q)) # tl (decoded_segments q)"
    using u v by (simp_all add: decoded_segments_def split_byte_prepend c path_unit_def
        hd_map map_tl)
  have "canonicalEscapedPath (v @ q) = Inr (v @ q)"
    using u pq by (simp add: path_unit_def path_canonised_def)
  then show ?thesis using seg u pq by (auto simp: path_canonised_def path_unit_def)
qed

lemma path_canonised_slash:
  "path_canonised p q \<Longrightarrow> path_canonised (CHR ''/'' # p) (CHR ''/'' # q)"
  by (auto simp: path_canonised_def decoded_segments_def)

lemma canonicalEscapedPath_canonised:
  "canonicalEscapedPath p = Inr q \<Longrightarrow> path_canonised p q"
proof (induction p arbitrary: q rule: canonicalEscapedPath.induct)
  case 1
  then show ?case by (simp add: path_canonised_def)
next
  case (2 c s)
  have unit: "path_canonised (u @ r) q"
    if "path_unit u v" "map_sum id ((@) v) (canonicalEscapedPath r) = Inr q"
      "\<And>q. canonicalEscapedPath r = Inr q \<Longrightarrow> path_canonised r q" for u v r
    using that path_canonised_unit [OF that(1)] by (cases "canonicalEscapedPath r") auto
  consider "c = CHR ''/''" | a b r where "c = CHR ''%''" "s = a # b # r" "0 \<le> hexValue a" "0 \<le> hexValue b"
    | "c \<noteq> CHR ''/''" "c \<noteq> CHR ''%''" "isUnreserved c"
    | "c \<noteq> CHR ''/''" "c \<noteq> CHR ''%''" "\<not> isUnreserved c"
    using "2.prems" by (auto split: if_splits list.splits)
  then show ?case
  proof cases
    case 1
    with 2 show ?thesis
      by (cases "canonicalEscapedPath s") (auto intro: path_canonised_slash)
  next
    case (2 a b r)
    then show ?thesis
      using unit [OF path_unit_escape [OF 2(3,4)], of r] "2.IH"(2) "2.prems" by simp
  next
    case 3
    then show ?thesis using unit [OF path_unit_plain [of c], of s] "2.IH"(3) "2.prems" by simp
  next
    case 4
    then show ?thesis using unit [OF path_unit_reserved [of c], of s] "2.IH"(4) "2.prems" by simp
  qed
qed

lemma canonicalEscapedPath_decodes:
  "is_ok (canonicalEscapedPath p) \<longleftrightarrow> is_ok (percentDecodeQuery p)"
  by (induction p rule: canonicalEscapedPath.induct)
    (auto simp: isl_map_sum split: list.split dest: unreserved_plain)

lemma canonicalEscapedPath_error: "canonicalEscapedPath p = Inl e \<Longrightarrow> e = bad_path_escape"
proof (induction p rule: canonicalEscapedPath.induct)
  case (2 c s)
  consider "s = []" | a where "s = [a]" | a b r where "s = a # b # r"
    by (metis list.exhaust)
  then show ?case using 2 by cases (simp_all split: if_splits)
qed simp

text \<open>
  A path has a canonical form exactly when all its escapes are valid. The canonical
  form has the same decoded segments between slashes (so an encoded slash never becomes a
  separator and dot segments are not cleaned), consists of slashes, escapes and unreserved bytes,
  and is its own canonical form.
\<close>

theorem canonical_path_keeps_segments:
  "case canonicalEscapedPath p of
     Inl e \<Rightarrow> e = bad_path_escape \<and> isl (percentDecodeQuery p)
   | Inr q \<Rightarrow> decoded_segments q = decoded_segments p \<and>
       list_all (\<lambda>x. x = CHR ''/'' \<or> x = CHR ''%'' \<or> isUnreserved x) q \<and>
       canonicalEscapedPath q = Inr q"
proof (cases "canonicalEscapedPath p")
  case (Inl e)
  then show ?thesis
    using canonicalEscapedPath_decodes [of p] canonicalEscapedPath_error [OF Inl] by simp
next
  case (Inr q)
  then show ?thesis
    using canonicalEscapedPath_canonised [OF Inr] by (auto simp: path_canonised_def list_all_iff)
qed

section \<open>Header values\<close>

definition blank :: "char \<Rightarrow> bool" where
  "blank c \<longleftrightarrow> c = CHR '' '' \<or> c = CHR 0x09"

text \<open>The words of a header value: its maximal runs of bytes other than space and tab.\<close>

function header_words :: "string \<Rightarrow> string list" where
  "header_words [] = []"
| "header_words (c # s) =
     (if blank c then header_words s
      else (c # takeWhile (\<lambda>x. \<not> blank x) s) # header_words (dropWhile (\<lambda>x. \<not> blank x) s))"
  by pat_completeness auto
termination
  by (relation "measure length") (auto simp: le_imp_less_Suc length_dropWhile_le)

lemma normalize_loop_words:
  assumes "out \<noteq> []"
  shows "normalize_loop out True s = out @ concat (map ((#) CHR '' '') (header_words s))"
    and "normalize_loop out False s = out @ takeWhile (\<lambda>x. \<not> blank x) s @
           concat (map ((#) CHR '' '') (header_words (dropWhile (\<lambda>x. \<not> blank x) s)))"
  using assms
proof (induction s arbitrary: out)
  case Nil
  { case 1 then show ?case by simp next case 2 then show ?case by simp }
next
  case (Cons c s)
  { case 1 then show ?case using Cons.IH [of out] Cons.IH [of "out @ [CHR '' '', c]"] by (simp add: blank_def)
  next
    case 2 then show ?case using Cons.IH [of out] Cons.IH [of "out @ [c]"] by (simp add: blank_def) }
qed

lemma join_space: "join '' '' (w # ws) = w @ concat (map ((#) CHR '' '') ws)"
  by (induction ws arbitrary: w) auto

lemma normalize_loop_start: "normalize_loop [] space s = join '' '' (header_words s)"
proof (induction s arbitrary: space)
  case (Cons c s)
  show ?case
    using Cons [of True] normalize_loop_words(2) [of "[c]" s]
    by (simp add: blank_def [symmetric] join_space)
qed simp

lemma header_words_ok: "w \<in> set (header_words s) \<Longrightarrow> w \<noteq> [] \<and> (\<forall>c \<in> set w. \<not> blank c \<and> c \<in> set s)"
proof (induction s rule: header_words.induct)
  case (2 c s)
  show ?case
  proof (cases "blank c")
    case True
    with 2 show ?thesis by auto
  next
    case False
    with "2.prems" consider "w = c # takeWhile (\<lambda>x. \<not> blank x) s"
      | "w \<in> set (header_words (dropWhile (\<lambda>x. \<not> blank x) s))" by auto
    then show ?thesis
    proof cases
      case 1 with False show ?thesis by (auto dest: set_takeWhileD)
    next
      case 2 with "2.IH"(2) [OF False] show ?thesis by (auto dest: set_dropWhileD)
    qed
  qed
qed simp

lemma header_words_word:
  assumes "w \<noteq> []" "\<forall>c \<in> set w. \<not> blank c"
  shows "header_words (w @ s) =
    (w @ takeWhile (\<lambda>x. \<not> blank x) s) # header_words (dropWhile (\<lambda>x. \<not> blank x) s)"
proof -
  obtain c v where "w = c # v" using assms(1) by (cases w) auto
  with assms show ?thesis by simp
qed

lemma header_words_join:
  "\<forall>w \<in> set ws. w \<noteq> [] \<and> (\<forall>c \<in> set w. \<not> blank c) \<Longrightarrow> header_words (join '' '' ws) = ws"
proof (induction ws)
  case (Cons w ws)
  then show ?case
    using header_words_word [of w "[]"] header_words_word [of w "CHR '' '' # join '' '' ws"]
    by (cases ws) (auto simp: blank_def)
qed simp

text \<open>
  The single pass over a header value computes its words joined by single spaces, and
  normalising a second time changes nothing.
\<close>

theorem normalize_header_words:
  "normalizeHeaderValue v = join '' '' (header_words v) \<and>
   normalizeHeaderValue (normalizeHeaderValue v) = normalizeHeaderValue v"
proof -
  have "header_words (join '' '' (header_words v)) = header_words v"
    using header_words_ok by (intro header_words_join) blast
  then show ?thesis by (simp add: normalizeHeaderValue_def normalize_loop_start)
qed

lemma normalize_no_newline: "CHR 0x0A \<notin> set v \<Longrightarrow> CHR 0x0A \<notin> set (normalizeHeaderValue v)"
  using set_join [of "CHR 0x0A" "'' ''" "header_words v"] header_words_ok [of _ v]
  by (auto simp: normalizeHeaderValue_def normalize_loop_start)

section \<open>Canonical headers\<close>

definition header_line :: "string \<times> string \<Rightarrow> string" where
  "header_line nv = fst nv @ '':'' @ normalizeHeaderValue (snd nv)"

definition header_block :: "(string \<times> string) list \<Rightarrow> string" where
  "header_block nvs = concat (map (\<lambda>nv. header_line nv @ [CHR 0x0A]) nvs)"

lemma header_name_byte:
  assumes "c = CHR ''-'' \<or> byte_between CHR ''a'' CHR ''z'' c \<or> byte_between CHR ''0'' CHR ''9'' c"
  shows "is_ascii c \<and> \<not> is_upper_byte c" "c \<noteq> CHR '':''" "c \<noteq> CHR '';''" "c \<noteq> CHR 0x0A"
proof -
  have ords: "ord CHR ''-'' = 45" "ord CHR '':'' = 58" "ord CHR '';'' = 59" "ord CHR 0x0A = 10"
    by (simp_all add: ord_def)
  then have "ord c = 45 \<or> (97 \<le> ord c \<and> ord c \<le> 122) \<or> (48 \<le> ord c \<and> ord c \<le> 57)"
    using assms by (auto simp: between_iff)
  then show "is_ascii c \<and> \<not> is_upper_byte c" "c \<noteq> CHR '':''" "c \<noteq> CHR '';''" "c \<noteq> CHR 0x0A"
    using ords by (auto simp: is_ascii_def is_upper_byte_iff)
qed

lemma validHeaderName_byte:
  "validHeaderName name \<Longrightarrow> c \<in> set name \<Longrightarrow>
     c = CHR ''-'' \<or> byte_between CHR ''a'' CHR ''z'' c \<or> byte_between CHR ''0'' CHR ''9'' c"
  by (simp add: validHeaderName_def list_all_iff)

lemma validHeaderName_lower: "validHeaderName name \<Longrightarrow> to_lower name = name"
  by (rule to_lower_id, unfold list_all_iff, rule ballI)
    (rule header_name_byte(1) [OF validHeaderName_byte])

lemma validHeaderName_bytes:
  assumes "validHeaderName name"
  shows "name \<noteq> []" "CHR '':'' \<notin> set name" "CHR '';'' \<notin> set name" "CHR 0x0A \<notin> set name"
proof -
  show "name \<noteq> []" using assms by (simp add: validHeaderName_def)
  show "CHR '':'' \<notin> set name" "CHR '';'' \<notin> set name" "CHR 0x0A \<notin> set name"
    using header_name_byte(2-4) [OF validHeaderName_byte [OF assms]] by blast+
qed

text \<open>
  The loop accepts exactly the strictly increasing lists of valid names whose values are
  available, so its test for a repeated name can never fire.
\<close>

lemma canonical_headers_loop_ok:
  "canonical_headers_loop r prev seen names = Inr h \<Longrightarrow>
     list_all validHeaderName names \<and> sorted_wrt (<) names \<and>
     (prev \<noteq> [] \<longrightarrow> (\<forall>n \<in> set names. prev < n)) \<and>
     (\<exists>vs. map (signedHeaderValue r) names = map Inr vs \<and> h = header_block (zip names vs))"
proof (induction names arbitrary: prev seen h)
  case Nil then show ?case by (simp add: header_block_def)
next
  case (Cons name names)
  obtain v h' where v: "validHeaderName name" "prev \<noteq> [] \<longrightarrow> prev < name" "signedHeaderValue r name = Inr v"
    "canonical_headers_loop r name (insert name seen) names = Inr h'"
    "h = header_line (name, v) @ [CHR 0x0A] @ h'"
    using Cons.prems
    by (auto simp: header_line_def map_sum_id_Inr not_le split: if_splits sum.splits)
  from Cons.IH [OF v(4)] obtain vs where
    *: "list_all validHeaderName names" "sorted_wrt (<) names" "\<forall>n \<in> set names. name < n"
    "map (signedHeaderValue r) names = map Inr vs" "h' = header_block (zip names vs)"
    using validHeaderName_bytes [OF v(1)] by auto
  have "map (signedHeaderValue r) (name # names) = map Inr (v # vs)"
    "h = header_block (zip (name # names) (v # vs))"
    using v * by (simp_all add: header_block_def)
  moreover have "prev \<noteq> [] \<longrightarrow> (\<forall>n \<in> set (name # names). prev < n)" using v(2) *(3) by auto
  moreover have "list_all validHeaderName (name # names)" "sorted_wrt (<) (name # names)"
    using v(1) *(1-3) by simp_all
  ultimately show ?case by blast
qed

lemma canonical_headers_loop_complete:
  assumes "list_all validHeaderName names" "sorted_wrt (<) names"
    "\<forall>n \<in> set names. prev < n" "\<forall>s \<in> seen. s \<le> prev"
    "map (signedHeaderValue r) names = map Inr vs"
  shows "canonical_headers_loop r prev seen names = Inr (header_block (zip names vs))"
  using assms
proof (induction names arbitrary: prev seen vs)
  case Nil then show ?case by (simp add: header_block_def)
next
  case (Cons name names)
  then obtain v vs' where vs: "vs = v # vs'" "signedHeaderValue r name = Inr v"
    "map (signedHeaderValue r) names = map Inr vs'" by (cases vs) auto
  have "canonical_headers_loop r name (insert name seen) names = Inr (header_block (zip names vs'))"
    using Cons.prems vs by (intro Cons.IH) (auto intro: less_imp_le order_trans)
  moreover have "name \<notin> seen" "\<not> name \<le> prev" using Cons.prems by (auto simp: not_le)
  ultimately show ?case
    using Cons.prems vs
    by (simp add: validHeaderName_lower header_block_def header_line_def)
qed

text \<open>
  The canonical headers exist exactly for a non-empty, strictly increasing list of
  valid names each of which has one usable value, and are then one line per name with the
  normalised value, in that order.
\<close>

theorem canonical_headers_exact:
  "CanonicalHeaders (Some r) signed = Inr (h, n) \<longleftrightarrow>
     signed \<noteq> [] \<and> list_all validHeaderName signed \<and> sorted_wrt (<) signed \<and>
     (\<exists>vs. map (signedHeaderValue r) signed = map Inr vs \<and> h = header_block (zip signed vs)) \<and>
     n = join '';'' signed"
  (is "?L \<longleftrightarrow> ?R")
proof
  assume ?L
  then show ?R
    using canonical_headers_loop_ok [of r "[]" "{}" signed h]
    by (auto simp: CanonicalHeaders_def map_sum_id_Inr split: if_splits)
next
  assume R: ?R
  then obtain vs where "map (signedHeaderValue r) signed = map Inr vs" "h = header_block (zip signed vs)"
    by blast
  moreover have "[] < n" if "n \<in> set signed" for n
    using R that validHeaderName_bytes(1) by (cases n) (auto simp: list_all_iff)
  ultimately show ?L
    using R canonical_headers_loop_complete [of signed "[]" "{}" r vs] by (simp add: CanonicalHeaders_def)
qed

section \<open>The canonical request determines the request\<close>

text \<open>
  \<open>host_one_line r\<close>: the authorities \<^verbatim>\<open>net/http\<close> puts into a request have no line break. The other
  header values are checked by the code.
\<close>

definition host_one_line :: "'a http_request_scheme \<Rightarrow> bool" where
  "host_one_line r \<longleftrightarrow> CHR 0x0A \<notin> set (rq_Host r) \<and>
     (case rq_URL r of None \<Rightarrow> True | Some u \<Rightarrow> CHR 0x0A \<notin> set (url_Host u))"

lemma validHeaderValue_newline: "validHeaderValue v \<Longrightarrow> CHR 0x0A \<notin> set v"
  by (auto simp: validHeaderValue_def list_all_iff ord_def)

lemma format_int_newline: "CHR 0x0A \<notin> set (format_int i)"
proof -
  have "CHR 0x0A \<notin> set (itoa n)" for n
    using itoa_digits [of n] by (auto simp: list_all_iff is_digit_byte_iff ord_def)
  then show ?thesis by (simp add: format_int_def)
qed

lemma signedHeaderValue_newline:
  "host_one_line r \<Longrightarrow> signedHeaderValue r name = Inr v \<Longrightarrow> CHR 0x0A \<notin> set v"
  by (auto simp: signedHeaderValue_def host_value_def host_one_line_def format_int_newline
      validHeaderValue_newline split: if_splits list.splits option.splits prod.splits)

lemma header_block_lines:
  "header_block nvs @ s = join [CHR 0x0A] (map header_line nvs @ [s])"
proof (induction nvs)
  case (Cons nv nvs)
  then show ?case
    by (simp add: header_block_def join_Cons_nonempty)
qed (simp add: header_block_def)

lemma join_cons: "join sep (w # ws) = w @ (if ws = [] then [] else sep @ join sep ws)"
  by (cases ws) auto

text \<open>The lines of a canonical request: method, path, query, headers, an empty line, names, hash.\<close>

lemma request_lines:
  assumes "\<forall>w \<in> {m, u, q, n, p} \<union> header_line ` set nvs. CHR 0x0A \<notin> set w"
  shows "split_byte CHR 0x0A (join [CHR 0x0A] [m, u, q, header_block nvs, n, p]) =
    [m, u, q] @ map header_line nvs @ [[], n, p]"
proof -
  have "join [CHR 0x0A] [m, u, q, header_block nvs, n, p] =
      join [CHR 0x0A] ([m, u, q] @ map header_line nvs @ [[], n, p])"
    using header_block_lines [of nvs "CHR 0x0A # n @ CHR 0x0A # p"]
    by (induction nvs) (simp_all add: join_cons header_block_def)
  then show ?thesis using assms by (simp del: join.simps) (rule split_byte_join, auto)
qed

lemma header_line_inject:
  assumes "validHeaderName (fst a)" "validHeaderName (fst b)" "header_line a = header_line b"
  shows "fst a = fst b \<and> normalizeHeaderValue (snd a) = normalizeHeaderValue (snd b)"
proof -
  have c: "cut CHR '':'' (header_line x) = (fst x, normalizeHeaderValue (snd x), True)"
    if "validHeaderName (fst x)" for x
  proof -
    have "takeWhile (\<lambda>c. c \<noteq> CHR '':'') (header_line x) = fst x"
      "dropWhile (\<lambda>c. c \<noteq> CHR '':'') (header_line x) = CHR '':'' # normalizeHeaderValue (snd x)"
      using validHeaderName_bytes(2) [OF that] unfolding header_line_def
      by (subst takeWhile_append2 dropWhile_append2; auto)+
    then show ?thesis by (simp add: cut_def)
  qed
  show ?thesis using c [OF assms(1)] c [OF assms(2)] assms(3) by simp
qed

lemma header_lines_inject:
  "map header_line a = map header_line b \<Longrightarrow>
     list_all (validHeaderName \<circ> fst) a \<Longrightarrow> list_all (validHeaderName \<circ> fst) b \<Longrightarrow>
     map fst a = map fst b \<and>
     map (normalizeHeaderValue \<circ> snd) a = map (normalizeHeaderValue \<circ> snd) b"
proof (induction a arbitrary: b)
  case (Cons x a)
  then obtain y b' where "b = y # b'" by (cases b) auto
  with Cons show ?case using header_line_inject [of x y] by auto
qed simp

text \<open>What \<^verbatim>\<open>BuildCanonicalRequest\<close> accepts, and the parts of its result.\<close>

lemma BuildCanonicalRequest_ok:
  assumes "BuildCanonicalRequest sha (Some r) signed payloadHash = Inr c"
  obtains u q h n where "CanonicalURI (Some r) = Inr u" "CanonicalQuery (Some r) = Inr q"
    "CanonicalHeaders (Some r) signed = Inr (h, n)" "validPayloadHash payloadHash"
    "rq_Method r \<noteq> []" "\<not> contains_any (rq_Method r) bad_method_bytes"
    "cn_Request c = join [CHR 0x0A] [rq_Method r, u, q, h, n, payloadHash]"
    "cn_Hash c = hex_encode (sha (cn_Request c))"
  using assms that by (auto simp: BuildCanonicalRequest_def Let_def split: if_splits sum.splits)

lemma CanonicalURI_newline: "CanonicalURI req = Inr u \<Longrightarrow> CHR 0x0A \<notin> set u"
proof -
  assume "CanonicalURI req = Inr u"
  then obtain p where "canonicalEscapedPath p = Inr u"
    by (auto simp: CanonicalURI_def Let_def split: if_splits option.splits)
  then have "\<forall>x \<in> set u. x = CHR ''/'' \<or> x = CHR ''%'' \<or> isUnreserved x"
    using canonicalEscapedPath_canonised by (simp add: path_canonised_def)
  then show ?thesis using unreserved_plain by fastforce
qed

lemma CanonicalQuery_newline: "canonicalRawQuery raw = Inr q \<Longrightarrow> CHR 0x0A \<notin> set q"
proof
  assume q: "canonicalRawQuery raw = Inr q" and n: "CHR 0x0A \<in> set q"
  obtain ps where "query_params raw = Some ps"
    using q by (auto simp: canonicalRawQuery_params split: option.splits)
  then obtain qs where "canonicalRawQuery raw = Inr (print_params qs)"
    by (rule canonicalRawQuery_Some)
  then have "CHR 0x0A \<in> set (print_params qs)" using q n by simp
  then show False
    using set_join [of "CHR 0x0A" "''&''" "map (\<lambda>p. print_pair (encode_pair p)) qs"]
    by (auto simp: print_params_def print_pair_def encode_pair_def awsEncode_no_sep)
qed

lemma names_newline:
  "list_all validHeaderName names \<Longrightarrow> CHR 0x0A \<notin> set (join '';'' names)"
  using set_join [of "CHR 0x0A" "'';''" names] validHeaderName_bytes(4)
  by (auto simp: list_all_iff)

lemma validPayloadHash_newline: "validPayloadHash p \<Longrightarrow> CHR 0x0A \<notin> set p"
proof
  assume p: "validPayloadHash p" and n: "CHR 0x0A \<in> set p"
  have "\<not> isLowerHex CHR 0x0A" by (simp add: isLowerHex_def byte_between_def ord_def)
  with n have "\<not> list_all isLowerHex p" by (auto simp: list_all_iff)
  with p have "p = ''UNSIGNED-PAYLOAD''" by (auto simp: validPayloadHash_def split: if_splits)
  with n show False by simp
qed

lemma method_newline: "\<not> contains_any m bad_method_bytes \<Longrightarrow> CHR 0x0A \<notin> set m"
  by (auto simp: contains_any_def bad_method_bytes_def list_ex_iff)

lemma names_join_inject:
  assumes "list_all validHeaderName a" "list_all validHeaderName b" "a \<noteq> []" "b \<noteq> []"
    "join '';'' a = join '';'' b"
  shows "a = b"
proof -
  have "split_byte CHR '';'' (join '';'' ns) = ns" if "list_all validHeaderName ns" "ns \<noteq> []" for ns
    using that validHeaderName_bytes(3) by (intro split_byte_join) (auto simp: list_all_iff)
  then show ?thesis using assms by metis
qed

text \<open>The lines of an accepted request, and the values they are made of.\<close>

lemma BuildCanonicalRequest_lines:
  assumes b: "BuildCanonicalRequest sha (Some r) signed payloadHash = Inr c" and h: "host_one_line r"
  obtains u q vs where "CanonicalURI (Some r) = Inr u" "CanonicalQuery (Some r) = Inr q"
    "map (signedHeaderValue r) signed = map Inr vs" "list_all validHeaderName signed" "signed \<noteq> []"
    "split_byte CHR 0x0A (cn_Request c) = [rq_Method r, u, q] @ map header_line (zip signed vs) @
       [[], join '';'' signed, payloadHash]"
proof -
  obtain u q hd n where *: "CanonicalURI (Some r) = Inr u" "CanonicalQuery (Some r) = Inr q"
    "CanonicalHeaders (Some r) signed = Inr (hd, n)" "validPayloadHash payloadHash"
    "\<not> contains_any (rq_Method r) bad_method_bytes"
    "cn_Request c = join [CHR 0x0A] [rq_Method r, u, q, hd, n, payloadHash]"
    using b by (rule BuildCanonicalRequest_ok)
  obtain vs where vs: "map (signedHeaderValue r) signed = map Inr vs" "hd = header_block (zip signed vs)"
    "n = join '';'' signed" "list_all validHeaderName signed" "signed \<noteq> []"
    using *(3) canonical_headers_loop_ok [of r "[]" "{}" signed hd]
    by (auto simp: CanonicalHeaders_def map_sum_id_Inr split: if_splits)
  have val: "CHR 0x0A \<notin> set v" if nv: "(name, v) \<in> set (zip signed vs)" for name v
  proof -
    obtain i where "i < length vs" "i < length signed" "signed ! i = name" "vs ! i = v"
      using nv by (auto simp: set_zip)
    then have "signedHeaderValue r name = Inr v"
      using arg_cong [OF vs(1), of "\<lambda>l. l ! i"] by simp
    then show ?thesis by (rule signedHeaderValue_newline [OF h])
  qed
  have "CHR 0x0A \<notin> set (header_line nv)" if "nv \<in> set (zip signed vs)" for nv
  proof -
    obtain name v where nv: "nv = (name, v)" by (cases nv)
    with that have "name \<in> set signed" "CHR 0x0A \<notin> set v" using val by (auto dest: set_zip_leftD)
    then show ?thesis
      using vs(4) validHeaderName_bytes(4) normalize_no_newline
      by (auto simp: header_line_def nv list_all_iff)
  qed
  then have "split_byte CHR 0x0A (cn_Request c) = [rq_Method r, u, q] @ map header_line (zip signed vs) @
       [[], join '';'' signed, payloadHash]"
    unfolding *(6) vs(2,3)
    using *(1,2,4,5) vs(4) by (intro request_lines)
      (auto dest: CanonicalURI_newline CanonicalQuery_newline names_newline validPayloadHash_newline
        method_newline simp: CanonicalQuery_def request_url_def split: option.splits)
  then show thesis using that * vs by blast
qed

text \<open>What the values of the signed headers are after normalisation.\<close>

definition signed_values :: "'a http_request_scheme \<Rightarrow> string list \<Rightarrow> (sig_error + string) list" where
  "signed_values r signed = map (\<lambda>n. map_sum id normalizeHeaderValue (signedHeaderValue r n)) signed"

lemma signed_values_Inr:
  "map (signedHeaderValue r) signed = map Inr vs \<Longrightarrow>
     signed_values r signed = map (Inr \<circ> normalizeHeaderValue) vs"
proof -
  assume "map (signedHeaderValue r) signed = map Inr vs"
  then have "map (map_sum id normalizeHeaderValue) (map (signedHeaderValue r) signed) =
      map (map_sum id normalizeHeaderValue) (map Inr vs)" by simp
  then show ?thesis by (simp add: signed_values_def o_def)
qed

lemma canonical_request_determines:
  assumes "BuildCanonicalRequest sha (Some r) signed p = Inr c" "host_one_line r"
    and "BuildCanonicalRequest sha (Some r') signed' p' = Inr c'" "host_one_line r'"
    and "cn_Request c = cn_Request c'"
  shows "rq_Method r = rq_Method r' \<and> CanonicalURI (Some r) = CanonicalURI (Some r') \<and>
    CanonicalQuery (Some r) = CanonicalQuery (Some r') \<and> signed = signed' \<and>
    signed_values r signed = signed_values r' signed \<and> p = p'"
proof -
  obtain u q vs where 1: "CanonicalURI (Some r) = Inr u" "CanonicalQuery (Some r) = Inr q"
    "map (signedHeaderValue r) signed = map Inr vs" "list_all validHeaderName signed"
    "split_byte CHR 0x0A (cn_Request c) = [rq_Method r, u, q] @ map header_line (zip signed vs) @
       [[], join '';'' signed, p]"
    using assms(1,2) by (rule BuildCanonicalRequest_lines)
  obtain u' q' vs' where 2: "CanonicalURI (Some r') = Inr u'" "CanonicalQuery (Some r') = Inr q'"
    "map (signedHeaderValue r') signed' = map Inr vs'" "list_all validHeaderName signed'"
    "split_byte CHR 0x0A (cn_Request c') = [rq_Method r', u', q'] @ map header_line (zip signed' vs') @
       [[], join '';'' signed', p']"
    using assms(3,4) by (rule BuildCanonicalRequest_lines)
  have len: "length signed = length vs" "length signed' = length vs'"
    using arg_cong [OF 1(3), of length] arg_cong [OF 2(3), of length] by simp_all
  have eq: "rq_Method r = rq_Method r'" "u = u'" "q = q'" "p = p'"
    "map header_line (zip signed vs) = map header_line (zip signed' vs')"
    using 1(5) 2(5) assms(5) by auto
  have names: "list_all (validHeaderName \<circ> fst) (zip ns xs)" if "list_all validHeaderName ns" for ns and xs :: "string list"
    using that by (auto simp: list_all_iff dest: set_zip_leftD)
  have "map fst (zip signed vs) = map fst (zip signed' vs') \<and>
      map (normalizeHeaderValue \<circ> snd) (zip signed vs) = map (normalizeHeaderValue \<circ> snd) (zip signed' vs')"
    by (rule header_lines_inject [OF eq(5) names [OF 1(4)] names [OF 2(4)]])
  then have "signed = signed'" "map normalizeHeaderValue vs = map normalizeHeaderValue vs'"
    using len by (simp_all flip: map_map)
  then show ?thesis
    using eq 1(1,2) 2(1,2) signed_values_Inr [OF 1(3)] signed_values_Inr [OF 2(3)]
    by (metis map_map)
qed

text \<open>
  Property C21. The canonical request binds the request: two requests (from possibly different
  callers) with the same canonical request string have the same method, the same canonical path,
  the same canonical query (so the same parameters with their multiplicities), the same list of
  signed headers with the same normalised values, and the same payload hash.
\<close>

theorem canonical_request_binds:
  assumes "BuildCanonicalRequest sha (Some r) signed p = Inr c" "host_one_line r"
    and "BuildCanonicalRequest sha (Some r') signed' p' = Inr c'" "host_one_line r'"
    and "cn_Request c = cn_Request c'"
  shows "rq_Method r = rq_Method r' \<and> CanonicalURI (Some r) = CanonicalURI (Some r') \<and>
    CanonicalQuery (Some r) = CanonicalQuery (Some r') \<and> signed = signed' \<and>
    signed_values r signed = signed_values r' signed \<and> p = p'"
  using assms by (rule canonical_request_determines)

section \<open>Witnesses\<close>

lemma canonical_query_stable_witness:
  "canonicalRawQuery ''b=2&a=%7e'' = Inr ''a=~&b=2'' \<and> canonicalRawQuery ''a=~&b=2'' = Inr ''a=~&b=2''"
proof -
  have "canonicalRawQuery ''b=2&a=%7e'' = Inr ''a=~&b=2''" by code_simp
  then show ?thesis using canonical_query_stable by blast
qed

definition sample_url :: url where
  "sample_url = \<lparr>url_Opaque = [], url_User = False, url_Host = [], url_Path = ''/a b'',
     url_RawPath = [], url_RawQuery = ''b=2&a=1''\<rparr>"

definition sample_http :: http_request where
  "sample_http = \<lparr>rq_Method = ''GET'', rq_URL = Some sample_url, rq_Host = ''sts.amazonaws.com'',
     rq_Header = [(''X-Amz-Date'', [''20250101T000000Z''])], rq_ContentLength = 0\<rparr>"

definition sample_sha :: "string \<Rightarrow> string" where
  "sample_sha s = replicate 32 CHR ''h''"
lemma sample_uri: "CanonicalURI (Some sample_http) = Inr ''/a%20b''"
  by code_simp

lemma sample_query: "CanonicalQuery (Some sample_http) = Inr ''a=1&b=2''"
  by code_simp

lemma sample_headers:
  "CanonicalHeaders (Some sample_http) [''host'', ''x-amz-date''] =
     Inr (''host:sts.amazonaws.com'' @ [CHR 0x0A] @ ''x-amz-date:20250101T000000Z'' @ [CHR 0x0A],
          ''host;x-amz-date'')"
  by code_simp

lemma sample_hash_ok: "validPayloadHash ''UNSIGNED-PAYLOAD''"
  by (simp add: validPayloadHash_def)

lemma sample_canonical:
  "\<exists>c. BuildCanonicalRequest sha (Some sample_http) [''host'', ''x-amz-date'']
     ''UNSIGNED-PAYLOAD'' = Inr c"
proof -
  have "rq_Method sample_http = ''GET''" "rq_URL sample_http = Some sample_url"
    by (simp_all add: sample_http_def)
  moreover have "\<not> contains_any ''GET'' bad_method_bytes"
    by (simp add: contains_any_def bad_method_bytes_def)
  ultimately show ?thesis
    by (simp add: BuildCanonicalRequest_def sample_uri sample_query sample_headers sample_hash_ok
        Let_def)
qed

lemma canonical_request_binds_witness:
  "CanonicalURI (Some sample_http) = CanonicalURI (Some (sample_http\<lparr>rq_ContentLength := 5\<rparr>))"
proof -
  let ?r = "sample_http\<lparr>rq_ContentLength := 5\<rparr>"
  let ?b = "\<lambda>r. BuildCanonicalRequest sample_sha (Some r) [''host'', ''x-amz-date''] ''UNSIGNED-PAYLOAD''"
  obtain c where c: "?b sample_http = Inr c" using sample_canonical by blast
  have "CanonicalURI (Some ?r) = Inr ''/a%20b''" "CanonicalQuery (Some ?r) = Inr ''a=1&b=2''"
    "CanonicalHeaders (Some ?r) [''host'', ''x-amz-date''] =
     Inr (''host:sts.amazonaws.com'' @ [CHR 0x0A] @ ''x-amz-date:20250101T000000Z'' @ [CHR 0x0A],
          ''host;x-amz-date'')"
    by code_simp+
  then have "?b ?r = ?b sample_http"
    by (simp add: BuildCanonicalRequest_def sample_uri sample_query sample_headers)
  then have "?b ?r = Inr c" using c by simp
  moreover have "host_one_line sample_http" "host_one_line ?r"
    by (simp_all add: host_one_line_def sample_http_def sample_url_def)
  ultimately show ?thesis
    using canonical_request_binds [of sample_sha sample_http "[''host'', ''x-amz-date'']"
        "''UNSIGNED-PAYLOAD''" c ?r "[''host'', ''x-amz-date'']" "''UNSIGNED-PAYLOAD''" c] c by blast
qed

end
