(* ===== verification/Sigv4_Payload.thy ===== *)
theory Sigv4_Payload
  imports Sigv4_Canonical
begin

text \<open>
  Request bodies, \<^verbatim>\<open>src/internal/sigv4/payload.go\<close>: a body is drained once into memory or, above a
  threshold, into a private spool file; its readers are views of it, and closing it removes the
  file. The caller's \<^verbatim>\<open>io.Reader\<close> is the parameter \<open>read\<close> over a state of its own: it is asked for at
  most \<open>n\<close> bytes and answers with bytes and a condition, or with a count outside the buffer. The
  file system is a map from paths to the bytes an open of the path gives: a file that cannot be opened,
  whatever the reason, has no entry. The outcomes of the calls that can fail are the
  fields of \<open>spool_io\<close>, the removal of a spool whose capture failed included. Sizes are unbounded integers, except for the capacity arithmetic of
  \<^verbatim>\<open>appendBounded\<close>, which wraps at 64 bits. The lock and the concurrent second closer are left out:
  an operation is one step.

  The properties: draining ends for every reader, keeps every byte the reader delivered, respects
  both bounds, and leaves no file behind when it fails, unless the removal of its spool fails too; a reader that serves a string is drained to
  exactly that string or is refused for its size; closing removes the file.
\<close>

section \<open>Options\<close>

record BodyOptions =
  bo_MaxInMemoryBytes :: int
  bo_MaxSpoolBytes :: int

definition defaultBodyMemory :: int where "defaultBodyMemory = 8 * 2 ^ 20"
definition defaultBodySpool :: int where "defaultBodySpool = 64 * 2 ^ 20"

definition DefaultBodyOptions :: BodyOptions where
  "DefaultBodyOptions =
     \<lparr>bo_MaxInMemoryBytes = defaultBodyMemory, bo_MaxSpoolBytes = defaultBodySpool\<rparr>"

definition normalizedBodyOptions :: "BodyOptions \<Rightarrow> BodyOptions" where
  "normalizedBodyOptions o' =
     (let defaults = DefaultBodyOptions;
          o1 = (if bo_MaxInMemoryBytes o' \<le> 0
                then o'\<lparr>bo_MaxInMemoryBytes := bo_MaxInMemoryBytes defaults\<rparr> else o')
      in if bo_MaxSpoolBytes o1 \<le> 0
         then o1\<lparr>bo_MaxSpoolBytes := bo_MaxSpoolBytes defaults\<rparr> else o1)"

section \<open>The environment\<close>

datatype read_err = Read_more | Read_EOF | Read_failed

datatype read_result = Read string read_err | Bad_count

type_synonym 's reader = "'s \<Rightarrow> nat \<Rightarrow> 's \<times> read_result"

type_synonym files = "string \<rightharpoonup> string"

text \<open>
  The outcome of every file operation: the path \<^verbatim>\<open>os.CreateTemp\<close> gives, and whether \<^verbatim>\<open>Chmod\<close>, the
  write of the bytes held so far, \<^verbatim>\<open>Stat\<close> with mode 0600, the write of a chunk at an offset, the
  final \<^verbatim>\<open>Seek\<close>, and the \<^verbatim>\<open>os.Remove\<close> of a capture that failed succeed. \<open>io_short\<close> is how many bytes a
  write that fails has written. The errors of \<^verbatim>\<open>Sync\<close> and of closing the descriptor are ignored by the
  code and change no file.
\<close>

record spool_io =
  io_create :: "files \<Rightarrow> string option"
  io_chmod :: bool
  io_migrate :: bool
  io_stat :: bool
  io_write :: "nat \<Rightarrow> bool"
  io_seek :: bool
  io_remove :: bool
  io_short :: nat

section \<open>Growing the memory buffer\<close>

definition wrap64 :: "int \<Rightarrow> int" where
  "wrap64 i = (i + 2 ^ 63) mod 2 ^ 64 - 2 ^ 63"

text \<open>A Go slice: its bytes and its capacity.\<close>

type_synonym slice = "string \<times> int"

definition appendBounded :: "slice \<Rightarrow> string \<Rightarrow> int \<Rightarrow> slice" where
  "appendBounded dst src mx =
     (let needed = int (length (fst dst)) + int (length src) in
      if needed \<le> snd dst then (fst dst @ src, snd dst)
      else
        (let maxInt = 2 ^ 63 - 1;
             mx = (if mx > maxInt then maxInt else mx);
             next0 = wrap64 (snd dst * 2);
             next1 = (if next0 < needed then needed else next0);
             next2 = (if next1 > mx then mx else next1);
             next3 = (if next2 < needed then needed else next2)
         in (fst dst @ src, next3)))"

section \<open>Draining a reader\<close>

text \<open>
  The state of the loop of \<^verbatim>\<open>NewBody\<close>: \<open>cp_hashed\<close> is what was written to the hash, \<open>cp_spool\<close>
  whether the spool file is open, \<open>cp_path\<close> its path.
\<close>

record capture =
  cp_memory :: slice
  cp_path :: string
  cp_spool :: bool
  cp_size :: int
  cp_hashed :: string
  cp_buffer :: nat
  cp_noProgress :: nat

definition oversized_body :: sig_error where
  "oversized_body = SigError CodeOversizedBody ''request body exceeds limit''"

definition body_read_failed :: sig_error where
  "body_read_failed = SigError CodeBodyReadFailure ''request body read failed''"

definition spool_error :: "string \<Rightarrow> sig_error" where
  "spool_error what = SigError CodeBodyReadFailure (''private body spool '' @ what)"

definition bad_limits :: sig_error where
  "bad_limits = SigError CodeMalformedRequest ''body limits are invalid''"

text \<open>The error of the removal is dropped: where it fails the spool stays.\<close>

definition cleanup :: "spool_io \<Rightarrow> capture \<Rightarrow> files \<Rightarrow> files" where
  "cleanup io st fs = (if cp_path st \<noteq> [] \<and> io_remove io then fs(cp_path st := None) else fs)"

definition append_file :: "files \<Rightarrow> string \<Rightarrow> string \<Rightarrow> files" where
  "append_file fs path d =
     fs(path \<mapsto> (case fs path of None \<Rightarrow> [] | Some old \<Rightarrow> old) @ d)"

text \<open>The first chunk that does not fit into memory: the file is created and takes all bytes.\<close>

definition open_spool ::
  "spool_io \<Rightarrow> files \<Rightarrow> capture \<Rightarrow> string \<Rightarrow> files \<times> capture \<times> sig_error option" where
  "open_spool io fs st d =
     (case io_create io fs of
        None \<Rightarrow> (fs, st, Some (spool_error ''is unavailable''))
      | Some path \<Rightarrow>
          (let st1 = st\<lparr>cp_spool := True, cp_path := path\<rparr>; fs1 = fs(path \<mapsto> []) in
           if \<not> io_chmod io then (fs1, st1, Some (spool_error ''permissions are unavailable''))
           else if fst (cp_memory st) \<noteq> [] \<and> \<not> io_migrate io then
             (append_file fs1 path (take (io_short io) (fst (cp_memory st))), st1,
              Some (spool_error ''write failed''))
           else
             (let fs2 = append_file fs1 path (fst (cp_memory st));
                  st2 = (if fst (cp_memory st) \<noteq> [] then st1\<lparr>cp_memory := ([], 0)\<rparr> else st1) in
              if \<not> io_stat io then (fs2, st2, Some (spool_error ''permissions are unavailable''))
              else if \<not> io_write io (nat (cp_size st)) then
                (append_file fs2 path (take (io_short io) d), st2, Some (spool_error ''write failed''))
              else (append_file fs2 path d, st2, None))))"

definition store_chunk ::
  "spool_io \<Rightarrow> BodyOptions \<Rightarrow> files \<Rightarrow> capture \<Rightarrow> string \<Rightarrow> files \<times> capture \<times> sig_error option" where
  "store_chunk io opts fs st d =
     (if d = [] then (fs, st, None)
      else if cp_size st + int (length d) > bo_MaxSpoolBytes opts then (fs, st, Some oversized_body)
      else
        (let st1 = st\<lparr>cp_hashed := cp_hashed st @ d\<rparr>;
             (fs', st2, e) =
               (if \<not> cp_spool st1 \<and> cp_size st1 + int (length d) \<le> bo_MaxInMemoryBytes opts then
                  (fs, st1\<lparr>cp_memory := appendBounded (cp_memory st1) d (bo_MaxInMemoryBytes opts)\<rparr>, None)
                else if \<not> cp_spool st1 then open_spool io fs st1 d
                else if \<not> io_write io (nat (cp_size st1)) then
                  (append_file fs (cp_path st1) (take (io_short io) d), st1,
                   Some (spool_error ''write failed''))
                else (append_file fs (cp_path st1) d, st1, None))
         in (fs', st2\<lparr>cp_size := cp_size st2 + int (length d)\<rparr>, e)))"

text \<open>The part of the buffer the next \<^verbatim>\<open>Read\<close> may fill.\<close>

definition next_buffer :: "BodyOptions \<Rightarrow> capture \<Rightarrow> nat" where
  "next_buffer opts st =
     (let remaining = bo_MaxSpoolBytes opts - cp_size st in
      if remaining = 0 then 1
      else if int (cp_buffer st) > remaining then nat remaining
      else cp_buffer st)"

lemma open_spool_size: "open_spool io fs st d = (fs', st', e) \<Longrightarrow>
   cp_size st' = cp_size st \<and> cp_buffer st' = cp_buffer st \<and> cp_noProgress st' = cp_noProgress st \<and>
   cp_hashed st' = cp_hashed st"
  by (auto simp: open_spool_def Let_def split: option.splits if_splits)

lemma store_chunk_size:
  "store_chunk io opts fs st d = (fs', st', None) \<Longrightarrow>
     cp_size st' = cp_size st + int (length d) \<and> (d \<noteq> [] \<longrightarrow> cp_size st' \<le> bo_MaxSpoolBytes opts) \<and>
     cp_noProgress st' = cp_noProgress st"
  by (auto simp: store_chunk_def Let_def split: if_splits prod.splits dest: open_spool_size)

function capture_loop ::
  "'s reader \<Rightarrow> spool_io \<Rightarrow> BodyOptions \<Rightarrow> 's \<Rightarrow> files \<Rightarrow> capture \<Rightarrow> (sig_error + capture) \<times> files" where
  "capture_loop read io opts rd fs st =
     (if bo_MaxSpoolBytes opts - cp_size st < 0 then (Inl oversized_body, cleanup io st fs)
      else
        (let st0 = st\<lparr>cp_buffer := next_buffer opts st\<rparr> in
         case read rd (cp_buffer st0) of
           (rd', Bad_count) \<Rightarrow> (Inl body_read_failed, cleanup io st0 fs)
         | (rd', Read d err) \<Rightarrow>
             if length d > cp_buffer st0 then (Inl body_read_failed, cleanup io st0 fs)
             else
               (case store_chunk io opts fs st0 d of
                  (fs', st', Some e) \<Rightarrow> (Inl e, cleanup io st' fs')
                | (fs', st', None) \<Rightarrow>
                    (case err of
                       Read_EOF \<Rightarrow> (Inr st', fs')
                     | Read_failed \<Rightarrow> (Inl body_read_failed, cleanup io st' fs')
                     | Read_more \<Rightarrow>
                         if d = [] then
                           (if cp_noProgress st' + 1 \<ge> 100 then (Inl body_read_failed, cleanup io st' fs')
                            else capture_loop read io opts rd' fs'
                                   (st'\<lparr>cp_noProgress := cp_noProgress st' + 1\<rparr>))
                         else capture_loop read io opts rd' fs' (st'\<lparr>cp_noProgress := 0\<rparr>)))))"
  by pat_completeness auto

text \<open>Every turn stores a byte, or is one of at most a hundred turns in a row that do not.\<close>

termination
proof (relation "inv_image (less_than <*lex*> less_than)
    (\<lambda>(read, io, opts, rd, fs, st).
       (nat (bo_MaxSpoolBytes opts + 1 - cp_size st), 100 - cp_noProgress st))")
qed (auto simp: Let_def dest!: store_chunk_size [OF sym])

declare capture_loop.simps [simp del]

section \<open>Bodies\<close>

text \<open>
  A captured body. \<open>bd_path\<close> is empty for a body in memory; \<open>bd_readers\<close> counts the open file
  readers; \<open>bd_closeErr\<close> is the result the first \<^verbatim>\<open>Close\<close> left for later ones.
\<close>

record Body =
  bd_memory :: string
  bd_path :: string
  bd_size :: int
  bd_hash :: string
  bd_readers :: nat
  bd_closed :: bool
  bd_closeErr :: go_error

definition initial_capture :: capture where
  "initial_capture = \<lparr>cp_memory = ([], 0), cp_path = [], cp_spool = False, cp_size = 0,
     cp_hashed = [], cp_buffer = 32 * 1024, cp_noProgress = 0\<rparr>"

definition body_of_capture :: "(string \<Rightarrow> string) \<Rightarrow> capture \<Rightarrow> Body" where
  "body_of_capture sha st = \<lparr>bd_memory = fst (cp_memory st), bd_path = cp_path st,
     bd_size = cp_size st, bd_hash = sha (cp_hashed st), bd_readers = 0, bd_closed = False,
     bd_closeErr = None\<rparr>"

text \<open>\<^verbatim>\<open>http.NoBody\<close>, for a reader that is nil or absent: the end of the input at once.\<close>

definition or_noBody :: "'s reader \<Rightarrow> 's option reader" where
  "or_noBody read rd n =
     (case rd of
        None \<Rightarrow> (None, Read [] Read_EOF)
      | Some s \<Rightarrow> (case read s n of (s', res) \<Rightarrow> (Some s', res)))"

definition NewBody ::
  "(string \<Rightarrow> string) \<Rightarrow> 's reader \<Rightarrow> spool_io \<Rightarrow> BodyOptions \<Rightarrow> 's option \<Rightarrow> files \<Rightarrow>
     (sig_error + Body) \<times> files" where
  "NewBody sha read io options rd fs =
     (if bo_MaxInMemoryBytes options < 0 \<or> bo_MaxSpoolBytes options < 0 then (Inl bad_limits, fs)
      else
        (let opts = normalizedBodyOptions options in
         if bo_MaxInMemoryBytes opts \<le> 0 \<or> bo_MaxSpoolBytes opts \<le> 0
            \<or> bo_MaxInMemoryBytes opts > bo_MaxSpoolBytes opts then (Inl bad_limits, fs)
         else
           (case capture_loop (or_noBody read) io opts rd fs initial_capture of
              (Inl e, fs') \<Rightarrow> (Inl e, fs')
            | (Inr st, fs') \<Rightarrow>
                if cp_spool st \<and> \<not> io_seek io then
                  (Inl (spool_error ''is unavailable''), cleanup io st fs')
                else (Inr (body_of_capture sha st), fs'))))"

definition Body_Size :: "Body option \<Rightarrow> int" where
  "Body_Size b = (case b of None \<Rightarrow> 0 | Some b \<Rightarrow> bd_size b)"

definition Body_SHA256 :: "Body option \<Rightarrow> string" where
  "Body_SHA256 b = (case b of None \<Rightarrow> [] | Some b \<Rightarrow> hex_encode (bd_hash b))"

definition Body_SpoolPath :: "Body option \<Rightarrow> string" where
  "Body_SpoolPath b = (case b of None \<Rightarrow> [] | Some b \<Rightarrow> bd_path b)"

text \<open>A reader of a body: a view of its memory with an offset, or an open descriptor of its file.\<close>

record bytesReader =
  rr_data :: string
  rr_off :: nat

datatype body_reader = Bytes_reader bytesReader | File_reader string

text \<open>\<^verbatim>\<open>os.Open\<close> of the spool fails, for whatever reason, exactly where the path has no entry.\<close>

definition Body_Reader :: "files \<Rightarrow> Body \<Rightarrow> string + (body_reader \<times> Body)" where
  "Body_Reader fs b =
     (if bd_closed b then Inl ''body is closed''
      else if bd_path b \<noteq> [] then
        (case fs (bd_path b) of
           None \<Rightarrow> Inl ''open failed''
         | Some _ \<Rightarrow> Inr (File_reader (bd_path b), b\<lparr>bd_readers := bd_readers b + 1\<rparr>))
      else Inr (Bytes_reader \<lparr>rr_data = bd_memory b, rr_off = 0\<rparr>, b))"

text \<open>\<^verbatim>\<open>Read\<close> of a view: the bytes copied into a buffer of length \<open>n\<close>, or the error.\<close>

definition bytesReader_Read :: "bool \<Rightarrow> bytesReader \<Rightarrow> nat \<Rightarrow> bytesReader \<times> string \<times> go_error" where
  "bytesReader_Read closed r n =
     (if closed then (r, [], Some ''body is closed'')
      else if rr_off r \<ge> length (rr_data r) then (r, [], Some ''EOF'')
      else
        (let d = take n (drop (rr_off r) (rr_data r))
         in (r\<lparr>rr_off := rr_off r + length d\<rparr>, d, None)))"

datatype whence = SeekStart | SeekCurrent | SeekEnd | SeekOther

definition bytesReader_Seek :: "bool \<Rightarrow> bytesReader \<Rightarrow> int \<Rightarrow> whence \<Rightarrow> bytesReader \<times> int \<times> go_error" where
  "bytesReader_Seek closed r offset wh =
     (if closed then (r, 0, Some ''body is closed'')
      else if wh = SeekOther then (r, 0, Some ''body seek mode is invalid'')
      else
        (let position =
               (case wh of
                  SeekStart \<Rightarrow> offset
                | SeekCurrent \<Rightarrow> int (rr_off r) + offset
                | _ \<Rightarrow> int (length (rr_data r)) + offset) in
         if position < 0 \<or> position > int (length (rr_data r)) then
           (r, 0, Some ''body seek offset is invalid'')
         else (r\<lparr>rr_off := nat position\<rparr>, position, None)))"

text \<open>
  \<^verbatim>\<open>Close\<close>: the readers are closed, the file is removed (a missing file is no error) and the memory
  is cleared. \<open>reader_err\<close> and \<open>remove_err\<close> are the first error of closing the readers and the
  error of \<^verbatim>\<open>os.Remove\<close> other than a missing file; an error keeps the file.
\<close>

definition Body_Close ::
  "go_error \<Rightarrow> go_error \<Rightarrow> files \<Rightarrow> Body \<Rightarrow> go_error \<times> Body \<times> files" where
  "Body_Close reader_err remove_err fs b =
     (if bd_closed b then (bd_closeErr b, b, fs)
      else
        (let err = (if bd_readers b > 0 then reader_err else None);
             fs' = (if bd_path b \<noteq> [] \<and> remove_err = None then fs(bd_path b := None) else fs);
             err' = (if bd_path b \<noteq> [] \<and> err = None then remove_err else err)
         in (err', b\<lparr>bd_closed := True, bd_readers := 0, bd_memory := [], bd_closeErr := err'\<rparr>, fs')))"

section \<open>Requests with bodies\<close>

text \<open>
  The body of a request is nothing, the caller's reader, or a view of a captured body (an error
  reader where no view could be opened); \<open>br_captured\<close> is the body recorded in the request context.
\<close>

datatype 's req_body = No_body | Reader_body 's | View_body body_reader | Error_body string

record 's body_request = http_request +
  br_Body :: "'s req_body"
  br_captured :: "Body option"

definition newReader :: "files \<Rightarrow> Body \<Rightarrow> 's req_body \<times> Body" where
  "newReader fs b =
     (case Body_Reader fs b of
        Inl e \<Rightarrow> (Error_body e, b)
      | Inr (r, b') \<Rightarrow> (View_body r, b'))"

text \<open>Closing a view releases its descriptor.\<close>

definition close_view :: "'s req_body \<Rightarrow> Body \<Rightarrow> Body" where
  "close_view v b =
     (case v of View_body (File_reader _) \<Rightarrow> b\<lparr>bd_readers := bd_readers b - 1\<rparr> | _ \<Rightarrow> b)"

definition setRequestBody :: "files \<Rightarrow> 's body_request \<Rightarrow> Body \<Rightarrow> Body \<times> 's body_request" where
  "setRequestBody fs req b =
     (case newReader fs b of (v, b') \<Rightarrow>
        (b', req\<lparr>rq_ContentLength := bd_size b, br_captured := Some b', br_Body := v\<rparr>))"

text \<open>
  The body in the result is the one recorded in the request. A request without a recorded body
  has no view of one.
\<close>

definition CaptureRequestBody ::
  "(string \<Rightarrow> string) \<Rightarrow> 's reader \<Rightarrow> spool_io \<Rightarrow> BodyOptions \<Rightarrow> files \<Rightarrow>
     's body_request \<Rightarrow> (sig_error + Body) \<times> 's body_request \<times> files" where
  "CaptureRequestBody sha read io options fs req =
     (case br_captured req of
        Some existing \<Rightarrow>
          (let b0 = close_view (br_Body req) existing; req0 = req\<lparr>br_Body := No_body\<rparr> in
           case Body_Reader fs b0 of
             Inl e \<Rightarrow> (Inl (SigError CodeBodyReadFailure ''request body is unavailable''),
                       req0\<lparr>br_captured := Some b0\<rparr>, fs)
           | Inr _ \<Rightarrow>
               (case newReader fs b0 of (v, b1) \<Rightarrow>
                  (Inr b1, req0\<lparr>br_Body := v, br_captured := Some b1\<rparr>, fs)))
      | None \<Rightarrow>
          if bo_MaxInMemoryBytes options < 0 \<or> bo_MaxSpoolBytes options < 0 then
            (Inl bad_limits, req, fs)
          else
            (let opts = normalizedBodyOptions options; originalContentLength = rq_ContentLength req in
             if rq_ContentLength req > bo_MaxSpoolBytes opts then
               (Inl oversized_body, req\<lparr>br_Body := No_body\<rparr>, fs)
             else
               (let rd = (case br_Body req of Reader_body r \<Rightarrow> Some r | _ \<Rightarrow> None);
                    req1 = req\<lparr>br_Body := No_body\<rparr> in
                case NewBody sha read io opts rd fs of
                  (Inl e, fs') \<Rightarrow> (Inl e, req1, fs')
                | (Inr b, fs') \<Rightarrow>
                    (case setRequestBody fs' req1 b of (b', req2) \<Rightarrow>
                       (Inr b',
                        (if originalContentLength < 0 then req2\<lparr>rq_ContentLength := - 1\<rparr> else req2),
                        fs')))))"

definition CloseBody ::
  "go_error \<Rightarrow> go_error \<Rightarrow> files \<Rightarrow> 's body_request \<Rightarrow> go_error \<times> 's body_request \<times> files" where
  "CloseBody reader_err remove_err fs req =
     (case br_captured req of
        None \<Rightarrow> (None, req, fs)
      | Some b \<Rightarrow>
          (case Body_Close reader_err remove_err fs b of (e, b', fs') \<Rightarrow>
             (e, req\<lparr>br_captured := Some b'\<rparr>, fs')))"

definition closeRequestBody ::
  "go_error \<Rightarrow> go_error \<Rightarrow> files \<Rightarrow> 's body_request \<Rightarrow> 's body_request \<times> files" where
  "closeRequestBody reader_err remove_err fs req =
     (let req1 = req\<lparr>br_captured := map_option (close_view (br_Body req)) (br_captured req),
                     br_Body := No_body\<rparr>
      in snd (CloseBody reader_err remove_err fs req1))"

section \<open>The memory buffer\<close>

lemma wrap64_small: "- (2 ^ 63) \<le> i \<Longrightarrow> i < 2 ^ 63 \<Longrightarrow> wrap64 i = i"
  by (simp add: wrap64_def)

lemma appendBounded_bytes [simp]: "fst (appendBounded dst src mx) = fst dst @ src"
  by (simp add: appendBounded_def Let_def)

text \<open>
  The memory buffer grows within its bound: appending keeps the bytes, leaves room for
  them, and, when the bytes fit into the bound, never allocates more than the bound (or the
  capacity there was), even where the doubling of the capacity wraps around.
\<close>

theorem append_bounded_capacity:
  assumes "int (length (fst dst)) + int (length src) \<le> mx" and "snd dst \<le> mx"
    and "mx < 2 ^ 63"
  shows "fst (appendBounded dst src mx) = fst dst @ src \<and>
    int (length (fst (appendBounded dst src mx))) \<le> snd (appendBounded dst src mx) \<and>
    snd (appendBounded dst src mx) \<le> mx"
  using assms by (auto simp: appendBounded_def Let_def)

section \<open>Draining\<close>

text \<open>
  The documented behaviour of \<^verbatim>\<open>os.CreateTemp\<close> (\<^verbatim>\<open>O_EXCL\<close>): the path is new, and not empty.
\<close>

definition fresh_paths :: "spool_io \<Rightarrow> bool" where
  "fresh_paths io \<longleftrightarrow> (\<forall>fs p. io_create io fs = Some p \<longrightarrow> p \<noteq> [] \<and> fs p = None)"

text \<open>
  The invariant of the loop, relative to the files \<open>fs0\<close> there were before: all bytes are in memory,
  or all are in the one file that was added.
\<close>

definition capture_inv :: "BodyOptions \<Rightarrow> files \<Rightarrow> files \<Rightarrow> capture \<Rightarrow> bool" where
  "capture_inv opts fs0 fs st \<longleftrightarrow>
     cp_size st = int (length (cp_hashed st)) \<and> cp_size st \<le> bo_MaxSpoolBytes opts \<and>
     (if cp_path st = []
      then \<not> cp_spool st \<and> fs = fs0 \<and> fst (cp_memory st) = cp_hashed st \<and>
           cp_size st \<le> bo_MaxInMemoryBytes opts
      else cp_spool st \<and> fs0 (cp_path st) = None \<and> fs = fs0(cp_path st \<mapsto> cp_hashed st) \<and>
           fst (cp_memory st) = [] \<and> bo_MaxInMemoryBytes opts < cp_size st)"

lemma capture_inv_update [simp]:
  "capture_inv opts fs0 fs (st\<lparr>cp_buffer := b\<rparr>) = capture_inv opts fs0 fs st"
  "capture_inv opts fs0 fs (st\<lparr>cp_noProgress := n\<rparr>) = capture_inv opts fs0 fs st"
  by (simp_all add: capture_inv_def)

lemma cleanup_update [simp]: "cleanup io (st\<lparr>cp_buffer := b\<rparr>) fs = cleanup io st fs"
  "cleanup io (st\<lparr>cp_size := n\<rparr>) fs = cleanup io st fs" "cleanup io (st\<lparr>cp_hashed := h\<rparr>) fs = cleanup io st fs"
  by (simp_all add: cleanup_def)

text \<open>
  The files after a failure, relative to the files \<open>fs\<close> before: the same, or, only where the removal
  failed, one new file more.
\<close>

definition spool_left :: "bool \<Rightarrow> files \<Rightarrow> files \<Rightarrow> bool" where
  "spool_left removed fs fs' \<longleftrightarrow>
     fs' = fs \<or> \<not> removed \<and> (\<exists>path content. path \<noteq> [] \<and> fs path = None \<and> fs' = fs(path \<mapsto> content))"

lemma spool_left_refl [simp]: "spool_left removed fs fs"
  by (simp add: spool_left_def)

lemma spool_left_removed [simp]: "spool_left True fs fs' \<longleftrightarrow> fs' = fs"
  by (simp add: spool_left_def)

lemma cleanup_spool:
  "cp_path st \<noteq> [] \<Longrightarrow> fs (cp_path st) = None \<Longrightarrow> spool_left (io_remove io) fs (cleanup io st (fs(cp_path st \<mapsto> c)))"
  by (auto simp: cleanup_def spool_left_def)

lemma cleanup_inv: "capture_inv opts fs0 fs st \<Longrightarrow> spool_left (io_remove io) fs0 (cleanup io st fs)"
  by (cases "cp_path st = []") (auto simp: capture_inv_def cleanup_spool, simp add: cleanup_def)

lemma append_file_upd [simp]: "append_file (fs(p \<mapsto> a)) p d = fs(p \<mapsto> a @ d)"
  by (simp add: append_file_def)

lemma open_spool_result:
  assumes "fresh_paths io" and "open_spool io fs st d = (fs', st', e)" and "cp_path st = []"
  shows "(e \<noteq> None \<longrightarrow> spool_left (io_remove io) fs (cleanup io st' fs')) \<and>
    (e = None \<longrightarrow> cp_spool st' \<and> cp_path st' \<noteq> [] \<and> fs (cp_path st') = None \<and>
       fs' = fs(cp_path st' \<mapsto> fst (cp_memory st) @ d) \<and> fst (cp_memory st') = [])"
  using assms by (auto simp: open_spool_def Let_def fresh_paths_def cleanup_def spool_left_def fun_upd_idem
      split: option.splits if_splits)

lemma store_chunk_inv:
  assumes "fresh_paths io" "capture_inv opts fs0 fs st" "store_chunk io opts fs st d = (fs', st', e)"
  shows "(e \<noteq> None \<longrightarrow> spool_left (io_remove io) fs0 (cleanup io st' fs')) \<and>
    (e = None \<longrightarrow> capture_inv opts fs0 fs' st' \<and> cp_hashed st' = cp_hashed st @ d)"
proof (cases "d = [] \<or> cp_size st + int (length d) > bo_MaxSpoolBytes opts")
  case True
  with assms show ?thesis by (auto simp: store_chunk_def cleanup_inv split: if_splits)
next
  case False
  let ?st1 = "st\<lparr>cp_hashed := cp_hashed st @ d\<rparr>"
  have size: "cp_size st + int (length d) = int (length (cp_hashed st @ d))"
    using assms(2) by (simp add: capture_inv_def)
  consider (memory) "cp_path st = []" "cp_size st + int (length d) \<le> bo_MaxInMemoryBytes opts"
    | (first) "cp_path st = []" "\<not> cp_size st + int (length d) \<le> bo_MaxInMemoryBytes opts"
    | (spool) "cp_path st \<noteq> []" by blast
  then show ?thesis
  proof cases
    case memory
    with False assms(2,3) show ?thesis
      by (auto simp: store_chunk_def capture_inv_def Let_def)
  next
    case first
    obtain fs1 st1 e1 where o: "open_spool io fs ?st1 d = (fs1, st1, e1)" by (cases "open_spool io fs ?st1 d")
    then have "fs' = fs1" "st' = st1\<lparr>cp_size := cp_size st1 + int (length d)\<rparr>" "e = e1"
      using first False assms(2,3) by (auto simp: store_chunk_def capture_inv_def Let_def)
    moreover have "cp_size st1 = cp_size st" "cp_hashed st1 = cp_hashed st @ d"
      using open_spool_size [OF o] by simp_all
    ultimately show ?thesis
      using open_spool_result [OF assms(1) o] first False assms(2)
      by (auto simp: capture_inv_def)
  next
    case spool
    with False assms(2,3) show ?thesis
      by (auto simp: store_chunk_def capture_inv_def Let_def cleanup_spool split: if_splits)
  qed
qed
text \<open>
  What a reader delivered: the bytes of a sequence of \<^verbatim>\<open>Read\<close> calls, each within its buffer, the
  last of which reported the end of the input.
\<close>

inductive delivered :: "'s reader \<Rightarrow> 's \<Rightarrow> string \<Rightarrow> bool" for read where
  delivered_eof: "read rd n = (rd', Read d Read_EOF) \<Longrightarrow> length d \<le> n \<Longrightarrow> delivered read rd d"
| delivered_more: "read rd n = (rd', Read d Read_more) \<Longrightarrow> length d \<le> n \<Longrightarrow>
     delivered read rd' ds \<Longrightarrow> delivered read rd (d @ ds)"

lemma capture_loop_correct:
  "capture_loop read io opts rd fs st = (res, fs') \<Longrightarrow> fresh_paths io \<Longrightarrow>
     capture_inv opts fs0 fs st \<Longrightarrow>
     (case res of
        Inl e \<Rightarrow> spool_left (io_remove io) fs0 fs'
      | Inr st' \<Rightarrow> capture_inv opts fs0 fs' st' \<and>
          (\<exists>ds. delivered read rd ds \<and> cp_hashed st' = cp_hashed st @ ds))"
proof (induction read io opts rd fs st arbitrary: res fs' rule: capture_loop.induct)
  case (1 read io opts rd fs st)
  let ?st0 = "st\<lparr>cp_buffer := next_buffer opts st\<rparr>"
  note clean = cleanup_inv [OF "1.prems"(3), of io]
  have le: "\<not> bo_MaxSpoolBytes opts - cp_size st < 0" using "1.prems"(3) by (simp add: capture_inv_def)
  obtain rd' r where r: "read rd (cp_buffer ?st0) = (rd', r)" by (cases "read rd (cp_buffer ?st0)")
  show ?case
  proof (cases r)
    case Bad_count
    with "1.prems"(1) r le clean show ?thesis
      by (subst (asm) capture_loop.simps) (auto simp: Let_def)
  next
    case (Read d err)
    obtain fs1 st1 e1 where s: "store_chunk io opts fs ?st0 d = (fs1, st1, e1)"
      by (cases "store_chunk io opts fs ?st0 d")
    have inv: "e1 \<noteq> None \<Longrightarrow> spool_left (io_remove io) fs0 (cleanup io st1 fs1)"
      "e1 = None \<Longrightarrow> capture_inv opts fs0 fs1 st1 \<and> cp_hashed st1 = cp_hashed st @ d"
      using store_chunk_inv [OF "1.prems"(2) _ s, of fs0] "1.prems"(3) by simp_all
    consider (stop) e where "length d > cp_buffer ?st0 \<or> e1 \<noteq> None \<or> err = Read_failed \<or>
        (err = Read_more \<and> d = [] \<and> cp_noProgress st1 + 1 \<ge> 100)" "res = Inl e" "spool_left (io_remove io) fs0 fs'"
      | (eof) "length d \<le> cp_buffer ?st0" "e1 = None" "err = Read_EOF" "res = Inr st1" "fs' = fs1"
      | (empty) "length d \<le> cp_buffer ?st0" "e1 = None" "err = Read_more" "d = []"
          "\<not> cp_noProgress st1 + 1 \<ge> 100"
          "capture_loop read io opts rd' fs1 (st1\<lparr>cp_noProgress := cp_noProgress st1 + 1\<rparr>) = (res, fs')"
      | (more) "length d \<le> cp_buffer ?st0" "e1 = None" "err = Read_more" "d \<noteq> []"
          "capture_loop read io opts rd' fs1 (st1\<lparr>cp_noProgress := 0\<rparr>) = (res, fs')"
      using "1.prems"(1) r le clean inv Read s cleanup_inv [of opts fs0 fs1 st1 io]
      by (subst (asm) capture_loop.simps) (auto simp: Let_def split: option.splits read_err.splits if_splits)
    then show ?thesis
    proof cases
      case stop
      then show ?thesis by simp
    next
      case eof
      then show ?thesis using inv(2) r Read delivered_eof [of read rd _ rd' d] by auto
    next
      case empty
      show ?thesis
        using "1.IH"(1) [OF le refl r [symmetric] Read _ s [symmetric] refl _ _ _ _ empty(6) "1.prems"(2)]
          empty inv(2) delivered_more [of read rd _ rd' d] r Read
        by (auto split: sum.splits)
    next
      case more
      show ?thesis
        using "1.IH"(2) [OF le refl r [symmetric] Read _ s [symmetric] refl _ _ _ more(5) "1.prems"(2)]
          more inv(2) delivered_more [of read rd _ rd' d] r Read
        by (auto split: sum.splits)
    qed
  qed
qed

text \<open>The bytes of a body.\<close>

definition body_content :: "files \<Rightarrow> Body \<Rightarrow> string option" where
  "body_content fs b = (if bd_path b = [] then Some (bd_memory b) else fs (bd_path b))"

text \<open>A captured body relative to the files before: what it holds, where, and that nothing else changed.\<close>

definition body_holds ::
  "(string \<Rightarrow> string) \<Rightarrow> BodyOptions \<Rightarrow> files \<Rightarrow> files \<Rightarrow> Body \<Rightarrow> string \<Rightarrow> bool" where
  "body_holds sha opts fs fs' b data \<longleftrightarrow>
     body_content fs' b = Some data \<and> bd_hash b = sha data \<and> bd_size b = int (length data) \<and>
     bd_size b \<le> bo_MaxSpoolBytes opts \<and>
     (bd_path b = [] \<longleftrightarrow> bd_size b \<le> bo_MaxInMemoryBytes opts) \<and>
     fs = (if bd_path b = [] then fs' else fs'(bd_path b := None)) \<and> \<not> bd_closed b \<and> bd_readers b = 0"

lemma initial_capture_inv:
  "0 \<le> bo_MaxInMemoryBytes opts \<Longrightarrow> 0 \<le> bo_MaxSpoolBytes opts \<Longrightarrow>
     capture_inv opts fs fs initial_capture"
  by (simp add: capture_inv_def initial_capture_def)

lemma body_of_capture_holds:
  "capture_inv opts fs fs' st \<Longrightarrow> body_holds sha opts fs fs' (body_of_capture sha st) (cp_hashed st)"
  by (auto simp: capture_inv_def body_holds_def body_of_capture_def body_content_def fun_upd_idem
      split: if_splits)

lemma NewBody_correct:
  assumes "fresh_paths io"
  shows "case NewBody sha read io options rd fs of
      (Inl e, fs') \<Rightarrow> spool_left (io_remove io) fs fs'
    | (Inr b, fs') \<Rightarrow> \<exists>data. delivered (or_noBody read) rd data \<and>
        body_holds sha (normalizedBodyOptions options) fs fs' b data"
proof -
  let ?opts = "normalizedBodyOptions options"
  show ?thesis
  proof (cases "bo_MaxInMemoryBytes options < 0 \<or> bo_MaxSpoolBytes options < 0 \<or>
      bo_MaxInMemoryBytes ?opts \<le> 0 \<or> bo_MaxSpoolBytes ?opts \<le> 0 \<or>
      bo_MaxInMemoryBytes ?opts > bo_MaxSpoolBytes ?opts")
    case True
    then show ?thesis by (auto simp: NewBody_def Let_def)
  next
    case False
    obtain res fs' where l: "capture_loop (or_noBody read) io ?opts rd fs initial_capture = (res, fs')"
      by (cases "capture_loop (or_noBody read) io ?opts rd fs initial_capture")
    have inv: "capture_inv ?opts fs fs initial_capture" using False by (intro initial_capture_inv) auto
    have [simp]: "cp_hashed initial_capture = []" by (simp add: initial_capture_def)
    from capture_loop_correct [OF l assms inv] show ?thesis
      using False l cleanup_inv [of ?opts fs fs' _ io] body_of_capture_holds [of ?opts fs fs' _ sha]
      by (cases res) (auto simp: NewBody_def Let_def)
  qed
qed

text \<open>
  Property C26. Capturing a body loses nothing and leaks nothing: for every reader, even one that
  misbehaves or never makes progress, \<^verbatim>\<open>NewBody\<close> returns. On success the body holds exactly the
  bytes the reader delivered up to the end of its input, with their hash and size, within the limit,
  in memory exactly when they fit there, and no other file has changed. On any failure the files are
  those there were before, except that where \<^verbatim>\<open>os.Remove\<close> fails as well (its error is ignored) one
  file that was not there before, the partial spool, may stay; no file that was there is touched.
\<close>

theorem new_body_faithful:
  assumes "fresh_paths io"
  shows "case NewBody sha read io options rd fs of
      (Inl e, fs') \<Rightarrow> spool_left (io_remove io) fs fs'
    | (Inr b, fs') \<Rightarrow> \<exists>data. delivered (or_noBody read) rd data \<and>
        body_holds sha (normalizedBodyOptions options) fs fs' b data"
  using assms by (rule NewBody_correct)

section \<open>A reader that serves a string\<close>

text \<open>The bytes in order, as many as the buffer takes, then the end: \<^verbatim>\<open>strings.NewReader\<close>.\<close>

definition string_reader :: "string reader" where
  "string_reader s n = (if s = [] then ([], Read [] Read_EOF) else (drop n s, Read (take n s) Read_more))"

definition io_ok :: "spool_io \<Rightarrow> files \<Rightarrow> bool" where
  "io_ok io fs \<longleftrightarrow> io_create io fs \<noteq> None \<and> io_chmod io \<and> io_migrate io \<and> io_stat io \<and>
     (\<forall>n. io_write io n) \<and> io_seek io \<and> io_remove io"

lemma store_chunk_ok:
  "io_ok io fs0 \<Longrightarrow> capture_inv opts fs0 fs st \<Longrightarrow> snd (snd (store_chunk io opts fs st d)) =
     (if d \<noteq> [] \<and> cp_size st + int (length d) > bo_MaxSpoolBytes opts then Some oversized_body else None)"
  by (auto simp: store_chunk_def open_spool_def io_ok_def Let_def capture_inv_def split: if_split_asm)

lemma store_chunk_buffer: "store_chunk io opts fs st d = (fs', st', e) \<Longrightarrow> cp_buffer st' = cp_buffer st"
  by (auto simp: store_chunk_def Let_def split: if_splits prod.splits dest: open_spool_size)

lemma delivered_string: "delivered (or_noBody string_reader) rd data \<Longrightarrow> rd = Some s \<Longrightarrow> data = s"
proof (induction arbitrary: s rule: delivered.induct)
  case (delivered_eof rd n rd' d)
  then show ?case by (auto simp: or_noBody_def string_reader_def split: if_splits)
next
  case (delivered_more rd n rd' d ds)
  then show ?case by (auto simp: or_noBody_def string_reader_def split: if_splits)
qed

lemma next_buffer_pos:
  "cp_size st \<le> bo_MaxSpoolBytes opts \<Longrightarrow> 1 \<le> cp_buffer st \<Longrightarrow> 1 \<le> next_buffer opts st"
  by (auto simp: next_buffer_def Let_def)

lemma capture_string:
  assumes "io_ok io fs0" "fresh_paths io"
  shows "capture_inv opts fs0 fs st \<Longrightarrow> 1 \<le> cp_buffer st \<Longrightarrow>
    capture_loop (or_noBody string_reader) io opts (Some s) fs st = (res, fs') \<Longrightarrow>
    (if cp_size st + int (length s) \<le> bo_MaxSpoolBytes opts then \<not> isl res else res = Inl oversized_body)"
proof (induction s arbitrary: fs st rule: measure_induct_rule [where f = length])
  case (less s)
  let ?n = "next_buffer opts st" let ?st0 = "st\<lparr>cp_buffer := ?n\<rparr>" let ?d = "take ?n s"
  have size: "cp_size st \<le> bo_MaxSpoolBytes opts" using less.prems(1) by (simp add: capture_inv_def)
  have n: "1 \<le> ?n" using next_buffer_pos [OF size less.prems(2)] .
  obtain fs1 st1 e1 where s: "store_chunk io opts fs ?st0 ?d = (fs1, st1, e1)"
    by (cases "store_chunk io opts fs ?st0 ?d")
  have e1: "e1 = (if ?d \<noteq> [] \<and> cp_size st + int (length ?d) > bo_MaxSpoolBytes opts
      then Some oversized_body else None)"
    using store_chunk_ok [OF assms(1), of opts fs ?st0 ?d] s less.prems(1) by simp
  show ?case
  proof (cases "s = []")
    case True
    then show ?thesis using less.prems(3) size s
      by (subst (asm) capture_loop.simps)
        (auto simp: Let_def or_noBody_def string_reader_def store_chunk_def)
  next
    case False
    then have d: "?d \<noteq> []" using n by auto
    show ?thesis
    proof (cases e1)
      case (Some e)
      then have "e = oversized_body" "cp_size st + int (length ?d) > bo_MaxSpoolBytes opts"
        using e1 by (auto split: if_splits)
      moreover have "res = Inl e" using less.prems(3) False size s Some
        by (subst (asm) capture_loop.simps) (auto simp: Let_def or_noBody_def string_reader_def)
      ultimately show ?thesis using False by auto
    next
      case None
      have inv: "capture_inv opts fs0 fs1 st1"
        using store_chunk_inv [OF assms(2) _ s, of fs0] less.prems(1) None by simp
      have "capture_loop (or_noBody string_reader) io opts (Some (drop ?n s)) fs1
          (st1\<lparr>cp_noProgress := 0\<rparr>) = (res, fs')"
        using less.prems(3) False size s None d n
        by (subst (asm) capture_loop.simps) (auto simp: Let_def or_noBody_def string_reader_def split: if_splits)
      moreover have "cp_buffer st1 = ?n" using store_chunk_buffer [OF s] by simp
      moreover have "cp_size st1 = cp_size st + int (length ?d)"
        using store_chunk_size [of io opts fs ?st0 ?d] s None by simp
      ultimately show ?thesis
        using less.IH [of "drop ?n s" fs1 "st1\<lparr>cp_noProgress := 0\<rparr>"] inv n False
        by (simp add: min_def split: if_splits)
    qed
  qed
qed
lemma normalizedBodyOptions_id:
  "0 < bo_MaxInMemoryBytes o' \<Longrightarrow> 0 < bo_MaxSpoolBytes o' \<Longrightarrow> normalizedBodyOptions o' = o'"
  by (simp add: normalizedBodyOptions_def Let_def)

lemma NewBody_string:
  assumes "io_ok io fs" "fresh_paths io" "0 < bo_MaxInMemoryBytes options"
    "bo_MaxInMemoryBytes options \<le> bo_MaxSpoolBytes options"
  shows "if int (length s) \<le> bo_MaxSpoolBytes options
    then \<exists>b fs'. NewBody sha string_reader io options (Some s) fs = (Inr b, fs') \<and>
           body_holds sha options fs fs' b s
    else NewBody sha string_reader io options (Some s) fs = (Inl oversized_body, fs)"
proof -
  have id: "normalizedBodyOptions options = options" using assms by (intro normalizedBodyOptions_id) auto
  obtain res fs' where l: "capture_loop (or_noBody string_reader) io options (Some s) fs initial_capture = (res, fs')"
    by (cases "capture_loop (or_noBody string_reader) io options (Some s) fs initial_capture")
  have inv: "capture_inv options fs fs initial_capture" using assms by (intro initial_capture_inv) auto
  have i: "cp_buffer initial_capture = 32768" "cp_size initial_capture = 0" "cp_hashed initial_capture = []"
    by (simp_all add: initial_capture_def)
  have r: "if int (length s) \<le> bo_MaxSpoolBytes options then \<not> isl res else res = Inl oversized_body"
    using capture_string [OF assms(1,2) inv _ l] i by simp
  from capture_loop_correct [OF l assms(2) inv] show ?thesis
    using r l id assms i delivered_string [of "Some s" _ s] body_of_capture_holds [of options fs fs' _ sha]
    by (cases res) (auto simp: NewBody_def Let_def io_ok_def split: if_split_asm)
qed

text \<open>
  A body is captured exactly: a reader that serves the string \<open>s\<close> is drained to a body
  that holds \<open>s\<close> when \<open>s\<close> is within the limit (the limit included), and is refused as oversized when
  it is longer, with the files unchanged; with working file operations nothing else can happen.
\<close>

theorem new_body_string:
  assumes "io_ok io fs" "fresh_paths io" "0 < bo_MaxInMemoryBytes options"
    "bo_MaxInMemoryBytes options \<le> bo_MaxSpoolBytes options"
  shows "if int (length s) \<le> bo_MaxSpoolBytes options
    then \<exists>b fs'. NewBody sha string_reader io options (Some s) fs = (Inr b, fs') \<and>
           body_holds sha options fs fs' b s
    else NewBody sha string_reader io options (Some s) fs = (Inl oversized_body, fs)"
  using assms by (rule NewBody_string)

section \<open>Capturing and closing\<close>

lemma NewBody_options:
  assumes "0 \<le> bo_MaxInMemoryBytes o'" "0 \<le> bo_MaxSpoolBytes o'"
  shows "normalizedBodyOptions (normalizedBodyOptions o') = normalizedBodyOptions o'"
  by (rule normalizedBodyOptions_id)
    (use assms in \<open>auto simp: normalizedBodyOptions_def Let_def DefaultBodyOptions_def
      defaultBodyMemory_def defaultBodySpool_def\<close>)

text \<open>
  A request body is owned until it is closed: capturing the body of a request (from any
  reader) records a body the request's new reader is a view of, keeps an unknown content length
  unknown, and leaves the files as they were when it fails and its spool can be removed; closing the request's body afterwards
  removes whatever file was created and makes every later view fail.
\<close>

theorem capture_close_restores:
  assumes "fresh_paths io" "io_remove io" "br_captured req = None"
    and "CaptureRequestBody sha read io options fs req = (res, req', fs')"
  shows "snd (snd (CloseBody None None fs' req')) = fs \<and>
    (case res of
       Inl e \<Rightarrow> fs' = fs \<and> br_captured req' = None
     | Inr b \<Rightarrow> br_captured req' = Some b \<and> (\<exists>v. br_Body req' = View_body v) \<and>
         rq_ContentLength req' = (if rq_ContentLength req < 0 then - 1 else bd_size b) \<and>
         (\<exists>closed. br_captured (fst (snd (CloseBody None None fs' req'))) = Some closed \<and>
            Body_Reader fs closed = Inl ''body is closed''))"
proof (cases "bo_MaxInMemoryBytes options < 0 \<or> bo_MaxSpoolBytes options < 0 \<or>
    rq_ContentLength req > bo_MaxSpoolBytes (normalizedBodyOptions options)")
  case True
  with assms(2-4) show ?thesis by (auto simp: CaptureRequestBody_def Let_def CloseBody_def split: if_splits)
next
  case False
  let ?rd = "case br_Body req of Reader_body r \<Rightarrow> Some r | _ \<Rightarrow> None"
  obtain r fs1 where n: "NewBody sha read io (normalizedBodyOptions options) ?rd fs = (r, fs1)"
    by (cases "NewBody sha read io (normalizedBodyOptions options) ?rd fs")
  note ok = NewBody_correct [OF assms(1), where sha = sha and read = read and
      options = "normalizedBodyOptions options" and rd = ?rd and fs = fs]
  show ?thesis
  proof (cases r)
    case (Inl e)
    with ok n False assms(2-4) show ?thesis
      by (auto simp: CaptureRequestBody_def Let_def CloseBody_def)
  next
    case (Inr b)
    then obtain data where h: "body_holds sha (normalizedBodyOptions (normalizedBodyOptions options)) fs fs1 b data"
      using ok n by auto
    have "\<exists>v b'. Body_Reader fs1 b = Inr (v, b') \<and> bd_closed b' = bd_closed b \<and> bd_path b' = bd_path b \<and>
        bd_size b' = bd_size b"
      using h by (auto simp: Body_Reader_def body_holds_def body_content_def split: if_splits)
    then obtain v b' where "Body_Reader fs1 b = Inr (v, b')" "bd_closed b' = bd_closed b"
      "bd_path b' = bd_path b" "bd_size b' = bd_size b" by blast
    with h n Inr False assms(2-4) show ?thesis
      by (auto simp: CaptureRequestBody_def Let_def setRequestBody_def newReader_def CloseBody_def
          Body_Close_def Body_Reader_def body_holds_def)
  qed
qed
section \<open>Witnesses\<close>

lemma append_bounded_capacity_witness:
  "snd (appendBounded (''ab'', 2) ''c'' 100) \<le> 100"
  using append_bounded_capacity [of "(''ab'', 2)" "''c''" 100] by simp

definition sample_io :: spool_io where
  "sample_io = \<lparr>io_create = (\<lambda>fs. if fs ''/tmp/k1'' = None then Some ''/tmp/k1'' else None),
     io_chmod = True, io_migrate = True, io_stat = True, io_write = (\<lambda>n. True), io_seek = True, io_remove = True, io_short = 0\<rparr>"

lemma sample_io_fresh: "fresh_paths sample_io"
  by (simp add: fresh_paths_def sample_io_def)

lemma sample_io_ok: "io_ok sample_io Map.empty"
  by (simp add: io_ok_def sample_io_def)

definition sample_options :: BodyOptions where
  "sample_options = \<lparr>bo_MaxInMemoryBytes = 2, bo_MaxSpoolBytes = 4\<rparr>"

lemma new_body_faithful_witness:
  "case NewBody id string_reader sample_io sample_options (Some ''abc'') Map.empty of
     (Inl e, fs') \<Rightarrow> spool_left (io_remove sample_io) Map.empty fs'
   | (Inr b, fs') \<Rightarrow> \<exists>data. delivered (or_noBody string_reader) (Some ''abc'') data \<and>
       body_holds id (normalizedBodyOptions sample_options) Map.empty fs' b data"
  by (rule new_body_faithful [OF sample_io_fresh])

lemma new_body_string_witness:
  "(\<exists>b fs'. NewBody id string_reader sample_io sample_options (Some ''abc'') Map.empty = (Inr b, fs') \<and>
      body_holds id sample_options Map.empty fs' b ''abc'') \<and>
   NewBody id string_reader sample_io sample_options (Some ''abcde'') Map.empty =
     (Inl oversized_body, Map.empty)"
  using new_body_string [OF sample_io_ok sample_io_fresh, of sample_options "''abc''" id]
    new_body_string [OF sample_io_ok sample_io_fresh, of sample_options "''abcde''" id]
  by (simp add: sample_options_def)

definition sample_body_request :: "string body_request" where
  "sample_body_request = http_request.extend sample_http \<lparr>br_Body = Reader_body ''abc'', br_captured = None\<rparr>"

lemma capture_close_restores_witness:
  "\<exists>res req' fs'. CaptureRequestBody id string_reader sample_io sample_options Map.empty sample_body_request =
     (res, req', fs') \<and> snd (snd (CloseBody None None fs' req')) = Map.empty"
proof -
  obtain res req' fs' where c: "CaptureRequestBody id string_reader sample_io sample_options Map.empty
      sample_body_request = (res, req', fs')"
    by (cases "CaptureRequestBody id string_reader sample_io sample_options Map.empty sample_body_request")
  have "br_captured sample_body_request = None"
    by (simp add: sample_body_request_def http_request.defs)
  moreover have "io_remove sample_io" by (simp add: sample_io_def)
  ultimately show ?thesis using capture_close_restores [OF sample_io_fresh _ _ c] c by blast
qed

end
