(* ===== verification/Sigv4_Verify.thy ===== *)
theory Sigv4_Verify
  imports Sigv4_Payload Endpoint
begin

text \<open>
  The verification of a request signed with the run's fake credential,
  \<^verbatim>\<open>src/internal/sigv4/verify.go\<close>. Instants are UTC calendar times; \<^verbatim>\<open>sha256\<close>, \<^verbatim>\<open>hmac\<close>, the IDNA
  profile and \<^verbatim>\<open>http.ParseTime\<close> are parameters, collected with the caller's body reader and the
  outcomes of the file operations in a \<open>verify_env\<close>. A request is changed by its verification (its
  body is captured), so \<open>Verifier_Verify\<close> returns the request and the files next to its result.

  The properties: an accepted request carries the run's access key and session token, is signed for
  the very endpoint it is sent to, within the allowed clock skew and with host, date and token among the
  signed headers; its signature is the expected one for its canonical request; what is returned passes
  the pipeline's own validation; a rejected request leaves no file behind.
\<close>

section \<open>Time\<close>

text \<open>A UTC instant of \<^verbatim>\<open>time.Time\<close>, with nanoseconds.\<close>

record time =
  tm_year :: int
  tm_month :: nat
  tm_day :: nat
  tm_hour :: nat
  tm_min :: nat
  tm_sec :: nat
  tm_nanos :: nat

definition leap_year :: "int \<Rightarrow> bool" where
  "leap_year y \<longleftrightarrow> y mod 4 = 0 \<and> (y mod 100 \<noteq> 0 \<or> y mod 400 = 0)"

definition days_in_month :: "int \<Rightarrow> nat \<Rightarrow> nat" where
  "days_in_month y m =
     (if m = 2 then (if leap_year y then 29 else 28) else if m \<in> {4, 6, 9, 11} then 30 else 31)"

text \<open>Days before the first of January of a year, and before the first of a month.\<close>

definition days_before_year :: "int \<Rightarrow> int" where
  "days_before_year y = (let p = y - 1 in 365 * p + p div 4 - p div 100 + p div 400)"

definition days_before_month :: "int \<Rightarrow> nat \<Rightarrow> int" where
  "days_before_month y m = (\<Sum>k\<leftarrow>[1..<m]. int (days_in_month y k))"

definition nanos_of :: "time \<Rightarrow> int" where
  "nanos_of t =
     ((((days_before_year (tm_year t) + days_before_month (tm_year t) (tm_month t)
          + int (tm_day t) - 1) * 24 + int (tm_hour t)) * 60 + int (tm_min t)) * 60
       + int (tm_sec t)) * 1000000000 + int (tm_nanos t)"

definition time_sub :: "time \<Rightarrow> time \<Rightarrow> int" where
  "time_sub a b = nanos_of a - nanos_of b"

definition time_is_zero :: "time \<Rightarrow> bool" where
  "time_is_zero t \<longleftrightarrow> t = \<lparr>tm_year = 1, tm_month = 1, tm_day = 1, tm_hour = 0, tm_min = 0, tm_sec = 0,
     tm_nanos = 0\<rparr>"

text \<open>A number of a fixed count of digits, with leading zeros.\<close>

primrec digits :: "nat \<Rightarrow> nat \<Rightarrow> string" where
  "digits 0 n = []"
| "digits (Suc k) n = digits k (n div 10) @ [char_of (48 + n mod 10)]"

definition format_date :: "time \<Rightarrow> string" where
  "format_date t = digits 4 (nat (tm_year t)) @ digits 2 (tm_month t) @ digits 2 (tm_day t)"

definition format_amz :: "time \<Rightarrow> string" where
  "format_amz t = format_date t @ ''T'' @ digits 2 (tm_hour t) @ digits 2 (tm_min t) @
     digits 2 (tm_sec t) @ ''Z''"

text \<open>
  \<^verbatim>\<open>time.Parse\<close> with the layout \<^verbatim>\<open>20060102T150405Z\<close>: the fields, then an optional fraction of a
  second (which \<^verbatim>\<open>Parse\<close> accepts although the layout has none; digits beyond the ninth are dropped),
  then the final letter.
\<close>

definition take_digits :: "nat \<Rightarrow> string \<Rightarrow> (nat \<times> string) option" where
  "take_digits k s =
     (if length (take k s) = k \<and> list_all is_digit_byte (take k s)
      then Some (atoi (take k s), drop k s) else None)"

definition take_fraction :: "string \<Rightarrow> nat \<times> string" where
  "take_fraction s =
     (case s of
        c # rest \<Rightarrow>
          (let ds = takeWhile is_digit_byte rest in
           if (c = CHR ''.'' \<or> c = CHR '','') \<and> ds \<noteq> []
           then (atoi (take 9 (ds @ replicate 9 CHR ''0'')), drop (length ds) rest)
           else (0, s))
      | [] \<Rightarrow> (0, s))"

definition parse_amz :: "string \<Rightarrow> time option" where
  "parse_amz s =
     Option.bind (take_digits 4 s) (\<lambda>(y, s).
     Option.bind (take_digits 2 s) (\<lambda>(mo, s).
     Option.bind (take_digits 2 s) (\<lambda>(d, s).
     if \<not> has_prefix s ''T'' then None else
     Option.bind (take_digits 2 (drop 1 s)) (\<lambda>(h, s).
     Option.bind (take_digits 2 s) (\<lambda>(mi, s).
     Option.bind (take_digits 2 s) (\<lambda>(sec, s).
     (case take_fraction s of (ns, s) \<Rightarrow>
        if s = ''Z'' \<and> 1 \<le> mo \<and> mo \<le> 12 \<and> 1 \<le> d \<and> d \<le> days_in_month (int y) mo
           \<and> h < 24 \<and> mi < 60 \<and> sec < 60
        then Some \<lparr>tm_year = int y, tm_month = mo, tm_day = d, tm_hour = h, tm_min = mi,
                   tm_sec = sec, tm_nanos = ns\<rparr>
        else None)))))))"

section \<open>Options and the verifier\<close>

record FakeCredential =
  fk_AccessKeyID :: string
  fk_SecretAccessKey :: string
  fk_SessionToken :: string

record VerifyOptions =
  vo_Clock :: "(unit \<Rightarrow> time) option"
  vo_MaxClockSkew :: int
  vo_MaxInMemoryBodyBytes :: int
  vo_MaxSpoolBodyBytes :: int
  vo_AllowUnsignedPayload :: bool

definition WithClock :: "(unit \<Rightarrow> time) option \<Rightarrow> VerifyOptions \<Rightarrow> VerifyOptions" where
  "WithClock clock opts = opts\<lparr>vo_Clock := clock\<rparr>"

definition WithClockSkew :: "int \<Rightarrow> VerifyOptions \<Rightarrow> VerifyOptions" where
  "WithClockSkew skew opts = opts\<lparr>vo_MaxClockSkew := skew\<rparr>"

definition WithBodyLimits :: "int \<Rightarrow> int \<Rightarrow> VerifyOptions \<Rightarrow> VerifyOptions" where
  "WithBodyLimits memory spool opts =
     opts\<lparr>vo_MaxInMemoryBodyBytes := memory, vo_MaxSpoolBodyBytes := spool\<rparr>"

definition WithAllowUnsignedPayload :: "bool \<Rightarrow> VerifyOptions \<Rightarrow> VerifyOptions" where
  "WithAllowUnsignedPayload allow opts = opts\<lparr>vo_AllowUnsignedPayload := allow\<rparr>"

definition second_ns :: int where "second_ns = 1000000000"

definition defaultClockSkew :: int where "defaultClockSkew = 5 * 60 * second_ns"

definition default_verify_options :: VerifyOptions where
  "default_verify_options = \<lparr>vo_Clock = None, vo_MaxClockSkew = defaultClockSkew,
     vo_MaxInMemoryBodyBytes = defaultBodyMemory, vo_MaxSpoolBodyBytes = defaultBodySpool,
     vo_AllowUnsignedPayload = False\<rparr>"

record Verifier =
  vf_fake :: FakeCredential
  vf_clock :: "unit \<Rightarrow> time"
  vf_options :: VerifyOptions

definition line_breaks :: string where
  "line_breaks = [CHR 0x00, CHR 0x0D, CHR 0x0A]"

definition validateFakeCredential :: "FakeCredential \<Rightarrow> sig_error option" where
  "validateFakeCredential fake =
     (if length (fk_AccessKeyID fake) < 16 \<or> length (fk_AccessKeyID fake) > 128
         \<or> contains_any (fk_AccessKeyID fake) (line_breaks @ '' /'') then
        Some (SigError CodeMalformedCredential ''fake access key is malformed'')
      else if fk_SecretAccessKey fake = [] \<or> length (fk_SecretAccessKey fake) > 512
         \<or> contains_any (fk_SecretAccessKey fake) line_breaks then
        Some (SigError CodeMalformedCredential ''fake secret is malformed'')
      else if fk_SessionToken fake = [] \<or> length (fk_SessionToken fake) > 4096
         \<or> contains_any (fk_SessionToken fake) line_breaks then
        Some (SigError CodeMalformedCredential ''fake session token is malformed'')
      else None)"

text \<open>Nil options are skipped; a nil clock becomes the wall clock.\<close>

definition NewVerifier ::
  "(unit \<Rightarrow> time) \<Rightarrow> FakeCredential \<Rightarrow> (VerifyOptions \<Rightarrow> VerifyOptions) option list \<Rightarrow>
     sig_error + Verifier" where
  "NewVerifier wall fake options =
     (let selected = fold (\<lambda>opt s. case opt of None \<Rightarrow> s | Some f \<Rightarrow> f s) options default_verify_options;
          clock = (case vo_Clock selected of None \<Rightarrow> wall | Some c \<Rightarrow> c) in
      case validateFakeCredential fake of
        Some e \<Rightarrow> Inl e
      | None \<Rightarrow>
          if vo_MaxClockSkew selected \<le> 0 \<or> vo_MaxClockSkew selected > 24 * 60 * 60 * second_ns then
            Inl (SigError CodeMalformedRequest ''clock skew limit is invalid'')
          else if vo_MaxInMemoryBodyBytes selected \<le> 0 \<or> vo_MaxSpoolBodyBytes selected \<le> 0
             \<or> vo_MaxInMemoryBodyBytes selected > vo_MaxSpoolBodyBytes selected then
            Inl bad_limits
          else Inr \<lparr>vf_fake = fake, vf_clock = clock, vf_options = selected\<lparr>vo_Clock := Some clock\<rparr>\<rparr>)"

section \<open>Headers and the authorization grammar\<close>

fun request_header_loop :: "string \<Rightarrow> http_header \<Rightarrow> string \<Rightarrow> bool \<Rightarrow> string \<times> bool \<times> bool" where
  "request_header_loop name [] v present = (v, present, False)"
| "request_header_loop name ((key, vs) # h) v present =
     (if \<not> equal_fold key name then request_header_loop name h v present
      else if present \<or> length vs \<noteq> 1 then ([], True, True)
      else request_header_loop name h (hd vs) True)"

definition requestHeader :: "http_header \<Rightarrow> string \<Rightarrow> string \<times> bool \<times> bool" where
  "requestHeader header name = request_header_loop name header [] False"

definition bad_authorization :: sig_error where
  "bad_authorization = SigError CodeMalformedAuthorization ''authorization grammar is invalid''"

definition bad_signature_encoding :: sig_error where
  "bad_signature_encoding = SigError CodeMalformedAuthorization ''signature encoding is invalid''"

text \<open>One of the three parts, under the key its position demands.\<close>

definition authorization_part :: "string \<Rightarrow> string \<Rightarrow> string option" where
  "authorization_part expected part =
     (case cut CHR ''='' part of (key, item, ok) \<Rightarrow>
        if \<not> ok \<or> item = [] \<or> contains_byte item CHR ''='' then None
        else if key \<noteq> expected then None
        else Some item)"

definition parseAuthorization ::
  "string \<Rightarrow> sig_error + (string \<times> string \<times> string \<times> string)" where
  "parseAuthorization v =
     (case index_byte v CHR '' '' of
        None \<Rightarrow> Inl bad_authorization
      | Some space \<Rightarrow>
          if space = 0 \<or> space = length v - 1 then Inl bad_authorization
          else
            (case split_string (drop (space + 1) v) '', '' of
               [p0, p1, p2] \<Rightarrow>
                 (case (authorization_part ''Credential'' p0, authorization_part ''SignedHeaders'' p1,
                        authorization_part ''Signature'' p2) of
                    (Some credential, Some signedHeaders, Some signature) \<Rightarrow>
                      if length signature \<noteq> 64 then Inl bad_signature_encoding
                      else if list_ex (\<lambda>c. hexValue c < 0) signature then Inl bad_signature_encoding
                      else Inr (take space v, credential, signedHeaders, signature)
                  | _ \<Rightarrow> Inl bad_authorization)
             | _ \<Rightarrow> Inl bad_authorization))"

definition bad_credential_date :: sig_error where
  "bad_credential_date = SigError CodeMalformedCredential ''credential date is malformed''"

definition bad_credential_scope :: sig_error where
  "bad_credential_scope = SigError CodeMalformedCredential ''credential scope is malformed''"

definition parseCredential :: "string \<Rightarrow> sig_error + (string \<times> string \<times> string \<times> string)" where
  "parseCredential v =
     (case split_byte CHR ''/'' v of
        [accessKey, date, region, service, terminator] \<Rightarrow>
          if accessKey = [] \<or> terminator \<noteq> ''aws4_request'' then Inl bad_credential_scope
          else if length date \<noteq> 8 then Inl bad_credential_date
          else if list_ex (\<lambda>c. \<not> is_digit_byte c) date then Inl bad_credential_date
          else Inr (accessKey, date, region, service)
      | _ \<Rightarrow> Inl bad_credential_scope)"

definition containsString :: "string list \<Rightarrow> string \<Rightarrow> bool" where
  "containsString values v = list_ex (\<lambda>item. item = v) values"

fun sorted_names :: "string option \<Rightarrow> string list \<Rightarrow> bool" where
  "sorted_names prev [] = True"
| "sorted_names prev (part # parts) =
     (validHeaderName part \<and> part = to_lower part \<and>
      (case prev of None \<Rightarrow> True | Some p \<Rightarrow> \<not> part \<le> p) \<and> sorted_names (Some part) parts)"

definition parseSignedHeaders :: "string \<Rightarrow> sig_error + string list" where
  "parseSignedHeaders v =
     (if v = [] \<or> contains_byte v CHR '' '' then
        Inl (SigError CodeMalformedAuthorization ''signed headers grammar is invalid'')
      else
        (let parts = split_byte CHR '';'' v in
         if parts = [] then Inl (SigError CodeMalformedAuthorization ''signed headers are empty'')
         else if \<not> sorted_names None parts then
           Inl (SigError CodeMalformedAuthorization ''signed headers are not sorted'')
         else if \<not> containsString parts ''host'' then
           Inl (SigError CodeMalformedAuthorization ''signed host header is missing'')
         else Inr parts))"

section \<open>Checks on the request\<close>

definition requestSigningTime ::
  "(string \<Rightarrow> time option) \<Rightarrow> http_header \<Rightarrow> sig_error + (string \<times> time)" where
  "requestSigningTime http_time header =
     (case requestHeader header ''x-amz-date'' of (v, present, duplicate) \<Rightarrow>
        if duplicate then Inl (SigError CodeInvalidTimestamp ''x-amz-date is duplicated'')
        else if present then
          (if v = [] then Inl (SigError CodeInvalidTimestamp ''x-amz-date is empty'')
           else
             (case parse_amz (trim_space v) of
                None \<Rightarrow> Inl (SigError CodeInvalidTimestamp ''x-amz-date is malformed'')
              | Some t \<Rightarrow> Inr (''x-amz-date'', t)))
        else
          (case requestHeader header ''date'' of (v, present, duplicate) \<Rightarrow>
             if duplicate \<or> \<not> present \<or> v = [] then
               Inl (SigError CodeInvalidTimestamp ''request date is unavailable'')
             else
               (case http_time (trim_space v) of
                  None \<Rightarrow> Inl (SigError CodeInvalidTimestamp ''request date is malformed'')
                | Some t \<Rightarrow> Inr (''date'', t))))"

definition verifyRequestEndpoint ::
  "(string \<Rightarrow> string go_result) \<Rightarrow> 'a http_request_scheme \<Rightarrow> AWSEndpoint \<Rightarrow> sig_error option" where
  "verifyRequestEndpoint idna req endpoint =
     (case rq_URL req of
        None \<Rightarrow> Some (SigError CodeEndpointMismatch ''request authority is unavailable'')
      | Some u \<Rightarrow>
          if url_User u then
            Some (SigError CodeEndpointMismatch ''request authority contains user information'')
          else
            (let host = (if rq_Host req = [] then url_Host u else rq_Host req) in
             if host = [] then Some (SigError CodeEndpointMismatch ''request host is unavailable'')
             else
               (case NormalizeEndpointHost idna host of
                  Inl _ \<Rightarrow> Some (SigError CodeEndpointMismatch ''request host does not match endpoint'')
                | Inr (name, port) \<Rightarrow>
                    if port \<noteq> 443 \<or> name \<noteq> ep_Host endpoint then
                      Some (SigError CodeEndpointMismatch ''request host does not match endpoint'')
                    else if rq_Host req \<noteq> [] \<and> url_Host u \<noteq> []
                       \<and> NormalizeEndpointHost idna (url_Host u) \<noteq> Inr (name, port) then
                      Some (SigError CodeEndpointMismatch ''request URL authority does not match host'')
                    else None)))"

definition verifySignedHost ::
  "(string \<Rightarrow> string go_result) \<Rightarrow> 'a http_request_scheme \<Rightarrow> string list \<Rightarrow> AWSEndpoint \<Rightarrow>
     sig_error option" where
  "verifySignedHost idna req names endpoint =
     (if \<not> containsString names ''host'' then
        Some (SigError CodeMalformedAuthorization ''signed host header is missing'')
      else
        (case signedHeaderValue req ''host'' of
           Inl e \<Rightarrow> Some e
         | Inr v \<Rightarrow>
             if NormalizeEndpointHost idna v \<noteq> Inr (ep_Host endpoint, 443) then
               Some (SigError CodeEndpointMismatch ''signed host does not match endpoint'')
             else None))"

definition verifySigningScope :: "AWSEndpoint \<Rightarrow> string \<Rightarrow> string \<Rightarrow> sig_error option" where
  "verifySigningScope endpoint region service =
     (let expectedService = (if ep_SigningService endpoint = [] then ep_Service endpoint
                             else ep_SigningService endpoint);
          expectedRegion = (if ep_SigningRegion endpoint = [] \<and> \<not> AWSEndpoint_IsGlobal endpoint
                            then ep_Region endpoint else ep_SigningRegion endpoint) in
      if service \<noteq> expectedService then
        Some (SigError CodeEndpointMismatch
          ''credential service does not match endpoint signing identity'')
      else if expectedRegion = [] \<or> region \<noteq> expectedRegion then
        Some (SigError CodeEndpointMismatch
          ''credential Region does not match endpoint signing identity'')
      else None)"

definition scope_rune :: "rune \<Rightarrow> bool" where
  "scope_rune r \<longleftrightarrow> (97 \<le> r \<and> r \<le> 122) \<or> (48 \<le> r \<and> r \<le> 57) \<or> r = 45"

definition validScopeRegion :: "string \<Rightarrow> bool" where
  "validScopeRegion region \<longleftrightarrow>
     \<not> (region = [] \<or> length region > 64 \<or> contains_any region (''/ '' @ line_breaks)) \<and>
     list_all scope_rune (runes region)"

definition validScopeService :: "string \<Rightarrow> bool" where
  "validScopeService service \<longleftrightarrow> length service \<le> 128 \<and> ValidateSigningService service = None"

definition signingKey ::
  "(string \<Rightarrow> string \<Rightarrow> string) \<Rightarrow> string \<Rightarrow> string \<Rightarrow> string \<Rightarrow> string \<Rightarrow> string \<Rightarrow> string" where
  "signingKey hmacSHA256 secret date region service stringToSign =
     (let dateKey = hmacSHA256 (''AWS4'' @ secret) date;
          regionKey = hmacSHA256 dateKey region;
          serviceKey = hmacSHA256 regionKey service;
          requestKey = hmacSHA256 serviceKey ''aws4_request''
      in hmacSHA256 requestKey stringToSign)"

definition signing_parameters :: "string list" where
  "signing_parameters = [''x-amz-algorithm'', ''x-amz-credential'', ''x-amz-signature'',
     ''x-amz-signedheaders'', ''x-amz-expires'', ''x-amz-date'', ''x-amz-security-token'']"

fun query_signing_loop :: "string list \<Rightarrow> string + bool" where
  "query_signing_loop [] = Inr False"
| "query_signing_loop (part # parts) =
     (let key = (case index_byte part CHR ''='' of None \<Rightarrow> part | Some at \<Rightarrow> take at part) in
      case percentDecodeQuery key of
        Inl e \<Rightarrow> Inl e
      | Inr decoded \<Rightarrow>
          if to_lower decoded \<in> set signing_parameters then Inr True
          else query_signing_loop parts)"

definition querySigningPresent :: "string \<Rightarrow> string + bool" where
  "querySigningPresent raw =
     (if raw = [] then Inr False else query_signing_loop (split_byte CHR ''&'' raw))"

fun hex_decode :: "string \<Rightarrow> string option" where
  "hex_decode [] = Some []"
| "hex_decode [a] = None"
| "hex_decode (a # b # s) =
     (case (unhex a, unhex b) of
        (Some x, Some y) \<Rightarrow> map_option ((#) (char_of (x * 16 + y))) (hex_decode s)
      | _ \<Rightarrow> None)"

section \<open>The payload\<close>

definition isEventStreamContentType :: "string \<Rightarrow> bool" where
  "isEventStreamContentType v =
     (let v' = trim_space (hd (splitn_byte 2 CHR '';'' v)) in
      equal_fold v' ''application/vnd.amazon.eventstream'' \<or>
      equal_fold v' ''application/x-amz-event-stream'')"

definition inferProtocol :: "'a http_request_scheme option \<Rightarrow> string" where
  "inferProtocol req =
     (case req of
        None \<Rightarrow> ProtocolRESTJSON
      | Some r \<Rightarrow>
          (let contentType =
                 to_lower (trim_space (hd (splitn_byte 2 CHR '';''
                   (header_get (rq_Header r) ''Content-Type'')))) in
           if contentType = ''application/x-amz-json-1.0'' then ProtocolJSON10
           else if contentType = ''application/x-amz-json-1.1'' then ProtocolJSON11
           else if contentType = ''application/x-www-form-urlencoded'' then ProtocolQuery
           else if contentType = ''application/xml'' \<or> contentType = ''text/xml'' then ProtocolRESTXML
           else ProtocolRESTJSON))"

definition emptyPayloadHash :: string where
  "emptyPayloadHash = ''e3b0c44298fc1c149afbf4c8996fb92427ae41e4649b934ca495991b7852b855''"

definition streaming_modes :: "string list" where
  "streaming_modes = [''STREAMING-AWS4-HMAC-SHA256-PAYLOAD'',
     ''STREAMING-AWS4-HMAC-SHA256-PAYLOAD-TRAILER'', ''AWS4-HMAC-SHA256-PAYLOAD'',
     ''AWS4-HMAC-SHA256-PAYLOAD-TRAILER'']"

text \<open>
  What a verification depends on besides the request: the hash functions, the IDNA profile,
  \<^verbatim>\<open>http.ParseTime\<close>, the body's reader, and the outcomes of file operations.
\<close>

record 's verify_env =
  env_sha :: "string \<Rightarrow> string"
  env_hmac :: "string \<Rightarrow> string \<Rightarrow> string"
  env_idna :: "string \<Rightarrow> string go_result"
  env_http_time :: "string \<Rightarrow> time option"
  env_read :: "'s reader"
  env_io :: spool_io
  env_reader_err :: go_error
  env_remove_err :: go_error

abbreviation close_request :: "'s verify_env \<Rightarrow> files \<Rightarrow> 's body_request \<Rightarrow> 's body_request \<times> files" where
  "close_request env \<equiv> closeRequestBody (env_reader_err env) (env_remove_err env)"

text \<open>The checks of the two payload headers, before the body is touched.\<close>

definition payload_headers ::
  "Verifier \<Rightarrow> http_header \<Rightarrow> (string \<times> string \<times> sig_error) + string" where
  "payload_headers v header =
     (case requestHeader header ''content-type'' of (contentType, present, duplicate) \<Rightarrow>
        if duplicate then
          Inl ([], PayloadHashUnsupported, SigError CodeMalformedRequest ''content type is duplicated'')
        else if present \<and> isEventStreamContentType contentType then
          Inl ([], PayloadHashEventStream,
            SigError CodeUnsupportedPayload ''event stream payloads are unsupported'')
        else
          (case requestHeader header ''x-amz-content-sha256'' of (value0, present, duplicate) \<Rightarrow>
             if duplicate then
               Inl ([], PayloadHashUnsupported,
                 SigError CodeMalformedRequest ''payload hash header is duplicated'')
             else
               (let v' = trim_space value0 in
                if \<not> present then Inr v'
                else if v' = ''UNSIGNED-PAYLOAD'' then
                  (if \<not> vo_AllowUnsignedPayload (vf_options v) then
                     Inl (v', PayloadHashUnsigned,
                       SigError CodeUnsupportedPayload ''unsigned payloads are disabled'')
                   else Inr v')
                else if v' \<in> set streaming_modes then
                  Inl (v', PayloadHashStreaming,
                    SigError CodeUnsupportedPayload ''streaming payloads are unsupported'')
                else if v' = [] then
                  Inl (v', PayloadHashUnsupported,
                    SigError CodeUnsupportedPayload ''payload hash is empty'')
                else if \<not> validPayloadHash v' then
                  Inl (v', PayloadHashUnsupported,
                    SigError CodeUnsupportedPayload ''payload hash encoding is unsupported'')
                else Inr v')))"

definition Verifier_payload ::
  "'s verify_env \<Rightarrow> Verifier \<Rightarrow> files \<Rightarrow> 's body_request \<Rightarrow>
     (Body option \<times> string \<times> string \<times> sig_error option) \<times> 's body_request \<times> files" where
  "Verifier_payload env v fs req =
     (case payload_headers v (rq_Header req) of
        Inl (h, mode, e) \<Rightarrow> ((None, h, mode, Some e), close_request env fs req)
      | Inr v' \<Rightarrow>
          (case CaptureRequestBody (env_sha env) (env_read env) (env_io env)
                  \<lparr>bo_MaxInMemoryBytes = vo_MaxInMemoryBodyBytes (vf_options v),
                   bo_MaxSpoolBytes = vo_MaxSpoolBodyBytes (vf_options v)\<rparr> fs req of
             (Inl e, req', fs') \<Rightarrow> ((None, [], PayloadHashUnsupported, Some e), req', fs')
           | (Inr body, req', fs') \<Rightarrow>
               if v' = ''UNSIGNED-PAYLOAD'' then
                 ((Some body, v', PayloadHashUnsigned, None), req', fs')
               else
                 (let actual = Body_SHA256 (Some body);
                      h = (if v' = [] then actual else v');
                      provided = hex_decode h;
                      actualBytes = hex_decode actual in
                  if provided = None \<or> actualBytes = None
                     \<or> length (the provided) \<noteq> 32 \<or> length (the actualBytes) \<noteq> 32
                     \<or> the provided \<noteq> the actualBytes then
                    ((Some body, h, PayloadHashSHA256,
                      Some (SigError CodeInvalidSignature ''payload hash does not match request body'')),
                     req', fs')
                  else
                    ((Some body, h,
                      (if Body_Size (Some body) = 0 \<and> equal_fold h emptyPayloadHash
                       then PayloadHashEmpty else PayloadHashSHA256), None),
                     req', fs'))))"

section \<open>Verification\<close>

text \<open>What the checks before the payload establish.\<close>

record authorization =
  au_signature :: string
  au_date :: string
  au_region :: string
  au_service :: string
  au_signed :: "string list"
  au_time :: time

definition unsupported_algorithm :: sig_error where
  "unsupported_algorithm =
     SigError CodeUnsupportedSigning ''request signing algorithm is unsupported''"

text \<open>The test of the algorithm before the header is parsed.\<close>

definition algorithm_error :: "string \<Rightarrow> bool" where
  "algorithm_error authorization =
     (case index_byte authorization CHR '' '' of
        Some firstSpace \<Rightarrow> firstSpace > 0 \<and> take firstSpace authorization \<noteq> ''AWS4-HMAC-SHA256''
      | None \<Rightarrow> \<not> has_prefix authorization ''AWS4-HMAC-SHA256'')"

text \<open>From the credential to the signing scope.\<close>

definition verify_credential ::
  "Verifier \<Rightarrow> http_header \<Rightarrow> AWSEndpoint \<Rightarrow> string \<Rightarrow> sig_error + (string \<times> string \<times> string)" where
  "verify_credential v header endpoint credentialText =
     (case parseCredential credentialText of
        Inl e \<Rightarrow> Inl e
      | Inr (accessKey, scopeDate, scopeRegion, scopeService) \<Rightarrow>
          if accessKey \<noteq> fk_AccessKeyID (vf_fake v) then
            Inl (SigError CodeInvalidCredential ''fake access key is invalid'')
          else
            (case requestHeader header ''x-amz-security-token'' of
               (token, tokenPresent, tokenDuplicate) \<Rightarrow>
                 if tokenDuplicate \<or> \<not> tokenPresent \<or> token = []
                    \<or> token \<noteq> fk_SessionToken (vf_fake v) then
                   Inl (SigError CodeInvalidCredential ''fake session token is invalid'')
                 else if \<not> validScopeRegion scopeRegion \<or> \<not> validScopeService scopeService then
                   Inl bad_credential_scope
                 else
                   (case verifySigningScope endpoint scopeRegion scopeService of
                      Some e \<Rightarrow> Inl e
                    | None \<Rightarrow> Inr (scopeDate, scopeRegion, scopeService))))"

text \<open>The signing time against the scope, the clock and the signed headers.\<close>

definition verify_time ::
  "'s verify_env \<Rightarrow> Verifier \<Rightarrow> http_header \<Rightarrow> string list \<Rightarrow> string \<Rightarrow> sig_error + time" where
  "verify_time env v header signedHeaders scopeDate =
     (case requestSigningTime (env_http_time env) header of
        Inl e \<Rightarrow> Inl e
      | Inr (dateName, signingTime) \<Rightarrow>
          if format_date signingTime \<noteq> scopeDate then
            Inl (SigError CodeMalformedCredential ''credential date does not match request date'')
          else
            (let now = vf_clock v () in
             if time_is_zero now then
               Inl (SigError CodeInvalidTimestamp ''verification clock is invalid'')
             else
               (let delta = time_sub now signingTime in
                if delta > vo_MaxClockSkew (vf_options v) \<or> delta < - vo_MaxClockSkew (vf_options v) then
                  Inl (SigError CodeStaleTimestamp ''request timestamp is outside the allowed skew'')
                else if \<not> containsString signedHeaders dateName then
                  Inl (SigError CodeMalformedAuthorization ''request date is not signed'')
                else if \<not> containsString signedHeaders ''x-amz-security-token'' then
                  Inl (SigError CodeMalformedAuthorization ''session token is not signed'')
                else Inr signingTime)))"

definition verify_authorization ::
  "'s verify_env \<Rightarrow> Verifier \<Rightarrow> 's body_request \<Rightarrow> AWSEndpoint \<Rightarrow> string \<Rightarrow> sig_error + authorization" where
  "verify_authorization env v req endpoint authorization =
     (if algorithm_error authorization then Inl unsupported_algorithm
      else
        (case parseAuthorization authorization of
           Inl e \<Rightarrow> Inl e
         | Inr (algorithm, credentialText, signedText, signature) \<Rightarrow>
             if algorithm \<noteq> ''AWS4-HMAC-SHA256'' then Inl unsupported_algorithm
             else
               (case verify_credential v (rq_Header req) endpoint credentialText of
                  Inl e \<Rightarrow> Inl e
                | Inr (scopeDate, scopeRegion, scopeService) \<Rightarrow>
                    (case parseSignedHeaders signedText of
                       Inl e \<Rightarrow> Inl e
                     | Inr signedHeaders \<Rightarrow>
                         (case verify_time env v (rq_Header req) signedHeaders scopeDate of
                            Inl e \<Rightarrow> Inl e
                          | Inr signingTime \<Rightarrow>
                              (case verifySignedHost (env_idna env) req signedHeaders endpoint of
                                 Some e \<Rightarrow> Inl e
                               | None \<Rightarrow>
                                   Inr \<lparr>au_signature = signature, au_date = scopeDate,
                                        au_region = scopeRegion, au_service = scopeService,
                                        au_signed = signedHeaders, au_time = signingTime\<rparr>))))))"

text \<open>The checks of \<^verbatim>\<open>Verify\<close> before it reads the payload.\<close>

definition verify_identity ::
  "'s verify_env \<Rightarrow> Verifier \<Rightarrow> bool \<Rightarrow> 's body_request \<Rightarrow> AWSEndpoint \<Rightarrow> sig_error + authorization" where
  "verify_identity env v cancelled req endpoint =
     (if cancelled then Inl (SigError CodeMalformedRequest ''verification was cancelled'')
      else
        (case rq_URL req of
           None \<Rightarrow> Inl url_unavailable
         | Some u \<Rightarrow>
             if AWSEndpoint_Validate endpoint \<noteq> None then
               Inl (SigError CodeEndpointMismatch ''endpoint metadata is invalid'')
             else
               (case verifyRequestEndpoint (env_idna env) req endpoint of
                  Some e \<Rightarrow> Inl e
                | None \<Rightarrow>
                    (case querySigningPresent (url_RawQuery u) of
                       Inl _ \<Rightarrow> Inl (SigError CodeMalformedRequest ''request query is malformed'')
                     | Inr queryScheme \<Rightarrow>
                         if queryScheme then
                           Inl (SigError CodeUnsupportedSigning ''query presigning is unsupported'')
                         else
                           (case requestHeader (rq_Header req) ''authorization'' of
                              (authorization, present, duplicate) \<Rightarrow>
                                if duplicate then
                                  Inl (SigError CodeMalformedAuthorization ''authorization is duplicated'')
                                else if \<not> present \<or> authorization = [] then
                                  Inl (SigError CodeUnsupportedSigning
                                    ''request authentication is unsupported'')
                                else verify_authorization env v req endpoint authorization)))))"

definition string_to_sign :: "authorization \<Rightarrow> Canonical \<Rightarrow> string" where
  "string_to_sign au canonical =
     join [CHR 0x0A]
       [''AWS4-HMAC-SHA256'', format_amz (au_time au),
        au_date au @ ''/'' @ au_region au @ ''/'' @ au_service au @ ''/aws4_request'',
        cn_Hash canonical]"

definition expected_signature :: "'s verify_env \<Rightarrow> Verifier \<Rightarrow> authorization \<Rightarrow> Canonical \<Rightarrow> string" where
  "expected_signature env v au canonical =
     signingKey (env_hmac env) (fk_SecretAccessKey (vf_fake v)) (au_date au) (au_region au)
       (au_service au) (string_to_sign au canonical)"

text \<open>The payload mode is recorded in the request context.\<close>

record 's verified_http = "'s body_request" +
  vh_payload_mode :: string

definition setPayloadMode :: "'s body_request \<Rightarrow> string \<Rightarrow> 's verified_http" where
  "setPayloadMode req mode = body_request.extend req \<lparr>vh_payload_mode = mode\<rparr>"
text \<open>\<^verbatim>\<open>Verify\<close> for a verifier and a request that are not nil, without the deferred cleanup.\<close>

definition verify_request ::
  "'s verify_env \<Rightarrow> Verifier \<Rightarrow> bool \<Rightarrow> files \<Rightarrow> 's body_request \<Rightarrow> AWSEndpoint \<Rightarrow>
     (sig_error + 's verified_http VerifiedRequest) \<times> 's body_request \<times> files" where
  "verify_request env v cancelled fs req endpoint =
     (case verify_identity env v cancelled req endpoint of
        Inl e \<Rightarrow> (Inl e, req, fs)
      | Inr au \<Rightarrow>
          (case Verifier_payload env v fs req of
             ((body, payloadHash, payloadMode, err), req1, fs1) \<Rightarrow>
               (let closed = snd (CloseBody (env_reader_err env) (env_remove_err env) fs1 req1) in
                case err of
                  Some e \<Rightarrow> (Inl e, if body \<noteq> None then closed else (req1, fs1))
                | None \<Rightarrow>
                    (case BuildCanonicalRequest (env_sha env) (Some req1) (au_signed au) payloadHash of
                       Inl e \<Rightarrow> (Inl e, closed)
                     | Inr canonical \<Rightarrow>
                         (let expected = expected_signature env v au canonical;
                              provided = hex_decode (au_signature au) in
                          if provided = None \<or> length (the provided) \<noteq> 32 \<or> expected \<noteq> the provided then
                            (Inl (SigError CodeInvalidSignature ''request signature is invalid''), closed)
                          else
                            (Inr \<lparr>vr_Request = Some (setPayloadMode req1 payloadMode), vr_Endpoint = endpoint,
                                  vr_Protocol = inferProtocol (Some req1),
                                  vr_SigningScheme = SigningHeaderV4,
                                  vr_SigningRegion = au_region au, vr_SigningService = au_service au,
                                  vr_PayloadMode = payloadMode\<rparr>,
                             req1, fs1))))))"

text \<open>A failed verification releases the body of the request.\<close>

definition Verifier_Verify ::
  "'s verify_env \<Rightarrow> Verifier option \<Rightarrow> bool \<Rightarrow> files \<Rightarrow> 's body_request option \<Rightarrow> AWSEndpoint \<Rightarrow>
     (sig_error + 's verified_http VerifiedRequest) \<times> 's body_request option \<times> files" where
  "Verifier_Verify env verifier cancelled fs req endpoint =
     (case verifier of
        None \<Rightarrow> (Inl (SigError CodeMalformedRequest ''verifier is unavailable''), req, fs)
      | Some v \<Rightarrow>
          (case req of
             None \<Rightarrow>
               (Inl (if cancelled then SigError CodeMalformedRequest ''verification was cancelled''
                     else url_unavailable), None, fs)
           | Some r \<Rightarrow>
               (case verify_request env v cancelled fs r endpoint of
                  (Inr verified, r', fs') \<Rightarrow> (Inr verified, Some r', fs')
                | (Inl e, r', fs') \<Rightarrow>
                    (case close_request env fs' r' of (r'', fs'') \<Rightarrow> (Inl e, Some r'', fs'')))))"

definition VerifyRequest ::
  "'s verify_env \<Rightarrow> (unit \<Rightarrow> time) \<Rightarrow> bool \<Rightarrow> files \<Rightarrow> 's body_request option \<Rightarrow> AWSEndpoint \<Rightarrow>
     FakeCredential \<Rightarrow> (VerifyOptions \<Rightarrow> VerifyOptions) option list \<Rightarrow>
     (sig_error + 's verified_http VerifiedRequest) \<times> 's body_request option \<times> files" where
  "VerifyRequest env wall cancelled fs req endpoint fake options =
     (case NewVerifier wall fake options of
        Inl e \<Rightarrow> (Inl e, req, fs)
      | Inr v \<Rightarrow> Verifier_Verify env (Some v) cancelled fs req endpoint)"

end
