(* ===== verification/Sigv4_Authentic.thy ===== *)
theory Sigv4_Authentic
  imports Sigv4_Verify
begin

text \<open>
  What an accepted verification proves about a request (\<^verbatim>\<open>src/internal/sigv4/verify.go\<close>): who signed
  it, for which endpoint, when, over which bytes; and that a rejected one leaves nothing behind.
\<close>

section \<open>What the checks establish\<close>

lemma containsString_iff [simp]: "containsString xs x \<longleftrightarrow> x \<in> set xs"
  by (auto simp: containsString_def list_ex_iff)

definition carries_token :: "Verifier \<Rightarrow> http_header \<Rightarrow> bool" where
  "carries_token v header \<longleftrightarrow>
     requestHeader header ''x-amz-security-token'' = (fk_SessionToken (vf_fake v), True, False)"

definition credential_ok ::
  "Verifier \<Rightarrow> http_header \<Rightarrow> AWSEndpoint \<Rightarrow> string \<Rightarrow> string \<times> string \<times> string \<Rightarrow> bool" where
  "credential_ok v header endpoint credentialText scope \<longleftrightarrow>
     (case scope of (date, region, service) \<Rightarrow>
        parseCredential credentialText = Inr (fk_AccessKeyID (vf_fake v), date, region, service) \<and>
        carries_token v header \<and> validScopeRegion region \<and> validScopeService service \<and>
        verifySigningScope endpoint region service = None)"

lemma verify_credential_ok:
  "verify_credential v header endpoint text = Inr scope \<Longrightarrow> credential_ok v header endpoint text scope"
  by (auto simp: verify_credential_def credential_ok_def carries_token_def
      split: sum.splits if_splits option.splits prod.splits)

definition time_ok ::
  "'s verify_env \<Rightarrow> Verifier \<Rightarrow> http_header \<Rightarrow> string list \<Rightarrow> string \<Rightarrow> time \<Rightarrow> bool" where
  "time_ok env v header names date t \<longleftrightarrow>
     format_date t = date \<and> \<bar>time_sub (vf_clock v ()) t\<bar> \<le> vo_MaxClockSkew (vf_options v) \<and>
     ''x-amz-security-token'' \<in> set names \<and>
     (\<exists>dateName. dateName \<in> set names \<and> requestSigningTime (env_http_time env) header = Inr (dateName, t))"

lemma verify_time_ok:
  "verify_time env v header names date = Inr t \<Longrightarrow> time_ok env v header names date t"
  by (auto simp: verify_time_def time_ok_def Let_def split: sum.splits if_splits)

definition authorization_ok ::
  "'s verify_env \<Rightarrow> Verifier \<Rightarrow> 's body_request \<Rightarrow> AWSEndpoint \<Rightarrow> string \<Rightarrow> authorization \<Rightarrow> bool" where
  "authorization_ok env v req endpoint text au \<longleftrightarrow>
     (\<exists>credentialText signedText.
        parseAuthorization text = Inr (''AWS4-HMAC-SHA256'', credentialText, signedText, au_signature au) \<and>
        credential_ok v (rq_Header req) endpoint credentialText (au_date au, au_region au, au_service au) \<and>
        parseSignedHeaders signedText = Inr (au_signed au)) \<and>
     time_ok env v (rq_Header req) (au_signed au) (au_date au) (au_time au) \<and>
     verifySignedHost (env_idna env) req (au_signed au) endpoint = None"

lemma verify_authorization_ok:
  assumes "verify_authorization env v req endpoint text = Inr au"
  shows "authorization_ok env v req endpoint text au"
  using assms
  by (auto simp: verify_authorization_def authorization_ok_def
      split: sum.splits if_splits option.splits)
    (simp_all add: verify_credential_ok verify_time_ok)

definition request_ok ::
  "'s verify_env \<Rightarrow> Verifier \<Rightarrow> 's body_request \<Rightarrow> AWSEndpoint \<Rightarrow> authorization \<Rightarrow> bool" where
  "request_ok env v req endpoint au \<longleftrightarrow>
     AWSEndpoint_Validate endpoint = None \<and> verifyRequestEndpoint (env_idna env) req endpoint = None \<and>
     (\<exists>u. rq_URL req = Some u \<and> querySigningPresent (url_RawQuery u) = Inr False) \<and>
     (\<exists>text. requestHeader (rq_Header req) ''authorization'' = (text, True, False) \<and>
        authorization_ok env v req endpoint text au)"

lemma verify_identity_ok:
  "verify_identity env v cancelled req endpoint = Inr au \<Longrightarrow> request_ok env v req endpoint au"
  by (auto simp: verify_identity_def request_ok_def split: sum.splits if_splits option.splits prod.splits
      intro: verify_authorization_ok)

text \<open>The stages of an accepted verification.\<close>

lemma verify_request_ok:
  assumes "verify_request env v cancelled fs req endpoint = (Inr vr, req', fs')"
  obtains au body payloadHash c where
    "verify_identity env v cancelled req endpoint = Inr au"
    "Verifier_payload env v fs req = ((Some body, payloadHash, vr_PayloadMode vr, None), req', fs')"
    "BuildCanonicalRequest (env_sha env) (Some req') (au_signed au) payloadHash = Inr c"
    "hex_decode (au_signature au) = Some (expected_signature env v au c)"
    "vr_Request vr = Some (setPayloadMode req' (vr_PayloadMode vr))" "vr_Endpoint vr = endpoint"
    "vr_Protocol vr = inferProtocol (Some req')" "vr_SigningScheme vr = SigningHeaderV4"
    "vr_SigningRegion vr = au_region au" "vr_SigningService vr = au_service au"
proof -
  obtain au where i: "verify_identity env v cancelled req endpoint = Inr au"
    using assms by (auto simp: verify_request_def split: sum.splits)
  obtain body ph mode err req1 fs1 where p: "Verifier_payload env v fs req = ((body, ph, mode, err), req1, fs1)"
    by (cases "Verifier_payload env v fs req") auto
  have e: "err = None"
    using assms i p by (auto simp: verify_request_def Let_def split: option.splits)
  then have "\<exists>b. body = Some b"
    using p by (auto simp: Verifier_payload_def Let_def split: sum.splits prod.splits if_splits)
  then obtain b where b: "body = Some b" by blast
  obtain c where c: "BuildCanonicalRequest (env_sha env) (Some req1) (au_signed au) ph = Inr c"
    using assms i p e by (auto simp: verify_request_def Let_def split: sum.splits)
  show thesis
    using assms i p e b c that [OF i, of b ph c]
    by (auto simp: verify_request_def Let_def split: if_splits)
qed

lemma Verify_ok:
  assumes "Verifier_Verify env (Some v) cancelled fs (Some req) endpoint = (Inr vr, req', fs')"
  obtains r' where "req' = Some r'" "verify_request env v cancelled fs req endpoint = (Inr vr, r', fs')"
  using assms that by (auto simp: Verifier_Verify_def split: sum.splits prod.splits)

section \<open>Authentication\<close>

text \<open>The authorization header of an accepted request and the signature in it.\<close>

lemma signed_by_authorization:
  assumes "verify_identity env v cancelled req endpoint = Inr au"
    and "hex_decode (au_signature au) = Some (expected_signature env v au c)"
    and "region = au_region au" "service = au_service au"
  shows "\<exists>text credential signedText signature date dateName t.
    requestHeader (rq_Header req) ''authorization'' = (text, True, False) \<and>
    parseAuthorization text = Inr (''AWS4-HMAC-SHA256'', credential, signedText, signature) \<and>
    parseCredential credential = Inr (fk_AccessKeyID (vf_fake v), date, region, service) \<and>
    parseSignedHeaders signedText = Inr (au_signed au) \<and>
    requestSigningTime (env_http_time env) (rq_Header req) = Inr (dateName, t) \<and>
    hex_decode signature = Some (signingKey (env_hmac env) (fk_SecretAccessKey (vf_fake v)) date region service
      (join [CHR 0x0A] [''AWS4-HMAC-SHA256'', format_amz t,
         date @ ''/'' @ region @ ''/'' @ service @ ''/aws4_request'', cn_Hash c]))"
proof -
  obtain authorization credential signedText dateName where
    "requestHeader (rq_Header req) ''authorization'' = (authorization, True, False)"
    "parseAuthorization authorization = Inr (''AWS4-HMAC-SHA256'', credential, signedText, au_signature au)"
    "parseCredential credential = Inr (fk_AccessKeyID (vf_fake v), au_date au, au_region au, au_service au)"
    "parseSignedHeaders signedText = Inr (au_signed au)"
    "requestSigningTime (env_http_time env) (rq_Header req) = Inr (dateName, au_time au)"
    using verify_identity_ok [OF assms(1)]
    by (auto simp: request_ok_def authorization_ok_def credential_ok_def time_ok_def)
  then show ?thesis
    using assms(2-4) unfolding expected_signature_def string_to_sign_def by blast
qed

text \<open>
  Property C22. Only the run's credential authenticates: an accepted request has one authorization
  header in the header-signing grammar, which names the run's access key; it carries the run's session
  token; and its signature is the HMAC, under the key derived from the run's secret and the scope, of
  the string to sign over the canonical request of the request that is handed on.
\<close>

theorem verify_authenticates:
  assumes "Verifier_Verify env (Some v) cancelled fs (Some req) endpoint = (Inr vr, req', fs')"
  shows "\<exists>text credential signedText signature date names t payloadHash c r'.
    req' = Some r' \<and> requestHeader (rq_Header req) ''authorization'' = (text, True, False) \<and>
    parseAuthorization text = Inr (''AWS4-HMAC-SHA256'', credential, signedText, signature) \<and>
    parseCredential credential =
      Inr (fk_AccessKeyID (vf_fake v), date, vr_SigningRegion vr, vr_SigningService vr) \<and>
    requestHeader (rq_Header req) ''x-amz-security-token'' = (fk_SessionToken (vf_fake v), True, False) \<and>
    parseSignedHeaders signedText = Inr names \<and>
    BuildCanonicalRequest (env_sha env) (Some r') names payloadHash = Inr c \<and>
    hex_decode signature = Some (signingKey (env_hmac env) (fk_SecretAccessKey (vf_fake v)) date
      (vr_SigningRegion vr) (vr_SigningService vr)
      (join [CHR 0x0A] [''AWS4-HMAC-SHA256'', format_amz t,
         date @ ''/'' @ vr_SigningRegion vr @ ''/'' @ vr_SigningService vr @ ''/aws4_request'',
         cn_Hash c]))"
proof -
  obtain r' where r': "req' = Some r'" "verify_request env v cancelled fs req endpoint = (Inr vr, r', fs')"
    using assms by (rule Verify_ok)
  obtain au ph c where s: "verify_identity env v cancelled req endpoint = Inr au"
    "BuildCanonicalRequest (env_sha env) (Some r') (au_signed au) ph = Inr c"
    "hex_decode (au_signature au) = Some (expected_signature env v au c)"
    "vr_SigningRegion vr = au_region au" "vr_SigningService vr = au_service au"
    using r'(2) by (rule verify_request_ok)
  from verify_identity_ok [OF s(1)] r'(1) s show ?thesis
    by (auto simp: request_ok_def authorization_ok_def credential_ok_def carries_token_def
        expected_signature_def string_to_sign_def) blast
qed

text \<open>
  Property C23. An accepted request is bound to its endpoint: the signing region and service are those
  of the endpoint, the authority of the request and the signed host normalise to the endpoint's host on
  port 443, and the result passes the validation that the pipeline repeats.
\<close>

theorem verify_endpoint_bound:
  assumes "Verifier_Verify env (Some v) cancelled fs (Some req) endpoint = (Inr vr, req', fs')"
  shows "VerifiedRequest_Validate vr = None \<and> vr_Endpoint vr = endpoint \<and>
    vr_SigningService vr = (if ep_SigningService endpoint = [] then ep_Service endpoint else ep_SigningService endpoint) \<and>
    vr_SigningRegion vr = (if ep_SigningRegion endpoint = [] then ep_Region endpoint else ep_SigningRegion endpoint) \<and>
    (\<exists>host. signedHeaderValue req ''host'' = Inr host \<and>
       NormalizeEndpointHost (env_idna env) host = Inr (ep_Host endpoint, 443)) \<and>
    (\<exists>u. rq_URL req = Some u \<and> \<not> url_User u \<and>
       NormalizeEndpointHost (env_idna env) (if rq_Host req = [] then url_Host u else rq_Host req) =
         Inr (ep_Host endpoint, 443))"
proof -
  obtain r' where r': "req' = Some r'" "verify_request env v cancelled fs req endpoint = (Inr vr, r', fs')"
    using assms by (rule Verify_ok)
  obtain au body ph where s: "verify_identity env v cancelled req endpoint = Inr au"
    "Verifier_payload env v fs req = ((Some body, ph, vr_PayloadMode vr, None), r', fs')"
    "vr_Request vr = Some (setPayloadMode r' (vr_PayloadMode vr))" "vr_Endpoint vr = endpoint"
    "vr_Protocol vr = inferProtocol (Some r')" "vr_SigningScheme vr = SigningHeaderV4"
    "vr_SigningRegion vr = au_region au" "vr_SigningService vr = au_service au"
    using r'(2) by (rule verify_request_ok)
  have ok: "request_ok env v req endpoint au" using verify_identity_ok [OF s(1)] .
  then have v: "AWSEndpoint_Validate endpoint = None" by (simp add: request_ok_def)
  have pair: "ep_SigningService endpoint = [] \<longleftrightarrow> ep_SigningRegion endpoint = []"
    using v by (auto simp: AWSEndpoint_Validate_def guard_None split: option.splits)
  have mode: "PayloadHashMode_Supported (vr_PayloadMode vr)"
    using s(2) by (auto simp: Verifier_payload_def PayloadHashMode_Supported_def Let_def
        split: sum.splits prod.splits if_splits)
  have proto: "AWSProtocol_Supported (vr_Protocol vr)"
    using s(5) by (simp add: inferProtocol_def AWSProtocol_Supported_def Let_def)
  have scope: "verifySigningScope endpoint (vr_SigningRegion vr) (vr_SigningService vr) = None"
    "validScopeRegion (vr_SigningRegion vr)" "validScopeService (vr_SigningService vr)"
    using ok s(7,8) by (auto simp: request_ok_def authorization_ok_def credential_ok_def)
  have ne: "vr_SigningRegion vr \<noteq> []" "vr_SigningService vr \<noteq> []"
    using scope(2,3) by (auto simp: validScopeRegion_def validScopeService_def ValidateSigningService_def)
  have g: "AWSEndpoint_IsGlobal endpoint \<Longrightarrow> ep_SigningRegion endpoint \<noteq> []"
    using scope(1) by (auto simp: verifySigningScope_def Let_def split: if_splits)
  have id: "vr_SigningService vr = (if ep_SigningService endpoint = [] then ep_Service endpoint else ep_SigningService endpoint)"
    "vr_SigningRegion vr = (if ep_SigningRegion endpoint = [] then ep_Region endpoint else ep_SigningRegion endpoint)"
    using scope(1) g by (auto simp: verifySigningScope_def Let_def split: if_splits)
  have "VerifiedRequest_Validate vr = None"
    using v mode proto ne id pair s(3,4,6)
    by (auto simp: VerifiedRequest_Validate_def SigningScheme_Supported_def split: option.split)
  moreover have "\<exists>host. signedHeaderValue req ''host'' = Inr host \<and>
      NormalizeEndpointHost (env_idna env) host = Inr (ep_Host endpoint, 443)"
    using ok by (auto simp: request_ok_def authorization_ok_def verifySignedHost_def
        split: if_splits sum.splits)
  moreover have "\<exists>u. rq_URL req = Some u \<and> \<not> url_User u \<and>
       NormalizeEndpointHost (env_idna env) (if rq_Host req = [] then url_Host u else rq_Host req) =
         Inr (ep_Host endpoint, 443)"
    using ok by (auto simp: request_ok_def verifyRequestEndpoint_def Let_def
        split: if_splits sum.splits option.splits prod.splits)
  ultimately show ?thesis using id s(4) by blast
qed

lemma canonical_names_sorted:
  assumes "BuildCanonicalRequest sha (Some r) names payloadHash = Inr c"
  shows "sorted_wrt (<) names"
proof -
  obtain h n where "CanonicalHeaders (Some r) names = Inr (h, n)"
    using assms by (rule BuildCanonicalRequest_ok)
  then show ?thesis
    using canonical_headers_loop_ok [of r "[]" "{}" names h]
    by (auto simp: CanonicalHeaders_def map_sum_id_Inr split: if_splits)
qed

text \<open>
  Property C24. An accepted request is fresh and signs what it relies on: the time its date header gives
  is within the configured skew of the verifier's clock and on the day of the credential scope in its
  authorization header, and the host, the date header that gave the time, and the session token are
  among the signed headers the authorization header lists, which are sorted and without repetition.
\<close>

theorem verify_fresh:
  assumes "Verifier_Verify env (Some v) cancelled fs (Some req) endpoint = (Inr vr, req', fs')"
  shows "\<exists>text credential signedText signature date names dateName t.
    requestHeader (rq_Header req) ''authorization'' = (text, True, False) \<and>
    parseAuthorization text = Inr (''AWS4-HMAC-SHA256'', credential, signedText, signature) \<and>
    parseCredential credential =
      Inr (fk_AccessKeyID (vf_fake v), date, vr_SigningRegion vr, vr_SigningService vr) \<and>
    parseSignedHeaders signedText = Inr names \<and>
    requestSigningTime (env_http_time env) (rq_Header req) = Inr (dateName, t) \<and>
    format_date t = date \<and> \<bar>time_sub (vf_clock v ()) t\<bar> \<le> vo_MaxClockSkew (vf_options v) \<and>
    {''host'', dateName, ''x-amz-security-token''} \<subseteq> set names \<and> sorted_wrt (<) names"
proof -
  obtain r' where r': "req' = Some r'" "verify_request env v cancelled fs req endpoint = (Inr vr, r', fs')"
    using assms by (rule Verify_ok)
  obtain au ph c where s: "verify_identity env v cancelled req endpoint = Inr au"
    "BuildCanonicalRequest (env_sha env) (Some r') (au_signed au) ph = Inr c"
    "vr_SigningRegion vr = au_region au" "vr_SigningService vr = au_service au"
    using r'(2) by (rule verify_request_ok)
  have "''host'' \<in> set (au_signed au)"
    using verify_identity_ok [OF s(1)]
    by (auto simp: request_ok_def authorization_ok_def verifySignedHost_def split: if_splits)
  with verify_identity_ok [OF s(1)] canonical_names_sorted [OF s(2)] s(3,4) show ?thesis
    by (fastforce simp: request_ok_def authorization_ok_def credential_ok_def time_ok_def)
qed

section \<open>The body\<close>

definition request_reader :: "'s body_request \<Rightarrow> 's option" where
  "request_reader req = (case br_Body req of Reader_body r \<Rightarrow> Some r | _ \<Rightarrow> None)"

text \<open>A new capture: the body holds what the request's reader delivered.\<close>

lemma CaptureRequestBody_new:
  fixes req :: "'s body_request"
  assumes "fresh_paths io" "br_captured req = None"
    and "CaptureRequestBody sha read io options fs req = (Inr b, req', fs')"
  shows "\<exists>data. delivered (or_noBody read) (request_reader req) data \<and> bd_hash b = sha data \<and>
    bd_size b = int (length data) \<and> body_content fs' b = Some data \<and> br_captured req' = Some b \<and>
    fs = (if bd_path b = [] then fs' else fs'(bd_path b := None)) \<and> \<not> bd_closed b"
proof -
  let ?o = "normalizedBodyOptions options"
  let ?rd = "case br_Body req of Reader_body r \<Rightarrow> Some r | _ \<Rightarrow> None"
  obtain b0 and v :: "'s req_body" where n: "NewBody sha read io ?o ?rd fs = (Inr b0, fs')" "newReader fs' b0 = (v, b)"
    "br_captured req' = Some b"
    using assms(2,3)
    by (auto simp: CaptureRequestBody_def setRequestBody_def Let_def split: if_splits sum.splits prod.splits)
  then obtain data where d: "delivered (or_noBody read) ?rd data"
    "body_holds sha (normalizedBodyOptions ?o) fs fs' b0 data"
    using NewBody_correct [OF assms(1), where sha = sha and read = read and options = ?o and rd = ?rd and fs = fs]
    by auto
  have "bd_hash b = bd_hash b0 \<and> bd_size b = bd_size b0 \<and> bd_path b = bd_path b0 \<and>
      bd_memory b = bd_memory b0 \<and> bd_closed b = bd_closed b0"
    using n(2) by (auto simp: newReader_def Body_Reader_def split: if_splits option.splits sum.splits)
  with d n(3) show ?thesis
    by (auto simp: body_holds_def body_content_def request_reader_def)
qed

lemma unhex_hex_digit: "n < 16 \<Longrightarrow> unhex (hex_digit n) = Some n"
proof -
  assume n: "n < 16"
  have b: "byte_between CHR ''0'' CHR ''9'' c \<longleftrightarrow> 48 \<le> ord c \<and> ord c \<le> 57"
    "byte_between CHR ''a'' CHR ''f'' c \<longleftrightarrow> 97 \<le> ord c \<and> ord c \<le> 102" for c
    by (rule between_iff)+
  have "ord (hex_digit n) = (if n < 10 then 48 + n else 87 + n)" using n by (simp add: hex_digit_def)
  then show ?thesis using n by (auto simp: unhex_def b)
qed

lemma hex_decode_encode: "hex_decode (hex_encode s) = Some s"
proof (induction s)
  case (Cons c s)
  have "ord c div 16 < 16" using ord_lt [of c] by linarith
  with Cons show ?case by (simp add: hex_encode_def unhex_hex_digit)
qed (simp add: hex_encode_def)

lemma request_header_loop_absent:
  "request_header_loop name h v0 p = (v, False, d) \<Longrightarrow> \<not> p \<and> v = v0"
  by (induction name h v0 p rule: request_header_loop.induct) (auto split: if_splits)

lemma requestHeader_absent: "requestHeader h name = (v, False, d) \<Longrightarrow> v = []"
  by (auto simp: requestHeader_def dest: request_header_loop_absent)

lemma trim_space_Nil [simp]: "trim_space [] = []"
  by (simp add: trim_space_def)

lemma payload_unsigned_allowed:
  "payload_headers v h = Inr ''UNSIGNED-PAYLOAD'' \<Longrightarrow> vo_AllowUnsignedPayload (vf_options v)"
  by (auto simp: payload_headers_def Let_def split: prod.splits if_splits dest: requestHeader_absent)

text \<open>
  Property C25. The signature covers the body: the body of an accepted request holds exactly the
  bytes its reader delivered, and the signature in the authorization header is the HMAC, under the key
  of the run's secret and the scope, of the string to sign over a canonical request whose payload hash is
  the hash of those bytes, unless the verifier was configured to accept unsigned payloads and the
  request asks for one, when the payload hash is \<^verbatim>\<open>UNSIGNED-PAYLOAD\<close>. The canonical request is that of the
  request that is handed on, over the headers the authorization header lists.
\<close>

theorem verify_body_bound:
  assumes "fresh_paths (env_io env)" "br_captured req = None"
    and "Verifier_Verify env (Some v) cancelled fs (Some req) endpoint = (Inr vr, req', fs')"
  shows "\<exists>r' b data text credential signedText signature date names dateName t payloadHash c.
    req' = Some r' \<and> br_captured r' = Some b \<and>
    delivered (or_noBody (env_read env)) (request_reader req) data \<and> body_content fs' b = Some data \<and>
    requestHeader (rq_Header req) ''authorization'' = (text, True, False) \<and>
    parseAuthorization text = Inr (''AWS4-HMAC-SHA256'', credential, signedText, signature) \<and>
    parseCredential credential =
      Inr (fk_AccessKeyID (vf_fake v), date, vr_SigningRegion vr, vr_SigningService vr) \<and>
    parseSignedHeaders signedText = Inr names \<and>
    requestSigningTime (env_http_time env) (rq_Header req) = Inr (dateName, t) \<and>
    BuildCanonicalRequest (env_sha env) (Some r') names payloadHash = Inr c \<and>
    hex_decode signature = Some (signingKey (env_hmac env) (fk_SecretAccessKey (vf_fake v)) date
      (vr_SigningRegion vr) (vr_SigningService vr)
      (join [CHR 0x0A] [''AWS4-HMAC-SHA256'', format_amz t,
         date @ ''/'' @ vr_SigningRegion vr @ ''/'' @ vr_SigningService vr @ ''/aws4_request'',
         cn_Hash c])) \<and>
    (if vr_PayloadMode vr = PayloadHashUnsigned
     then vo_AllowUnsignedPayload (vf_options v) \<and> payloadHash = ''UNSIGNED-PAYLOAD''
     else hex_decode payloadHash = Some (env_sha env data))"
proof -
  obtain r' where r': "req' = Some r'" "verify_request env v cancelled fs req endpoint = (Inr vr, r', fs')"
    using assms(3) by (rule Verify_ok)
  obtain au body ph c where i: "verify_identity env v cancelled req endpoint = Inr au"
    and s: "Verifier_payload env v fs req = ((Some body, ph, vr_PayloadMode vr, None), r', fs')"
    "BuildCanonicalRequest (env_sha env) (Some r') (au_signed au) ph = Inr c"
    and sig: "hex_decode (au_signature au) = Some (expected_signature env v au c)"
      "vr_SigningRegion vr = au_region au" "vr_SigningService vr = au_service au"
    using r'(2) by (rule verify_request_ok)
  obtain h where h: "payload_headers v (rq_Header req) = Inr h"
    using s(1) by (auto simp: Verifier_payload_def split: sum.splits)
  obtain options where cap: "CaptureRequestBody (env_sha env) (env_read env) (env_io env) options fs req =
      (Inr body, r', fs')"
    using s(1) h by (auto simp: Verifier_payload_def Let_def split: sum.splits prod.splits if_splits)
  obtain data where d: "delivered (or_noBody (env_read env)) (request_reader req) data"
    "bd_hash body = env_sha env data" "body_content fs' body = Some data" "br_captured r' = Some body"
    using CaptureRequestBody_new [OF assms(1,2) cap] by blast
  have u: "h = ''UNSIGNED-PAYLOAD'' \<Longrightarrow> vo_AllowUnsignedPayload (vf_options v)"
    using h payload_unsigned_allowed by blast
  have modes: "PayloadHashUnsigned \<noteq> PayloadHashSHA256" "PayloadHashUnsigned \<noteq> PayloadHashEmpty"
    by (simp_all add: PayloadHashUnsigned_def PayloadHashSHA256_def PayloadHashEmpty_def)
  have "if vr_PayloadMode vr = PayloadHashUnsigned
     then vo_AllowUnsignedPayload (vf_options v) \<and> ph = ''UNSIGNED-PAYLOAD''
     else hex_decode ph = Some (env_sha env data)"
    using s(1) h u modes d(2)
    by (auto simp: Verifier_payload_def Let_def Body_SHA256_def hex_decode_encode
        split: sum.splits prod.splits if_splits)
  with r'(1) s(2) d signed_by_authorization [OF i sig] show ?thesis by blast
qed

section \<open>Rejection\<close>

text \<open>
  \<open>owned fs0 fs r\<close>: the files \<open>fs\<close> are those of \<open>fs0\<close> and, while the captured body of \<open>r\<close> is open, its
  spool file.
\<close>

definition owned :: "files \<Rightarrow> files \<Rightarrow> 's body_request \<Rightarrow> bool" where
  "owned fs0 fs r \<longleftrightarrow>
     (case br_captured r of
        None \<Rightarrow> fs = fs0
      | Some b \<Rightarrow> if bd_closed b then fs = fs0
                  else fs0 = (if bd_path b = [] then fs else fs(bd_path b := None)))"

lemma owned_CloseBody:
  assumes "owned fs0 fs r" "CloseBody re None fs r = (e, r', fs')"
  shows "fs' = fs0 \<and> owned fs0 fs' r'"
  using assms by (auto simp: owned_def CloseBody_def Body_Close_def Let_def split: option.splits if_splits)

lemma owned_close_view:
  "owned fs0 fs r \<Longrightarrow>
     owned fs0 fs (r\<lparr>br_captured := map_option (close_view w) (br_captured r), br_Body := x\<rparr>)"
  by (auto simp: owned_def close_view_def split: option.splits req_body.splits body_reader.splits if_splits)

lemma owned_closeRequestBody:
  assumes "owned fs0 fs r" "closeRequestBody re None fs r = (r', fs')"
  shows "fs' = fs0 \<and> owned fs0 fs' r' \<and> br_Body r' = No_body"
proof -
  let ?r = "r\<lparr>br_captured := map_option (close_view (br_Body r)) (br_captured r), br_Body := No_body\<rparr>"
  obtain e where c: "CloseBody re None fs ?r = (e, r', fs')"
    using assms(2) by (cases "CloseBody re None fs ?r") (auto simp: closeRequestBody_def Let_def)
  moreover have "br_Body r' = No_body"
    using c by (auto simp: CloseBody_def split: option.splits prod.splits)
  ultimately show ?thesis using owned_CloseBody [OF owned_close_view [OF assms(1)]] by blast
qed

lemma owned_capture:
  assumes "fresh_paths io" "br_captured req = None" "io_remove io"
    and "CaptureRequestBody sha read io options fs req = (res, req', fs')"
  shows "owned fs fs' req'"
proof (cases res)
  case (Inr b)
  with CaptureRequestBody_new [OF assms(1,2)] assms(4) show ?thesis by (fastforce simp: owned_def)
next
  case (Inl e)
  then have "br_captured req' = None \<and> fs' = fs"
    using assms NewBody_correct [OF assms(1), where sha = sha and read = read and fs = fs and
        options = "normalizedBodyOptions options" and
        rd = "case br_Body req of Reader_body r \<Rightarrow> Some r | _ \<Rightarrow> None"]
    by (auto simp: CaptureRequestBody_def Let_def setRequestBody_def
        split: if_splits sum.splits prod.splits)
  then show ?thesis by (simp add: owned_def)
qed

lemma owned_payload:
  assumes "fresh_paths (env_io env)" "br_captured req = None" "env_remove_err env = None" "io_remove (env_io env)"
    and "Verifier_payload env v fs req = (out, req', fs')"
  shows "owned fs fs' req'"
proof (cases "payload_headers v (rq_Header req)")
  case (Inl a)
  then have "closeRequestBody (env_reader_err env) None fs req = (req', fs')"
    using assms(3,5) by (auto simp: Verifier_payload_def split: prod.splits)
  moreover have "owned fs fs req" using assms(2) by (simp add: owned_def)
  ultimately show ?thesis using owned_closeRequestBody by blast
next
  case (Inr h)
  let ?o = "\<lparr>bo_MaxInMemoryBytes = vo_MaxInMemoryBodyBytes (vf_options v),
     bo_MaxSpoolBytes = vo_MaxSpoolBodyBytes (vf_options v)\<rparr>"
  obtain res where "CaptureRequestBody (env_sha env) (env_read env) (env_io env) ?o fs req = (res, req', fs')"
    using Inr assms(5) by (auto simp: Verifier_payload_def Let_def split: sum.splits prod.splits if_splits)
  then show ?thesis by (rule owned_capture [OF assms(1,2,4)])
qed

text \<open>
  A rejected request leaves nothing behind: when verification fails, for whatever reason, and the spool file
  can be removed, every file is as it was before, and the request has no readable body left.
\<close>

theorem verify_reject_cleans:
  assumes "fresh_paths (env_io env)" "br_captured req = None" "env_remove_err env = None" "io_remove (env_io env)"
    and "Verifier_Verify env (Some v) cancelled fs (Some req) endpoint = (Inl e, req', fs')"
  shows "fs' = fs \<and> (\<exists>r'. req' = Some r' \<and> br_Body r' = No_body)"
proof -
  obtain e1 r1 fs1 where v: "verify_request env v cancelled fs req endpoint = (Inl e1, r1, fs1)"
    "\<exists>r'. req' = Some r' \<and> closeRequestBody (env_reader_err env) None fs1 r1 = (r', fs')"
    using assms(3,5) by (auto simp: Verifier_Verify_def split: sum.splits prod.splits)
  obtain out r2 fs2 where p: "Verifier_payload env v fs req = (out, r2, fs2)"
    by (cases "Verifier_payload env v fs req")
  have o2: "owned fs fs2 r2" by (rule owned_payload [OF assms(1-4) p])
  obtain e3 r3 fs3 where c: "CloseBody (env_reader_err env) None fs2 r2 = (e3, r3, fs3)"
    by (cases "CloseBody (env_reader_err env) None fs2 r2")
  have "(r1, fs1) \<in> {(req, fs), (r2, fs2), (r3, fs3)}"
    using v(1) p c assms(3)
    by (auto simp: verify_request_def Let_def split: sum.splits prod.splits option.splits if_splits)
  moreover have "owned fs fs req" using assms(2) by (simp add: owned_def)
  ultimately have "owned fs fs1 r1" using o2 owned_CloseBody [OF o2 c] by auto
  then show ?thesis using owned_closeRequestBody v(2) by blast
qed

section \<open>Presigned queries\<close>

lemma query_signing_loop_False:
  "query_signing_loop parts = Inr False \<Longrightarrow> part \<in> set parts \<Longrightarrow>
     decode_pair part = Some (k, x) \<Longrightarrow> to_lower k \<notin> set signing_parameters"
  by (induction parts)
    (auto simp: Let_def decode_pair_def split_pair_def split: sum.splits option.splits if_splits prod.splits)

lemma those_Some: "those xs = Some ys \<Longrightarrow> xs = map Some ys"
  by (induction xs arbitrary: ys) (auto split: option.splits)

text \<open>
  Signing parameters in the query are refused: no accepted request has a query parameter
  whose decoded name is one of the signing parameters in any letter case.
\<close>

theorem verify_no_presigning:
  assumes "Verifier_Verify env (Some v) cancelled fs (Some req) endpoint = (Inr vr, req', fs')"
    and "rq_URL req = Some u" "query_params (url_RawQuery u) = Some ps" "(k, x) \<in> set ps"
  shows "to_lower k \<notin> set signing_parameters"
proof -
  obtain r' where r': "verify_request env v cancelled fs req endpoint = (Inr vr, r', fs')"
    using assms(1) by (rule Verify_ok)
  obtain au where "verify_identity env v cancelled req endpoint = Inr au"
    using r' by (rule verify_request_ok)
  then have "request_ok env v req endpoint au" by (rule verify_identity_ok)
  then have q: "querySigningPresent (url_RawQuery u) = Inr False"
    using assms(2) by (auto simp: request_ok_def)
  show ?thesis
  proof (cases "url_RawQuery u = []")
    case True then show ?thesis using assms(3,4) by (simp add: query_params_def)
  next
    case False
    then have "map decode_pair (split_byte CHR ''&'' (url_RawQuery u)) = map Some ps"
      using assms(3) those_Some by (auto simp: query_params_def)
    then have "Some (k, x) \<in> set (map decode_pair (split_byte CHR ''&'' (url_RawQuery u)))"
      using assms(4) by simp
    then obtain part where "part \<in> set (split_byte CHR ''&'' (url_RawQuery u))" "decode_pair part = Some (k, x)"
      by auto
    then show ?thesis using q False query_signing_loop_False by (simp add: querySigningPresent_def)
  qed
qed
section \<open>Replay\<close>

lemma length_digits [simp]: "length (digits k n) = k"
  by (induction k arbitrary: n) simp_all

lemma string_to_sign_inject:
  assumes "string_to_sign a c = string_to_sign b d" "au_date a = au_date b" "au_region a = au_region b"
    "au_service a = au_service b"
  shows "cn_Hash c = cn_Hash d"
proof -
  have "length (format_amz t) = 16" for t by (simp add: format_amz_def format_date_def)
  then show ?thesis using assms by (auto simp: string_to_sign_def)
qed

text \<open>The authorization and the canonical request that a verification compares.\<close>

definition signed_material ::
  "'s verify_env \<Rightarrow> Verifier \<Rightarrow> bool \<Rightarrow> files \<Rightarrow> 's body_request \<Rightarrow> AWSEndpoint \<Rightarrow>
     (authorization \<times> 's body_request \<times> string \<times> Canonical) option" where
  "signed_material env v cancelled fs req endpoint =
     (case verify_identity env v cancelled req endpoint of
        Inl _ \<Rightarrow> None
      | Inr au \<Rightarrow>
          (case Verifier_payload env v fs req of ((body, payloadHash, mode, err), req1, fs1) \<Rightarrow>
             (case BuildCanonicalRequest (env_sha env) (Some req1) (au_signed au) payloadHash of
                Inl _ \<Rightarrow> None
              | Inr c \<Rightarrow> Some (au, req1, payloadHash, c))))"

lemma verify_material:
  assumes "Verifier_Verify env (Some v) cancelled fs (Some req) endpoint = (Inr vr, req', fs')"
    "signed_material env v cancelled fs req endpoint = Some (au, r, ph, c)"
  shows "verify_identity env v cancelled req endpoint = Inr au"
    "BuildCanonicalRequest (env_sha env) (Some r) (au_signed au) ph = Inr c"
    "hex_decode (au_signature au) = Some (expected_signature env v au c)" "req' = Some r"
proof -
  obtain r' where r': "req' = Some r'" "verify_request env v cancelled fs req endpoint = (Inr vr, r', fs')"
    using assms(1) by (rule Verify_ok)
  obtain au' body ph' c' where "verify_identity env v cancelled req endpoint = Inr au'"
    "Verifier_payload env v fs req = ((Some body, ph', vr_PayloadMode vr, None), r', fs')"
    "BuildCanonicalRequest (env_sha env) (Some r') (au_signed au') ph' = Inr c'"
    "hex_decode (au_signature au') = Some (expected_signature env v au' c')"
    using r'(2) by (rule verify_request_ok)
  with assms(2) r'(1) show "verify_identity env v cancelled req endpoint = Inr au"
    "BuildCanonicalRequest (env_sha env) (Some r) (au_signed au) ph = Inr c"
    "hex_decode (au_signature au) = Some (expected_signature env v au c)" "req' = Some r"
    by (auto simp: signed_material_def)
qed

lemma request_ok_scope:
  assumes "request_ok env v req endpoint au"
  obtains a cred st k where "requestHeader (rq_Header req) ''authorization'' = (a, True, False)"
    "parseAuthorization a = Inr (''AWS4-HMAC-SHA256'', cred, st, au_signature au)"
    "parseCredential cred = Inr (k, au_date au, au_region au, au_service au)"
  using assms that by (auto simp: request_ok_def authorization_ok_def credential_ok_def)

text \<open>
  A signature cannot be moved to another request: two requests that the same verifier
  accepts with the same authorization header have the same method, canonical path, query and payload
  hash, and the same values in the same signed headers, provided that the hash does not collide on
  the two canonical requests and the keyed hash not on the two strings to sign.
\<close>

theorem verify_replay_bound:
  assumes "Verifier_Verify env (Some v) cancelled fs (Some req) endpoint = (Inr vr, req', fs')"
    and "Verifier_Verify env (Some v) cancelled2 gs (Some req2) endpoint2 = (Inr vr2, req2', gs')"
    and "requestHeader (rq_Header req) ''authorization'' = requestHeader (rq_Header req2) ''authorization''"
    and "signed_material env v cancelled fs req endpoint = Some (au, r, ph, c)"
    and "signed_material env v cancelled2 gs req2 endpoint2 = Some (au2, r2, ph2, c2)"
    and "inj_on (env_sha env) {cn_Request c, cn_Request c2}"
    and "\<And>key. inj_on (env_hmac env key) {string_to_sign au c, string_to_sign au2 c2}"
    and "host_one_line r" "host_one_line r2"
  shows "rq_Method r = rq_Method r2 \<and> CanonicalURI (Some r) = CanonicalURI (Some r2) \<and>
    CanonicalQuery (Some r) = CanonicalQuery (Some r2) \<and> au_signed au = au_signed au2 \<and>
    signed_values r (au_signed au) = signed_values r2 (au_signed au) \<and> ph = ph2"
proof -
  note s = verify_material [OF assms(1,4)] and t = verify_material [OF assms(2,5)]
  obtain a cred st k where 1: "requestHeader (rq_Header req) ''authorization'' = (a, True, False)"
    "parseAuthorization a = Inr (''AWS4-HMAC-SHA256'', cred, st, au_signature au)"
    "parseCredential cred = Inr (k, au_date au, au_region au, au_service au)"
    using verify_identity_ok [OF s(1)] by (rule request_ok_scope)
  obtain a2 cred2 st2 k2 where 2: "requestHeader (rq_Header req2) ''authorization'' = (a2, True, False)"
    "parseAuthorization a2 = Inr (''AWS4-HMAC-SHA256'', cred2, st2, au_signature au2)"
    "parseCredential cred2 = Inr (k2, au_date au2, au_region au2, au_service au2)"
    using verify_identity_ok [OF t(1)] by (rule request_ok_scope)
  have "a = a2" using 1(1) 2(1) assms(3) by simp
  have "Inr (''AWS4-HMAC-SHA256'', cred, st, au_signature au) =
      (Inr (''AWS4-HMAC-SHA256'', cred2, st2, au_signature au2) ::
        sig_error + string \<times> string \<times> string \<times> string)"
    by (rule trans [OF 1(2) [symmetric]]) (simp only: \<open>a = a2\<close> 2(2))
  then have "cred = cred2" "au_signature au = au_signature au2" by simp_all
  then have au: "au_signature au = au_signature au2" "au_date au = au_date au2" "au_region au = au_region au2"
    "au_service au = au_service au2"
    using trans [OF 1(3) [symmetric] 2(3) [folded \<open>cred = cred2\<close>]] by simp_all
  have "expected_signature env v au c = expected_signature env v au2 c2" using s(3) t(3) au(1) by simp
  then have "string_to_sign au c = string_to_sign au2 c2"
    using au inj_onD [OF assms(7)] by (simp add: expected_signature_def signingKey_def Let_def)
  then have h: "cn_Hash c = cn_Hash c2" using string_to_sign_inject au by blast
  have "cn_Hash c = hex_encode (env_sha env (cn_Request c))"
    using s(2) by (rule BuildCanonicalRequest_ok)
  moreover have "cn_Hash c2 = hex_encode (env_sha env (cn_Request c2))"
    using t(2) by (rule BuildCanonicalRequest_ok)
  ultimately have "env_sha env (cn_Request c) = env_sha env (cn_Request c2)"
    using h by - (rule hex_encode_inj, simp)
  then have "cn_Request c = cn_Request c2" by (rule inj_onD [OF assms(6)]) simp_all
  then show ?thesis by (rule canonical_request_determines [OF s(2) assms(8) t(2) assms(9)])
qed
section \<open>Signing times\<close>

lemma digits_are_digits: "list_all is_digit_byte (digits k n)"
proof (induction k arbitrary: n)
  case (Suc k)
  have "is_digit_byte (char_of (48 + n mod 10))" by (simp add: is_digit_byte_iff)
  with Suc show ?case by simp
qed simp

lemma atoi_digits: "n < 10 ^ k \<Longrightarrow> atoi (digits k n) = n"
proof (induction k arbitrary: n)
  case (Suc k)
  then have "n div 10 < 10 ^ k" by (simp add: less_mult_imp_div_less mult.commute)
  then have "atoi (digits k (n div 10)) = n div 10" by (rule Suc.IH)
  then show ?case by (simp add: atoi_def)
qed (simp add: atoi_def)

lemma take_digits_digits: "n < 10 ^ k \<Longrightarrow> take_digits k (digits k n @ s) = Some (n, s)"
  by (simp add: take_digits_def digits_are_digits atoi_digits)

lemma digits_atoi: "list_all is_digit_byte s \<Longrightarrow> digits (length s) (atoi s) = s"
proof (induction s rule: rev_induct)
  case (snoc c s)
  then have c: "48 \<le> ord c" "ord c \<le> 57" by (simp_all add: is_digit_byte_iff)
  define k where "k = ord c - 48"
  have k: "k < 10" "char_of (48 + k) = c" using c by (simp_all add: k_def)
  have "atoi (s @ [c]) = atoi s * 10 + k" by (simp add: atoi_def k_def)
  moreover have "(atoi s * 10 + k) div 10 = atoi s" "(atoi s * 10 + k) mod 10 = k"
    using k(1) by simp_all
  ultimately show ?case using snoc k(2) by simp
qed (simp add: atoi_def)

lemma take_digits_Some: "take_digits k s = Some (n, r) \<Longrightarrow> s = digits k n @ r"
  using digits_atoi [of "take k s"] append_take_drop_id [of k s]
  by (auto simp: take_digits_def split: if_splits)

definition valid_time :: "time \<Rightarrow> bool" where
  "valid_time t \<longleftrightarrow> 0 \<le> tm_year t \<and> tm_year t < 10000 \<and> 1 \<le> tm_month t \<and> tm_month t \<le> 12 \<and>
     1 \<le> tm_day t \<and> tm_day t \<le> days_in_month (tm_year t) (tm_month t) \<and> tm_hour t < 24 \<and>
     tm_min t < 60 \<and> tm_sec t < 60"

lemma days_in_month_le: "days_in_month y m \<le> 31"
  by (simp add: days_in_month_def)

lemma atoi_bound: "list_all is_digit_byte u \<Longrightarrow> atoi u < 10 ^ length u"
proof (induction u rule: rev_induct)
  case (snoc c u)
  then have "ord c \<le> 57" "atoi u < 10 ^ length u" by (simp_all add: is_digit_byte_iff)
  then show ?case by (simp add: atoi_def)
qed (simp add: atoi_def)

text \<open>The fields of a text that is read.\<close>

lemma parse_amz_fields:
  assumes p: "parse_amz s = Some t"
  obtains y mo d h mi sec s6 ns where
    "s = digits 4 y @ digits 2 mo @ digits 2 d @ ''T'' @ digits 2 h @ digits 2 mi @ digits 2 sec @ s6"
    "take_fraction s6 = (ns, ''Z'')" "y < 10000" "1 \<le> mo" "mo \<le> 12" "1 \<le> d"
    "d \<le> days_in_month (int y) mo" "h < 24" "mi < 60" "sec < 60"
    "t = \<lparr>tm_year = int y, tm_month = mo, tm_day = d, tm_hour = h, tm_min = mi, tm_sec = sec, tm_nanos = ns\<rparr>"
proof -
  note pd = p [unfolded parse_amz_def]
  obtain y s1 where 1: "take_digits 4 s = Some (y, s1)"
    using pd by (cases "take_digits 4 s") auto
  obtain mo s2 where 2: "take_digits 2 s1 = Some (mo, s2)"
    using pd 1 by (cases "take_digits 2 s1") auto
  obtain d s3 where 3: "take_digits 2 s2 = Some (d, s3)"
    using pd 1 2 by (cases "take_digits 2 s2") auto
  have 4: "has_prefix s3 ''T''" using pd 1 2 3 by (auto split: if_splits)
  obtain h s4 where 5: "take_digits 2 (drop 1 s3) = Some (h, s4)"
    using pd 1 2 3 4 by (cases "take_digits 2 (drop 1 s3)") auto
  obtain mi s5 where 6: "take_digits 2 s4 = Some (mi, s5)"
    using pd 1 2 3 4 5 by (cases "take_digits 2 s4") auto
  obtain sec s6 where 7: "take_digits 2 s5 = Some (sec, s6)"
    using pd 1 2 3 4 5 6 by (cases "take_digits 2 s5") auto
  obtain ns s7 where 8: "take_fraction s6 = (ns, s7)" by (cases "take_fraction s6")
  have 9: "s7 = ''Z''" "1 \<le> mo" "mo \<le> 12" "1 \<le> d" "d \<le> days_in_month (int y) mo" "h < 24" "mi < 60" "sec < 60"
    "t = \<lparr>tm_year = int y, tm_month = mo, tm_day = d, tm_hour = h, tm_min = mi, tm_sec = sec, tm_nanos = ns\<rparr>"
    using pd 1 2 3 4 5 6 7 8 by (simp_all split: if_splits)
  have "s3 = CHR ''T'' # drop 1 s3" using 4 by (cases s3) (auto simp: has_prefix_def)
  then have s: "s = digits 4 y @ digits 2 mo @ digits 2 d @ ''T'' @ digits 2 h @ digits 2 mi @ digits 2 sec @ s6"
    using take_digits_Some [OF 1] take_digits_Some [OF 2] take_digits_Some [OF 3]
      take_digits_Some [OF 5] take_digits_Some [OF 6] take_digits_Some [OF 7] by simp
  have "y < 10000" using atoi_bound [of "take 4 s"] 1 by (auto simp: take_digits_def split: if_splits)
  then show thesis using that [OF s] 8 9 by simp
qed

text \<open>
  Signing times round-trip: every calendar time is read back from its text, and every
  text that is read without a fraction of a second is the text of the time it is read as, so a signed
  date header and the date in the string to sign cannot disagree.
\<close>

theorem amz_time_roundtrip:
  "(valid_time t \<and> tm_nanos t = 0 \<longrightarrow> parse_amz (format_amz t) = Some t) \<and>
   (parse_amz s = Some t \<and> CHR ''.'' \<notin> set s \<and> CHR '','' \<notin> set s \<longrightarrow>
      valid_time t \<and> tm_nanos t = 0 \<and> format_amz t = s)"
proof (intro conjI impI)
  assume t: "valid_time t \<and> tm_nanos t = 0"
  then have b: "nat (tm_year t) < 10 ^ 4" "tm_month t < 10 ^ 2" "tm_day t < 10 ^ 2" "tm_hour t < 10 ^ 2"
    "tm_min t < 10 ^ 2" "tm_sec t < 10 ^ 2"
    using days_in_month_le [of "tm_year t" "tm_month t"] by (auto simp: valid_time_def)
  have "take_fraction ''Z'' = (0, ''Z'')" by (simp add: take_fraction_def)
  then show "parse_amz (format_amz t) = Some t"
    using t b by (simp add: parse_amz_def format_amz_def format_date_def take_digits_digits has_prefix_def
        valid_time_def)
next
  assume p: "parse_amz s = Some t \<and> CHR ''.'' \<notin> set s \<and> CHR '','' \<notin> set s"
  obtain y mo d h mi sec s6 ns where
    s: "s = digits 4 y @ digits 2 mo @ digits 2 d @ ''T'' @ digits 2 h @ digits 2 mi @ digits 2 sec @ s6"
    and d: "take_fraction s6 = (ns, ''Z'')" "y < 10000" "1 \<le> mo" "mo \<le> 12" "1 \<le> d"
    "d \<le> days_in_month (int y) mo" "h < 24" "mi < 60" "sec < 60"
    "t = \<lparr>tm_year = int y, tm_month = mo, tm_day = d, tm_hour = h, tm_min = mi, tm_sec = sec, tm_nanos = ns\<rparr>"
    using p by (blast elim: parse_amz_fields)
  have f: "ns = 0" "s6 = ''Z''"
    using p d(1) s by (auto simp: take_fraction_def Let_def split: list.splits if_splits)
  with d f s show "valid_time t" "tm_nanos t = 0" "format_amz t = s"
    by (simp_all add: valid_time_def format_amz_def format_date_def)
qed

section \<open>A concrete verification\<close>

definition sample_fake :: FakeCredential where
  "sample_fake = \<lparr>fk_AccessKeyID = ''KORDN0123456789A'', fk_SecretAccessKey = ''secret'', fk_SessionToken = ''token''\<rparr>"

definition sample_now :: time where
  "sample_now = \<lparr>tm_year = 2025, tm_month = 1, tm_day = 2, tm_hour = 3, tm_min = 4, tm_sec = 5, tm_nanos = 0\<rparr>"

definition sample_verifier :: Verifier where
  "sample_verifier = \<lparr>vf_fake = sample_fake, vf_clock = (\<lambda>_. sample_now), vf_options = default_verify_options\<rparr>"

definition sample_env :: "string verify_env" where
  "sample_env = \<lparr>env_sha = (\<lambda>s. replicate 32 CHR 0x11), env_hmac = (\<lambda>k m. replicate 32 CHR 0x22), env_idna = Inr,
     env_http_time = (\<lambda>_. None), env_read = string_reader, env_io = sample_io, env_reader_err = None,
     env_remove_err = None\<rparr>"

definition sample_authorization :: string where
  "sample_authorization = ''AWS4-HMAC-SHA256 Credential=KORDN0123456789A/20250102/us-east-1/s3/aws4_request, SignedHeaders=host;x-amz-date;x-amz-security-token, Signature='' @ replicate 64 CHR ''2''"

definition sample_signed :: "string body_request" where
  "sample_signed = \<lparr>rq_Method = ''POST'', rq_URL = Some sample_url, rq_Host = ep_Host sample_endpoint,
     rq_Header = [(''Authorization'', [sample_authorization]), (''X-Amz-Date'', [''20250102T030400Z'']),
       (''X-Amz-Security-Token'', [''token''])], rq_ContentLength = 3, br_Body = Reader_body ''abc'', br_captured = None\<rparr>"


text \<open>Comparing header names in lower case.\<close>

lemma sample_request_headers:
  "requestHeader (rq_Header sample_signed) ''authorization'' = (sample_authorization, True, False)"
  "requestHeader (rq_Header sample_signed) ''x-amz-date'' = (''20250102T030400Z'', True, False)"
  "requestHeader (rq_Header sample_signed) ''x-amz-security-token'' = (''token'', True, False)"
  "requestHeader (rq_Header sample_signed) ''content-type'' = ([], False, False)"
  "requestHeader (rq_Header sample_signed) ''x-amz-content-sha256'' = ([], False, False)"
  unfolding requestHeader_def sample_signed_def
  by (simp_all add: equal_fold_ascii is_ascii_def ord_def ascii_lower_byte_def is_upper_byte_iff
      char_of_def bit_0)

lemma sample_header_values:
  "headerValues (rq_Header sample_signed) ''host'' = ([], False)"
  "headerValues (rq_Header sample_signed) ''x-amz-date'' = ([''20250102T030400Z''], True)"
  "headerValues (rq_Header sample_signed) ''x-amz-security-token'' = ([''token''], True)"
  unfolding sample_signed_def
  by (simp_all add: equal_fold_ascii is_ascii_def ord_def ascii_lower_byte_def is_upper_byte_iff
      char_of_def bit_0)

lemma sample_parse: "parseAuthorization sample_authorization = Inr (''AWS4-HMAC-SHA256'', ''KORDN0123456789A/20250102/us-east-1/s3/aws4_request'',
   ''host;x-amz-date;x-amz-security-token'', replicate 64 CHR ''2'')" by code_simp
lemma sample_cred: "parseCredential ''KORDN0123456789A/20250102/us-east-1/s3/aws4_request'' = Inr (''KORDN0123456789A'', ''20250102'', ''us-east-1'', ''s3'')" by code_simp
lemma sample_names: "parseSignedHeaders ''host;x-amz-date;x-amz-security-token'' = Inr [''host'', ''x-amz-date'', ''x-amz-security-token'']" by code_simp
lemma sample_time: "parse_amz (trim_space ''20250102T030400Z'') = Some (sample_now\<lparr>tm_sec := 0\<rparr>)" by code_simp
lemma sample_date: "format_date (sample_now\<lparr>tm_sec := 0\<rparr>) = ''20250102''" by code_simp
lemma sample_sub: "time_sub sample_now (sample_now\<lparr>tm_sec := 0\<rparr>) = 5000000000" by code_simp
lemma sample_alg: "\<not> algorithm_error sample_authorization" by code_simp
lemma sample_host: "NormalizeEndpointHost Inr (ep_Host sample_endpoint) = Inr (ep_Host sample_endpoint, 443)"
  by code_simp

lemma sample_scope: "validScopeRegion ''us-east-1''" "validScopeService ''s3''"
  "verifySigningScope sample_endpoint ''us-east-1'' ''s3'' = None"
  by code_simp+
definition sample_au :: authorization where
  "sample_au = \<lparr>au_signature = replicate 64 CHR ''2'', au_date = ''20250102'', au_region = ''us-east-1'',
     au_service = ''s3'', au_signed = [''host'', ''x-amz-date'', ''x-amz-security-token''],
     au_time = sample_now\<lparr>tm_sec := 0\<rparr>\<rparr>"

lemma sample_fields:
  "rq_Method sample_signed = ''POST''" "rq_URL sample_signed = Some sample_url"
  "rq_Host sample_signed = ep_Host sample_endpoint" "rq_ContentLength sample_signed = 3"
  "br_Body sample_signed = Reader_body ''abc''" "br_captured sample_signed = None"
  "env_idna sample_env = Inr" "env_http_time sample_env = (\<lambda>_. None)"
  "env_hmac sample_env = (\<lambda>k m. replicate 32 CHR 0x22)" "env_sha sample_env = (\<lambda>s. replicate 32 CHR 0x11)"
  "env_read sample_env = string_reader" "env_io sample_env = sample_io"
  "vf_fake sample_verifier = sample_fake" "vf_clock sample_verifier = (\<lambda>_. sample_now)"
  "vf_options sample_verifier = default_verify_options"
  "fk_AccessKeyID sample_fake = ''KORDN0123456789A''" "fk_SessionToken sample_fake = ''token''"
  "ep_Host sample_endpoint \<noteq> []"
  by (simp_all add: sample_signed_def sample_env_def sample_verifier_def sample_fake_def sample_endpoint_def)

lemma sample_host_value: "signedHeaderValue sample_signed ''host'' = Inr (ep_Host sample_endpoint)"
  by (simp add: signedHeaderValue_def host_value_def sample_header_values sample_fields)

lemma sample_identity:
  "verify_identity sample_env sample_verifier False sample_signed sample_endpoint = Inr sample_au"
proof -
  have c: "verify_credential sample_verifier (rq_Header sample_signed) sample_endpoint
      ''KORDN0123456789A/20250102/us-east-1/s3/aws4_request'' = Inr (''20250102'', ''us-east-1'', ''s3'')"
    unfolding verify_credential_def sample_cred
    by (simp add: sample_fields sample_request_headers sample_scope)
  have "requestSigningTime (\<lambda>_. None) (rq_Header sample_signed) = Inr (''x-amz-date'', sample_now\<lparr>tm_sec := 0\<rparr>)"
    by (simp add: requestSigningTime_def sample_request_headers sample_time)
  moreover have "\<not> time_is_zero sample_now" by (simp add: time_is_zero_def sample_now_def)
  ultimately have t: "verify_time sample_env sample_verifier (rq_Header sample_signed)
      [''host'', ''x-amz-date'', ''x-amz-security-token''] ''20250102'' = Inr (sample_now\<lparr>tm_sec := 0\<rparr>)"
    by (simp add: verify_time_def sample_fields sample_date sample_sub default_verify_options_def
        defaultClockSkew_def second_ns_def)
  have h: "verifySignedHost Inr sample_signed [''host'', ''x-amz-date'', ''x-amz-security-token''] sample_endpoint = None"
    by (simp add: verifySignedHost_def sample_host_value sample_host)
  have a: "verify_authorization sample_env sample_verifier sample_signed sample_endpoint sample_authorization =
      Inr sample_au"
    by (simp add: verify_authorization_def sample_alg sample_parse c sample_names t h sample_fields sample_au_def)
  have e: "verifyRequestEndpoint Inr sample_signed sample_endpoint = None"
    by (simp add: verifyRequestEndpoint_def sample_fields sample_url_def sample_host)
  have q: "querySigningPresent (url_RawQuery sample_url) = Inr False" by code_simp
  have "sample_authorization \<noteq> []" by (simp add: sample_authorization_def)
  then show ?thesis
    by (simp add: verify_identity_def sample_fields sample_endpoint_valid e q sample_request_headers a)
qed

lemma sample_capture:
  "\<exists>b r fs'. CaptureRequestBody (env_sha sample_env) string_reader sample_io
     \<lparr>bo_MaxInMemoryBytes = vo_MaxInMemoryBodyBytes default_verify_options,
      bo_MaxSpoolBytes = vo_MaxSpoolBodyBytes default_verify_options\<rparr> Map.empty sample_signed = (Inr b, r, fs') \<and>
     bd_hash b = replicate 32 CHR 0x11 \<and> bd_size b = 3 \<and>
     rq_Method r = rq_Method sample_signed \<and> rq_URL r = rq_URL sample_signed \<and>
     rq_Host r = rq_Host sample_signed \<and> rq_Header r = rq_Header sample_signed"
proof -
  let ?o = "\<lparr>bo_MaxInMemoryBytes = vo_MaxInMemoryBodyBytes default_verify_options,
      bo_MaxSpoolBytes = vo_MaxSpoolBodyBytes default_verify_options\<rparr>"
  have o: "0 < bo_MaxInMemoryBytes ?o" "bo_MaxInMemoryBytes ?o \<le> bo_MaxSpoolBytes ?o" "3 \<le> bo_MaxSpoolBytes ?o"
    by (simp_all add: default_verify_options_def defaultBodyMemory_def defaultBodySpool_def)
  obtain b fs' where n: "NewBody (env_sha sample_env) string_reader sample_io ?o (Some ''abc'') Map.empty = (Inr b, fs')"
    "body_holds (env_sha sample_env) ?o Map.empty fs' b ''abc''"
    using NewBody_string [OF sample_io_ok sample_io_fresh o(1,2), of "''abc''" "env_sha sample_env"] o(3)
    by (auto split: if_splits)
  have id: "normalizedBodyOptions ?o = ?o" using o by (intro normalizedBodyOptions_id) auto
  obtain w b' where r: "newReader fs' b = (w :: string req_body, b')" "bd_hash b' = bd_hash b" "bd_size b' = bd_size b"
    by (cases "newReader fs' b :: string req_body \<times> Body")
      (auto simp: newReader_def Body_Reader_def split: if_splits option.splits sum.splits)
  show ?thesis
    using n o r id
    by (simp add: CaptureRequestBody_def sample_fields setRequestBody_def Let_def body_holds_def)
qed

lemma sample_sha_hex: "hex_encode (replicate 32 CHR 0x11) = replicate 64 CHR ''1''"
  by code_simp

lemma sample_hex: "validPayloadHash (replicate 64 CHR ''1'')"
  "hex_decode (replicate 64 CHR ''2'') = Some (replicate 32 CHR 0x22)"
  by code_simp+

lemma sample_canonical_names:
  assumes "rq_Method r = rq_Method sample_signed" "rq_URL r = rq_URL sample_signed"
    "rq_Host r = rq_Host sample_signed" "rq_Header r = rq_Header sample_signed"
  shows "\<exists>c. BuildCanonicalRequest sha (Some r) [''host'', ''x-amz-date'', ''x-amz-security-token'']
    (replicate 64 CHR ''1'') = Inr c"
proof -
  have v: "map (signedHeaderValue r) [''host'', ''x-amz-date'', ''x-amz-security-token''] =
      map Inr [ep_Host sample_endpoint, ''20250102T030400Z'', ''token'']"
    using assms by (simp add: signedHeaderValue_def host_value_def sample_header_values sample_fields
        validHeaderValue_def ord_def)
  have n: "list_all validHeaderName [''host'', ''x-amz-date'', ''x-amz-security-token'']" by code_simp
  have "canonical_headers_loop r [] {} [''host'', ''x-amz-date'', ''x-amz-security-token''] =
     Inr (header_block (zip [''host'', ''x-amz-date'', ''x-amz-security-token'']
       [ep_Host sample_endpoint, ''20250102T030400Z'', ''token'']))"
    by (rule canonical_headers_loop_complete [OF n _ _ _ v]) simp_all
  moreover have "CanonicalURI (Some r) = Inr ''/a%20b''"
  proof -
    have "CanonicalURI (Some r) = CanonicalURI (Some sample_http)"
      using assms by (simp add: CanonicalURI_def request_url_def sample_fields sample_http_def
          sample_url_def escaped_path_def)
    then show ?thesis by (simp add: sample_uri)
  qed
  moreover have "CanonicalQuery (Some r) = Inr ''a=1&b=2''"
    using assms sample_query by (simp add: CanonicalQuery_def request_url_def sample_fields sample_http_def)
  moreover have "\<not> contains_any ''POST'' bad_method_bytes"
    by (simp add: contains_any_def bad_method_bytes_def)
  ultimately show ?thesis
    using assms sample_hex(1)
    by (simp add: BuildCanonicalRequest_def CanonicalHeaders_def sample_fields Let_def)
qed
text \<open>The sample request is accepted, and the same request with a wrong date is rejected.\<close>

lemma sample_accepted:
  "\<exists>vr r fs'. Verifier_Verify sample_env (Some sample_verifier) False Map.empty (Some sample_signed)
     sample_endpoint = (Inr vr, Some r, fs') \<and> rq_Header r = rq_Header sample_signed \<and>
     (\<exists>c. signed_material sample_env sample_verifier False Map.empty sample_signed sample_endpoint =
       Some (sample_au, r, replicate 64 CHR ''1'', c)) \<and> host_one_line r"
proof -
  obtain b r fs' where c: "CaptureRequestBody (env_sha sample_env) string_reader sample_io
     \<lparr>bo_MaxInMemoryBytes = vo_MaxInMemoryBodyBytes default_verify_options,
      bo_MaxSpoolBytes = vo_MaxSpoolBodyBytes default_verify_options\<rparr> Map.empty sample_signed = (Inr b, r, fs')"
    "bd_hash b = replicate 32 CHR 0x11" "bd_size b = 3"
    and r: "rq_Method r = rq_Method sample_signed" "rq_URL r = rq_URL sample_signed"
    "rq_Host r = rq_Host sample_signed" "rq_Header r = rq_Header sample_signed"
    using sample_capture by blast
  have h: "payload_headers sample_verifier (rq_Header sample_signed) = Inr []"
    by (simp add: payload_headers_def sample_request_headers)
  have "hex_decode (replicate 64 CHR ''1'') = Some (replicate 32 CHR 0x11)"
    using hex_decode_encode [of "replicate 32 CHR 0x11"] by (simp only: sample_sha_hex)
  then have p: "Verifier_payload sample_env sample_verifier Map.empty sample_signed =
      ((Some b, replicate 64 CHR ''1'', PayloadHashSHA256, None), r, fs')"
    using c by (simp add: Verifier_payload_def h sample_fields Body_SHA256_def Body_Size_def sample_sha_hex Let_def)
  obtain cn where cn: "BuildCanonicalRequest (env_sha sample_env) (Some r) (au_signed sample_au)
      (replicate 64 CHR ''1'') = Inr cn"
    using sample_canonical_names [OF r, of "env_sha sample_env"] by (auto simp: sample_au_def)
  have "expected_signature sample_env sample_verifier sample_au cn = replicate 32 CHR 0x22"
    by (simp add: expected_signature_def signingKey_def sample_fields Let_def)
  moreover have "au_signature sample_au = replicate 64 CHR ''2''" by (simp add: sample_au_def)
  moreover have "host_one_line r"
    using r by (simp add: host_one_line_def sample_fields sample_url_def) (simp add: sample_endpoint_def)
  ultimately show ?thesis
    using p cn r(4) sample_hex(2)
    by (simp add: Verifier_Verify_def verify_request_def sample_identity signed_material_def Let_def)
qed

lemma verify_authenticates_witness:
  "\<exists>vr r fs'. Verifier_Verify sample_env (Some sample_verifier) False Map.empty (Some sample_signed)
     sample_endpoint = (Inr vr, Some r, fs') \<and>
     requestHeader (rq_Header sample_signed) ''x-amz-security-token'' = (fk_SessionToken sample_fake, True, False)"
proof -
  obtain vr r fs' where v: "Verifier_Verify sample_env (Some sample_verifier) False Map.empty
      (Some sample_signed) sample_endpoint = (Inr vr, Some r, fs')" using sample_accepted by blast
  from verify_authenticates [OF v] v show ?thesis by (auto simp: sample_fields)
qed

lemma verify_endpoint_bound_witness:
  "\<exists>vr r fs'. Verifier_Verify sample_env (Some sample_verifier) False Map.empty (Some sample_signed)
     sample_endpoint = (Inr vr, Some r, fs') \<and> VerifiedRequest_Validate vr = None \<and>
     vr_Endpoint vr = sample_endpoint"
proof -
  obtain vr r fs' where v: "Verifier_Verify sample_env (Some sample_verifier) False Map.empty
      (Some sample_signed) sample_endpoint = (Inr vr, Some r, fs')" using sample_accepted by blast
  from verify_endpoint_bound [OF v] v show ?thesis by blast
qed

lemma verify_fresh_witness:
  "\<exists>dateName t. requestSigningTime (env_http_time sample_env) (rq_Header sample_signed) = Inr (dateName, t) \<and>
     \<bar>time_sub sample_now t\<bar> \<le> defaultClockSkew"
proof -
  obtain vr r fs' where v: "Verifier_Verify sample_env (Some sample_verifier) False Map.empty
      (Some sample_signed) sample_endpoint = (Inr vr, Some r, fs')" using sample_accepted by blast
  have "vo_MaxClockSkew default_verify_options = defaultClockSkew" by (simp add: default_verify_options_def)
  then show ?thesis using verify_fresh [OF v] by (auto simp: sample_fields)
qed

lemma verify_body_bound_witness:
  "\<exists>data. delivered (or_noBody string_reader) (request_reader sample_signed) data \<and> data = ''abc''"
proof -
  obtain vr r fs' where v: "Verifier_Verify sample_env (Some sample_verifier) False Map.empty
      (Some sample_signed) sample_endpoint = (Inr vr, Some r, fs')" using sample_accepted by blast
  have "fresh_paths (env_io sample_env)" by (simp add: sample_fields sample_io_fresh)
  from verify_body_bound [OF this sample_fields(6) v] show ?thesis
    using delivered_string [of "request_reader sample_signed"]
    by (auto simp: sample_fields request_reader_def)
qed

lemma verify_no_presigning_witness:
  "query_params (url_RawQuery sample_url) = Some [(''b'', ''2''), (''a'', ''1'')] \<and>
   to_lower ''b'' \<notin> set signing_parameters"
proof -
  obtain vr r fs' where v: "Verifier_Verify sample_env (Some sample_verifier) False Map.empty
      (Some sample_signed) sample_endpoint = (Inr vr, Some r, fs')" using sample_accepted by blast
  have q: "query_params (url_RawQuery sample_url) = Some [(''b'', ''2''), (''a'', ''1'')]" by code_simp
  show ?thesis using verify_no_presigning [OF v sample_fields(2) q, of "''b''" "''2''"] q by simp
qed

lemma verify_reject_cleans_witness:
  "\<exists>e req' fs'. Verifier_Verify sample_env (Some sample_verifier) True Map.empty (Some sample_signed)
     sample_endpoint = (Inl e, req', fs') \<and> fs' = Map.empty"
proof -
  obtain e req' fs' where v: "Verifier_Verify sample_env (Some sample_verifier) True Map.empty
      (Some sample_signed) sample_endpoint = (Inl e, req', fs')"
    by (cases "close_request sample_env Map.empty sample_signed")
      (auto simp: Verifier_Verify_def verify_request_def verify_identity_def)
  have "fresh_paths (env_io sample_env)" "env_remove_err sample_env = None" "io_remove (env_io sample_env)"
    by (simp_all add: sample_env_def sample_io_fresh) (simp add: sample_io_def)
  from verify_reject_cleans [OF this(1) sample_fields(6) this(2,3) v] v show ?thesis by blast
qed

lemma verify_replay_bound_witness:
  "\<exists>vr (r :: string body_request) fs'. Verifier_Verify sample_env (Some sample_verifier) False Map.empty
     (Some sample_signed) sample_endpoint = (Inr vr, Some r, fs') \<and> rq_Method r = rq_Method r"
proof -
  obtain vr r fs' c where v: "Verifier_Verify sample_env (Some sample_verifier) False Map.empty
      (Some sample_signed) sample_endpoint = (Inr vr, Some r, fs')"
    "signed_material sample_env sample_verifier False Map.empty sample_signed sample_endpoint =
       Some (sample_au, r, replicate 64 CHR ''1'', c)" "host_one_line r"
    using sample_accepted by blast
  have "rq_Method r = rq_Method r"
    by (rule verify_replay_bound [OF v(1) v(1) refl v(2) v(2) _ _ v(3) v(3), THEN conjunct1]) simp_all
  with v(1) show ?thesis by blast
qed

lemma amz_time_roundtrip_witness:
  "valid_time sample_now \<and> parse_amz (format_amz sample_now) = Some sample_now"
proof -
  have "valid_time sample_now" "tm_nanos sample_now = 0" by code_simp+
  then show ?thesis using amz_time_roundtrip by blast
qed

end
