(* ===== verification/Audit_Event.thy ===== *)
theory Audit_Event
  imports Sigv4_Verify
begin

text \<open>
  Audit events, \<^verbatim>\<open>src/internal/audit/event.go\<close>: the event record with its validation per event type,
  and the copy of IAM requirements into an event with their resources redacted. Durations are
  integers (nanoseconds) where the code has floating-point milliseconds; the metrics snapshot is a
  type parameter; the random identifiers are arguments. The HMAC of resource names is a parameter.

  The properties: an event is valid exactly when the fields of its type, and no others, are there; a
  redacted requirement shows a resource only in the modes that ask for it, and keeps everything the
  policy decision rests on.
\<close>

section \<open>Types\<close>

definition SchemaVersion :: string where "SchemaVersion = ''kordn.audit/v1''"

definition RunStarted :: string where "RunStarted = ''run.started''"
definition RunEnded :: string where "RunEnded = ''run.ended''"
definition RequestDecision :: string where "RequestDecision = ''aws.request.decision''"
definition ForwardError :: string where "ForwardError = ''aws.request.forward_error''"
definition AuthenticationFailed :: string where "AuthenticationFailed = ''proxy.authentication_failed''"
definition UnsupportedRequest :: string where "UnsupportedRequest = ''proxy.unsupported_request''"
definition WriterFailed :: string where "WriterFailed = ''audit.writer_failed''"
definition CleanupFailed :: string where "CleanupFailed = ''runtime.cleanup_failed''"

lemmas event_type_defs = RunStarted_def RunEnded_def RequestDecision_def ForwardError_def
  AuthenticationFailed_def UnsupportedRequest_def WriterFailed_def CleanupFailed_def

record RootProcess =
  rp_PID :: int
  rp_Argv0 :: string
  rp_CommandHash :: string

record RequestInfo =
  ri_Host :: string
  ri_Partition :: string
  ri_Service :: string
  ri_Operation :: string
  ri_Region :: string
  ri_Protocol :: string
  ri_Method :: string
  ri_PayloadBytes :: int

record Requirement =
  ar_Action :: string
  ar_Resources :: "string list"
  ar_ScopeKind :: string
  ar_Dependent :: bool

record MappingInfo =
  mi_Confidence :: string
  mi_MapperVersion :: string
  mi_IamLiveVersion :: string
  mi_AuthorizationDataVersion :: string

record DecisionInfo =
  ad_Result :: string
  ad_ReasonCode :: string
  ad_MatchedRuleIDs :: "string list"
  ad_PolicyHash :: string

record UpstreamInfo =
  ui_Profile :: string
  ui_PrincipalARN :: string
  ui_HTTPStatus :: int
  ui_AWSRequestID :: string

record TimingInfo =
  ti_Decode :: int
  ti_Map :: int
  ti_Policy :: int
  ti_LocalTotal :: int
  ti_Upstream :: int

record 'm Event =
  ev_SchemaVersion :: string
  ev_EventID :: string
  ev_RunID :: string
  ev_Timestamp :: time
  ev_EventType :: string
  ev_RootProcess :: "RootProcess option"
  ev_ConnectionID :: string
  ev_Request :: "RequestInfo option"
  ev_IAMRequirements :: "Requirement list option"
  ev_Mapping :: "MappingInfo option"
  ev_Decision :: "DecisionInfo option"
  ev_Upstream :: "UpstreamInfo option"
  ev_Timing :: "TimingInfo option"
  ev_Status :: string
  ev_ErrorCode :: string
  ev_ExitCode :: "int option"
  ev_DurationMS :: int
  ev_Metrics :: "'m option"

text \<open>The errors of an audit writer, as far as callers tell them apart.\<close>

datatype audit_error = ErrBackpressure | Audit_error string

text \<open>\<^verbatim>\<open>len(e.IAMRequirements)\<close>, where a nil slice is \<^const>\<open>None\<close>.\<close>

definition requirement_list :: "'m Event \<Rightarrow> Requirement list" where
  "requirement_list e = (case ev_IAMRequirements e of None \<Rightarrow> [] | Some rs \<Rightarrow> rs)"

section \<open>Validation\<close>

definition isHex :: "string \<Rightarrow> bool" where
  "isHex v \<longleftrightarrow> length v = 64 \<and>
     list_all (\<lambda>r. (48 \<le> r \<and> r \<le> 57) \<or> (97 \<le> r \<and> r \<le> 102)) (runes v)"

definition validHash :: "string \<Rightarrow> bool" where
  "validHash v \<longleftrightarrow> length v = 71 \<and> has_prefix v ''sha256:'' \<and> isHex (drop 7 v)"

definition validateRoot :: "RootProcess \<Rightarrow> go_error" where
  "validateRoot r =
     (if rp_PID r < 1 \<or> rp_Argv0 r = [] \<or> length (rp_Argv0 r) > 256 \<or> \<not> validHash (rp_CommandHash r)
      then Some ''invalid root process'' else None)"

definition Requirement_Validate :: "Requirement \<Rightarrow> go_error" where
  "Requirement_Validate r =
     (if ar_Action r = [] \<or> ar_Resources r = [] \<or> \<not> ScopeKind_Valid (ar_ScopeKind r)
      then Some ''invalid audit IAM requirement''
      else first_err (\<lambda>x. if x = [] then Some ''empty audit resource'' else None) (ar_Resources r))"

definition RequestInfo_Validate :: "RequestInfo \<Rightarrow> go_error" where
  "RequestInfo_Validate r =
     (if trim_space (ri_Host r) = [] \<or> ri_Partition r = [] \<or> ri_Service r = [] \<or> ri_Operation r = []
         \<or> \<not> AWSProtocol_Supported (ri_Protocol r) \<or> ri_Method r = [] \<or> ri_PayloadBytes r < 0
      then Some ''invalid request audit information'' else None)"

definition validate_run_started :: "'m Event \<Rightarrow> go_error" where
  "validate_run_started e =
     (if ev_ConnectionID e \<noteq> [] \<or> ev_Request e \<noteq> None \<or> requirement_list e \<noteq> [] \<or> ev_Mapping e \<noteq> None
         \<or> ev_Decision e \<noteq> None \<or> ev_Timing e \<noteq> None \<or> ev_Status e \<noteq> [] \<or> ev_ErrorCode e \<noteq> []
         \<or> ev_ExitCode e \<noteq> None \<or> ev_DurationMS e \<noteq> 0 \<or> \<not> Option.is_none (ev_Metrics e)
      then Some ''run.started contains fields for another event''
      else
        (case (ev_RootProcess e, ev_Upstream e) of
           (Some root, Some up) \<Rightarrow>
             (case validateRoot root of
                Some err \<Rightarrow> Some err
              | None \<Rightarrow>
                  if ui_Profile up = [] then Some ''run.started profile is required'' else None)
         | _ \<Rightarrow> Some ''run.started is incomplete''))"

definition validate_run_ended :: "'m Event \<Rightarrow> go_error" where
  "validate_run_ended e =
     (if ev_ConnectionID e \<noteq> [] \<or> ev_Request e \<noteq> None \<or> requirement_list e \<noteq> [] \<or> ev_Mapping e \<noteq> None
         \<or> ev_Decision e \<noteq> None \<or> ev_Timing e \<noteq> None \<or> ev_ErrorCode e \<noteq> [] \<or> ev_Upstream e \<noteq> None
         \<or> Option.is_none (ev_Metrics e)
      then Some ''run.ended contains fields for another event''
      else
        (case (ev_RootProcess e, ev_ExitCode e) of
           (Some root, Some code) \<Rightarrow>
             if ev_Status e = [] then Some ''run.ended is incomplete''
             else
               (case validateRoot root of
                  Some err \<Rightarrow> Some err
                | None \<Rightarrow> if code < 0 \<or> code > 255 then Some ''run exit code is invalid'' else None)
         | _ \<Rightarrow> Some ''run.ended is incomplete''))"

definition validate_decision :: "'m Event \<Rightarrow> go_error" where
  "validate_decision e =
     (if ev_RootProcess e \<noteq> None \<or> ev_Upstream e \<noteq> None \<or> ev_Status e \<noteq> [] \<or> ev_ErrorCode e \<noteq> []
         \<or> ev_ExitCode e \<noteq> None \<or> ev_DurationMS e \<noteq> 0 \<or> \<not> Option.is_none (ev_Metrics e)
      then Some ''decision event contains fields for another event''
      else if ev_ConnectionID e = [] \<or> requirement_list e = [] \<or> ev_Timing e = None then
        Some ''decision event is incomplete''
      else
        (case (ev_Request e, ev_Mapping e, ev_Decision e) of
           (Some r, Some m, Some d) \<Rightarrow>
             (case RequestInfo_Validate r of
                Some err \<Rightarrow> Some err
              | None \<Rightarrow>
                  if ad_Result d \<noteq> ''allow'' \<and> ad_Result d \<noteq> ''deny'' then
                    Some ''decision result is invalid''
                  else if \<not> validHash (ad_PolicyHash d) then Some ''decision policy hash is invalid''
                  else if \<not> MappingConfidence_Valid (mi_Confidence m) \<or> mi_MapperVersion m = [] then
                    Some ''decision mapping is incomplete''
                  else first_err Requirement_Validate (requirement_list e))
         | _ \<Rightarrow> Some ''decision event is incomplete''))"

definition validate_forward_error :: "'m Event \<Rightarrow> go_error" where
  "validate_forward_error e =
     (if ev_RootProcess e \<noteq> None \<or> ev_IAMRequirements e \<noteq> None \<or> ev_Mapping e \<noteq> None
         \<or> ev_Decision e \<noteq> None \<or> \<not> Option.is_none (ev_Metrics e)
      then Some ''forward error event contains fields for another event''
      else
        (case ev_Request e of
           None \<Rightarrow> Some ''forward error event is incomplete''
         | Some r \<Rightarrow>
             if ev_ConnectionID e = [] \<or> ev_ErrorCode e = [] then
               Some ''forward error event is incomplete''
             else RequestInfo_Validate r))"

text \<open>The fields that proxy and failure events must not have.\<close>

definition foreign_fields :: "'m Event \<Rightarrow> bool" where
  "foreign_fields e \<longleftrightarrow>
     ev_RootProcess e \<noteq> None \<or> ev_Request e \<noteq> None \<or> ev_IAMRequirements e \<noteq> None \<or> ev_Mapping e \<noteq> None
     \<or> ev_Decision e \<noteq> None \<or> ev_Upstream e \<noteq> None \<or> ev_Timing e \<noteq> None \<or> ev_Status e \<noteq> []
     \<or> ev_ExitCode e \<noteq> None \<or> ev_DurationMS e \<noteq> 0 \<or> \<not> Option.is_none (ev_Metrics e)"

definition Event_Validate :: "'m Event \<Rightarrow> go_error" where
  "Event_Validate e =
     (if ev_SchemaVersion e \<noteq> SchemaVersion \<or> ev_EventID e = [] \<or> length (ev_EventID e) > 128
         \<or> ev_RunID e = [] \<or> length (ev_RunID e) > 128 \<or> ev_EventType e = []
         \<or> time_is_zero (ev_Timestamp e)
      then Some ''invalid audit identity''
      else if ev_EventType e = RunStarted then validate_run_started e
      else if ev_EventType e = RunEnded then validate_run_ended e
      else if ev_EventType e = RequestDecision then validate_decision e
      else if ev_EventType e = ForwardError then validate_forward_error e
      else if ev_EventType e = AuthenticationFailed \<or> ev_EventType e = UnsupportedRequest then
        (if foreign_fields e then Some ''proxy event contains fields for another event''
         else if ev_ConnectionID e = [] \<or> ev_ErrorCode e = [] then Some ''proxy event is incomplete''
         else None)
      else if ev_EventType e = WriterFailed \<or> ev_EventType e = CleanupFailed then
        (if foreign_fields e \<or> ev_ConnectionID e \<noteq> [] then
           Some ''failure event contains fields for another event''
         else if ev_ErrorCode e = [] then Some ''failure event is incomplete''
         else None)
      else Some ''unsupported audit event type'')"

section \<open>Construction\<close>

definition NewEvent :: "string \<Rightarrow> time \<Rightarrow> string \<Rightarrow> string \<Rightarrow> 'm Event" where
  "NewEvent newID now runID typ =
     \<lparr>ev_SchemaVersion = SchemaVersion, ev_EventID = newID, ev_RunID = runID, ev_Timestamp = now,
      ev_EventType = typ, ev_RootProcess = None, ev_ConnectionID = [], ev_Request = None,
      ev_IAMRequirements = None, ev_Mapping = None, ev_Decision = None, ev_Upstream = None,
      ev_Timing = None, ev_Status = [], ev_ErrorCode = [], ev_ExitCode = None, ev_DurationMS = 0,
      ev_Metrics = None\<rparr>"

definition audit_requirements ::
  "IAMRequirement list \<Rightarrow> (IAMRequirement \<Rightarrow> string \<Rightarrow> string) \<Rightarrow> Requirement list" where
  "audit_requirements reqs redact =
     map (\<lambda>r. \<lparr>ar_Action = rq_Action r, ar_Resources = map (redact r) (rq_Resources r),
               ar_ScopeKind = rq_ScopeKind r, ar_Dependent = rq_Dependent r\<rparr>) reqs"

definition HashResourceForRun :: "(string \<Rightarrow> string \<Rightarrow> string) \<Rightarrow> string \<Rightarrow> string \<Rightarrow> string" where
  "HashResourceForRun hmac runID resource =
     ''hmac-sha256:'' @ hex_encode (hmac (''kordn-audit-resource'' @ [CHR 0x00] @ runID) resource)"

definition redact_for_run ::
  "(string \<Rightarrow> string \<Rightarrow> string) \<Rightarrow> string \<Rightarrow> bool \<Rightarrow> bool \<Rightarrow> IAMRequirement \<Rightarrow> string \<Rightarrow> string" where
  "redact_for_run hmac runID logARNs hashNames r s =
     (if rq_ScopeKind r = ScopeKnownGlobal \<and> s = ''*'' then s
      else if hashNames then HashResourceForRun hmac runID s
      else if logARNs then s
      else ''[REDACTED]'')"

definition RequirementsForRun ::
  "(string \<Rightarrow> string \<Rightarrow> string) \<Rightarrow> string \<Rightarrow> IAMRequirement list \<Rightarrow> bool \<Rightarrow> bool \<Rightarrow> Requirement list" where
  "RequirementsForRun hmac runID reqs logARNs hashNames =
     audit_requirements reqs (redact_for_run hmac runID logARNs hashNames)"

end
