(* ===== verification/Cache_Keys.thy ===== *)
theory Cache_Keys
  imports LRU_Cache Aws_Types Go_Json
begin

text \<open>
  The cache keys of \<^verbatim>\<open>src/internal/cache/keys.go\<close>: the length-prefixed canonical text of a list of
  parts, its hash, the keys built from it, and the four caches of a run. SHA-256 is a parameter.
  \<^verbatim>\<open>RequirementsKey\<close> walks its argument by reflection; its only caller passes a slice of
  \<^verbatim>\<open>awsrequest.IAMRequirement\<close>, on which the walk reads the five fields by name.
\<close>

section \<open>Keys\<close>

definition nul :: char where
  "nul = CHR 0x00"

definition key_part :: "string \<Rightarrow> string" where
  "key_part p = itoa (length p) @ '':'' @ p @ [nul]"

definition CanonicalKey :: "string list \<Rightarrow> string" where
  "CanonicalKey parts = concat (map key_part parts)"

definition HashKey :: "(string \<Rightarrow> string) \<Rightarrow> string list \<Rightarrow> string" where
  "HashKey sha256 parts = hex_encode (sha256 (CanonicalKey parts))"

definition condition_part :: "string \<times> string list \<Rightarrow> string" where
  "condition_part kv = CanonicalKey [fst kv, join [nul] (sort (snd kv))]"

definition conditions_key :: "(string \<times> string list) list \<Rightarrow> string" where
  "conditions_key hints = join [nul] (map condition_part (sort_key fst hints))"

definition requirement_item :: "IAMRequirement \<Rightarrow> string" where
  "requirement_item r = CanonicalKey [rq_Action r, rq_ScopeKind r, sprint_bool (rq_Dependent r),
     join [nul] (sort (rq_Resources r)), conditions_key (rq_ConditionHint r)]"

definition requirements_parts :: "IAMRequirement list \<Rightarrow> string list" where
  "requirements_parts reqs = ''requirements'' # sort (map requirement_item reqs)"

definition RequirementsKey :: "(string \<Rightarrow> string) \<Rightarrow> IAMRequirement list \<Rightarrow> string" where
  "RequirementsKey sha256 reqs = HashKey sha256 (requirements_parts reqs)"

record EndpointKey =
  ek_RunID :: string
  ek_Host :: string
  ek_Partition :: string
  ek_Region :: string
  ek_Service :: string
  ek_Account :: string
  ek_Operation :: string

definition endpoint_parts :: "EndpointKey \<Rightarrow> string list" where
  "endpoint_parts k = [''endpoint'', ek_RunID k, ek_Host k, ek_Partition k, ek_Region k,
     ek_Service k, ek_Account k, ek_Operation k]"

definition EndpointKey_String :: "(string \<Rightarrow> string) \<Rightarrow> EndpointKey \<Rightarrow> string" where
  "EndpointKey_String sha256 k = HashKey sha256 (endpoint_parts k)"

record LeafKey =
  lk_RunID :: string
  lk_Host :: string
  lk_Identity :: string

definition LeafKey_String :: "(string \<Rightarrow> string) \<Rightarrow> LeafKey \<Rightarrow> string" where
  "LeafKey_String sha256 k = HashKey sha256 [''leaf'', lk_RunID k, lk_Host k, lk_Identity k]"

record OperationKey =
  ok_RunID :: string
  ok_Service :: string
  ok_Operation :: string
  ok_MapperVersion :: string
  ok_DataVersion :: string

definition OperationKey_String :: "(string \<Rightarrow> string) \<Rightarrow> OperationKey \<Rightarrow> string" where
  "OperationKey_String sha256 k = HashKey sha256 [''operation'', ok_RunID k, ok_Service k,
     ok_Operation k, ok_MapperVersion k, ok_DataVersion k]"

record DecisionKey =
  dk_RunID :: string
  dk_Endpoint :: EndpointKey
  dk_PolicyHash :: string
  dk_MapperVersion :: string
  dk_Requirements :: string

definition decision_parts :: "(string \<Rightarrow> string) \<Rightarrow> DecisionKey \<Rightarrow> string list" where
  "decision_parts sha256 k = [''decision'', dk_RunID k, EndpointKey_String sha256 (dk_Endpoint k),
     dk_PolicyHash k, dk_MapperVersion k, dk_Requirements k]"

definition DecisionKey_String :: "(string \<Rightarrow> string) \<Rightarrow> DecisionKey \<Rightarrow> string" where
  "DecisionKey_String sha256 k = HashKey sha256 (decision_parts sha256 k)"

section \<open>The caches of a run\<close>

record 'a RunCaches =
  rc_Endpoints :: "(string, 'a) LRU option"
  rc_Leaves :: "(string, 'a) LRU option"
  rc_Operations :: "(string, 'a) LRU option"
  rc_Decisions :: "(string, 'a) LRU option"

record CacheOptions =
  EndpointCapacity :: int
  LeafCapacity :: int
  OperationCapacity :: int
  DecisionCapacity :: int

definition default_capacity :: "int \<Rightarrow> int" where
  "default_capacity n = (if n \<le> 0 then 256 else n)"

definition NewRunCaches :: "CacheOptions \<Rightarrow> 'a RunCaches go_result" where
  "NewRunCaches opts =
     (case NewLRU (default_capacity (EndpointCapacity opts)) of Inl err \<Rightarrow> Inl err | Inr e \<Rightarrow>
      case NewLRU (default_capacity (LeafCapacity opts)) of Inl err \<Rightarrow> Inl err | Inr l \<Rightarrow>
      case NewLRU (default_capacity (OperationCapacity opts)) of Inl err \<Rightarrow> Inl err | Inr opn \<Rightarrow>
      case NewLRU (default_capacity (DecisionCapacity opts)) of Inl err \<Rightarrow> Inl err | Inr d \<Rightarrow>
      Inr \<lparr>rc_Endpoints = Some e, rc_Leaves = Some l, rc_Operations = Some opn, rc_Decisions = Some d\<rparr>)"

definition RunCaches_Clear :: "'a RunCaches option \<Rightarrow> 'a RunCaches option" where
  "RunCaches_Clear caches = map_option (\<lambda>c. \<lparr>rc_Endpoints = LRU_Clear (rc_Endpoints c),
     rc_Leaves = LRU_Clear (rc_Leaves c), rc_Operations = LRU_Clear (rc_Operations c),
     rc_Decisions = LRU_Clear (rc_Decisions c)\<rparr>) caches"

section \<open>Lemmas\<close>

lemma colon_not_digit: "list_all is_digit_byte s \<Longrightarrow> CHR '':'' \<notin> set s"
  by (auto simp: list_all_iff is_digit_byte_iff ord_def)

lemma first_colon_unique:
  "a @ CHR '':'' # b = a' @ CHR '':'' # b' \<Longrightarrow> CHR '':'' \<notin> set a \<Longrightarrow> CHR '':'' \<notin> set a' \<Longrightarrow>
     a = a' \<and> b = b'"
  by (induction a arbitrary: a') (auto simp: Cons_eq_append_conv)

lemma readable_key_part: "readable UNIV key_part"
  unfolding readable_def
proof (intro ballI allI impI)
  fix p q u v
  assume "key_part p @ u = key_part q @ v"
  then have eq: "itoa (length p) @ CHR '':'' # (p @ nul # u) = itoa (length q) @ CHR '':'' # (q @ nul # v)"
    by (simp add: key_part_def)
  have "CHR '':'' \<notin> set (itoa n)" for n using colon_not_digit [OF itoa_digits] .
  with first_colon_unique [OF eq] have e: "itoa (length p) = itoa (length q)" "p @ nul # u = q @ nul # v"
    by auto
  then have "length p = length q" by (simp add: itoa_inject)
  with e(2) show "p = q \<and> u = v" by simp
qed

lemma readable_concat_inj:
  assumes "readable UNIV enc" "\<And>x. enc x \<noteq> []"
  shows "concat (map enc xs) = concat (map enc ys) \<Longrightarrow> xs = ys"
proof (induction xs arbitrary: ys)
  case Nil
  then show ?case using assms(2) by (cases ys) auto
next
  case (Cons x xs)
  then obtain y zs where y: "ys = y # zs" using assms(2) by (cases ys) auto
  with Cons.prems have "enc x @ concat (map enc xs) = enc y @ concat (map enc zs)" by simp
  from readableD [OF assms(1) UNIV_I UNIV_I this] Cons.IH y show ?case by blast
qed

lemma CanonicalKey_inj: "CanonicalKey xs = CanonicalKey ys \<longleftrightarrow> xs = ys"
  using readable_concat_inj [OF readable_key_part, of xs ys]
  by (auto simp: CanonicalKey_def key_part_def)

text \<open>SHA-256 does not collide on the canonical texts of the lists of parts \<open>A\<close>.\<close>

definition collision_free :: "(string \<Rightarrow> string) \<Rightarrow> string list set \<Rightarrow> bool" where
  "collision_free sha256 A \<longleftrightarrow> inj_on sha256 (CanonicalKey ` A)"

lemma HashKey_inj:
  assumes "collision_free sha256 A" "xs \<in> A" "ys \<in> A" "HashKey sha256 xs = HashKey sha256 ys"
  shows "xs = ys"
proof -
  have "sha256 (CanonicalKey xs) = sha256 (CanonicalKey ys)"
    using assms(4) hex_encode_inj by (simp add: HashKey_def)
  then have "CanonicalKey xs = CanonicalKey ys"
    using assms(1-3) by (auto simp: collision_free_def dest: inj_onD)
  then show ?thesis by (simp add: CanonicalKey_inj)
qed

lemma NewLRU_default: "\<exists>c. NewLRU (default_capacity n) = Inr c"
  by (simp add: NewLRU_def default_capacity_def)


text \<open>The resources of a requirement whose joined text can be split again.\<close>

definition separable :: "string list \<Rightarrow> bool" where
  "separable ws \<longleftrightarrow> list_all (\<lambda>w. w \<noteq> [] \<and> nul \<notin> set w) ws"

lemma separable_join_Nil: "separable ws \<Longrightarrow> join [nul] ws = [] \<longleftrightarrow> ws = []"
  by (cases ws; cases "tl ws") (auto simp: separable_def)

lemma separable_split: "separable ws \<Longrightarrow> ws \<noteq> [] \<Longrightarrow> split_byte nul (join [nul] ws) = ws"
  by (intro split_byte_join) (auto simp: separable_def list_all_iff)

lemma separable_join_inj:
  assumes "separable xs" "separable ys" "join [nul] xs = join [nul] ys"
  shows "xs = ys"
proof (cases "xs = []")
  case True
  then have "join [nul] ys = []" using assms(3) by simp
  with True show ?thesis using separable_join_Nil [OF assms(2)] by simp
next
  case False
  then have "ys \<noteq> []" using separable_join_Nil [OF assms(1)] assms(3) by auto
  with False separable_split [OF assms(1)] separable_split [OF assms(2)] assms(3) show ?thesis by metis
qed

definition requirement_view :: "IAMRequirement \<Rightarrow> string \<times> string \<times> bool \<times> string list \<times> string" where
  "requirement_view r = (rq_Action r, rq_ScopeKind r, rq_Dependent r, sort (rq_Resources r),
     conditions_key (rq_ConditionHint r))"

lemma sprint_bool_inject: "sprint_bool a = sprint_bool b \<longleftrightarrow> a = b"
  by (cases a; cases b) (simp_all add: sprint_bool_def)

lemma separable_sort: "separable (sort ws) = separable ws"
  by (simp add: separable_def list_all_iff)

lemma requirement_item_view:
  assumes "separable (rq_Resources r)" "separable (rq_Resources s)" "requirement_item r = requirement_item s"
  shows "requirement_view r = requirement_view s"
  using assms separable_join_inj [of "sort (rq_Resources r)" "sort (rq_Resources s)"]
  by (simp add: requirement_item_def CanonicalKey_inj requirement_view_def separable_sort
      sprint_bool_inject)

text \<open>Equal items have equal views, so equal multisets of items give equal multisets of views.\<close>

lemma mset_map_transfer:
  assumes "image_mset f M = image_mset f N"
    "\<And>x y. x \<in> set_mset M \<Longrightarrow> y \<in> set_mset N \<Longrightarrow> f x = f y \<Longrightarrow> g x = g y"
  shows "image_mset g M = image_mset g N"
  using assms
proof (induction M arbitrary: N)
  case empty
  then show ?case by simp
next
  case (add x M)
  then have "f x \<in># image_mset f N" by (metis image_mset_add_mset union_single_eq_member)
  then obtain y where y: "y \<in># N" "f y = f x" by auto
  then obtain N' where N: "N = add_mset y N'" by (metis insert_DiffM)
  have "image_mset f M = image_mset f N'" using add.prems(1) N y(2) by simp
  then have "image_mset g M = image_mset g N'" using add.prems(2) N by (intro add.IH) auto
  moreover have "g x = g y" using add.prems(2) [of x y] N y(2) by simp
  ultimately show ?case using N by simp
qed

lemma RequirementsKey_view:
  assumes "\<forall>r \<in> set rs \<union> set ss. separable (rq_Resources r)"
    and "collision_free sha256 {requirements_parts rs, requirements_parts ss}"
    and k: "RequirementsKey sha256 rs = RequirementsKey sha256 ss"
  shows "mset (map requirement_view rs) = mset (map requirement_view ss)"
proof -
  from HashKey_inj [OF assms(2) _ _ k [unfolded RequirementsKey_def]]
  have "sort (map requirement_item rs) = sort (map requirement_item ss)"
    by (simp add: requirements_parts_def)
  then have "image_mset requirement_item (mset rs) = image_mset requirement_item (mset ss)"
    by (metis mset_map mset_sort)
  then have "image_mset requirement_view (mset rs) = image_mset requirement_view (mset ss)"
    by (rule mset_map_transfer) (use assms(1) requirement_item_view in auto)
  then show ?thesis by simp
qed

section \<open>Properties\<close>

text \<open>
  The canonical text of a list of parts is unambiguous: no two different lists of byte
  strings have the same text, whatever bytes the parts contain.
\<close>

theorem canonical_key_injective: "CanonicalKey xs = CanonicalKey ys \<longleftrightarrow> xs = ys"
  by (rule CanonicalKey_inj)

text \<open>
  Decision keys never cross a boundary: when SHA-256 does not collide on the canonical
  texts involved, two requests share a decision key only if they agree on the run, on every
  field of the endpoint key (host, partition, region, service, account, operation), on the policy
  hash, on the mapper version and on the key of their requirements.
\<close>

theorem decision_key_separates:
  assumes "collision_free sha256 {decision_parts sha256 k, decision_parts sha256 l,
       endpoint_parts (dk_Endpoint k), endpoint_parts (dk_Endpoint l)}"
    and "DecisionKey_String sha256 k = DecisionKey_String sha256 l"
  shows "k = l"
proof -
  from HashKey_inj [OF assms(1) _ _ assms(2) [unfolded DecisionKey_String_def]]
  have e: "dk_RunID k = dk_RunID l" "dk_PolicyHash k = dk_PolicyHash l"
    "dk_MapperVersion k = dk_MapperVersion l" "dk_Requirements k = dk_Requirements l"
    "EndpointKey_String sha256 (dk_Endpoint k) = EndpointKey_String sha256 (dk_Endpoint l)"
    by (simp_all add: decision_parts_def)
  from HashKey_inj [OF assms(1) _ _ e(5) [unfolded EndpointKey_String_def]]
  have "dk_Endpoint k = dk_Endpoint l" by (simp add: endpoint_parts_def)
  with e show ?thesis by simp
qed

definition sample_decision_key :: DecisionKey where
  "sample_decision_key = \<lparr>dk_RunID = ''run'', dk_Endpoint = \<lparr>ek_RunID = ''run'', ek_Host = ''h'',
     ek_Partition = ''aws'', ek_Region = ''us-east-1'', ek_Service = ''s3'', ek_Account = [],
     ek_Operation = ''GetObject''\<rparr>, dk_PolicyHash = ''p'', dk_MapperVersion = ''m'',
     dk_Requirements = ''r''\<rparr>"

theorem decision_key_separates_witness:
  "(\<forall>A. collision_free (\<lambda>x. x) A) \<and>
   DecisionKey_String (\<lambda>x. x) sample_decision_key \<noteq>
     DecisionKey_String (\<lambda>x. x) (sample_decision_key\<lparr>dk_PolicyHash := ''q''\<rparr>)"
proof -
  have "sample_decision_key \<noteq> sample_decision_key\<lparr>dk_PolicyHash := ''q''\<rparr>"
    by (simp add: sample_decision_key_def)
  moreover have "\<forall>A. collision_free (\<lambda>x. x) A" by (simp add: collision_free_def inj_on_def)
  ultimately show ?thesis
    using decision_key_separates [of "\<lambda>x. x" sample_decision_key
        "sample_decision_key\<lparr>dk_PolicyHash := ''q''\<rparr>"] by blast
qed

text \<open>
  The requirements key is exact up to order: it ignores the order of the requirements and
  of their resources, and, when SHA-256 does not collide on the two texts and no resource is empty or
  contains a NUL byte, requirements with the same key agree, as a multiset, on action, scope,
  dependency, resources and condition hints.
\<close>

theorem requirements_key_exact:
  assumes "\<forall>r \<in> set rs \<union> set ss. separable (rq_Resources r)"
    and "collision_free sha256 {requirements_parts rs, requirements_parts ss}"
  shows "(mset rs = mset ss \<longrightarrow> RequirementsKey sha256 rs = RequirementsKey sha256 ss) \<and>
     (RequirementsKey sha256 rs = RequirementsKey sha256 ss \<longrightarrow>
        mset (map requirement_view rs) = mset (map requirement_view ss))"
proof (intro conjI impI)
  assume "mset rs = mset ss"
  then have "mset (map requirement_item rs) = mset (map requirement_item ss)" by simp
  then have "sort (map requirement_item rs) = sort (map requirement_item ss)"
    by (intro properties_for_sort) (simp_all only: mset_sort sorted_sort)
  then show "RequirementsKey sha256 rs = RequirementsKey sha256 ss" by (simp add: RequirementsKey_def requirements_parts_def)
next
  assume "RequirementsKey sha256 rs = RequirementsKey sha256 ss"
  then show "mset (map requirement_view rs) = mset (map requirement_view ss)"
    by (rule RequirementsKey_view [OF assms])
qed

theorem requirements_key_exact_witness:
  "RequirementsKey (\<lambda>x. x) [sample_requirement, sample_requirement\<lparr>rq_Dependent := True\<rparr>] =
     RequirementsKey (\<lambda>x. x) [sample_requirement\<lparr>rq_Dependent := True\<rparr>, sample_requirement]"
proof -
  have "\<forall>r \<in> set [sample_requirement, sample_requirement\<lparr>rq_Dependent := True\<rparr>] \<union>
      set [sample_requirement\<lparr>rq_Dependent := True\<rparr>, sample_requirement]. separable (rq_Resources r)"
    by (simp add: sample_requirement_def separable_def nul_def)
  from requirements_key_exact [OF this, of "\<lambda>x. x"] show ?thesis
    by (simp add: collision_free_def inj_on_def add_mset_commute)
qed

end
