(* ===== verification/Proxy_Http.thy ===== *)
theory Proxy_Http
  imports Go_Http Sigv4_Payload
begin

text \<open>
  The header and body helpers of the proxy: \<^verbatim>\<open>copyHeaders\<close> and \<^verbatim>\<open>copyResponse\<close> of
  \<^verbatim>\<open>src/internal/proxy/server.go\<close>, \<^verbatim>\<open>removeHopByHopHeaders\<close> of \<^verbatim>\<open>src/internal/proxy/tunnel.go\<close>, and
  \<^verbatim>\<open>http.Error\<close> of the standard library. A source of bytes is the list of what its successive reads
  return, followed by the end of the input; a writer is a function of its own state.
\<close>

section \<open>Headers\<close>

definition header_add :: "http_header \<Rightarrow> string \<Rightarrow> string \<Rightarrow> http_header" where
  [go_defs]: "header_add h key v =
     (let k = canonical_header_key key in
      if k \<in> fst ` set h then map (\<lambda>(k', vs). (k', if k' = k then vs @ [v] else vs)) h
      else h @ [(k, [v])])"

definition copyHeaders :: "http_header \<Rightarrow> http_header \<Rightarrow> http_header" where
  "copyHeaders dst src =
     fold (\<lambda>(key, values) d. fold (\<lambda>v d. header_add d key v) values d) src dst"

text \<open>\<^verbatim>\<open>strings.FieldsFunc\<close> at commas yields the non-empty pieces between them.\<close>

definition splitComma :: "string \<Rightarrow> string list" where
  "splitComma v =
     filter (\<lambda>part. part \<noteq> []) (map trim_space (filter (\<lambda>f. f \<noteq> []) (split_byte CHR '','' v)))"

definition stringsSplitComma :: "string \<Rightarrow> string list" where
  "stringsSplitComma v = filter (\<lambda>part. part \<noteq> []) (splitComma v)"

definition hop_by_hop_names :: "string list" where
  "hop_by_hop_names = [''Connection'', ''Proxy-Connection'', ''Keep-Alive'', ''Proxy-Authenticate'',
     ''Proxy-Authorization'', ''TE'', ''Trailer'', ''Transfer-Encoding'', ''Upgrade'']"

definition removeHopByHopHeaders :: "http_header \<Rightarrow> http_header" where
  "removeHopByHopHeaders header =
     (let nominated = concat (map stringsSplitComma (header_values header ''Connection''));
          h = fold (\<lambda>name h. header_del h name) nominated header
      in fold (\<lambda>name h. header_del h name) hop_by_hop_names h)"

section \<open>Bodies\<close>

text \<open>
  The copy loop: what a read returns is written before its error is looked at, a write that fails ends
  the loop, and the error of the source, the end of its input included, ends it too.
\<close>

fun copyResponse ::
  "('d \<Rightarrow> string \<Rightarrow> 'd \<times> nat \<times> go_error) \<Rightarrow> 'd \<Rightarrow> (string \<times> go_error) list \<Rightarrow> 'd \<times> nat \<times> go_error" where
  "copyResponse write dst [] = (dst, 0, Some ''EOF'')"
| "copyResponse write dst ((buf, e) # src) =
     (if buf \<noteq> [] then
        (case write dst buf of (dst', x, ee) \<Rightarrow>
           if ee \<noteq> None then (dst', x, ee)
           else if e \<noteq> None then (dst', x, e)
           else (case copyResponse write dst' src of (d, n, err) \<Rightarrow> (d, x + n, err)))
      else if e \<noteq> None then (dst, 0, e)
      else copyResponse write dst src)"

text \<open>The bytes a source delivers up to its first error.\<close>

fun source_bytes :: "(string \<times> go_error) list \<Rightarrow> string" where
  "source_bytes [] = []"
| "source_bytes ((buf, e) # src) = buf @ (if e \<noteq> None then [] else source_bytes src)"

text \<open>A writer that collects up to \<open>limit\<close> bytes, without a limit all of them.\<close>

definition collect_write :: "nat option \<Rightarrow> string \<Rightarrow> string \<Rightarrow> string \<times> nat \<times> go_error" where
  "collect_write limit got buf =
     (case limit of
        None \<Rightarrow> (got @ buf, length buf, None)
      | Some n \<Rightarrow>
          if length got + length buf \<le> n then (got @ buf, length buf, None)
          else (got @ take (n - length got) buf, n - length got, Some ''write failed''))"

section \<open>Error responses\<close>

text \<open>The header and the body that \<^verbatim>\<open>http.Error\<close> writes to a fresh response.\<close>

definition http_error_header :: http_header where
  "http_error_header = header_set (header_set [] ''Content-Type'' ''text/plain; charset=utf-8'')
     ''X-Content-Type-Options'' ''nosniff''"

definition http_error_body :: "string \<Rightarrow> string" where
  "http_error_body msg = msg @ [CHR 0x0A]"

section \<open>Lemmas\<close>

lemma map_of_header_dels:
  "map_of (fold (\<lambda>name h. header_del h name) names h) k =
     (if k \<in> canonical_header_key ` set names then None else map_of h k)"
  by (induction names arbitrary: h) (auto simp: map_of_header_del)

lemma map_of_header_add:
  "map_of (header_add h key v) k =
     (if k = canonical_header_key key
      then Some ((case map_of h k of None \<Rightarrow> [] | Some vs \<Rightarrow> vs) @ [v]) else map_of h k)"
proof -
  have upd: "map_of (map (\<lambda>(k', vs). (k', if k' = j then vs @ [v] else vs)) h) k =
      (if k = j then map_option (\<lambda>vs. vs @ [v]) (map_of h k) else map_of h k)" for j
    by (induction h) auto
  show ?thesis
  proof (cases "canonical_header_key key \<in> fst ` set h")
    case True
    then obtain vs where "map_of h (canonical_header_key key) = Some vs"
      by (metis map_of_eq_None_iff not_None_eq)
    with True show ?thesis by (simp add: header_add_def Let_def upd)
  next
    case False
    then have "map_of h (canonical_header_key key) = None" by (simp add: map_of_eq_None_iff)
    with False show ?thesis by (simp add: header_add_def Let_def map_add_def split: option.split)
  qed
qed

lemma header_values_adds:
  "header_values (fold (\<lambda>v d. header_add d key v) vs h) k =
     header_values h k @ (if canonical_header_key k = canonical_header_key key then vs else [])"
proof (induction vs arbitrary: h)
  case (Cons v vs)
  then show ?case by (auto simp: header_values_def map_of_header_add split: option.splits)
qed simp

lemma header_values_copy:
  "header_values (copyHeaders dst src) k = header_values dst k @
     concat (map snd (filter (\<lambda>(key, _). canonical_header_key key = canonical_header_key k) src))"
proof (induction src arbitrary: dst)
  case Nil
  then show ?case by (simp add: copyHeaders_def)
next
  case (Cons kv src)
  obtain key vs where "kv = (key, vs)" by (cases kv)
  with Cons show ?case by (auto simp: copyHeaders_def header_values_adds)
qed

lemma copyResponse_collect:
  "case copyResponse (collect_write limit) got src of (d, n, err) \<Rightarrow>
     err \<noteq> None \<and> d = got @ take n (source_bytes src) \<and> n \<le> length (source_bytes src) \<and>
     (limit = None \<longrightarrow> d = got @ source_bytes src)"
proof (induction src arbitrary: got)
  case (Cons r src)
  obtain buf e where r: "r = (buf, e)" by (cases r)
  let ?go = "copyResponse (collect_write limit) (got @ buf) src"
  show ?case
  proof (cases "limit = None \<or> length got + length buf \<le> the limit")
    case True
    then have w: "collect_write limit got buf = (got @ buf, length buf, None)"
      by (auto simp: collect_write_def split: option.splits)
    show ?thesis using Cons.IH [of "got @ buf"] w r by (cases ?go) (auto split: prod.splits)
  next
    case False
    then obtain n where n: "limit = Some n" "n < length got + length buf" by (cases limit) auto
    then have "collect_write limit got buf = (got @ take (n - length got) buf, n - length got, Some ''write failed'')"
      by (simp add: collect_write_def)
    with n r Cons.IH [of got] show ?thesis by (cases "buf = []") (auto split: prod.splits)
  qed
qed simp

end
