(* ===== verification/Pipeline.thy ===== *)
theory Pipeline
  imports Audit_Event Policy_Semantics Cache_Keys Proxy_Http "HOL-Library.State_Monad"
begin

text \<open>
  The request pipeline, \<^verbatim>\<open>handlePipeline\<close> of \<^verbatim>\<open>src/internal/proxy/server.go\<close> with every helper it
  calls: authentication, decoding, mapping with its cache, policy decision with its cache, audit,
  resigning, forwarding and the response.

  A handler is a state transformer (\<^verbatim>\<open>HOL-Library.State_Monad\<close>). The state is the run's caches, the
  trace of the effects so far, and a world \<open>'w\<close>: whatever lies outside the server. The dependencies
  the composition root plugs in (authenticator, decoder, mapper, policy engine, audit writer,
  resigner, upstream transport) are functions of the world, absent ones are \<^const>\<open>None\<close>; so are the
  clock and the random identifiers. A dependency may answer anything and change the world in any way;
  it cannot reach the server's own state. A panic of the policy engine, which \<^verbatim>\<open>safeEvaluate\<close>
  recovers, is the answer \<^const>\<open>None\<close>. The JSON texts in the cache keys are parameters, applied to
  exactly the fields the code marshals.
\<close>

section \<open>Metrics\<close>

definition Intercepted :: string where "Intercepted = ''requests_intercepted''"
definition Allowed :: string where "Allowed = ''requests_allowed''"
definition Denied :: string where "Denied = ''requests_denied''"
definition UpstreamErrors :: string where "UpstreamErrors = ''upstream_errors''"
definition UpstreamTransport :: string where "UpstreamTransport = ''upstream.transport''"
definition UpstreamCancellation :: string where "UpstreamCancellation = ''upstream.cancel''"
definition UpstreamAuth :: string where "UpstreamAuth = ''upstream.401_403''"
definition UpstreamThrottled :: string where "UpstreamThrottled = ''upstream.429''"
definition UpstreamClient :: string where "UpstreamClient = ''upstream.other_4xx''"
definition UpstreamServer :: string where "UpstreamServer = ''upstream.5xx''"
definition AuthFailures :: string where "AuthFailures = ''authentication_failures''"
definition AuditFailures :: string where "AuditFailures = ''audit_writer_failures''"
definition AuditBackpressure :: string where "AuditBackpressure = ''audit_backpressure''"
definition CacheMappingHits :: string where "CacheMappingHits = ''cache_mapping_hits''"
definition CacheMappingMisses :: string where "CacheMappingMisses = ''cache_mapping_misses''"
definition CacheDecisionHits :: string where "CacheDecisionHits = ''cache_decision_hits''"
definition CacheDecisionMisses :: string where "CacheDecisionMisses = ''cache_decision_misses''"
definition CacheEvictions :: string where "CacheEvictions = ''cache_evictions''"
definition QueueDepth :: string where "QueueDepth = ''audit_queue_depth''"
definition PayloadBytes :: string where "PayloadBytes = ''payload_bytes''"
definition SpoolBytes :: string where "SpoolBytes = ''spool_bytes''"
definition UpstreamLatency :: string where "UpstreamLatency = ''upstream_latency_ms''"
definition DecodeLatency :: string where "DecodeLatency = ''decode_latency_ms''"
definition MapLatency :: string where "MapLatency = ''map_latency_ms''"
definition PolicyLatency :: string where "PolicyLatency = ''policy_latency_ms''"
definition LocalLatency :: string where "LocalLatency = ''local_latency_ms''"

definition label_byte :: "nat \<Rightarrow> bool" where
  "label_byte r \<longleftrightarrow> (97 \<le> r \<and> r \<le> 122) \<or> (65 \<le> r \<and> r \<le> 90) \<or> (48 \<le> r \<and> r \<le> 57) \<or> r = 95 \<or> r = 45"

definition safeLabel :: "string \<Rightarrow> string" where
  "safeLabel v =
     (if v = [] then ''unknown'' else map (\<lambda>c. if label_byte (ord c) then c else CHR ''_'') v)"

definition DecisionCounter :: "string \<Rightarrow> string \<Rightarrow> string \<Rightarrow> string" where
  "DecisionCounter service operation reason =
     ''decision.'' @ safeLabel service @ ''.'' @ safeLabel operation @ ''.'' @ safeLabel reason"

text \<open>The same for the proxy's own labels, rune by rune.\<close>

definition safeMetricLabel :: "string \<Rightarrow> string" where
  "safeMetricLabel v =
     (if v = [] then ''unknown''
      else map (\<lambda>r. if label_byte r then char_of r else CHR ''_'') (runes v))"

section \<open>Errors\<close>

text \<open>What an authenticator may return: \<^verbatim>\<open>errors.As\<close> finds the typed error below any wrapping.\<close>

datatype verify_error = SigV4_error sig_error | Wrapped_error string verify_error | Opaque_error string

fun CodeOf :: "verify_error \<Rightarrow> string" where
  "CodeOf (SigV4_error e) = Code e"
| "CodeOf (Wrapped_error t e) = CodeOf e"
| "CodeOf (Opaque_error t) = []"

definition verifyReason :: "verify_error \<Rightarrow> string" where
  "verifyReason err =
     (let c = CodeOf err in
      if c = CodeUnsupportedSigning then ''unsupported_signing_scheme''
      else if c = CodeUnsupportedPayload then ''unsupported_payload_mode''
      else if c = CodeOversizedBody then ''request_too_large''
      else ''invalid_inbound_signature'')"

text \<open>The mapping failures, \<^verbatim>\<open>src/internal/iammap/errors.go\<close>, and their wrapping.\<close>

datatype MappingFailureKind =
    MappingFailureUnknownWireOperation | MappingFailureAmbiguousWireOperation
  | MappingFailureCatalogInconsistency | MappingFailureUnresolvedPrimaryResource
  | MappingFailureUnresolvedDependency | MappingFailureLowConfidence
  | MappingFailureCancellation | MappingFailureTimeout
  | MappingFailureInvalidResult | MappingFailurePanic

datatype map_error =
    MappingError MappingFailureKind string "map_error option"
  | Other_error string "map_error list"

text \<open>\<^verbatim>\<open>errors.Is\<close> against a sentinel: \<^verbatim>\<open>MappingError.Is\<close> compares kinds, \<^verbatim>\<open>Unwrap\<close> gives the causes.\<close>

fun is_kind :: "MappingFailureKind \<Rightarrow> map_error \<Rightarrow> bool" where
  "is_kind k (MappingError k' stage cause) \<longleftrightarrow>
     k' = k \<or> (case cause of None \<Rightarrow> False | Some c \<Rightarrow> is_kind k c)"
| "is_kind k (Other_error t cs) \<longleftrightarrow> list_ex (is_kind k) cs"

definition mapReason :: "map_error option \<Rightarrow> string" where
  "mapReason err =
     (case err of
        None \<Rightarrow> ''mapping_low_confidence''
      | Some e \<Rightarrow>
          if is_kind MappingFailureUnresolvedDependency e then ''dependent_permission_unresolved''
          else if is_kind MappingFailureUnresolvedPrimaryResource e then ''resource_unresolved''
          else if is_kind MappingFailureUnknownWireOperation e
                \<or> is_kind MappingFailureAmbiguousWireOperation e then ''unknown_operation''
          else ''mapping_low_confidence'')"

section \<open>State and effects\<close>

datatype cache_value = Mapping_value "MappingResult option" | Decision_value Decision | Other_value

datatype 's effect =
    Inc string
  | Add_count string int
  | Observe string int
  | Gauge string int
  | Verified "'s verified_http VerifiedRequest option" "verify_error option"
  | Decoded "DecodedAWSRequest option" "err_value option"
  | Mapped "MappingResult option" "map_error option"
  | Evaluated DecisionInput "Decision option"
  | Audited "unit Event" "audit_error option"
  | Resigned "'s verified_http" "string + 's body_request"
  | Forwarded "'s body_request"
  | Respond nat http_header string
  | Body_closed "'s verified_http"

record ('w, 's) pipe_state =
  pl_world :: 'w
  pl_trace :: "'s effect list"
  pl_caches :: "cache_value RunCaches option"

type_synonym ('w, 's, 'a) prog = "(('w, 's) pipe_state, 'a) state"

definition emit :: "'s effect \<Rightarrow> ('w, 's, unit) prog" where
  "emit e = State (\<lambda>s. ((), s\<lparr>pl_trace := pl_trace s @ [e]\<rparr>))"

definition call :: "('w \<Rightarrow> 'a \<times> 'w) \<Rightarrow> ('w, 's, 'a) prog" where
  "call f = State (\<lambda>s. case f (pl_world s) of (x, w) \<Rightarrow> (x, s\<lparr>pl_world := w\<rparr>))"

definition with_caches ::
  "(cache_value RunCaches \<Rightarrow> 'a \<times> cache_value RunCaches) \<Rightarrow> ('w, 's, 'a option) prog" where
  "with_caches f = State (\<lambda>s. case pl_caches s of
     None \<Rightarrow> (None, s)
   | Some c \<Rightarrow> (case f c of (x, c') \<Rightarrow> (Some x, s\<lparr>pl_caches := Some c'\<rparr>)))"

abbreviation skip :: "('w, 's, unit) prog" where
  "skip \<equiv> State_Monad.return ()"

section \<open>The server\<close>

record ('w) audit_writer =
  aw_Write :: "unit Event \<Rightarrow> 'w \<Rightarrow> audit_error option \<times> 'w"
  aw_Failed :: "('w \<Rightarrow> bool \<times> 'w) option"
  aw_QueueLength :: "('w \<Rightarrow> int \<times> 'w) option"

record ('w) iam_mapper =
  mp_Map :: "DecodedAWSRequest \<Rightarrow> 'w \<Rightarrow> (MappingResult option \<times> map_error option) \<times> 'w"
  mp_Version :: "string option"
  mp_IamLiveVersion :: "string option"
  mp_AuthorizationDataVersion :: "string option"

record upstream_response =
  us_StatusCode :: nat
  us_Header :: http_header
  us_Body :: "(string \<times> go_error) list"

text \<open>The error of a round trip: whether it is \<^verbatim>\<open>context.Canceled\<close> or \<^verbatim>\<open>DeadlineExceeded\<close>.\<close>

datatype upstream_error = Cancelled_error | Transport_error string

text \<open>The fields of a request and of a mapping that the cache keys marshal.\<close>

record request_view =
  rv_Partition :: string
  rv_Host :: string
  rv_Service :: string
  rv_Region :: string
  rv_Protocol :: string
  rv_Operation :: string
  rv_Method :: string
  rv_Path :: string
  rv_Query :: "(string \<times> string list) list"
  rv_Parameters :: "(string \<times> Value) list"
  rv_Account :: string
  rv_PayloadMode :: string
  rv_PayloadBytes :: int

record mapping_view =
  mv_Confidence :: string
  mv_MapperVersion :: string
  mv_IamLiveVersion :: string
  mv_AuthorizationDataVersion :: string
  mv_Evidence :: "MappingEvidence list"

text \<open>The operating system and the standard library: clock, identifiers, context, hashes, JSON.\<close>

record ('w, 's) go_runtime =
  rt_now :: "'w \<Rightarrow> time \<times> 'w"
  rt_NewID :: "'w \<Rightarrow> string \<times> 'w"
  rt_ctx_err :: "'w \<Rightarrow> bool \<times> 'w"
  rt_close_body :: "'s verified_http \<Rightarrow> 'w \<Rightarrow> unit \<times> 'w"
  rt_sha256 :: "string \<Rightarrow> string"
  rt_hmac :: "string \<Rightarrow> string \<Rightarrow> string"
  rt_marshal_mapping_request :: "request_view \<Rightarrow> string"
  rt_marshal_decision_request :: "request_view \<Rightarrow> string"
  rt_marshal_metadata :: "mapping_view \<Rightarrow> string"

record ('w, 's) server_config =
  cf_InboundAuthenticator ::
    "('s body_request \<Rightarrow> AWSEndpoint \<Rightarrow> 'w \<Rightarrow>
       ('s verified_http VerifiedRequest option \<times> verify_error option) \<times> 'w) option"
  cf_Decoder ::
    "('s verified_http VerifiedRequest \<Rightarrow> AWSEndpoint \<Rightarrow> 'w \<Rightarrow>
       (DecodedAWSRequest option \<times> err_value option) \<times> 'w) option"
  cf_Mapper :: "'w iam_mapper option"
  cf_Policy :: "(DecisionInput \<Rightarrow> 'w \<Rightarrow> Decision option \<times> 'w) option"
  cf_Audit :: "'w audit_writer option"
  cf_Resigner :: "('s verified_http \<Rightarrow> AWSEndpoint \<Rightarrow> 'w \<Rightarrow> (string + 's body_request) \<times> 'w) option"
  cf_Upstream ::
    "('s body_request \<Rightarrow> 'w \<Rightarrow> (upstream_response option \<times> upstream_error option) \<times> 'w) option"
  cf_RunID :: string
  cf_PolicyHash :: string
  cf_LogResourceARNs :: bool
  cf_HashResourceNames :: bool
  cf_MapperVersion :: string
  cf_AdapterVersion :: string
  cf_DataVersion :: string

definition pipelineConfigured :: "('w, 's) server_config \<Rightarrow> bool" where
  "pipelineConfigured cf \<longleftrightarrow>
     \<not> Option.is_none (cf_InboundAuthenticator cf) \<or> \<not> Option.is_none (cf_Decoder cf)
     \<or> \<not> Option.is_none (cf_Mapper cf) \<or> \<not> Option.is_none (cf_Policy cf)
     \<or> \<not> Option.is_none (cf_Audit cf) \<or> \<not> Option.is_none (cf_Resigner cf)"

definition SameEndpoint :: "AWSEndpoint \<Rightarrow> AWSEndpoint \<Rightarrow> bool" where
  "SameEndpoint a b \<longleftrightarrow> EndpointIdentityEqual a b"

definition since :: "('w, 's) go_runtime \<Rightarrow> time \<Rightarrow> ('w, 's, int) prog" where
  "since rt start = do { now \<leftarrow> call (rt_now rt); State_Monad.return (time_sub now start) }"

text \<open>\<^verbatim>\<open>audit.NewEvent\<close> with the identifier and the clock it reads.\<close>

definition new_event :: "('w, 's) go_runtime \<Rightarrow> string \<Rightarrow> string \<Rightarrow> ('w, 's, unit Event) prog" where
  "new_event rt runID typ = do {
     ident \<leftarrow> call (rt_NewID rt);
     now \<leftarrow> call (rt_now rt);
     State_Monad.return (NewEvent ident now runID typ) }"

section \<open>Responses\<close>

definition http_Error :: "string \<Rightarrow> nat \<Rightarrow> ('w, 's, unit) prog" where
  "http_Error msg code = emit (Respond code http_error_header (http_error_body msg))"

datatype deny_subject = Deny_decoded DecodedAWSRequest | Deny_request

definition deny_identity :: "AWSEndpoint \<Rightarrow> deny_subject \<Rightarrow> string \<times> string \<times> string" where
  "deny_identity ep r =
     (case r of
        Deny_decoded x \<Rightarrow> (dr_Service x, dr_Operation x, dr_Protocol x)
      | Deny_request \<Rightarrow> (ep_Service ep, ''Unknown'', ProtocolJSON11))"

definition respondPipelineDeny ::
  "AWSEndpoint \<Rightarrow> deny_subject \<Rightarrow> string \<Rightarrow> string \<Rightarrow> ('w, 's, unit) prog" where
  "respondPipelineDeny ep r reason ident =
     (case deny_identity ep r of (service, operation, protocol) \<Rightarrow>
      case Encode protocol \<lparr>dn_Service = service, dn_Operation = operation, dn_ReasonCode = reason,
             dn_Reason = [], dn_EventID = ident, dn_RequestID = [],
             dn_Classification = ClassificationLocalDeny, dn_UpstreamResponse = None\<rparr> of
        None \<Rightarrow> http_Error ''request denied'' 403
      | Some resp \<Rightarrow> emit (Respond (rs_StatusCode resp) (copyHeaders [] (rs_Header resp)) (rs_Body resp)))"

section \<open>Audit\<close>

definition queue_gauge :: "'w audit_writer \<Rightarrow> ('w, 's, unit) prog" where
  "queue_gauge a =
     (case aw_QueueLength a of
        None \<Rightarrow> skip
      | Some q \<Rightarrow> do { n \<leftarrow> call q; emit (Gauge QueueDepth n) })"

definition acceptAudit :: "('w, 's) server_config \<Rightarrow> unit Event \<Rightarrow> ('w, 's, audit_error option) prog" where
  "acceptAudit cf e =
     (case cf_Audit cf of
        None \<Rightarrow> do {
          emit (Inc AuditFailures);
          State_Monad.return (Some (Audit_error ''audit unavailable'')) }
      | Some a \<Rightarrow> do {
          err \<leftarrow> call (aw_Write a e);
          emit (Audited e err);
          (case err of
             Some x \<Rightarrow> do {
               emit (Inc AuditFailures);
               (if x = ErrBackpressure then emit (Inc AuditBackpressure) else skip);
               queue_gauge a;
               State_Monad.return (Some x) }
           | None \<Rightarrow> do { queue_gauge a; State_Monad.return None }) })"

definition validPolicyHash :: "string \<Rightarrow> string" where
  "validPolicyHash v =
     (if length v = 71 \<and> has_prefix v ''sha256:'' then v else ''sha256:'' @ replicate 64 CHR ''0'')"

definition request_info :: "DecodedAWSRequest \<Rightarrow> RequestInfo" where
  "request_info r = \<lparr>ri_Host = dr_EndpointHost r, ri_Partition = dr_Partition r,
     ri_Service = dr_Service r, ri_Operation = dr_Operation r, ri_Region = dr_Region r,
     ri_Protocol = dr_Protocol r, ri_Method = dr_Method r, ri_PayloadBytes = dr_PayloadBytes r\<rparr>"

text \<open>The event of a decision, from a new event, a connection identifier and the time elapsed.\<close>

definition decision_event_of ::
  "('w, 's) server_config \<Rightarrow> ('w, 's) go_runtime \<Rightarrow> unit Event \<Rightarrow> string \<Rightarrow> string \<Rightarrow> string \<Rightarrow> int \<Rightarrow>
     DecodedAWSRequest \<Rightarrow> MappingResult \<Rightarrow> Decision \<Rightarrow> unit Event" where
  "decision_event_of cf rt e0 run ident conn elapsed decoded m d =
     e0\<lparr>ev_EventID := ident, ev_ConnectionID := conn, ev_Request := Some (request_info decoded),
        ev_IAMRequirements := Some (RequirementsForRun (rt_hmac rt) run (mr_Requirements m)
          (cf_LogResourceARNs cf) (cf_HashResourceNames cf)),
        ev_Mapping := Some \<lparr>mi_Confidence = mr_Confidence m, mi_MapperVersion = mr_MapperVersion m,
          mi_IamLiveVersion = mr_IamLiveVersion m,
          mi_AuthorizationDataVersion = mr_AuthorizationDataVersion m\<rparr>,
        ev_Decision := Some \<lparr>ad_Result = dc_Result d, ad_ReasonCode = dc_ReasonCode d,
          ad_MatchedRuleIDs = dc_MatchedRuleIDs d, ad_PolicyHash = validPolicyHash (cf_PolicyHash cf)\<rparr>,
        ev_Timing := Some \<lparr>ti_Decode = 0, ti_Map = 0, ti_Policy = 0, ti_LocalTotal = elapsed,
          ti_Upstream = 0\<rparr>\<rparr>"

definition decisionEvent ::
  "('w, 's) server_config \<Rightarrow> ('w, 's) go_runtime \<Rightarrow> string \<Rightarrow> string \<Rightarrow> DecodedAWSRequest \<Rightarrow>
     MappingResult \<Rightarrow> Decision \<Rightarrow> time \<Rightarrow> ('w, 's, unit Event) prog" where
  "decisionEvent cf rt run ident decoded m d start = do {
     e0 \<leftarrow> new_event rt run RequestDecision;
     conn \<leftarrow> call (rt_NewID rt);
     elapsed \<leftarrow> since rt start;
     State_Monad.return (decision_event_of cf rt e0 run ident conn elapsed decoded m d) }"

definition forwardEvent ::
  "('w, 's) go_runtime \<Rightarrow> string \<Rightarrow> DecodedAWSRequest \<Rightarrow> ('w, 's, unit Event) prog" where
  "forwardEvent rt run r = do {
     e0 \<leftarrow> new_event rt run ForwardError;
     conn \<leftarrow> call (rt_NewID rt);
     State_Monad.return (e0\<lparr>ev_ConnectionID := conn, ev_Request := Some (request_info r),
        ev_ErrorCode := ''upstream_transport_error''\<rparr>) }"

section \<open>Failures\<close>

definition finishAuthenticationFailure ::
  "('w, 's) server_config \<Rightarrow> ('w, 's) go_runtime \<Rightarrow> AWSEndpoint \<Rightarrow> string \<Rightarrow> string \<Rightarrow> ('w, 's, unit) prog" where
  "finishAuthenticationFailure cf rt ep runID code = do {
     emit (Inc (''auth.failure.'' @ safeMetricLabel code));
     (case cf_Audit cf of
        None \<Rightarrow> skip
      | Some a \<Rightarrow>
          if runID = [] then skip
          else do {
            e0 \<leftarrow> new_event rt runID AuthenticationFailed;
            conn \<leftarrow> call (rt_NewID rt);
            let e = e0\<lparr>ev_ConnectionID := conn, ev_ErrorCode := code\<rparr>;
            err \<leftarrow> call (aw_Write a e);
            emit (Audited e err);
            (if err \<noteq> None then emit (Inc AuditFailures) else skip) });
     emit (Inc AuthFailures);
     ident \<leftarrow> call (rt_NewID rt);
     respondPipelineDeny ep Deny_request ''invalid_inbound_signature'' ident }"

record pipelineFailureEvidence =
  pf_decoded :: "DecodedAWSRequest option"
  pf_decode :: DecodeFailureEvidence

definition zero_evidence :: DecodeFailureEvidence where
  "zero_evidence = \<lparr>ev_Service = [], ev_Protocol = [], ev_ProtocolAvailable = False,
     ev_ProtocolCertainty = [], ev_Operation = [], ev_OperationAvailable = False,
     ev_OperationCertainty = []\<rparr>"

definition safeDecodeFailureEvidence ::
  "err_value option \<Rightarrow> AWSEndpoint \<Rightarrow> string \<Rightarrow> DecodeFailureEvidence" where
  "safeDecodeFailureEvidence err ep claimed =
     (case DecodeFailureEvidenceFromError err of
        None \<Rightarrow> zero_evidence
      | Some evidence \<Rightarrow>
          if DecodeFailureEvidence_Validate evidence \<noteq> None \<or> ev_Service evidence \<noteq> ep_Service ep
             \<or> (ev_ProtocolAvailable evidence \<and> ev_Protocol evidence \<noteq> claimed)
          then zero_evidence else evidence)"

definition failureDecoded ::
  "'s body_request \<Rightarrow> AWSEndpoint \<Rightarrow> DecodeFailureEvidence \<Rightarrow> DecodedAWSRequest" where
  "failureDecoded req ep evidence0 =
     (let evidence = (if DecodeFailureEvidence_Validate evidence0 \<noteq> None
                         \<or> (ev_Service evidence0 \<noteq> [] \<and> ev_Service evidence0 \<noteq> ep_Service ep)
                      then zero_evidence else evidence0);
          method = (if rq_Method req \<noteq> [] then rq_Method req else ''POST'');
          protocol = (if DecodeFailureEvidence_HasProtocol evidence then ev_Protocol evidence
                      else ProtocolJSON11);
          service = (if ep_Service ep = [] then ''unknown'' else ep_Service ep);
          operation = (if DecodeFailureEvidence_HasOperation evidence then ev_Operation evidence
                       else ''Unknown'')
      in \<lparr>dr_Partition = ep_Partition ep, dr_EndpointHost = ep_Host ep, dr_Service = service,
          dr_SigningService = [], dr_SigningRegion = [], dr_Region = ep_Region ep, dr_Scope = [],
          dr_FIPS = False, dr_DualStack = False, dr_AccountID = [], dr_CallerAccountID = [],
          dr_Protocol = protocol, dr_Operation = operation, dr_Method = method,
          dr_CanonicalPath = ''/'', dr_CanonicalQuery = [], dr_Headers = [], dr_Parameters = [],
          dr_PayloadHashMode = PayloadHashEmpty, dr_PayloadBytes = 0\<rparr>)"

definition failureMapping :: "DecodedAWSRequest \<Rightarrow> string \<Rightarrow> MappingResult" where
  "failureMapping r stage =
     (let service = (if dr_Service r = [] then ''unknown'' else dr_Service r)
      in \<lparr>mr_Service = service, mr_Operation = dr_Operation r,
          mr_Requirements = [\<lparr>rq_Action = service @ '':Unknown'', rq_Resources = [''unknown''],
            rq_ScopeKind = ScopeUnresolved, rq_Dependent = False, rq_ConditionHint = []\<rparr>],
          mr_MapperVersion = ''kordn/unknown'', mr_IamLiveVersion = [],
          mr_AuthorizationDataVersion = [], mr_Confidence = ConfidenceUnknown,
          mr_Evidence = [\<lparr>me_Source = stage, me_Field = ''status'', me_Value = ''rejected''\<rparr>]\<rparr>)"

definition finishFailedPipeline ::
  "('w, 's) server_config \<Rightarrow> ('w, 's) go_runtime \<Rightarrow> 's body_request \<Rightarrow> AWSEndpoint \<Rightarrow> string \<Rightarrow> time \<Rightarrow>
     string \<Rightarrow> string \<Rightarrow> pipelineFailureEvidence \<Rightarrow> ('w, 's, unit) prog" where
  "finishFailedPipeline cf rt req ep runID start reason stage evidence = do {
     emit (Inc (''pipeline.'' @ safeMetricLabel stage @ ''.'' @ safeMetricLabel reason));
     ident \<leftarrow> call (rt_NewID rt);
     let d = \<lparr>dc_Result = DecisionDeny, dc_ReasonCode = reason, dc_MatchedRuleIDs = []\<rparr>;
     let decoded = (case pf_decoded evidence of
                      Some x \<Rightarrow> x | None \<Rightarrow> failureDecoded req ep (pf_decode evidence));
     let m = failureMapping decoded stage;
     ev \<leftarrow> decisionEvent cf rt runID ident decoded m d start;
     err \<leftarrow> acceptAudit cf ev;
     (if err \<noteq> None then respondPipelineDeny ep (Deny_decoded decoded) ''audit_unavailable'' ident
      else do {
        emit (Inc Denied);
        respondPipelineDeny ep (Deny_decoded decoded) reason ident }) }"

section \<open>Cache keys\<close>

definition or_default :: "string \<Rightarrow> string option \<Rightarrow> string" where
  "or_default v fallback =
     (let v' = (if v = [] then (case fallback of None \<Rightarrow> v | Some x \<Rightarrow> x) else v)
      in if v' = [] then ''unknown'' else v')"

definition mappingVersions :: "('w, 's) server_config \<Rightarrow> string \<times> string \<times> string" where
  "mappingVersions cf =
     (or_default (cf_MapperVersion cf) (Option.bind (cf_Mapper cf) mp_Version),
      or_default (cf_AdapterVersion cf) (Option.bind (cf_Mapper cf) mp_IamLiveVersion),
      or_default (cf_DataVersion cf) (Option.bind (cf_Mapper cf) mp_AuthorizationDataVersion))"

definition view_request :: "DecodedAWSRequest \<Rightarrow> request_view" where
  "view_request r = \<lparr>rv_Partition = dr_Partition r, rv_Host = dr_EndpointHost r,
     rv_Service = dr_Service r, rv_Region = dr_Region r, rv_Protocol = dr_Protocol r,
     rv_Operation = dr_Operation r, rv_Method = dr_Method r, rv_Path = dr_CanonicalPath r,
     rv_Query = dr_CanonicalQuery r, rv_Parameters = dr_Parameters r,
     rv_Account = dr_CallerAccountID r, rv_PayloadMode = dr_PayloadHashMode r,
     rv_PayloadBytes = dr_PayloadBytes r\<rparr>"

definition view_mapping :: "MappingResult \<Rightarrow> mapping_view" where
  "view_mapping m = \<lparr>mv_Confidence = mr_Confidence m, mv_MapperVersion = mr_MapperVersion m,
     mv_IamLiveVersion = mr_IamLiveVersion m,
     mv_AuthorizationDataVersion = mr_AuthorizationDataVersion m, mv_Evidence = mr_Evidence m\<rparr>"

definition mapping_key_parts ::
  "('w, 's) server_config \<Rightarrow> ('w, 's) go_runtime \<Rightarrow> string \<Rightarrow> AWSEndpoint \<Rightarrow> DecodedAWSRequest \<Rightarrow>
     string list" where
  "mapping_key_parts cf rt runID endpoint req =
     (case mappingVersions cf of (mapper, adapter, version) \<Rightarrow>
        [''mapping'', runID, ep_Partition endpoint, ep_Host endpoint, ep_Service endpoint,
         ep_Region endpoint, rt_marshal_mapping_request rt (view_request req), mapper, adapter, version])"

definition mappingCacheKey ::
  "('w, 's) server_config \<Rightarrow> ('w, 's) go_runtime \<Rightarrow> string \<Rightarrow> AWSEndpoint \<Rightarrow> DecodedAWSRequest \<Rightarrow> string" where
  "mappingCacheKey cf rt runID endpoint req =
     HashKey (rt_sha256 rt) (mapping_key_parts cf rt runID endpoint req)"

definition decision_key_parts ::
  "('w, 's) server_config \<Rightarrow> ('w, 's) go_runtime \<Rightarrow> string \<Rightarrow> AWSEndpoint \<Rightarrow> DecodedAWSRequest \<Rightarrow>
     MappingResult \<Rightarrow> string list" where
  "decision_key_parts cf rt runID endpoint req m =
     (case mappingVersions cf of (mapper, adapter, version) \<Rightarrow>
        [''decision'', runID, cf_PolicyHash cf, ep_Partition endpoint, ep_Host endpoint,
         ep_Service endpoint, ep_Region endpoint, dr_CallerAccountID req, mr_MapperVersion m,
         mapper, adapter, version, rt_marshal_decision_request rt (view_request req),
         RequirementsKey (rt_sha256 rt) (mr_Requirements m), rt_marshal_metadata rt (view_mapping m)])"

definition decisionCacheKey ::
  "('w, 's) server_config \<Rightarrow> ('w, 's) go_runtime \<Rightarrow> string \<Rightarrow> AWSEndpoint \<Rightarrow> DecodedAWSRequest \<Rightarrow>
     MappingResult \<Rightarrow> string" where
  "decisionCacheKey cf rt runID endpoint req m =
     HashKey (rt_sha256 rt) (decision_key_parts cf rt runID endpoint req m)"

text \<open>Without caches the keys are empty, and unused.\<close>

definition mapping_lookup :: "string \<Rightarrow> ('w, 's, MappingResult option) prog" where
  "mapping_lookup key = do {
     found \<leftarrow> with_caches (\<lambda>c. case LRU_Get (rc_Operations c) key of
                (v, cache) \<Rightarrow> (v, c\<lparr>rc_Operations := cache\<rparr>));
     (case found of
        None \<Rightarrow> State_Monad.return None
      | Some (Some (Mapping_value (Some m))) \<Rightarrow> do {
          emit (Inc CacheMappingHits); State_Monad.return (Some m) }
      | Some _ \<Rightarrow> do { emit (Inc CacheMappingMisses); State_Monad.return None }) }"

definition mapping_store :: "string \<Rightarrow> MappingResult \<Rightarrow> ('w, 's, unit) prog" where
  "mapping_store key m =
     (if key = [] then skip
      else do {
        stored \<leftarrow> with_caches (\<lambda>c. case LRU_Add (rc_Operations c) key (Mapping_value (Some m)) of
                    ((_, evicted), cache) \<Rightarrow> (evicted, c\<lparr>rc_Operations := cache\<rparr>));
        (if stored = Some True then emit (Inc CacheEvictions) else skip) })"

definition decision_lookup :: "string \<Rightarrow> ('w, 's, Decision option) prog" where
  "decision_lookup key = do {
     found \<leftarrow> with_caches (\<lambda>c. case LRU_Get (rc_Decisions c) key of
                (v, cache) \<Rightarrow> (v, c\<lparr>rc_Decisions := cache\<rparr>));
     (case found of
        None \<Rightarrow> State_Monad.return None
      | Some (Some (Decision_value d)) \<Rightarrow>
          if Decision_Valid d then do {
            emit (Inc CacheDecisionHits); State_Monad.return (Some d) }
          else do { emit (Inc CacheDecisionMisses); State_Monad.return None }
      | Some _ \<Rightarrow> do { emit (Inc CacheDecisionMisses); State_Monad.return None }) }"

definition decision_store :: "string \<Rightarrow> Decision \<Rightarrow> ('w, 's, unit) prog" where
  "decision_store key d = do {
     stored \<leftarrow> with_caches (\<lambda>c. case LRU_Add (rc_Decisions c) key (Decision_value d) of
                 ((_, evicted), cache) \<Rightarrow> (evicted, c\<lparr>rc_Decisions := cache\<rparr>));
     (if stored = Some True then emit (Inc CacheEvictions) else skip) }"

section \<open>The pipeline\<close>

definition failClosedDecision :: Decision where
  "failClosedDecision =
     \<lparr>dc_Result = DecisionDeny, dc_ReasonCode = ReasonInternalFailClosed, dc_MatchedRuleIDs = []\<rparr>"

definition safeEvaluate ::
  "(DecisionInput \<Rightarrow> 'w \<Rightarrow> Decision option \<times> 'w) \<Rightarrow> DecisionInput \<Rightarrow> ('w, 's, Decision) prog" where
  "safeEvaluate e input = do {
     d \<leftarrow> call (e input);
     emit (Evaluated input d);
     State_Monad.return (case d of None \<Rightarrow> failClosedDecision | Some x \<Rightarrow> x) }"

text \<open>From the upstream's answer to the client.\<close>

definition status_class :: "nat \<Rightarrow> ('w, 's, unit) prog" where
  "status_class code =
     (if code = 401 \<or> code = 403 then emit (Inc UpstreamAuth)
      else if code = 429 then emit (Inc UpstreamThrottled)
      else if code \<ge> 400 \<and> code < 500 then emit (Inc UpstreamClient)
      else if code \<ge> 500 then emit (Inc UpstreamServer)
      else skip)"

definition relay_response :: "upstream_response \<Rightarrow> ('w, 's, unit) prog" where
  "relay_response r = do {
     emit (Inc (''upstream.status.'' @ itoa (us_StatusCode r)));
     status_class (us_StatusCode r);
     emit (Respond (us_StatusCode r) (copyHeaders [] (removeHopByHopHeaders (us_Header r)))
       (fst (copyResponse (collect_write None) [] (us_Body r)))) }"

definition upstream_failure ::
  "('w, 's) server_config \<Rightarrow> ('w, 's) go_runtime \<Rightarrow> string \<Rightarrow> DecodedAWSRequest \<Rightarrow> upstream_error option \<Rightarrow>
     ('w, 's, unit) prog" where
  "upstream_failure cf rt runID decoded err = do {
     emit (Inc UpstreamErrors);
     done \<leftarrow> (if err = Some Cancelled_error then State_Monad.return True else call (rt_ctx_err rt));
     emit (Inc (if done then UpstreamCancellation else UpstreamTransport));
     ev \<leftarrow> forwardEvent rt runID decoded;
     acceptAudit cf ev;
     http_Error ''upstream unavailable'' 502 }"

text \<open>The irreversible step; the result is the time spent upstream.\<close>

definition forward_stage ::
  "('w, 's) server_config \<Rightarrow> ('w, 's) go_runtime \<Rightarrow> string \<Rightarrow>
     ('s body_request \<Rightarrow> 'w \<Rightarrow> (upstream_response option \<times> upstream_error option) \<times> 'w) \<Rightarrow>
     DecodedAWSRequest \<Rightarrow> 's body_request \<Rightarrow> ('w, 's, int) prog" where
  "forward_stage cf rt runID upstream decoded outgoing = do {
     emit (Inc Allowed);
     upstreamStart \<leftarrow> call (rt_now rt);
     emit (Forwarded outgoing);
     answer \<leftarrow> call (upstream outgoing);
     upstreamElapsed \<leftarrow> since rt upstreamStart;
     emit (Observe UpstreamLatency upstreamElapsed);
     (case answer of
        (Some r, None) \<Rightarrow> relay_response r
      | (_, err) \<Rightarrow> upstream_failure cf rt runID decoded err);
     State_Monad.return upstreamElapsed }"

text \<open>After an allow decision was audited: the last checks, then resigning.\<close>

definition resign_stage ::
  "('w, 's) server_config \<Rightarrow> ('w, 's) go_runtime \<Rightarrow> 's body_request \<Rightarrow> AWSEndpoint \<Rightarrow> string \<Rightarrow> time \<Rightarrow>
     'req VerifiedRequest \<Rightarrow> 's verified_http \<Rightarrow> DecodedAWSRequest \<Rightarrow> string \<Rightarrow> ('w, 's, int) prog" where
  "resign_stage cf rt req endpoint runID started verified vreq decoded eventID =
     (case (cf_Resigner cf, cf_Upstream cf) of
        (Some resign, Some upstream) \<Rightarrow>
          if \<not> SameEndpoint (decoded_endpoint decoded) endpoint
             \<or> \<not> SameEndpoint (vr_Endpoint verified) endpoint
          then do {
            finishFailedPipeline cf rt req endpoint runID started ''internal_fail_closed'' ''forward''
              \<lparr>pf_decoded = Some decoded, pf_decode = zero_evidence\<rparr>;
            State_Monad.return 0 }
          else do {
            outgoing \<leftarrow> call (resign vreq endpoint);
            emit (Resigned vreq outgoing);
            (case outgoing of
               Inl _ \<Rightarrow> do {
                 emit (Inc ''upstream.credential_failure'');
                 respondPipelineDeny endpoint (Deny_decoded decoded)
                   ''upstream_credential_unavailable'' eventID;
                 State_Monad.return 0 }
             | Inr out \<Rightarrow> do {
                 failed \<leftarrow> (case Option.bind (cf_Audit cf) aw_Failed of
                              None \<Rightarrow> State_Monad.return False
                            | Some f \<Rightarrow> call f);
                 (if failed then do {
                    respondPipelineDeny endpoint (Deny_decoded decoded) ''audit_unavailable'' eventID;
                    State_Monad.return 0 }
                  else forward_stage cf rt runID upstream decoded out) }) }
      | _ \<Rightarrow> do {
          emit (Inc ''upstream.credential_failure'');
          respondPipelineDeny endpoint (Deny_decoded decoded) ''upstream_credential_unavailable'' eventID;
          State_Monad.return 0 })"

definition spool_bytes :: "'s verified_http \<Rightarrow> ('w, 's, unit) prog" where
  "spool_bytes vreq =
     (case br_captured vreq of
        None \<Rightarrow> skip
      | Some b \<Rightarrow>
          if Body_SpoolPath (Some b) \<noteq> [] then emit (Add_count SpoolBytes (Body_Size (Some b)))
          else skip)"

text \<open>A decision has been made: it is counted and audited, and a denial ends the request.\<close>

definition decision_stage ::
  "('w, 's) server_config \<Rightarrow> ('w, 's) go_runtime \<Rightarrow> 's body_request \<Rightarrow> AWSEndpoint \<Rightarrow> string \<Rightarrow> time \<Rightarrow>
     'req VerifiedRequest \<Rightarrow> 's verified_http \<Rightarrow> DecodedAWSRequest \<Rightarrow> MappingResult \<Rightarrow>
     int \<times> int \<times> int \<Rightarrow> Decision \<Rightarrow> ('w, 's, int) prog" where
  "decision_stage cf rt req endpoint runID started verified vreq decoded m elapsed d = do {
     emit (Inc (DecisionCounter (dr_Service decoded) (dr_Operation decoded) (dc_ReasonCode d)));
     emit (Add_count PayloadBytes (dr_PayloadBytes decoded));
     spool_bytes vreq;
     eventID \<leftarrow> call (rt_NewID rt);
     ev0 \<leftarrow> decisionEvent cf rt runID eventID decoded m d started;
     let ev = (case elapsed of (decodeElapsed, mapElapsed, policyElapsed) \<Rightarrow>
                 ev0\<lparr>ev_Timing := map_option (\<lambda>t. t\<lparr>ti_Decode := decodeElapsed, ti_Map := mapElapsed,
                                                    ti_Policy := policyElapsed\<rparr>) (ev_Timing ev0)\<rparr>);
     err \<leftarrow> acceptAudit cf ev;
     (if err \<noteq> None then do {
        respondPipelineDeny endpoint (Deny_decoded decoded) ''audit_unavailable'' eventID;
        State_Monad.return 0 }
      else if dc_Result d = DecisionDeny then do {
        emit (Inc Denied);
        respondPipelineDeny endpoint (Deny_decoded decoded) (dc_ReasonCode d) eventID;
        State_Monad.return 0 }
      else resign_stage cf rt req endpoint runID started verified vreq decoded eventID) }"

text \<open>The decision of the engine, with what is stored in the cache.\<close>

definition evaluate_decision ::
  "('w, 's) go_runtime \<Rightarrow> (DecisionInput \<Rightarrow> 'w \<Rightarrow> Decision option \<times> 'w) \<Rightarrow> string \<Rightarrow> DecisionInput \<Rightarrow>
     ('w, 's, Decision \<times> int) prog" where
  "evaluate_decision rt policy key input = do {
     policyStart \<leftarrow> call (rt_now rt);
     d \<leftarrow> safeEvaluate policy input;
     policyElapsed \<leftarrow> since rt policyStart;
     emit (Observe PolicyLatency policyElapsed);
     (if Decision_Valid d then do {
        decision_store key d;
        State_Monad.return (d, policyElapsed) }
      else State_Monad.return (failClosedDecision, policyElapsed)) }"

definition decision_input ::
  "('w, 's) server_config \<Rightarrow> string \<Rightarrow> AWSEndpoint \<Rightarrow> DecodedAWSRequest \<Rightarrow> MappingResult \<Rightarrow> DecisionInput" where
  "decision_input cf runID endpoint decoded m =
     \<lparr>di_RunID = runID, di_Endpoint = endpoint, di_Request = Some decoded, di_Mapping = Some m,
      di_PolicyHash = cf_PolicyHash cf, di_MapperVersion = mr_MapperVersion m\<rparr>"

definition policy_stage ::
  "('w, 's) server_config \<Rightarrow> ('w, 's) go_runtime \<Rightarrow> 's body_request \<Rightarrow> AWSEndpoint \<Rightarrow> string \<Rightarrow> time \<Rightarrow>
     'req VerifiedRequest \<Rightarrow> 's verified_http \<Rightarrow> DecodedAWSRequest \<Rightarrow> MappingResult \<Rightarrow> int \<Rightarrow> int \<Rightarrow>
     ('w, 's, int) prog" where
  "policy_stage cf rt req endpoint runID started verified vreq decoded m decodeElapsed mapElapsed =
     (let failed = (do {
            finishFailedPipeline cf rt req endpoint runID started ''internal_fail_closed'' ''policy''
              \<lparr>pf_decoded = Some decoded, pf_decode = zero_evidence\<rparr>;
            State_Monad.return 0 });
          input = decision_input cf runID endpoint decoded m in
      case cf_Policy cf of
        None \<Rightarrow> failed
      | Some policy \<Rightarrow>
          if DecisionInput_Validate input \<noteq> None then failed
          else do {
            let key = decisionCacheKey cf rt runID endpoint decoded m;
            cached \<leftarrow> decision_lookup key;
            decision \<leftarrow> (case cached of
                           Some d \<Rightarrow> State_Monad.return (d, 0)
                         | None \<Rightarrow> evaluate_decision rt policy key input);
            decision_stage cf rt req endpoint runID started verified vreq decoded m
              (decodeElapsed, mapElapsed, snd decision) (fst decision) })"

definition run_mapper ::
  "('w, 's) go_runtime \<Rightarrow> 'w iam_mapper \<Rightarrow> DecodedAWSRequest \<Rightarrow>
     ('w, 's, (MappingResult option \<times> map_error option) \<times> int) prog" where
  "run_mapper rt mapper decoded = do {
     mapStart \<leftarrow> call (rt_now rt);
     res \<leftarrow> call (mp_Map mapper decoded);
     emit (Mapped (fst res) (snd res));
     mapElapsed \<leftarrow> since rt mapStart;
     emit (Observe MapLatency mapElapsed);
     State_Monad.return (res, mapElapsed) }"

definition mapping_stage ::
  "('w, 's) server_config \<Rightarrow> ('w, 's) go_runtime \<Rightarrow> 's body_request \<Rightarrow> AWSEndpoint \<Rightarrow> string \<Rightarrow> time \<Rightarrow>
     'req VerifiedRequest \<Rightarrow> 's verified_http \<Rightarrow> DecodedAWSRequest \<Rightarrow> int \<Rightarrow> ('w, 's, int) prog" where
  "mapping_stage cf rt req endpoint runID started verified vreq decoded decodeElapsed =
     (let failed = (\<lambda>reason. do {
            finishFailedPipeline cf rt req endpoint runID started reason ''map''
              \<lparr>pf_decoded = Some decoded, pf_decode = zero_evidence\<rparr>;
            State_Monad.return 0 }) in
      case cf_Mapper cf of
        None \<Rightarrow> failed ''internal_fail_closed''
      | Some mapper \<Rightarrow> do {
          let key = mappingCacheKey cf rt runID endpoint decoded;
          cached \<leftarrow> mapping_lookup key;
          res \<leftarrow> (case cached of
                    Some m \<Rightarrow> State_Monad.return ((Some m, None), 0)
                  | None \<Rightarrow> run_mapper rt mapper decoded);
          (case res of
             ((Some m, None), mapElapsed) \<Rightarrow>
               if MappingResult_Validate m \<noteq> None \<or> mr_Service m \<noteq> dr_Service decoded
                  \<or> mr_Operation m \<noteq> dr_Operation decoded
               then failed ''mapping_low_confidence''
               else do {
                 mapping_store key m;
                 policy_stage cf rt req endpoint runID started verified vreq decoded m decodeElapsed
                   mapElapsed }
           | ((_, err), _) \<Rightarrow> failed (mapReason err)) })"

definition decode_stage ::
  "('w, 's) server_config \<Rightarrow> ('w, 's) go_runtime \<Rightarrow> 's body_request \<Rightarrow> AWSEndpoint \<Rightarrow> string \<Rightarrow> time \<Rightarrow>
     's verified_http VerifiedRequest \<Rightarrow> 's verified_http \<Rightarrow> ('w, 's, int) prog" where
  "decode_stage cf rt req endpoint runID started verified vreq =
     (let failed = (\<lambda>reason evidence. do {
            finishFailedPipeline cf rt req endpoint runID started reason ''decode''
              \<lparr>pf_decoded = None, pf_decode = evidence\<rparr>;
            State_Monad.return 0 }) in
      case cf_Decoder cf of
        None \<Rightarrow> failed ''internal_fail_closed'' zero_evidence
      | Some decode \<Rightarrow> do {
          decodeStart \<leftarrow> call (rt_now rt);
          res \<leftarrow> call (decode verified endpoint);
          emit (Decoded (fst res) (snd res));
          decodeElapsed \<leftarrow> since rt decodeStart;
          emit (Observe DecodeLatency decodeElapsed);
          (case res of
             (Some decoded, None) \<Rightarrow>
               if DecodedAWSRequest_Validate decoded \<noteq> None
                  \<or> \<not> SameEndpoint (decoded_endpoint decoded) endpoint
               then failed ''internal_fail_closed'' zero_evidence
               else mapping_stage cf rt req endpoint runID started verified vreq decoded decodeElapsed
           | (_, err) \<Rightarrow>
               failed ''unknown_operation''
                 (safeDecodeFailureEvidence err endpoint (vr_Protocol verified))) })"

definition authenticate_stage ::
  "('w, 's) server_config \<Rightarrow> ('w, 's) go_runtime \<Rightarrow> 's body_request \<Rightarrow> AWSEndpoint \<Rightarrow> string \<Rightarrow> time \<Rightarrow>
     ('w, 's, int) prog" where
  "authenticate_stage cf rt req endpoint runID started =
     (let failed = (\<lambda>code. do {
            finishAuthenticationFailure cf rt endpoint runID code;
            State_Monad.return 0 }) in
      case cf_InboundAuthenticator cf of
        None \<Rightarrow> failed ''internal_fail_closed''
      | Some verify \<Rightarrow> do {
          res \<leftarrow> call (verify req endpoint);
          emit (Verified (fst res) (snd res));
          (case res of
             (_, Some err) \<Rightarrow> failed (verifyReason err)
           | (Some verified, None) \<Rightarrow>
               if VerifiedRequest_Validate verified \<noteq> None \<or> \<not> SameEndpoint (vr_Endpoint verified) endpoint
               then failed ''invalid_inbound_signature''
               else
                 (case vr_Request verified of
                    Some vreq \<Rightarrow> do {
                      spent \<leftarrow> decode_stage cf rt req endpoint runID started verified vreq;
                      call (rt_close_body rt vreq);
                      emit (Body_closed vreq);
                      State_Monad.return spent }
                  | None \<Rightarrow> failed ''invalid_inbound_signature'')
           | (None, None) \<Rightarrow> failed ''invalid_inbound_signature'') })"

definition handlePipeline ::
  "('w, 's) server_config \<Rightarrow> ('w, 's) go_runtime \<Rightarrow> 's body_request \<Rightarrow> AWSEndpoint \<Rightarrow> ('w, 's, unit) prog" where
  "handlePipeline cf rt req endpoint = do {
     started \<leftarrow> call (rt_now rt);
     let runID = (if cf_RunID cf = [] then ''run-unknown'' else cf_RunID cf);
     emit (Inc Intercepted);
     upstreamElapsed \<leftarrow> authenticate_stage cf rt req endpoint runID started;
     total \<leftarrow> since rt started;
     emit (Observe LocalLatency (max 0 (total - upstreamElapsed))) }"

end
