(* ===== verification/Pipeline_Safety.thy ===== *)
theory Pipeline_Safety
  imports Pipeline "HOL-Library.Sublist"
begin

text \<open>
  What a run of the request pipeline may do. A small calculus of traces (\<open>emits\<close>) follows the
  programs of \<^verbatim>\<open>Pipeline\<close>; the locale \<open>decision_cache\<close> states what the stages rely on of the run's
  caches, the locale \<open>authorizer\<close> extends it by what they rely on of the policy engine, and the
  lemmas about the stages are proved once inside it.

  The properties: a request is forwarded at most once, and only after it was authenticated, decoded,
  mapped, allowed and audited, in that order; every run answers exactly once, with a denial unless it
  forwarded; a failed authentication calls no later stage; an accepted body is always released.
\<close>

section \<open>A calculus of traces\<close>

text \<open>
  \<open>emits J m Q\<close>: from every state whose caches satisfy \<open>J\<close>, the program \<open>m\<close> appends effects \<open>es\<close> to
  the trace, returns \<open>x\<close>, keeps \<open>J\<close>, and \<open>Q x es\<close> holds. The rules follow the shape of the program.
\<close>

definition emits ::
  "(cache_value RunCaches option \<Rightarrow> bool) \<Rightarrow> ('w, 's, 'a) prog \<Rightarrow> ('a \<Rightarrow> 's effect list \<Rightarrow> bool) \<Rightarrow> bool" where
  "emits J m Q \<longleftrightarrow> (\<forall>s. J (pl_caches s) \<longrightarrow>
     (\<exists>es. pl_trace (snd (run_state m s)) = pl_trace s @ es \<and> J (pl_caches (snd (run_state m s))) \<and>
        Q (fst (run_state m s)) es))"

named_theorems emits_rules

lemma emits_return [emits_rules]: "Q x [] \<Longrightarrow> emits J (State_Monad.return x) Q"
  by (simp add: emits_def)

lemma emits_emit [emits_rules]: "Q () [e] \<Longrightarrow> emits J (emit e) Q"
  by (simp add: emits_def emit_def)

lemma emits_call [emits_rules]: "(\<And>x. Q x []) \<Longrightarrow> emits J (call f) Q"
  by (auto simp: emits_def call_def split: prod.split)

lemma emits_bind [emits_rules]:
  assumes "emits J m (\<lambda>x es. emits J (k x) (\<lambda>y fs. Q y (es @ fs)))"
  shows "emits J (State_Monad.bind m k) Q"
  unfolding emits_def
proof (intro allI impI)
  fix s :: "('a, 'b) pipe_state"
  assume "J (pl_caches s)"
  with assms obtain es where es: "pl_trace (snd (run_state m s)) = pl_trace s @ es"
    "J (pl_caches (snd (run_state m s)))"
    "emits J (k (fst (run_state m s))) (\<lambda>y fs. Q y (es @ fs))"
    unfolding emits_def by blast
  from es(3) es(2) obtain fs where
    "pl_trace (snd (run_state (k (fst (run_state m s))) (snd (run_state m s)))) =
       pl_trace (snd (run_state m s)) @ fs"
    "J (pl_caches (snd (run_state (k (fst (run_state m s))) (snd (run_state m s)))))"
    "Q (fst (run_state (k (fst (run_state m s))) (snd (run_state m s)))) (es @ fs)"
    unfolding emits_def by blast
  with es(1) show "\<exists>es. pl_trace (snd (run_state (m \<bind> k) s)) = pl_trace s @ es \<and>
      J (pl_caches (snd (run_state (m \<bind> k) s))) \<and> Q (fst (run_state (m \<bind> k) s)) es"
    by (cases "run_state m s") auto
qed

lemma emits_mono: "emits J m P \<Longrightarrow> (\<And>x es. P x es \<Longrightarrow> Q x es) \<Longrightarrow> emits J m Q"
  unfolding emits_def by blast

lemma emits_if [emits_rules]:
  "(b \<Longrightarrow> emits J m Q) \<Longrightarrow> (\<not> b \<Longrightarrow> emits J n Q) \<Longrightarrow> emits J (if b then m else n) Q"
  by simp

lemma emits_option [emits_rules]:
  "(x = None \<Longrightarrow> emits J m Q) \<Longrightarrow> (\<And>y. x = Some y \<Longrightarrow> emits J (n y) Q) \<Longrightarrow>
     emits J (case x of None \<Rightarrow> m | Some y \<Rightarrow> n y) Q"
  by (cases x) auto

lemma emits_prod [emits_rules]:
  "(\<And>a b. x = (a, b) \<Longrightarrow> emits J (n a b) Q) \<Longrightarrow> emits J (case x of (a, b) \<Rightarrow> n a b) Q"
  by (cases x) auto

lemma emits_sum [emits_rules]:
  "(\<And>a. x = Inl a \<Longrightarrow> emits J (m a) Q) \<Longrightarrow> (\<And>b. x = Inr b \<Longrightarrow> emits J (n b) Q) \<Longrightarrow>
     emits J (case x of Inl a \<Rightarrow> m a | Inr b \<Rightarrow> n b) Q"
  by (cases x) auto

lemma emits_run:
  assumes "emits J m Q" "J (pl_caches s)" "run_state m s = (x, s')"
  obtains es where "pl_trace s' = pl_trace s @ es" "J (pl_caches s')" "Q x es"
  using assms unfolding emits_def by (metis fst_conv snd_conv)

section \<open>Kinds of effects\<close>

fun responds :: "'s effect \<Rightarrow> nat list" where
  "responds (Respond code h b) = [code]"
| "responds _ = []"

fun forwards :: "'s effect \<Rightarrow> 's body_request list" where
  "forwards (Forwarded out) = [out]"
| "forwards _ = []"

text \<open>The status codes of the responses, and the requests forwarded, in order.\<close>

definition statuses :: "'s effect list \<Rightarrow> nat list" where
  "statuses es = concat (map responds es)"

definition sent :: "'s effect list \<Rightarrow> 's body_request list" where
  "sent es = concat (map forwards es)"

lemma statuses_simps [simp]:
  "statuses [] = []" "statuses (e # es) = responds e @ statuses es" "statuses (es @ fs) = statuses es @ statuses fs"
  by (simp_all add: statuses_def)

lemma sent_simps [simp]:
  "sent [] = []" "sent (e # es) = forwards e @ sent es" "sent (es @ fs) = sent es @ sent fs"
  by (simp_all add: sent_def)

text \<open>Effects that neither answer nor forward, and effects that answer with one denial.\<close>

definition silent :: "'s effect list \<Rightarrow> bool" where
  "silent es \<longleftrightarrow> statuses es = [] \<and> sent es = []"

definition denial :: "'s effect list \<Rightarrow> bool" where
  "denial es \<longleftrightarrow> statuses es = [403] \<and> sent es = []"

lemmas kind_defs = silent_def denial_def

section \<open>The helpers\<close>

lemma Encode_403: "Encode p d = Some r \<Longrightarrow> dn_Classification d = ClassificationLocalDeny \<Longrightarrow> rs_StatusCode r = 403"
  by (auto simp: Encode_def classification_defs encodeLocal_def encodeJSON_def encodeRESTJSON_def
      encodeQueryXML_def encodeRESTXML_def setBody_def Let_def split: if_splits option.splits)

lemma emits_deny_exact:
  "(\<And>h b. Q () [Respond 403 h b]) \<Longrightarrow> emits J (respondPipelineDeny ep r reason ident) Q"
  unfolding respondPipelineDeny_def http_Error_def
  by (intro emits_rules) (auto dest!: Encode_403)

lemma emits_deny [emits_rules]:
  "(\<And>es. denial es \<Longrightarrow> Q () es) \<Longrightarrow> emits J (respondPipelineDeny ep r reason ident) Q"
  by (rule emits_deny_exact) (simp add: denial_def)

lemma emits_since [emits_rules]: "(\<And>x. Q x []) \<Longrightarrow> emits J (since rt start) Q"
  unfolding since_def by (intro emits_rules) simp

lemma emits_new_event [emits_rules]:
  "(\<And>ident now. Q (NewEvent ident now run typ) []) \<Longrightarrow> emits J (new_event rt run typ) Q"
  unfolding new_event_def by (intro emits_rules) simp

lemma emits_decisionEvent [emits_rules]:
  "(\<And>ident' now conn elapsed.
      Q (decision_event_of cf rt (NewEvent ident' now run RequestDecision) run ident conn elapsed r m d) []) \<Longrightarrow>
     emits J (decisionEvent cf rt run ident r m d start) Q"
  unfolding decisionEvent_def by (intro emits_rules) simp

lemma emits_forwardEvent [emits_rules]: "(\<And>e. Q e []) \<Longrightarrow> emits J (forwardEvent rt run r) Q"
  unfolding forwardEvent_def by (intro emits_rules) simp

text \<open>An event is accepted when the writer took it.\<close>

lemma emits_acceptAudit [emits_rules]:
  assumes "\<And>err es. silent es \<Longrightarrow> (err = None \<longrightarrow> Audited e None \<in> set es) \<Longrightarrow> Q err es"
  shows "emits J (acceptAudit cf e) Q"
  unfolding acceptAudit_def queue_gauge_def
  by (intro emits_rules) (rule assms; simp add: silent_def)+

lemma emits_failed_authentication [emits_rules]:
  "(\<And>es. denial es \<Longrightarrow> Q () es) \<Longrightarrow> emits J (finishAuthenticationFailure cf rt ep run code) Q"
  unfolding finishAuthenticationFailure_def Let_def
  by (intro emits_rules) (simp_all add: denial_def)

text \<open>Effects before the boundary that authentication is: no later dependency is called.\<close>

fun before_boundary :: "'s effect \<Rightarrow> bool" where
  "before_boundary (Inc n) = True"
| "before_boundary (Verified v e) = True"
| "before_boundary (Audited e r) = (ev_EventType e = AuthenticationFailed)"
| "before_boundary (Respond c h b) = (c = 403)"
| "before_boundary _ = False"

definition boundary :: "'s effect list \<Rightarrow> bool" where
  "boundary es \<longleftrightarrow> list_all before_boundary es"

lemma emits_auth_boundary:
  assumes "\<And>es. denial es \<Longrightarrow> boundary es \<Longrightarrow> Q () es"
  shows "emits J (finishAuthenticationFailure cf rt ep run code) Q"
  unfolding finishAuthenticationFailure_def Let_def
  by (intro emits_bind emits_option emits_if emits_emit emits_call emits_new_event emits_return
      emits_deny_exact)
     (auto intro!: assms simp: denial_def boundary_def NewEvent_def)

lemma emits_failed_pipeline [emits_rules]:
  "(\<And>es. denial es \<Longrightarrow> Q () es) \<Longrightarrow>
     emits J (finishFailedPipeline cf rt req ep run start reason stage evidence) Q"
  unfolding finishFailedPipeline_def Let_def
  by (intro emits_rules) (simp_all add: kind_defs)

lemma emits_with_caches:
  assumes "J None \<Longrightarrow> Q None []"
    and "\<And>c. J (Some c) \<Longrightarrow> J (Some (snd (f c))) \<and> Q (Some (fst (f c))) []"
  shows "emits J (with_caches f) Q"
proof -
  have "\<exists>es. pl_trace (snd (run_state (with_caches f) s)) = pl_trace s @ es \<and>
      J (pl_caches (snd (run_state (with_caches f) s))) \<and> Q (fst (run_state (with_caches f) s)) es"
    if "J (pl_caches s)" for s
  proof (cases "pl_caches s")
    case None
    then show ?thesis using that assms(1) by (simp add: with_caches_def)
  next
    case (Some c)
    then show ?thesis using that assms(2) [of c] by (cases "f c") (simp add: with_caches_def)
  qed
  then show ?thesis unfolding emits_def by blast
qed

section \<open>The decision cache as the pipeline sees it\<close>

text \<open>
  What the stages rely on: \<open>J\<close> is an invariant of the run's caches that does not look at the mapping
  cache, and under which a decision found at a key, like one stored there, satisfies \<open>P\<close>.
\<close>

locale decision_cache =
  fixes J :: "cache_value RunCaches option \<Rightarrow> bool" and P :: "string \<Rightarrow> Decision \<Rightarrow> bool"
  assumes operations: "J (Some c) \<Longrightarrow> J (Some (c\<lparr>rc_Operations := x\<rparr>))"
    and get: "J (Some c) \<Longrightarrow> LRU_Get (rc_Decisions c) k = (v, x) \<Longrightarrow>
      J (Some (c\<lparr>rc_Decisions := x\<rparr>)) \<and> (\<forall>d. v = Some (Decision_value d) \<longrightarrow> P k d)"
    and add: "J (Some c) \<Longrightarrow> P k d \<Longrightarrow> LRU_Add (rc_Decisions c) k (Decision_value d) = (b, x) \<Longrightarrow>
      J (Some (c\<lparr>rc_Decisions := x\<rparr>))"
begin

lemma emits_mapping_lookup:
  assumes "\<And>v es. silent es \<Longrightarrow> Q v es"
  shows "emits J (mapping_lookup key) Q"
  unfolding mapping_lookup_def
  by (intro emits_rules emits_with_caches conjI)
     (auto simp: silent_def operations split: prod.splits option.splits cache_value.splits
       intro!: emits_rules assms)

lemma emits_mapping_store:
  "(\<And>es. silent es \<Longrightarrow> Q () es) \<Longrightarrow> emits J (mapping_store key m) Q"
  unfolding mapping_store_def
  by (intro emits_rules emits_with_caches conjI)
     (auto simp: silent_def operations split: prod.splits)

lemma emits_decision_lookup:
  assumes "\<And>es. silent es \<Longrightarrow> Q None es"
    and "\<And>d es. silent es \<Longrightarrow> Decision_Valid d \<Longrightarrow> P key d \<Longrightarrow> Q (Some d) es"
  shows "emits J (decision_lookup key) Q"
  unfolding decision_lookup_def
  by (intro emits_rules emits_with_caches conjI)
     (auto simp: silent_def get split: prod.splits option.splits cache_value.splits
       intro!: emits_rules assms)

lemma emits_decision_store:
  "P key d \<Longrightarrow> (\<And>es. silent es \<Longrightarrow> Q () es) \<Longrightarrow> emits J (decision_store key d) Q"
  unfolding decision_store_def
  by (intro emits_rules emits_with_caches conjI)
     (auto simp: silent_def add split: prod.splits)

end

section \<open>The stages\<close>

text \<open>A run that forwards \<open>out\<close>, once, answers once, and has the effects \<open>chain\<close> in this order.\<close>

definition passes :: "'s effect list \<Rightarrow> 's body_request \<Rightarrow> 's effect list \<Rightarrow> bool" where
  "passes chain out es \<longleftrightarrow> subseq chain es \<and> sent es = [out] \<and> length (statuses es) = 1"

lemma passes_before: "silent p \<Longrightarrow> passes chain out es \<Longrightarrow> passes chain out (p @ es)"
  by (simp add: passes_def silent_def subseq_drop_many)

lemma passes_cons: "silent [e] \<Longrightarrow> passes chain out es \<Longrightarrow> passes chain out (e # es)"
  using passes_before [of "[e]"] by simp

lemma passes_with: "x \<in> set p \<Longrightarrow> silent p \<Longrightarrow> passes chain out es \<Longrightarrow> passes (x # chain) out (p @ es)"
  using list_emb_append_mono [of "(=)" "[x]" p chain es]
  by (simp add: passes_def silent_def subseq_singleton_left)

lemma passes_step: "silent [x] \<Longrightarrow> passes chain out es \<Longrightarrow> passes (x # chain) out (x # es)"
  using passes_with [of x "[x]"] by simp

lemma passes_after: "silent q \<Longrightarrow> x \<in> set q \<Longrightarrow> passes chain out es \<Longrightarrow> passes (chain @ [x]) out (es @ q)"
  using list_emb_append_mono [of "(=)" chain es "[x]" q]
  by (simp add: passes_def silent_def subseq_singleton_left)

lemma passes_end: "silent q \<Longrightarrow> passes chain out es \<Longrightarrow> passes chain out (es @ q)"
  by (simp add: passes_def silent_def subseq_rev_drop_many)

lemma denial_around: "silent p \<Longrightarrow> denial es \<Longrightarrow> denial (p @ es)" "silent p \<Longrightarrow> denial es \<Longrightarrow> denial (es @ p)"
  by (simp_all add: kind_defs)

lemma denial_cons: "silent [e] \<Longrightarrow> denial es \<Longrightarrow> denial (e # es)"
  using denial_around(1) [of "[e]"] by simp

lemma silent_append: "silent (p @ q) \<longleftrightarrow> silent p \<and> silent q" "silent []"
  by (auto simp: silent_def)

lemma silent_effects [simp]:
  "silent (Inc n # es) = silent es" "silent (Add_count n i # es) = silent es"
  "silent (Observe n i # es) = silent es" "silent (Gauge n i # es) = silent es"
  "silent (Verified a b # es) = silent es" "silent (Decoded c d # es) = silent es"
  "silent (Mapped e f # es) = silent es" "silent (Evaluated g h # es) = silent es"
  "silent (Audited k l # es) = silent es" "silent (Resigned q r # es) = silent es"
  "silent (Body_closed t # es) = silent es" "silent []"
  by (simp_all add: silent_def)

lemma emits_relay [emits_rules]:
  "(\<And>es. sent es = [] \<Longrightarrow> length (statuses es) = 1 \<Longrightarrow> Q () es) \<Longrightarrow> emits J (relay_response r) Q"
  unfolding relay_response_def status_class_def by (intro emits_rules) simp_all

lemma emits_upstream_failure [emits_rules]:
  "(\<And>es. sent es = [] \<Longrightarrow> length (statuses es) = 1 \<Longrightarrow> Q () es) \<Longrightarrow>
     emits J (upstream_failure cf rt run r err) Q"
  unfolding upstream_failure_def http_Error_def by (intro emits_rules) (simp_all add: silent_def)

lemma emits_forward [emits_rules]:
  assumes "\<And>n es. passes [Forwarded out] out es \<Longrightarrow> Q n es"
  shows "emits J (forward_stage cf rt run upstream r out) Q"
  unfolding forward_stage_def
  by (intro emits_rules)
     (auto intro!: emits_rules assms simp: passes_def split: prod.splits option.splits)

text \<open>A run ends with a denial, or it forwards with the effects of a chain before.\<close>

definition outcome :: "('s body_request \<Rightarrow> 's effect list \<Rightarrow> bool) \<Rightarrow> 's effect list \<Rightarrow> bool" where
  "outcome C es \<longleftrightarrow> denial es \<or> (\<exists>chain out. C out chain \<and> passes (chain @ [Forwarded out]) out es)"

lemma outcome_denial: "denial es \<Longrightarrow> outcome C es"
  by (simp add: outcome_def)

lemma outcome_before: "silent p \<Longrightarrow> outcome C es \<Longrightarrow> outcome C (p @ es)"
  unfolding outcome_def using denial_around(1) passes_before by blast

lemma outcome_cons: "silent [e] \<Longrightarrow> outcome C es \<Longrightarrow> outcome C (e # es)"
  using outcome_before [of "[e]"] by simp

lemma outcome_with:
  assumes "outcome C es" "x \<in> set p" "silent p" "\<And>out chain. C out chain \<Longrightarrow> C' out (x # chain)"
  shows "outcome C' (p @ es)"
  using assms(1)
proof (unfold outcome_def, elim disjE exE conjE)
  fix chain out
  assume "C out chain" "passes (chain @ [Forwarded out]) out es"
  then show "denial (p @ es) \<or> (\<exists>chain out. C' out chain \<and> passes (chain @ [Forwarded out]) out (p @ es))"
    using passes_with [OF assms(2,3)] assms(4) by (metis append_Cons)
qed (simp add: assms(3) denial_around)

lemma outcome_step:
  "outcome C es \<Longrightarrow> silent [x] \<Longrightarrow> (\<And>out chain. C out chain \<Longrightarrow> C' out (x # chain)) \<Longrightarrow> outcome C' (x # es)"
  using outcome_with [of C es x "[x]"] by simp

lemma emits_resign [emits_rules]:
  assumes "\<And>n es. outcome (\<lambda>out chain. chain = [Resigned vreq (Inr out)]) es \<Longrightarrow> Q n es"
  shows "emits J (resign_stage cf rt req ep run started v vreq r ident) Q"
proof -
  have fwd: "Q n (Resigned vreq (Inr out) # es)" if "denial es \<or> passes [Forwarded out] out es" for n out es
    using that passes_step [of "Resigned vreq (Inr out)" "[Forwarded out]" out es] denial_cons
    by (intro assms) (auto simp: outcome_def)
  show ?thesis
    unfolding resign_stage_def
    by (intro emits_rules)
       (auto intro!: emits_rules assms fwd outcome_denial denial_cons split: prod.splits option.splits)
qed

text \<open>The event that records the decision \<open>d\<close> on the request \<open>r\<close> with the mapping \<open>m\<close>.\<close>

definition records :: "DecodedAWSRequest \<Rightarrow> MappingResult \<Rightarrow> Decision \<Rightarrow> unit Event \<Rightarrow> bool" where
  "records r m d e \<longleftrightarrow> ev_EventType e = RequestDecision \<and> ev_Request e = Some (request_info r) \<and>
     map_option (map ar_Action) (ev_IAMRequirements e) = Some (map rq_Action (mr_Requirements m)) \<and>
     (\<exists>i. ev_Decision e = Some i \<and> ad_Result i = dc_Result d \<and> ad_ReasonCode i = dc_ReasonCode d)"

lemma records_event:
  "records r m d (decision_event_of cf rt (NewEvent a b c RequestDecision) run ident conn elapsed r m d
     \<lparr>ev_Timing := t\<rparr>)"
  by (simp add: records_def decision_event_of_def NewEvent_def RequirementsForRun_def audit_requirements_def)

lemma emits_spool [emits_rules]: "(\<And>es. silent es \<Longrightarrow> Q () es) \<Longrightarrow> emits J (spool_bytes vreq) Q"
  unfolding spool_bytes_def by (intro emits_rules) (simp_all add: silent_def)

lemma emits_decision [emits_rules]:
  assumes "\<And>n es. outcome (\<lambda>out chain. dc_Result d \<noteq> DecisionDeny \<and>
       (\<exists>ev. records r m d ev \<and> chain = [Audited ev None, Resigned vreq (Inr out)])) es \<Longrightarrow> Q n es"
  shows "emits J (decision_stage cf rt req ep run started v vreq r m elapsed d) Q"
proof -
  let ?C = "\<lambda>out chain. dc_Result d \<noteq> DecisionDeny \<and>
    (\<exists>ev. records r m d ev \<and> chain = [Audited ev None, Resigned vreq (Inr out)])"
  have deny: "Q n (Inc a # Add_count b c # es @ esa @ esb)"
    if "silent es" "silent esa" "denial esb" for n a b c es esa esb
    using that by (intro assms outcome_cons outcome_before outcome_denial) simp_all
  have allow: "Q n (Inc a # Add_count b c # es @ esa @ esb)"
    if "silent es" "silent esa" "dc_Result d \<noteq> DecisionDeny" "Audited ev None \<in> set esa"
      "records r m d ev" "outcome (\<lambda>out chain. chain = [Resigned vreq (Inr out)]) esb"
    for n a b c es esa esb ev
    using that(1-3,5) outcome_with [OF that(6,4,2), of ?C]
    by (intro assms outcome_cons outcome_before [OF that(1)]) auto
  show ?thesis
    unfolding decision_stage_def Let_def split_beta
    by (intro emits_rules)
       (auto intro: deny deny [where esb = "Inc Denied # _"] allow records_event simp: denial_cons
         intro!: emits_rules)
qed

section \<open>The policy engine as the pipeline sees it\<close>

lemma failClosed_valid: "Decision_Valid failClosedDecision"
  by (simp add: failClosedDecision_def Decision_Valid_def DecisionResult_Valid_def ReasonCode_Valid_def
      allReasonCodes_def reason_defs DecisionDeny_def DecisionAllow_def)

definition input_key :: "('w, 's) server_config \<Rightarrow> ('w, 's) go_runtime \<Rightarrow> DecisionInput \<Rightarrow> string" where
  "input_key cf rt i =
     decisionCacheKey cf rt (di_RunID i) (di_Endpoint i) (the (di_Request i)) (the (di_Mapping i))"

text \<open>What the chain of a forwarded request shows of its decision.\<close>

definition permitted ::
  "(string \<Rightarrow> Decision \<Rightarrow> bool) \<Rightarrow> ('w, 's) server_config \<Rightarrow> ('w, 's) go_runtime \<Rightarrow>
     AWSEndpoint \<Rightarrow> string \<Rightarrow> DecodedAWSRequest \<Rightarrow> MappingResult \<Rightarrow> Decision \<Rightarrow> bool" where
  "permitted P cf rt ep run r m d \<longleftrightarrow> Decision_Valid d \<and> dc_Result d = DecisionAllow \<and>
     (let i = decision_input cf run ep r m in DecisionInput_Validate i = None \<and> P (input_key cf rt i) d)"

text \<open>The chain of a forwarded request from its mapping on.\<close>

definition mapped_chain ::
  "(string \<Rightarrow> Decision \<Rightarrow> bool) \<Rightarrow> ('w, 's) server_config \<Rightarrow> ('w, 's) go_runtime \<Rightarrow>
     AWSEndpoint \<Rightarrow> string \<Rightarrow> DecodedAWSRequest \<Rightarrow> 's verified_http \<Rightarrow> 's body_request \<Rightarrow> 's effect list \<Rightarrow> bool" where
  "mapped_chain P cf rt ep run r vreq out chain \<longleftrightarrow>
     (\<exists>m d ev. MappingResult_Validate m = None \<and> mr_Service m = dr_Service r \<and>
        mr_Operation m = dr_Operation r \<and> permitted P cf rt ep run r m d \<and> records r m d ev \<and>
        chain = [Audited ev None, Resigned vreq (Inr out)])"

text \<open>And from its decoding on.\<close>

definition decoded_chain ::
  "(string \<Rightarrow> Decision \<Rightarrow> bool) \<Rightarrow> ('w, 's) server_config \<Rightarrow> ('w, 's) go_runtime \<Rightarrow>
     AWSEndpoint \<Rightarrow> string \<Rightarrow> 's verified_http \<Rightarrow> 's body_request \<Rightarrow> 's effect list \<Rightarrow> bool" where
  "decoded_chain P cf rt ep run vreq out chain \<longleftrightarrow>
     (\<exists>r rest. DecodedAWSRequest_Validate r = None \<and> SameEndpoint (decoded_endpoint r) ep \<and>
        mapped_chain P cf rt ep run r vreq out rest \<and> chain = Decoded (Some r) None # rest)"

text \<open>A verification the pipeline accepts, and the run that follows it.\<close>

definition accepted_run ::
  "(string \<Rightarrow> Decision \<Rightarrow> bool) \<Rightarrow> ('w, 's) server_config \<Rightarrow> ('w, 's) go_runtime \<Rightarrow>
     AWSEndpoint \<Rightarrow> string \<Rightarrow> 's effect list \<Rightarrow> bool" where
  "accepted_run P cf rt ep run es \<longleftrightarrow>
     (\<exists>v vreq mid. VerifiedRequest_Validate v = None \<and> SameEndpoint (vr_Endpoint v) ep \<and>
        vr_Request v = Some vreq \<and> outcome (decoded_chain P cf rt ep run vreq) mid \<and>
        es = Verified (Some v) None # mid @ [Body_closed vreq])"

text \<open>
  The contract between the pipeline and the policy engine: a valid decision on a valid input satisfies
  \<open>P\<close> at the key of the input.
\<close>

locale authorizer = decision_cache J P
  for J :: "cache_value RunCaches option \<Rightarrow> bool" and P :: "string \<Rightarrow> Decision \<Rightarrow> bool" +
  fixes cf :: "('w, 's) server_config" and rt :: "('w, 's) go_runtime"
  assumes evaluate: "cf_Policy cf = Some policy \<Longrightarrow> DecisionInput_Validate i = None \<Longrightarrow>
    fst (policy i w) = Some d \<Longrightarrow> Decision_Valid d \<Longrightarrow> P (input_key cf rt i) d"
    and fail_closed: "P k failClosedDecision"
begin

lemma emits_call_policy:
  "(\<And>x w. x = fst (f w) \<Longrightarrow> Q x []) \<Longrightarrow> emits J (call f) Q"
  by (auto simp: emits_def call_def split: prod.split) (metis fst_conv)

lemma emits_evaluate:
  assumes "cf_Policy cf = Some policy" "DecisionInput_Validate i = None" "key = input_key cf rt i"
    and "\<And>d n es. silent es \<Longrightarrow> Decision_Valid d \<Longrightarrow> P key d \<Longrightarrow> Q (d, n) es"
  shows "emits J (evaluate_decision rt policy key i) Q"
proof -
  have p: "P key d" if "fst (policy i w) = Some d" "Decision_Valid d" for d w
    using evaluate [OF assms(1,2) that] assms(3) by simp
  from p failClosed_valid show ?thesis
    unfolding evaluate_decision_def safeEvaluate_def
    by (intro emits_call_policy emits_rules)
       (auto intro!: emits_rules emits_decision_store assms(4) fail_closed intro: p split: option.splits)
qed

lemma emits_policy:
  assumes "\<And>n es. outcome (\<lambda>out chain. \<exists>d ev. permitted P cf rt ep run r m d \<and> records r m d ev \<and>
       chain = [Audited ev None, Resigned vreq (Inr out)]) es \<Longrightarrow> Q n es"
  shows "emits J (policy_stage cf rt req ep run started v vreq r m t1 t2) Q"
proof -
  let ?i = "decision_input cf run ep r m"
  let ?k = "decisionCacheKey cf rt run ep r m"
  let ?D = "\<lambda>d out chain. dc_Result d \<noteq> DecisionDeny \<and>
    (\<exists>ev. records r m d ev \<and> chain = [Audited ev None, Resigned vreq (Inr out)])"
  have key: "?k = input_key cf rt ?i" by (simp add: input_key_def decision_input_def)
  have final: "Q n (es @ fs @ gs)"
    if "DecisionInput_Validate ?i = None" "silent es" "silent fs" "Decision_Valid d"
      "P (input_key cf rt ?i) d" "outcome (?D d) gs"
    for n es fs gs d
  proof -
    have "permitted P cf rt ep run r m d" if "dc_Result d \<noteq> DecisionDeny"
      using that \<open>Decision_Valid d\<close> \<open>P (input_key cf rt ?i) d\<close> \<open>DecisionInput_Validate ?i = None\<close>
      unfolding permitted_def Let_def
      by (auto simp: Decision_Valid_def DecisionResult_Valid_def split: if_splits)
    then have "outcome (\<lambda>out chain. \<exists>d ev. permitted P cf rt ep run r m d \<and> records r m d ev \<and>
       chain = [Audited ev None, Resigned vreq (Inr out)]) gs"
      using that(6) unfolding outcome_def by blast
    with that(2,3) show ?thesis by (intro assms outcome_before)
  qed
  have deny: "Q n es" if "denial es" for n es using that by (intro assms outcome_denial)
  show ?thesis
    unfolding policy_stage_def Let_def
    by (intro emits_rules emits_decision_lookup)
       (auto intro!: emits_rules emits_evaluate intro: deny final final [where fs = "[]", simplified]
         simp: key)
qed

lemma emits_mapper:
  "(\<And>res n es. silent es \<Longrightarrow> Q (res, n) es) \<Longrightarrow> emits J (run_mapper rt mapper r) Q"
  unfolding run_mapper_def by (intro emits_rules) simp

lemma emits_mapping:
  assumes "\<And>n es. outcome (mapped_chain P cf rt ep run r vreq) es \<Longrightarrow> Q n es"
  shows "emits J (mapping_stage cf rt req ep run started v vreq r t) Q"
proof -
  have deny: "Q n (es @ fs @ gs)" if "silent es" "silent fs" "denial gs" for n es fs gs
    using that by (intro assms outcome_before outcome_denial)
  have final: "Q n (es @ fs @ ss @ gs)"
    if "silent es" "silent fs" "silent ss" "MappingResult_Validate m = None" "mr_Service m = dr_Service r"
      "mr_Operation m = dr_Operation r"
      "outcome (\<lambda>out chain. \<exists>d ev. permitted P cf rt ep run r m d \<and> records r m d ev \<and>
         chain = [Audited ev None, Resigned vreq (Inr out)]) gs" for n es fs ss gs m
  proof -
    have "outcome (mapped_chain P cf rt ep run r vreq) gs"
      using that(4-) unfolding outcome_def mapped_chain_def by blast
    with that(1-3) show ?thesis by (intro assms outcome_before)
  qed
  show ?thesis
    unfolding mapping_stage_def Let_def
    by (intro emits_rules emits_mapping_lookup)
       (auto intro!: emits_rules emits_mapper emits_mapping_store emits_policy split: prod.splits option.splits
         intro: deny deny [where es = "[]" and fs = "[]", simplified] deny [where fs = "[]", simplified]
           final final [where fs = "[]", simplified])
qed

lemma emits_decode:
  assumes "\<And>n es. outcome (decoded_chain P cf rt ep run vreq) es \<Longrightarrow> Q n es"
  shows "emits J (decode_stage cf rt req ep run started v vreq) Q"
proof -
  have deny: "Q n es" if "denial es" for n es using that by (intro assms outcome_denial)
  have final: "Q n (Decoded (Some r) None # Observe a b # gs)"
    if "DecodedAWSRequest_Validate r = None" "SameEndpoint (decoded_endpoint r) ep"
      "outcome (mapped_chain P cf rt ep run r vreq) gs" for n r a b gs
    using that by (intro assms outcome_step [OF outcome_cons [OF _ that(3)]]) (auto simp: decoded_chain_def)
  show ?thesis
    unfolding decode_stage_def Let_def
    by (intro emits_rules)
       (auto intro!: emits_rules emits_mapping split: prod.splits option.splits
         intro: deny final simp: denial_cons)
qed

lemma emits_authenticate:
  assumes "\<And>n es. denial es \<Longrightarrow> boundary es \<Longrightarrow> Q n es"
    and "\<And>n es. accepted_run P cf rt ep run es \<Longrightarrow> Q n es"
  shows "emits J (authenticate_stage cf rt req ep run started) Q"
proof -
  have reject: "Q n es" if "denial es" "boundary es" for n es using that by (rule assms(1))
  have accept: "Q n (Verified (Some v) None # mid @ [Body_closed vreq])"
    if "VerifiedRequest_Validate v = None" "SameEndpoint (vr_Endpoint v) ep" "vr_Request v = Some vreq"
      "outcome (decoded_chain P cf rt ep run vreq) mid" for n v vreq mid
    using that by (intro assms(2)) (auto simp: accepted_run_def)
  show ?thesis
    unfolding authenticate_stage_def Let_def
    by (intro emits_rules emits_auth_boundary)
       (auto intro!: emits_rules emits_auth_boundary emits_decode split: prod.splits option.splits
         intro: reject accept simp: denial_cons boundary_def)
qed

lemma emits_pipeline:
  assumes "run = (if cf_RunID cf = [] then ''run-unknown'' else cf_RunID cf)"
    and "\<And>es t. denial es \<and> boundary es \<or> accepted_run P cf rt ep run es \<Longrightarrow>
       Q () (Inc Intercepted # es @ [Observe LocalLatency t])"
  shows "emits J (handlePipeline cf rt req ep) Q"
  unfolding handlePipeline_def Let_def assms(1) [symmetric]
  by (intro emits_rules emits_authenticate) (auto intro: assms(2))

end

section \<open>Runs from arbitrary caches\<close>

interpretation any_run: authorizer "\<lambda>_. True" "\<lambda>_ _. True" cf rt
  for cf :: "('w, 's) server_config" and rt :: "('w, 's) go_runtime"
  by unfold_locales simp_all

abbreviation run_of :: "('w, 's) server_config \<Rightarrow> string" where
  "run_of cf \<equiv> (if cf_RunID cf = [] then ''run-unknown'' else cf_RunID cf)"

text \<open>The effects of a run.\<close>

definition effects ::
  "('w, 's) server_config \<Rightarrow> ('w, 's) go_runtime \<Rightarrow> 's body_request \<Rightarrow> AWSEndpoint \<Rightarrow> ('w, 's) pipe_state \<Rightarrow>
     's effect list" where
  "effects cf rt req ep s =
     drop (length (pl_trace s)) (pl_trace (snd (run_state (handlePipeline cf rt req ep) s)))"

lemma effects_emits:
  "emits (\<lambda>_. True) (handlePipeline cf rt req ep) Q \<Longrightarrow> Q () (effects cf rt req ep s)"
  unfolding emits_def effects_def by (metis append_eq_conv_conj old.unit.exhaust)

lemma effects_shape:
  obtains es t where "effects cf rt req ep s = Inc Intercepted # es @ [Observe LocalLatency t]"
    and "denial es \<and> boundary es \<or> accepted_run (\<lambda>_ _. True) cf rt ep (run_of cf) es"
proof -
  have "emits (\<lambda>_. True) (handlePipeline cf rt req ep)
    (\<lambda>_ fs. \<exists>es t. fs = Inc Intercepted # es @ [Observe LocalLatency t] \<and>
      (denial es \<and> boundary es \<or> accepted_run (\<lambda>_ _. True) cf rt ep (run_of cf) es))"
    by (rule any_run.emits_pipeline [OF refl]) blast
  from effects_emits [OF this] that show thesis by blast
qed

lemma accepted_run_denial:
  "accepted_run P cf rt ep run es \<Longrightarrow> denial es \<or> (\<exists>out. sent es = [out] \<and> length (statuses es) = 1)"
  by (auto simp: accepted_run_def outcome_def passes_def kind_defs)

lemma outcome_cases:
  assumes "outcome C es"
  obtains "denial es" | out chain where "C out chain" "passes (chain @ [Forwarded out]) out es"
  using assms unfolding outcome_def by blast

text \<open>What the effects of a run that forwards show.\<close>

definition forwarded_run ::
  "(string \<Rightarrow> Decision \<Rightarrow> bool) \<Rightarrow> ('w, 's) server_config \<Rightarrow> ('w, 's) go_runtime \<Rightarrow> AWSEndpoint \<Rightarrow> string \<Rightarrow>
     's effect list \<Rightarrow> bool" where
  "forwarded_run P cf rt ep run es \<longleftrightarrow>
     (\<exists>out v vreq r m d ev.
        passes [Verified (Some v) None, Decoded (Some r) None, Audited ev None, Resigned vreq (Inr out),
                Forwarded out, Body_closed vreq] out es \<and>
        VerifiedRequest_Validate v = None \<and> SameEndpoint (vr_Endpoint v) ep \<and> vr_Request v = Some vreq \<and>
        DecodedAWSRequest_Validate r = None \<and> SameEndpoint (decoded_endpoint r) ep \<and>
        MappingResult_Validate m = None \<and> mr_Service m = dr_Service r \<and> mr_Operation m = dr_Operation r \<and>
        permitted P cf rt ep run r m d \<and> records r m d ev)"

lemma accepted_run_forwards:
  assumes "accepted_run P cf rt ep run es" "\<not> denial es"
  shows "forwarded_run P cf rt ep run es"
proof -
  from assms obtain v vreq mid where v: "VerifiedRequest_Validate v = None"
    "SameEndpoint (vr_Endpoint v) ep" "vr_Request v = Some vreq"
    "outcome (decoded_chain P cf rt ep run vreq) mid"
    "es = Verified (Some v) None # mid @ [Body_closed vreq]" unfolding accepted_run_def by blast
  from v(5) assms(2) have "\<not> denial mid" by (simp add: denial_def)
  with v(4) obtain out r m d ev where
    c: "DecodedAWSRequest_Validate r = None" "SameEndpoint (decoded_endpoint r) ep"
      "MappingResult_Validate m = None" "mr_Service m = dr_Service r" "mr_Operation m = dr_Operation r"
      "permitted P cf rt ep run r m d" "records r m d ev"
      "passes [Decoded (Some r) None, Audited ev None, Resigned vreq (Inr out), Forwarded out] out mid"
    by (auto elim!: outcome_cases simp: decoded_chain_def mapped_chain_def)
  from passes_step [OF _ passes_after [OF _ _ c(8), of "[Body_closed vreq]" "Body_closed vreq"],
      of "Verified (Some v) None"] v(5)
  have "passes [Verified (Some v) None, Decoded (Some r) None, Audited ev None, Resigned vreq (Inr out),
    Forwarded out, Body_closed vreq] out es" by simp
  with v(1-3) c(1-7) show ?thesis unfolding forwarded_run_def by blast
qed

lemma forwarded_run_around:
  "forwarded_run P cf rt ep run es \<Longrightarrow> silent [e] \<Longrightarrow> silent [f] \<Longrightarrow> forwarded_run P cf rt ep run (e # es @ [f])"
  unfolding forwarded_run_def by (meson passes_cons passes_end)

lemma shape_forwarded:
  "denial es \<and> boundary es \<or> accepted_run P cf rt ep run es \<Longrightarrow>
     sent (Inc Intercepted # es @ [Observe LocalLatency t]) = [] \<or>
     forwarded_run P cf rt ep run (Inc Intercepted # es @ [Observe LocalLatency t])"
  using accepted_run_forwards [of P cf rt ep run es] forwarded_run_around [of P cf rt ep run es]
  by (cases "denial es") (auto simp: denial_def)

section \<open>Properties\<close>

text \<open>
  Property C2. Nothing is forwarded without authorization. For every configuration, however its
  dependencies behave and whatever the caches hold: a request handled by the pipeline forwards
  nothing, or it forwards exactly one request, and its effects include, in this order, an accepted
  verification for this endpoint, a valid decoding for this endpoint, an audit event the writer
  accepted, the resigning of the verified request into the one that is sent, the sending, and the
  release of the body; the audited event records a valid allow decision on the decoded request, made
  for a validated mapping of the same operation.
\<close>

theorem pipeline_forward_guarded:
  "sent (effects cf rt req ep s) = [] \<or>
   (\<exists>out v vreq r m d ev. sent (effects cf rt req ep s) = [out] \<and>
      subseq [Verified (Some v) None, Decoded (Some r) None, Audited ev None, Resigned vreq (Inr out),
              Forwarded out, Body_closed vreq] (effects cf rt req ep s) \<and>
      VerifiedRequest_Validate v = None \<and> SameEndpoint (vr_Endpoint v) ep \<and> vr_Request v = Some vreq \<and>
      DecodedAWSRequest_Validate r = None \<and> SameEndpoint (decoded_endpoint r) ep \<and>
      MappingResult_Validate m = None \<and> mr_Service m = dr_Service r \<and> mr_Operation m = dr_Operation r \<and>
      DecisionInput_Validate (decision_input cf (run_of cf) ep r m) = None \<and>
      Decision_Valid d \<and> dc_Result d = DecisionAllow \<and> records r m d ev)"
proof -
  have "emits (\<lambda>_. True) (handlePipeline cf rt req ep)
    (\<lambda>_ es. sent es = [] \<or> forwarded_run (\<lambda>_ _. True) cf rt ep (run_of cf) es)"
    by (rule any_run.emits_pipeline [OF refl]) (rule shape_forwarded)
  from effects_emits [OF this] show ?thesis
    unfolding forwarded_run_def permitted_def Let_def passes_def by blast
qed

text \<open>
  Property C3. Every request is answered exactly once, and a request that was not forwarded is answered
  with status 403: no failure of any stage, of the audit writer or of a missing dependency leaves the
  client without an answer or with another one.
\<close>

theorem pipeline_answers_once:
  "length (statuses (effects cf rt req ep s)) = 1 \<and>
   (statuses (effects cf rt req ep s) = [403] \<or> length (sent (effects cf rt req ep s)) = 1)"
proof -
  obtain fs t where fs: "effects cf rt req ep s = Inc Intercepted # fs @ [Observe LocalLatency t]"
    "denial fs \<and> boundary fs \<or> accepted_run (\<lambda>_ _. True) cf rt ep (run_of cf) fs"
    by (rule effects_shape)
  from fs(2) accepted_run_denial have "denial fs \<or> (\<exists>out. sent fs = [out] \<and> length (statuses fs) = 1)"
    by blast
  then show ?thesis by (auto simp: fs(1) denial_def)
qed

text \<open>
  Property C4. Authentication is a hard boundary, and an accepted body is released: either some
  verification for this endpoint was accepted, and then the last thing before the final latency
  observation is the release of its body; or decoder, mapper, engine, resigner and upstream were not
  called at all, the only events written are of type authentication failure, and the answer is 403.
\<close>

theorem pipeline_auth_boundary:
  "(\<exists>v vreq pre t. effects cf rt req ep s = pre @ [Body_closed vreq, Observe LocalLatency t] \<and>
      Verified (Some v) None \<in> set pre \<and> VerifiedRequest_Validate v = None \<and>
      SameEndpoint (vr_Endpoint v) ep \<and> vr_Request v = Some vreq) \<or>
   (list_all before_boundary (butlast (effects cf rt req ep s)) \<and>
      statuses (effects cf rt req ep s) = [403] \<and> sent (effects cf rt req ep s) = [])"
proof -
  obtain fs t where fs: "effects cf rt req ep s = Inc Intercepted # fs @ [Observe LocalLatency t]"
    "denial fs \<and> boundary fs \<or> accepted_run (\<lambda>_ _. True) cf rt ep (run_of cf) fs"
    by (rule effects_shape)
  from fs(2) show ?thesis
  proof
    assume "denial fs \<and> boundary fs"
    then show ?thesis by (simp add: fs(1) denial_def boundary_def butlast_append)
  next
    assume "accepted_run (\<lambda>_ _. True) cf rt ep (run_of cf) fs"
    then obtain v vreq mid where v: "VerifiedRequest_Validate v = None" "SameEndpoint (vr_Endpoint v) ep"
      "vr_Request v = Some vreq" "fs = Verified (Some v) None # mid @ [Body_closed vreq]"
      unfolding accepted_run_def by blast
    have "effects cf rt req ep s =
        (Inc Intercepted # Verified (Some v) None # mid) @ [Body_closed vreq, Observe LocalLatency t]"
      by (simp add: fs(1) v(4))
    with v(1-3) show ?thesis by (metis list.set_intros(1,2))
  qed
qed

end
