(* ===== verification/Pipeline_Audit.thy ===== *)
theory Pipeline_Audit
  imports Pipeline_Safety
begin

text \<open>
  The audit events of the pipeline: every decision on a valid request with a valid mapping, and every
  failure of a stage, yields an event that passes the validation of the audit writer, so that no
  request is refused for want of a well-formed event; and in its default mode an event does not depend
  on the names of the resources or on the parameters of the request.
\<close>

section \<open>Events of decisions\<close>

text \<open>The fields an event has from the run, the clock and the random identifiers.\<close>

definition event_identity :: "string \<Rightarrow> string \<Rightarrow> string \<Rightarrow> time \<Rightarrow> bool" where
  "event_identity run ident conn now \<longleftrightarrow> run \<noteq> [] \<and> length run \<le> 128 \<and> ident \<noteq> [] \<and> length ident \<le> 128 \<and>
     conn \<noteq> [] \<and> \<not> time_is_zero now"

lemma zero_hash_valid: "validHash (''sha256:'' @ replicate 64 CHR ''0'')"
proof -
  have "list_all is_ascii (replicate 64 CHR ''0'')" by (simp add: list_all_iff is_ascii_def ord_def)
  then have "runes (replicate 64 CHR ''0'') = map ord (replicate 64 CHR ''0'')" by (rule runes_ascii)
  then have "isHex (replicate 64 CHR ''0'')" by (simp add: isHex_def list_all_iff ord_def)
  moreover have "drop 7 (''sha256:'' @ replicate 64 CHR ''0'') = replicate 64 CHR ''0''" by simp
  moreover have "has_prefix (''sha256:'' @ replicate 64 CHR ''0'') ''sha256:''" by (simp add: has_prefix_def)
  moreover have "length (''sha256:'' @ replicate 64 CHR ''0'') = 71" by simp
  ultimately show ?thesis unfolding validHash_def by metis
qed

lemma validPolicyHash_valid: "validHash h \<or> length h \<noteq> 71 \<or> \<not> has_prefix h ''sha256:'' \<Longrightarrow> validHash (validPolicyHash h)"
  using zero_hash_valid by (auto simp: validPolicyHash_def)

lemma trim_space_nonempty: "trim_space s \<noteq> [] \<Longrightarrow> s \<noteq> []"
  by (auto simp: trim_space_def)

lemma decoded_request_info:
  "DecodedAWSRequest_Validate r = None \<Longrightarrow> RequestInfo_Validate (request_info r) = None"
  by (auto simp: DecodedAWSRequest_Validate_def RequestInfo_Validate_def request_info_def decoded_methods_def
      to_upper_def dest: trim_space_nonempty split: option.splits if_splits)

text \<open>A mapping whose requirements an event can carry.\<close>

definition auditable :: "MappingResult \<Rightarrow> bool" where
  "auditable m \<longleftrightarrow> MappingConfidence_Valid (mr_Confidence m) \<and> mr_MapperVersion m \<noteq> [] \<and> mr_Requirements m \<noteq> [] \<and>
     (\<forall>q \<in> set (mr_Requirements m). rq_Action q \<noteq> [] \<and> rq_Resources q \<noteq> [] \<and> [] \<notin> set (rq_Resources q) \<and>
        ScopeKind_Valid (rq_ScopeKind q))"

lemma valid_mapping_auditable:
  assumes "MappingResult_Validate m = None" "\<forall>q \<in> set (mr_Requirements m). rq_Resources q \<noteq> []"
  shows "auditable m"
proof -
  from assms(1) have m: "MappingConfidence_Valid (mr_Confidence m)" "mr_MapperVersion m \<noteq> []"
    "mr_Requirements m \<noteq> []" "\<forall>q \<in> set (mr_Requirements m). IAMRequirement_Validate q = None"
    by (auto simp: MappingResult_Validate_def first_err_None dest: trim_space_nonempty split: if_splits option.splits)
  have "rq_Action q \<noteq> [] \<and> [] \<notin> set (rq_Resources q) \<and> ScopeKind_Valid (rq_ScopeKind q)"
    if "IAMRequirement_Validate q = None" for q
    using requirement_validate_shape [OF that] by (auto simp: count_byte_def)
  with m assms(2) show ?thesis by (simp add: auditable_def)
qed

lemma redacted_requirement:
  assumes "rq_Action q \<noteq> []" "rq_Resources q \<noteq> []" "[] \<notin> set (rq_Resources q)" "ScopeKind_Valid (rq_ScopeKind q)"
  shows "Requirement_Validate \<lparr>ar_Action = rq_Action q,
     ar_Resources = map (redact_for_run hmac run logARNs hashNames q) (rq_Resources q),
     ar_ScopeKind = rq_ScopeKind q, ar_Dependent = rq_Dependent q\<rparr> = None"
proof -
  from assms(3) have "\<forall>s \<in> set (rq_Resources q). redact_for_run hmac run logARNs hashNames q s \<noteq> []"
    by (auto simp: redact_for_run_def HashResourceForRun_def)
  then show ?thesis
    using assms unfolding Requirement_Validate_def by (simp add: first_err_None)
qed

lemma decision_event_validates:
  assumes "event_identity run ident conn now" "RequestInfo_Validate (request_info r) = None" "auditable m"
    and "DecisionResult_Valid (dc_Result d)" "validHash (validPolicyHash (cf_PolicyHash cf))"
  shows "Event_Validate (decision_event_of cf rt (NewEvent x now run RequestDecision) run ident conn elapsed r m d
     \<lparr>ev_Timing := Some t\<rparr>) = None"
proof -
  let ?qs = "RequirementsForRun (rt_hmac rt) run (mr_Requirements m) (cf_LogResourceARNs cf) (cf_HashResourceNames cf)"
  have "first_err Requirement_Validate ?qs = None"
    using assms(3) redacted_requirement
    by (auto simp: first_err_None RequirementsForRun_def audit_requirements_def auditable_def)
  moreover have "?qs \<noteq> []"
    using assms(3) by (simp add: RequirementsForRun_def audit_requirements_def auditable_def)
  moreover have "dc_Result d = ''allow'' \<or> dc_Result d = ''deny''"
    using assms(4) by (simp add: DecisionResult_Valid_def DecisionAllow_def DecisionDeny_def)
  ultimately show ?thesis
    using assms(1,2,3,5)
    by (simp add: Event_Validate_def event_identity_def decision_event_of_def NewEvent_def
        event_type_defs validate_decision_def requirement_list_def auditable_def)
qed

text \<open>The event as it is built, before the timings of the stages are filled in.\<close>

lemma decision_event_timing:
  "decision_event_of cf rt e0 run ident conn elapsed r m d =
     (decision_event_of cf rt e0 run ident conn elapsed r m d)
     \<lparr>ev_Timing := Some \<lparr>ti_Decode = 0, ti_Map = 0, ti_Policy = 0, ti_LocalTotal = elapsed, ti_Upstream = 0\<rparr>\<rparr>"
  by (simp add: decision_event_of_def)

section \<open>Events of failures\<close>

lemma failure_request_info:
  assumes "AWSEndpoint_Validate ep = None"
  shows "RequestInfo_Validate (request_info (failureDecoded req ep evidence)) = None"
proof -
  from assms have e: "trim_space (ep_Partition ep) \<noteq> []" "trim_space (ep_Host ep) \<noteq> []"
    by (auto simp: AWSEndpoint_Validate_def split: if_splits)
  moreover have "AWSProtocol_Supported ProtocolJSON11" by (simp add: AWSProtocol_Supported_def)
  ultimately show ?thesis
    using trim_space_nonempty [OF e(1)]
    by (auto simp: RequestInfo_Validate_def request_info_def failureDecoded_def Let_def
        DecodeFailureEvidence_HasProtocol_def DecodeFailureEvidence_HasOperation_def
        validEvidenceOperation_def validOperation_def)
qed

lemma failure_mapping_auditable: "auditable (failureMapping r stage)"
  by (simp add: auditable_def failureMapping_def Let_def MappingConfidence_Valid_def ScopeKind_Valid_def)

section \<open>A sample server\<close>

definition sample_now :: time where
  "sample_now = \<lparr>tm_year = 2024, tm_month = 1, tm_day = 2, tm_hour = 3, tm_min = 4, tm_sec = 5, tm_nanos = 0\<rparr>"

definition sample_runtime :: "(unit, unit) go_runtime" where
  "sample_runtime = \<lparr>rt_now = Pair sample_now, rt_NewID = Pair ''evt_01'', rt_ctx_err = Pair False,
     rt_close_body = (\<lambda>_. Pair ()), rt_sha256 = (\<lambda>x. x), rt_hmac = (\<lambda>k x. x),
     rt_marshal_mapping_request = (\<lambda>_. ''{}''), rt_marshal_decision_request = (\<lambda>_. ''{}''),
     rt_marshal_metadata = (\<lambda>_. ''{}'')\<rparr>"

text \<open>A server without dependencies, for the run and the policy of the sample input.\<close>

definition sample_bare :: "(unit, unit) server_config" where
  "sample_bare = \<lparr>cf_InboundAuthenticator = None, cf_Decoder = None, cf_Mapper = None, cf_Policy = None,
     cf_Audit = None, cf_Resigner = None, cf_Upstream = None, cf_RunID = di_RunID sample_input,
     cf_PolicyHash = di_PolicyHash sample_input, cf_LogResourceARNs = False, cf_HashResourceNames = False,
     cf_MapperVersion = [], cf_AdapterVersion = [], cf_DataVersion = []\<rparr>"

definition sample_inbound :: "unit body_request" where
  "sample_inbound = \<lparr>rq_Method = ''POST'', rq_URL = None, rq_Host = ''s3.us-east-1.amazonaws.com'', rq_Header = [],
     rq_ContentLength = 0, br_Body = No_body, br_captured = None\<rparr>"

lemma sample_event_identity: "event_identity (cf_RunID sample_bare) ''evt_01'' ''evt_01'' sample_now"
  by (simp add: event_identity_def sample_bare_def sample_input_def sample_now_def time_is_zero_def)

lemma sample_resources: "\<forall>q \<in> set (mr_Requirements sample_mapping). rq_Resources q \<noteq> []"
  by (simp add: sample_mapping_def sample_requirement_def)

lemma sample_hash: "length (cf_PolicyHash sample_bare) \<noteq> 71"
  by (simp add: sample_bare_def sample_input_def)

section \<open>Properties\<close>

text \<open>
  Property C33. Every decision can be audited: for a validated request and a validated mapping whose
  requirements all name a resource, whatever the decision, the redaction mode and the timings, the
  event of the decision passes the validation of the audit writer, provided that run, identifiers
  and clock are well formed and that a configured policy hash of full length is hexadecimal.
\<close>

theorem decision_event_valid:
  assumes "event_identity run ident conn now" "DecodedAWSRequest_Validate r = None"
    and "MappingResult_Validate m = None" "\<forall>q \<in> set (mr_Requirements m). rq_Resources q \<noteq> []"
    and "Decision_Valid d"
    and "validHash (cf_PolicyHash cf) \<or> length (cf_PolicyHash cf) \<noteq> 71"
  shows "Event_Validate (decision_event_of cf rt (NewEvent x now run RequestDecision) run ident conn elapsed r m d
     \<lparr>ev_Timing := Some t\<rparr>) = None"
proof (rule decision_event_validates [OF assms(1) decoded_request_info [OF assms(2)]])
  show "auditable m" using assms(3,4) by (rule valid_mapping_auditable)
  show "DecisionResult_Valid (dc_Result d)" using assms(5) by (auto simp: Decision_Valid_def split: if_splits)
  show "validHash (validPolicyHash (cf_PolicyHash cf))" using assms(6) by (intro validPolicyHash_valid) auto
qed

theorem decision_event_valid_witness:
  "Event_Validate (decision_event_of sample_bare sample_runtime
     (NewEvent ''evt_00'' sample_now (cf_RunID sample_bare) RequestDecision) (cf_RunID sample_bare)
     ''evt_01'' ''evt_01'' 7 sample_request sample_mapping failClosedDecision
     \<lparr>ev_Timing := Some \<lparr>ti_Decode = 1, ti_Map = 2, ti_Policy = 3, ti_LocalTotal = 7, ti_Upstream = 0\<rparr>\<rparr>) = None"
proof (rule decision_event_valid [OF sample_event_identity sample_request_valid sample_mapping_valid sample_resources])
  show "Decision_Valid failClosedDecision" by (rule failClosed_valid)
qed (simp add: sample_hash)

text \<open>
  Property. Every failure can be audited: when a stage of the pipeline fails for a valid endpoint, with
  or without a decoded request, and whatever evidence the decoder gave, the denial event that is
  written passes the validation of the audit writer; the answer is then the failure's own reason
  and not the unavailability of the audit.
\<close>

theorem failure_event_valid:
  assumes "event_identity run ident conn now" "AWSEndpoint_Validate ep = None"
    and "r = failureDecoded req ep evidence \<or> DecodedAWSRequest_Validate r = None"
    and "validHash (cf_PolicyHash cf) \<or> length (cf_PolicyHash cf) \<noteq> 71"
  shows "Event_Validate (decision_event_of cf rt (NewEvent x now run RequestDecision) run ident conn elapsed r
     (failureMapping r stage) \<lparr>dc_Result = DecisionDeny, dc_ReasonCode = reason, dc_MatchedRuleIDs = []\<rparr>) = None"
proof (subst decision_event_timing, rule decision_event_validates [OF assms(1)])
  show "RequestInfo_Validate (request_info r) = None"
    using assms(3) by (elim disjE) (simp_all add: failure_request_info [OF assms(2)] decoded_request_info)
  show "validHash (validPolicyHash (cf_PolicyHash cf))" using assms(4) by (intro validPolicyHash_valid) auto
qed (simp_all add: failure_mapping_auditable DecisionResult_Valid_def)

theorem failure_event_valid_witness:
  "Event_Validate (decision_event_of sample_bare sample_runtime
     (NewEvent ''evt_00'' sample_now (cf_RunID sample_bare) RequestDecision) (cf_RunID sample_bare)
     ''evt_01'' ''evt_01'' 7 (failureDecoded sample_inbound sample_endpoint zero_evidence)
     (failureMapping (failureDecoded sample_inbound sample_endpoint zero_evidence) ''decode'')
     \<lparr>dc_Result = DecisionDeny, dc_ReasonCode = ReasonUnknownOperation, dc_MatchedRuleIDs = []\<rparr>) = None"
proof (rule failure_event_valid [OF sample_event_identity sample_endpoint_valid])
  show "validHash (cf_PolicyHash sample_bare) \<or> length (cf_PolicyHash sample_bare) \<noteq> 71" by (simp add: sample_hash)
qed (rule disjI1, rule refl)

text \<open>Requirements that differ in the names of their resources only.\<close>

definition same_shape :: "IAMRequirement \<Rightarrow> IAMRequirement \<Rightarrow> bool" where
  "same_shape q q' \<longleftrightarrow> rq_Action q = rq_Action q' \<and> rq_ScopeKind q = rq_ScopeKind q' \<and>
     rq_Dependent q = rq_Dependent q' \<and>
     list_all2 (\<lambda>a b. rq_ScopeKind q = ScopeKnownGlobal \<longrightarrow> (a = ''*'') = (b = ''*'')) (rq_Resources q) (rq_Resources q')"

lemma redacted_same_shape:
  assumes "list_all2 same_shape qs qs'"
  shows "RequirementsForRun hmac run qs False False = RequirementsForRun hmac run qs' False False"
proof -
  have "map (redact_for_run hmac run False False q) (rq_Resources q) =
      map (redact_for_run hmac run False False q') (rq_Resources q')" if "same_shape q q'" for q q'
    using that by (auto simp: same_shape_def redact_for_run_def list_all2_conv_all_nth intro!: nth_equalityI)
  with assms show ?thesis
    unfolding RequirementsForRun_def audit_requirements_def
    by (induction rule: list_all2_induct) (auto simp: same_shape_def)
qed

text \<open>
  Property C34. The default audit mode does not leak: with neither resource logging nor hashing, two
  requests that agree in the eight fields the event shows, with mappings that agree in confidence,
  versions and the shape of their requirements, have the same event, whatever their parameters,
  paths, headers, accounts and resource names are.
\<close>

theorem decision_event_no_leak:
  assumes "\<not> cf_LogResourceARNs cf" "\<not> cf_HashResourceNames cf" "request_info r = request_info r'"
    and "list_all2 same_shape (mr_Requirements m) (mr_Requirements m')"
    and "mr_Confidence m = mr_Confidence m'" "mr_MapperVersion m = mr_MapperVersion m'"
    and "mr_IamLiveVersion m = mr_IamLiveVersion m'"
    and "mr_AuthorizationDataVersion m = mr_AuthorizationDataVersion m'"
  shows "decision_event_of cf rt e0 run ident conn elapsed r m d =
     decision_event_of cf rt e0 run ident conn elapsed r' m' d"
  using assms redacted_same_shape [OF assms(4)] by (simp add: decision_event_of_def)

theorem decision_event_no_leak_witness:
  "decision_event_of sample_bare sample_runtime (NewEvent ''evt_00'' sample_now ''run-1'' RequestDecision) ''run-1''
     ''evt_01'' ''evt_01'' 7 sample_request sample_mapping failClosedDecision =
   decision_event_of sample_bare sample_runtime (NewEvent ''evt_00'' sample_now ''run-1'' RequestDecision) ''run-1''
     ''evt_01'' ''evt_01'' 7 (sample_request\<lparr>dr_CanonicalPath := ''/other''\<rparr>)
     (sample_mapping\<lparr>mr_Requirements := map (\<lambda>q. q\<lparr>rq_Resources := [''arn:aws:s3:::secret/key'']\<rparr>)
        (mr_Requirements sample_mapping)\<rparr>) failClosedDecision"
  by (rule decision_event_no_leak)
     (simp_all add: sample_bare_def request_info_def sample_mapping_def same_shape_def sample_requirement_def
       scope_kind_defs)

end
