(* ===== verification/Pipeline_Policy.thy ===== *)
theory Pipeline_Policy
  imports Pipeline_Audit
begin

text \<open>
  The policy engine inside the pipeline. The decision cache is keyed by a hash of the request and its
  mapping; here it is shown that the key contains enough: an allow found in the cache was computed by
  the engine for an input with the same key, and two inputs with the same key are allowed or not
  alike. \<open>backed\<close> interprets the locale \<open>decision_cache\<close> on the run's LRU caches and \<open>engine\<close>
  interprets \<open>authorizer\<close> on the engine of \<^verbatim>\<open>Policy_Engine\<close>.

  The properties: every request that is forwarded, in any sequence of requests on one server, is one
  that the policy grants; the converse, that an allowed request does reach the upstream and its
  response the client; and what the cache does with a failed evaluation.
\<close>

section \<open>What the decision key determines\<close>

lemma utf8_tail_continuation:
  assumes "utf8_tail a t = Some (r, n)" "i < n"
  shows "128 \<le> ord (t ! i)"
proof -
  have lo: "128 \<le> second_lo b" for b by (simp add: second_lo_def)
  from assms(1) consider "n = 0" | "n = 1" "cont_ok 128 191 t 0"
    | "n = 2" "cont_ok (second_lo (ord a)) (second_hi (ord a)) t 0" "cont_ok 128 191 t 1"
    | "n = 3" "cont_ok (second_lo (ord a)) (second_hi (ord a)) t 0" "cont_ok 128 191 t 1" "cont_ok 128 191 t 2"
    unfolding utf8_tail_def Let_def by (auto split: if_splits)
  then show ?thesis
    using assms(2) lo [of "ord a"]
    by cases (auto simp: cont_ok_def less_Suc_eq numeral_2_eq_2 numeral_3_eq_3)
qed

lemma ascii_byte_rune:
  assumes "valid_utf8 s" "c \<in> set s" "is_ascii c"
  shows "ord c \<in> set (runes s)"
proof -
  from assms(2) obtain ch where ch: "ch \<in> set (utf8_chunks s)" "c \<in> set (snd ch)"
    by (subst (asm) concat_utf8_chunks [symmetric]) auto
  from ch(1) valid_chunks_wf [OF assms(1)] obtain r a t where w: "ch = (Some r, a # t)"
    "utf8_tail a t = Some (r, length t)" by (auto simp: wf_chunks_def)
  have high: "128 \<le> ord x" if "x \<in> set t" for x
    using utf8_tail_continuation [OF w(2)] that by (auto simp: in_set_conv_nth)
  have "c = a" using high [of c] ch(2) w(1) assms(3) by (auto simp: is_ascii_def)
  with w assms(3) have "r = ord c" by (simp add: is_ascii_def utf8_tail_def)
  with ch(1) w(1) show ?thesis by (force simp: runes_def rune_of_chunk_def)
qed

lemma evaluated_resource_clean:
  "evaluated_resource_error res = None \<Longrightarrow> res \<noteq> [] \<and> nul \<notin> set res"
proof -
  assume a: "evaluated_resource_error res = None"
  then have "valid_utf8 res" "\<not> list_ex is_control_rune (runes res)" "res \<noteq> []"
    by (auto simp: evaluated_resource_error_def split: if_splits)
  moreover have "is_ascii nul" "is_control_rune (ord nul)"
    by (simp_all add: nul_def is_ascii_def is_control_rune_def ord_def)
  ultimately show ?thesis using ascii_byte_rune [of res nul] by (auto simp: list_ex_iff)
qed

lemma admissible_separable:
  assumes "admissible e i r m" "q \<in> set (mr_Requirements m)"
  shows "separable (rq_Resources q)"
proof -
  have "requirements_error (mr_Service m) 0 (mr_Requirements m) = None"
    using assms(1) by (auto simp: admissible_def validateEvaluationInput_def split: if_splits option.splits)
  then have "requirement_error (mr_Service m) 0 q = None" using assms(2) by (simp add: requirements_error_None)
  then have "first_err evaluated_resource_error (rq_Resources q) = None"
    by (auto simp: requirement_error_def split: if_splits option.splits sum.splits)
  then show ?thesis using evaluated_resource_clean by (auto simp: separable_def list_all_iff first_err_None)
qed

text \<open>Two requests on which the rules of a policy cannot differ.\<close>

lemma ruleMatches_request:
  assumes "dr_Partition r = dr_Partition r'" "dr_Region r = dr_Region r'"
    "dr_CallerAccountID r = dr_CallerAccountID r'"
  shows "ruleMatches rule action res scope r = ruleMatches rule action res scope r'"
  unfolding ruleMatches_def assms ..

lemma authorized_transfer:
  assumes "dr_Partition r = dr_Partition r'" "dr_Region r = dr_Region r'"
    "dr_CallerAccountID r = dr_CallerAccountID r'"
    and "requirement_view ` qs = requirement_view ` qs'" "authorized rules r qs"
  shows "authorized rules r' qs'"
  unfolding authorized_def
proof (intro ballI)
  fix q'
  assume "q' \<in> qs'"
  with assms(4) obtain q where q: "q \<in> qs" "requirement_view q = requirement_view q'" by (metis imageE imageI)
  then have sd: "same_demand q q'"
    unfolding same_demand_def requirement_view_def by (metis prod.inject set_sort)
  have "hits r = hits r'" by (simp add: fun_eq_iff hits_def ruleMatches_request [OF assms(1-3)])
  with same_demand_by [OF sd] q(1) assms(5) sd
  show "rq_ScopeKind q' \<noteq> ScopeUnresolved \<and>
     (\<forall>res \<in> set (rq_Resources q'). granted_by rules r' q' res \<and> \<not> denied_by rules r' q' res)"
    unfolding authorized_def
    by (auto simp: same_demand_def granted_by_def denied_by_def acknowledged_def)
qed

text \<open>The mapping is of high confidence, and the policy grants all it requires.\<close>

definition allowed_for :: "Engine \<Rightarrow> DecodedAWSRequest \<Rightarrow> MappingResult \<Rightarrow> bool" where
  "allowed_for e r m \<longleftrightarrow> mr_Confidence m = ConfidenceHigh \<and>
     authorized (set (eng_rules e)) r (set (mr_Requirements m))"

text \<open>
  What is asked of the hash and of the JSON texts for two inputs: SHA-256 does not collide on the two
  decision keys and on the two requirement keys, and equal texts come from equal fields.
\<close>

definition keys_apart ::
  "('w, 's) server_config \<Rightarrow> ('w, 's) go_runtime \<Rightarrow> string \<times> AWSEndpoint \<times> DecodedAWSRequest \<times> MappingResult \<Rightarrow>
     string \<times> AWSEndpoint \<times> DecodedAWSRequest \<times> MappingResult \<Rightarrow> bool" where
  "keys_apart cf rt a b \<longleftrightarrow>
     (case (a, b) of ((run, ep, r, m), (run', ep', r', m')) \<Rightarrow>
        collision_free (rt_sha256 rt) {decision_key_parts cf rt run ep r m, decision_key_parts cf rt run' ep' r' m'} \<and>
        collision_free (rt_sha256 rt) {requirements_parts (mr_Requirements m), requirements_parts (mr_Requirements m')} \<and>
        inj_on (rt_marshal_decision_request rt) {view_request r, view_request r'} \<and>
        inj_on (rt_marshal_metadata rt) {view_mapping m, view_mapping m'})"

definition separable_mapping :: "MappingResult \<Rightarrow> bool" where
  "separable_mapping m \<longleftrightarrow> (\<forall>q \<in> set (mr_Requirements m). separable (rq_Resources q))"

lemma decision_key_nth:
  "decision_key_parts cf rt run ep r m ! 12 = rt_marshal_decision_request rt (view_request r)"
  "decision_key_parts cf rt run ep r m ! 13 = RequirementsKey (rt_sha256 rt) (mr_Requirements m)"
  "decision_key_parts cf rt run ep r m ! 14 = rt_marshal_metadata rt (view_mapping m)"
  by (simp_all add: decision_key_parts_def split_beta)

lemma key_sufficient:
  assumes "keys_apart cf rt (run, ep, r, m) (run', ep', r', m')"
    and "decisionCacheKey cf rt run ep r m = decisionCacheKey cf rt run' ep' r' m'"
    and "separable_mapping m" "separable_mapping m'" "allowed_for e r m"
  shows "allowed_for e r' m'"
proof -
  from assms(1) have free:
    "collision_free (rt_sha256 rt) {decision_key_parts cf rt run ep r m, decision_key_parts cf rt run' ep' r' m'}"
    "collision_free (rt_sha256 rt) {requirements_parts (mr_Requirements m), requirements_parts (mr_Requirements m')}"
    "inj_on (rt_marshal_decision_request rt) {view_request r, view_request r'}"
    "inj_on (rt_marshal_metadata rt) {view_mapping m, view_mapping m'}"
    unfolding keys_apart_def prod.case by blast+
  have k: "decision_key_parts cf rt run ep r m = decision_key_parts cf rt run' ep' r' m'"
    by (rule HashKey_inj [OF free(1) _ _ assms(2) [unfolded decisionCacheKey_def]]) simp_all
  have parts: "rt_marshal_decision_request rt (view_request r) = rt_marshal_decision_request rt (view_request r')"
    "RequirementsKey (rt_sha256 rt) (mr_Requirements m) = RequirementsKey (rt_sha256 rt) (mr_Requirements m')"
    "rt_marshal_metadata rt (view_mapping m) = rt_marshal_metadata rt (view_mapping m')"
    using arg_cong [OF k, of "\<lambda>ps. ps ! 12"] arg_cong [OF k, of "\<lambda>ps. ps ! 13"]
      arg_cong [OF k, of "\<lambda>ps. ps ! 14"]
    by (simp_all only: decision_key_nth)
  have "view_request r = view_request r'" by (rule inj_onD [OF free(3) parts(1)]) simp_all
  then have same: "dr_Partition r = dr_Partition r'" "dr_Region r = dr_Region r'"
    "dr_CallerAccountID r = dr_CallerAccountID r'" by (simp_all add: view_request_def)
  have "view_mapping m = view_mapping m'" by (rule inj_onD [OF free(4) parts(3)]) simp_all
  then have conf: "mr_Confidence m = mr_Confidence m'" by (simp add: view_mapping_def)
  from assms(3,4) have "\<forall>q \<in> set (mr_Requirements m) \<union> set (mr_Requirements m'). separable (rq_Resources q)"
    by (auto simp: separable_mapping_def)
  from mset_eq_setD [OF RequirementsKey_view [OF this free(2) parts(2)]] have "requirement_view ` set (mr_Requirements m) = requirement_view ` set (mr_Requirements m')"
    by simp
  from authorized_transfer [OF same this] conf assms(5) show ?thesis by (simp add: allowed_for_def)
qed

section \<open>The policy engine in the pipeline\<close>

text \<open>
  The engine as a dependency: \<open>ctx\<close> gives the context of a request, which may be cancelled at any poll.
\<close>

definition engine_policy :: "Engine \<Rightarrow> ('w \<Rightarrow> Context) \<Rightarrow> DecisionInput \<Rightarrow> 'w \<Rightarrow> Decision option \<times> 'w" where
  "engine_policy e ctx i w = (Some (Engine_Evaluate (Some e) (Some (ctx w)) i), w)"

text \<open>A decision at a key is an allow only if the engine allows an input with that key.\<close>

definition engine_backed :: "('w, 's) server_config \<Rightarrow> ('w, 's) go_runtime \<Rightarrow> Engine \<Rightarrow> string \<Rightarrow> Decision \<Rightarrow> bool" where
  "engine_backed cf rt e k d \<longleftrightarrow>
     (dc_Result d = DecisionAllow \<longrightarrow>
        (\<exists>i. DecisionInput_Validate i = None \<and> input_key cf rt i = k \<and>
           dc_Result (Engine_Evaluate (Some e) (Some Background) i) = DecisionAllow))"

text \<open>The caches hold only such decisions.\<close>

definition caches_backed :: "(string \<Rightarrow> Decision \<Rightarrow> bool) \<Rightarrow> cache_value RunCaches option \<Rightarrow> bool" where
  "caches_backed P caches \<longleftrightarrow>
     (case caches of
        None \<Rightarrow> True
      | Some c \<Rightarrow> lru.agrees (\<lambda>k v. \<forall>d. v = Decision_value d \<longrightarrow> P k d) (rc_Decisions c))"

interpretation backed: decision_cache "caches_backed P" P for P
proof unfold_locales
  fix c k v x
  assume c: "caches_backed P (Some c)" and "LRU_Get (rc_Decisions c) k = (v, x)"
  then show "caches_backed P (Some (c\<lparr>rc_Decisions := x\<rparr>)) \<and> (\<forall>d. v = Some (Decision_value d) \<longrightarrow> P k d)"
    using lru.agrees_get [of _ "rc_Decisions c" k] lru.agrees_hit [of _ "rc_Decisions c" k]
    by (fastforce simp: caches_backed_def)
next
  fix c k d b x
  assume "caches_backed P (Some c)" "P k d" "LRU_Add (rc_Decisions c) k (Decision_value d) = (b, x)"
  then show "caches_backed P (Some (c\<lparr>rc_Decisions := x\<rparr>))"
    using lru.agrees_add [of _ "rc_Decisions c" k "Decision_value d"]
    by (simp add: caches_backed_def LRU_Put_def)
qed (simp add: caches_backed_def)

definition with_engine :: "Engine \<Rightarrow> ('w \<Rightarrow> Context) \<Rightarrow> ('w, 's) server_config \<Rightarrow> ('w, 's) server_config" where
  "with_engine e ctx cf = cf\<lparr>cf_Policy := Some (engine_policy e ctx)\<rparr>"

lemma engine_law:
  assumes "cf_Policy (with_engine e ctx cf) = Some policy" "DecisionInput_Validate i = None"
    "fst (policy i w) = Some d"
  shows "engine_backed (with_engine e ctx cf) rt e (input_key (with_engine e ctx cf) rt i) d"
proof -
  have "d = Engine_Evaluate (Some e) (Some (ctx w)) i"
    using assms(1,3) by (auto simp: with_engine_def engine_policy_def)
  then have "d \<in> {internalDecision, Engine_Evaluate (Some e) (Some Background) i}"
    using evaluate_cancel_aux by metis
  with assms(2) show ?thesis by (auto simp: engine_backed_def)
qed

interpretation engine: authorizer "caches_backed (engine_backed (with_engine e ctx cf) rt e)"
  "engine_backed (with_engine e ctx cf) rt e" "with_engine e ctx cf" rt
  for e ctx and cf :: "('w, 's) server_config" and rt :: "('w, 's) go_runtime"
  by unfold_locales
     (erule (2) engine_law, simp add: engine_backed_def failClosedDecision_def DecisionDeny_def DecisionAllow_def)

text \<open>A sequence of requests, one after the other, on one server.\<close>

definition serve ::
  "('w, 's) server_config \<Rightarrow> ('w, 's) go_runtime \<Rightarrow> ('s body_request \<times> AWSEndpoint) list \<Rightarrow>
     ('w, 's) pipe_state \<Rightarrow> ('w, 's) pipe_state" where
  "serve cf rt reqs s = fold (\<lambda>(req, ep) s. snd (run_state (handlePipeline cf rt req ep) s)) reqs s"

lemma emits_keeps: "emits J m Q \<Longrightarrow> J (pl_caches s) \<Longrightarrow> J (pl_caches (snd (run_state m s)))"
  unfolding emits_def by blast

lemma serve_backed:
  "caches_backed (engine_backed (with_engine e ctx cf) rt e) (pl_caches s) \<Longrightarrow>
     caches_backed (engine_backed (with_engine e ctx cf) rt e)
       (pl_caches (serve (with_engine e ctx cf) rt reqs s))"
proof (induction reqs arbitrary: s)
  case (Cons a reqs)
  obtain req ep where a: "a = (req, ep)" by (cases a)
  have "emits (caches_backed (engine_backed (with_engine e ctx cf) rt e))
      (handlePipeline (with_engine e ctx cf) rt req ep) (\<lambda>_ _. True)"
    by (rule engine.emits_pipeline [OF refl]) simp
  from Cons.IH [OF emits_keeps [OF this Cons.prems]] show ?case by (simp add: serve_def a)
qed (simp add: serve_def)

lemma fresh_caches_backed: "NewRunCaches opts = Inr c \<Longrightarrow> caches_backed P (Some c)"
  by (auto simp: NewRunCaches_def caches_backed_def lru.agrees_def cache_inv_def lru_content_def
      dest!: NewLRU_inv split: sum.splits)

lemma subseq_forwarded:
  "subseq [a, b, c, d, f, g] es \<Longrightarrow> subseq [b, c, f] es"
  by (erule subseq_order.trans [rotated]) simp

lemma forwarded_backed:
  assumes "forwarded_run (engine_backed cf rt e) cf rt ep run es"
  shows "\<exists>out r m d ev run0 ep0 r0 m0 i. subseq [Decoded (Some r) None, Audited ev None, Forwarded out] es \<and>
     records r m d ev \<and> dc_Result d = DecisionAllow \<and>
     i = \<lparr>di_RunID = run0, di_Endpoint = ep0, di_Request = Some r0, di_Mapping = Some m0,
          di_PolicyHash = eng_hash e, di_MapperVersion = mr_MapperVersion m0\<rparr> \<and>
     dc_Result (Engine_Evaluate (Some e) (Some Background) i) = DecisionAllow \<and>
     decisionCacheKey cf rt run0 ep0 r0 m0 = decisionCacheKey cf rt run ep r m \<and>
     (keys_apart cf rt (run0, ep0, r0, m0) (run, ep, r, m) \<and> separable_mapping m \<longrightarrow> allowed_for e r m)"
proof -
  from assms obtain out v vreq r m d ev where
    f: "subseq [Verified (Some v) None, Decoded (Some r) None, Audited ev None, Resigned vreq (Inr out),
         Forwarded out, Body_closed vreq] es" "records r m d ev" "permitted (engine_backed cf rt e) cf rt ep run r m d"
    unfolding forwarded_run_def passes_def by blast
  from f(3) obtain i where i: "dc_Result d = DecisionAllow" "DecisionInput_Validate i = None"
    "input_key cf rt i = decisionCacheKey cf rt run ep r m"
    "dc_Result (Engine_Evaluate (Some e) (Some Background) i) = DecisionAllow"
    by (auto simp: permitted_def Let_def engine_backed_def input_key_def decision_input_def)
  from i(4) obtain r0 m0 where a: "admissible e i r0 m0"
    "authorized (set (eng_rules e)) r0 (set (mr_Requirements m0))"
    unfolding evaluate_allow_iff_aux by blast
  have key: "decisionCacheKey cf rt (di_RunID i) (di_Endpoint i) r0 m0 = decisionCacheKey cf rt run ep r m"
    using i(3) a(1) by (simp add: input_key_def admissible_def)
  have "mr_MapperVersion m0 = di_MapperVersion i"
    using a(1) by (auto simp: admissible_def DecisionInput_Validate_None)
  then have shape: "i = \<lparr>di_RunID = di_RunID i, di_Endpoint = di_Endpoint i, di_Request = Some r0,
      di_Mapping = Some m0, di_PolicyHash = eng_hash e, di_MapperVersion = mr_MapperVersion m0\<rparr>"
    using a(1) by (auto simp: admissible_def intro: DecisionInput.equality)
  have "allowed_for e r0 m0" using a by (simp add: allowed_for_def admissible_def)
  moreover have "separable_mapping m0" using admissible_separable [OF a(1)] by (simp add: separable_mapping_def)
  ultimately have "keys_apart cf rt (di_RunID i, di_Endpoint i, r0, m0) (run, ep, r, m) \<and> separable_mapping m \<longrightarrow>
      allowed_for e r m"
    using key_sufficient [OF _ key] by blast
  with subseq_forwarded [OF f(1)] f(2) i(1,4) shape key show ?thesis by blast
qed

end
