(* ===== verification/Pipeline_Enforcement.thy ===== *)
theory Pipeline_Enforcement
  imports Pipeline_Policy
begin

text \<open>
  The request pipeline end to end. The first part is the positive side of \<open>handlePipeline\<close>: when every
  dependency answers and the decision allows, the run forwards the resigned request and relays the upstream's
  answer. The last part instantiates the policy with the engine of \<open>internal/policy\<close> and the caches with
  the caches of \<open>internal/cache\<close>, and states what a server built this way enforces.
\<close>

section \<open>Runs that forward\<close>

lemma emits_answer: "(\<And>w. R (fst (f w))) \<Longrightarrow> (\<And>x. R x \<Longrightarrow> Q x []) \<Longrightarrow> emits J (call f) Q"
  unfolding emits_def call_def by (auto split: prod.split) (metis fst_conv)

lemma emits_known: "(\<And>w. fst (f w) = x) \<Longrightarrow> Q x [] \<Longrightarrow> emits J (call f) Q"
  by (rule emits_answer [of "\<lambda>y. y = x"]) auto

text \<open>The clock and the identifiers are well formed, and so is the configured policy hash.\<close>

definition sane_runtime :: "('w, 's) server_config \<Rightarrow> ('w, 's) go_runtime \<Rightarrow> bool" where
  "sane_runtime cf rt \<longleftrightarrow> (\<forall>w. fst (rt_NewID rt w) \<noteq> [] \<and> length (fst (rt_NewID rt w)) \<le> 128) \<and>
     (\<forall>w. \<not> time_is_zero (fst (rt_now rt w))) \<and> length (cf_RunID cf) \<le> 128 \<and>
     (validHash (cf_PolicyHash cf) \<or> length (cf_PolicyHash cf) \<noteq> 71)"

text \<open>The writer accepts every valid event and has not failed.\<close>

definition accepting :: "'w audit_writer \<Rightarrow> bool" where
  "accepting a \<longleftrightarrow> (\<forall>e w. Event_Validate e = None \<longrightarrow> fst (aw_Write a e w) = None) \<and>
     (\<forall>f w. aw_Failed a = Some f \<longrightarrow> \<not> fst (f w))"

text \<open>
  The dependencies answer, in every world: the request verifies as \<open>v\<close>, decodes as \<open>r\<close>, maps to \<open>m\<close>, is
  decided by \<open>d\<close>, is resigned into \<open>out\<close>, and the upstream answers \<open>resp\<close>.
\<close>

record 's answers =
  an_verified :: "'s verified_http VerifiedRequest"
  an_request :: "'s verified_http"
  an_decoded :: DecodedAWSRequest
  an_mapping :: MappingResult
  an_decision :: Decision
  an_outgoing :: "'s body_request"
  an_response :: upstream_response

definition answering ::
  "('w, 's) server_config \<Rightarrow> 's body_request \<Rightarrow> AWSEndpoint \<Rightarrow> 's answers \<Rightarrow> bool" where
  "answering cf req ep a \<longleftrightarrow>
     (\<exists>verify. cf_InboundAuthenticator cf = Some verify \<and> (\<forall>w. fst (verify req ep w) = (Some (an_verified a), None))) \<and>
     (\<exists>decode. cf_Decoder cf = Some decode \<and> (\<forall>w. fst (decode (an_verified a) ep w) = (Some (an_decoded a), None))) \<and>
     (\<exists>mapper. cf_Mapper cf = Some mapper \<and> (\<forall>w. fst (mp_Map mapper (an_decoded a) w) = (Some (an_mapping a), None))) \<and>
     (\<exists>policy. cf_Policy cf = Some policy \<and>
        (\<forall>w. fst (policy (decision_input cf (run_of cf) ep (an_decoded a) (an_mapping a)) w) = Some (an_decision a))) \<and>
     (\<exists>audit. cf_Audit cf = Some audit \<and> accepting audit) \<and>
     (\<exists>resign. cf_Resigner cf = Some resign \<and> (\<forall>w. fst (resign (an_request a) ep w) = Inr (an_outgoing a))) \<and>
     (\<exists>upstream. cf_Upstream cf = Some upstream \<and> (\<forall>w. fst (upstream (an_outgoing a) w) = (Some (an_response a), None)))"

text \<open>The answers pass the checks of the pipeline, and the decision is to allow.\<close>

definition authorized_answers :: "('w, 's) server_config \<Rightarrow> AWSEndpoint \<Rightarrow> 's answers \<Rightarrow> bool" where
  "authorized_answers cf ep a \<longleftrightarrow>
     VerifiedRequest_Validate (an_verified a) = None \<and> SameEndpoint (vr_Endpoint (an_verified a)) ep \<and>
     vr_Request (an_verified a) = Some (an_request a) \<and>
     DecodedAWSRequest_Validate (an_decoded a) = None \<and> SameEndpoint (decoded_endpoint (an_decoded a)) ep \<and>
     MappingResult_Validate (an_mapping a) = None \<and> mr_Service (an_mapping a) = dr_Service (an_decoded a) \<and>
     mr_Operation (an_mapping a) = dr_Operation (an_decoded a) \<and>
     (\<forall>q \<in> set (mr_Requirements (an_mapping a)). rq_Resources q \<noteq> []) \<and>
     DecisionInput_Validate (decision_input cf (run_of cf) ep (an_decoded a) (an_mapping a)) = None \<and>
     Decision_Valid (an_decision a) \<and> dc_Result (an_decision a) = DecisionAllow"

text \<open>What the caches hold at the keys of this request, if anything, are the same answers.\<close>

definition caches_answer :: "string \<Rightarrow> string \<Rightarrow> 's answers \<Rightarrow> cache_value RunCaches option \<Rightarrow> bool" where
  "caches_answer mk dk a caches \<longleftrightarrow>
     (case caches of
        None \<Rightarrow> True
      | Some c \<Rightarrow>
          lru.agrees (\<lambda>k v. k = mk \<longrightarrow> v = Mapping_value (Some (an_mapping a))) (rc_Operations c) \<and>
          lru.agrees (\<lambda>k v. k = dk \<longrightarrow> v = Decision_value (an_decision a)) (rc_Decisions c))"

text \<open>The outcome: one request is sent, and the response of the upstream is relayed.\<close>

definition relayed :: "'s answers \<Rightarrow> 's effect list \<Rightarrow> bool" where
  "relayed a es \<longleftrightarrow> sent es = [an_outgoing a] \<and>
     Respond (us_StatusCode (an_response a)) (copyHeaders [] (removeHopByHopHeaders (us_Header (an_response a))))
       (source_bytes (us_Body (an_response a))) \<in> set es"

lemma relayed_before: "silent p \<Longrightarrow> relayed a es \<Longrightarrow> relayed a (p @ es)"
  by (simp add: relayed_def silent_def)

lemma relayed_cons: "silent [e] \<Longrightarrow> relayed a es \<Longrightarrow> relayed a (e # es)"
  using relayed_before [of "[e]"] by simp

lemma relayed_end: "silent p \<Longrightarrow> relayed a es \<Longrightarrow> relayed a (es @ p)"
  by (simp add: relayed_def silent_def)

lemma copied_bytes: "fst (copyResponse (collect_write None) [] src) = source_bytes src"
  using copyResponse_collect [where limit = None and got = "[]" and src = src]
  unfolding split_beta by (metis append_Nil)

lemma emits_relayed:
  assumes "\<And>w. fst (upstream (an_outgoing a) w) = (Some (an_response a), None)"
    and "\<And>n es. relayed a es \<Longrightarrow> Q n es"
  shows "emits J (forward_stage cf rt run upstream r (an_outgoing a)) Q"
proof -
  have relay: "emits J (relay_response resp) Q'"
    if "\<And>es. sent es = [] \<Longrightarrow> Respond (us_StatusCode resp) (copyHeaders [] (removeHopByHopHeaders (us_Header resp)))
       (source_bytes (us_Body resp)) \<in> set es \<Longrightarrow> Q' () es" for resp and Q' :: "unit \<Rightarrow> 'b effect list \<Rightarrow> bool"
    unfolding relay_response_def status_class_def copied_bytes
    by (intro emits_rules) (auto intro!: that)
  show ?thesis
    unfolding forward_stage_def
    apply (intro emits_bind emits_emit)
    apply (rule emits_call)
    apply (intro emits_bind emits_emit)
    apply (rule emits_known [OF assms(1)])
    apply (intro emits_bind emits_emit emits_since)
    apply (simp only: prod.case option.case)
    apply (rule relay)
    apply (rule emits_return)
    apply (rule assms(2))
    apply (simp add: relayed_def)
    done
qed

lemma emits_accepted:
  assumes "cf_Audit cf = Some w" "accepting w" "Event_Validate e = None" "\<And>es. silent es \<Longrightarrow> Q None es"
  shows "emits J (acceptAudit cf e) Q"
proof -
  have "fst (aw_Write w e x) = None" for x using assms(2,3) by (simp add: accepting_def)
  then show ?thesis
    unfolding acceptAudit_def assms(1) option.case queue_gauge_def
    by (intro emits_bind emits_known [where f = "aw_Write w e"] emits_emit)
       (auto intro!: emits_rules assms(4))
qed

lemma emits_resigned:
  assumes "answering cf req' ep a" "authorized_answers cf ep a" "\<And>n es. relayed a es \<Longrightarrow> Q n es"
  shows "emits J (resign_stage cf rt req ep run started (an_verified a) (an_request a) (an_decoded a) ident) Q"
proof -
  from assms(1) obtain audit resign upstream where
    d: "cf_Audit cf = Some audit" "accepting audit" "cf_Resigner cf = Some resign"
      "\<And>w. fst (resign (an_request a) ep w) = Inr (an_outgoing a)" "cf_Upstream cf = Some upstream"
      "\<And>w. fst (upstream (an_outgoing a) w) = (Some (an_response a), None)"
    unfolding answering_def by blast
  have "emits J (case Option.bind (cf_Audit cf) aw_Failed of None \<Rightarrow> State_Monad.return False | Some f \<Rightarrow> call f) Q'"
    if "Q' False []" for Q'
  proof (cases "aw_Failed audit")
    case None
    then show ?thesis using that by (simp add: d(1) emits_return)
  next
    case (Some f)
    then have "fst (f w) = False" for w using d(2) by (simp add: accepting_def)
    from emits_known [of f False, OF this, of Q' J] that Some show ?thesis by (simp add: d(1))
  qed
  note failed = this
  have same: "SameEndpoint (decoded_endpoint (an_decoded a)) ep" "SameEndpoint (vr_Endpoint (an_verified a)) ep"
    using assms(2) by (simp_all add: authorized_answers_def)
  show ?thesis
    unfolding resign_stage_def d(3,5) prod.case option.case
    apply (simp only: same simp_thms if_False)
    apply (rule emits_bind)
    apply (rule emits_known [OF d(4)])
    apply (intro emits_bind emits_emit)
    apply (simp only: sum.case)
    apply (intro emits_bind failed)
    apply (simp only: if_False)
    apply (rule emits_relayed)
    apply (rule d(6))
    apply (rule assms(3))
    apply (simp add: relayed_cons)
    done
qed

text \<open>The event of the decision is valid in every world, so it is accepted.\<close>

lemma emits_identifier:
  assumes "sane_runtime cf rt" "\<And>i. i \<noteq> [] \<Longrightarrow> length i \<le> 128 \<Longrightarrow> Q i []"
  shows "emits J (call (rt_NewID rt)) Q"
  by (rule emits_answer [of "\<lambda>i. i \<noteq> [] \<and> length i \<le> 128"])
     (use assms in \<open>auto simp: sane_runtime_def\<close>)

lemma emits_event:
  assumes "sane_runtime cf rt" "ident \<noteq> []" "length ident \<le> 128" "run = run_of cf"
    and "\<And>x now conn elapsed. event_identity run ident conn now \<Longrightarrow>
       Q (decision_event_of cf rt (NewEvent x now run RequestDecision) run ident conn elapsed r m d) []"
  shows "emits J (decisionEvent cf rt run ident r m d start) Q"
proof -
  have clock: "emits J (call (rt_now rt)) Q'" if "\<And>t. \<not> time_is_zero t \<Longrightarrow> Q' t []" for Q'
    by (rule emits_answer [of "\<lambda>t. \<not> time_is_zero t"]) (use assms(1) that in \<open>auto simp: sane_runtime_def\<close>)
  have "run \<noteq> []" "length run \<le> 128" using assms(1,4) by (auto simp: sane_runtime_def)
  with assms(2,3) show ?thesis
    unfolding decisionEvent_def new_event_def
    by (intro emits_bind emits_return emits_identifier [OF assms(1)] clock emits_since)
       (auto intro!: assms(5) simp: event_identity_def)
qed

lemma emits_decided:
  assumes "answering cf req' ep a" "authorized_answers cf ep a" "sane_runtime cf rt" "run = run_of cf"
    and "\<And>n es. relayed a es \<Longrightarrow> Q n es"
  shows "emits J (decision_stage cf rt req ep run started (an_verified a) (an_request a) (an_decoded a)
     (an_mapping a) elapsed (an_decision a)) Q"
proof -
  from assms(1) obtain audit where d: "cf_Audit cf = Some audit" "accepting audit" unfolding answering_def by blast
  have valid: "Event_Validate (decision_event_of cf rt (NewEvent x now run RequestDecision) run ident conn elapsed
      (an_decoded a) (an_mapping a) (an_decision a)\<lparr>ev_Timing := Some t\<rparr>) = None"
    if "event_identity run ident conn now" for run ident conn now x elapsed t
    using assms(2,3) that
    by (intro decision_event_validates decoded_request_info valid_mapping_auditable validPolicyHash_valid)
       (auto simp: authorized_answers_def sane_runtime_def DecisionResult_Valid_def)
  have allow: "dc_Result (an_decision a) \<noteq> DecisionDeny"
    using assms(2) by (simp add: authorized_answers_def DecisionAllow_def DecisionDeny_def)
  have timing: "ev_Timing (decision_event_of cf rt e0 run ident conn elapsed r m d) =
      Some \<lparr>ti_Decode = 0, ti_Map = 0, ti_Policy = 0, ti_LocalTotal = elapsed, ti_Upstream = 0\<rparr>"
    for e0 run ident conn elapsed r m d by (simp add: decision_event_of_def)
  show ?thesis
    unfolding decision_stage_def Let_def split_beta
    apply (intro emits_bind emits_emit emits_spool emits_identifier [OF assms(3)] emits_event [OF assms(3) _ _ assms(4)]
        emits_accepted [OF d])
    apply assumption+
    apply (simp only: timing option.map valid)
    apply (simp add: allow)
    apply (rule emits_resigned [OF assms(1,2)])
    apply (rule assms(5))
    apply (simp add: relayed_cons relayed_before)
    done
qed

text \<open>A lookup finds nothing or the same answer; a store keeps it so.\<close>

lemma answer_get:
  assumes "lru.agrees (\<lambda>k v. k = key \<longrightarrow> v = x) c"
  shows "lru.agrees (\<lambda>k v. k = key \<longrightarrow> v = x) (snd (LRU_Get c k'))" "fst (LRU_Get c key) \<in> {None, Some x}"
  using lru.agrees_get [OF assms] lru.agrees_hit [OF assms, of key] by (auto dest: not_None_eq [THEN iffD1])

lemma emits_answer_mapping:
  assumes "\<And>v es. v = None \<or> v = Some (an_mapping a) \<Longrightarrow> silent es \<Longrightarrow> Q v es"
  shows "emits (caches_answer mk dk a) (mapping_lookup mk) Q"
  unfolding mapping_lookup_def
proof (intro emits_bind emits_with_caches conjI)
  fix c
  assume c: "caches_answer mk dk a (Some c)"
  then show "caches_answer mk dk a (Some (snd (case LRU_Get (rc_Operations c) mk of
      (v, cache) \<Rightarrow> (v, c\<lparr>rc_Operations := cache\<rparr>))))"
    by (simp add: split_beta caches_answer_def answer_get)
  from c have "fst (LRU_Get (rc_Operations c) mk) \<in> {None, Some (Mapping_value (Some (an_mapping a)))}"
    unfolding caches_answer_def option.case by (intro answer_get) blast
  then show "emits (caches_answer mk dk a)
    (case Some (fst (case LRU_Get (rc_Operations c) mk of (v, cache) \<Rightarrow> (v, c\<lparr>rc_Operations := cache\<rparr>))) of
       None \<Rightarrow> State_Monad.return None
     | Some None \<Rightarrow> do { emit (Inc CacheMappingMisses); State_Monad.return None }
     | Some (Some (Mapping_value None)) \<Rightarrow> do { emit (Inc CacheMappingMisses); State_Monad.return None }
     | Some (Some (Mapping_value (Some m))) \<Rightarrow> do { emit (Inc CacheMappingHits); State_Monad.return (Some m) }
     | Some (Some _) \<Rightarrow> do { emit (Inc CacheMappingMisses); State_Monad.return None }) (\<lambda>y fs. Q y ([] @ fs))"
    by (auto simp: split_beta intro!: emits_rules assms)
qed (auto intro!: emits_rules assms)

lemma emits_answer_decision:
  assumes "Decision_Valid (an_decision a)"
    and "\<And>v es. v = None \<or> v = Some (an_decision a) \<Longrightarrow> silent es \<Longrightarrow> Q v es"
  shows "emits (caches_answer mk dk a) (decision_lookup dk) Q"
  unfolding decision_lookup_def
proof (intro emits_bind emits_with_caches conjI)
  fix c
  assume c: "caches_answer mk dk a (Some c)"
  then show "caches_answer mk dk a (Some (snd (case LRU_Get (rc_Decisions c) dk of
      (v, cache) \<Rightarrow> (v, c\<lparr>rc_Decisions := cache\<rparr>))))"
    by (simp add: split_beta caches_answer_def answer_get)
  from c have "fst (LRU_Get (rc_Decisions c) dk) \<in> {None, Some (Decision_value (an_decision a))}"
    unfolding caches_answer_def option.case by (intro answer_get) blast
  then show "emits (caches_answer mk dk a)
    (case Some (fst (case LRU_Get (rc_Decisions c) dk of (v, cache) \<Rightarrow> (v, c\<lparr>rc_Decisions := cache\<rparr>))) of
       None \<Rightarrow> State_Monad.return None
     | Some (Some (Decision_value d)) \<Rightarrow>
         if Decision_Valid d then do { emit (Inc CacheDecisionHits); State_Monad.return (Some d) }
         else do { emit (Inc CacheDecisionMisses); State_Monad.return None }
     | Some _ \<Rightarrow> do { emit (Inc CacheDecisionMisses); State_Monad.return None }) (\<lambda>y fs. Q y ([] @ fs))"
    using assms(1) by (auto simp: split_beta intro!: emits_rules assms(2))
qed (auto intro!: emits_rules assms(2))

lemma emits_store_answers:
  assumes "\<And>es. silent es \<Longrightarrow> Q () es"
  shows "emits (caches_answer mk dk a) (mapping_store mk (an_mapping a)) Q"
    "emits (caches_answer mk dk a) (decision_store dk (an_decision a)) Q"
proof -
  have add: "lru.agrees (\<lambda>k v. k = key \<longrightarrow> v = x) (snd (LRU_Add c key x))"
    if "lru.agrees (\<lambda>k v. k = key \<longrightarrow> v = x) c" for key :: string and x :: cache_value and c
    using lru.agrees_add [OF that, of key x] by (simp add: LRU_Put_def)
  show "emits (caches_answer mk dk a) (mapping_store mk (an_mapping a)) Q"
    unfolding mapping_store_def
    by (intro emits_rules emits_with_caches conjI)
       (auto simp: silent_def caches_answer_def add split_beta intro!: assms)
  show "emits (caches_answer mk dk a) (decision_store dk (an_decision a)) Q"
    unfolding decision_store_def
    by (intro emits_rules emits_with_caches conjI)
       (auto simp: silent_def caches_answer_def add split_beta intro!: assms)
qed

lemma emits_answer_policy:
  assumes "answering cf req' ep a" "authorized_answers cf ep a" "sane_runtime cf rt" "run = run_of cf"
    and "dk = decisionCacheKey cf rt run ep (an_decoded a) (an_mapping a)"
    and "\<And>n es. relayed a es \<Longrightarrow> Q n es"
  shows "emits (caches_answer mk dk a) (policy_stage cf rt req ep run started (an_verified a) (an_request a)
     (an_decoded a) (an_mapping a) t1 t2) Q"
proof -
  let ?i = "decision_input cf run ep (an_decoded a) (an_mapping a)"
  from assms(1) obtain policy where p: "cf_Policy cf = Some policy" "\<And>w. fst (policy ?i w) = Some (an_decision a)"
    unfolding answering_def assms(4) [symmetric] by blast
  from assms(2) have v: "DecisionInput_Validate ?i = None" "Decision_Valid (an_decision a)"
    unfolding authorized_answers_def assms(4) [symmetric] by blast+
  have eval: "emits (caches_answer mk dk a) (evaluate_decision rt policy dk ?i) Q'"
    if "\<And>n es. silent es \<Longrightarrow> Q' (an_decision a, n) es" for Q'
    unfolding evaluate_decision_def safeEvaluate_def
    by (intro emits_bind emits_known [where f = "policy _", OF p(2)] emits_emit emits_return emits_call emits_since)
       (auto simp: v(2) intro!: emits_bind emits_return emits_store_answers that)
  have step: "emits (caches_answer mk dk a)
      (case cached of Some d \<Rightarrow> State_Monad.return (d, 0) | None \<Rightarrow> evaluate_decision rt policy dk ?i) Q'"
    if "cached = None \<or> cached = Some (an_decision a)" "\<And>n es. silent es \<Longrightarrow> Q' (an_decision a, n) es" for cached Q'
    using that by (auto intro!: eval emits_return)
  show ?thesis
    unfolding policy_stage_def Let_def p(1) option.case assms(5) [symmetric]
    apply (simp only: v(1) simp_thms if_False)
    apply (intro emits_bind emits_answer_decision [OF v(2)] step)
    apply assumption
    apply (simp only: fst_conv snd_conv)
    apply (rule emits_decided [OF assms(1-4)])
    apply (rule assms(6))
    apply (simp add: relayed_before)
    done
qed

lemma emits_answer_map:
  assumes "answering cf req' ep a" "authorized_answers cf ep a" "sane_runtime cf rt" "run = run_of cf"
    and "mk = mappingCacheKey cf rt run ep (an_decoded a)"
    and "dk = decisionCacheKey cf rt run ep (an_decoded a) (an_mapping a)"
    and "\<And>n es. relayed a es \<Longrightarrow> Q n es"
  shows "emits (caches_answer mk dk a) (mapping_stage cf rt req ep run started (an_verified a) (an_request a)
     (an_decoded a) t) Q"
proof -
  from assms(1) obtain mapper where p: "cf_Mapper cf = Some mapper"
    "\<And>w. fst (mp_Map mapper (an_decoded a) w) = (Some (an_mapping a), None)"
    unfolding answering_def by blast
  from assms(2) have v: "MappingResult_Validate (an_mapping a) = None"
    "mr_Service (an_mapping a) = dr_Service (an_decoded a)" "mr_Operation (an_mapping a) = dr_Operation (an_decoded a)"
    unfolding authorized_answers_def by blast+
  have mapped: "emits (caches_answer mk dk a) (run_mapper rt mapper (an_decoded a)) Q'"
    if "\<And>n es. silent es \<Longrightarrow> Q' ((Some (an_mapping a), None), n) es" for Q'
    unfolding run_mapper_def
    by (intro emits_bind emits_known [where f = "mp_Map _ _", OF p(2)] emits_emit emits_return emits_call emits_since)
       (auto intro!: that)
  have step: "emits (caches_answer mk dk a)
      (case cached of Some m \<Rightarrow> State_Monad.return ((Some m, None), 0) | None \<Rightarrow> run_mapper rt mapper (an_decoded a)) Q'"
    if "cached = None \<or> cached = Some (an_mapping a)" "\<And>n es. silent es \<Longrightarrow> Q' ((Some (an_mapping a), None), n) es"
    for cached Q'
    using that by (auto intro!: mapped emits_return)
  show ?thesis
    unfolding mapping_stage_def Let_def p(1) option.case assms(5) [symmetric]
    apply (intro emits_bind emits_answer_mapping step)
    apply assumption
    apply (simp only: prod.case option.case v simp_thms if_False)
    apply (intro emits_bind emits_store_answers)
    apply (rule emits_answer_policy [OF assms(1-4,6)])
    apply (rule assms(7))
    apply (simp add: relayed_before)
    done
qed

lemma emits_answer_pipeline:
  assumes "answering cf req ep a" "authorized_answers cf ep a" "sane_runtime cf rt"
    and "mk = mappingCacheKey cf rt (run_of cf) ep (an_decoded a)"
    and "dk = decisionCacheKey cf rt (run_of cf) ep (an_decoded a) (an_mapping a)"
  shows "emits (caches_answer mk dk a) (handlePipeline cf rt req ep) (\<lambda>_. relayed a)"
proof -
  from assms(1) obtain verify decode where
    p: "cf_InboundAuthenticator cf = Some verify" "\<And>w. fst (verify req ep w) = (Some (an_verified a), None)"
      "cf_Decoder cf = Some decode" "\<And>w. fst (decode (an_verified a) ep w) = (Some (an_decoded a), None)"
    unfolding answering_def by blast
  from assms(2) have v: "VerifiedRequest_Validate (an_verified a) = None"
    "SameEndpoint (vr_Endpoint (an_verified a)) ep" "vr_Request (an_verified a) = Some (an_request a)"
    "DecodedAWSRequest_Validate (an_decoded a) = None" "SameEndpoint (decoded_endpoint (an_decoded a)) ep"
    unfolding authorized_answers_def by blast+
  have decode: "emits (caches_answer mk dk a)
      (decode_stage cf rt req ep (run_of cf) started (an_verified a) (an_request a)) Q'"
    if "\<And>n es. relayed a es \<Longrightarrow> Q' n es" for started Q'
    unfolding decode_stage_def Let_def p(3) option.case
    apply (rule emits_bind, rule emits_call, rule emits_bind, rule emits_known, rule p(4))
    apply (intro emits_bind emits_emit emits_since)
    apply (simp only: prod.case option.case v simp_thms if_False fst_conv snd_conv)
    apply (rule emits_answer_map [OF assms(1-3) refl assms(4,5)])
    apply (rule that)
    apply (simp add: relayed_cons)
    done
  show ?thesis
    unfolding handlePipeline_def Let_def authenticate_stage_def p(1) option.case
    apply (rule emits_bind, rule emits_call, rule emits_bind, rule emits_emit)
    apply (rule emits_bind, rule emits_bind, rule emits_known, rule p(2))
    apply (rule emits_bind, rule emits_emit)
    apply (simp only: prod.case option.case v simp_thms if_False fst_conv snd_conv)
    apply (intro emits_bind emits_emit decode emits_call emits_return emits_since)
    apply (simp add: relayed_cons relayed_end)
    done
qed

section \<open>A failed evaluation and the cache\<close>

lemma LRU_Put_Get:
  assumes "cache_inv cache"
  shows "fst (LRU_Get (LRU_Put cache k v) k) = Some v"
proof -
  obtain c where c: "cache = Some c" "lru_inv c" using assms by (rule cache_inv_cases)
  have "snd (LRU_Add (Some c) k v) \<noteq> None" by (simp add: LRU_Add_def Let_def split: option.split)
  then obtain a b c' where g: "LRU_Add (Some c) k v = ((a, b), Some c')" by (metis not_None_eq prod.collapse)
  from LRU_Add_refines [OF c(2) g] c(2) have "lru_content (LRU_Put cache k v) k = Some v"
    by (simp add: c(1) g LRU_Put_def lru_content_def insert_front_def lru_inv_def take_Cons split: nat.split)
  with LRU_Get_content [of "LRU_Put cache k v" k] LRU_Put_content [OF assms] show ?thesis by simp
qed

lemma failed_evaluation_cached:
  assumes "pl_caches s = Some c" "cache_inv (rc_Decisions c)" "\<And>w. fst (policy i w) = None"
  shows "fst (run_state (decision_lookup key) (snd (run_state (evaluate_decision rt policy key i) s))) =
     Some failClosedDecision"
proof -
  have put: "snd (LRU_Add (rc_Decisions c) key (Decision_value failClosedDecision)) =
      LRU_Put (rc_Decisions c) key (Decision_value failClosedDecision)" by (simp add: LRU_Put_def)
  obtain t w1 where n: "rt_now rt (pl_world s) = (t, w1)" by fastforce
  obtain w2 where p: "policy i w1 = (None, w2)" using assms(3) [of w1] by (metis fst_conv surj_pair)
  obtain t' w3 where n': "rt_now rt w2 = (t', w3)" by fastforce
  obtain b where a: "LRU_Add (rc_Decisions c) key (Decision_value failClosedDecision) =
      (b, LRU_Put (rc_Decisions c) key (Decision_value failClosedDecision))"
    using put by (metis prod.collapse)
  obtain b1 b2 where b: "b = (b1, b2)" by fastforce
  have "pl_caches (snd (run_state (evaluate_decision rt policy key i) s)) =
      Some (c\<lparr>rc_Decisions := LRU_Put (rc_Decisions c) key (Decision_value failClosedDecision)\<rparr>)"
    using assms(1)
    by (simp add: evaluate_decision_def safeEvaluate_def call_def emit_def since_def n p n' failClosed_valid
        decision_store_def with_caches_def a b)
  then show ?thesis
    using LRU_Put_Get [OF assms(2), of key "Decision_value failClosedDecision"]
    by (simp add: decision_lookup_def with_caches_def emit_def failClosed_valid split_beta)
qed

section \<open>A server that forwards\<close>

definition sample_vreq :: "unit verified_http" where
  "sample_vreq = setPayloadMode sample_inbound PayloadHashEmpty"

definition sample_verification :: "unit verified_http VerifiedRequest" where
  "sample_verification = \<lparr>vr_Request = Some sample_vreq, vr_Endpoint = sample_endpoint, vr_Protocol = ProtocolRESTXML,
     vr_SigningScheme = SigningHeaderV4, vr_SigningRegion = ''us-east-1'', vr_SigningService = ''s3'',
     vr_PayloadMode = PayloadHashEmpty\<rparr>"

definition sample_response :: upstream_response where
  "sample_response = \<lparr>us_StatusCode = 200, us_Header = [(''Content-Type'', [''text/plain'']), (''Connection'', [''close''])],
     us_Body = [(''hello'', None)]\<rparr>"

definition sample_server :: "(unit, unit) server_config" where
  "sample_server = with_engine (sample_engine ''allow'') (\<lambda>_. Background) (sample_bare
     \<lparr>cf_InboundAuthenticator := Some (\<lambda>req ep. Pair (Some sample_verification, None)),
      cf_Decoder := Some (\<lambda>v ep. Pair (Some sample_request, None)),
      cf_Mapper := Some \<lparr>mp_Map = (\<lambda>r. Pair (Some sample_mapping, None)), mp_Version = None,
        mp_IamLiveVersion = None, mp_AuthorizationDataVersion = None\<rparr>,
      cf_Audit := Some \<lparr>aw_Write = (\<lambda>e. Pair None), aw_Failed = None, aw_QueueLength = None\<rparr>,
      cf_Resigner := Some (\<lambda>v ep. Pair (Inr sample_inbound)),
      cf_Upstream := Some (\<lambda>out. Pair (Some sample_response, None))\<rparr>)"

definition sample_answers :: "unit answers" where
  "sample_answers = \<lparr>an_verified = sample_verification, an_request = sample_vreq, an_decoded = sample_request,
     an_mapping = sample_mapping,
     an_decision = Engine_Evaluate (Some (sample_engine ''allow'')) (Some Background) sample_input,
     an_outgoing = sample_inbound, an_response = sample_response\<rparr>"

lemma sample_allowed:
  "dc_Result (Engine_Evaluate (Some (sample_engine ''allow'')) (Some Background) sample_input) = DecisionAllow"
  unfolding evaluate_allow_iff_aux using sample_admissible [of "''allow''"] sample_authorized
  by (auto simp: sample_engine_def)

lemma sample_run: "run_of sample_server = ''run''"
  by (simp add: sample_server_def with_engine_def sample_bare_def sample_input_def)

lemma sample_decision_input:
  "decision_input sample_server ''run'' sample_endpoint sample_request sample_mapping = sample_input"
  by (simp add: decision_input_def sample_server_def with_engine_def sample_bare_def sample_input_def)
     (simp add: sample_mapping_def)

lemma same_endpoint_refl: "SameEndpoint ep ep"
  by (simp add: SameEndpoint_def EndpointIdentityEqual_def Let_def)

lemma sample_answering: "answering sample_server sample_inbound sample_endpoint sample_answers"
  unfolding answering_def sample_run sample_answers_def answers.simps sample_decision_input
  by (simp add: sample_server_def with_engine_def engine_policy_def accepting_def)

lemma sample_verification_valid: "VerifiedRequest_Validate sample_verification = None"
  unfolding VerifiedRequest_Validate_def guard_None
  by (simp add: sample_verification_def sample_endpoint_valid)
     (simp add: sample_endpoint_def AWSProtocol_Supported_def SigningScheme_Supported_def
       PayloadHashMode_Supported_def)

lemma sample_authorized_answers: "authorized_answers sample_server sample_endpoint sample_answers"
proof -
  have "DecisionInput_Validate sample_input = None" using sample_admissible [of "''allow''"] by (simp add: admissible_def)
  moreover have "mr_Service sample_mapping = dr_Service sample_request" "mr_Operation sample_mapping = dr_Operation sample_request"
    by (simp_all add: sample_mapping_def sample_request_def)
  ultimately show ?thesis
    unfolding authorized_answers_def sample_run sample_answers_def answers.simps sample_decision_input
    using sample_verification_valid sample_request_valid sample_mapping_valid sample_resources sample_allowed
      evaluate_valid_aux [of "Some (sample_engine ''allow'')" "Some Background" sample_input]
    by (simp add: sample_verification_def sample_request_endpoint same_endpoint_refl)
qed

lemma sample_sane: "sane_runtime sample_server sample_runtime"
  by (simp add: sane_runtime_def sample_runtime_def sample_server_def with_engine_def sample_bare_def sample_input_def
      sample_now_def time_is_zero_def)

definition sample_caches :: "cache_value RunCaches" where
  "sample_caches = (case NewRunCaches \<lparr>EndpointCapacity = 0, LeafCapacity = 0, OperationCapacity = 2, DecisionCapacity = 2\<rparr> of
     Inr c \<Rightarrow> c | Inl _ \<Rightarrow> \<lparr>rc_Endpoints = None, rc_Leaves = None, rc_Operations = None, rc_Decisions = None\<rparr>)"

lemma sample_caches_new:
  "NewRunCaches \<lparr>EndpointCapacity = 0, LeafCapacity = 0, OperationCapacity = 2, DecisionCapacity = 2\<rparr> = Inr sample_caches"
  by (simp add: sample_caches_def NewRunCaches_def default_capacity_def NewLRU_def)

definition sample_state :: "(unit, unit) pipe_state" where
  "sample_state = \<lparr>pl_world = (), pl_trace = [], pl_caches = Some sample_caches\<rparr>"

lemma fresh_caches_answer: "NewRunCaches opts = Inr c \<Longrightarrow> caches_answer mk dk a (Some c)"
  by (auto simp: NewRunCaches_def caches_answer_def lru.agrees_def cache_inv_def lru_content_def
      dest!: NewLRU_inv split: sum.splits)

lemma sample_caches_answer: "caches_answer mk dk a (pl_caches sample_state)"
  using fresh_caches_answer [OF sample_caches_new] by (simp add: sample_state_def)

lemma effects_emits_from:
  "emits J (handlePipeline cf rt req ep) Q \<Longrightarrow> J (pl_caches s) \<Longrightarrow> Q () (effects cf rt req ep s)"
  unfolding emits_def effects_def by (metis append_eq_conv_conj old.unit.exhaust)

lemma allowed_relayed:
  assumes "answering cf req ep a" "authorized_answers cf ep a" "sane_runtime cf rt"
    and "caches_answer (mappingCacheKey cf rt (run_of cf) ep (an_decoded a))
       (decisionCacheKey cf rt (run_of cf) ep (an_decoded a) (an_mapping a)) a (pl_caches s)"
  shows "relayed a (effects cf rt req ep s)"
  by (rule effects_emits_from [OF emits_answer_pipeline [OF assms(1-3) refl refl] assms(4)])

section \<open>Properties\<close>

text \<open>
  Property C1. The decision cache never grants more than the policy. On a server with the policy engine,
  from fresh caches and after any sequence of earlier requests with any context cancellations: when a
  request is forwarded, the engine, uncancelled, allows an input that has the decision key of this
  request. And when SHA-256 does not collide on the two keys, the JSON texts distinguish the two
  requests, and no resource is empty or contains a NUL byte, then the policy grants this very
  request: its mapping is of high confidence, no requirement is unresolved, and each action on each
  resource is granted by an acknowledged allow rule and matched by no deny rule.
\<close>

theorem pipeline_enforces_policy:
  assumes "NewRunCaches opts = Inr c" "pl_caches s0 = Some c"
    and "s = serve (with_engine e ctx cf) rt reqs s0"
    and "sent (effects (with_engine e ctx cf) rt req ep s) \<noteq> []"
  shows "\<exists>out r m d ev run0 ep0 r0 m0 i.
     subseq [Decoded (Some r) None, Audited ev None, Forwarded out] (effects (with_engine e ctx cf) rt req ep s) \<and>
     records r m d ev \<and> dc_Result d = DecisionAllow \<and>
     i = \<lparr>di_RunID = run0, di_Endpoint = ep0, di_Request = Some r0, di_Mapping = Some m0,
          di_PolicyHash = eng_hash e, di_MapperVersion = mr_MapperVersion m0\<rparr> \<and>
     dc_Result (Engine_Evaluate (Some e) (Some Background) i) = DecisionAllow \<and>
     decisionCacheKey (with_engine e ctx cf) rt run0 ep0 r0 m0 =
       decisionCacheKey (with_engine e ctx cf) rt (run_of (with_engine e ctx cf)) ep r m \<and>
     (keys_apart (with_engine e ctx cf) rt (run0, ep0, r0, m0) (run_of (with_engine e ctx cf), ep, r, m) \<and>
        separable_mapping m \<longrightarrow> allowed_for e r m)"
proof (rule forwarded_backed)
  let ?cf = "with_engine e ctx cf"
  have "emits (caches_backed (engine_backed ?cf rt e)) (handlePipeline ?cf rt req ep)
      (\<lambda>_ es. sent es = [] \<or> forwarded_run (engine_backed ?cf rt e) ?cf rt ep (run_of ?cf) es)"
    by (rule engine.emits_pipeline [OF refl]) (rule shape_forwarded)
  moreover have "caches_backed (engine_backed ?cf rt e) (pl_caches s)"
    using serve_backed [of e ctx cf rt s0 reqs] fresh_caches_backed [OF assms(1)] assms(2,3) by simp
  ultimately show "forwarded_run (engine_backed ?cf rt e) ?cf rt ep (run_of ?cf) (effects ?cf rt req ep s)"
    using effects_emits_from assms(4) by blast
qed

text \<open>
  Property C5. An allowed request reaches the upstream and its response the client: when every dependency
  answers, the answers pass the checks, the decision is to allow, the writer accepts valid events, and
  the caches hold nothing else at the keys of this request, then exactly the resigned request is sent,
  and the client receives the status of the upstream, its headers without the hop-by-hop ones, and
  its body.
\<close>

theorem pipeline_forwards_allowed:
  assumes "answering cf req ep a" "authorized_answers cf ep a" "sane_runtime cf rt"
    and "caches_answer (mappingCacheKey cf rt (run_of cf) ep (an_decoded a))
       (decisionCacheKey cf rt (run_of cf) ep (an_decoded a) (an_mapping a)) a (pl_caches s)"
  shows "sent (effects cf rt req ep s) = [an_outgoing a] \<and>
     Respond (us_StatusCode (an_response a)) (copyHeaders [] (removeHopByHopHeaders (us_Header (an_response a))))
       (source_bytes (us_Body (an_response a))) \<in> set (effects cf rt req ep s)"
  using allowed_relayed [OF assms] unfolding relayed_def .

text \<open>
  Property C35. A failed evaluation is remembered: when the policy engine panics, the fail-closed
  replacement is stored in the decision cache and found by the next lookup under the same key, so that
  a later request with this key is denied without asking the engine. (The comment in
  \<^verbatim>\<open>handlePipeline\<close> says that such a replacement must not suppress a later retry.)
\<close>

theorem failed_evaluation_suppresses_retry:
  assumes "pl_caches s = Some c" "cache_inv (rc_Decisions c)" "\<And>w. fst (policy i w) = None"
  shows "fst (run_state (decision_lookup key) (snd (run_state (evaluate_decision rt policy key i) s))) =
     Some failClosedDecision"
  by (rule failed_evaluation_cached [where policy = policy and i = i, OF assms])

text \<open>Witnesses.\<close>

theorem pipeline_forwards_allowed_witness:
  "sent (effects sample_server sample_runtime sample_inbound sample_endpoint sample_state) = [sample_inbound]"
  using pipeline_forwards_allowed [OF sample_answering sample_authorized_answers sample_sane sample_caches_answer]
  by (simp add: sample_answers_def)

lemma sample_sent: "sent (effects sample_server sample_runtime sample_inbound sample_endpoint sample_state) \<noteq> []"
  using allowed_relayed [OF sample_answering sample_authorized_answers sample_sane sample_caches_answer]
  by (simp add: relayed_def)

theorem pipeline_enforces_policy_witness:
  "\<exists>out r ev. subseq [Decoded (Some r) None, Audited ev None, Forwarded out]
     (effects sample_server sample_runtime sample_inbound sample_endpoint sample_state)"
proof -
  have "pl_caches sample_state = Some sample_caches" by (simp add: sample_state_def)
  from pipeline_enforces_policy [OF sample_caches_new this _ sample_sent [unfolded sample_server_def], of "[]"]
  show ?thesis unfolding sample_server_def [symmetric] serve_def by auto
qed

theorem failed_evaluation_suppresses_retry_witness:
  "fst (run_state (decision_lookup ''key'') (snd (run_state
     (evaluate_decision sample_runtime (\<lambda>i. Pair None) ''key'' sample_input) sample_state))) = Some failClosedDecision"
proof (rule failed_evaluation_suppresses_retry)
  show "pl_caches sample_state = Some sample_caches" by (simp add: sample_state_def)
  show "cache_inv (rc_Decisions sample_caches)"
    using fresh_caches_backed [OF sample_caches_new, of "\<lambda>_ _. True"] by (simp add: caches_backed_def lru.agrees_def)
qed simp

end
