(* ===== verification/Audit_Writer.thy ===== *)
theory Audit_Writer
  imports Audit_Event
begin

text \<open>
  The JSONL audit writer, \<^verbatim>\<open>src/internal/audit/jsonl.go\<close>: a bounded queue filled by callers and emptied by
  one goroutine that appends a line per event to a file and makes it durable. The goroutine and the
  callers interleave at the points where the code can block: the mutex \<^verbatim>\<open>mu\<close>, the queue, the file and
  the barrier channels. Every other stretch of code is one step. A caller of \<^verbatim>\<open>Flush\<close> keeps the mutex while it
  waits for room in the queue, so the mutex has a holder exactly then.

  The encoder \<^verbatim>\<open>Event.MarshalJSON\<close> and the outcomes of the file operations are parameters.
\<close>

section \<open>Types\<close>

definition Batch :: string where "Batch = ''batch''"
definition FsyncDecision :: string where "FsyncDecision = ''decision''"

definition ErrWriterFailed :: string where "ErrWriterFailed = ''audit writer failed''"
definition ErrClosed :: string where "ErrClosed = ''audit writer is closed''"

record Options =
  op_QueueCapacity :: int
  op_QueueSize :: int
  op_BatchSize :: int
  op_BatchInterval :: int
  op_Fsync :: string
  op_FileMode :: int

record 'm writerItem =
  wi_event :: "'m Event option"
  wi_barrier :: "nat option"

text \<open>The file: what was appended, how much of it a successful sync covered, and whether it is open.\<close>

record os_file =
  fl_data :: string
  fl_synced :: nat
  fl_open :: bool

text \<open>Where the goroutine stands, in \<^verbatim>\<open>loop\<close> or in \<^verbatim>\<open>drain\<close>.\<close>

datatype 'm loop_point =
    At_select
  | At_barrier nat
  | At_write "'m Event"
  | At_sync
  | At_fail string
  | Finished

record 'm Writer =
  wr_options :: Options
  wr_queue :: "'m writerItem list"
  wr_stop :: bool
  wr_mu :: "nat option"
  wr_failed :: go_error
  wr_closed :: bool
  wr_file :: os_file
  wr_point :: "'m loop_point"
  wr_draining :: bool
  wr_batch :: int
  wr_barriers :: "(nat \<times> go_error) list"

text \<open>The channel \<^verbatim>\<open>done\<close> is closed when the goroutine returns.\<close>

definition wr_done :: "'m Writer \<Rightarrow> bool" where
  "wr_done w \<longleftrightarrow> wr_point w = Finished"

section \<open>Construction\<close>

definition writer_options :: "Options \<Rightarrow> Options" where
  "writer_options o1 =
     (let o2 = (if op_QueueCapacity o1 \<le> 0 then o1\<lparr>op_QueueCapacity := op_QueueSize o1\<rparr> else o1);
          o3 = (if op_QueueCapacity o2 \<le> 0 then o2\<lparr>op_QueueCapacity := 256\<rparr> else o2);
          o4 = (if op_BatchSize o3 \<le> 0 then o3\<lparr>op_BatchSize := 32\<rparr> else o3);
          o5 = (if op_BatchInterval o4 \<le> 0 then o4\<lparr>op_BatchInterval := 100000000\<rparr> else o4)
      in if op_Fsync o5 = [] then o5\<lparr>op_Fsync := Batch\<rparr> else o5)"

text \<open>What the file system answers for a path.\<close>

datatype lstat_answer = Lstat_regular | Lstat_absent | Lstat_special | Lstat_error

record file_system =
  fs_expand :: "string \<Rightarrow> string"
  fs_parent :: "string \<Rightarrow> go_error"
  fs_mkdir :: "string \<Rightarrow> bool"
  fs_lstat :: "string \<Rightarrow> lstat_answer"
  fs_open :: "string \<Rightarrow> string option"
  fs_regular :: "string \<Rightarrow> bool"
  fs_chmod :: "string \<Rightarrow> bool"

definition new_writer_state :: "Options \<Rightarrow> string \<Rightarrow> 'm Writer" where
  "new_writer_state o1 data =
     \<lparr>wr_options = o1, wr_queue = [], wr_stop = False, wr_mu = None, wr_failed = None, wr_closed = False,
      wr_file = \<lparr>fl_data = data, fl_synced = length data, fl_open = True\<rparr>, wr_point = At_select,
      wr_draining = False, wr_batch = 0, wr_barriers = []\<rparr>"

definition NewWriter :: "file_system \<Rightarrow> string \<Rightarrow> Options option \<Rightarrow> ('m Writer) go_result" where
  "NewWriter fs path opts =
     (let o1 = writer_options (case opts of Some x \<Rightarrow> x | None \<Rightarrow>
                 \<lparr>op_QueueCapacity = 0, op_QueueSize = 0, op_BatchSize = 0, op_BatchInterval = 0, op_Fsync = [],
                  op_FileMode = 0\<rparr>);
          p = fs_expand fs path in
      if op_Fsync o1 \<noteq> Batch \<and> op_Fsync o1 \<noteq> FsyncDecision then Inl ''invalid audit fsync mode''
      else if op_FileMode o1 \<noteq> 0 \<and> op_FileMode o1 mod 512 \<noteq> 384 then Inl ''audit file mode must be 0600''
      else if p = [] then Inl ''audit path is empty''
      else (case fs_parent fs p of
        Some e \<Rightarrow> Inl e
      | None \<Rightarrow>
          if \<not> fs_mkdir fs p then Inl ''create audit directory''
          else if fs_lstat fs p = Lstat_special then Inl ''audit path is not a regular file''
          else if fs_lstat fs p = Lstat_error then Inl ''inspect audit path''
          else (case fs_open fs p of
            None \<Rightarrow> Inl ''open audit file''
          | Some data \<Rightarrow>
              if \<not> fs_regular fs p then Inl ''audit path is not a regular file''
              else if \<not> fs_chmod fs p then Inl ''protect audit file''
              else Inr (new_writer_state o1 data))))"

section \<open>Writing and failing\<close>

definition writer_fail :: "string \<Rightarrow> 'm Writer \<Rightarrow> 'm Writer" where
  "writer_fail err w = (if wr_failed w = None then w\<lparr>wr_failed := Some err\<rparr> else w)"

definition Writer_Failure :: "'m Writer option \<Rightarrow> go_error" where
  "Writer_Failure w = (case w of None \<Rightarrow> Some ErrWriterFailed | Some w \<Rightarrow> wr_failed w)"

definition Writer_Failed :: "'m Writer option \<Rightarrow> bool" where
  "Writer_Failed w \<longleftrightarrow> w \<noteq> None \<and> Writer_Failure w \<noteq> None"

definition Writer_QueueLength :: "'m Writer option \<Rightarrow> nat" where
  "Writer_QueueLength w = (case w of None \<Rightarrow> 0 | Some w \<Rightarrow> length (wr_queue w))"

definition queue_room :: "'m Writer \<Rightarrow> bool" where
  "queue_room w \<longleftrightarrow> int (length (wr_queue w)) < op_QueueCapacity (wr_options w)"

text \<open>\<^verbatim>\<open>Write\<close>, run when the mutex is free: the send does not wait.\<close>

definition Writer_Write :: "'m Event \<Rightarrow> 'm Writer option \<Rightarrow> audit_error option \<times> 'm Writer option" where
  "Writer_Write e w =
     (case w of
        None \<Rightarrow> (Some (Audit_error ErrWriterFailed), None)
      | Some w \<Rightarrow>
          (case Event_Validate e of
             Some err \<Rightarrow> (Some (Audit_error err), Some w)
           | None \<Rightarrow>
               if wr_failed w \<noteq> None then (Some (Audit_error ErrWriterFailed), Some w)
               else if wr_closed w then (Some (Audit_error ErrClosed), Some w)
               else if queue_room w
               then (None, Some (w\<lparr>wr_queue := wr_queue w @ [\<lparr>wi_event = Some e, wi_barrier = None\<rparr>]\<rparr>))
               else (Some ErrBackpressure, Some w)))"

definition newline :: char where "newline = CHR 0x0A"

text \<open>\<^verbatim>\<open>writeOne\<close>; the pair is what \<^verbatim>\<open>file.Write\<close> returns, and that many bytes reach the file.\<close>

definition writeOne ::
  "('m Event \<Rightarrow> string go_result) \<Rightarrow> nat \<times> go_error \<Rightarrow> 'm Event \<Rightarrow> os_file \<Rightarrow> go_error \<times> os_file" where
  "writeOne marshal outcome e f =
     (case marshal e of
        Inl err \<Rightarrow> (Some err, f)
      | Inr json \<Rightarrow>
          (let data = json @ [newline]; n = fst outcome; f' = f\<lparr>fl_data := fl_data f @ take n data\<rparr> in
           if snd outcome = None \<and> n \<noteq> length data then (Some ''short audit write'', f')
           else (snd outcome, f')))"

definition file_Sync :: "go_error \<Rightarrow> os_file \<Rightarrow> os_file" where
  "file_Sync err f = (if err = None then f\<lparr>fl_synced := length (fl_data f)\<rparr> else f)"

section \<open>The goroutine\<close>

datatype loop_event =
    Receives
  | Ticks
  | Stops
  | Writes "nat \<times> go_error"
  | Syncs go_error
  | Locks

text \<open>Taking an item from the queue, in \<^verbatim>\<open>loop\<close> and in \<^verbatim>\<open>drain\<close> alike.\<close>

definition take_item :: "'m writerItem \<Rightarrow> 'm Writer \<Rightarrow> 'm Writer" where
  "take_item it w =
     w\<lparr>wr_point := (case wi_barrier it of
                       Some b \<Rightarrow> At_barrier b
                     | None \<Rightarrow> (case wi_event it of Some e \<Rightarrow> At_write e | None \<Rightarrow> At_select))\<rparr>"

text \<open>The bookkeeping of \<^verbatim>\<open>loop\<close> after a line was written.\<close>

definition count_batch :: "'m Event \<Rightarrow> 'm Writer \<Rightarrow> 'm Writer" where
  "count_batch e w =
     (let w' = w\<lparr>wr_batch := wr_batch w + 1\<rparr> in
      w'\<lparr>wr_point :=
           (if op_Fsync (wr_options w') = FsyncDecision \<and> ev_EventType e = RequestDecision
               \<or> op_BatchSize (wr_options w') \<le> wr_batch w'
            then At_sync else At_select)\<rparr>)"

text \<open>
  One step of the goroutine: what the \<^verbatim>\<open>select\<close> of \<^verbatim>\<open>loop\<close> and \<^verbatim>\<open>drain\<close> chooses, or the outcome of the
  operation it waits for. \<^const>\<open>None\<close> is a step that cannot be taken. \<^verbatim>\<open>fail\<close> and \<^verbatim>\<open>syncResult\<close> need the
  mutex.
\<close>

fun loop_step ::
  "('m Event \<Rightarrow> string go_result) \<Rightarrow> loop_event \<Rightarrow> 'm Writer \<Rightarrow> 'm Writer option" where
  "loop_step marshal Receives w =
     (if wr_point w \<noteq> At_select then None
      else (case wr_queue w of
              it # q \<Rightarrow> Some (take_item it (w\<lparr>wr_queue := q\<rparr>))
            | [] \<Rightarrow> if wr_draining w then Some (w\<lparr>wr_point := At_sync\<rparr>) else None))"
| "loop_step marshal Ticks w =
     (if wr_point w \<noteq> At_select \<or> wr_draining w then None
      else if 0 < wr_batch w then Some (w\<lparr>wr_point := At_sync\<rparr>) else Some w)"
| "loop_step marshal Stops w =
     (if wr_point w \<noteq> At_select \<or> wr_draining w \<or> \<not> wr_stop w then None
      else Some (w\<lparr>wr_draining := True\<rparr>))"
| "loop_step marshal (Writes outcome) w =
     (case wr_point w of
        At_write e \<Rightarrow>
          (case writeOne marshal outcome e (wr_file w) of
             (Some err, f) \<Rightarrow> Some (w\<lparr>wr_file := f, wr_point := At_fail err\<rparr>)
           | (None, f) \<Rightarrow>
               if wr_draining w then Some (w\<lparr>wr_file := f, wr_point := At_select\<rparr>)
               else Some (count_batch e (w\<lparr>wr_file := f\<rparr>)))
      | _ \<Rightarrow> None)"
| "loop_step marshal (Syncs err) w =
     (case wr_point w of
        At_sync \<Rightarrow>
          (case err of
             Some x \<Rightarrow> Some (w\<lparr>wr_point := At_fail x\<rparr>)
           | None \<Rightarrow> Some (w\<lparr>wr_file := file_Sync None (wr_file w), wr_batch := 0,
                            wr_point := (if wr_draining w then Finished else At_select)\<rparr>))
      | At_barrier b \<Rightarrow>
          if wr_mu w \<noteq> None then None
          else if wr_failed w \<noteq> None
          then Some (w\<lparr>wr_barriers := (b, Some ErrWriterFailed) # wr_barriers w, wr_point := At_select\<rparr>)
          else Some (w\<lparr>wr_file := file_Sync err (wr_file w), wr_barriers := (b, err) # wr_barriers w,
                       wr_point := At_select\<rparr>)
      | _ \<Rightarrow> None)"
| "loop_step marshal Locks w =
     (case wr_point w of
        At_fail err \<Rightarrow> if wr_mu w \<noteq> None then None else Some ((writer_fail err w)\<lparr>wr_point := Finished\<rparr>)
      | _ \<Rightarrow> None)"

section \<open>Callers\<close>

text \<open>
  The calls in progress, by number; the boolean of a flush tells whether its context can end. A flush is
  first waiting for room, holding the mutex, then for its barrier. A close that finds the writer closed
  returns at once.
\<close>

datatype call =
    Flush_sending bool
  | Flush_waiting bool
  | Flush_returned "audit_error option"
  | Close_waiting
  | Close_returned go_error
  | Close_again go_error

record 'm system =
  sy_writer :: "'m Writer"
  sy_calls :: "call list"
  sy_log :: "'m writerItem list"

datatype 'm action =
    Call_Write "'m Event"
  | Call_Flush bool
  | Flush_sends nat
  | Flush_cancelled nat
  | Flush_answered nat
  | Flush_sees_done nat
  | Call_Close
  | Close_returns nat go_error
  | Loop loop_event

definition ctx_error :: "audit_error option" where
  "ctx_error = Some (Audit_error ''context done'')"

definition set_call :: "nat \<Rightarrow> call \<Rightarrow> 'm system \<Rightarrow> 'm system" where
  "set_call i c s = s\<lparr>sy_calls := (sy_calls s)[i := c]\<rparr>"

definition call_at :: "nat \<Rightarrow> 'm system \<Rightarrow> call option" where
  "call_at i s = (if i < length (sy_calls s) then Some (sy_calls s ! i) else None)"

definition do_Write :: "'m Event \<Rightarrow> 'm system \<Rightarrow> 'm system option" where
  "do_Write e s =
     (if Event_Validate e \<noteq> None then Some s
      else if wr_mu (sy_writer s) \<noteq> None then None
      else (case Writer_Write e (Some (sy_writer s)) of
              (None, Some w) \<Rightarrow>
                Some (s\<lparr>sy_writer := w, sy_log := sy_log s @ [\<lparr>wi_event = Some e, wi_barrier = None\<rparr>]\<rparr>)
            | _ \<Rightarrow> Some s))"

definition flush_enter :: "bool \<Rightarrow> 'm system \<Rightarrow> 'm system option" where
  "flush_enter c s =
     (let w = sy_writer s in
      if wr_mu w \<noteq> None then None
      else if wr_failed w \<noteq> None
      then Some (s\<lparr>sy_calls := sy_calls s @ [Flush_returned (Some (Audit_error ErrWriterFailed))]\<rparr>)
      else if wr_closed w then Some (s\<lparr>sy_calls := sy_calls s @ [Flush_returned (Some (Audit_error ErrClosed))]\<rparr>)
      else Some (s\<lparr>sy_writer := w\<lparr>wr_mu := Some (length (sy_calls s))\<rparr>,
                   sy_calls := sy_calls s @ [Flush_sending c]\<rparr>))"

definition flush_send :: "nat \<Rightarrow> 'm system \<Rightarrow> 'm system option" where
  "flush_send i s =
     (let w = sy_writer s; it = \<lparr>wi_event = None, wi_barrier = Some i\<rparr> in
      case call_at i s of
        Some (Flush_sending c) \<Rightarrow>
          if queue_room w
          then Some (set_call i (Flush_waiting c)
                 (s\<lparr>sy_writer := w\<lparr>wr_queue := wr_queue w @ [it], wr_mu := None\<rparr>, sy_log := sy_log s @ [it]\<rparr>))
          else None
      | _ \<Rightarrow> None)"

definition flush_cancel :: "nat \<Rightarrow> 'm system \<Rightarrow> 'm system option" where
  "flush_cancel i s =
     (case call_at i s of
        Some (Flush_sending True) \<Rightarrow>
          Some (set_call i (Flush_returned ctx_error) (s\<lparr>sy_writer := (sy_writer s)\<lparr>wr_mu := None\<rparr>\<rparr>))
      | Some (Flush_waiting True) \<Rightarrow> Some (set_call i (Flush_returned ctx_error) s)
      | _ \<Rightarrow> None)"

definition flush_answer :: "nat \<Rightarrow> 'm system \<Rightarrow> 'm system option" where
  "flush_answer i s =
     (let w = sy_writer s in
      case call_at i s of
        Some (Flush_waiting c) \<Rightarrow>
          (case map_of (wr_barriers w) i of
             None \<Rightarrow> None
           | Some None \<Rightarrow> Some (set_call i (Flush_returned None) s)
           | Some (Some err) \<Rightarrow>
               if wr_mu w \<noteq> None then None
               else Some (set_call i (Flush_returned (Some (Audit_error ErrWriterFailed)))
                      (s\<lparr>sy_writer := writer_fail err w\<rparr>)))
      | _ \<Rightarrow> None)"

definition flush_done :: "nat \<Rightarrow> 'm system \<Rightarrow> 'm system option" where
  "flush_done i s =
     (let w = sy_writer s in
      case call_at i s of
        Some (Flush_waiting c) \<Rightarrow>
          if \<not> wr_done w \<or> wr_mu w \<noteq> None then None
          else Some (set_call i
                 (Flush_returned (Some (Audit_error (if wr_failed w \<noteq> None then ErrWriterFailed else ErrClosed)))) s)
      | _ \<Rightarrow> None)"

definition close_enter :: "'m system \<Rightarrow> 'm system option" where
  "close_enter s =
     (let w = sy_writer s in
      if wr_mu w \<noteq> None then None
      else if wr_closed w then Some (s\<lparr>sy_calls := sy_calls s @ [Close_again (wr_failed w)]\<rparr>)
      else Some (s\<lparr>sy_writer := w\<lparr>wr_closed := True, wr_stop := True\<rparr>, sy_calls := sy_calls s @ [Close_waiting]\<rparr>))"

definition close_return :: "nat \<Rightarrow> go_error \<Rightarrow> 'm system \<Rightarrow> 'm system option" where
  "close_return i closeErr s =
     (let w = sy_writer s in
      case call_at i s of
        Some Close_waiting \<Rightarrow>
          if \<not> wr_done w \<or> wr_mu w \<noteq> None then None
          else Some (set_call i (Close_returned (if wr_failed w = None then closeErr else wr_failed w))
                 (s\<lparr>sy_writer := w\<lparr>wr_file := (wr_file w)\<lparr>fl_open := False\<rparr>\<rparr>\<rparr>))
      | _ \<Rightarrow> None)"

fun writer_step ::
  "('m Event \<Rightarrow> string go_result) \<Rightarrow> 'm action \<Rightarrow> 'm system \<Rightarrow> 'm system option" where
  "writer_step marshal (Call_Write e) s = do_Write e s"
| "writer_step marshal (Call_Flush c) s = flush_enter c s"
| "writer_step marshal (Flush_sends i) s = flush_send i s"
| "writer_step marshal (Flush_cancelled i) s = flush_cancel i s"
| "writer_step marshal (Flush_answered i) s = flush_answer i s"
| "writer_step marshal (Flush_sees_done i) s = flush_done i s"
| "writer_step marshal Call_Close s = close_enter s"
| "writer_step marshal (Close_returns i err) s = close_return i err s"
| "writer_step marshal (Loop l) s = map_option (\<lambda>w. s\<lparr>sy_writer := w\<rparr>) (loop_step marshal l (sy_writer s))"

definition start_system :: "'m Writer \<Rightarrow> 'm system" where
  "start_system w = \<lparr>sy_writer = w, sy_calls = [], sy_log = []\<rparr>"

inductive writer_reaches ::
  "('m Event \<Rightarrow> string go_result) \<Rightarrow> file_system \<Rightarrow> string \<Rightarrow> Options option \<Rightarrow> 'm system \<Rightarrow> bool"
  for marshal fs path opts where
  start: "NewWriter fs path opts = Inr w \<Longrightarrow> writer_reaches marshal fs path opts (start_system w)"
| step: "writer_reaches marshal fs path opts s \<Longrightarrow> writer_step marshal a s = Some s' \<Longrightarrow>
           writer_reaches marshal fs path opts s'"

end
