(* ===== verification/Audit_Writer_Safety.thy ===== *)
theory Audit_Writer_Safety
  imports Audit_Writer
begin

text \<open>
  What the audit writer promises, for every interleaving of callers and goroutine and every outcome of the file
  operations: the file is the log of accepted events in order, a flush is a durable barrier, a close
  completes the file and ends, the queue is bounded. The last part shows a state in which a flush has
  blocked the writer for good. The invariant has five parts, each kept by every step: the queue and the data
  of the file, the ending of the goroutine, the mutex and the barriers, durability, and closing.
\<close>

section \<open>Invariants\<close>

text \<open>The events among the items, and the lines they make.\<close>

definition item_events :: "'m writerItem list \<Rightarrow> 'm Event list" where
  "item_events = List.map_filter wi_event"

definition item_barriers :: "'m writerItem list \<Rightarrow> nat list" where
  "item_barriers = List.map_filter wi_barrier"

definition event_line :: "('m Event \<Rightarrow> string go_result) \<Rightarrow> 'm Event \<Rightarrow> string" where
  "event_line marshal e = (case marshal e of Inr json \<Rightarrow> json @ [newline] | Inl _ \<Rightarrow> [])"

definition item_lines :: "('m Event \<Rightarrow> string go_result) \<Rightarrow> 'm writerItem list \<Rightarrow> string" where
  "item_lines marshal its = concat (map (event_line marshal) (item_events its))"

lemma item_simps [simp]:
  "item_events [] = []" "item_events (xs @ ys) = item_events xs @ item_events ys"
  "item_events (it # xs) = (case wi_event it of None \<Rightarrow> item_events xs | Some e \<Rightarrow> e # item_events xs)"
  "item_barriers [] = []" "item_barriers (xs @ ys) = item_barriers xs @ item_barriers ys"
  "item_barriers (it # xs) = (case wi_barrier it of None \<Rightarrow> item_barriers xs | Some b \<Rightarrow> b # item_barriers xs)"
  by (auto simp: item_events_def item_barriers_def map_filter_def split: option.splits)

lemma item_lines_append [simp]: "item_lines m (xs @ ys) = item_lines m xs @ item_lines m ys"
  by (simp add: item_lines_def)

lemma item_lines_simps [simp]:
  "item_lines m [] = []"
  "wi_event it = None \<Longrightarrow> item_lines m [it] = []"
  "wi_event it = Some e \<Longrightarrow> item_lines m [it] = event_line m e"
  by (simp_all add: item_lines_def)

text \<open>An item carries an event that was validated, or a barrier.\<close>

definition good_item :: "'m writerItem \<Rightarrow> bool" where
  "good_item it \<longleftrightarrow> (\<exists>e. it = \<lparr>wi_event = Some e, wi_barrier = None\<rparr> \<and> Event_Validate e = None)
     \<or> (\<exists>b. it = \<lparr>wi_event = None, wi_barrier = Some b\<rparr>)"

text \<open>The data of the file, by the point of the goroutine, given the items received so far.\<close>

definition torn :: "('m Event \<Rightarrow> string go_result) \<Rightarrow> string \<Rightarrow> 'm writerItem list \<Rightarrow> string \<Rightarrow> bool" where
  "torn m base rcv data \<longleftrightarrow> data = base @ item_lines m rcv \<or>
     (\<exists>r e k. rcv = r @ [\<lparr>wi_event = Some e, wi_barrier = None\<rparr>] \<and>
        data = base @ item_lines m r @ take k (event_line m e))"

definition data_at ::
  "('m Event \<Rightarrow> string go_result) \<Rightarrow> string \<Rightarrow> 'm writerItem list \<Rightarrow> string \<Rightarrow> 'm loop_point \<Rightarrow> bool" where
  "data_at m base rcv data pt =
     (case pt of
        At_write e \<Rightarrow> (\<exists>r. rcv = r @ [\<lparr>wi_event = Some e, wi_barrier = None\<rparr>] \<and> data = base @ item_lines m r)
      | At_barrier b \<Rightarrow> (\<exists>r. rcv = r @ [\<lparr>wi_event = None, wi_barrier = Some b\<rparr>]) \<and> data = base @ item_lines m rcv
      | At_fail _ \<Rightarrow> torn m base rcv data
      | Finished \<Rightarrow> torn m base rcv data
      | _ \<Rightarrow> data = base @ item_lines m rcv)"

definition queue_inv :: "('m Event \<Rightarrow> string go_result) \<Rightarrow> string \<Rightarrow> 'm system \<Rightarrow> bool" where
  "queue_inv m base s \<longleftrightarrow> (let w = sy_writer s in
     list_all good_item (sy_log s) \<and>
     int (length (wr_queue w)) \<le> op_QueueCapacity (wr_options w) \<and>
     fl_synced (wr_file w) \<le> length (fl_data (wr_file w)) \<and>
     (\<exists>rcv. sy_log s = rcv @ wr_queue w \<and> data_at m base rcv (fl_data (wr_file w)) (wr_point w)))"

text \<open>The goroutine drains only after a close, and ends without a failure only when nothing is left.\<close>

definition stop_inv :: "('m Event \<Rightarrow> string go_result) \<Rightarrow> string \<Rightarrow> 'm system \<Rightarrow> bool" where
  "stop_inv m base s \<longleftrightarrow> (let w = sy_writer s in
     (wr_stop w \<longleftrightarrow> wr_closed w) \<and> 0 \<le> wr_batch w \<and>
     (wr_point w = At_sync \<and> \<not> wr_draining w \<longrightarrow> 0 < wr_batch w) \<and>
     (wr_draining w \<longrightarrow> wr_closed w) \<and>
     (wr_draining w \<and> wr_point w = At_sync \<longrightarrow> wr_queue w = []) \<and>
     (wr_point w = Finished \<and> wr_failed w = None \<longrightarrow>
        wr_closed w \<and> wr_queue w = [] \<and> fl_data (wr_file w) = base @ item_lines m (sy_log s) \<and>
        fl_synced (wr_file w) = length (fl_data (wr_file w))))"

text \<open>The mutex is held by the flush that waits for room, while the writer is open.\<close>

definition sending :: "nat \<Rightarrow> 'm system \<Rightarrow> bool" where
  "sending i s \<longleftrightarrow> (\<exists>c. call_at i s = Some (Flush_sending c))"

definition call_inv :: "'m system \<Rightarrow> bool" where
  "call_inv s \<longleftrightarrow> (let w = sy_writer s in
     (\<forall>i. wr_mu w = Some i \<longleftrightarrow> sending i s) \<and>
     (wr_mu w \<noteq> None \<longrightarrow> \<not> wr_closed w) \<and>
     distinct (item_barriers (sy_log s)) \<and>
     (\<forall>b \<in> set (item_barriers (sy_log s)). b < length (sy_calls s) \<and> wr_mu w \<noteq> Some b))"

text \<open>A barrier is durable when all events queued before it are in the synced part of the file.\<close>

definition durable :: "('m Event \<Rightarrow> string go_result) \<Rightarrow> string \<Rightarrow> 'm system \<Rightarrow> nat \<Rightarrow> bool" where
  "durable m base s i \<longleftrightarrow> (\<exists>pre post.
     sy_log s = pre @ \<lparr>wi_event = None, wi_barrier = Some i\<rparr> # post \<and>
     take (length base + length (item_lines m pre)) (fl_data (wr_file (sy_writer s))) = base @ item_lines m pre \<and>
     length base + length (item_lines m pre) \<le> fl_synced (wr_file (sy_writer s)))"

definition flush_inv :: "('m Event \<Rightarrow> string go_result) \<Rightarrow> string \<Rightarrow> 'm system \<Rightarrow> bool" where
  "flush_inv m base s \<longleftrightarrow>
     (\<forall>i. (i, None) \<in> set (wr_barriers (sy_writer s)) \<longrightarrow> durable m base s i) \<and>
     (\<forall>i. call_at i s = Some (Flush_returned None) \<longrightarrow> durable m base s i)"

definition complete :: "('m Event \<Rightarrow> string go_result) \<Rightarrow> string \<Rightarrow> 'm system \<Rightarrow> bool" where
  "complete m base s \<longleftrightarrow> (let w = sy_writer s in
     wr_point w = Finished \<and> wr_closed w \<and> wr_queue w = [] \<and>
     fl_data (wr_file w) = base @ item_lines m (sy_log s) \<and>
     fl_synced (wr_file w) = length (fl_data (wr_file w)))"

definition close_inv :: "('m Event \<Rightarrow> string go_result) \<Rightarrow> string \<Rightarrow> 'm system \<Rightarrow> bool" where
  "close_inv m base s \<longleftrightarrow> (\<forall>i. call_at i s = Some (Close_returned None) \<longrightarrow> complete m base s)"

section \<open>The calls keep the invariants\<close>

text \<open>What a step of a caller may do to the writer.\<close>

lemmas caller_defs = do_Write_def flush_enter_def flush_send_def flush_cancel_def flush_answer_def
  flush_done_def close_enter_def close_return_def

lemma Writer_Write_Some:
  "Writer_Write e (Some w) = (None, Some w') \<longleftrightarrow>
     Event_Validate e = None \<and> wr_failed w = None \<and> \<not> wr_closed w \<and> queue_room w \<and>
     w' = w\<lparr>wr_queue := wr_queue w @ [\<lparr>wi_event = Some e, wi_barrier = None\<rparr>]\<rparr>"
  by (auto simp: Writer_Write_def split: option.splits)

lemma do_Write_cases:
  assumes "do_Write e s = Some s'"
  shows "s' = s \<or> (wr_mu (sy_writer s) = None \<and> Event_Validate e = None \<and> wr_failed (sy_writer s) = None \<and>
           \<not> wr_closed (sy_writer s) \<and> queue_room (sy_writer s) \<and>
           s' = s\<lparr>sy_writer := (sy_writer s)\<lparr>wr_queue := wr_queue (sy_writer s) @
                    [\<lparr>wi_event = Some e, wi_barrier = None\<rparr>]\<rparr>,
                  sy_log := sy_log s @ [\<lparr>wi_event = Some e, wi_barrier = None\<rparr>]\<rparr>)"
  using assms by (auto simp: do_Write_def Writer_Write_Some split: if_splits option.splits prod.splits)

text \<open>An item enters log and queue together; no other caller step touches either, or the data.\<close>

definition pushes :: "'m writerItem \<Rightarrow> 'm system \<Rightarrow> 'm system \<Rightarrow> bool" where
  "pushes it s s' \<longleftrightarrow> good_item it \<and> queue_room (sy_writer s) \<and> \<not> wr_closed (sy_writer s) \<and>
     sy_log s' = sy_log s @ [it] \<and> wr_queue (sy_writer s') = wr_queue (sy_writer s) @ [it]"

definition same_loop :: "'m system \<Rightarrow> 'm system \<Rightarrow> bool" where
  "same_loop s s' \<longleftrightarrow> (let w = sy_writer s; w' = sy_writer s' in
     wr_options w' = wr_options w \<and> wr_point w' = wr_point w \<and> wr_draining w' = wr_draining w \<and> wr_batch w' = wr_batch w \<and>
     fl_data (wr_file w') = fl_data (wr_file w) \<and> fl_synced (wr_file w') = fl_synced (wr_file w) \<and>
     wr_barriers w' = wr_barriers w)"

definition quiet :: "'m system \<Rightarrow> 'm system \<Rightarrow> bool" where
  "quiet s s' \<longleftrightarrow> (let w = sy_writer s; w' = sy_writer s' in
     same_loop s s' \<and> sy_log s' = sy_log s \<and> wr_queue w' = wr_queue w \<and> (wr_closed w \<longrightarrow> wr_closed w') \<and>
     (wr_stop w = wr_closed w \<longrightarrow> wr_stop w' = wr_closed w') \<and> (wr_failed w' = None \<longrightarrow> wr_failed w = None))"

definition is_caller :: "'m action \<Rightarrow> bool" where
  "is_caller a \<longleftrightarrow> (\<forall>l. a \<noteq> Loop l)"

lemma queue_inv_push:
  assumes "queue_inv m base s" "pushes it s s'" "same_loop s s'"
  shows "queue_inv m base s'"
  using assms unfolding queue_inv_def pushes_def same_loop_def queue_room_def Let_def by auto

lemma queue_inv_quiet: "queue_inv m base s \<Longrightarrow> quiet s s' \<Longrightarrow> queue_inv m base s'"
  unfolding queue_inv_def quiet_def same_loop_def Let_def by auto

lemma writer_fail_simps [simp]:
  "wr_queue (writer_fail x w) = wr_queue w" "wr_file (writer_fail x w) = wr_file w"
  "wr_options (writer_fail x w) = wr_options w" "wr_stop (writer_fail x w) = wr_stop w"
  "wr_closed (writer_fail x w) = wr_closed w" "wr_draining (writer_fail x w) = wr_draining w"
  "wr_point (writer_fail x w) = wr_point w" "wr_mu (writer_fail x w) = wr_mu w"
  "wr_barriers (writer_fail x w) = wr_barriers w" "wr_batch (writer_fail x w) = wr_batch w" "wr_failed (writer_fail x w) \<noteq> None"
  by (simp_all add: writer_fail_def)

lemma set_call_simps [simp]:
  "sy_writer (set_call i c s) = sy_writer s" "sy_log (set_call i c s) = sy_log s"
  "sy_calls (set_call i c s) = (sy_calls s)[i := c]"
  by (simp_all add: set_call_def)

lemma flush_send_cases:
  assumes "flush_send i s = Some s'"
  obtains c where "call_at i s = Some (Flush_sending c)" "queue_room (sy_writer s)"
    "s' = set_call i (Flush_waiting c)
       (s\<lparr>sy_writer := (sy_writer s)\<lparr>wr_queue := wr_queue (sy_writer s) @ [\<lparr>wi_event = None, wi_barrier = Some i\<rparr>],
                                    wr_mu := None\<rparr>,
          sy_log := sy_log s @ [\<lparr>wi_event = None, wi_barrier = Some i\<rparr>]\<rparr>)"
  using assms by (auto simp: flush_send_def Let_def split: option.splits call.splits if_splits)

lemma call_inv_sending:
  "call_inv s \<Longrightarrow> call_at i s = Some (Flush_sending c) \<Longrightarrow> wr_mu (sy_writer s) = Some i \<and> \<not> wr_closed (sy_writer s)"
  by (auto simp: call_inv_def sending_def Let_def)

text \<open>The steps of callers that put nothing into the queue.\<close>

lemma quiet_steps:
  "flush_enter c s = Some s' \<Longrightarrow> quiet s s'"
  "flush_cancel i s = Some s' \<Longrightarrow> quiet s s'"
  "flush_done i s = Some s' \<Longrightarrow> quiet s s'"
  "close_enter s = Some s' \<Longrightarrow> quiet s s'"
  "close_return i e s = Some s' \<Longrightarrow> quiet s s'"
  "flush_answer i s = Some s' \<Longrightarrow> quiet s s'"
  subgoal by (auto simp: flush_enter_def quiet_def same_loop_def Let_def split: if_splits)
  subgoal by (auto simp: flush_cancel_def quiet_def same_loop_def Let_def split: option.splits call.splits bool.splits)
  subgoal by (auto simp: flush_done_def quiet_def same_loop_def Let_def split: option.splits call.splits if_splits)
  subgoal by (auto simp: close_enter_def quiet_def same_loop_def Let_def split: if_splits)
  subgoal by (auto simp: close_return_def quiet_def same_loop_def Let_def split: option.splits call.splits if_splits)
  subgoal by (auto simp: flush_answer_def quiet_def same_loop_def Let_def split: option.splits call.splits if_splits)
  done

lemma caller_step:
  assumes "writer_step m a s = Some s'" "is_caller a" "call_inv s"
  shows "quiet s s' \<or> same_loop s s' \<and> (\<exists>it. pushes it s s')"
proof (cases a)
  case (Call_Write e)
  then show ?thesis
    using assms do_Write_cases [of e s s'] by (auto simp: quiet_def same_loop_def pushes_def good_item_def)
next
  case (Flush_sends i)
  then have "flush_send i s = Some s'" using assms by simp
  then show ?thesis
    by (rule flush_send_cases)
      (use assms(3) call_inv_sending [of s i] in \<open>auto simp: same_loop_def pushes_def good_item_def Let_def\<close>)
qed (use assms in \<open>auto simp: is_caller_def dest: quiet_steps\<close>)

section \<open>The goroutine keeps the invariants\<close>

lemma writeOne_data:
  assumes "writeOne m oc e f = (err, f')"
  shows "fl_synced f' = fl_synced f" "\<exists>k. fl_data f' = fl_data f @ take k (event_line m e)"
    "err = None \<Longrightarrow> fl_data f' = fl_data f @ event_line m e"
proof -
  have "fl_synced f' = fl_synced f \<and> (\<exists>k. fl_data f' = fl_data f @ take k (event_line m e)) \<and>
      (err = None \<longrightarrow> fl_data f' = fl_data f @ event_line m e)"
  proof (cases "m e")
    case (Inl x)
    then show ?thesis using assms by (auto simp: writeOne_def intro: exI [of _ 0])
  next
    case (Inr json)
    define data where "data = json @ [newline]"
    have "f' = f\<lparr>fl_data := fl_data f @ take (fst oc) data\<rparr>" "err = None \<Longrightarrow> fst oc = length data"
      using assms Inr by (auto simp: writeOne_def Let_def data_def simp del: take_append split: if_splits)
    then show ?thesis using Inr by (auto simp: event_line_def data_def simp del: take_append)
  qed
  then show "fl_synced f' = fl_synced f" "\<exists>k. fl_data f' = fl_data f @ take k (event_line m e)"
    "err = None \<Longrightarrow> fl_data f' = fl_data f @ event_line m e" by auto
qed

lemma data_at_simps [simp]:
  "data_at m base rcv data At_select \<longleftrightarrow> data = base @ item_lines m rcv"
  "data_at m base rcv data At_sync \<longleftrightarrow> data = base @ item_lines m rcv"
  "data_at m base rcv data (At_fail x) \<longleftrightarrow> torn m base rcv data"
  "data_at m base rcv data Finished \<longleftrightarrow> torn m base rcv data"
  by (simp_all add: data_at_def)

lemma torn_lines: "torn m base rcv (base @ item_lines m rcv)"
  by (simp add: torn_def)

lemma data_at_take_item:
  assumes "good_item it" "data = base @ item_lines m rcv"
  shows "data_at m base (rcv @ [it]) data (wr_point (take_item it w))"
  using assms by (auto simp: good_item_def take_item_def data_at_def)

lemma data_at_write:
  assumes "data_at m base rcv (fl_data f) (At_write e)" "writeOne m oc e f = (err, f')"
  shows "torn m base rcv (fl_data f')" "err = None \<Longrightarrow> fl_data f' = base @ item_lines m rcv"
  using assms writeOne_data [OF assms(2)] by (auto simp: data_at_def torn_def)

lemma count_batch_simps [simp]:
  "wr_queue (count_batch e w) = wr_queue w" "wr_file (count_batch e w) = wr_file w"
  "wr_options (count_batch e w) = wr_options w" "wr_stop (count_batch e w) = wr_stop w"
  "wr_closed (count_batch e w) = wr_closed w" "wr_draining (count_batch e w) = wr_draining w"
  "wr_failed (count_batch e w) = wr_failed w" "wr_mu (count_batch e w) = wr_mu w"
  "wr_barriers (count_batch e w) = wr_barriers w" "wr_batch (count_batch e w) = wr_batch w + 1"
  by (simp_all add: count_batch_def Let_def)

lemma count_batch_point: "wr_point (count_batch e w) = At_sync \<or> wr_point (count_batch e w) = At_select"
  by (simp add: count_batch_def Let_def)

lemma take_item_simps [simp]:
  "wr_queue (take_item it w) = wr_queue w" "wr_file (take_item it w) = wr_file w"
  "wr_options (take_item it w) = wr_options w" "wr_stop (take_item it w) = wr_stop w"
  "wr_closed (take_item it w) = wr_closed w" "wr_draining (take_item it w) = wr_draining w"
  "wr_failed (take_item it w) = wr_failed w" "wr_mu (take_item it w) = wr_mu w"
  "wr_barriers (take_item it w) = wr_barriers w" "wr_batch (take_item it w) = wr_batch w"
  by (simp_all add: take_item_def)

lemma file_Sync_simps [simp]:
  "fl_data (file_Sync err f) = fl_data f" "fl_synced (file_Sync None f) = length (fl_data f)"
  "fl_synced f \<le> length (fl_data f) \<Longrightarrow> fl_synced f \<le> fl_synced (file_Sync err f) \<and>
     fl_synced (file_Sync err f) \<le> length (fl_data f)"
  by (simp_all add: file_Sync_def)

text \<open>What a step of the goroutine does, by its starting point.\<close>

lemma loop_receive_cases:
  assumes "loop_step m Receives w = Some w'"
  obtains it q where "wr_point w = At_select" "wr_queue w = it # q" "w' = take_item it (w\<lparr>wr_queue := q\<rparr>)"
  | "wr_point w = At_select" "wr_queue w = []" "wr_draining w" "w' = w\<lparr>wr_point := At_sync\<rparr>"
  using assms by (auto split: if_splits list.splits)

lemma loop_write_cases:
  assumes "loop_step m (Writes oc) w = Some w'"
  obtains e err f where "wr_point w = At_write e" "writeOne m oc e (wr_file w) = (Some err, f)"
    "w' = w\<lparr>wr_file := f, wr_point := At_fail err\<rparr>"
  | e f where "wr_point w = At_write e" "writeOne m oc e (wr_file w) = (None, f)"
    "w' = (if wr_draining w then w\<lparr>wr_file := f, wr_point := At_select\<rparr> else count_batch e (w\<lparr>wr_file := f\<rparr>))"
proof (cases "wr_point w")
  case (At_write e)
  obtain err f where w: "writeOne m oc e (wr_file w) = (err, f)" by fastforce
  show ?thesis
  proof (cases err)
    case None
    then show ?thesis using assms At_write w that(2) [of e f] by (cases "wr_draining w") simp_all
  next
    case (Some x)
    then show ?thesis using assms At_write w that(1) [of e x f] by simp
  qed
qed (use assms in simp_all)

lemma loop_sync_cases:
  assumes "loop_step m (Syncs err) w = Some w'"
  obtains x where "wr_point w = At_sync" "err = Some x" "w' = w\<lparr>wr_point := At_fail x\<rparr>"
  | "wr_point w = At_sync" "err = None"
    "w' = w\<lparr>wr_file := file_Sync None (wr_file w), wr_batch := 0,
            wr_point := (if wr_draining w then Finished else At_select)\<rparr>"
  | b where "wr_point w = At_barrier b" "wr_mu w = None" "wr_failed w \<noteq> None"
    "w' = w\<lparr>wr_barriers := (b, Some ErrWriterFailed) # wr_barriers w, wr_point := At_select\<rparr>"
  | b where "wr_point w = At_barrier b" "wr_mu w = None" "wr_failed w = None"
    "w' = w\<lparr>wr_file := file_Sync err (wr_file w), wr_barriers := (b, err) # wr_barriers w, wr_point := At_select\<rparr>"
proof (cases "wr_point w")
  case (At_barrier b)
  then have "wr_mu w = None" using assms by (auto split: if_splits)
  then show ?thesis using assms At_barrier that(3) [of b] that(4) [of b] by (cases "wr_failed w") simp_all
next
  case At_sync
  then show ?thesis using assms that(1) that(2) by (cases err) simp_all
qed (use assms in simp_all)

lemma queue_inv_loop:
  assumes "queue_inv m base s" "loop_step m l (sy_writer s) = Some w'"
  shows "queue_inv m base (s\<lparr>sy_writer := w'\<rparr>)"
proof -
  obtain rcv where rcv: "sy_log s = rcv @ wr_queue (sy_writer s)"
    "data_at m base rcv (fl_data (wr_file (sy_writer s))) (wr_point (sy_writer s))"
    and good: "list_all good_item (sy_log s)"
    and cap: "int (length (wr_queue (sy_writer s))) \<le> op_QueueCapacity (wr_options (sy_writer s))"
    and syn: "fl_synced (wr_file (sy_writer s)) \<le> length (fl_data (wr_file (sy_writer s)))"
    using assms(1) by (auto simp: queue_inv_def Let_def)
  note fold = queue_inv_def Let_def
  show ?thesis
  proof (cases l)
    case Receives
    then have "loop_step m Receives (sy_writer s) = Some w'" using assms(2) by simp
    then show ?thesis
    proof (cases rule: loop_receive_cases)
      case (1 it q)
      then have "data_at m base (rcv @ [it]) (fl_data (wr_file (sy_writer s))) (wr_point w')"
        using rcv good data_at_take_item [of it "fl_data (wr_file (sy_writer s))" base m rcv] by simp
      then show ?thesis using rcv good cap syn 1 by (auto simp: fold intro!: exI [of _ "rcv @ [it]"])
    next
      case 2
      then show ?thesis using rcv good cap syn by (auto simp: fold)
    qed
  next
    case (Writes oc)
    then have "loop_step m (Writes oc) (sy_writer s) = Some w'" using assms(2) by simp
    then show ?thesis
    proof (cases rule: loop_write_cases)
      case (1 e err f)
      then show ?thesis
        using rcv good cap syn data_at_write(1) [of m base rcv "wr_file (sy_writer s)" e oc "Some err" f]
          writeOne_data(1,2) [of m oc e "wr_file (sy_writer s)" "Some err" f]
        by (auto simp: fold)
    next
      case (2 e f)
      have "fl_synced f \<le> length (fl_data f)"
        using syn writeOne_data(1,3) [OF 2(2)] by simp
      moreover have "fl_data f = base @ item_lines m rcv"
        using rcv data_at_write(2) [of m base rcv "wr_file (sy_writer s)" e oc None f] 2 by simp
      ultimately show ?thesis
        using rcv(1) good cap 2(3) count_batch_point [of e "sy_writer s\<lparr>wr_file := f\<rparr>"]
        by (cases "wr_draining (sy_writer s)") (auto simp: fold)
    qed
  next
    case (Syncs err)
    then have "loop_step m (Syncs err) (sy_writer s) = Some w'" using assms(2) by simp
    then show ?thesis
      by (cases rule: loop_sync_cases)
        (use rcv good cap syn torn_lines [of m base rcv] in \<open>auto simp: fold data_at_def file_Sync_def\<close>)
  qed (use assms(2) rcv good cap syn in \<open>auto simp: fold split: if_splits loop_point.splits\<close>)
qed


lemma stop_inv_loop:
  assumes "stop_inv m base s" "queue_inv m base s" "loop_step m l (sy_writer s) = Some w'"
  shows "stop_inv m base (s\<lparr>sy_writer := w'\<rparr>)"
proof (cases l)
  case Receives
  then have "loop_step m Receives (sy_writer s) = Some w'" using assms(3) by simp
  then show ?thesis
  proof (cases rule: loop_receive_cases)
    case (1 it q)
    have "good_item it" using assms(2) 1 by (auto simp: queue_inv_def Let_def)
    then have "wr_point w' \<noteq> At_sync" "wr_point w' \<noteq> Finished"
      using 1 by (auto simp: good_item_def take_item_def)
    then show ?thesis using assms(1) 1 by (auto simp: stop_inv_def Let_def)
  next
    case 2
    then show ?thesis using assms(1) by (auto simp: stop_inv_def Let_def)
  qed
next
  case (Writes oc)
  then have "loop_step m (Writes oc) (sy_writer s) = Some w'" using assms(3) by simp
  then show ?thesis
  proof (cases rule: loop_write_cases)
    case (1 e err f)
    then show ?thesis using assms(1) by (auto simp: stop_inv_def Let_def)
  next
    case (2 e f)
    then show ?thesis using assms(1) count_batch_point [of e "sy_writer s\<lparr>wr_file := f\<rparr>"]
      by (cases "wr_draining (sy_writer s)") (auto simp: stop_inv_def Let_def)
  qed
next
  case (Syncs err)
  then have "loop_step m (Syncs err) (sy_writer s) = Some w'" using assms(3) by simp
  then show ?thesis
  proof (cases rule: loop_sync_cases)
    case 2
    then show ?thesis using assms(1,2) by (auto simp: stop_inv_def queue_inv_def Let_def)
  qed (use assms(1) in \<open>auto simp: stop_inv_def Let_def\<close>)
next
  case Locks
  then show ?thesis using assms(1,3) by (auto simp: stop_inv_def Let_def split: loop_point.splits if_splits)
qed (use assms(1,3) in \<open>auto simp: stop_inv_def Let_def split: if_splits\<close>)


section \<open>Mutex, barriers and durability\<close>

lemma call_at_set_call [simp]:
  "call_at j (set_call i c s) = (if j = i \<and> i < length (sy_calls s) then Some c else call_at j s)"
  by (auto simp: call_at_def set_call_def)

lemma call_at_writer [simp]:
  "call_at i (s\<lparr>sy_writer := w\<rparr>) = call_at i s" "call_at i (s\<lparr>sy_log := l\<rparr>) = call_at i s"
  by (simp_all add: call_at_def)

lemma call_at_new:
  "call_at i (s\<lparr>sy_calls := sy_calls s @ [c]\<rparr>) = (if i = length (sy_calls s) then Some c else call_at i s)"
  by (auto simp: call_at_def nth_append)

lemma call_at_lt: "call_at i s = Some c \<Longrightarrow> i < length (sy_calls s)"
  by (auto simp: call_at_def split: if_splits)

lemma loop_step_keeps:
  assumes "loop_step m l w = Some w'"
  shows "wr_mu w' = wr_mu w" "wr_closed w' = wr_closed w" "wr_stop w' = wr_stop w"
proof -
  have "wr_mu w' = wr_mu w \<and> wr_closed w' = wr_closed w \<and> wr_stop w' = wr_stop w"
  proof (cases l)
    case Receives
    with assms have "loop_step m Receives w = Some w'" by simp
    then show ?thesis by (cases rule: loop_receive_cases) auto
  next
    case (Writes oc)
    with assms have "loop_step m (Writes oc) w = Some w'" by simp
    then show ?thesis by (cases rule: loop_write_cases) auto
  next
    case (Syncs err)
    with assms have "loop_step m (Syncs err) w = Some w'" by simp
    then show ?thesis by (cases rule: loop_sync_cases) auto
  qed (use assms in \<open>auto split: if_splits loop_point.splits\<close>)
  then show "wr_mu w' = wr_mu w" "wr_closed w' = wr_closed w" "wr_stop w' = wr_stop w" by auto
qed

lemma sending_simps [simp]:
  "sending i (s\<lparr>sy_writer := w\<rparr>) = sending i s" "sending i (s\<lparr>sy_log := l\<rparr>) = sending i s"
  "sending j (s\<lparr>sy_calls := sy_calls s @ [c]\<rparr>) =
     (if j = length (sy_calls s) then (\<exists>d. c = Flush_sending d) else sending j s)"
  by (simp_all add: sending_def call_at_new)

lemma sending_set_call:
  "call_at i s = Some c' \<Longrightarrow> sending j (set_call i c s) = (if j = i then (\<exists>d. c = Flush_sending d) else sending j s)"
  by (auto simp: sending_def dest: call_at_lt)

lemma sending_lt: "sending i s \<Longrightarrow> i < length (sy_calls s)"
  by (auto simp: sending_def dest: call_at_lt)

lemma call_inv_intro:
  assumes "\<And>i. wr_mu (sy_writer s) = Some i \<longleftrightarrow> sending i s"
    "wr_mu (sy_writer s) \<noteq> None \<Longrightarrow> \<not> wr_closed (sy_writer s)" "distinct (item_barriers (sy_log s))"
    "\<And>b. b \<in> set (item_barriers (sy_log s)) \<Longrightarrow> b < length (sy_calls s) \<and> wr_mu (sy_writer s) \<noteq> Some b"
  shows "call_inv s"
  using assms by (auto simp: call_inv_def Let_def)

lemma call_inv_D:
  assumes "call_inv s"
  shows "wr_mu (sy_writer s) = Some i \<longleftrightarrow> sending i s"
    "wr_mu (sy_writer s) \<noteq> None \<Longrightarrow> \<not> wr_closed (sy_writer s)" "distinct (item_barriers (sy_log s))"
    "b \<in> set (item_barriers (sy_log s)) \<Longrightarrow> b < length (sy_calls s) \<and> wr_mu (sy_writer s) \<noteq> Some b"
  using assms by (auto simp: call_inv_def Let_def)

text \<open>A call that was not waiting for room changes its state; the mutex, log and closing stay.\<close>

lemma call_inv_set:
  assumes "call_inv s" "call_at i s = Some c'" "\<not> sending i s" "\<And>d. c \<noteq> Flush_sending d"
    "wr_mu (sy_writer s') = wr_mu (sy_writer s)" "wr_closed (sy_writer s') = wr_closed (sy_writer s)"
    "sy_log s' = sy_log s" "sy_calls s' = sy_calls s"
  shows "call_inv (set_call i c s')"
proof (rule call_inv_intro)
  have at: "call_at j s' = call_at j s" for j using assms(8) by (simp add: call_at_def)
  have "sending j (set_call i c s') = sending j s" for j
    using sending_set_call [of i s' c' j c] at assms by (auto simp: sending_def)
  then show "\<And>j. wr_mu (sy_writer (set_call i c s')) = Some j \<longleftrightarrow> sending j (set_call i c s')"
    using call_inv_D(1) [OF assms(1)] assms(5) by simp
qed (use assms call_inv_D [OF assms(1)] in auto)

lemma call_inv_add:
  assumes "call_inv s" "wr_mu (sy_writer s) = None" "\<And>d. c \<noteq> Flush_sending d"
    "wr_mu w = None"
  shows "call_inv (s\<lparr>sy_writer := w, sy_calls := sy_calls s @ [c]\<rparr>)"
proof (rule call_inv_intro)
  fix i
  have "sending i ((s\<lparr>sy_writer := w\<rparr>)\<lparr>sy_calls := sy_calls (s\<lparr>sy_writer := w\<rparr>) @ [c]\<rparr>) \<longleftrightarrow> sending i s \<and> i \<noteq> length (sy_calls s)"
    using assms(3) sending_simps(3) [of i "s\<lparr>sy_writer := w\<rparr>" c] by simp
  then show "wr_mu (sy_writer (s\<lparr>sy_writer := w, sy_calls := sy_calls s @ [c]\<rparr>)) = Some i \<longleftrightarrow>
      sending i (s\<lparr>sy_writer := w, sy_calls := sy_calls s @ [c]\<rparr>)"
    using assms call_inv_D(1) [OF assms(1), of i] by simp
qed (use assms call_inv_D [OF assms(1)] in \<open>auto dest: call_inv_D(4) [OF assms(1)]\<close>)

lemma call_inv_flush_enter:
  assumes "call_inv s" "flush_enter c s = Some s'"
  shows "call_inv s'"
proof -
  let ?w = "sy_writer s" and ?n = "length (sy_calls s)"
  have mu: "wr_mu ?w = None" using assms(2) by (auto simp: flush_enter_def Let_def split: if_splits)
  show ?thesis
  proof (cases "wr_failed ?w = None \<and> \<not> wr_closed ?w")
    case True
    then have s': "s' = s\<lparr>sy_writer := ?w\<lparr>wr_mu := Some ?n\<rparr>, sy_calls := sy_calls s @ [Flush_sending c]\<rparr>"
      using assms(2) mu by (simp add: flush_enter_def Let_def)
    show ?thesis
    proof (rule call_inv_intro)
      fix i
      have "sending i s' \<longleftrightarrow> sending i s \<or> i = ?n"
        using sending_simps(3) [of i "s\<lparr>sy_writer := ?w\<lparr>wr_mu := Some ?n\<rparr>\<rparr>" "Flush_sending c"] by (auto simp: s')
      then show "wr_mu (sy_writer s') = Some i \<longleftrightarrow> sending i s'"
        using call_inv_D(1) [OF assms(1), of i] mu by (auto simp: s')
    next
      fix b assume "b \<in> set (item_barriers (sy_log s'))"
      then show "b < length (sy_calls s') \<and> wr_mu (sy_writer s') \<noteq> Some b"
        using call_inv_D(4) [OF assms(1), of b] by (auto simp: s')
    qed (use True call_inv_D(3) [OF assms(1)] in \<open>auto simp: s'\<close>)
  next
    case False
    then obtain x where "s' = s\<lparr>sy_writer := ?w, sy_calls := sy_calls s @ [Flush_returned x]\<rparr>"
      using assms(2) mu by (auto simp: flush_enter_def Let_def split: if_splits)
    then show ?thesis using call_inv_add [OF assms(1) mu, of "Flush_returned x" ?w] mu by simp
  qed
qed

lemma call_inv_release:
  assumes "call_inv s" "sending i s" "\<And>d. c \<noteq> Flush_sending d" "wr_mu (sy_writer s') = None"
    "sy_calls s' = sy_calls s" "distinct (item_barriers (sy_log s'))"
    "set (item_barriers (sy_log s')) \<subseteq> insert i (set (item_barriers (sy_log s)))"
  shows "call_inv (set_call i c s')"
proof (rule call_inv_intro)
  fix j
  have "call_at i s' = call_at i s" using assms(5) by (simp add: call_at_def)
  then obtain c' where c': "call_at i s' = Some c'" using assms(2) by (auto simp: sending_def)
  have "sending j s' = sending j s" using assms(5) by (simp add: sending_def call_at_def)
  moreover have "sending j s \<longleftrightarrow> j = i"
    using call_inv_D(1) [OF assms(1), of i] call_inv_D(1) [OF assms(1), of j] assms(2) by auto
  ultimately show "wr_mu (sy_writer (set_call i c s')) = Some j \<longleftrightarrow> sending j (set_call i c s')"
    using sending_set_call [OF c', of j c] assms(3,4) by auto
next
  fix b assume "b \<in> set (item_barriers (sy_log (set_call i c s')))"
  then show "b < length (sy_calls (set_call i c s')) \<and> wr_mu (sy_writer (set_call i c s')) \<noteq> Some b"
    using assms call_inv_D(4) [OF assms(1), of b] sending_lt [OF assms(2)] by auto
qed (use assms in auto)

lemma call_inv_flush_send:
  assumes "call_inv s" "flush_send i s = Some s'"
  shows "call_inv s'"
  using assms(2)
proof (rule flush_send_cases)
  fix c
  assume c: "call_at i s = Some (Flush_sending c)"
    and s': "s' = set_call i (Flush_waiting c)
       (s\<lparr>sy_writer := (sy_writer s)\<lparr>wr_queue := wr_queue (sy_writer s) @ [\<lparr>wi_event = None, wi_barrier = Some i\<rparr>],
                                    wr_mu := None\<rparr>,
          sy_log := sy_log s @ [\<lparr>wi_event = None, wi_barrier = Some i\<rparr>]\<rparr>)"
  have snd: "sending i s" using c by (simp add: sending_def)
  then have "i \<notin> set (item_barriers (sy_log s))"
    using call_inv_D(4) [OF assms(1), of i] call_inv_D(1) [OF assms(1), of i] by auto
  then show ?thesis
    unfolding s' by (intro call_inv_release [OF assms(1) snd]) (use call_inv_D(3) [OF assms(1)] in auto)
qed

lemma call_inv_flush_cancel:
  assumes "call_inv s" "flush_cancel i s = Some s'"
  shows "call_inv s'"
proof -
  consider "sending i s" "s' = set_call i (Flush_returned ctx_error) (s\<lparr>sy_writer := (sy_writer s)\<lparr>wr_mu := None\<rparr>\<rparr>)"
    | c where "call_at i s = Some (Flush_waiting c)" "s' = set_call i (Flush_returned ctx_error) s"
    using assms(2) by (auto simp: flush_cancel_def sending_def split: option.splits call.splits bool.splits)
  then show ?thesis
  proof cases
    case 1
    then show ?thesis
      using call_inv_release [OF assms(1) 1(1), of "Flush_returned ctx_error" "s\<lparr>sy_writer := (sy_writer s)\<lparr>wr_mu := None\<rparr>\<rparr>"]
        call_inv_D(3) [OF assms(1)] by auto
  next
    case (2 c)
    then show ?thesis using call_inv_set [OF assms(1) 2(1), of "Flush_returned ctx_error" s] by (simp add: sending_def)
  qed
qed

lemma call_inv_flush_answer:
  assumes "call_inv s" "flush_answer i s = Some s'"
  shows "call_inv s'"
proof -
  obtain c r w where "call_at i s = Some (Flush_waiting c)" "s' = set_call i (Flush_returned r) (s\<lparr>sy_writer := w\<rparr>)"
    "wr_mu w = wr_mu (sy_writer s)" "wr_closed w = wr_closed (sy_writer s)"
    using assms(2) by (auto simp: flush_answer_def Let_def split: option.splits call.splits if_splits)
      (metis system.surjective system.update_convs(1))+
  then show ?thesis
    using call_inv_set [OF assms(1), of i "Flush_waiting c" "Flush_returned r" "s\<lparr>sy_writer := w\<rparr>"]
    by (simp add: sending_def)
qed

lemma call_inv_flush_done:
  assumes "call_inv s" "flush_done i s = Some s'"
  shows "call_inv s'"
proof -
  obtain c r where "call_at i s = Some (Flush_waiting c)" "s' = set_call i (Flush_returned r) s"
    using assms(2) by (auto simp: flush_done_def Let_def split: option.splits call.splits if_splits)
  then show ?thesis
    using call_inv_set [OF assms(1), of i "Flush_waiting c" "Flush_returned r" s] by (simp add: sending_def)
qed

lemma call_inv_close_return:
  assumes "call_inv s" "close_return i e s = Some s'"
  shows "call_inv s'"
proof -
  obtain r w where "call_at i s = Some Close_waiting" "s' = set_call i (Close_returned r) (s\<lparr>sy_writer := w\<rparr>)"
    "wr_mu w = wr_mu (sy_writer s)" "wr_closed w = wr_closed (sy_writer s)"
    using assms(2) by (auto simp: close_return_def Let_def split: option.splits call.splits if_splits)
  then show ?thesis
    using call_inv_set [OF assms(1), of i Close_waiting "Close_returned r" "s\<lparr>sy_writer := w\<rparr>"]
    by (simp add: sending_def)
qed

lemma call_inv_close_enter:
  assumes "call_inv s" "close_enter s = Some s'"
  shows "call_inv s'"
proof -
  obtain c w where "wr_mu (sy_writer s) = None" "wr_mu w = None" "\<And>d. c \<noteq> Flush_sending d"
    "s' = s\<lparr>sy_writer := w, sy_calls := sy_calls s @ [c]\<rparr>"
  proof (cases "wr_closed (sy_writer s)")
    case True
    then show ?thesis using assms(2) that [of "sy_writer s" "Close_again (wr_failed (sy_writer s))"]
      by (auto simp: close_enter_def Let_def split: if_splits)
  next
    case False
    then show ?thesis
      using assms(2) that [of "(sy_writer s)\<lparr>wr_closed := True, wr_stop := True\<rparr>" Close_waiting]
      by (auto simp: close_enter_def Let_def split: if_splits)
  qed
  then show ?thesis using call_inv_add [OF assms(1)] by simp
qed

lemma call_inv_Write: "call_inv s \<Longrightarrow> do_Write ev s = Some s' \<Longrightarrow> call_inv s'"
  using do_Write_cases [of ev s s'] by (auto simp: call_inv_def Let_def)

lemmas call_inv_calls = call_inv_flush_enter call_inv_flush_send call_inv_flush_cancel call_inv_flush_answer
  call_inv_flush_done call_inv_close_return call_inv_close_enter call_inv_Write

lemma call_inv_step: "call_inv s \<Longrightarrow> writer_step m a s = Some s' \<Longrightarrow> call_inv s'"
proof (cases a)
  case (Loop l)
  assume "call_inv s" "writer_step m a s = Some s'"
  then show ?thesis using Loop loop_step_keeps [of m l "sy_writer s"] by (auto simp: call_inv_def Let_def)
qed (auto dest: call_inv_calls)


text \<open>The log, the data and the synced part only grow.\<close>

definition grows :: "'m system \<Rightarrow> 'm system \<Rightarrow> bool" where
  "grows s s' \<longleftrightarrow> (\<exists>x. sy_log s' = sy_log s @ x) \<and>
     (\<exists>d. fl_data (wr_file (sy_writer s')) = fl_data (wr_file (sy_writer s)) @ d) \<and>
     fl_synced (wr_file (sy_writer s)) \<le> fl_synced (wr_file (sy_writer s'))"

lemma durable_grows:
  assumes "durable m base s i" "grows s s'"
  shows "durable m base s' i"
proof -
  obtain pre post where d: "sy_log s = pre @ \<lparr>wi_event = None, wi_barrier = Some i\<rparr> # post"
    "take (length base + length (item_lines m pre)) (fl_data (wr_file (sy_writer s))) = base @ item_lines m pre"
    "length base + length (item_lines m pre) \<le> fl_synced (wr_file (sy_writer s))"
    using assms(1) unfolding durable_def by blast
  obtain x dd where g: "sy_log s' = sy_log s @ x"
    "fl_data (wr_file (sy_writer s')) = fl_data (wr_file (sy_writer s)) @ dd"
    "fl_synced (wr_file (sy_writer s)) \<le> fl_synced (wr_file (sy_writer s'))"
    using assms(2) unfolding grows_def by blast
  have len: "length base + length (item_lines m pre) \<le> length (fl_data (wr_file (sy_writer s)))"
    using arg_cong [OF d(2), of length] by simp
  show ?thesis
    unfolding durable_def
    by (intro exI [of _ pre] exI [of _ "post @ x"]) (use d g len in simp)
qed

lemma grows_loop:
  assumes "queue_inv m base s" "loop_step m l (sy_writer s) = Some w'"
  shows "grows s (s\<lparr>sy_writer := w'\<rparr>)"
proof -
  have syn: "fl_synced (wr_file (sy_writer s)) \<le> length (fl_data (wr_file (sy_writer s)))"
    using assms(1) by (simp add: queue_inv_def Let_def)
  show ?thesis
  proof (cases l)
    case Receives
    then have "loop_step m Receives (sy_writer s) = Some w'" using assms(2) by simp
    then show ?thesis by (cases rule: loop_receive_cases) (auto simp: grows_def)
  next
    case (Writes oc)
    then have "loop_step m (Writes oc) (sy_writer s) = Some w'" using assms(2) by simp
    then show ?thesis
    proof (cases rule: loop_write_cases)
      case (1 e err f)
      then show ?thesis using writeOne_data(1,2) [OF 1(2)] by (auto simp: grows_def)
    next
      case (2 e f)
      then show ?thesis using writeOne_data(1,2) [OF 2(2)] by (auto simp: grows_def)
    qed
  next
    case (Syncs err)
    then have "loop_step m (Syncs err) (sy_writer s) = Some w'" using assms(2) by simp
    then show ?thesis using syn by (cases rule: loop_sync_cases) (auto simp: grows_def)
  qed (use assms(2) in \<open>auto simp: grows_def split: if_splits loop_point.splits\<close>)
qed

lemma grows_caller:
  "writer_step m a s = Some s' \<Longrightarrow> is_caller a \<Longrightarrow> call_inv s \<Longrightarrow> grows s s'"
  using caller_step [of m a s s'] by (auto simp: grows_def quiet_def same_loop_def pushes_def Let_def)

text \<open>Which barriers the goroutine answers without an error.\<close>

lemma new_barrier_durable:
  assumes "queue_inv m base s" "loop_step m l (sy_writer s) = Some w'" "(i, None) \<in> set (wr_barriers w')"
    "(i, None) \<notin> set (wr_barriers (sy_writer s))"
  shows "durable m base (s\<lparr>sy_writer := w'\<rparr>) i"
proof (cases l)
  case Receives
  then have "loop_step m Receives (sy_writer s) = Some w'" using assms(2) by simp
  then show ?thesis using assms(3,4) by (cases rule: loop_receive_cases) auto
next
  case (Writes oc)
  then have "loop_step m (Writes oc) (sy_writer s) = Some w'" using assms(2) by simp
  then show ?thesis using assms(3,4) by (cases rule: loop_write_cases) (auto split: if_splits)
next
  case (Syncs err)
  then have "loop_step m (Syncs err) (sy_writer s) = Some w'" using assms(2) by simp
  then show ?thesis
  proof (cases rule: loop_sync_cases)
    case (4 b)
    then have b: "b = i" "err = None" using assms(3,4) by auto
    obtain r where r: "sy_log s = (r @ [\<lparr>wi_event = None, wi_barrier = Some i\<rparr>]) @ wr_queue (sy_writer s)"
      "fl_data (wr_file (sy_writer s)) = base @ item_lines m r"
      using assms(1) 4(1) b by (auto simp: queue_inv_def Let_def data_at_def)
    then show ?thesis using 4(4) b unfolding durable_def
      by (intro exI [of _ r] exI [of _ "wr_queue (sy_writer s)"]) simp
  qed (use assms(3,4) in auto)
qed (use assms in \<open>auto split: if_splits loop_point.splits\<close>)

text \<open>Which calls return without an error.\<close>

lemma returned_None:
  assumes "writer_step m a s = Some s'" "is_caller a" "call_at i s' = Some r"
    "r = Flush_returned None \<or> r = Close_returned None"
  shows "call_at i s = Some r \<or> r = Flush_returned None \<and> (i, None) \<in> set (wr_barriers (sy_writer s)) \<or>
     r = Close_returned None \<and> wr_done (sy_writer s) \<and> wr_failed (sy_writer s) = None"
proof (cases a)
  case (Call_Write e)
  then show ?thesis using assms do_Write_cases [of e s s'] by auto
next
  case (Call_Flush c)
  then have "flush_enter c s = Some s'" using assms by simp
  then show ?thesis using assms(3,4) by (auto simp: flush_enter_def Let_def call_at_def nth_append split: if_splits)
next
  case (Flush_sends j)
  then have "flush_send j s = Some s'" using assms by simp
  then show ?thesis by (rule flush_send_cases) (use assms(3,4) in \<open>auto split: if_splits\<close>)
next
  case (Flush_cancelled j)
  then show ?thesis using assms
    by (auto simp: flush_cancel_def ctx_error_def split: option.splits call.splits bool.splits if_splits)
next
  case (Flush_answered j)
  then show ?thesis using assms
    by (auto simp: flush_answer_def Let_def split: option.splits call.splits if_splits dest: map_of_SomeD)
next
  case (Flush_sees_done j)
  then show ?thesis using assms
    by (auto simp: flush_done_def Let_def split: option.splits call.splits if_splits)
next
  case Call_Close
  then have "close_enter s = Some s'" using assms by simp
  then show ?thesis using assms(3,4) by (auto simp: close_enter_def Let_def call_at_def nth_append split: if_splits)
next
  case (Close_returns j e)
  then show ?thesis using assms
    by (auto simp: close_return_def Let_def split: option.splits call.splits if_splits)
qed (use assms(2) in \<open>simp add: is_caller_def\<close>)

text \<open>The invariant of the writer.\<close>

definition writer_inv :: "('m Event \<Rightarrow> string go_result) \<Rightarrow> string \<Rightarrow> 'm system \<Rightarrow> bool" where
  "writer_inv m base s \<longleftrightarrow> queue_inv m base s \<and> stop_inv m base s \<and> call_inv s \<and> flush_inv m base s \<and>
     close_inv m base s"

lemma stop_inv_quiet: "stop_inv m base s \<Longrightarrow> quiet s s' \<Longrightarrow> stop_inv m base s'"
  by (auto simp: stop_inv_def quiet_def same_loop_def Let_def)

lemma stop_inv_caller:
  assumes "writer_step m a s = Some s'" "is_caller a" "call_inv s" "stop_inv m base s"
  shows "stop_inv m base s'"
proof (cases a)
  case (Call_Write e)
  then show ?thesis using assms do_Write_cases [of e s s'] by (auto simp: stop_inv_def Let_def)
next
  case (Flush_sends j)
  then have "flush_send j s = Some s'" using assms by simp
  then show ?thesis
    by (rule flush_send_cases) (use assms(3,4) call_inv_sending [OF assms(3), of j] in \<open>auto simp: stop_inv_def Let_def\<close>)
qed (use assms in \<open>auto simp: is_caller_def dest!: quiet_steps intro: stop_inv_quiet\<close>)

lemma complete_caller:
  assumes "writer_step m a s = Some s'" "is_caller a" "call_inv s" "complete m base s"
  shows "complete m base s'"
  using caller_step [OF assms(1-3)] assms(4)
  by (auto simp: complete_def quiet_def same_loop_def pushes_def Let_def)

lemma finished_loop: "wr_point w = Finished \<Longrightarrow> loop_step m l w = None"
  by (cases l) auto

lemma caller_inv:
  assumes "writer_inv m base s" "writer_step m a s = Some s'" "is_caller a"
  shows "writer_inv m base s'"
proof -
  have inv: "queue_inv m base s" "stop_inv m base s" "call_inv s" "flush_inv m base s" "close_inv m base s"
    using assms(1) by (auto simp: writer_inv_def)
  note st = caller_step [OF assms(2,3) inv(3)] and g = grows_caller [OF assms(2,3) inv(3)]
  have "queue_inv m base s'" using st inv(1) by (auto intro: queue_inv_quiet queue_inv_push)
  moreover have "wr_barriers (sy_writer s') = wr_barriers (sy_writer s)"
    using st by (auto simp: quiet_def same_loop_def Let_def)
  then have "flush_inv m base s'"
    using inv(4) durable_grows [OF _ g] returned_None [OF assms(2,3)] unfolding flush_inv_def by (auto; blast)
  moreover have "close_inv m base s'"
    unfolding close_inv_def
  proof (intro allI impI)
    fix i assume "call_at i s' = Some (Close_returned None)"
    then have "call_at i s = Some (Close_returned None) \<or> wr_done (sy_writer s) \<and> wr_failed (sy_writer s) = None"
      using returned_None [OF assms(2,3)] by auto
    then have "complete m base s"
      using inv(2,5) by (auto simp: close_inv_def complete_def stop_inv_def wr_done_def Let_def)
    then show "complete m base s'" by (rule complete_caller [OF assms(2,3) inv(3)])
  qed
  ultimately show ?thesis
    using stop_inv_caller [OF assms(2,3) inv(3,2)] call_inv_step [OF inv(3) assms(2)] by (simp add: writer_inv_def)
qed

lemma loop_inv:
  assumes "writer_inv m base s" "loop_step m l (sy_writer s) = Some w'"
  shows "writer_inv m base (s\<lparr>sy_writer := w'\<rparr>)"
proof -
  have inv: "queue_inv m base s" "stop_inv m base s" "call_inv s" "flush_inv m base s" "close_inv m base s"
    using assms(1) by (auto simp: writer_inv_def)
  have "flush_inv m base (s\<lparr>sy_writer := w'\<rparr>)"
    using inv(4) durable_grows [OF _ grows_loop [OF inv(1) assms(2)]] new_barrier_durable [OF inv(1) assms(2)]
    unfolding flush_inv_def by (auto; blast)
  moreover have "close_inv m base (s\<lparr>sy_writer := w'\<rparr>)"
    using inv(5) finished_loop [of "sy_writer s" m l] assms(2) by (auto simp: close_inv_def complete_def Let_def)
  moreover have "call_inv (s\<lparr>sy_writer := w'\<rparr>)"
    using call_inv_step [OF inv(3), of m "Loop l"] assms(2) by simp
  ultimately show ?thesis
    using queue_inv_loop [OF inv(1) assms(2)] stop_inv_loop [OF inv(2,1) assms(2)] by (simp add: writer_inv_def)
qed

lemma step_inv:
  assumes "writer_inv m base s" "writer_step m a s = Some s'"
  shows "writer_inv m base s'"
proof (cases "is_caller a")
  case True
  then show ?thesis using assms by (blast intro: caller_inv)
next
  case False
  then show ?thesis using assms loop_inv [of m base s] by (auto simp: is_caller_def)
qed

lemma writer_options_pos:
  "0 < op_QueueCapacity (writer_options o1)" "0 < op_BatchSize (writer_options o1)"
  unfolding writer_options_def Let_def by simp_all

lemma NewWriter_state:
  assumes "NewWriter fs path opts = Inr w"
  shows "\<exists>o1 data. fs_open fs (fs_expand fs path) = Some data \<and> w = new_writer_state o1 data \<and>
    0 < op_QueueCapacity o1 \<and> 0 < op_BatchSize o1"
proof -
  define o1 where "o1 = writer_options (case opts of Some x \<Rightarrow> x | None \<Rightarrow>
      \<lparr>op_QueueCapacity = 0, op_QueueSize = 0, op_BatchSize = 0, op_BatchInterval = 0, op_Fsync = [], op_FileMode = 0\<rparr>)"
  have "\<exists>data. fs_open fs (fs_expand fs path) = Some data \<and> w = new_writer_state o1 data"
    using assms unfolding NewWriter_def o1_def [symmetric] Let_def by (auto split: if_splits option.splits)
  then show ?thesis using writer_options_pos unfolding o1_def by blast
qed

text \<open>What the file held when the writer opened it.\<close>

definition opened_data :: "file_system \<Rightarrow> string \<Rightarrow> string" where
  "opened_data fs path = (case fs_open fs (fs_expand fs path) of Some d \<Rightarrow> d | None \<Rightarrow> [])"

lemma start_inv:
  assumes "NewWriter fs path opts = Inr w"
  shows "writer_inv m (opened_data fs path) (start_system w)"
  using NewWriter_state [OF assms]
  by (auto simp: writer_inv_def queue_inv_def stop_inv_def call_inv_def flush_inv_def close_inv_def call_at_def
      sending_def start_system_def new_writer_state_def opened_data_def Let_def)

lemma reaches_inv: "writer_reaches m fs path opts s \<Longrightarrow> writer_inv m (opened_data fs path) s"
  by (induction rule: writer_reaches.induct) (auto intro: start_inv step_inv)

section \<open>What the writer promises\<close>

lemma data_at_cases:
  assumes "data_at m base rcv data pt"
  obtains (whole) r x where "rcv = r @ x" "data = base @ item_lines m r"
  | (part) r e k where "rcv = r @ [\<lparr>wi_event = Some e, wi_barrier = None\<rparr>]"
      "data = base @ item_lines m r @ take k (event_line m e)" "pt = Finished \<or> (\<exists>x. pt = At_fail x)"
proof (cases pt)
  case (At_write e)
  then show ?thesis using assms whole by (auto simp: data_at_def)
next
  case (At_fail x)
  then show ?thesis using assms whole [of rcv "[]"] part by (auto simp: torn_def)
next
  case Finished
  then show ?thesis using assms whole [of rcv "[]"] part by (auto simp: torn_def)
qed (use assms whole [of rcv "[]"] in \<open>auto simp: data_at_def\<close>)

text \<open>
  Property C27. The audit file is the log of accepted events: in every state the writer reaches, the file holds what it
  held when it was opened, followed by the lines of the first events in the order in which \<open>Write\<close> accepted
  them, without a gap, a repetition or a reordering. Only a line whose writing failed may follow in part, and
  then the goroutine is about to record a failure or has ended.
\<close>

theorem audit_file_fifo:
  assumes "writer_reaches m fs path opts s"
  shows "\<exists>n p. n \<le> length (item_events (sy_log s)) \<and>
     fl_data (wr_file (sy_writer s)) =
       opened_data fs path @ concat (map (event_line m) (take n (item_events (sy_log s)))) @ p \<and>
     (p = [] \<or> n < length (item_events (sy_log s)) \<and> (\<exists>k. p = take k (event_line m (item_events (sy_log s) ! n))) \<and>
       (wr_point (sy_writer s) = Finished \<or> (\<exists>x. wr_point (sy_writer s) = At_fail x)))"
proof -
  let ?w = "sy_writer s" and ?base = "opened_data fs path"
  obtain rcv where log: "sy_log s = rcv @ wr_queue ?w" and at: "data_at m ?base rcv (fl_data (wr_file ?w)) (wr_point ?w)"
    using reaches_inv [OF assms] by (auto simp: writer_inv_def queue_inv_def Let_def)
  from at show ?thesis
  proof (cases rule: data_at_cases)
    case (whole r x)
    then show ?thesis
      using log by (intro exI [of _ "length (item_events r)"] exI [of _ "[]"]) (simp add: item_lines_def)
  next
    case (part r e k)
    then show ?thesis
      using log by (intro exI [of _ "length (item_events r)"] exI [of _ "take k (event_line m e)"]) (auto simp: item_lines_def)
  qed
qed

text \<open>
  A flush that returns nil is a durable barrier: its barrier was queued exactly once, and every event
  accepted before it is in the file, in full and in order, within the part covered by a successful sync.
\<close>

theorem flush_is_barrier:
  assumes "writer_reaches m fs path opts s" "call_at i s = Some (Flush_returned None)"
  shows "\<exists>pre post. sy_log s = pre @ \<lparr>wi_event = None, wi_barrier = Some i\<rparr> # post \<and>
     i \<notin> set (item_barriers (pre @ post)) \<and>
     (let recorded = opened_data fs path @ concat (map (event_line m) (item_events pre)) in
      take (length recorded) (fl_data (wr_file (sy_writer s))) = recorded \<and>
      length recorded \<le> fl_synced (wr_file (sy_writer s)))"
proof -
  have inv: "call_inv s" "durable m (opened_data fs path) s i"
    using reaches_inv [OF assms(1)] assms(2) by (auto simp: writer_inv_def flush_inv_def)
  obtain pre post where log: "sy_log s = pre @ \<lparr>wi_event = None, wi_barrier = Some i\<rparr> # post"
    and d: "take (length (opened_data fs path) + length (item_lines m pre)) (fl_data (wr_file (sy_writer s))) =
         opened_data fs path @ item_lines m pre"
      "length (opened_data fs path) + length (item_lines m pre) \<le> fl_synced (wr_file (sy_writer s))"
    using inv(2) unfolding durable_def by blast
  have "i \<notin> set (item_barriers (pre @ post))" using call_inv_D(3) [OF inv(1)] log by auto
  then show ?thesis using log d by (intro exI [of _ pre] exI [of _ post]) (simp add: item_lines_def Let_def)
qed

text \<open>
  Property C28. A close that returns nil leaves a complete audit file: every event that was ever accepted is in the
  file in order, nothing else follows, the whole file is synced and the queue is empty.
\<close>

theorem close_is_complete:
  assumes "writer_reaches m fs path opts s" "call_at i s = Some (Close_returned None)"
  shows "fl_data (wr_file (sy_writer s)) =
       opened_data fs path @ concat (map (event_line m) (item_events (sy_log s))) \<and>
     fl_synced (wr_file (sy_writer s)) = length (fl_data (wr_file (sy_writer s))) \<and> wr_queue (sy_writer s) = []"
  using reaches_inv [OF assms(1)] assms(2)
  by (auto simp: writer_inv_def close_inv_def complete_def item_lines_def Let_def)

text \<open>
  The queue of the writer is bounded by its capacity, and \<open>Write\<close> never waits for room: run on an open,
  unfailed writer with a valid event it queues the event when there is room, and otherwise reports
  backpressure at once, leaving the writer as it was.
\<close>

theorem write_bounded:
  assumes "writer_reaches m fs path opts s" "Event_Validate e = None" "wr_failed (sy_writer s) = None"
    "\<not> wr_closed (sy_writer s)"
  shows "int (Writer_QueueLength (Some (sy_writer s))) \<le> op_QueueCapacity (wr_options (sy_writer s)) \<and>
     (if int (Writer_QueueLength (Some (sy_writer s))) = op_QueueCapacity (wr_options (sy_writer s))
      then Writer_Write e (Some (sy_writer s)) = (Some ErrBackpressure, Some (sy_writer s))
      else \<exists>w'. Writer_Write e (Some (sy_writer s)) = (None, Some w') \<and>
        item_events (wr_queue w') = item_events (wr_queue (sy_writer s)) @ [e])"
  using reaches_inv [OF assms(1)] assms(2-4)
  by (auto simp: writer_inv_def queue_inv_def Writer_Write_def Writer_QueueLength_def queue_room_def Let_def)


text \<open>How many effective steps the goroutine can still take when nothing is queued any more.\<close>

definition point_weight :: "'m loop_point \<Rightarrow> nat" where
  "point_weight pt = (case pt of At_write _ \<Rightarrow> 7 | At_barrier _ \<Rightarrow> 5 | At_select \<Rightarrow> 3 | At_sync \<Rightarrow> 2 | At_fail _ \<Rightarrow> 1 | Finished \<Rightarrow> 0)"

definition drain_measure :: "'m Writer \<Rightarrow> nat" where
  "drain_measure w = 8 * length (wr_queue w) + point_weight (wr_point w) + (if 0 < wr_batch w then 2 else 0) +
     (if wr_draining w then 0 else 1)"

definition batch_ok :: "'m Writer \<Rightarrow> bool" where
  "batch_ok w \<longleftrightarrow> 0 \<le> wr_batch w \<and> (wr_point w = At_sync \<and> \<not> wr_draining w \<longrightarrow> 0 < wr_batch w)"

lemma take_item_weight: "point_weight (wr_point (take_item it w)) \<le> 7"
  by (simp add: take_item_def point_weight_def split: option.splits)

lemma loop_step_measure:
  assumes "loop_step m l w = Some w'" "w' \<noteq> w" "batch_ok w"
  shows "drain_measure w' < drain_measure w \<and> batch_ok w'"
proof (cases l)
  case Receives
  with assms have "loop_step m Receives w = Some w'" by simp
  then show ?thesis
  proof (cases rule: loop_receive_cases)
    case (1 it q)
    then show ?thesis using assms(3) take_item_weight [of it "w\<lparr>wr_queue := q\<rparr>"]
      by (auto simp: drain_measure_def batch_ok_def take_item_def point_weight_def split: option.splits)
  next
    case 2
    then show ?thesis using assms(3) by (auto simp: drain_measure_def batch_ok_def point_weight_def)
  qed
next
  case (Writes oc)
  with assms have "loop_step m (Writes oc) w = Some w'" by simp
  then show ?thesis
  proof (cases rule: loop_write_cases)
    case (1 e err f)
    then show ?thesis using assms(3) by (auto simp: drain_measure_def batch_ok_def point_weight_def)
  next
    case (2 e f)
    then show ?thesis using assms(3)
      by (auto simp: drain_measure_def batch_ok_def point_weight_def count_batch_def Let_def)
  qed
next
  case (Syncs err)
  with assms have "loop_step m (Syncs err) w = Some w'" by simp
  then show ?thesis
    by (cases rule: loop_sync_cases) (use assms(3) in \<open>auto simp: drain_measure_def batch_ok_def point_weight_def\<close>)
next
  case Locks
  with assms obtain x where "wr_point w = At_fail x" "w' = (writer_fail x w)\<lparr>wr_point := Finished\<rparr>"
    by (auto split: loop_point.splits if_splits)
  then show ?thesis using assms(3) by (auto simp: drain_measure_def batch_ok_def point_weight_def)
next
  case Ticks
  with assms have "wr_point w = At_select" "\<not> wr_draining w" "0 < wr_batch w" "w' = w\<lparr>wr_point := At_sync\<rparr>"
    by (auto split: if_splits)
  then show ?thesis using assms(3) by (simp add: drain_measure_def batch_ok_def point_weight_def)
next
  case Stops
  with assms have "wr_point w = At_select" "\<not> wr_draining w" "w' = w\<lparr>wr_draining := True\<rparr>"
    by (auto split: if_splits)
  then show ?thesis using assms(3) by (simp add: drain_measure_def batch_ok_def point_weight_def)
qed

lemma loop_progress:
  assumes "wr_mu w = None" "wr_stop w" "wr_point w \<noteq> Finished"
  shows "\<exists>l w'. loop_step m l w = Some w' \<and> w' \<noteq> w"
proof (cases "wr_point w")
  case At_select
  show ?thesis
  proof (cases "wr_draining w")
    case True
    obtain w' where w': "loop_step m Receives w = Some w'" "wr_queue w' \<noteq> wr_queue w \<or> wr_point w' \<noteq> wr_point w"
      using True At_select by (cases "wr_queue w") auto
    then have "w' \<noteq> w" by auto
    with w' show ?thesis by blast
  next
    case False
    then obtain w' where w': "loop_step m Stops w = Some w'" "wr_draining w' \<noteq> wr_draining w"
      using At_select assms(2) by simp
    then have "w' \<noteq> w" by auto
    with w' show ?thesis by blast
  qed
next
  case (At_write e)
  obtain err f where r: "writeOne m (0, Some []) e (wr_file w) = (err, f)" by fastforce
  obtain w' where w': "loop_step m (Writes (0, Some [])) w = Some w'" "wr_point w' \<noteq> At_write e"
    using At_write r by (cases err; cases "wr_draining w") (auto simp: count_batch_def Let_def)
  then have "w' \<noteq> w" using At_write by auto
  with w' show ?thesis by blast
next
  case (At_barrier b)
  then obtain w' where w': "loop_step m (Syncs None) w = Some w'" "wr_point w' \<noteq> At_barrier b"
    using assms(1) by (cases "wr_failed w") simp_all
  then have "w' \<noteq> w" using At_barrier by auto
  with w' show ?thesis by blast
next
  case At_sync
  then obtain w' where w': "loop_step m (Syncs None) w = Some w'" "wr_point w' \<noteq> At_sync" by auto
  then have "w' \<noteq> w" using At_sync by auto
  with w' show ?thesis by blast
next
  case (At_fail x)
  then obtain w' where w': "loop_step m Locks w = Some w'" "wr_point w' \<noteq> At_fail x" using assms(1) by auto
  then have "w' \<noteq> w" using At_fail by auto
  with w' show ?thesis by blast
qed (use assms in simp)


lemma measure_run:
  assumes "\<And>k. wr_point (f k) \<noteq> Finished \<Longrightarrow> \<exists>l. loop_step m l (f k) = Some (f (Suc k)) \<and> f (Suc k) \<noteq> f k"
    "batch_ok (f i)"
  shows "\<exists>k \<le> drain_measure (f i). wr_point (f (i + k)) = Finished"
  using assms(2)
proof (induction "drain_measure (f i)" arbitrary: i rule: less_induct)
  case less
  show ?case
  proof (cases "wr_point (f i) = Finished")
    case True
    then show ?thesis by (intro exI [of _ 0]) simp
  next
    case False
    then obtain l where "loop_step m l (f i) = Some (f (Suc i))" "f (Suc i) \<noteq> f i" using assms(1) by blast
    then have lt: "drain_measure (f (Suc i)) < drain_measure (f i)" and ok: "batch_ok (f (Suc i))"
      using loop_step_measure less.prems by blast+
    obtain k where "k \<le> drain_measure (f (Suc i))" "wr_point (f (Suc i + k)) = Finished"
      using less.hyps [OF lt ok] by blast
    then show ?thesis using lt by (intro exI [of _ "Suc k"]) auto
  qed
qed

text \<open>
  Property C29. After \<open>Close\<close> the goroutine ends. In every reachable closed state it can take an effective step unless
  it has ended, and every schedule of its effective steps, whatever the outcomes of the file operations, ends
  within the bound given by the queued items and the point it stands at.
\<close>

theorem close_terminates:
  assumes "writer_reaches m fs path opts s" "wr_closed (sy_writer s)"
  shows "(wr_point (sy_writer s) = Finished \<or> (\<exists>l w'. loop_step m l (sy_writer s) = Some w' \<and> w' \<noteq> sy_writer s)) \<and>
     (\<forall>f. f 0 = sy_writer s \<and>
        (\<forall>k. wr_point (f k) = Finished \<or> (\<exists>l. loop_step m l (f k) = Some (f (Suc k)) \<and> f (Suc k) \<noteq> f k)) \<longrightarrow>
        (\<exists>k \<le> drain_measure (sy_writer s). wr_point (f k) = Finished))"
proof -
  have inv: "stop_inv m (opened_data fs path) s" "call_inv s"
    using reaches_inv [OF assms(1)] by (auto simp: writer_inv_def)
  have free: "wr_mu (sy_writer s) = None" "wr_stop (sy_writer s)" "batch_ok (sy_writer s)"
    using call_inv_D(2) [OF inv(2)] assms(2) inv(1) by (blast, simp_all add: stop_inv_def batch_ok_def Let_def)
  have "\<exists>k \<le> drain_measure (sy_writer s). wr_point (f k) = Finished"
    if "f 0 = sy_writer s" "\<forall>k. wr_point (f k) = Finished \<or> (\<exists>l. loop_step m l (f k) = Some (f (Suc k)) \<and> f (Suc k) \<noteq> f k)" for f
    using measure_run [of f m 0] that free(3) by auto
  then show ?thesis using loop_progress [OF free(1,2), of m] by blast
qed

section \<open>A flush can block the writer\<close>

text \<open>A run of actions.\<close>

fun writer_run :: "('m Event \<Rightarrow> string go_result) \<Rightarrow> 'm action list \<Rightarrow> 'm system \<Rightarrow> 'm system option" where
  "writer_run m [] s = Some s"
| "writer_run m (a # as) s = (case writer_step m a s of None \<Rightarrow> None | Some s' \<Rightarrow> writer_run m as s')"

lemma run_reaches:
  "writer_run m as s = Some s' \<Longrightarrow> writer_reaches m fs path opts s \<Longrightarrow> writer_reaches m fs path opts s'"
  by (induction as arbitrary: s) (auto split: option.splits intro: writer_reaches.step)

definition plain_fs :: file_system where
  "plain_fs = \<lparr>fs_expand = (\<lambda>p. p), fs_parent = (\<lambda>_. None), fs_mkdir = (\<lambda>_. True), fs_lstat = (\<lambda>_. Lstat_absent),
     fs_open = (\<lambda>_. Some []), fs_regular = (\<lambda>_. True), fs_chmod = (\<lambda>_. True)\<rparr>"

definition small_options :: Options where
  "small_options = \<lparr>op_QueueCapacity = 1, op_QueueSize = 0, op_BatchSize = 1, op_BatchInterval = 1, op_Fsync = Batch,
     op_FileMode = 0\<rparr>"

definition failure_event :: "'m Event" where
  "failure_event =
     (NewEvent ''evt_1'' \<lparr>tm_year = 2025, tm_month = 1, tm_day = 2, tm_hour = 3, tm_min = 4, tm_sec = 5, tm_nanos = 0\<rparr>
        ''run_1'' AuthenticationFailed)\<lparr>ev_ConnectionID := ''evt_2'', ev_ErrorCode := ''invalid_inbound_signature''\<rparr>"

lemma failure_event_valid_aux: "Event_Validate failure_event = None"
  by (simp add: failure_event_def NewEvent_def Event_Validate_def event_type_defs SchemaVersion_def foreign_fields_def
      time_is_zero_def)

definition small_writer :: "'m Writer" where
  "small_writer = new_writer_state small_options []"

lemma small_writer_new: "NewWriter plain_fs ''audit.jsonl'' (Some small_options) = Inr small_writer"
  by (simp add: NewWriter_def plain_fs_def small_options_def writer_options_def small_writer_def Batch_def)

lemmas small_writer_defs = small_writer_def new_writer_state_def small_options_def start_system_def

text \<open>A run on the small writer, evaluated one step at a time.\<close>

definition small_run :: "('m Event \<Rightarrow> string go_result) \<Rightarrow> 'm action list \<Rightarrow> 'm system option" where
  "small_run m as = writer_run m as (start_system small_writer)"

lemma small_run_reaches:
  "small_run m as = Some s \<Longrightarrow> writer_reaches m plain_fs ''audit.jsonl'' (Some small_options) s"
  unfolding small_run_def by (rule run_reaches) (auto intro: writer_reaches.start small_writer_new)

lemmas run_simps = small_run_def small_writer_defs caller_defs set_call_def call_at_def Writer_Write_def queue_room_def
  failure_event_valid_aux take_item_def count_batch_def writeOne_def file_Sync_def writer_fail_def wr_done_def Let_def

definition stuck_actions :: "'m action list" where
  "stuck_actions = [Call_Write failure_event, Loop Receives, Call_Write failure_event, Call_Flush False,
     Loop (Writes (0, Some ''no space left on device''))]"

definition stuck :: "('m Event \<Rightarrow> string go_result) \<Rightarrow> 'm system \<Rightarrow> bool" where
  "stuck m s \<longleftrightarrow> (\<forall>a s'. writer_step m a s = Some s' \<longrightarrow> s' = s)"

lemma stuckI:
  assumes "wr_mu (sy_writer s) = Some i" "sy_calls s = [Flush_sending False]" "\<not> queue_room (sy_writer s)"
    "wr_point (sy_writer s) = At_fail x"
  shows "stuck m s"
  unfolding stuck_def
proof (intro allI impI)
  fix a s' assume st: "writer_step m a s = Some s'"
  show "s' = s"
  proof (cases a)
    case (Call_Write e)
    then show ?thesis using st assms by (auto simp: do_Write_def split: if_splits)
  next
    case (Loop l)
    then show ?thesis using st assms by (cases l) auto
  qed (use st assms in \<open>auto simp: flush_enter_def flush_send_def flush_cancel_def flush_answer_def flush_done_def
      close_enter_def close_return_def call_at_def Let_def split: if_splits\<close>)
qed

text \<open>
  Property C30. \<open>Flush\<close> can block the audit writer for good. A flush without a deadline that finds the queue full
  waits for room with the mutex held; when the goroutine then fails to write the line it is working on, it
  needs the mutex to record the failure, so it takes nothing from the queue any more. In the state reached no
  action changes anything: no write, flush or close of another caller returns, and the failure is never
  recorded.
\<close>

theorem flush_deadlock:
  "\<exists>s. writer_reaches m plain_fs ''audit.jsonl'' (Some small_options) s \<and> stuck m s \<and>
     call_at 0 s = Some (Flush_sending False) \<and> (\<exists>x. wr_point (sy_writer s) = At_fail x) \<and>
     wr_failed (sy_writer s) = None"
proof -
  obtain s x where s: "small_run m stuck_actions = Some s" "wr_mu (sy_writer s) = Some 0"
    "sy_calls s = [Flush_sending False]" "\<not> queue_room (sy_writer s)" "wr_point (sy_writer s) = At_fail x"
    "wr_failed (sy_writer s) = None"
  proof (cases "m failure_event")
    case (Inl err)
    then show ?thesis using that by (simp add: stuck_actions_def run_simps)
  next
    case (Inr json)
    then show ?thesis using that by (simp add: stuck_actions_def run_simps)
  qed
  then show ?thesis
    using small_run_reaches [OF s(1)] stuckI [OF s(2-5)] by (intro exI [of _ s]) (auto simp: call_at_def)
qed


section \<open>Sample runs\<close>

definition sample_marshal :: "unit Event \<Rightarrow> string go_result" where
  "sample_marshal e = Inr ''{}''"

definition written_actions :: "unit action list" where
  "written_actions = [Call_Write failure_event, Loop Receives, Loop (Writes (3, None)), Loop (Syncs None)]"

definition flushed_actions :: "unit action list" where
  "flushed_actions = written_actions @ [Call_Flush True, Flush_sends 0, Loop Receives, Loop (Syncs None), Flush_answered 0]"

definition closed_actions :: "unit action list" where
  "closed_actions = written_actions @ [Call_Close, Loop Stops, Loop Receives, Loop (Syncs None), Close_returns 0 None]"

lemmas sample_actions = written_actions_def flushed_actions_def closed_actions_def sample_marshal_def newline_def

lemma sample_write:
  obtains s where "small_run sample_marshal [Call_Write failure_event] = Some s" "wr_failed (sy_writer s) = None"
    "\<not> wr_closed (sy_writer s)" "wr_queue (sy_writer s) = [\<lparr>wi_event = Some failure_event, wi_barrier = None\<rparr>]"
    "op_QueueCapacity (wr_options (sy_writer s)) = 1"
  by (simp add: run_simps)

lemma sample_written:
  obtains s where "small_run sample_marshal written_actions = Some s" "item_events (sy_log s) = [failure_event]"
    "wr_point (sy_writer s) = At_select" "fl_data (wr_file (sy_writer s)) = ''{}'' @ [newline]"
  by (simp add: sample_actions run_simps)

lemma sample_flushed:
  obtains s where "small_run sample_marshal flushed_actions = Some s" "call_at 0 s = Some (Flush_returned None)"
    "fl_synced (wr_file (sy_writer s)) = 3"
  by (simp add: sample_actions run_simps)

lemma sample_closed:
  obtains s where "small_run sample_marshal closed_actions = Some s" "call_at 0 s = Some (Close_returned None)"
    "wr_closed (sy_writer s)" "item_events (sy_log s) = [failure_event]"
  by (simp add: sample_actions run_simps)

lemma sample_closing:
  obtains s where "small_run sample_marshal [Call_Write failure_event, Call_Close] = Some s" "wr_closed (sy_writer s)"
    "wr_point (sy_writer s) = At_select"
  by (simp add: run_simps)

lemma opened_plain: "opened_data plain_fs p = []"
  by (simp add: opened_data_def plain_fs_def)

theorem audit_file_fifo_witness:
  "\<exists>s n p. small_run sample_marshal written_actions = Some s \<and> n \<le> length (item_events (sy_log s)) \<and>
     fl_data (wr_file (sy_writer s)) = concat (map (event_line sample_marshal) (take n (item_events (sy_log s)))) @ p \<and>
     p = []"
proof (rule sample_written)
  fix s
  assume s: "small_run sample_marshal written_actions = Some s" "wr_point (sy_writer s) = At_select"
  show ?thesis
    using audit_file_fifo [OF small_run_reaches [OF s(1)]] s opened_plain by auto
qed

theorem flush_is_barrier_witness:
  "\<exists>s pre post. small_run sample_marshal flushed_actions = Some s \<and>
     sy_log s = pre @ \<lparr>wi_event = None, wi_barrier = Some 0\<rparr> # post \<and>
     length (concat (map (event_line sample_marshal) (item_events pre))) \<le> fl_synced (wr_file (sy_writer s))"
proof (rule sample_flushed)
  fix s
  assume s: "small_run sample_marshal flushed_actions = Some s" "call_at 0 s = Some (Flush_returned None)"
  show ?thesis
    using flush_is_barrier [OF small_run_reaches [OF s(1)] s(2)] s(1) opened_plain by (auto simp: Let_def)
qed

theorem close_is_complete_witness:
  "\<exists>s. small_run sample_marshal closed_actions = Some s \<and>
     fl_data (wr_file (sy_writer s)) = event_line sample_marshal failure_event \<and> wr_queue (sy_writer s) = []"
proof (rule sample_closed)
  fix s
  assume s: "small_run sample_marshal closed_actions = Some s" "call_at 0 s = Some (Close_returned None)"
    "item_events (sy_log s) = [failure_event]"
  show ?thesis
    using close_is_complete [OF small_run_reaches [OF s(1)] s(2)] s opened_plain by auto
qed

theorem write_bounded_witness:
  "\<exists>s. small_run sample_marshal [Call_Write failure_event] = Some s \<and>
     Writer_Write failure_event (Some (sy_writer s)) = (Some ErrBackpressure, Some (sy_writer s))"
proof (rule sample_write)
  fix s
  assume s: "small_run sample_marshal [Call_Write failure_event] = Some s" "wr_failed (sy_writer s) = None"
    "\<not> wr_closed (sy_writer s)" "wr_queue (sy_writer s) = [\<lparr>wi_event = Some failure_event, wi_barrier = None\<rparr>]"
    "op_QueueCapacity (wr_options (sy_writer s)) = 1"
  show ?thesis
    using write_bounded [OF small_run_reaches [OF s(1)] failure_event_valid_aux s(2,3)] s
    by (auto simp: Writer_QueueLength_def)
qed

theorem close_terminates_witness:
  "\<exists>s l w'. small_run sample_marshal [Call_Write failure_event, Call_Close] = Some s \<and>
     loop_step sample_marshal l (sy_writer s) = Some w' \<and> w' \<noteq> sy_writer s"
proof (rule sample_closing)
  fix s
  assume s: "small_run sample_marshal [Call_Write failure_event, Call_Close] = Some s" "wr_closed (sy_writer s)"
    "wr_point (sy_writer s) = At_select"
  show ?thesis using close_terminates [OF small_run_reaches [OF s(1)] s(2)] s by auto
qed

end
