(* ===== verification/Go_Net.thy ===== *)
theory Go_Net
  imports Go_Http
begin

text \<open>
  The parts of the Go packages \<^verbatim>\<open>net\<close>, \<^verbatim>\<open>net/netip\<close> and \<^verbatim>\<open>path/filepath\<close> that the sources use: IP address
  literals, \<^verbatim>\<open>host:port\<close> pairs, and the lexical operations on slash-separated paths. An address is the list of
  its sixteen bytes, the form \<^verbatim>\<open>net.ParseIP\<close> returns; a zone makes it fail.
\<close>

type_synonym ip_addr = "nat list"

section \<open>IPv4 literals\<close>

definition digits :: "string \<Rightarrow> bool" where
  [go_defs]: "digits s \<longleftrightarrow> s \<noteq> [] \<and> list_all is_digit_byte s"

definition ipv4_field :: "string \<Rightarrow> nat option" where
  [go_defs]: "ipv4_field s =
     (if digits s \<and> length s \<le> 3 \<and> (length s = 1 \<or> hd s \<noteq> CHR ''0'') \<and> atoi s \<le> 255 then Some (atoi s) else None)"

definition parse_ipv4 :: "string \<Rightarrow> nat list option" where
  [go_defs]: "parse_ipv4 s =
     (case map ipv4_field (split_byte CHR ''.'' s) of
        [Some a, Some b, Some c, Some d] \<Rightarrow> Some [a, b, c, d]
      | _ \<Rightarrow> None)"

section \<open>IPv6 literals\<close>

text \<open>The value of a group of hexadecimal digits.\<close>

definition hex_value :: "string \<Rightarrow> nat" where
  [go_defs]: "hex_value s = fold (\<lambda>c acc. acc * 16 + (case unhex c of Some d \<Rightarrow> d | None \<Rightarrow> 0)) s 0"

definition is_hex_byte :: "char \<Rightarrow> bool" where
  [go_defs]: "is_hex_byte c \<longleftrightarrow> unhex c \<noteq> None"

lemma dropWhile_shorter: "dropWhile P s = c # r \<Longrightarrow> length r < length s"
  using length_dropWhile_le [of P s] by simp

text \<open>
  The loop of \<^verbatim>\<open>parseIPv6\<close>: the bytes read so far, the position of the ellipsis, the rest of the text. The
  result is the bytes and the ellipsis, or \<^const>\<open>None\<close>.
\<close>

function ipv6_groups :: "nat list \<Rightarrow> nat option \<Rightarrow> string \<Rightarrow> (nat list \<times> nat option) option" where
  "ipv6_groups ip ellipsis s =
     (if 16 \<le> length ip then (if s = [] then Some (ip, ellipsis) else None)
      else
        (let group = takeWhile is_hex_byte s; rest = dropWhile is_hex_byte s in
         if group = [] \<or> 4 < length group then None
         else if rest \<noteq> [] \<and> hd rest = CHR ''.'' then
           (if ellipsis = None \<and> length ip \<noteq> 12 \<or> 16 < length ip + 4 then None
            else map_option (\<lambda>v4. (ip @ v4, ellipsis)) (parse_ipv4 s))
         else
           (let ip' = ip @ [hex_value group div 256, hex_value group mod 256] in
            case rest of
              [] \<Rightarrow> Some (ip', ellipsis)
            | c # rem \<Rightarrow>
                if c \<noteq> CHR '':'' \<or> rem = [] then None
                else if hd rem = CHR '':'' then
                  (if ellipsis \<noteq> None then None
                   else if tl rem = [] then Some (ip', Some (length ip'))
                   else ipv6_groups ip' (Some (length ip')) (tl rem))
                else ipv6_groups ip' ellipsis rem)))"
  by pat_completeness auto
termination
  by (relation "measure (\<lambda>(ip, e, s). length s)") (auto dest!: sym [THEN dropWhile_shorter])

definition expand_ellipsis :: "nat list \<Rightarrow> nat option \<Rightarrow> ip_addr option" where
  [go_defs]: "expand_ellipsis ip ellipsis =
     (case ellipsis of
        None \<Rightarrow> if length ip = 16 then Some ip else None
      | Some p \<Rightarrow> if length ip < 16 then Some (take p ip @ replicate (16 - length ip) 0 @ drop p ip) else None)"

definition parse_ipv6 :: "string \<Rightarrow> ip_addr option" where
  [go_defs]: "parse_ipv6 s =
     (if contains_byte s CHR ''%'' then None
      else if has_prefix s ''::'' then
        (if length s = 2 then Some (replicate 16 0)
         else Option.bind (ipv6_groups [] (Some 0) (drop 2 s)) (\<lambda>(ip, e). expand_ellipsis ip e))
      else Option.bind (ipv6_groups [] None s) (\<lambda>(ip, e). expand_ellipsis ip e))"

section \<open>Addresses\<close>

definition ipv4_mapped :: "nat list" where
  [go_defs]: "ipv4_mapped = replicate 10 0 @ [255, 255]"

text \<open>\<^verbatim>\<open>net.ParseIP\<close>: the first separator decides the family.\<close>

definition ParseIP :: "string \<Rightarrow> ip_addr option" where
  [go_defs]: "ParseIP s =
     (case dropWhile (\<lambda>c. c \<notin> set ''.:%'') s of
        c # _ \<Rightarrow>
          if c = CHR ''.'' then map_option ((@) ipv4_mapped) (parse_ipv4 s)
          else if c = CHR '':'' then parse_ipv6 s
          else None
      | [] \<Rightarrow> None)"

definition IP_To4 :: "ip_addr \<Rightarrow> nat list option" where
  [go_defs]: "IP_To4 ip = (if take 12 ip = ipv4_mapped then Some (drop 12 ip) else None)"

definition IP_IsLoopback :: "ip_addr \<Rightarrow> bool" where
  [go_defs]: "IP_IsLoopback ip \<longleftrightarrow>
     (case IP_To4 ip of Some v4 \<Rightarrow> hd v4 = 127 | None \<Rightarrow> ip = replicate 15 0 @ [1])"

fun hex_text :: "nat \<Rightarrow> string" where
  "hex_text n = (if n < 16 then [if n < 10 then char_of (48 + n) else char_of (87 + n)]
                 else hex_text (n div 16) @ [if n mod 16 < 10 then char_of (48 + n mod 16) else char_of (87 + n mod 16)])"

declare hex_text.simps [simp del]

fun ip_groups :: "nat list \<Rightarrow> nat list" where
  "ip_groups (a # b # rest) = (a * 256 + b) # ip_groups rest"
| "ip_groups _ = []"

text \<open>The longest run of at least two zero groups, the first one when there are several.\<close>

definition zero_run :: "nat list \<Rightarrow> nat \<Rightarrow> nat" where
  [go_defs]: "zero_run gs i = length (takeWhile (\<lambda>g. g = 0) (drop i gs))"

definition longest_zeros :: "nat list \<Rightarrow> (nat \<times> nat) option" where
  [go_defs]: "longest_zeros gs =
     fold (\<lambda>i best. let l = zero_run gs i in
             if 2 \<le> l \<and> (case best of None \<Rightarrow> True | Some (_, n) \<Rightarrow> n < l) then Some (i, l) else best)
       [0..<length gs] None"

definition ipv6_text :: "nat list \<Rightarrow> string" where
  [go_defs]: "ipv6_text gs =
     (case longest_zeros gs of
        None \<Rightarrow> join '':'' (map hex_text gs)
      | Some (i, l) \<Rightarrow> join '':'' (map hex_text (take i gs)) @ ''::'' @ join '':'' (map hex_text (drop (i + l) gs)))"

definition IP_String :: "ip_addr \<Rightarrow> string" where
  [go_defs]: "IP_String ip =
     (case IP_To4 ip of
        Some v4 \<Rightarrow> join ''.'' (map itoa v4)
      | None \<Rightarrow> ipv6_text (ip_groups ip))"

section \<open>Host and port\<close>

definition last_index_byte :: "string \<Rightarrow> char \<Rightarrow> nat option" where
  [go_defs]: "last_index_byte s c = map_option (\<lambda>k. length s - 1 - k) (index_byte (rev s) c)"

definition SplitHostPort :: "string \<Rightarrow> (string \<times> string) go_result" where
  [go_defs]: "SplitHostPort hp =
     (case last_index_byte hp CHR '':'' of
        None \<Rightarrow> Inl ''missing port in address''
      | Some i \<Rightarrow>
          (let finish = (\<lambda>host j k.
                 if contains_byte (drop j hp) CHR ''['' then Inl ''unexpected '[' in address''
                 else if contains_byte (drop k hp) CHR '']'' then Inl ''unexpected ']' in address''
                 else Inr (host, drop (Suc i) hp)) in
           if hd hp = CHR ''['' then
             (case index_byte hp CHR '']'' of
                None \<Rightarrow> Inl ''missing ']' in address''
              | Some e \<Rightarrow>
                  if Suc e = length hp then Inl ''missing port in address''
                  else if Suc e = i then finish (drop 1 (take e hp)) 1 (Suc e)
                  else if hp ! Suc e = CHR '':'' then Inl ''too many colons in address''
                  else Inl ''missing port in address'')
           else if contains_byte (take i hp) CHR '':'' then Inl ''too many colons in address''
           else finish (take i hp) 0 0))"

section \<open>Paths\<close>

text \<open>\<^verbatim>\<open>filepath.Clean\<close>: the components that remain, for a rooted path or not.\<close>

fun clean_parts :: "bool \<Rightarrow> string list \<Rightarrow> string list \<Rightarrow> string list" where
  "clean_parts rooted acc [] = rev acc"
| "clean_parts rooted acc (p # ps) =
     (if p = [] \<or> p = ''.'' then clean_parts rooted acc ps
      else if p = ''..'' then
        (case acc of
           q # qs \<Rightarrow> if q = ''..'' then clean_parts rooted (p # acc) ps else clean_parts rooted qs ps
         | [] \<Rightarrow> clean_parts rooted (if rooted then [] else [p]) ps)
      else clean_parts rooted (p # acc) ps)"

definition is_rooted :: "string \<Rightarrow> bool" where
  [go_defs]: "is_rooted p \<longleftrightarrow> p \<noteq> [] \<and> hd p = CHR ''/''"

definition path_of :: "bool \<Rightarrow> string list \<Rightarrow> string" where
  [go_defs]: "path_of rooted ps =
     (if rooted then CHR ''/'' # join ''/'' ps else if ps = [] then ''.'' else join ''/'' ps)"

definition path_parts :: "string \<Rightarrow> string list" where
  [go_defs]: "path_parts p = clean_parts (is_rooted p) [] (split_byte CHR ''/'' p)"

definition filepath_Clean :: "string \<Rightarrow> string" where
  [go_defs]: "filepath_Clean p = path_of (is_rooted p) (path_parts p)"

definition filepath_Join :: "string \<Rightarrow> string \<Rightarrow> string" where
  [go_defs]: "filepath_Join a b =
     (if a = [] \<and> b = [] then []
      else filepath_Clean (join ''/'' (filter (\<lambda>x. x \<noteq> []) [a, b])))"

text \<open>\<^verbatim>\<open>filepath.Abs\<close>, given the working directory.\<close>

definition filepath_Abs :: "string \<Rightarrow> string \<Rightarrow> string" where
  [go_defs]: "filepath_Abs cwd p = (if is_rooted p then filepath_Clean p else filepath_Join cwd p)"

section \<open>Clean paths\<close>

definition clean_list :: "bool \<Rightarrow> string list \<Rightarrow> bool" where
  "clean_list rooted ps \<longleftrightarrow> (\<forall>p \<in> set ps. p \<noteq> [] \<and> p \<noteq> ''.'' \<and> CHR ''/'' \<notin> set p) \<and>
     (\<exists>k r. ps = replicate k ''..'' @ r \<and> (rooted \<longrightarrow> k = 0) \<and> ''..'' \<notin> set r)"

lemma clean_list_Nil [simp]: "clean_list rooted []"
  by (simp add: clean_list_def)

lemma clean_list_snoc:
  assumes "clean_list rooted ps" "p \<noteq> []" "p \<noteq> ''.''" "CHR ''/'' \<notin> set p" "p \<noteq> ''..''"
  shows "clean_list rooted (ps @ [p])"
proof -
  obtain k r where "ps = replicate k ''..'' @ r" "rooted \<longrightarrow> k = 0" "''..'' \<notin> set r"
    using assms(1) by (auto simp: clean_list_def)
  then show ?thesis using assms unfolding clean_list_def
    by (intro conjI exI [of _ k] exI [of _ "r @ [p]"]) auto
qed

lemma clean_list_dots:
  assumes "clean_list rooted ps" "ps = [] \<or> last ps = ''..''" "\<not> rooted"
  shows "clean_list rooted (ps @ [''..''])"
proof -
  obtain k r where kr: "ps = replicate k ''..'' @ r" "''..'' \<notin> set r" using assms(1) by (auto simp: clean_list_def)
  have "r = []"
  proof (rule ccontr)
    assume "r \<noteq> []"
    then have "last ps = last r" "last r \<in> set r" "ps \<noteq> []" using kr by auto
    then show False using assms(2) kr(2) by metis
  qed
  then have eq: "ps @ [''..''] = replicate (Suc k) ''..'' @ []" using kr by (simp add: replicate_append_same)
  have "\<forall>p \<in> set (ps @ [''..'']). p \<noteq> [] \<and> p \<noteq> ''.'' \<and> CHR ''/'' \<notin> set p"
    using assms(1) by (simp add: clean_list_def)
  then show ?thesis unfolding clean_list_def
    by (intro conjI exI [of _ "Suc k"] exI [of _ "[]"] eq) (use assms(3) in auto)
qed

lemma clean_list_butlast:
  assumes "clean_list rooted (ps @ [q])"
  shows "clean_list rooted ps"
proof -
  obtain k r where kr: "ps @ [q] = replicate k ''..'' @ r" "rooted \<longrightarrow> k = 0" "''..'' \<notin> set r"
    using assms by (auto simp: clean_list_def)
  show ?thesis
  proof (cases r rule: rev_cases)
    case Nil
    then have "ps = replicate (k - 1) ''..'' @ []" using kr(1) arg_cong [OF kr(1), of butlast]
      by (cases k) (auto simp: butlast_append replicate_append_same [symmetric] simp del: replicate_append_same)
    then show ?thesis using assms kr(2) unfolding clean_list_def by fastforce
  next
    case (snoc r' x)
    then have "ps = replicate k ''..'' @ r'" using kr(1) by simp
    then show ?thesis using assms kr snoc unfolding clean_list_def by fastforce
  qed
qed

lemma clean_parts_clean:
  "clean_list rooted (rev acc) \<Longrightarrow> \<forall>p \<in> set ps. CHR ''/'' \<notin> set p \<Longrightarrow> clean_list rooted (clean_parts rooted acc ps)"
proof (induction rooted acc ps rule: clean_parts.induct)
  case (2 rooted acc p ps)
  show ?case
  proof (cases "p = [] \<or> p = ''.''")
    case True
    then show ?thesis using 2 by auto
  next
    case plain: False
    show ?thesis
    proof (cases "p = ''..''")
      case False
      then show ?thesis using 2 plain clean_list_snoc [of rooted "rev acc" p] by auto
    next
      case dots: True
      show ?thesis
      proof (cases acc)
        case Nil
        then show ?thesis using 2 plain dots clean_list_dots [of rooted "[]"] by auto
      next
        case (Cons q qs)
        then show ?thesis
        proof (cases "q = ''..''")
          case True
          have "\<not> rooted" using 2(6) True Cons by (auto simp: clean_list_def)
          then show ?thesis using 2 plain dots Cons True clean_list_dots [of rooted "rev acc"] by auto
        next
          case False
          then show ?thesis using 2 plain dots Cons clean_list_butlast [of rooted "rev qs" q] by auto
        qed
      qed
    qed
  qed
qed simp

lemma clean_list_rooted: "clean_list True ps \<Longrightarrow> ''..'' \<notin> set ps"
  by (auto simp: clean_list_def)

lemma clean_parts_id:
  "clean_list rooted (rev acc @ ps) \<Longrightarrow> clean_parts rooted acc ps = rev acc @ ps"
proof (induction rooted acc ps rule: clean_parts.induct)
  case (2 rooted acc p ps)
  have p: "p \<noteq> []" "p \<noteq> ''.''" using 2(6) by (auto simp: clean_list_def)
  show ?case
  proof (cases "p = ''..''")
    case False
    then show ?thesis using 2 p by simp
  next
    case True
    then have r: "\<not> rooted" using 2(6) clean_list_rooted [of "rev acc @ p # ps"] by (cases rooted) auto
    obtain k r where kr: "rev acc @ p # ps = replicate k ''..'' @ r" "''..'' \<notin> set r"
      using 2(6) by (auto simp: clean_list_def)
    have "length acc < k"
    proof (rule ccontr)
      assume "\<not> length acc < k"
      then have "(rev acc @ p # ps) ! length acc = r ! (length acc - k)" using kr(1) by (simp add: nth_append)
      moreover have "(rev acc @ p # ps) ! length acc = p" by (simp add: nth_append)
      moreover have "length acc - k < length r" using arg_cong [OF kr(1), of length] \<open>\<not> length acc < k\<close> by simp
      ultimately show False using kr(2) True by (metis nth_mem)
    qed
    then have "q = ''..''" if "q \<in> set acc" for q
    proof -
      obtain i where i: "i < length acc" "rev acc ! i = q" using \<open>q \<in> set acc\<close> by (metis in_set_conv_nth length_rev set_rev)
      then have "(rev acc @ p # ps) ! i = q" by (simp add: nth_append)
      then show ?thesis using kr(1) i \<open>length acc < k\<close> by (simp add: nth_append)
    qed
    then show ?thesis using 2 p True r by (cases acc) auto
  qed
qed simp

lemma split_no_sep: "p \<in> set (split_byte c s) \<Longrightarrow> c \<notin> set p"
  by (induction s arbitrary: p) (auto split: list.splits if_splits)

lemma path_parts_clean: "clean_list (is_rooted p) (path_parts p)"
  unfolding path_parts_def by (rule clean_parts_clean) (auto dest: split_no_sep)

lemma path_parts_of:
  assumes "clean_list rooted ps"
  shows "is_rooted (path_of rooted ps) = rooted \<and> path_parts (path_of rooted ps) = ps"
proof -
  have sep: "\<forall>p \<in> set ps. CHR ''/'' \<notin> set p \<and> p \<noteq> []" using assms by (auto simp: clean_list_def)
  have split: "split_byte CHR ''/'' (join ''/'' ps) = (if ps = [] then [[]] else ps)"
    using split_byte_join [of ps "CHR ''/''"] sep by auto
  have root: "is_rooted (path_of rooted ps) = rooted"
  proof (cases rooted)
    case False
    have "ps \<noteq> [] \<Longrightarrow> join ''/'' ps \<noteq> [] \<and> hd (join ''/'' ps) = hd (hd ps)"
      using sep by (cases ps; cases "tl ps") (auto simp: hd_append)
    then show ?thesis using False sep by (cases ps) (auto simp: path_of_def is_rooted_def dest: hd_in_set)
  qed (simp add: path_of_def is_rooted_def)
  moreover have "path_parts (path_of rooted ps) = ps"
  proof (cases "ps = []")
    case True
    then show ?thesis using root by (cases rooted) (simp_all add: path_parts_def path_of_def)
  next
    case False
    then show ?thesis using root split clean_parts_id [of rooted "[]" ps] assms
      by (cases rooted) (simp_all add: path_parts_def path_of_def)
  qed
  ultimately show ?thesis by simp
qed

lemma filepath_Clean_idem [simp]: "filepath_Clean (filepath_Clean p) = filepath_Clean p"
  using path_parts_of [OF path_parts_clean [of p]] by (simp add: filepath_Clean_def)

end
