(* ===== verification/Config.thy ===== *)
theory Config
  imports Policy_Hash Go_Net
begin

unbundle bit_operations_syntax

text \<open>
  The startup configuration, \<^verbatim>\<open>src/internal/config/schema.go\<close>, \<^verbatim>\<open>validate.go\<close> and \<^verbatim>\<open>load.go\<close>: the document, its
  defaults and validation, the checks of the audit path against the file system, and the policy hash. The
  regular expressions are the predicates they denote. Error messages that quote a value leave the value out.
  The YAML library and the file system are parameters: what the decoders return for a text, and what the
  operating system answers for a path.
\<close>

section \<open>The document\<close>

definition APIVersion :: string where "APIVersion = ''kordn.dev/v1alpha1''"
definition Kind :: string where "Kind = ''LocalRunPolicy''"
definition DefaultListen :: string where "DefaultListen = ''127.0.0.1:0''"
definition DefaultNonAWSTraffic :: string where "DefaultNonAWSTraffic = ''tunnel''"
definition DefaultUpstreamProxy :: string where "DefaultUpstreamProxy = ''inherit''"
definition DefaultMaxInMemoryBodyBytes :: int where "DefaultMaxInMemoryBodyBytes = 8 * 1024 * 1024"
definition DefaultMaxSpoolBodyBytes :: int where "DefaultMaxSpoolBodyBytes = 64 * 1024 * 1024"
definition DefaultRoleSessionName :: string where "DefaultRoleSessionName = ''kordn-local''"
definition DefaultRoleDurationSeconds :: int where "DefaultRoleDurationSeconds = 3600"
definition DefaultAuditPath :: string where "DefaultAuditPath = ''~/.kordn/audit/events.jsonl''"
definition DefaultAuditLogResourceARNs :: bool where "DefaultAuditLogResourceARNs = True"
definition DefaultAuditHashResourceNames :: bool where "DefaultAuditHashResourceNames = False"
definition EffectAllow :: string where "EffectAllow = ''allow''"
definition EffectDeny :: string where "EffectDeny = ''deny''"
definition PolicyDeny :: string where "PolicyDeny = ''deny''"
definition ConfigFsyncBatch :: string where "ConfigFsyncBatch = ''batch''"
definition ConfigFsyncDecision :: string where "ConfigFsyncDecision = ''decision''"
definition AuditDeny :: string where "AuditDeny = ''deny''"

lemmas default_defs = DefaultListen_def DefaultNonAWSTraffic_def DefaultUpstreamProxy_def
  DefaultMaxInMemoryBodyBytes_def DefaultMaxSpoolBodyBytes_def DefaultRoleSessionName_def
  DefaultRoleDurationSeconds_def DefaultAuditPath_def DefaultAuditLogResourceARNs_def
  DefaultAuditHashResourceNames_def ConfigFsyncBatch_def ConfigFsyncDecision_def AuditDeny_def PolicyDeny_def

record Upstream =
  up_Profile :: string
  up_AssumeRoleARN :: string
  up_ExternalID :: string
  up_SourceIdentity :: string
  up_RoleSessionName :: string
  up_DurationSeconds :: int
  up_Region :: string

record Proxy =
  px_Listen :: string
  px_NonAWSTraffic :: string
  px_UpstreamProxy :: string
  px_MaxInMemoryBodyBytes :: int
  px_MaxSpoolBodyBytes :: int

record Rule =
  rl_ID :: string
  rl_Effect :: string
  rl_Actions :: "string list"
  rl_Resources :: "string list"
  rl_Regions :: "string list"
  rl_Accounts :: "string list"
  rl_Partitions :: "string list"
  rl_AllowAWSRequiredWildcard :: bool

record Policy =
  po_Default :: string
  po_Rules :: "Rule list"

record Audit =
  au_Path :: string
  au_Fsync :: string
  au_FailureMode :: string
  au_LogResourceARNs :: bool
  au_HashResourceNames :: bool

record Config =
  cg_APIVersion :: string
  cg_Kind :: string
  cg_Upstream :: Upstream
  cg_Proxy :: Proxy
  cg_Policy :: Policy
  cg_Audit :: Audit
  cg_SourcePath :: string
  cg_PolicyHash :: string

section \<open>Bounds and patterns\<close>

definition maxRules :: nat where "maxRules = 10000"
definition maxRuleList :: nat where "maxRuleList = 1000"
definition maxPatternLength :: nat where "maxPatternLength = 512"
definition maxMemoryBodyBytes :: int where "maxMemoryBodyBytes = 64 * 1024 * 1024"
definition maxSpoolBodyBytes :: int where "maxSpoolBodyBytes = 512 * 1024 * 1024"
definition maxAuditPathLength :: nat where "maxAuditPathLength = 4096"
definition maxProfileLength :: nat where "maxProfileLength = 64"

lemmas config_limits = maxRules_def maxRuleList_def maxPatternLength_def maxMemoryBodyBytes_def
  maxSpoolBodyBytes_def maxAuditPathLength_def maxProfileLength_def

definition alnum_byte :: "char \<Rightarrow> bool" where
  "alnum_byte c \<longleftrightarrow> is_digit_byte c \<or> is_lower_byte c \<or> is_upper_byte c"

text \<open>\<^verbatim>\<open>^[A-Za-z0-9][A-Za-z0-9._-]{0,n}$\<close>\<close>

definition identifier_pattern :: "nat \<Rightarrow> string \<Rightarrow> bool" where
  "identifier_pattern n s \<longleftrightarrow>
     (case s of
        [] \<Rightarrow> False
      | c # cs \<Rightarrow> alnum_byte c \<and> length cs \<le> n \<and> list_all (\<lambda>x. alnum_byte x \<or> x \<in> set ''._-'') cs)"

definition profilePattern :: "string \<Rightarrow> bool" where "profilePattern = identifier_pattern 63"
definition ruleIDPattern :: "string \<Rightarrow> bool" where "ruleIDPattern = identifier_pattern 127"

text \<open>\<^verbatim>\<open>^[a-z0-9]+(?:-[a-z0-9]+)+-[0-9]+$\<close>: at least three parts between dashes, the last one a number.\<close>

definition region_part :: "string \<Rightarrow> bool" where
  "region_part p \<longleftrightarrow> p \<noteq> [] \<and> list_all (\<lambda>c. is_lower_byte c \<or> is_digit_byte c) p"

definition configRegionPattern :: "string \<Rightarrow> bool" where
  "configRegionPattern s \<longleftrightarrow>
     (let ps = split_byte CHR ''-'' s in 3 \<le> length ps \<and> list_all region_part ps \<and> list_all is_digit_byte (last ps))"

definition accountPattern :: "string \<Rightarrow> bool" where
  "accountPattern s \<longleftrightarrow> length s = 12 \<and> list_all is_digit_byte s"

definition supportedPartition :: "string \<Rightarrow> bool" where
  "supportedPartition p \<longleftrightarrow> p \<in> set [''aws'', ''aws-us-gov'', ''aws-cn'', ''aws-iso'', ''aws-iso-b'', ''aws-iso-f'']"

text \<open>\<^verbatim>\<open>^arn:([A-Za-z0-9-]+):iam::([0-9]{12}):role/([^\x00\r\n]+)$\<close>, with its first group.\<close>

definition roleARNPattern :: "string \<Rightarrow> string option" where
  "roleARNPattern s =
     (case splitn_byte 6 CHR '':'' s of
        [arn, part, iam, region, account, name] \<Rightarrow>
          if arn = ''arn'' \<and> part \<noteq> [] \<and> list_all (\<lambda>c. alnum_byte c \<or> c = CHR ''-'') part \<and>
             iam = ''iam'' \<and> region = [] \<and> accountPattern account \<and> has_prefix name ''role/'' \<and>
             drop 5 name \<noteq> [] \<and> list_all (\<lambda>c. ord c \<noteq> 0 \<and> ord c \<noteq> 13 \<and> ord c \<noteq> 10) (drop 5 name)
          then Some part else None
      | _ \<Rightarrow> None)"

definition externalIDPattern :: "string \<Rightarrow> bool" where
  "externalIDPattern s \<longleftrightarrow> s \<noteq> [] \<and> list_all (\<lambda>c. alnum_byte c \<or> c \<in> set ''_+=,.@:/-'') s"

definition identityPattern :: "string \<Rightarrow> bool" where
  "identityPattern s \<longleftrightarrow> s \<noteq> [] \<and> list_all (\<lambda>c. alnum_byte c \<or> c \<in> set ''_+=,.@-'') s"

section \<open>Upstream and proxy\<close>

definition validateUpstream :: "Upstream \<Rightarrow> go_error" where
  "validateUpstream up =
     (if up_Profile up = [] then Some ''an explicit profile is required''
      else if length (up_Profile up) > maxProfileLength \<or> \<not> profilePattern (up_Profile up)
      then Some ''profile contains unsupported characters''
      else if equal_fold (up_Profile up) ''default''
      then Some ''the default profile is not permitted; choose an explicit shared-config profile''
      else if \<not> configRegionPattern (up_Region up) \<or> length (up_Region up) > 64 then Some ''region is invalid''
      else if up_AssumeRoleARN up = [] \<and> (up_ExternalID up \<noteq> [] \<or> up_SourceIdentity up \<noteq> [])
      then Some ''externalId and sourceIdentity require assumeRoleArn''
      else if up_AssumeRoleARN up \<noteq> [] \<and>
              (length (up_AssumeRoleARN up) > 2048 \<or>
               (case roleARNPattern (up_AssumeRoleARN up) of None \<Rightarrow> True | Some p \<Rightarrow> \<not> supportedPartition p))
      then Some ''assumeRoleArn must be a valid IAM role ARN in a supported partition''
      else if length (up_RoleSessionName up) < 2 \<or> length (up_RoleSessionName up) > 64 \<or>
              \<not> identityPattern (up_RoleSessionName up)
      then Some ''roleSessionName must be 2-64 characters using the STS session-name character set''
      else if up_DurationSeconds up < 900 \<or> up_DurationSeconds up > 43200
      then Some ''durationSeconds must be between 900 and 43200''
      else if up_ExternalID up \<noteq> [] \<and>
              (length (up_ExternalID up) < 2 \<or> length (up_ExternalID up) > 1224 \<or> \<not> externalIDPattern (up_ExternalID up))
      then Some ''externalId must be 2-1224 characters using the STS external-id character set''
      else if up_SourceIdentity up \<noteq> [] \<and>
              (length (up_SourceIdentity up) < 2 \<or> length (up_SourceIdentity up) > 64 \<or>
               \<not> identityPattern (up_SourceIdentity up))
      then Some ''sourceIdentity must be 2-64 characters using the STS source-identity character set''
      else None)"

definition decimalPort :: "string \<Rightarrow> bool" where
  "decimalPort v \<longleftrightarrow> v \<noteq> [] \<and> length v \<le> 5 \<and> list_all digit_rune (runes v)"

definition validateProxy :: "Proxy \<Rightarrow> go_error" where
  "validateProxy p =
     (if px_Listen p = [] then Some ''listen is required''
      else case SplitHostPort (px_Listen p) of
        Inl err \<Rightarrow> Some (''listen must be host:port: '' @ err)
      | Inr (host, port) \<Rightarrow>
          if host = [] then Some ''listen host is required''
          else if (case ParseIP host of None \<Rightarrow> True | Some ip \<Rightarrow> \<not> IP_IsLoopback ip)
          then Some ''listen must use an IPv4 or IPv6 loopback address''
          else if \<not> decimalPort port then Some ''listen port must be a decimal number between 0 and 65535''
          else if atoi port > 65535 then Some ''listen port must be between 0 and 65535''
          else if length port > 1 \<and> hd port = CHR ''0'' then Some ''listen port must use its normalized decimal form''
          else if px_NonAWSTraffic p \<noteq> DefaultNonAWSTraffic
          then Some ''nonAwsTraffic is unsupported; only tunnel is permitted''
          else if px_UpstreamProxy p \<noteq> DefaultUpstreamProxy \<and> px_UpstreamProxy p \<noteq> ''none''
          then Some ''upstreamProxy is unsupported; use inherit or none''
          else if px_MaxInMemoryBodyBytes p \<le> 0 \<or> px_MaxInMemoryBodyBytes p > maxMemoryBodyBytes
          then Some ''maxInMemoryBodyBytes must be between 1 and 67108864''
          else if px_MaxSpoolBodyBytes p \<le> 0 \<or> px_MaxSpoolBodyBytes p > maxSpoolBodyBytes
          then Some ''maxSpoolBodyBytes must be between 1 and 536870912''
          else if px_MaxSpoolBodyBytes p < px_MaxInMemoryBodyBytes p
          then Some ''maxSpoolBodyBytes must be at least maxInMemoryBodyBytes''
          else None)"

section \<open>The policy\<close>

definition action_part_rune :: "rune \<Rightarrow> bool" where
  "action_part_rune r \<longleftrightarrow> (97 \<le> r \<and> r \<le> 122) \<or> (65 \<le> r \<and> r \<le> 90) \<or> (48 \<le> r \<and> r \<le> 57) \<or> r = 45 \<or> r = 42 \<or> r = 63"

definition validActionPart :: "string \<Rightarrow> bool" where
  "validActionPart v \<longleftrightarrow> list_all action_part_rune (runes v)"

definition validatePattern :: "string \<Rightarrow> go_error" where
  "validatePattern v =
     (if v = [] \<or> length v > maxPatternLength then Some ''pattern is empty or too long''
      else if list_ex (\<lambda>r. is_space_rune r \<or> is_control_rune r \<or> r \<in> set (map ord ''[](){}|+^$'' @ [92])) (runes v)
      then Some ''pattern uses unsupported operator or control syntax''
      else None)"

definition action_form_error :: "string \<Rightarrow> go_error" where
  "action_form_error action =
     (if action \<noteq> ''*'' \<and>
         (case split_byte CHR '':'' action of
            [a, b] \<Rightarrow> a = [] \<or> b = [] \<or> \<not> validActionPart a \<or> \<not> validActionPart b
          | _ \<Rightarrow> True)
      then Some ''action must use service:operation form'' else None)"

fun string_set_loop :: "string \<Rightarrow> (string \<Rightarrow> bool) \<Rightarrow> string set \<Rightarrow> string list \<Rightarrow> go_error" where
  "string_set_loop label valid seen [] = None"
| "string_set_loop label valid seen (v # vs) =
     (if v = [] \<or> \<not> valid v then Some (label @ '' is invalid'')
      else if v \<in> seen then Some (label @ '' is duplicated'')
      else string_set_loop label valid (insert v seen) vs)"

definition validateStringSet :: "string list \<Rightarrow> string \<Rightarrow> (string \<Rightarrow> bool) \<Rightarrow> go_error" where
  "validateStringSet vs label valid =
     (if length vs > maxRuleList then Some (label @ ''s exceed maximum of 1000 entries'')
      else string_set_loop label valid {} vs)"

definition validateRule :: "Rule \<Rightarrow> go_error" where
  "validateRule rule =
     (if \<not> ruleIDPattern (rl_ID rule) then Some ''id must match [A-Za-z0-9][A-Za-z0-9._-]{0,127}''
      else if rl_Effect rule \<noteq> EffectAllow \<and> rl_Effect rule \<noteq> EffectDeny
      then Some ''effect is unsupported; only allow and deny are permitted''
      else if rl_Effect rule = EffectDeny \<and> rl_AllowAWSRequiredWildcard rule
      then Some ''allowAwsRequiredWildcard is only valid on allow rules''
      else if rl_Actions rule = [] \<or> length (rl_Actions rule) > maxRuleList
      then Some ''actions must contain between 1 and 1000 entries''
      else if rl_Resources rule = [] \<or> length (rl_Resources rule) > maxRuleList
      then Some ''resources must contain between 1 and 1000 entries''
      else case first_err (\<lambda>action.
             (case validatePattern action of Some err \<Rightarrow> Some (''action: '' @ err) | None \<Rightarrow> action_form_error action))
             (rl_Actions rule) of
        Some err \<Rightarrow> Some err
      | None \<Rightarrow>
     (case first_err (\<lambda>r. map_option ((@) ''resource: '') (validatePattern r)) (rl_Resources rule) of
        Some err \<Rightarrow> Some err
      | None \<Rightarrow>
     (case validateStringSet (rl_Regions rule) ''region'' configRegionPattern of
        Some err \<Rightarrow> Some err
      | None \<Rightarrow>
     (case validateStringSet (rl_Accounts rule) ''account'' accountPattern of
        Some err \<Rightarrow> Some err
      | None \<Rightarrow> validateStringSet (rl_Partitions rule) ''partition'' supportedPartition))))"

fun validate_rules :: "string set \<Rightarrow> Rule list \<Rightarrow> go_error" where
  "validate_rules seen [] = None"
| "validate_rules seen (r # rs) =
     (case validateRule r of
        Some err \<Rightarrow> Some (''rule: '' @ err)
      | None \<Rightarrow> if rl_ID r \<in> seen then Some ''rule is duplicated'' else validate_rules (insert (rl_ID r) seen) rs)"

definition validatePolicy :: "Policy \<Rightarrow> go_error" where
  "validatePolicy p =
     (if po_Default p \<noteq> PolicyDeny then Some ''default must be deny''
      else if length (po_Rules p) > maxRules then Some ''rules exceed maximum of 10000''
      else validate_rules {} (po_Rules p))"

section \<open>The policy hash\<close>

definition normalizeSet :: "string list \<Rightarrow> bool \<Rightarrow> string list" where
  "normalizeSet vs lower = sort (dedup {} (if lower then map to_lower vs else vs))"

definition config_canonicalRule :: "Rule \<Rightarrow> canonicalRule" where
  "config_canonicalRule r = \<lparr>cr_ID = rl_ID r, cr_Effect = rl_Effect r,
     cr_Actions = normalizeSet (rl_Actions r) True, cr_Resources = normalizeSet (rl_Resources r) False,
     cr_Regions = normalizeSet (rl_Regions r) False, cr_Accounts = normalizeSet (rl_Accounts r) False,
     cr_Partitions = normalizeSet (rl_Partitions r) False, cr_Wildcard = rl_AllowAWSRequiredWildcard r\<rparr>"

definition CanonicalPolicy :: "Policy \<Rightarrow> string" where
  "CanonicalPolicy p = json_policy (po_Default p) (sort_key cr_ID (map config_canonicalRule (po_Rules p)))"

definition PolicyHash :: "(string \<Rightarrow> string) \<Rightarrow> Policy \<Rightarrow> string" where
  "PolicyHash sha256 p = ''sha256:'' @ hex_encode (sha256 (CanonicalPolicy p))"

text \<open>The policy as the engine sees it by reflection.\<close>

definition rule_refl :: "Rule \<Rightarrow> refl" where
  "rule_refl r = RStruct
     [(''ID'', RString (rl_ID r)), (''Effect'', RString (rl_Effect r)),
      (''Actions'', RSlice (map RString (rl_Actions r))), (''Resources'', RSlice (map RString (rl_Resources r))),
      (''Regions'', RSlice (map RString (rl_Regions r))), (''Accounts'', RSlice (map RString (rl_Accounts r))),
      (''Partitions'', RSlice (map RString (rl_Partitions r))),
      (''AllowAWSRequiredWildcard'', RBool (rl_AllowAWSRequiredWildcard r))]"

definition policy_refl :: "Policy \<Rightarrow> refl" where
  "policy_refl p = RStruct [(''Default'', RString (po_Default p)), (''Rules'', RSlice (map rule_refl (po_Rules p)))]"

section \<open>The audit path\<close>

text \<open>What the operating system answers. \<open>fi_owned\<close> is the outcome of \<^verbatim>\<open>ownedByCurrentUser\<close>.\<close>

record file_info =
  fi_regular :: bool
  fi_dir :: bool
  fi_perm :: nat
  fi_owned :: bool

datatype stat_answer = Stat_ok file_info | Stat_absent | Stat_failed string

record config_fs =
  cs_home :: "string option"
  cs_cwd :: string
  cs_tmp :: string
  cs_eval :: "string \<Rightarrow> string option"
  cs_lstat :: "string \<Rightarrow> stat_answer"
  cs_stat :: "string \<Rightarrow> stat_answer"
  cs_read :: "string \<Rightarrow> string option"

definition contains_text :: "string \<Rightarrow> string \<Rightarrow> bool" where
  "contains_text s p \<longleftrightarrow> list_ex (\<lambda>i. has_prefix (drop i s) p) [0..<Suc (length s)]"

definition expandPath :: "config_fs \<Rightarrow> string \<Rightarrow> string go_result" where
  "expandPath fs p0 =
     (let p = trim_space p0 in
      if p = [] then Inl ''path is empty''
      else if p = ''~'' \<or> has_prefix p ''~/'' \<or> has_prefix p [CHR ''~'', CHR 0x5C] then
        (case cs_home fs of
           None \<Rightarrow> Inl ''resolve home directory''
         | Some home \<Rightarrow> if p = ''~'' then Inr home else Inr (filepath_Join home (drop 2 p)))
      else if has_prefix p ''~'' then Inl ''only the current user's home marker is supported''
      else if has_prefix p ''$'' \<or> contains_text p ''${'' then
        Inl ''environment-variable path expansion is not supported''
      else Inr (filepath_Clean p))"

definition under :: "string \<Rightarrow> string \<Rightarrow> bool" where
  "under p root \<longleftrightarrow> p = root \<or> has_prefix p (root @ ''/'')"

definition unsafeRuntimePath :: "config_fs \<Rightarrow> string \<Rightarrow> bool" where
  "unsafeRuntimePath fs p0 \<longleftrightarrow>
     (let p = filepath_Clean p0;
          roots = [filepath_Clean (cs_tmp fs), ''/tmp''] @
                  (case cs_eval fs (cs_tmp fs) of None \<Rightarrow> [] | Some c \<Rightarrow> [filepath_Clean c]) in
      p = ''/'' \<or> list_ex (under p) roots \<or> list_ex (under p) [''/dev'', ''/proc'', ''/sys''])"

text \<open>
  The loop of \<^verbatim>\<open>resolveTargetOrParent\<close> over the candidates of a clean path, from the path itself to its root:
  the components of the candidate in reverse, and the missing components behind it.
\<close>

fun resolve_loop :: "config_fs \<Rightarrow> bool \<Rightarrow> string list \<Rightarrow> string list \<Rightarrow> string go_result" where
  "resolve_loop fs rooted rp missing =
     (let candidate = path_of rooted (rev rp) in
      case cs_lstat fs candidate of
        Stat_ok _ \<Rightarrow>
          (case cs_eval fs candidate of
             None \<Rightarrow> Inl ''evaluate symlinks''
           | Some resolved \<Rightarrow> Inr (filepath_Clean (foldl filepath_Join resolved missing)))
      | Stat_failed err \<Rightarrow> Inl err
      | Stat_absent \<Rightarrow>
          (case rp of
             [] \<Rightarrow> Inl ''no existing parent for path''
           | b # rest \<Rightarrow> resolve_loop fs rooted rest (b # missing)))"

declare resolve_loop.simps [simp del]

definition resolveTargetOrParent :: "config_fs \<Rightarrow> string \<Rightarrow> (string \<times> bool) go_result" where
  "resolveTargetOrParent fs p =
     (case cs_lstat fs p of
        Stat_ok _ \<Rightarrow>
          (case cs_eval fs p of
             None \<Rightarrow> Inl ''evaluate symlinks''
           | Some resolved \<Rightarrow> Inr (filepath_Clean resolved, True))
      | Stat_failed err \<Rightarrow> Inl err
      | Stat_absent \<Rightarrow> map_sum id (\<lambda>r. (r, False)) (resolve_loop fs (is_rooted p) (rev (path_parts p)) []))"

text \<open>The two loops of \<^verbatim>\<open>validateExistingAncestors\<close>, over the components in reverse.\<close>

fun nearest_existing :: "config_fs \<Rightarrow> bool \<Rightarrow> string list \<Rightarrow> string list go_result" where
  "nearest_existing fs rooted rp =
     (case cs_stat fs (path_of rooted (rev rp)) of
        Stat_ok info \<Rightarrow> if \<not> fi_dir info then Inl ''audit parent is not a directory'' else Inr rp
      | Stat_failed err \<Rightarrow> Inl (''stat audit parent: '' @ err)
      | Stat_absent \<Rightarrow>
          (case rp of [] \<Rightarrow> Inl ''path has no existing parent'' | _ # rest \<Rightarrow> nearest_existing fs rooted rest))"

fun check_ancestors :: "config_fs \<Rightarrow> bool \<Rightarrow> string list \<Rightarrow> go_error" where
  "check_ancestors fs rooted rp =
     (case cs_stat fs (path_of rooted (rev rp)) of
        Stat_ok info \<Rightarrow>
          if \<not> fi_dir info then Some ''audit parent is not a directory''
          else if fi_perm info AND 18 \<noteq> 0 then Some ''audit parent is group/world-writable''
          else (case rp of [] \<Rightarrow> None | _ # rest \<Rightarrow> check_ancestors fs rooted rest)
      | _ \<Rightarrow> Some ''stat audit parent'')"

declare nearest_existing.simps [simp del] check_ancestors.simps [simp del]

definition validateExistingAncestors :: "config_fs \<Rightarrow> string \<Rightarrow> go_error" where
  "validateExistingAncestors fs p =
     (case nearest_existing fs (is_rooted p) (rev (path_parts p)) of
        Inl err \<Rightarrow> Some err
      | Inr rp \<Rightarrow> check_ancestors fs (is_rooted p) rp)"

definition filepath_Dir :: "string \<Rightarrow> string" where
  "filepath_Dir p = filepath_Clean (take (case last_index_byte p CHR ''/'' of None \<Rightarrow> 0 | Some i \<Rightarrow> Suc i) p)"

definition existing_file_error :: "config_fs \<Rightarrow> string \<Rightarrow> go_error" where
  "existing_file_error fs p =
     (case cs_stat fs p of
        Stat_ok info \<Rightarrow>
          if \<not> fi_regular info then Some ''existing audit path must be a regular file''
          else if fi_perm info AND 63 \<noteq> 0 \<or> fi_perm info AND 384 \<noteq> 384
          then Some ''existing audit file mode is unsafe; expected 0600''
          else if \<not> fi_owned info then Some ''existing audit file is not owned by the current user''
          else None
      | _ \<Rightarrow> Some ''stat audit path'')"

definition normalizeAndValidateAudit :: "config_fs \<Rightarrow> Audit \<Rightarrow> Audit go_result" where
  "normalizeAndValidateAudit fs audit =
     (if au_Path audit = [] \<or> length (au_Path audit) > maxAuditPathLength
      then Inl ''path is required and must be bounded''
      else if au_Fsync audit \<noteq> ConfigFsyncBatch \<and> au_Fsync audit \<noteq> ConfigFsyncDecision
      then Inl ''fsync is unsupported; use batch or decision''
      else if au_FailureMode audit \<noteq> AuditDeny then Inl ''failureMode is unsupported; only deny is permitted''
      else if au_LogResourceARNs audit \<and> au_HashResourceNames audit
      then Inl ''logResourceArns and hashResourceNames cannot both be enabled''
      else bind_result (expandPath fs (au_Path audit)) (\<lambda>expanded.
        let absolute = filepath_Clean (filepath_Abs (cs_cwd fs) expanded) in
        if unsafeRuntimePath fs absolute then Inl ''audit path is unsafe''
        else case resolveTargetOrParent fs absolute of
          Inl err \<Rightarrow> Inl (''resolve path: '' @ err)
        | Inr (resolved, exists) \<Rightarrow>
            if unsafeRuntimePath fs resolved then Inl ''resolved audit path is unsafe''
            else case (if exists then existing_file_error fs resolved else None) of
              Some err \<Rightarrow> Inl err
            | None \<Rightarrow>
                (case validateExistingAncestors fs (filepath_Dir resolved) of
                   Some err \<Rightarrow> Inl err
                 | None \<Rightarrow> Inr (audit\<lparr>au_Path := filepath_Clean resolved\<rparr>))))"

section \<open>Validation of the document\<close>

definition Config_Validate :: "config_fs \<Rightarrow> Config option \<Rightarrow> Config go_result" where
  "Config_Validate fs cfg =
     (case cfg of
        None \<Rightarrow> Inl ''config is nil''
      | Some c \<Rightarrow>
          if cg_APIVersion c \<noteq> APIVersion then Inl ''apiVersion must be kordn.dev/v1alpha1''
          else if cg_Kind c \<noteq> Kind then Inl ''kind must be LocalRunPolicy''
          else case validateUpstream (cg_Upstream c) of
            Some err \<Rightarrow> Inl (''upstream: '' @ err)
          | None \<Rightarrow>
         (case validateProxy (cg_Proxy c) of
            Some err \<Rightarrow> Inl (''proxy: '' @ err)
          | None \<Rightarrow>
         (case validatePolicy (cg_Policy c) of
            Some err \<Rightarrow> Inl (''policy: '' @ err)
          | None \<Rightarrow>
         (case normalizeAndValidateAudit fs (cg_Audit c) of
            Inl err \<Rightarrow> Inl (''audit: '' @ err)
          | Inr a \<Rightarrow> Inr (c\<lparr>cg_Audit := a\<rparr>)))))"

section \<open>Loading\<close>

datatype yaml_kind = DocumentNode | SequenceNode | MappingNode | ScalarNode | AliasNode

datatype yaml_node = Yaml_node (yn_Kind: yaml_kind) (yn_Tag: string) (yn_Value: string) (yn_Content: "yaml_node list")

text \<open>What the YAML library returns for a text: the documents before its end or first error, and the typed decoding.\<close>

record yaml_library =
  yl_documents :: "string \<Rightarrow> yaml_node list \<times> go_error"
  yl_config :: "string \<Rightarrow> Config go_result"

definition decodeRoot :: "yaml_library \<Rightarrow> string \<Rightarrow> yaml_node go_result" where
  "decodeRoot yl data =
     (case yl_documents yl data of
        ([], None) \<Rightarrow> Inl ''EOF''
      | ([], Some err) \<Rightarrow> Inl err
      | ([d], Some err) \<Rightarrow> Inl (''trailing YAML document: '' @ err)
      | ([d], None) \<Rightarrow>
          if yn_Kind d = DocumentNode then
            (case yn_Content d of [r] \<Rightarrow> Inr r | _ \<Rightarrow> Inl ''invalid YAML document'')
          else Inr d
      | _ \<Rightarrow> Inl ''multiple YAML documents are not supported'')"

fun mapping_pairs :: "'a list \<Rightarrow> ('a \<times> 'a) list" where
  "mapping_pairs (k # v # rest) = (k, v) # mapping_pairs rest"
| "mapping_pairs _ = []"

definition key_error :: "yaml_node \<Rightarrow> go_error" where
  "key_error key =
     (if yn_Value key = ''<<'' then Some ''YAML merge keys are not supported''
      else if yn_Kind key \<noteq> ScalarNode \<or> yn_Tag key \<noteq> ''!!str'' then Some ''mapping keys must be strings''
      else None)"

fun rejectNullNodes :: "yaml_node \<Rightarrow> go_error" where
  "rejectNullNodes (Yaml_node kind tag val content) =
     (if tag = ''!!null'' then Some ''null values are not supported''
      else if kind = AliasNode then Some ''YAML aliases are not supported''
      else case (if kind = MappingNode then first_err (\<lambda>(k, _). key_error k) (mapping_pairs content) else None) of
        Some err \<Rightarrow> Some err
      | None \<Rightarrow> first_err rejectNullNodes content)"

fun has_path :: "yaml_node \<Rightarrow> string list \<Rightarrow> bool" where
  "has_path node [] = True"
| "has_path node (name # names) =
     (yn_Kind node = MappingNode \<and>
      (case find (\<lambda>(k, _). yn_Value k = name) (mapping_pairs (yn_Content node)) of
         None \<Rightarrow> False
       | Some (_, v) \<Rightarrow> has_path v names))"

definition hasField :: "yaml_node \<Rightarrow> string list \<Rightarrow> bool" where
  "hasField root names =
     has_path (case (yn_Kind root, yn_Content root) of (DocumentNode, [r]) \<Rightarrow> r | _ \<Rightarrow> root) names"

text \<open>A default for a field that the document does not have.\<close>

definition unless :: "bool \<Rightarrow> 'a \<Rightarrow> 'a \<Rightarrow> 'a" where
  "unless present d v = (if present then v else d)"

definition applyDefaults :: "Config \<Rightarrow> yaml_node \<Rightarrow> Config" where
  "applyDefaults c root =
     (let has = (\<lambda>a b. hasField root [a, b]); u = cg_Upstream c; p = cg_Proxy c; o1 = cg_Policy c; a = cg_Audit c in
      c\<lparr>cg_Upstream := u\<lparr>
           up_RoleSessionName := unless (has ''upstream'' ''roleSessionName'') DefaultRoleSessionName (up_RoleSessionName u),
           up_DurationSeconds := unless (has ''upstream'' ''durationSeconds'') DefaultRoleDurationSeconds (up_DurationSeconds u)\<rparr>,
        cg_Proxy := p\<lparr>
           px_Listen := unless (has ''proxy'' ''listen'') DefaultListen (px_Listen p),
           px_NonAWSTraffic := unless (has ''proxy'' ''nonAwsTraffic'') DefaultNonAWSTraffic (px_NonAWSTraffic p),
           px_UpstreamProxy := unless (has ''proxy'' ''upstreamProxy'') DefaultUpstreamProxy (px_UpstreamProxy p),
           px_MaxInMemoryBodyBytes :=
             unless (has ''proxy'' ''maxInMemoryBodyBytes'') DefaultMaxInMemoryBodyBytes (px_MaxInMemoryBodyBytes p),
           px_MaxSpoolBodyBytes :=
             unless (has ''proxy'' ''maxSpoolBodyBytes'') DefaultMaxSpoolBodyBytes (px_MaxSpoolBodyBytes p)\<rparr>,
        cg_Policy := o1\<lparr>po_Default := unless (has ''policy'' ''default'') PolicyDeny (po_Default o1)\<rparr>,
        cg_Audit := a\<lparr>
           au_Path := unless (has ''audit'' ''path'') DefaultAuditPath (au_Path a),
           au_Fsync := unless (has ''audit'' ''fsync'') ConfigFsyncBatch (au_Fsync a),
           au_FailureMode := unless (has ''audit'' ''failureMode'') AuditDeny (au_FailureMode a),
           au_LogResourceARNs :=
             unless (has ''audit'' ''logResourceArns'') DefaultAuditLogResourceARNs (au_LogResourceARNs a),
           au_HashResourceNames :=
             unless (has ''audit'' ''hashResourceNames'') DefaultAuditHashResourceNames (au_HashResourceNames a)\<rparr>\<rparr>)"

definition canonicalExistingPath :: "config_fs \<Rightarrow> string \<Rightarrow> string go_result" where
  "canonicalExistingPath fs p0 =
     (let p = trim_space p0 in
      if p = [] then Inl ''path is empty''
      else bind_result (expandPath fs p) (\<lambda>expanded.
        case cs_eval fs (filepath_Abs (cs_cwd fs) expanded) of
          None \<Rightarrow> Inl ''resolve symlinks''
        | Some resolved \<Rightarrow> Inr (filepath_Clean resolved)))"

definition validateOwnedMode :: "config_fs \<Rightarrow> string \<Rightarrow> go_error" where
  "validateOwnedMode fs p =
     (case cs_stat fs p of
        Stat_ok info \<Rightarrow>
          if \<not> fi_regular info then Some ''must be a regular file''
          else if fi_perm info AND 18 \<noteq> 0 then Some ''group/world-writable mode is unsafe''
          else if \<not> fi_owned info then Some ''is not owned by the current user''
          else None
      | Stat_absent \<Rightarrow> Some ''no such file''
      | Stat_failed err \<Rightarrow> Some err)"

definition prefix_error :: "string \<Rightarrow> 'a go_result \<Rightarrow> 'a go_result" where
  "prefix_error msg r = map_sum ((@) msg) id r"

definition Load :: "config_fs \<Rightarrow> yaml_library \<Rightarrow> (string \<Rightarrow> string) \<Rightarrow> string \<Rightarrow> Config go_result" where
  "Load fs yl sha256 path =
     bind_result (prefix_error ''config path: '' (canonicalExistingPath fs path)) (\<lambda>canonical.
     case validateOwnedMode fs canonical of
       Some err \<Rightarrow> Inl (''config path: '' @ err)
     | None \<Rightarrow>
    (case cs_read fs canonical of
       None \<Rightarrow> Inl ''read config''
     | Some data \<Rightarrow>
     bind_result (prefix_error ''decode config: '' (decodeRoot yl data)) (\<lambda>root.
     if yn_Kind root \<noteq> MappingNode then Inl ''decode config: root must be a mapping''
     else case rejectNullNodes root of
       Some err \<Rightarrow> Inl (''decode config: '' @ err)
     | None \<Rightarrow>
     bind_result (prefix_error ''decode config fields: '' (yl_config yl data)) (\<lambda>cfg.
     bind_result (Config_Validate fs (Some ((applyDefaults cfg root)\<lparr>cg_SourcePath := canonical\<rparr>))) (\<lambda>c.
       Inr (c\<lparr>cg_PolicyHash := PolicyHash sha256 (cg_Policy c)\<rparr>))))))"

end
