(* ===== verification/Config_Policy.thy ===== *)
theory Config_Policy
  imports Config
begin

text \<open>
  What a validated configuration guarantees: its policy hash is the hash of the engine built from its policy, its
  policy compiles unless a rule repeats a pattern or names a region the engine does not know, and the
  listener, the limits and the audit file are safe.
\<close>

section \<open>The snapshot of a configured policy\<close>

definition rule_snapshot :: "Rule \<Rightarrow> ruleSnapshot" where
  "rule_snapshot r = \<lparr>rsn_ID = rl_ID r, rsn_Effect = rl_Effect r, rsn_Actions = rl_Actions r,
     rsn_Resources = rl_Resources r, rsn_Regions = rl_Regions r, rsn_Accounts = rl_Accounts r,
     rsn_Partitions = rl_Partitions r, rsn_Wildcard = rl_AllowAWSRequiredWildcard r\<rparr>"

lemma string_elements_map [simp]: "string_elements (map RString xs) = Some xs"
  by (induction xs) simp_all

lemma copyRule_refl: "copyRule (rule_refl r) = Inr (rule_snapshot r)"
  by (simp add: copyRule_def rule_refl_def rule_snapshot_def stringField_def stringSliceField_def field_by_name_def
      bind_result_def)

lemma map_result_refl: "map_result copyRule (map rule_refl rs) = Inr (map rule_snapshot rs)"
  by (induction rs) (simp_all add: copyRule_refl)

lemma copyPolicy_refl:
  "copyPolicy (policy_refl p) = Inr \<lparr>ps_defaultValue = po_Default p, ps_rules = map rule_snapshot (po_Rules p)\<rparr>"
  by (simp add: copyPolicy_def policy_refl_def field_by_name_def map_result_refl)

lemma validate_rules_all: "validate_rules seen rs = None \<longleftrightarrow>
    (\<forall>r \<in> set rs. validateRule r = None) \<and> distinct (map rl_ID rs) \<and> rl_ID ` set rs \<inter> seen = {}"
  by (induction seen rs rule: validate_rules.induct) (auto split: option.splits)

lemma validateRule_parts:
  assumes "validateRule r = None"
  shows "ruleIDPattern (rl_ID r)" "rl_Effect r = EffectAllow \<or> rl_Effect r = EffectDeny"
    "rl_Effect r = EffectDeny \<Longrightarrow> \<not> rl_AllowAWSRequiredWildcard r"
    "rl_Actions r \<noteq> []" "length (rl_Actions r) \<le> maxRuleList" "rl_Resources r \<noteq> []" "length (rl_Resources r) \<le> maxRuleList"
    "\<forall>a \<in> set (rl_Actions r). validatePattern a = None \<and> action_form_error a = None"
    "\<forall>x \<in> set (rl_Resources r). validatePattern x = None"
    "validateStringSet (rl_Regions r) ''region'' configRegionPattern = None"
    "validateStringSet (rl_Accounts r) ''account'' accountPattern = None"
    "validateStringSet (rl_Partitions r) ''partition'' supportedPartition = None"
  using assms unfolding validateRule_def guard_None
  by (auto split: option.splits)

lemma action_part_ascii: "ascii_pred action_part_rune"
  by (auto simp: ascii_pred_def action_part_rune_def)

lemma validActionPart_bytes: "validActionPart v \<longleftrightarrow> list_all (\<lambda>c. action_part_rune (ord c)) v"
  unfolding validActionPart_def by (rule list_all_runes_bytes [OF action_part_ascii])

lemma action_form:
  assumes "action_form_error a = None"
  shows "a = ''*'' \<or> (\<exists>x y. a = x @ CHR '':'' # y \<and> x \<noteq> [] \<and> y \<noteq> [] \<and>
     list_all (\<lambda>c. action_part_rune (ord c)) x \<and> list_all (\<lambda>c. action_part_rune (ord c)) y)"
proof (cases "a = ''*''")
  case False
  then obtain x y where s: "split_byte CHR '':'' a = [x, y]" "x \<noteq> []" "y \<noteq> []" "validActionPart x" "validActionPart y"
    using assms by (auto simp: action_form_error_def split: list.splits if_splits)
  then show ?thesis using join_split_byte [of "CHR '':''" a] by (auto simp: validActionPart_bytes)
qed simp

lemma action_part_is_ascii: "action_part_rune (ord c) \<Longrightarrow> is_ascii c"
  using action_part_ascii by (auto simp: ascii_pred_def is_ascii_def)

lemma config_action_ascii:
  assumes "action_form_error a = None"
  shows "list_all is_ascii a"
proof -
  have "is_ascii CHR '':''" "is_ascii CHR ''*''" by (simp_all add: is_ascii_def ord_def)
  then show ?thesis using action_form [OF assms] by (auto simp: list_all_iff) (blast intro: action_part_is_ascii)+
qed

lemma to_lower_action: "action_form_error a = None \<Longrightarrow> to_lower a = asciiLower a"
  by (simp add: config_action_ascii to_lower_def asciiLower_def)

lemma canonicalRule_agree:
  assumes "validateRule r = None"
  shows "config_canonicalRule r = canonicalRule_of (rule_snapshot r)"
proof -
  have "map to_lower (rl_Actions r) = map asciiLower (rl_Actions r)"
    using validateRule_parts(8) [OF assms] to_lower_action by simp
  then show ?thesis
    by (simp add: config_canonicalRule_def canonicalRule_of_def rule_snapshot_def normalizeSet_def normalizeValues_def
        del: map_eq_conv)
qed

lemma hash_agree_aux:
  assumes "validatePolicy p = None"
  shows "PolicyHash sha256 p =
    snapshotPolicyHash sha256 \<lparr>ps_defaultValue = po_Default p, ps_rules = map rule_snapshot (po_Rules p)\<rparr>"
proof -
  have "\<forall>r \<in> set (po_Rules p). validateRule r = None"
    using assms by (auto simp: validatePolicy_def validate_rules_all split: if_splits)
  then have "map config_canonicalRule (po_Rules p) = map (canonicalRule_of \<circ> rule_snapshot) (po_Rules p)"
    by (simp add: canonicalRule_agree)
  then show ?thesis
    by (simp add: PolicyHash_def CanonicalPolicy_def snapshotPolicyHash_def canonical_rules_def del: map_eq_conv)
qed

text \<open>
  Property C32. The configuration and the engine agree on the identity of a policy, though each computes it with its own
  code: for every policy that passes validation, the hash stored in the configuration is the hash of the
  engine built from that policy. The server passes the former to the engine with every request, and the
  engine refuses to decide for a different one.
\<close>

theorem config_hash_agrees:
  assumes "validatePolicy p = None" "NewEngine sha256 (policy_refl p) = Inr e"
  shows "PolicyHash sha256 p = Engine_PolicyHash (Some e)"
  using assms hash_agree_aux [OF assms(1), of sha256]
  by (auto simp: NewEngine_def copyPolicy_refl bind_result_def Engine_PolicyHash_def engine_of_snapshot_def
      split: if_splits sum.splits)


section \<open>Validated policies compile\<close>

text \<open>
  What the engine asks of a rule beyond the validation of the configuration: no pattern twice, patterns in
  valid UTF-8, and regions that start with a letter and are not too long.
\<close>

definition engine_ready :: "Rule \<Rightarrow> bool" where
  "engine_ready r \<longleftrightarrow> distinct (map asciiLower (rl_Actions r)) \<and> distinct (rl_Resources r) \<and>
     list_all valid_utf8 (rl_Resources r) \<and>
     list_all (\<lambda>g. is_lower_byte (hd g) \<and> length g \<le> maxMapperTextLength) (rl_Regions r)"

lemma string_set_loop_None:
  "string_set_loop label valid seen vs = None \<longleftrightarrow>
     list_all (\<lambda>v. v \<noteq> [] \<and> valid v) vs \<and> distinct vs \<and> set vs \<inter> seen = {}"
  by (induction label valid seen vs rule: string_set_loop.induct) auto

lemma constraint_loop_ok:
  "list_all (\<lambda>v. v \<noteq> [] \<and> valid v) vs \<Longrightarrow> distinct vs \<Longrightarrow> set vs \<inter> dest = {} \<Longrightarrow>
     constraint_loop label valid vs dest = Inr (dest \<union> set vs)"
  by (induction label valid vs dest rule: constraint_loop.induct) auto

lemma constraint_ok:
  assumes "validateStringSet vs label valid = None" "\<And>v. v \<in> set vs \<Longrightarrow> valid v \<Longrightarrow> valid' v"
  shows "compileConstraintSet vs label' valid' = Inr (set vs)"
  using assms constraint_loop_ok [of valid' vs "{}" label']
  by (auto simp: validateStringSet_def compileConstraintSet_def string_set_loop_None list_all_iff maxRuleList_def
      maxRuleValues_def split: if_splits)

lemma compile_globs_ok:
  "distinct (map key vs) \<Longrightarrow> key ` set vs \<inter> seen = {} \<Longrightarrow> (\<And>v. v \<in> set vs \<Longrightarrow> \<exists>g. compile v = Inr g) \<Longrightarrow>
     \<exists>gs. compile_globs what key compile seen vs = Inr gs"
proof (induction vs arbitrary: seen)
  case (Cons v vs)
  from Cons.prems(3) [of v] obtain g where "compile v = Inr g" by auto
  moreover obtain gs where "compile_globs what key compile (insert (key v) seen) vs = Inr gs"
    using Cons.IH [of "insert (key v) seen"] Cons.prems by auto
  ultimately show ?case using Cons.prems by auto
qed simp

lemma identifier_agrees: "ruleIDPattern s \<Longrightarrow> validIdentifier s True \<and> s \<noteq> [] \<and> length s \<le> 128"
proof -
  assume "ruleIDPattern s"
  then obtain c cs where s: "s = c # cs" "alnum_byte c" "length cs \<le> 127"
    "list_all (\<lambda>x. alnum_byte x \<or> x \<in> set ''._-'') cs"
    by (auto simp: ruleIDPattern_def identifier_pattern_def split: list.splits)
  have alnum: "alnum_byte x \<Longrightarrow> alnum_rune (ord x)" for x
    by (auto simp: alnum_byte_def alnum_rune_def digit_rune_def byte_class_iff)
  have punct: "x \<in> set ''._-'' \<Longrightarrow> identifier_rune True (ord x)" for x
    by (auto simp: identifier_rune_def ord_def)
  have "ascii_pred (identifier_rune True)"
    by (auto simp: ascii_pred_def identifier_rune_def alnum_rune_def digit_rune_def)
  then have "list_all (identifier_rune True) (runes s) \<longleftrightarrow> list_all (\<lambda>c. identifier_rune True (ord c)) s"
    by (rule list_all_runes_bytes)
  moreover have bytes: "list_all (\<lambda>c. identifier_rune True (ord c)) s"
    using s alnum punct by (auto simp: list_all_iff identifier_rune_def)
  moreover have "list_all is_ascii s"
    using bytes by (auto simp: list_all_iff identifier_rune_def alnum_rune_def digit_rune_def is_ascii_def)
  then have "runes s = map ord s" by (rule runes_ascii)
  ultimately show ?thesis using s alnum by (simp add: validIdentifier_def)
qed

lemma account_agrees: "accountPattern v \<Longrightarrow> validAccount v"
proof -
  assume a: "accountPattern v"
  have "ascii_pred digit_rune" by (auto simp: ascii_pred_def digit_rune_def)
  from list_all_runes_bytes [OF this, of v] a show ?thesis
    by (auto simp: accountPattern_def validAccount_def list_all_iff digit_rune_def is_digit_byte_iff)
qed

lemma partition_agrees: "supportedPartition v \<Longrightarrow> validPartition v"
  by (simp add: supportedPartition_def validPartition_def)

lemma last_join: "ws \<noteq> [] \<Longrightarrow> last ws \<noteq> [] \<Longrightarrow> join sep ws \<noteq> [] \<and> last (join sep ws) = last (last ws)"
  by (induction sep ws rule: join.induct) auto

lemma region_agrees:
  assumes "configRegionPattern v" "is_lower_byte (hd v)" "length v \<le> maxMapperTextLength"
  shows "validRegion v"
proof -
  let ?ps = "split_byte CHR ''-'' v"
  have ps: "3 \<le> length ?ps" "list_all region_part ?ps" "list_all is_digit_byte (last ?ps)"
    using assms(1) by (auto simp: configRegionPattern_def Let_def)
  have v: "v = join ''-'' ?ps" by simp
  have ne: "v \<noteq> []" using ps by (cases v) auto
  have dash: "CHR ''-'' \<in> set v"
  proof (rule ccontr)
    assume "CHR ''-'' \<notin> set v"
    then have "?ps = [v]" by (rule split_byte_atom)
    then show False using ps(1) by simp
  qed
  have bytes: "list_all (\<lambda>c. dns_rune (ord c)) v"
  proof -
    have "c = CHR ''-'' \<or> (\<exists>p \<in> set ?ps. c \<in> set p)" if "c \<in> set v" for c
      using that set_join [of c "''-''" ?ps] by auto
    moreover have "ord CHR ''-'' = 45" by (simp add: ord_def)
    ultimately show ?thesis
      using ps(2) by (fastforce simp: list_all_iff region_part_def dns_rune_def byte_class_iff)
  qed
  have "?ps \<noteq> []" "last ?ps \<in> set ?ps" using ps(1) by (auto intro: last_in_set)
  then have "last ?ps \<noteq> []" using ps(2) by (auto simp: list_all_iff region_part_def)
  then have last: "is_digit_byte (last v)"
    using ps(3) last_join [of ?ps "''-''"] \<open>?ps \<noteq> []\<close> by (auto simp: list_all_iff)
  have "ascii_pred dns_rune" by (auto simp: ascii_pred_def dns_rune_def)
  from list_all_runes_bytes [OF this, of v] bytes show ?thesis
    using assms ne last dash by (simp add: validRegion_def contains_byte_def)
qed


lemma resource_compiles:
  assumes "validatePattern v = None" "valid_utf8 v"
  shows "\<exists>g. CompileGlob v = Inr g"
  using assms
  by (auto simp: validatePattern_def CompileGlob_def compileGlob_def validateGlobPattern_def unsupported_glob_runes_def
      maxPatternLength_def MaxGlobLength_def split: if_splits)

lemma index_byte_append: "c \<notin> set x \<Longrightarrow> index_byte (x @ c # y) c = Some (length x)"
  by (induction x) auto

lemma action_part_no_colon: "list_all (\<lambda>c. action_part_rune (ord c)) x \<Longrightarrow> CHR '':'' \<notin> set x"
  by (auto simp: list_all_iff action_part_rune_def ord_def)

lemma action_compiles:
  assumes "validatePattern v = None" "action_form_error v = None"
  shows "\<exists>g. CompileActionGlob v = Inr g"
proof -
  have ascii: "list_all is_ascii v" by (rule config_action_ascii [OF assms(2)])
  have ok: "\<not> list_ex (\<lambda>r. \<not> action_rune r) (runes v) \<and>
      (v = ''*'' \<or> (\<exists>k. index_byte v CHR '':'' = Some k \<and> k \<noteq> 0 \<and> k \<noteq> length v - 1 \<and> count_byte v CHR '':'' = 1))"
    using action_form [OF assms(2)]
  proof (elim disjE exE conjE)
    assume "v = ''*''"
    then show ?thesis using ascii by (simp add: runes_ascii action_rune_def) (simp add: ord_def)
  next
    fix x y
    assume v: "v = x @ CHR '':'' # y" "x \<noteq> []" "y \<noteq> []" and xy: "list_all (\<lambda>c. action_part_rune (ord c)) x"
      "list_all (\<lambda>c. action_part_rune (ord c)) y"
    have "action_part_rune r \<Longrightarrow> action_rune r" for r by (auto simp: action_part_rune_def action_rune_def)
    moreover have "action_rune (ord CHR '':'')" by (simp add: action_rune_def ord_def)
    ultimately have "list_all (\<lambda>c. action_rune (ord c)) v" using xy v by (auto simp: list_all_iff)
    then have "\<not> list_ex (\<lambda>r. \<not> action_rune r) (runes v)"
      using ascii by (auto simp: runes_ascii list_ex_iff list_all_iff)
    moreover have "count_byte v CHR '':'' = 1"
      using action_part_no_colon [OF xy(1)] action_part_no_colon [OF xy(2)] v by (simp add: count_byte_def)
    ultimately show ?thesis
      using index_byte_append [OF action_part_no_colon [OF xy(1)], of y] v by simp
  qed
  have "valid_utf8 v" using ascii by (rule valid_utf8_ascii)
  then show ?thesis
    using assms(1) ok
    by (auto simp: validatePattern_def CompileActionGlob_def compileGlob_def validateGlobPattern_def
        unsupported_glob_runes_def maxPatternLength_def MaxGlobLength_def split: if_splits)
qed

lemma rule_compiles:
  assumes "validateRule r = None" "engine_ready r"
  shows "\<exists>c. compileRule (rule_snapshot r) = Inr c \<and> ru_id c = rl_ID r"
proof -
  note v = validateRule_parts [OF assms(1)]
  obtain as where as: "compile_globs ''action'' asciiLower CompileActionGlob {} (rl_Actions r) = Inr as"
    using compile_globs_ok [of asciiLower "rl_Actions r" "{}" CompileActionGlob "''action''"] assms(2) v(8) action_compiles
    by (auto simp: engine_ready_def)
  obtain rs where rs: "compile_globs ''resource'' (\<lambda>v. v) CompileGlob {} (rl_Resources r) = Inr rs"
    using compile_globs_ok [of "\<lambda>v. v" "rl_Resources r" "{}" CompileGlob "''resource''"] assms(2) v(9) resource_compiles
    by (auto simp: engine_ready_def list_all_iff)
  have gs: "compileConstraintSet (rl_Regions r) ''region'' validRegion = Inr (set (rl_Regions r))"
    using assms(2) by (intro constraint_ok [OF v(10)] region_agrees) (auto simp: engine_ready_def list_all_iff)
  have ac: "compileConstraintSet (rl_Accounts r) ''account'' validAccount = Inr (set (rl_Accounts r))"
    by (intro constraint_ok [OF v(11)] account_agrees)
  have ps: "compileConstraintSet (rl_Partitions r) ''partition'' validPartition = Inr (set (rl_Partitions r))"
    by (intro constraint_ok [OF v(12)] partition_agrees)
  show ?thesis
    using v(1-7) identifier_agrees [OF v(1)] as rs gs ac ps
    by (auto simp: compileRule_def rule_snapshot_def bind_result_def EffectAllow_def EffectDeny_def maxRuleList_def
        maxRuleValues_def)
qed

lemma rules_compile:
  "\<forall>r \<in> set rs. validateRule r = None \<and> engine_ready r \<Longrightarrow> distinct (map rl_ID rs) \<Longrightarrow> rl_ID ` set rs \<inter> seen = {} \<Longrightarrow>
     \<exists>cs. compile_rules seen (map rule_snapshot rs) = Inr cs"
proof (induction rs arbitrary: seen)
  case (Cons r rs)
  obtain c where c: "compileRule (rule_snapshot r) = Inr c" "ru_id c = rl_ID r" using rule_compiles Cons.prems(1) by auto
  obtain cs where "compile_rules (insert (rl_ID r) seen) (map rule_snapshot rs) = Inr cs"
    using Cons.IH [of "insert (rl_ID r) seen"] Cons.prems by auto
  then show ?case using c Cons.prems(3) by auto
qed simp

text \<open>
  A policy that passes validation compiles: the engine accepts it when every rule is ready for the engine, that
  is, repeats no action (up to case) and no resource, has its resources in valid UTF-8, and has regions that
  start with a letter and have at most 512 bytes. These are the conditions the engine checks and the
  configuration does not.
\<close>

theorem validated_policy_compiles:
  assumes "validatePolicy p = None" "list_all engine_ready (po_Rules p)"
  shows "\<exists>e. NewEngine sha256 (policy_refl p) = Inr e \<and> eng_hash e = PolicyHash sha256 p \<and>
     length (eng_rules e) = length (po_Rules p)"
proof -
  have "\<forall>r \<in> set (po_Rules p). validateRule r = None \<and> engine_ready r" "distinct (map rl_ID (po_Rules p))"
    and d: "po_Default p = ''deny''" "length (po_Rules p) \<le> maxPolicyRules"
    using assms by (auto simp: validatePolicy_def validate_rules_all list_all_iff PolicyDeny_def maxRules_def
        maxPolicyRules_def split: if_splits)
  then obtain cs where cs: "compile_rules {} (map rule_snapshot (po_Rules p)) = Inr cs"
    using rules_compile [of "po_Rules p" "{}"] by auto
  then have "length cs = length (po_Rules p)"
    using compile_rules_list [OF cs] by (auto dest: list_all2_lengthD)
  then show ?thesis
    using cs d hash_agree_aux [OF assms(1), of sha256]
    by (simp add: NewEngine_def copyPolicy_refl bind_result_def engine_of_snapshot_def)
qed


section \<open>A policy that is valid and does not compile\<close>

definition twice_rule :: Rule where
  "twice_rule = \<lparr>rl_ID = ''r1'', rl_Effect = ''allow'', rl_Actions = [''s3:Get'', ''s3:get''], rl_Resources = [''a''],
     rl_Regions = [], rl_Accounts = [], rl_Partitions = [], rl_AllowAWSRequiredWildcard = False\<rparr>"

definition once_rule :: Rule where
  "once_rule = twice_rule\<lparr>rl_Actions := [''s3:Get'']\<rparr>"

definition policy_with :: "Rule \<Rightarrow> Policy" where
  "policy_with r = \<lparr>po_Default = ''deny'', po_Rules = [r]\<rparr>"

lemma plain_pattern:
  assumes "v \<noteq> []" "length v \<le> 512" "list_all (\<lambda>c. 47 \<le> ord c \<and> ord c \<le> 58 \<or> 65 \<le> ord c \<and> ord c \<le> 90 \<or> 97 \<le> ord c \<and> ord c \<le> 122) v"
  shows "validatePattern v = None" "valid_utf8 v"
proof -
  have "list_all is_ascii v" using assms(3) by (auto simp: list_all_iff is_ascii_def)
  then have "runes v = map ord v" "valid_utf8 v" by (rule runes_ascii, rule valid_utf8_ascii)
  moreover have "\<not> list_ex (\<lambda>r. is_space_rune r \<or> is_control_rune r \<or> r \<in> set (map ord ''[](){}|+^$'' @ [92])) (map ord v)"
    using assms(3) by (auto simp: list_ex_iff list_all_iff is_space_rune_def is_control_rune_def ord_def)
  ultimately show "validatePattern v = None" "valid_utf8 v"
    using assms(1,2) unfolding validatePattern_def maxPatternLength_def by simp_all
qed

lemmas sample_rules = twice_rule_def once_rule_def policy_with_def

lemma sample_patterns:
  "validatePattern ''s3:Get'' = None" "validatePattern ''s3:get'' = None" "validatePattern ''a'' = None" "valid_utf8 ''a''"
  by (rule plain_pattern; simp add: ord_def)+

lemma sample_forms: "action_form_error ''s3:Get'' = None" "action_form_error ''s3:get'' = None"
  by (simp_all add: action_form_error_def validActionPart_bytes action_part_rune_def ord_def)

lemma sample_id: "ruleIDPattern ''r1''"
  by (simp add: ruleIDPattern_def identifier_pattern_def alnum_byte_def byte_class_iff) (simp add: ord_def)

lemma twice_rule_valid: "validateRule twice_rule = None"
  using sample_patterns sample_forms sample_id
  by (simp add: validateRule_def twice_rule_def EffectAllow_def EffectDeny_def validateStringSet_def maxRuleList_def)

lemma once_rule_valid: "validateRule once_rule = None"
  using sample_patterns sample_forms sample_id
  by (simp add: validateRule_def sample_rules EffectAllow_def EffectDeny_def validateStringSet_def maxRuleList_def)

lemma policy_with_valid: "validateRule r = None \<Longrightarrow> validatePolicy (policy_with r) = None"
  by (simp add: validatePolicy_def policy_with_def PolicyDeny_def maxRules_def)

lemma once_ready: "engine_ready once_rule"
  using sample_patterns by (simp add: engine_ready_def sample_rules)

lemma once_engine: "\<exists>e. NewEngine sha256 (policy_refl (policy_with once_rule)) = Inr e"
proof -
  obtain cs where "compile_rules {} (map rule_snapshot [once_rule]) = Inr cs"
    using rules_compile [of "[once_rule]" "{}"] once_rule_valid once_ready by (metis (no_types) distinct_singleton
        empty_iff empty_set insert_iff list.simps(15) list.simps(8) list.simps(9) inf_bot_right)
  then show ?thesis
    by (auto simp: NewEngine_def copyPolicy_refl bind_result_def engine_of_snapshot_def policy_with_def maxPolicyRules_def)
qed

lemma lower_get: "asciiLower ''s3:get'' = asciiLower ''s3:Get''"
  by code_simp

lemma twice_refused: "compileRule (rule_snapshot twice_rule) = Inl ''rule actions contain duplicates''"
proof -
  obtain g where "CompileActionGlob ''s3:Get'' = Inr g" using action_compiles sample_patterns(1) sample_forms(1) by blast
  moreover note lower_get
  ultimately show ?thesis
    using identifier_agrees [OF sample_id]
    by (simp add: compileRule_def rule_snapshot_def twice_rule_def bind_result_def maxRuleValues_def)
qed

text \<open>
  Validation accepts policies that the engine refuses: a rule that lists one action twice, in two spellings of
  its letters, passes validation, and its configuration has a policy hash, but no engine can be built from
  it. The canonical form of the configuration treats the list as a set, the engine does not.
\<close>

theorem valid_policy_may_not_compile:
  "validatePolicy (policy_with twice_rule) = None \<and>
   PolicyHash sha256 (policy_with twice_rule) = PolicyHash sha256 (policy_with once_rule) \<and>
   (\<forall>e. NewEngine sha256 (policy_refl (policy_with twice_rule)) \<noteq> Inr e) \<and>
   (\<exists>e. NewEngine sha256 (policy_refl (policy_with once_rule)) = Inr e)"
proof -
  have "NewEngine sha256 (policy_refl (policy_with twice_rule)) \<noteq> Inr e" for e
    using twice_refused
    by (simp add: NewEngine_def copyPolicy_refl bind_result_def engine_of_snapshot_def policy_with_def maxPolicyRules_def)
  moreover have "to_lower ''s3:get'' = to_lower ''s3:Get''"
    using to_lower_action [OF sample_forms(1)] to_lower_action [OF sample_forms(2)] lower_get by simp
  then have "config_canonicalRule twice_rule = config_canonicalRule once_rule"
    by (simp add: config_canonicalRule_def sample_rules normalizeSet_def)
  then have "PolicyHash sha256 (policy_with twice_rule) = PolicyHash sha256 (policy_with once_rule)"
    by (simp add: PolicyHash_def CanonicalPolicy_def policy_with_def)
  ultimately show ?thesis using policy_with_valid [OF twice_rule_valid] once_engine by blast
qed

theorem config_hash_agrees_witness:
  "\<exists>e. NewEngine (\<lambda>x. x) (policy_refl (policy_with once_rule)) = Inr e \<and>
     PolicyHash (\<lambda>x. x) (policy_with once_rule) = Engine_PolicyHash (Some e)"
proof -
  obtain e where e: "NewEngine (\<lambda>x. x) (policy_refl (policy_with once_rule)) = Inr e" using once_engine by blast
  then show ?thesis using config_hash_agrees [OF policy_with_valid [OF once_rule_valid] e] by blast
qed

theorem validated_policy_compiles_witness:
  "\<exists>e. NewEngine (\<lambda>x. x) (policy_refl (policy_with once_rule)) = Inr e \<and> length (eng_rules e) = 1"
  using validated_policy_compiles [OF policy_with_valid [OF once_rule_valid], of "\<lambda>x. x"] once_ready
  by (auto simp: policy_with_def)

section \<open>What a loaded configuration guarantees\<close>

definition private_dir :: "stat_answer \<Rightarrow> bool" where
  "private_dir a \<longleftrightarrow> (\<exists>info. a = Stat_ok info \<and> fi_dir info \<and> fi_perm info AND 18 = 0)"

text \<open>Of the directories on the way to a path, the first ones are private and the others do not exist.\<close>

definition private_ancestors :: "config_fs \<Rightarrow> string \<Rightarrow> bool" where
  "private_ancestors fs p \<longleftrightarrow> (\<exists>n \<le> length (path_parts p).
     (\<forall>k \<le> n. private_dir (cs_stat fs (path_of (is_rooted p) (take k (path_parts p))))) \<and>
     (\<forall>k \<le> length (path_parts p). n < k \<longrightarrow> cs_stat fs (path_of (is_rooted p) (take k (path_parts p))) = Stat_absent))"

definition private_file :: "stat_answer \<Rightarrow> bool" where
  "private_file a \<longleftrightarrow> (\<exists>info. a = Stat_ok info \<and> fi_regular info \<and> fi_owned info \<and> fi_perm info AND 63 = 0 \<and>
     fi_perm info AND 384 = 384)"

lemma check_ancestors_private:
  "check_ancestors fs rooted rp = None \<Longrightarrow> k \<le> length rp \<Longrightarrow> private_dir (cs_stat fs (path_of rooted (rev (drop k rp))))"
proof (induction rp arbitrary: k)
  case Nil
  then show ?case by (auto simp: check_ancestors.simps [of fs rooted "[]"] private_dir_def split: stat_answer.splits if_splits)
next
  case (Cons b rp)
  have "private_dir (cs_stat fs (path_of rooted (rev (b # rp))))" "check_ancestors fs rooted rp = None"
    using Cons.prems(1)
    by (auto simp: check_ancestors.simps [of fs rooted "b # rp"] private_dir_def split: stat_answer.splits if_splits)
  then show ?case using Cons by (cases k) auto
qed

lemma nearest_existing_absent:
  "nearest_existing fs rooted rp = Inr rp' \<Longrightarrow>
     \<exists>j \<le> length rp. rp' = drop j rp \<and> (\<forall>i < j. cs_stat fs (path_of rooted (rev (drop i rp))) = Stat_absent)"
proof (induction rp)
  case Nil
  then show ?case by (auto simp: nearest_existing.simps [of fs rooted "[]"] split: stat_answer.splits if_splits)
next
  case (Cons b rp)
  show ?case
  proof (cases "cs_stat fs (path_of rooted (rev (b # rp)))")
    case (Stat_ok info)
    then show ?thesis using Cons.prems
      by (auto simp: nearest_existing.simps [of fs rooted "b # rp"] split: if_splits intro: exI [of _ 0])
  next
    case Stat_absent
    then obtain j where j: "j \<le> length rp" "rp' = drop j rp" "\<forall>i < j. cs_stat fs (path_of rooted (rev (drop i rp))) = Stat_absent"
      using Cons by (auto simp: nearest_existing.simps [of fs rooted "b # rp"])
    then show ?thesis using Stat_absent
      by (intro exI [of _ "Suc j"]) (auto simp: less_Suc_eq_0_disj)
  next
    case (Stat_failed e)
    then show ?thesis using Cons.prems by (simp add: nearest_existing.simps [of fs rooted "b # rp"])
  qed
qed

lemma rev_drop_rev: "rev (drop k (rev ps)) = take (length ps - k) ps"
  by (simp add: rev_drop)

lemma validateExistingAncestors_private:
  assumes "validateExistingAncestors fs p = None"
  shows "private_ancestors fs p"
proof -
  let ?ps = "path_parts p" and ?r = "is_rooted p"
  obtain rp where rp: "nearest_existing fs ?r (rev ?ps) = Inr rp" "check_ancestors fs ?r rp = None"
    using assms by (auto simp: validateExistingAncestors_def split: sum.splits)
  obtain j where j: "j \<le> length ?ps" "rp = drop j (rev ?ps)"
    "\<forall>i < j. cs_stat fs (path_of ?r (rev (drop i (rev ?ps)))) = Stat_absent"
    using nearest_existing_absent [OF rp(1)] by auto
  let ?n = "length ?ps - j"
  have "private_dir (cs_stat fs (path_of ?r (take k ?ps)))" if "k \<le> ?n" for k
  proof -
    have "rev (drop (?n - k) rp) = take k ?ps" using that j by (simp add: rev_drop_rev)
    then show ?thesis using check_ancestors_private [OF rp(2), of "?n - k"] j(2) by simp
  qed
  moreover have "cs_stat fs (path_of ?r (take k ?ps)) = Stat_absent" if "k \<le> length ?ps" "?n < k" for k
  proof -
    have "length ?ps - k < j" using that by simp
    then have "cs_stat fs (path_of ?r (rev (drop (length ?ps - k) (rev ?ps)))) = Stat_absent" using j(3) by blast
    then show ?thesis using that by (simp add: rev_drop_rev)
  qed
  ultimately show ?thesis unfolding private_ancestors_def by (intro exI [of _ ?n]) auto
qed

lemma validateProxy_safe:
  assumes "validateProxy p = None"
  shows "(\<exists>host port ip. SplitHostPort (px_Listen p) = Inr (host, port) \<and> ParseIP host = Some ip \<and> IP_IsLoopback ip \<and>
       atoi port \<le> 65535) \<and>
     0 < px_MaxInMemoryBodyBytes p \<and> px_MaxInMemoryBodyBytes p \<le> px_MaxSpoolBodyBytes p \<and>
     px_MaxSpoolBodyBytes p \<le> 512 * 1024 * 1024"
  using assms unfolding validateProxy_def maxSpoolBodyBytes_def
  by (auto split: if_splits sum.splits option.splits prod.splits)

lemma resolve_clean: "resolveTargetOrParent fs p = Inr (r, x) \<Longrightarrow> filepath_Clean r = r"
proof -
  have "resolve_loop fs rooted rp missing = Inr r \<Longrightarrow> filepath_Clean r = r" for rooted rp missing
  proof (induction rp arbitrary: missing)
    case Nil
    then show ?case by (auto simp: resolve_loop.simps [of fs rooted "[]"] Let_def split: stat_answer.splits option.splits)
  next
    case (Cons b rp)
    then show ?case
      by (auto simp: resolve_loop.simps [of fs rooted "b # rp"] Let_def split: stat_answer.splits option.splits)
  qed
  then show "resolveTargetOrParent fs p = Inr (r, x) \<Longrightarrow> filepath_Clean r = r"
    by (auto simp: resolveTargetOrParent_def map_sum_id_Inr split: stat_answer.splits option.splits)
qed

lemma resolve_existing: "resolveTargetOrParent fs p = Inr (r, x) \<Longrightarrow> cs_lstat fs p = Stat_ok i \<Longrightarrow> x"
  by (auto simp: resolveTargetOrParent_def split: option.splits)

text \<open>
  What validation guarantees of the audit settings \<open>a\<close> for the configured path \<open>given\<close>: the audit path is the configured path, made
  absolute and with its links resolved, and a file that is there already is private.
\<close>

definition safe_audit :: "config_fs \<Rightarrow> string \<Rightarrow> Audit \<Rightarrow> bool" where
  "safe_audit fs given a \<longleftrightarrow> au_FailureMode a = AuditDeny \<and> \<not> (au_LogResourceARNs a \<and> au_HashResourceNames a) \<and>
     \<not> unsafeRuntimePath fs (au_Path a) \<and> private_ancestors fs (filepath_Dir (au_Path a)) \<and>
     (\<exists>expanded present. expandPath fs given = Inr expanded \<and>
       resolveTargetOrParent fs (filepath_Clean (filepath_Abs (cs_cwd fs) expanded)) = Inr (au_Path a, present) \<and>
       (\<forall>i. cs_lstat fs (filepath_Clean (filepath_Abs (cs_cwd fs) expanded)) = Stat_ok i \<longrightarrow>
          private_file (cs_stat fs (au_Path a))))"

lemma normalizeAndValidateAudit_safe:
  assumes "normalizeAndValidateAudit fs given = Inr a"
  shows "safe_audit fs (au_Path given) a"
proof -
  note g = assms [unfolded normalizeAndValidateAudit_def guard_Inr bind_result_Inr Let_def]
  then obtain expanded where e: "expandPath fs (au_Path given) = Inr expanded" by blast
  let ?abs = "filepath_Clean (filepath_Abs (cs_cwd fs) expanded)"
  obtain resolved ex where r: "resolveTargetOrParent fs ?abs = Inr (resolved, ex)"
    using g e by (cases "resolveTargetOrParent fs ?abs") (auto simp: guard_Inr)
  have m: "au_FailureMode given = AuditDeny" "\<not> (au_LogResourceARNs given \<and> au_HashResourceNames given)"
    and u: "\<not> unsafeRuntimePath fs resolved" and f: "ex \<longrightarrow> existing_file_error fs resolved = None"
    and d: "validateExistingAncestors fs (filepath_Dir resolved) = None"
    and a: "a = given\<lparr>au_Path := filepath_Clean resolved\<rparr>"
    using g e r by (auto simp: guard_Inr split: if_splits)
  have p: "au_Path a = resolved" using a resolve_clean [OF r] by simp
  have "private_file (cs_stat fs resolved)" if "cs_lstat fs ?abs = Stat_ok i" for i
    using f resolve_existing [OF r that] unfolding private_file_def existing_file_error_def
    by (auto split: stat_answer.splits if_splits)
  then show ?thesis
    using e r u d a m p validateExistingAncestors_private [OF d] by (auto simp: safe_audit_def)
qed

lemma Config_Validate_Inr:
  assumes "Config_Validate fs (Some c0) = Inr c"
  shows "validateUpstream (cg_Upstream c0) = None" "validateProxy (cg_Proxy c0) = None" "validatePolicy (cg_Policy c0) = None"
    "\<exists>a. normalizeAndValidateAudit fs (cg_Audit c0) = Inr a \<and> c = c0\<lparr>cg_Audit := a\<rparr>"
  using assms by (auto simp: Config_Validate_def split: option.splits if_splits sum.splits)

text \<open>The audit path of a document: its own, or the default where it has none.\<close>

definition document_audit_path :: "Config \<Rightarrow> yaml_node \<Rightarrow> string" where
  "document_audit_path cfg root =
     (if hasField root [''audit'', ''path''] then au_Path (cg_Audit cfg) else DefaultAuditPath)"

lemma default_audit_path: "au_Path (cg_Audit (applyDefaults cfg root)) = document_audit_path cfg root"
  by (simp add: applyDefaults_def document_audit_path_def unless_def Let_def)

lemma prefix_error_Inr [simp]: "prefix_error msg r = Inr x \<longleftrightarrow> r = Inr x"
  by (cases r) (simp_all add: prefix_error_def)

lemma Load_Inr:
  assumes "Load fs yl sha256 path = Inr c"
  shows "\<exists>canonical data root cfg c1. canonicalExistingPath fs path = Inr canonical \<and> validateOwnedMode fs canonical = None \<and>
     cs_read fs canonical = Some data \<and> decodeRoot yl data = Inr root \<and> yl_config yl data = Inr cfg \<and>
     Config_Validate fs (Some ((applyDefaults cfg root)\<lparr>cg_SourcePath := canonical\<rparr>)) = Inr c1 \<and>
     c = c1\<lparr>cg_PolicyHash := PolicyHash sha256 (cg_Policy c1)\<rparr>"
  using assms unfolding Load_def
  by (auto simp: bind_result_Inr split: option.splits if_splits)

text \<open>
  Property C31. A configuration that loads is safe to run with, whatever the document says: it comes from a regular file of the
  user that group and others cannot write; the listener is bound to a loopback address, the body limits are positive, ordered and bounded,
  the policy has passed validation and its default is to deny, its hash is recorded, an audit failure denies requests, and the
  audit path is the resolution of the path the document gives, or of the default path where it gives none; it lies
  outside the temporary and device directories, below directories that only their owner can write, and if the path
  exists it is a regular file of the user that its owner can read and write and that group and others cannot access.
\<close>

theorem loaded_config_safe:
  assumes "Load fs yl sha256 path = Inr c"
  shows "(\<exists>host port ip. SplitHostPort (px_Listen (cg_Proxy c)) = Inr (host, port) \<and> ParseIP host = Some ip \<and>
       IP_IsLoopback ip \<and> atoi port \<le> 65535) \<and>
     0 < px_MaxInMemoryBodyBytes (cg_Proxy c) \<and>
     px_MaxInMemoryBodyBytes (cg_Proxy c) \<le> px_MaxSpoolBodyBytes (cg_Proxy c) \<and>
     px_MaxSpoolBodyBytes (cg_Proxy c) \<le> 512 * 1024 * 1024 \<and>
     validatePolicy (cg_Policy c) = None \<and> po_Default (cg_Policy c) = PolicyDeny \<and>
     cg_PolicyHash c = PolicyHash sha256 (cg_Policy c) \<and>
     (\<exists>canonical info data root cfg. canonicalExistingPath fs path = Inr canonical \<and>
        cs_stat fs canonical = Stat_ok info \<and> fi_regular info \<and> fi_owned info \<and> fi_perm info AND 18 = 0 \<and>
        cs_read fs canonical = Some data \<and> decodeRoot yl data = Inr root \<and> yl_config yl data = Inr cfg \<and>
        safe_audit fs (document_audit_path cfg root) (cg_Audit c))"
proof -
  obtain canonical data root cfg c1 where l: "canonicalExistingPath fs path = Inr canonical" "validateOwnedMode fs canonical = None"
    "cs_read fs canonical = Some data" "decodeRoot yl data = Inr root" "yl_config yl data = Inr cfg"
    and v0: "Config_Validate fs (Some ((applyDefaults cfg root)\<lparr>cg_SourcePath := canonical\<rparr>)) = Inr c1"
    and c: "c = c1\<lparr>cg_PolicyHash := PolicyHash sha256 (cg_Policy c1)\<rparr>"
    using Load_Inr [OF assms] by blast
  let ?c0 = "(applyDefaults cfg root)\<lparr>cg_SourcePath := canonical\<rparr>"
  obtain a where a: "normalizeAndValidateAudit fs (cg_Audit ?c0) = Inr a" "c1 = ?c0\<lparr>cg_Audit := a\<rparr>"
    using Config_Validate_Inr(4) [OF v0] by blast
  note v = Config_Validate_Inr(2,3) [OF v0]
  have "po_Default (cg_Policy ?c0) = PolicyDeny" using v(2) by (auto simp: validatePolicy_def split: if_splits)
  moreover have "safe_audit fs (document_audit_path cfg root) (cg_Audit c)"
    using normalizeAndValidateAudit_safe [OF a(1)] a(2) c by (simp add: default_audit_path)
  moreover have "\<exists>info. cs_stat fs canonical = Stat_ok info \<and> fi_regular info \<and> fi_owned info \<and> fi_perm info AND 18 = 0"
    using l(2) by (auto simp: validateOwnedMode_def split: stat_answer.splits if_splits)
  ultimately show ?thesis
    using v c a(2) l validateProxy_safe [OF v(1)] by auto
qed

section \<open>A sample configuration\<close>

definition dir_info :: file_info where
  "dir_info = \<lparr>fi_regular = False, fi_dir = True, fi_perm = 493, fi_owned = False\<rparr>"

definition config_info :: file_info where
  "config_info = \<lparr>fi_regular = True, fi_dir = False, fi_perm = 384, fi_owned = True\<rparr>"

definition sample_stat :: "string \<Rightarrow> stat_answer" where
  "sample_stat p = (if p = ''/'' then Stat_ok dir_info else if p = ''/k.yaml'' then Stat_ok config_info else Stat_absent)"

definition sample_fs :: config_fs where
  "sample_fs = \<lparr>cs_home = Some ''/home'', cs_cwd = ''/'', cs_tmp = ''/tmp'', cs_eval = Some, cs_lstat = sample_stat,
     cs_stat = sample_stat, cs_read = (\<lambda>_. Some [])\<rparr>"

definition sample_config :: Config where
  "sample_config = \<lparr>cg_APIVersion = APIVersion, cg_Kind = Kind,
     cg_Upstream = \<lparr>up_Profile = ''dev'', up_AssumeRoleARN = [], up_ExternalID = [], up_SourceIdentity = [],
       up_RoleSessionName = [], up_DurationSeconds = 0, up_Region = ''us-east-1''\<rparr>,
     cg_Proxy = \<lparr>px_Listen = [], px_NonAWSTraffic = [], px_UpstreamProxy = [], px_MaxInMemoryBodyBytes = 0,
       px_MaxSpoolBodyBytes = 0\<rparr>,
     cg_Policy = \<lparr>po_Default = [], po_Rules = []\<rparr>,
     cg_Audit = \<lparr>au_Path = [], au_Fsync = [], au_FailureMode = [], au_LogResourceARNs = False, au_HashResourceNames = False\<rparr>,
     cg_SourcePath = [], cg_PolicyHash = []\<rparr>"

definition sample_yaml :: yaml_library where
  "sample_yaml = \<lparr>yl_documents = (\<lambda>_. ([Yaml_node MappingNode ''!!map'' [] []], None)), yl_config = (\<lambda>_. Inr sample_config)\<rparr>"

lemma sample_audit_path:
  "expandPath sample_fs DefaultAuditPath = Inr ''/home/.kordn/audit/events.jsonl''"
  "filepath_Clean (filepath_Abs ''/'' ''/home/.kordn/audit/events.jsonl'') = ''/home/.kordn/audit/events.jsonl''"
  "\<not> unsafeRuntimePath sample_fs ''/home/.kordn/audit/events.jsonl''"
  "resolveTargetOrParent sample_fs ''/home/.kordn/audit/events.jsonl'' = Inr (''/home/.kordn/audit/events.jsonl'', False)"
  "validateExistingAncestors sample_fs (filepath_Dir ''/home/.kordn/audit/events.jsonl'') = None"
  by code_simp+

lemma sample_config_canonical: "canonicalExistingPath sample_fs ''/k.yaml'' = Inr ''/k.yaml''"
  by code_simp

lemma sample_owned: "validateOwnedMode sample_fs ''/k.yaml'' = None"
  by (simp add: validateOwnedMode_def sample_fs_def sample_stat_def config_info_def)

lemmas sample_source = sample_config_canonical sample_owned

lemma sample_listen:
  "SplitHostPort DefaultListen = Inr (''127.0.0.1'', ''0'')" "ParseIP ''127.0.0.1'' = Some (ipv4_mapped @ [127, 0, 0, 1])"
  "decimalPort ''0''" "atoi ''0'' = 0"
  by code_simp+

lemma sample_upstream:
  "profilePattern ''dev''" "\<not> equal_fold ''dev'' ''default''" "configRegionPattern ''us-east-1''"
  "identityPattern DefaultRoleSessionName"
  by code_simp+

definition loaded_sample :: Config where
  "loaded_sample = applyDefaults sample_config (Yaml_node MappingNode ''!!map'' [] [])"

lemma sample_config_fields: "hasField (Yaml_node MappingNode ''!!map'' [] []) [a, b] = False"
  by (simp add: hasField_def)

lemma sample_validate:
  "\<exists>c. Config_Validate sample_fs (Some (loaded_sample\<lparr>cg_SourcePath := x\<rparr>)) = Inr c"
proof -
  let ?c = "loaded_sample\<lparr>cg_SourcePath := x\<rparr>"
  have "validateUpstream (cg_Upstream ?c) = None"
    using sample_upstream
    by (simp add: loaded_sample_def applyDefaults_def sample_config_fields sample_config_def unless_def validateUpstream_def
        maxProfileLength_def DefaultRoleDurationSeconds_def) (simp add: DefaultRoleSessionName_def)
  moreover have "validateProxy (cg_Proxy ?c) = None"
    using sample_listen
    by (simp add: loaded_sample_def applyDefaults_def sample_config_fields sample_config_def unless_def validateProxy_def
        IP_IsLoopback_def IP_To4_def ipv4_mapped_def maxMemoryBodyBytes_def maxSpoolBodyBytes_def
        DefaultMaxInMemoryBodyBytes_def DefaultMaxSpoolBodyBytes_def) (simp add: DefaultListen_def)
  moreover have "validatePolicy (cg_Policy ?c) = None"
    by (simp add: loaded_sample_def applyDefaults_def sample_config_fields sample_config_def unless_def validatePolicy_def)
  moreover have "\<exists>a. normalizeAndValidateAudit sample_fs (cg_Audit ?c) = Inr a"
    using sample_audit_path
    by (simp add: loaded_sample_def applyDefaults_def sample_config_fields sample_config_def unless_def normalizeAndValidateAudit_def
        bind_result_def maxAuditPathLength_def DefaultAuditHashResourceNames_def)
      (simp add: sample_fs_def DefaultAuditPath_def)
  moreover have "cg_APIVersion ?c = APIVersion" "cg_Kind ?c = Kind"
    by (simp_all add: loaded_sample_def applyDefaults_def sample_config_def)
  ultimately show ?thesis by (auto simp: Config_Validate_def)
qed

lemma sample_loads: "\<exists>c. Load sample_fs sample_yaml (\<lambda>x. x) ''/k.yaml'' = Inr c"
proof -
  obtain c where c: "Config_Validate sample_fs (Some (loaded_sample\<lparr>cg_SourcePath := ''/k.yaml''\<rparr>)) = Inr c"
    using sample_validate by blast
  have "decodeRoot sample_yaml [] = Inr (Yaml_node MappingNode ''!!map'' [] [])" "cs_read sample_fs p = Some []" for p
    by (simp_all add: decodeRoot_def sample_yaml_def sample_fs_def)
  moreover have "yl_config sample_yaml [] = Inr sample_config" by (simp add: sample_yaml_def)
  ultimately show ?thesis
    using sample_source c by (simp add: Load_def prefix_error_def bind_result_def loaded_sample_def [symmetric])
qed

theorem loaded_config_safe_witness:
  "\<exists>c. Load sample_fs sample_yaml (\<lambda>x. x) ''/k.yaml'' = Inr c \<and> po_Default (cg_Policy c) = PolicyDeny \<and>
     0 < px_MaxInMemoryBodyBytes (cg_Proxy c)"
proof -
  obtain c where c: "Load sample_fs sample_yaml (\<lambda>x. x) ''/k.yaml'' = Inr c" using sample_loads by blast
  then show ?thesis using loaded_config_safe [OF c] by blast
qed

end
