(* ===== verification/Iam_Catalog.thy ===== *)
theory Iam_Catalog
  imports Aws_Types "HOL-Library.Word"
begin

text \<open>
  The values the authorization catalog publishes (\<^verbatim>\<open>internal/iamlivecatalog/types.go\<close>): the wire
  evidence of an API operation, its compiled static plan of action mappings and definitions, and
  the diagnostics of the catalog's own validation. Copies are values here, so the \<^verbatim>\<open>Clone\<close>
  methods of these types have no counterpart. Occurrence numbers are \<^verbatim>\<open>uint32\<close>.
\<close>

type_synonym uint32 = "32 word"

definition EvidenceKnown :: string where "EvidenceKnown = ''known''"
definition EvidenceAbsent :: string where "EvidenceAbsent = ''absent''"
definition EvidencePermissionless :: string where "EvidencePermissionless = ''permissionless''"
definition EvidenceUndocumented :: string where "EvidenceUndocumented = ''undocumented''"
definition EvidenceContradictory :: string where "EvidenceContradictory = ''contradictory''"

section \<open>Wire evidence\<close>

record Route =
  rt_Method :: string
  rt_URI :: string
  rt_ResponseCode :: int
  rt_QueryDiscriminator :: string
  rt_TargetPrefix :: string
  rt_JSONVersion :: string

record QueryBinding =
  qb_Member :: string
  qb_LocationName :: string
  qb_Required :: bool

record WireOperation =
  wo_Name :: string
  wo_State :: string
  wo_Route :: Route
  wo_QueryBindings :: "QueryBinding list"

record WireService =
  ws_EndpointPrefix :: string
  ws_APIVersion :: string
  ws_TargetPrefix :: string
  ws_Protocols :: "string list"
  ws_Protocol :: string
  ws_Operations :: "WireOperation list"

section \<open>Mappings and definitions\<close>

datatype Condition = Condition
  (cn_LHS: string) (cn_Op: string) (cn_RHS: string) (cn_And: "Condition option")

record ResourceMapping =
  rm_Parameter :: string
  rm_Template :: string
  rm_Condition :: "Condition option"

record ActionMapping =
  am_occurrenceID :: uint32
  am_Action :: string
  am_State :: string
  am_Resources :: "ResourceMapping list"
  am_ResourceARNMappings :: "(string \<times> string) list"
  am_Condition :: "Condition option"
  am_ConditionMappings :: "(string \<times> ResourceMapping) list"
  am_ARNOverride :: string
  am_Notice :: string

record ResourceType =
  ry_Name :: string
  ry_ConditionKeys :: "string list"
  ry_DependentActions :: "string list"

record ActionDefinition =
  ad_Service :: string
  ad_Name :: string
  ad_AccessLevel :: string
  ad_Description :: string
  ad_Resources :: "ResourceType list"
  ad_State :: string

section \<open>Static plans\<close>

record ValidationDiagnostic =
  vd_Code :: string
  vd_Service :: string
  vd_Operation :: string
  vd_Action :: string
  vd_RelatedAction :: string
  vd_Occurrence :: uint32
  vd_RelatedOccur :: uint32
  vd_Detail :: string

record ActionReference =
  ar_Service :: string
  ar_Name :: string

record StaticMapping =
  sm_Action :: ActionReference
  sm_Mapping :: ActionMapping
  sm_Definition :: ActionDefinition
  sm_Dependent :: bool

definition StaticMapping_Occurrence :: "StaticMapping \<Rightarrow> uint32" where
  "StaticMapping_Occurrence m = am_occurrenceID (sm_Mapping m)"

record StaticPlan =
  pl_Service :: string
  pl_Operation :: string
  pl_Occurrence :: uint32
  pl_Mappings :: "StaticMapping list"
  pl_Diagnostics :: "ValidationDiagnostic list"

definition StaticPlan_Valid :: "StaticPlan \<Rightarrow> bool" where
  "StaticPlan_Valid p \<longleftrightarrow> length (pl_Diagnostics p) = 0"

record Operation =
  op_Service :: string
  op_Name :: string
  op_InputShape :: string
  op_OutputShape :: string
  op_Route :: Route
  op_QueryBindings :: "QueryBinding list"
  op_Mappings :: "ActionMapping list"
  op_MappingState :: string
  op_State :: string

record OperationOccurrence =
  oo_Service :: WireService
  oo_Operation :: Operation
  oo_Plan :: StaticPlan

end
