(* ===== verification/Wire_Index.thy ===== *)
theory Wire_Index
  imports Iam_Catalog Go_Http "HOL-Library.AList"
begin

text \<open>
  The wire index of \<^verbatim>\<open>internal/awsrequest/wire_index.go\<close> and the matchers that select an API
  operation from the wire identity of a request (\<^verbatim>\<open>decode_restjson.go\<close>, \<^verbatim>\<open>decode_query.go\<close> and
  the route part of \<^verbatim>\<open>decode_json.go\<close>).

  A Go map that is ranged over is an association list with distinct keys whose order stands for
  the order of the iteration; a map that is only looked up is a function, with the zero value for
  an absent key. A REST match that neither fails nor matches is \<^term>\<open>Inr None\<close>.
\<close>

type_synonym url_values = "(string \<times> string list) list"
type_synonym parameters = "(string \<times> Value) list"

definition string_value :: "string \<Rightarrow> Value" where
  "string_value s = Value ValueString s False 0 (Finite 0 0) [] []"

text \<open>\<^verbatim>\<open>url.QueryUnescape\<close>.\<close>

fun query_unescape :: "string \<Rightarrow> string option" where
  "query_unescape [] = Some []"
| "query_unescape (c # s) =
     (if c = CHR ''+'' then map_option ((#) CHR '' '') (query_unescape s)
      else if c \<noteq> CHR ''%'' then map_option ((#) c) (query_unescape s)
      else (case s of
              a # b # r \<Rightarrow>
                (case (unhex a, unhex b) of
                   (Some x, Some y) \<Rightarrow> map_option ((#) (char_of (x * 16 + y))) (query_unescape r)
                 | _ \<Rightarrow> None)
            | _ \<Rightarrow> None))"

section \<open>Limits\<close>

record DecodeLimits =
  dl_MaxBodyBytes :: int
  dl_MaxParameters :: int
  dl_MaxDepth :: int
  dl_MaxTokenBytes :: int
  dl_MaxPathBytes :: int

definition DefaultDecodeLimits :: DecodeLimits where
  "DefaultDecodeLimits = \<lparr>dl_MaxBodyBytes = 8388608, dl_MaxParameters = 2048, dl_MaxDepth = 32,
     dl_MaxTokenBytes = 4096, dl_MaxPathBytes = 8192\<rparr>"

section \<open>REST routes\<close>

definition restPathParts :: "string \<Rightarrow> string list option" where
  "restPathParts path =
     (if path = ''/'' then Some []
      else if \<not> has_prefix path ''/'' then None
      else let path' = trim_suffix path ''/'' in
        if path' = [] then None
        else let parts = split_byte CHR ''/'' (tl path') in
          if list_ex (\<lambda>part. part = []) parts then None else Some parts)"

definition validPathValue :: "string \<Rightarrow> DecodeLimits \<Rightarrow> bool" where
  "validPathValue v l \<longleftrightarrow>
     v \<noteq> [] \<and> int (length v) \<le> dl_MaxTokenBytes l \<and> \<not> contains_any v [CHR 0x00, CHR 0x0D, CHR 0x0A, CHR ''*'', CHR ''?'']"

definition validateRESTQuery :: "url_values \<Rightarrow> DecodeLimits \<Rightarrow> go_error" where
  "validateRESTQuery q l =
     (if int (length q) > dl_MaxParameters l then Some ''REST query parameter limit exceeded''
      else first_err (\<lambda>(key, vals).
        if key = [] \<or> int (length key) > dl_MaxTokenBytes l \<or> length vals \<noteq> 1
           \<or> int (length (vals ! 0)) > dl_MaxTokenBytes l
        then Some ''malformed REST query parameter'' else None) q)"

text \<open>The loop over the fields of the fixed query of a route template.\<close>

fun template_query :: "string list \<Rightarrow> url_values \<Rightarrow> url_values go_result" where
  "template_query [] want = Inr want"
| "template_query (field # fs) want =
     (let parts = splitn_byte 2 CHR ''='' field in
      case query_unescape (parts ! 0) of
        None \<Rightarrow> Inl ''REST catalog query is malformed''
      | Some key \<Rightarrow>
          if key = [] then Inl ''REST catalog query is malformed''
          else (case (if length parts = 2 then query_unescape (parts ! 1) else Some []) of
                  None \<Rightarrow> Inl ''REST catalog query is malformed''
                | Some val \<Rightarrow>
                    if key \<in> fst ` set want then Inl ''REST catalog query is ambiguous''
                    else template_query fs (want @ [(key, [val])])))"

definition modeledWireQuery :: "string \<Rightarrow> bool \<Rightarrow> url_values option" where
  "modeledWireQuery raw present =
     (if \<not> present \<or> raw = [] then Some []
      else case template_query (split_byte CHR ''&'' raw) [] of Inl _ \<Rightarrow> None | Inr fixed \<Rightarrow> Some fixed)"

definition wireQueryValuesMatch :: "url_values \<Rightarrow> url_values \<Rightarrow> bool" where
  "wireQueryValuesMatch fixed actual \<longleftrightarrow> list_all (\<lambda>(key, want). map_of actual key = Some want) fixed"

text \<open>The name of a template segment \<^verbatim>\<open>{name}\<close> or \<^verbatim>\<open>{name+}\<close>, and whether it is greedy.\<close>

definition is_label :: "string \<Rightarrow> bool" where
  "is_label part \<longleftrightarrow> has_prefix part ''{'' \<and> has_suffix part ''}''"

definition label_of :: "string \<Rightarrow> string \<times> bool" where
  "label_of part =
     (let name = trim_suffix (trim_prefix part ''{'') ''}''; greedy = has_suffix name ''+'' in
      (if greedy then trim_suffix name ''+'' else name, greedy))"

fun decode_segments :: "DecodeLimits \<Rightarrow> string list \<Rightarrow> string list option" where
  "decode_segments l [] = Some []"
| "decode_segments l (s # ss) =
     (case path_unescape s of
        None \<Rightarrow> None
      | Some decoded \<Rightarrow> if \<not> validPathValue decoded l then None
                        else map_option ((#) decoded) (decode_segments l ss))"

fun match_parts ::
  "DecodeLimits \<Rightarrow> string list \<Rightarrow> string list \<Rightarrow> parameters \<Rightarrow> (parameters option) go_result" where
  "match_parts l [] rest params = Inr (if rest = [] then Some params else None)"
| "match_parts l (part # templ) rest params =
     (if is_label part then
        (case label_of part of (name, greedy) \<Rightarrow>
           if \<not> validOperation name \<or> (greedy \<and> templ \<noteq> []) then Inl ''REST catalog route is malformed''
           else let count = (if greedy then length rest else 1) in
             if count < 1 \<or> count > length rest then Inr None
             else (case decode_segments l (take count rest) of
                     None \<Rightarrow> Inl ''REST path parameter is malformed''
                   | Some vals \<Rightarrow> match_parts l templ (drop count rest)
                                    (AList.update name (string_value (join ''/'' vals)) params)))
      else case rest of
             [] \<Rightarrow> Inr None
           | r # rs \<Rightarrow> if r \<noteq> part then Inr None else match_parts l templ rs params)"

definition trailing_slash :: "string \<Rightarrow> bool" where
  "trailing_slash path \<longleftrightarrow> path \<noteq> ''/'' \<and> has_suffix path ''/''"

definition matchRESTURI ::
  "string \<Rightarrow> string \<Rightarrow> url_values \<Rightarrow> DecodeLimits \<Rightarrow> (parameters option) go_result" where
  "matchRESTURI uri requestPath q l =
     (case cut CHR ''?'' uri of (templatePath, templateQuery, _) \<Rightarrow>
        if trailing_slash templatePath \<noteq> trailing_slash requestPath then Inr None
        else case restPathParts templatePath of
          None \<Rightarrow> Inl ''REST catalog route is malformed''
        | Some templateParts \<Rightarrow>
        (case restPathParts requestPath of
          None \<Rightarrow> Inl ''REST path is malformed''
        | Some requestParts \<Rightarrow>
        (case match_parts l templateParts requestParts [] of
          Inl e \<Rightarrow> Inl e
        | Inr None \<Rightarrow> Inr None
        | Inr (Some params) \<Rightarrow>
          (case (if templateQuery \<noteq> [] then template_query (split_byte CHR ''&'' templateQuery) [] else Inr []) of
             Inl e \<Rightarrow> Inl e
           | Inr want \<Rightarrow> Inr (if wireQueryValuesMatch want q then Some params else None)))))"

text \<open>The bindings of the query members, refused when a name is empty, too long or repeated.\<close>

fun modeled_bindings :: "DecodeLimits \<Rightarrow> QueryBinding list \<Rightarrow> (string \<times> QueryBinding) list \<Rightarrow>
    (string \<times> QueryBinding) list option" where
  "modeled_bindings l [] modeled = Some modeled"
| "modeled_bindings l (b # bs) modeled =
     (if qb_LocationName b = [] \<or> int (length (qb_LocationName b)) > dl_MaxTokenBytes l then None
      else if qb_LocationName b \<in> fst ` set modeled then None
      else modeled_bindings l bs (modeled @ [(qb_LocationName b, b)]))"

definition matchRESTQueryBindingsFixed ::
  "url_values \<Rightarrow> QueryBinding list \<Rightarrow> url_values \<Rightarrow> DecodeLimits \<Rightarrow> bool" where
  "matchRESTQueryBindingsFixed fixed bindings q l =
     (case modeled_bindings l bindings [] of
        None \<Rightarrow> False
      | Some modeled \<Rightarrow>
          list_all (\<lambda>(key, _). key \<in> fst ` set fixed \<or> key \<in> fst ` set modeled) q \<and>
          list_all (\<lambda>(key, b). qb_Required b \<longrightarrow> key \<in> fst ` set q) modeled)"

definition matchRESTQueryBindings ::
  "string \<Rightarrow> QueryBinding list \<Rightarrow> url_values \<Rightarrow> DecodeLimits \<Rightarrow> bool" where
  "matchRESTQueryBindings uri bindings q l =
     (case cut CHR ''?'' uri of (_, query, present) \<Rightarrow>
        (case (if present then modeledWireQuery query True else Some []) of
           None \<Rightarrow> False
         | Some fixed \<Rightarrow> matchRESTQueryBindingsFixed fixed bindings q l))"

definition MatchRESTRoute ::
  "string \<Rightarrow> string \<Rightarrow> url_values \<Rightarrow> QueryBinding list \<Rightarrow> DecodeLimits \<Rightarrow> (parameters option) go_result" where
  "MatchRESTRoute uri requestPath q bindings l =
     (if int (length requestPath) > dl_MaxPathBytes l \<or> \<not> has_prefix requestPath ''/''
      then Inl ''REST path is malformed''
      else case validateRESTQuery q l of
        Some e \<Rightarrow> Inl e
      | None \<Rightarrow>
          (case matchRESTURI uri requestPath q l of
             Inl e \<Rightarrow> Inl e
           | Inr None \<Rightarrow> Inr None
           | Inr (Some params) \<Rightarrow>
               Inr (if matchRESTQueryBindings uri bindings q l then Some params else None)))"

section \<open>The index\<close>

definition catalogProtocol :: "string \<Rightarrow> string \<Rightarrow> string option" where
  "catalogProtocol protocol jsonVersion =
     (if protocol = ''query'' then Some ProtocolQuery
      else if protocol = ''ec2'' then Some ProtocolEC2Query
      else if protocol = ''rest-json'' then Some ProtocolRESTJSON
      else if protocol = ''rest-xml'' then Some ProtocolRESTXML
      else if protocol = ''json'' then
        (if jsonVersion = ''1.0'' then Some ProtocolJSON10
         else if jsonVersion = ''1.1'' then Some ProtocolJSON11 else None)
      else None)"

record protocolEvidence =
  pe_protocol :: string
  pe_valid :: bool

record wireCandidate =
  wc_name :: string
  wc_apiVersion :: string
  wc_targetPrefix :: string
  wc_protocol :: string
  wc_method :: string
  wc_routeTarget :: string
  wc_queryBindings :: "QueryBinding list"
  wc_fixedQuery :: url_values
  wc_routePath :: string
  wc_known :: bool
  wc_routeValid :: bool

text \<open>The four components of the key records, in the order of their fields.\<close>

type_synonym index_key = "string \<times> string \<times> string \<times> string"

record wireIndex =
  wi_authority :: "string \<Rightarrow> protocolEvidence list"
  wi_query :: "index_key \<Rightarrow> wireCandidate list"
  wi_json :: "index_key \<Rightarrow> wireCandidate list"
  wi_variants :: "index_key \<Rightarrow> uint32"
  wi_rest :: "index_key \<Rightarrow> wireCandidate list"
  wi_modeled :: "index_key \<Rightarrow> wireCandidate list"

definition empty_index :: wireIndex where
  "empty_index = \<lparr>wi_authority = (\<lambda>_. []), wi_query = (\<lambda>_. []), wi_json = (\<lambda>_. []),
     wi_variants = (\<lambda>_. 0), wi_rest = (\<lambda>_. []), wi_modeled = (\<lambda>_. [])\<rparr>"

definition push :: "'k \<Rightarrow> 'v \<Rightarrow> ('k \<Rightarrow> 'v list) \<Rightarrow> 'k \<Rightarrow> 'v list" where
  "push k v m = m(k := m k @ [v])"

definition indexRouteQuery :: "string \<Rightarrow> (url_values \<times> string) option" where
  "indexRouteQuery uri =
     (case cut CHR ''?'' uri of (path, raw, present) \<Rightarrow>
        (case modeledWireQuery raw present of
           None \<Rightarrow> None
         | Some fixed \<Rightarrow> Some (fixed, if path = [] then ''/'' else path)))"

definition wire_candidate ::
  "WireService \<Rightarrow> WireOperation \<Rightarrow> string \<Rightarrow> url_values \<Rightarrow> string \<Rightarrow> wireCandidate" where
  "wire_candidate service original protocol fixed routePath =
     \<lparr>wc_name = wo_Name original, wc_apiVersion = ws_APIVersion service,
      wc_targetPrefix = ws_TargetPrefix service, wc_protocol = protocol,
      wc_method = rt_Method (wo_Route original), wc_routeTarget = rt_TargetPrefix (wo_Route original),
      wc_queryBindings = wo_QueryBindings original, wc_fixedQuery = fixed, wc_routePath = routePath,
      wc_known = (wo_State original = EvidenceKnown), wc_routeValid = (rt_URI (wo_Route original) \<noteq> [])\<rparr>"

text \<open>The tests of the protocols as the code groups them.\<close>

definition json_protocol :: "string \<Rightarrow> bool" where
  "json_protocol p \<longleftrightarrow> p = ProtocolJSON10 \<or> p = ProtocolJSON11"

definition query_protocol :: "string \<Rightarrow> bool" where
  "query_protocol p \<longleftrightarrow> p = ProtocolQuery \<or> p = ProtocolEC2Query"

definition rest_protocol :: "string \<Rightarrow> bool" where
  "rest_protocol p \<longleftrightarrow> p = ProtocolRESTJSON \<or> p = ProtocolRESTXML"

text \<open>
  The entry of one candidate into the buckets of its protocol. A JSON or Query candidate is also
  entered under its modelled route.
\<close>

definition add_candidate :: "WireService \<Rightarrow> WireOperation \<Rightarrow> string \<Rightarrow> wireCandidate \<Rightarrow> wireIndex \<Rightarrow> wireIndex" where
  "add_candidate service original protocol candidate idx =
     (let pre = ws_EndpointPrefix service; name = wo_Name original; route = wo_Route original;
          method = to_upper (rt_Method route); path = wc_routePath candidate;
          idx1 = (if json_protocol protocol then
                    idx\<lparr>wi_json := push (pre, protocol, ws_TargetPrefix service, name) candidate (wi_json idx),
                        wi_variants :=
                          (if rt_TargetPrefix route \<noteq> [] then
                             (let key = (pre, protocol, name, rt_TargetPrefix route)
                              in (wi_variants idx)(key := wi_variants idx key + 1))
                           else wi_variants idx)\<rparr>
                  else idx);
          idx2 = (if query_protocol protocol then
                    idx1\<lparr>wi_query := push (pre, protocol, ws_APIVersion service, name) candidate (wi_query idx1)\<rparr>
                  else if rest_protocol protocol then
                    idx1\<lparr>wi_rest := push (pre, protocol, method, []) candidate (wi_rest idx1)\<rparr>
                  else if json_protocol protocol then
                    idx1\<lparr>wi_modeled := push (pre, protocol, path, method) candidate (wi_modeled idx1)\<rparr>
                  else idx1)
      in if query_protocol protocol then
           idx2\<lparr>wi_modeled := push (pre, protocol, path, method) candidate (wi_modeled idx2)\<rparr>
         else idx2)"

definition authority_key :: "WireService \<Rightarrow> WireOperation \<Rightarrow> string" where
  "authority_key service original = join [CHR 0x00]
     [ws_EndpointPrefix service, ws_APIVersion service, ws_TargetPrefix service, ws_Protocol service,
      rt_JSONVersion (wo_Route original)]"

definition add_authority ::
  "WireService \<Rightarrow> WireOperation \<Rightarrow> string set \<times> wireIndex \<Rightarrow> string set \<times> wireIndex" where
  "add_authority service original = (\<lambda>(models, idx).
     (let key = authority_key service original in
      if ws_Protocol service = ''json'' \<or> key \<notin> models then
        (let protocol = catalogProtocol (ws_Protocol service) (rt_JSONVersion (wo_Route original));
             evidence = \<lparr>pe_protocol = case_option [] id protocol, pe_valid = (protocol \<noteq> None)\<rparr>
         in (insert key models,
             idx\<lparr>wi_authority := push (ws_EndpointPrefix service) evidence (wi_authority idx)\<rparr>))
      else (models, idx)))"

definition visit_operation ::
  "WireService \<Rightarrow> WireOperation \<Rightarrow> string set \<times> wireIndex \<Rightarrow> (string set \<times> wireIndex) go_result" where
  "visit_operation service original st =
     (case add_authority service original st of (models, idx) \<Rightarrow>
        (case indexRouteQuery (rt_URI (wo_Route original)) of
           None \<Rightarrow> Inl ''wire index: malformed fixed route query''
         | Some (fixed, routePath) \<Rightarrow>
             (case catalogProtocol (ws_Protocol service) (rt_JSONVersion (wo_Route original)) of
                None \<Rightarrow> Inr (models, idx)
              | Some protocol \<Rightarrow>
                  Inr (models, add_candidate service original protocol
                         (wire_candidate service original protocol fixed routePath) idx))))"

fun visit_operations ::
  "(WireService \<times> WireOperation) list \<Rightarrow> string set \<times> wireIndex \<Rightarrow> (string set \<times> wireIndex) go_result" where
  "visit_operations [] st = Inr st"
| "visit_operations ((service, operation) # ops) st =
     (case visit_operation service operation st of Inl e \<Rightarrow> Inl e | Inr st' \<Rightarrow> visit_operations ops st')"

text \<open>
  The argument is the sequence of pairs the catalog's \<^verbatim>\<open>ForEachWireOperation\<close> passes to its visitor;
  \<^const>\<open>None\<close> is the nil source.
\<close>

definition buildWireIndex :: "(WireService \<times> WireOperation) list option \<Rightarrow> wireIndex go_result" where
  "buildWireIndex source =
     (case source of
        None \<Rightarrow> Inl ''wire catalog is unavailable''
      | Some ops \<Rightarrow> map_sum id snd (visit_operations ops ({}, empty_index)))"

definition indexRouteCandidates ::
  "wireIndex option \<Rightarrow> string \<Rightarrow> string \<Rightarrow> string \<Rightarrow> string \<Rightarrow> wireCandidate list" where
  "indexRouteCandidates idx service protocol path method =
     (case idx of None \<Rightarrow> [] | Some i \<Rightarrow> wi_modeled i (service, protocol, path, to_upper method))"

section \<open>Selecting an operation\<close>

definition authoritativeProtocolFor :: "wireIndex option \<Rightarrow> string \<Rightarrow> string option" where
  "authoritativeProtocolFor c service =
     (case c of
        None \<Rightarrow> None
      | Some idx \<Rightarrow>
          if service = [] \<or> list_ex (\<lambda>e. \<not> pe_valid e) (wi_authority idx service) then None
          else (case remdups (map pe_protocol (wi_authority idx service)) of
                  [found] \<Rightarrow> Some found
                | _ \<Rightarrow> None))"

definition catalogQueryOperation :: "wireIndex option \<Rightarrow> string \<Rightarrow> string \<Rightarrow> string \<Rightarrow> string \<Rightarrow> bool" where
  "catalogQueryOperation c service version protocol action =
     (case c of
        None \<Rightarrow> False
      | Some idx \<Rightarrow>
          if service = [] \<or> version = [] \<or> action = [] then False
          else let candidates = wi_query idx (service, protocol, version, action)
               in length candidates = 1 \<and> wc_known (candidates ! 0))"

definition candidate_malformed :: "string \<Rightarrow> wireCandidate \<Rightarrow> bool" where
  "candidate_malformed service c \<longleftrightarrow>
     \<not> validEvidenceService service \<or> \<not> validEvidenceOperation (wc_name c) \<or> wc_method c = [] \<or> \<not> wc_routeValid c"

fun rest_scan :: "string \<Rightarrow> string \<Rightarrow> string \<Rightarrow> url_values \<Rightarrow> DecodeLimits \<Rightarrow> wireCandidate list \<Rightarrow>
    (string \<times> parameters) list \<Rightarrow> (string \<times> parameters) list go_result" where
  "rest_scan service path method q l [] found = Inr found"
| "rest_scan service path method q l (c # cs) found =
     (if candidate_malformed service c then Inl ''REST catalog route is malformed''
      else if \<not> equal_fold (wc_method c) method then rest_scan service path method q l cs found
      else case matchRESTURI (wc_routePath c) path q l of
        Inl e \<Rightarrow> Inl e
      | Inr m \<Rightarrow>
          (case (if wireQueryValuesMatch (wc_fixedQuery c) q
                    \<and> matchRESTQueryBindingsFixed (wc_fixedQuery c) (wc_queryBindings c) q l
                 then m else None) of
             None \<Rightarrow> rest_scan service path method q l cs found
           | Some params \<Rightarrow>
               if \<not> wc_known c then Inl ''REST operation is contradictory or unsupported''
               else rest_scan service path method q l cs (found @ [(wc_name c, params)])))"

definition restOperationFromCatalog ::
  "string \<Rightarrow> string \<Rightarrow> string \<Rightarrow> url_values \<Rightarrow> string \<Rightarrow> wireIndex option \<Rightarrow> DecodeLimits \<Rightarrow>
     (string \<times> parameters) go_result" where
  "restOperationFromCatalog service path method q protocol c l =
     (if int (length path) > dl_MaxPathBytes l \<or> \<not> has_prefix path ''/'' then Inl ''REST path is malformed''
      else case validateRESTQuery q l of
        Some e \<Rightarrow> Inl e
      | None \<Rightarrow>
          (let method' = to_upper method in
           case c of
             None \<Rightarrow> Inl ''REST operation is unavailable''
           | Some idx \<Rightarrow>
               (case rest_scan service path method' q l (wi_rest idx (service, protocol, method', [])) [] of
                  Inl e \<Rightarrow> Inl e
                | Inr [] \<Rightarrow> Inl ''unknown REST operation''
                | Inr [found] \<Rightarrow> Inr found
                | Inr _ \<Rightarrow> Inl ''ambiguous REST operation'')))"

definition target_separator :: "string \<Rightarrow> char" where
  "target_separator target = (if contains_byte target CHR ''#'' then CHR ''#'' else CHR ''.'')"

definition json_unavailable :: string where
  "json_unavailable = ''JSON operation is absent, contradictory, or ambiguous''"

definition targetOperationFor ::
  "string \<Rightarrow> string \<Rightarrow> string \<Rightarrow> wireIndex option \<Rightarrow> int \<Rightarrow> string go_result" where
  "targetOperationFor target service protocol c maxLength =
     (case c of
        None \<Rightarrow> Inl json_unavailable
      | Some idx \<Rightarrow>
          if target = [] \<or> int (length target) > maxLength \<or> contains_any target [CHR 0x00, CHR 0x0D, CHR 0x0A]
          then Inl ''JSON target is malformed''
          else let sep = target_separator target in
            if count_byte target sep \<noteq> 1 then Inl ''JSON target is malformed''
            else let p = splitn_byte 2 sep target in
              if length p \<noteq> 2 \<or> p ! 0 = [] \<or> p ! 1 = [] \<or> \<not> validOperation (p ! 1)
              then Inl ''JSON target is malformed''
              else let candidates =
                     (if protocol = []
                      then wi_json idx (service, ProtocolJSON10, p ! 0, p ! 1) @ wi_json idx (service, ProtocolJSON11, p ! 0, p ! 1)
                      else wi_json idx (service, protocol, p ! 0, p ! 1))
                in case candidates of
                     [candidate] \<Rightarrow>
                       if wi_variants idx (service, wc_protocol candidate, p ! 1, p ! 0) > 1
                          \<or> wc_routeTarget candidate \<noteq> p ! 0 then Inl json_unavailable
                       else if \<not> wc_known candidate then Inl json_unavailable
                       else Inr (p ! 1)
                   | _ \<Rightarrow> Inl json_unavailable)"

definition wireQueryMatches :: "url_values \<Rightarrow> url_values \<Rightarrow> string \<Rightarrow> bool" where
  "wireQueryMatches fixed actual protocol \<longleftrightarrow>
     wireQueryValuesMatch fixed actual \<and> (json_protocol protocol \<longrightarrow> length actual = 0)"

text \<open>The operation name, target pre and API version the envelope selects; empty when it selects none.\<close>

definition selected_wire :: "string \<Rightarrow> url_values \<Rightarrow> string list \<Rightarrow> string \<times> string \<times> string" where
  "selected_wire protocol q targets =
     (if json_protocol protocol then
        (case targets of
           [target] \<Rightarrow>
             (case split_byte (target_separator target) target of
                [pre, name] \<Rightarrow> (name, pre, [])
              | _ \<Rightarrow> ([], [], []))
         | _ \<Rightarrow> ([], [], []))
      else (case map_of q ''Action'' of
              Some [action] \<Rightarrow>
                if validOperation action
                then (action, [], case map_of q ''Version'' of Some [version] \<Rightarrow> version | _ \<Rightarrow> [])
                else ([], [], [])
            | _ \<Rightarrow> ([], [], [])))"

definition candidate_selected ::
  "string \<times> string \<times> string \<Rightarrow> string \<Rightarrow> url_values \<Rightarrow> string \<Rightarrow> wireCandidate \<Rightarrow> bool" where
  "candidate_selected sel method q protocol c =
     (case sel of (name, pre, version) \<Rightarrow>
        equal_fold (wc_method c) method \<and> (name \<noteq> [] \<longrightarrow> wc_name c = name) \<and>
        (pre \<noteq> [] \<longrightarrow> wc_targetPrefix c = pre) \<and> (version \<noteq> [] \<longrightarrow> wc_apiVersion c = version) \<and>
        wireQueryMatches (wc_fixedQuery c) q protocol)"

definition validateModeledWireRoute ::
  "wireIndex option \<Rightarrow> string \<Rightarrow> string \<Rightarrow> string \<Rightarrow> string \<Rightarrow> url_values \<Rightarrow> string list \<Rightarrow> go_error" where
  "validateModeledWireRoute c service protocol path method q targets =
     (if c = None \<or> service = [] \<or> \<not> (json_protocol protocol \<or> query_protocol protocol)
      then Some ''wire route is unavailable''
      else let path' = (if path = [] then ''/'' else path) in
        if \<not> has_prefix path' ''/'' \<or> contains_any path' [CHR 0x00, CHR 0x0D, CHR 0x0A]
        then Some ''wire route is malformed''
        else let method' = to_upper method;
                 candidates = indexRouteCandidates c service protocol path' method'
          in if list_ex (candidate_malformed service) candidates then Some ''wire route model is malformed''
             else if \<not> list_ex (candidate_selected (selected_wire protocol q targets) method' q protocol) candidates
             then Some ''wire route conflicts with protocol operation''
             else None)"

end
