(* ===== verification/Wire_Match.thy ===== *)
theory Wire_Match
  imports Wire_Index
begin

text \<open>
  What the wire index and its matchers promise. The buckets of an index built from a catalog are
  the catalog's operations of that bucket in catalog order, so a unique match in a bucket is a
  unique match in the catalog; a REST match is an instance of the route template, with the
  parameters read off the path segments; the authoritative protocol of a service is the one
  protocol of all its operations.
\<close>

section \<open>Buckets of a built index\<close>

text \<open>The protocol and the fixed query of a catalog operation, as the index computes them.\<close>

definition op_protocol :: "WireService \<times> WireOperation \<Rightarrow> string option" where
  "op_protocol so = catalogProtocol (ws_Protocol (fst so)) (rt_JSONVersion (wo_Route (snd so)))"

definition op_candidate :: "WireService \<times> WireOperation \<Rightarrow> wireCandidate" where
  "op_candidate so =
     (case (op_protocol so, indexRouteQuery (rt_URI (wo_Route (snd so)))) of
        (Some p, Some (fixed, path)) \<Rightarrow> wire_candidate (fst so) (snd so) p fixed path)"

definition in_rest_bucket :: "index_key \<Rightarrow> WireService \<times> WireOperation \<Rightarrow> bool" where
  "in_rest_bucket key so =
     (case op_protocol so of
        None \<Rightarrow> False
      | Some p \<Rightarrow> rest_protocol p \<and>
          key = (ws_EndpointPrefix (fst so), p, to_upper (rt_Method (wo_Route (snd so))), []))"

definition in_query_bucket :: "index_key \<Rightarrow> WireService \<times> WireOperation \<Rightarrow> bool" where
  "in_query_bucket key so =
     (case op_protocol so of
        None \<Rightarrow> False
      | Some p \<Rightarrow> query_protocol p \<and>
          key = (ws_EndpointPrefix (fst so), p, ws_APIVersion (fst so), wo_Name (snd so)))"

definition in_json_bucket :: "index_key \<Rightarrow> WireService \<times> WireOperation \<Rightarrow> bool" where
  "in_json_bucket key so =
     (case op_protocol so of
        None \<Rightarrow> False
      | Some p \<Rightarrow> json_protocol p \<and>
          key = (ws_EndpointPrefix (fst so), p, ws_TargetPrefix (fst so), wo_Name (snd so)))"

lemma add_authority_buckets:
  assumes "add_authority s w (models, idx) = (models', idx')"
  shows "wi_rest idx' = wi_rest idx" "wi_query idx' = wi_query idx" "wi_json idx' = wi_json idx"
  using assms by (auto simp: add_authority_def Let_def split: if_splits)

lemma protocols_disjoint:
  "json_protocol p \<Longrightarrow> \<not> query_protocol p" "json_protocol p \<Longrightarrow> \<not> rest_protocol p"
  "query_protocol p \<Longrightarrow> \<not> rest_protocol p"
  by (auto simp: json_protocol_def query_protocol_def rest_protocol_def protocol_defs)

lemma add_candidate_rest:
  "wi_rest (add_candidate s w p c idx) key = wi_rest idx key @
     (if rest_protocol p \<and> key = (ws_EndpointPrefix s, p, to_upper (rt_Method (wo_Route w)), []) then [c] else [])"
  using protocols_disjoint [of p] by (auto simp: add_candidate_def Let_def push_def)

lemma add_candidate_query:
  "wi_query (add_candidate s w p c idx) key = wi_query idx key @
     (if query_protocol p \<and> key = (ws_EndpointPrefix s, p, ws_APIVersion s, wo_Name w) then [c] else [])"
  using protocols_disjoint [of p] by (auto simp: add_candidate_def Let_def push_def)

lemma add_candidate_json:
  "wi_json (add_candidate s w p c idx) key = wi_json idx key @
     (if json_protocol p \<and> key = (ws_EndpointPrefix s, p, ws_TargetPrefix s, wo_Name w) then [c] else [])"
  using protocols_disjoint [of p] by (auto simp: add_candidate_def Let_def push_def)

text \<open>One visit appends the candidate of its operation to the buckets it belongs to.\<close>

lemma visit_operation_buckets:
  assumes "visit_operation s w (models, idx) = Inr (models', idx')"
  shows "wi_rest idx' key = wi_rest idx key @ (if in_rest_bucket key (s, w) then [op_candidate (s, w)] else [])"
    and "wi_query idx' key = wi_query idx key @ (if in_query_bucket key (s, w) then [op_candidate (s, w)] else [])"
    and "wi_json idx' key = wi_json idx key @ (if in_json_bucket key (s, w) then [op_candidate (s, w)] else [])"
proof -
  obtain m1 i1 where a: "add_authority s w (models, idx) = (m1, i1)" by fastforce
  with assms obtain fixed path where q: "indexRouteQuery (rt_URI (wo_Route w)) = Some (fixed, path)"
    by (auto simp: visit_operation_def split: option.splits)
  show "wi_rest idx' key = wi_rest idx key @ (if in_rest_bucket key (s, w) then [op_candidate (s, w)] else [])"
    "wi_query idx' key = wi_query idx key @ (if in_query_bucket key (s, w) then [op_candidate (s, w)] else [])"
    "wi_json idx' key = wi_json idx key @ (if in_json_bucket key (s, w) then [op_candidate (s, w)] else [])"
    using assms a q add_authority_buckets [OF a]
    by (auto simp: visit_operation_def in_rest_bucket_def in_query_bucket_def in_json_bucket_def
        op_candidate_def op_protocol_def add_candidate_rest add_candidate_query add_candidate_json
        split: option.splits)
qed

lemma visit_operations_Cons:
  "visit_operations (so # ops) st = Inr st' \<longleftrightarrow>
     (\<exists>models idx. visit_operation (fst so) (snd so) st = Inr (models, idx) \<and> visit_operations ops (models, idx) = Inr st')"
  by (cases so) (auto split: sum.splits)

lemma visit_operations_buckets:
  assumes "visit_operations ops (models, idx) = Inr (models', idx')"
  shows "wi_rest idx' key = wi_rest idx key @ map op_candidate (filter (in_rest_bucket key) ops) \<and>
     wi_query idx' key = wi_query idx key @ map op_candidate (filter (in_query_bucket key) ops) \<and>
     wi_json idx' key = wi_json idx key @ map op_candidate (filter (in_json_bucket key) ops)"
  using assms
proof (induction ops arbitrary: models idx)
  case (Cons so ops)
  then obtain m i where v: "visit_operation (fst so) (snd so) (models, idx) = Inr (m, i)"
    "visit_operations ops (m, i) = Inr (models', idx')"
    by (auto simp: visit_operations_Cons)
  from Cons.IH [OF v(2)] visit_operation_buckets [OF v(1), of key] show ?case by simp
qed simp

lemma built_buckets:
  assumes "buildWireIndex (Some ops) = Inr idx"
  shows "wi_rest idx key = map op_candidate (filter (in_rest_bucket key) ops)"
    and "wi_query idx key = map op_candidate (filter (in_query_bucket key) ops)"
    and "wi_json idx key = map op_candidate (filter (in_json_bucket key) ops)"
proof -
  obtain models where v: "visit_operations ops ({}, empty_index) = Inr (models, idx)"
    using assms by (auto simp: buildWireIndex_def map_sum_id_Inr)
  show "wi_rest idx key = map op_candidate (filter (in_rest_bucket key) ops)"
    "wi_query idx key = map op_candidate (filter (in_query_bucket key) ops)"
    "wi_json idx key = map op_candidate (filter (in_json_bucket key) ops)"
    using visit_operations_buckets [OF v] by (simp_all add: empty_index_def)
qed

section \<open>REST matches are instances of the template\<close>

text \<open>
  The segments of a path as an instance of a template: a literal segment is repeated byte for byte, a
  label takes one segment, and a greedy label, which is the last one, takes all the remaining
  segments. The bindings are the decoded values.
\<close>

fun route_instance :: "DecodeLimits \<Rightarrow> string list \<Rightarrow> string list \<Rightarrow> (string \<times> string) list \<Rightarrow> bool" where
  "route_instance l [] segs bs \<longleftrightarrow> segs = [] \<and> bs = []"
| "route_instance l (part # templ) segs bs \<longleftrightarrow>
     (if is_label part then
        validOperation (fst (label_of part)) \<and>
        (if snd (label_of part) then
           templ = [] \<and> (\<exists>vs. decode_segments l segs = Some vs \<and> vs \<noteq> [] \<and> bs = [(fst (label_of part), join ''/'' vs)])
         else \<exists>seg rest v bs'. segs = seg # rest \<and> path_unescape seg = Some v \<and> validPathValue v l \<and>
                bs = (fst (label_of part), v) # bs' \<and> route_instance l templ rest bs')
      else \<exists>rest. segs = part # rest \<and> route_instance l templ rest bs)"

definition bind_parameters :: "(string \<times> string) list \<Rightarrow> parameters \<Rightarrow> parameters" where
  "bind_parameters bs params = fold (\<lambda>(n, v). AList.update n (string_value v)) bs params"

lemma decode_segments_length: "decode_segments l ss = Some vs \<Longrightarrow> length vs = length ss"
  by (induction ss arbitrary: vs) (auto split: option.splits if_splits)

lemma match_parts_instance:
  "match_parts l templ segs params = Inr (Some ps) \<longleftrightarrow>
     (\<exists>bs. route_instance l templ segs bs \<and> ps = bind_parameters bs params)"
proof (induction l templ segs params rule: match_parts.induct)
  case (1 l rest params)
  then show ?case by (auto simp: bind_parameters_def)
next
  case (2 l part templ rest params)
  obtain name greedy where lab: "label_of part = (name, greedy)" by fastforce
  consider (lit) "\<not> is_label part" | (bad) "is_label part" "\<not> validOperation name \<or> (greedy \<and> templ \<noteq> [])"
    | (greedy) "is_label part" "validOperation name" "greedy" "templ = []"
    | (single) "is_label part" "validOperation name" "\<not> greedy" by blast
  then show ?case
  proof cases
    case lit
    then show ?thesis using "2.IH"(2) by (cases rest) auto
  next
    case bad
    then show ?thesis using lab by auto
  next
    case greedy
    then show ?thesis using lab decode_segments_length [of l rest]
      by (cases "rest = []") (auto simp: bind_parameters_def Let_def split: option.splits)
  next
    case single
    note IH = "2.IH"(1) [OF single(1) lab [symmetric]]
    show ?thesis
    proof (cases rest)
      case Nil
      then show ?thesis using single lab by simp
    next
      case (Cons seg segs)
      show ?thesis
      proof (cases "path_unescape seg")
        case None
        then show ?thesis using single lab Cons by simp
      next
        case (Some v)
        show ?thesis using single lab Cons Some IH [of 1 "[v]"]
          by (auto simp: bind_parameters_def Let_def)
      qed
    qed
  qed
qed

lemma matchRESTURI_instance:
  "matchRESTURI uri path q l = Inr (Some ps) \<Longrightarrow>
     \<exists>templ segs bs. restPathParts (fst (cut CHR ''?'' uri)) = Some templ \<and> restPathParts path = Some segs \<and>
       route_instance l templ segs bs \<and> ps = bind_parameters bs []"
  by (auto simp: matchRESTURI_def match_parts_instance split: prod.splits option.splits sum.splits if_splits)

section \<open>A REST operation is the only one that matches\<close>

definition rest_match :: "string \<Rightarrow> string \<Rightarrow> url_values \<Rightarrow> DecodeLimits \<Rightarrow> wireCandidate \<Rightarrow> parameters option" where
  "rest_match path method q l c =
     (if equal_fold (wc_method c) method \<and> wireQueryValuesMatch (wc_fixedQuery c) q \<and>
         matchRESTQueryBindingsFixed (wc_fixedQuery c) (wc_queryBindings c) q l
      then (case matchRESTURI (wc_routePath c) path q l of Inl _ \<Rightarrow> None | Inr m \<Rightarrow> m)
      else None)"

lemma rest_scan_matches:
  assumes "rest_scan service path method q l cs found = Inr res"
  shows "res = found @ List.map_filter (\<lambda>c. map_option (Pair (wc_name c)) (rest_match path method q l c)) cs \<and>
     (\<forall>c \<in> set cs. rest_match path method q l c \<noteq> None \<longrightarrow> wc_known c)"
  using assms
proof (induction cs arbitrary: found)
  case (Cons c cs)
  from Cons.prems have ok: "\<not> candidate_malformed service c" by (auto split: if_splits)
  show ?case
  proof (cases "rest_match path method q l c")
    case None
    then have "rest_scan service path method q l cs found = Inr res"
      using Cons.prems ok by (auto simp: rest_match_def split: if_splits sum.splits option.splits)
    from Cons.IH [OF this] None show ?thesis by (simp add: List.map_filter_simps)
  next
    case (Some params)
    then have "wc_known c \<and> rest_scan service path method q l cs (found @ [(wc_name c, params)]) = Inr res"
      using Cons.prems ok by (auto simp: rest_match_def split: if_splits sum.splits option.splits)
    with Cons.IH Some show ?thesis by (fastforce simp: List.map_filter_simps)
  qed
qed (simp add: List.map_filter_simps)

lemma filter_eq_single: "filter P xs = [x] \<Longrightarrow> x \<in> set xs \<and> P x"
  by (drule arg_cong [of _ _ set]) (simp, blast)

lemma map_filter_single:
  assumes "List.map_filter f xs = [y]"
  shows "\<exists>x. filter (\<lambda>x. f x \<noteq> None) xs = [x] \<and> f x = Some y"
proof -
  have "map (the \<circ> f) (filter (\<lambda>x. f x \<noteq> None) xs) = [y]"
    using assms by (simp add: List.map_filter_def)
  then obtain x where x: "filter (\<lambda>x. f x \<noteq> None) xs = [x]" "the (f x) = y" by auto
  then have "f x \<noteq> None" using filter_eq_single by fast
  with x show ?thesis by auto
qed

lemma rest_operation_match:
  assumes "restOperationFromCatalog service path method q protocol (Some idx) l = Inr (operation, params)"
  shows "\<exists>c. filter (\<lambda>c. rest_match path (to_upper method) q l c \<noteq> None) (wi_rest idx (service, protocol, to_upper method, [])) = [c] \<and>
     rest_match path (to_upper method) q l c = Some params \<and> wc_name c = operation \<and> wc_known c"
proof -
  let ?cs = "wi_rest idx (service, protocol, to_upper method, [])"
  from assms have "rest_scan service path (to_upper method) q l ?cs [] = Inr [(operation, params)]"
    by (auto simp: restOperationFromCatalog_def Let_def split: if_splits option.splits sum.splits list.splits)
  from rest_scan_matches [OF this]
  have f: "List.map_filter (\<lambda>c. map_option (Pair (wc_name c)) (rest_match path (to_upper method) q l c)) ?cs = [(operation, params)]"
    and k: "\<forall>c \<in> set ?cs. rest_match path (to_upper method) q l c \<noteq> None \<longrightarrow> wc_known c" by simp_all
  from map_filter_single [OF f] obtain c where
    c: "filter (\<lambda>c. rest_match path (to_upper method) q l c \<noteq> None) ?cs = [c]"
      "rest_match path (to_upper method) q l c = Some params" "wc_name c = operation" by auto
  then have "c \<in> set ?cs" using filter_eq_single by fast
  with c k show ?thesis by auto
qed

lemma visited_route:
  assumes "buildWireIndex (Some ops) = Inr idx" "so \<in> set ops"
  shows "\<exists>fixed path. indexRouteQuery (rt_URI (wo_Route (snd so))) = Some (fixed, path)"
proof -
  have "visit_operations ops st = Inr st' \<Longrightarrow> so \<in> set ops \<Longrightarrow> ?thesis" for st st'
  proof (induction ops arbitrary: st)
    case (Cons x ops)
    then show ?case
      by (cases st) (auto simp: visit_operations_Cons visit_operation_def split: option.splits prod.splits)
  qed simp
  with assms show ?thesis by (auto simp: buildWireIndex_def map_sum_id_Inr)
qed

text \<open>The match of a catalog operation, on the operation itself.\<close>

definition operation_matches ::
  "string \<Rightarrow> string \<Rightarrow> string \<Rightarrow> string \<Rightarrow> url_values \<Rightarrow> DecodeLimits \<Rightarrow> WireService \<times> WireOperation \<Rightarrow> bool" where
  "operation_matches service protocol path method q l so \<longleftrightarrow>
     in_rest_bucket (service, protocol, to_upper method, []) so \<and>
     rest_match path (to_upper method) q l (op_candidate so) \<noteq> None"


text \<open>
  Property C36. The REST operation a request is decoded to is the only operation of the catalog that matches it: with
  an index built from the operations of the catalog, exactly one of them has the service, protocol
  and method of the request and a route, fixed query and query members that match, its evidence is known,
  and its name is the result. The request path is an instance of its route template, literal
  segments byte for byte, and the parameters are the decoded segments under the labels of the template.
\<close>

theorem rest_operation_exact:
  assumes "buildWireIndex (Some ops) = Inr idx"
    and "restOperationFromCatalog service path method q protocol (Some idx) l = Inr (operation, params)"
  shows "\<exists>so templ segs bs.
     filter (operation_matches service protocol path method q l) ops = [so] \<and>
     ws_EndpointPrefix (fst so) = service \<and> wo_Name (snd so) = operation \<and> wo_State (snd so) = EvidenceKnown \<and>
     restPathParts (fst (cut CHR ''?'' (wc_routePath (op_candidate so)))) = Some templ \<and> restPathParts path = Some segs \<and>
     route_instance l templ segs bs \<and> params = bind_parameters bs []"
proof -
  let ?M = "to_upper method" and ?key = "(service, protocol, to_upper method, [])"
  obtain c where c: "filter (\<lambda>c. rest_match path ?M q l c \<noteq> None) (wi_rest idx ?key) = [c]"
    "rest_match path ?M q l c = Some params" "wc_name c = operation" "wc_known c"
    using rest_operation_match [OF assms(2)] by blast
  have "map op_candidate (filter (operation_matches service protocol path method q l) ops) = [c]"
    using c(1) built_buckets(1) [OF assms(1), of ?key]
    by (simp add: filter_map comp_def operation_matches_def [abs_def])
  then obtain so where so: "filter (operation_matches service protocol path method q l) ops = [so]" "op_candidate so = c"
    by auto
  then have mem: "so \<in> set ops" "in_rest_bucket ?key so"
    using filter_eq_single by (fastforce simp: operation_matches_def)+
  have bucket: "ws_EndpointPrefix (fst so) = service" "\<exists>p. op_protocol so = Some p"
    using mem(2) by (auto simp: in_rest_bucket_def split: option.splits)
  have "\<exists>fixed path. indexRouteQuery (rt_URI (wo_Route (snd so))) = Some (fixed, path)"
    using assms(1) mem(1) visited_route by blast
  with bucket(2) have "wc_name (op_candidate so) = wo_Name (snd so)"
    "wc_known (op_candidate so) \<longleftrightarrow> wo_State (snd so) = EvidenceKnown"
    by (auto simp: op_candidate_def wire_candidate_def)
  with c(3,4) so(2) have "wo_Name (snd so) = operation" "wo_State (snd so) = EvidenceKnown" by simp_all
  moreover obtain templ segs bs where
    "restPathParts (fst (cut CHR ''?'' (wc_routePath (op_candidate so)))) = Some templ" "restPathParts path = Some segs"
    "route_instance l templ segs bs" "params = bind_parameters bs []"
    using c(2) so(2) matchRESTURI_instance [of "wc_routePath c" path q l params]
    by (auto simp: rest_match_def split: if_splits sum.splits)
  ultimately show ?thesis using so(1) bucket(1) by blast
qed


definition sample_rest_service :: WireService where
  "sample_rest_service = \<lparr>ws_EndpointPrefix = ''s3'', ws_APIVersion = ''2006'', ws_TargetPrefix = [],
     ws_Protocols = [''rest-xml''], ws_Protocol = ''rest-xml'', ws_Operations = []\<rparr>"

definition sample_rest_operation :: "string \<Rightarrow> string \<Rightarrow> WireOperation" where
  "sample_rest_operation name uri = \<lparr>wo_Name = name, wo_State = EvidenceKnown,
     wo_Route = \<lparr>rt_Method = ''GET'', rt_URI = uri, rt_ResponseCode = 200, rt_QueryDiscriminator = [],
       rt_TargetPrefix = [], rt_JSONVersion = []\<rparr>, wo_QueryBindings = []\<rparr>"

definition sample_rest_catalog :: "(WireService \<times> WireOperation) list" where
  "sample_rest_catalog = map (Pair sample_rest_service)
     [sample_rest_operation ''GetObject'' ''/{Bucket}/{Key+}'', sample_rest_operation ''ListObjects'' ''/{Bucket}'']"

definition sample_index :: wireIndex where
  "sample_index = (case buildWireIndex (Some sample_rest_catalog) of Inr idx \<Rightarrow> idx)"

lemma sample_rest_built: "buildWireIndex (Some sample_rest_catalog) = Inr sample_index"
proof -
  have "isl (buildWireIndex (Some sample_rest_catalog)) = False" by code_simp
  then show ?thesis by (cases "buildWireIndex (Some sample_rest_catalog)") (simp_all add: sample_index_def)
qed

lemma sample_route_uri:
  "matchRESTURI ''/{Bucket}/{Key+}'' ''/b/k%2Fx/y'' [] DefaultDecodeLimits =
     Inr (Some [(''Bucket'', string_value ''b''), (''Key'', string_value ''k/x/y'')])"
  by code_simp

lemma sample_uri2:
  "matchRESTURI ''/{Bucket}'' ''/b/k%2Fx/y'' [] DefaultDecodeLimits = Inr None"
  by code_simp

definition sample_candidate :: "string \<Rightarrow> string \<Rightarrow> wireCandidate" where
  "sample_candidate name path = \<lparr>wc_name = name, wc_apiVersion = ''2006'', wc_targetPrefix = [], wc_protocol = ''rest-xml'',
     wc_method = ''GET'', wc_routeTarget = [], wc_queryBindings = [], wc_fixedQuery = [], wc_routePath = path,
     wc_known = True, wc_routeValid = True\<rparr>"

lemma sample_bucket:
  "wi_rest sample_index (''s3'', ''rest-xml'', ''GET'', []) =
     [sample_candidate ''GetObject'' ''/{Bucket}/{Key+}'', sample_candidate ''ListObjects'' ''/{Bucket}'']"
  by code_simp

lemma sample_evid: "validEvidenceService ''s3''" "validEvidenceOperation ''GetObject''" "validEvidenceOperation ''ListObjects''"
  by code_simp+

lemma sample_rest_decoded:
  "restOperationFromCatalog ''s3'' ''/b/k%2Fx/y'' ''get'' [] ''rest-xml'' (Some sample_index) DefaultDecodeLimits =
     Inr (''GetObject'', [(''Bucket'', string_value ''b''), (''Key'', string_value ''k/x/y'')])"
proof -
  have "to_upper ''get'' = ''GET''" by code_simp
  moreover have "\<not> candidate_malformed ''s3'' (sample_candidate ''GetObject'' p)" "\<not> candidate_malformed ''s3'' (sample_candidate ''ListObjects'' p)" for p
    using sample_evid by (simp_all add: candidate_malformed_def sample_candidate_def)
  ultimately show ?thesis
    using sample_route_uri sample_uri2
    by (simp add: restOperationFromCatalog_def sample_bucket validateRESTQuery_def has_prefix_def)
      (simp add: sample_candidate_def equal_fold_def wireQueryValuesMatch_def matchRESTQueryBindingsFixed_def DefaultDecodeLimits_def)
qed

theorem rest_operation_exact_witness:
  "filter (operation_matches ''s3'' ''rest-xml'' ''/b/k%2Fx/y'' ''get'' [] DefaultDecodeLimits) sample_rest_catalog =
     [(sample_rest_service, sample_rest_operation ''GetObject'' ''/{Bucket}/{Key+}'')]"
proof -
  obtain so where so: "filter (operation_matches ''s3'' ''rest-xml'' ''/b/k%2Fx/y'' ''get'' [] DefaultDecodeLimits) sample_rest_catalog = [so]"
    "wo_Name (snd so) = ''GetObject''"
    using rest_operation_exact [OF sample_rest_built sample_rest_decoded] by blast
  have "so \<in> set sample_rest_catalog" using filter_eq_single [OF so(1)] by (rule conjunct1)
  with so show ?thesis by (auto simp: sample_rest_catalog_def sample_rest_operation_def)
qed

section \<open>The protocol of a service\<close>

text \<open>Catalog strings without NUL bytes, so that the keys of the authority models are unambiguous.\<close>

definition plain_model :: "WireService \<times> WireOperation \<Rightarrow> bool" where
  "plain_model so \<longleftrightarrow> (\<forall>s \<in> {ws_EndpointPrefix (fst so), ws_APIVersion (fst so), ws_TargetPrefix (fst so),
     ws_Protocol (fst so), rt_JSONVersion (wo_Route (snd so))}. CHR 0x00 \<notin> set s)"

lemma authority_key_determines:
  assumes "plain_model a" "plain_model b" "authority_key (fst a) (snd a) = authority_key (fst b) (snd b)"
  shows "ws_EndpointPrefix (fst a) = ws_EndpointPrefix (fst b) \<and> op_protocol a = op_protocol b"
proof -
  let ?fields = "\<lambda>so. [ws_EndpointPrefix (fst so), ws_APIVersion (fst so), ws_TargetPrefix (fst so),
     ws_Protocol (fst so), rt_JSONVersion (wo_Route (snd so))]"
  have "split_byte CHR 0x00 (join [CHR 0x00] (?fields so)) = ?fields so" if "plain_model so" for so
    using that by (intro split_byte_join) (auto simp: plain_model_def)
  with assms have "?fields a = ?fields b" unfolding authority_key_def by metis
  then show ?thesis by (simp add: op_protocol_def)
qed

text \<open>
  The evidence of a service holds the protocols of exactly its operations: an operation whose
  model was already recorded adds nothing new.
\<close>

definition evidence_of :: "WireService \<times> WireOperation \<Rightarrow> protocolEvidence" where
  "evidence_of so = \<lparr>pe_protocol = case_option [] id (op_protocol so), pe_valid = (op_protocol so \<noteq> None)\<rparr>"

definition authority_inv :: "(WireService \<times> WireOperation) list \<Rightarrow> string set \<times> wireIndex \<Rightarrow> bool" where
  "authority_inv seen st \<longleftrightarrow>
     fst st \<subseteq> (\<lambda>so. authority_key (fst so) (snd so)) ` set seen \<and>
     (\<forall>service. set (wi_authority (snd st) service) = evidence_of ` {so \<in> set seen. ws_EndpointPrefix (fst so) = service})"

lemma add_candidate_authority [simp]: "wi_authority (add_candidate s w p c idx) = wi_authority idx"
  by (simp add: add_candidate_def Let_def)

lemma add_authority_new:
  "ws_Protocol s = ''json'' \<or> authority_key s w \<notin> models \<Longrightarrow> add_authority s w (models, idx) =
     (insert (authority_key s w) models,
      idx\<lparr>wi_authority := push (ws_EndpointPrefix s) (evidence_of (s, w)) (wi_authority idx)\<rparr>)"
  by (simp add: add_authority_def Let_def evidence_of_def op_protocol_def)

lemma add_authority_inv:
  assumes inv: "authority_inv seen st" and plain: "\<forall>so \<in> set (seen @ [(s, w)]). plain_model so"
  shows "authority_inv (seen @ [(s, w)]) (add_authority s w st)"
proof -
  obtain models idx where st: "st = (models, idx)" by (cases st)
  show ?thesis
  proof (cases "ws_Protocol s = ''json'' \<or> authority_key s w \<notin> models")
    case True
    then show ?thesis using inv st
      by (auto simp: authority_inv_def add_authority_new push_def)
  next
    case False
    then obtain so where so: "so \<in> set seen" "authority_key (fst so) (snd so) = authority_key s w"
      using inv st by (auto simp: authority_inv_def)
    with plain have "ws_EndpointPrefix (fst so) = ws_EndpointPrefix s \<and> op_protocol so = op_protocol (s, w)"
      using authority_key_determines [of so "(s, w)"] by simp
    then have "ws_EndpointPrefix (fst so) = ws_EndpointPrefix s" "evidence_of so = evidence_of (s, w)"
      by (simp_all add: evidence_of_def)
    then have "evidence_of ` {x \<in> set (seen @ [(s, w)]). ws_EndpointPrefix (fst x) = service} =
       evidence_of ` {x \<in> set seen. ws_EndpointPrefix (fst x) = service}" for service
      using so(1) by (auto intro: rev_image_eqI)
    then show ?thesis using inv st False by (auto simp: authority_inv_def add_authority_def Let_def)
  qed
qed

lemma visit_operations_authority:
  assumes "visit_operations ops st = Inr st'" "authority_inv seen st" "\<forall>so \<in> set (seen @ ops). plain_model so"
  shows "authority_inv (seen @ ops) st'"
  using assms
proof (induction ops arbitrary: seen st)
  case (Cons so ops)
  then obtain models idx where v: "visit_operation (fst so) (snd so) st = Inr (models, idx)"
    "visit_operations ops (models, idx) = Inr st'"
    by (auto simp: visit_operations_Cons)
  have "authority_inv (seen @ [so]) (add_authority (fst so) (snd so) st)"
    using add_authority_inv [OF Cons.prems(2), of "fst so" "snd so"] Cons.prems(3) by simp
  with v(1) have "authority_inv (seen @ [so]) (models, idx)"
    by (auto simp: visit_operation_def authority_inv_def split: option.splits prod.splits)
  from Cons.IH [OF v(2) this] Cons.prems(3) show ?case by simp
qed simp

lemma built_authority:
  assumes "buildWireIndex (Some ops) = Inr idx" "\<forall>so \<in> set ops. plain_model so"
  shows "set (wi_authority idx service) = evidence_of ` {so \<in> set ops. ws_EndpointPrefix (fst so) = service}"
proof -
  obtain models where v: "visit_operations ops ({}, empty_index) = Inr (models, idx)"
    using assms by (auto simp: buildWireIndex_def map_sum_id_Inr)
  have "authority_inv [] ({}, empty_index)" by (simp add: authority_inv_def empty_index_def)
  from visit_operations_authority [OF v this] assms(2) show ?thesis by (simp add: authority_inv_def)
qed

lemma remdups_single: "remdups xs = [x] \<longleftrightarrow> set xs = {x}"
proof
  assume "remdups xs = [x]"
  then show "set xs = {x}" by (metis list.set(1) list.simps(15) set_remdups)
next
  assume "set xs = {x}"
  then have "set (remdups xs) = {x}" "distinct (remdups xs)" by simp_all
  then have "length (remdups xs) = 1" using distinct_card [of "remdups xs"] by simp
  then obtain y where "remdups xs = [y]" by (auto simp: length_Suc_conv)
  with \<open>set (remdups xs) = {x}\<close> show "remdups xs = [x]" by simp
qed

lemma image_single: "f ` A = {y} \<longleftrightarrow> A \<noteq> {} \<and> (\<forall>x \<in> A. f x = y)"
  by auto

lemma evidence_of_protocol:
  "pe_valid (evidence_of so) \<and> pe_protocol (evidence_of so) = protocol \<longleftrightarrow> op_protocol so = Some protocol"
  by (cases "op_protocol so") (simp_all add: evidence_of_def)

text \<open>
  The authoritative protocol of a service is the one wire protocol on which all operations of the
  catalog with its endpoint prefix agree; a service without operations, with an operation of an
  unsupported protocol, or with two protocols has none.
\<close>

theorem authoritative_protocol_exact:
  assumes "buildWireIndex (Some ops) = Inr idx" and "\<forall>so \<in> set ops. plain_model so"
  shows "authoritativeProtocolFor (Some idx) service = Some protocol \<longleftrightarrow>
     service \<noteq> [] \<and> (\<exists>so \<in> set ops. ws_EndpointPrefix (fst so) = service) \<and>
     (\<forall>so \<in> set ops. ws_EndpointPrefix (fst so) = service \<longrightarrow> op_protocol so = Some protocol)"
proof -
  let ?ev = "wi_authority idx service" and ?own = "{so \<in> set ops. ws_EndpointPrefix (fst so) = service}"
  have ev: "set ?ev = evidence_of ` ?own" using built_authority [OF assms] .
  have "authoritativeProtocolFor (Some idx) service = Some protocol \<longleftrightarrow>
     service \<noteq> [] \<and> (\<forall>e \<in> set ?ev. pe_valid e) \<and> set (map pe_protocol ?ev) = {protocol}"
    using remdups_single [of "map pe_protocol ?ev" protocol]
    by (auto simp: authoritativeProtocolFor_def list_ex_iff simp del: set_map split: list.splits)
  also have "\<dots> \<longleftrightarrow> service \<noteq> [] \<and> ?own \<noteq> {} \<and> (\<forall>so \<in> ?own. pe_valid (evidence_of so) \<and> pe_protocol (evidence_of so) = protocol)"
    by (simp add: ev image_image image_single) blast
  also have "\<dots> \<longleftrightarrow> service \<noteq> [] \<and> ?own \<noteq> {} \<and> (\<forall>so \<in> ?own. op_protocol so = Some protocol)"
    by (simp add: evidence_of_protocol)
  finally show ?thesis by blast
qed


lemma sample_plain_models: "\<forall>so \<in> set sample_rest_catalog. plain_model so"
  by (simp add: sample_rest_catalog_def plain_model_def sample_rest_service_def sample_rest_operation_def)

theorem authoritative_protocol_exact_witness:
  "authoritativeProtocolFor (Some sample_index) ''s3'' = Some ''rest-xml'' \<and>
   authoritativeProtocolFor (Some sample_index) ''ec2'' \<noteq> Some ''ec2''"
  using authoritative_protocol_exact [OF sample_rest_built sample_plain_models]
  by (simp add: sample_rest_catalog_def sample_rest_service_def sample_rest_operation_def op_protocol_def
      catalogProtocol_def protocol_defs)

end
