(* ===== verification/Wire_Decode.thy ===== *)
theory Wire_Decode
  imports Wire_Index Endpoint Sigv4_Payload
begin

text \<open>
  The request decoder, \<^verbatim>\<open>src/internal/awsrequest/decode_json.go\<close>, \<^verbatim>\<open>decode_query.go\<close>, \<^verbatim>\<open>decode_restjson.go\<close> and
  \<^verbatim>\<open>decode_restxml.go\<close>: it revalidates the endpoint, settles the protocol, selects the operation from the wire index and reads the
  parameters from the query, the path and the body.

  The token streams of \<^verbatim>\<open>encoding/json\<close> and \<^verbatim>\<open>encoding/xml\<close> for a body, \<^verbatim>\<open>strconv.ParseFloat\<close>, the IDNA profile and the order in which a
  \<^verbatim>\<open>range\<close> over a map meets its keys are the fields of \<open>decode_env\<close>. An error is its message; where the code formats a name of the
  request into the message, the model has the name unquoted or leaves it out.
\<close>

section \<open>The environment\<close>

text \<open>
  A JSON token, and a stream of them: the tokens \<^verbatim>\<open>Token\<close> returns before its first error, whether
  \<^verbatim>\<open>More\<close> reports a value at that point, and whether \<^verbatim>\<open>Decode\<close> reports the end of the input there.
\<close>

datatype json_token = Delim char | Json_string string | Json_bool bool | Json_null | Json_number string

record json_stream =
  js_tokens :: "json_token list"
  js_more :: bool
  js_eof :: bool

text \<open>An XML token; a stream ends with the end of the input or with an error.\<close>

datatype xml_token = StartElement string | EndElement | CharData string | Comment | ProcInst | Directive

record xml_stream =
  xs_tokens :: "xml_token list"
  xs_eof :: bool

record decode_env =
  de_json :: "string \<Rightarrow> json_stream"
  de_xml :: "string \<Rightarrow> xml_stream"
  de_float :: "string \<Rightarrow> float64 option"
  de_idna :: "string \<Rightarrow> string go_result"
  de_order :: "url_values \<Rightarrow> url_values"

definition stream_More :: "json_stream \<Rightarrow> bool" where
  "stream_More s = (case js_tokens s of [] \<Rightarrow> js_more s | t # _ \<Rightarrow> t \<notin> {Delim CHR ''}'', Delim CHR '']''})"

definition stream_Token :: "json_stream \<Rightarrow> (json_token \<times> json_stream) option" where
  "stream_Token s = (case js_tokens s of [] \<Rightarrow> None | t # ts \<Rightarrow> Some (t, s\<lparr>js_tokens := ts\<rparr>))"

text \<open>\<^verbatim>\<open>strconv.Atoi\<close>: an optional sign and decimal digits, within 64 bits.\<close>

definition strconv_Atoi :: "string \<Rightarrow> int option" where
  "strconv_Atoi s =
     (let neg = has_prefix s ''-''; ds = (if neg \<or> has_prefix s ''+'' then tl s else s);
          i = (if neg then - int (atoi ds) else int (atoi ds))
      in if ds = [] \<or> \<not> list_all is_digit_byte ds \<or> i < - (2 ^ 63) \<or> i \<ge> 2 ^ 63 then None else Some i)"

section \<open>JSON values\<close>

definition null_value :: Value where "null_value = Value ValueNull [] False 0 (Finite 0 0) [] []"
definition bool_value :: "bool \<Rightarrow> Value" where "bool_value b = Value ValueBoolean [] b 0 (Finite 0 0) [] []"
definition int_value :: "int \<Rightarrow> Value" where "int_value i = Value ValueInteger [] False i (Finite 0 0) [] []"
definition float_value :: "float64 \<Rightarrow> Value" where "float_value f = Value ValueNumber [] False 0 f [] []"
definition members_value :: "parameters \<Rightarrow> Value" where "members_value m = Value ValueObject [] False 0 (Finite 0 0) m []"
definition items_value :: "Value list \<Rightarrow> Value" where "items_value a = Value ValueArray [] False 0 (Finite 0 0) [] a"

definition json_number :: "decode_env \<Rightarrow> string \<Rightarrow> Value go_result" where
  "json_number env x =
     (if contains_any x ''.eE'' then
        (case de_float env x of
           None \<Rightarrow> Inl ''JSON number is invalid''
         | Some f \<Rightarrow> if f = NaN then Inl ''JSON number is invalid'' else Inr (float_value f))
      else case strconv_Atoi x of
             None \<Rightarrow> Inl ''JSON integer is invalid''
           | Some i \<Rightarrow> Inr (int_value i))"

text \<open>
  The recursive descent. The loops over the members of an object and the items of an array are
  functions of their own; the depth and the number of entries bound the recursion.
\<close>

function parseJSONValue :: "decode_env \<Rightarrow> DecodeLimits \<Rightarrow> nat \<Rightarrow> json_stream \<Rightarrow> (Value \<times> json_stream) go_result"
  and json_members :: "decode_env \<Rightarrow> DecodeLimits \<Rightarrow> nat \<Rightarrow> parameters \<Rightarrow> json_stream \<Rightarrow> (Value \<times> json_stream) go_result"
  and json_items :: "decode_env \<Rightarrow> DecodeLimits \<Rightarrow> nat \<Rightarrow> Value list \<Rightarrow> json_stream \<Rightarrow> (Value \<times> json_stream) go_result"
where
  "parseJSONValue env l depth s =
     (if int depth > dl_MaxDepth l then Inl ''JSON nesting exceeds limit''
      else case stream_Token s of
        None \<Rightarrow> Inl ''malformed JSON body''
      | Some (t, s') \<Rightarrow>
          (case t of
             Delim c \<Rightarrow>
               if c = CHR ''{'' then json_members env l depth [] s'
               else if c = CHR ''['' then json_items env l depth [] s'
               else Inl ''malformed JSON delimiter''
           | Json_string x \<Rightarrow>
               if int (length x) > dl_MaxTokenBytes l then Inl ''JSON string exceeds limit'' else Inr (string_value x, s')
           | Json_bool b \<Rightarrow> Inr (bool_value b, s')
           | Json_null \<Rightarrow> Inr (null_value, s')
           | Json_number x \<Rightarrow> (case json_number env x of Inl e \<Rightarrow> Inl e | Inr v \<Rightarrow> Inr (v, s'))))"
| "json_members env l depth m s =
     (if \<not> stream_More s then
        (case stream_Token s of None \<Rightarrow> Inl ''malformed JSON object'' | Some (_, s') \<Rightarrow> Inr (members_value m, s'))
      else case stream_Token s of
        None \<Rightarrow> Inl ''malformed JSON object''
      | Some (t, s1) \<Rightarrow>
          (case t of
             Json_string k \<Rightarrow>
               if k = [] \<or> int (length k) > dl_MaxTokenBytes l then Inl ''invalid JSON object key''
               else if k \<in> fst ` set m then Inl (''duplicate JSON member '' @ k)
               else (case parseJSONValue env l (depth + 1) s1 of
                       Inl e \<Rightarrow> Inl e
                     | Inr (v, s2) \<Rightarrow>
                         if int (length m + 1) > dl_MaxParameters l then Inl ''JSON parameter limit exceeded''
                         else json_members env l depth (m @ [(k, v)]) s2)
           | _ \<Rightarrow> Inl ''invalid JSON object key''))"
| "json_items env l depth a s =
     (if \<not> stream_More s then
        (case stream_Token s of None \<Rightarrow> Inl ''malformed JSON array'' | Some (_, s') \<Rightarrow> Inr (items_value a, s'))
      else case parseJSONValue env l (depth + 1) s of
        Inl e \<Rightarrow> Inl e
      | Inr (v, s2) \<Rightarrow>
          if int (length a + 1) > dl_MaxParameters l then Inl ''JSON parameter limit exceeded''
          else json_items env l depth (a @ [v]) s2)"
  by pat_completeness auto

termination
proof (relation "measures [
    case_sum (\<lambda>(env, l, depth, s). 2 * nat (dl_MaxDepth l + 1 - int depth))
      (case_sum (\<lambda>(env, l, depth, m, s). 2 * nat (dl_MaxDepth l - int depth) + 1)
                (\<lambda>(env, l, depth, a, s). 2 * nat (dl_MaxDepth l - int depth) + 1)),
    case_sum (\<lambda>_. 0)
      (case_sum (\<lambda>(env, l, depth, m, s). nat (dl_MaxParameters l + 1 - int (length m)))
                (\<lambda>(env, l, depth, a, s). nat (dl_MaxParameters l + 1 - int (length a))))]")
qed auto


section \<open>Query strings\<close>

fun query_fields :: "DecodeLimits \<Rightarrow> string list \<Rightarrow> url_values \<Rightarrow> url_values go_result" where
  "query_fields l [] v = Inr v"
| "query_fields l (f # fs) v =
     (if f = [] then Inl ''empty query field''
      else let p = splitn_byte 2 CHR ''='' f in
        case query_unescape (p ! 0) of
          None \<Rightarrow> Inl ''malformed query key''
        | Some k \<Rightarrow>
            if k = [] then Inl ''malformed query key''
            else (case (if length p = 2 then query_unescape (p ! 1) else Some []) of
                    None \<Rightarrow> Inl ''malformed query value''
                  | Some x \<Rightarrow>
                      if int (length k) > dl_MaxTokenBytes l \<or> int (length x) > dl_MaxTokenBytes l
                      then Inl ''query token exceeds limit''
                      else if k \<in> fst ` set v then Inl (''duplicate query parameter '' @ k)
                      else if int (length v + 1) > dl_MaxParameters l then Inl ''query parameter limit exceeded''
                      else query_fields l fs (v @ [(k, [x])])))"

definition parseQueryString :: "string \<Rightarrow> DecodeLimits \<Rightarrow> url_values go_result" where
  "parseQueryString raw l =
     (if raw = [] then Inr []
      else if int (length raw) > dl_MaxBodyBytes l then Inl ''query exceeds decoder limit''
      else query_fields l (split_byte CHR ''&'' raw) [])"

definition values_get :: "url_values \<Rightarrow> string \<Rightarrow> string" where
  "values_get q k = (case map_of q k of Some (x # _) \<Rightarrow> x | _ \<Rightarrow> [])"

text \<open>The evidence of a failure after the operation has been validated.\<close>

definition protocol_evidence :: "string \<Rightarrow> string \<Rightarrow> DecodeFailureEvidence" where
  "protocol_evidence service protocol = \<lparr>ev_Service = service, ev_Protocol = protocol, ev_ProtocolAvailable = True,
     ev_ProtocolCertainty = EvidenceAuthoritative, ev_Operation = [], ev_OperationAvailable = False,
     ev_OperationCertainty = []\<rparr>"

definition operation_evidence :: "string \<Rightarrow> string \<Rightarrow> string \<Rightarrow> DecodeFailureEvidence" where
  "operation_evidence service protocol oper = (protocol_evidence service protocol)
     \<lparr>ev_Operation := oper, ev_OperationAvailable := True, ev_OperationCertainty := EvidenceValidated\<rparr>"

definition decode_failure :: "DecodeFailureEvidence \<Rightarrow> string \<Rightarrow> err_value" where
  "decode_failure ev message = the (NewDecodeFailureError ev (Some (PlainError message)))"

text \<open>The parameters of a query request, with the numbered instance identifiers.\<close>

fun query_members :: "url_values \<Rightarrow> parameters \<Rightarrow> (int \<times> string) list \<Rightarrow> (parameters \<times> (int \<times> string) list) go_result" where
  "query_members [] params indexed = Inr (params, indexed)"
| "query_members ((k, x) # rest) params indexed =
     (if k = ''Action'' then query_members rest params indexed
      else if length x \<noteq> 1 then Inl ''duplicate query parameter''
      else let params' = AList.update k (string_value (x ! 0)) params in
        if has_prefix k ''InstanceId.'' then
          (case strconv_Atoi (trim_prefix k ''InstanceId.'') of
             None \<Rightarrow> Inl ''malformed indexed query parameter''
           | Some n \<Rightarrow> if n < 1 then Inl ''malformed indexed query parameter''
                       else query_members rest params' (AList.update n (x ! 0) indexed))
        else query_members rest params' indexed)"

definition indexed_values :: "(int \<times> string) list \<Rightarrow> Value list go_result" where
  "indexed_values indexed =
     (let keys = sort (map fst indexed) in
      if keys \<noteq> map (\<lambda>i. int i + 1) [0..<length keys] then Inl ''indexed query parameters are not contiguous''
      else Inr (map (\<lambda>n. string_value (the (map_of indexed n))) keys))"

definition query_parameters :: "url_values \<Rightarrow> parameters go_result" where
  "query_parameters values =
     (case query_members values [] [] of
        Inl e \<Rightarrow> Inl e
      | Inr (params, indexed) \<Rightarrow>
          if indexed = [] then Inr params
          else (case indexed_values indexed of
                  Inl e \<Rightarrow> Inl e
                | Inr a \<Rightarrow> Inr (AList.update ''InstanceIds'' (items_value a) params)))"

definition decodeQueryBody ::
  "decode_env \<Rightarrow> string \<Rightarrow> url_values \<Rightarrow> string \<Rightarrow> string \<Rightarrow> wireIndex option \<Rightarrow> DecodeLimits \<Rightarrow>
     err_value + string \<times> parameters \<times> url_values" where
  "decodeQueryBody env body q service protocol c l =
     (case parseQueryString body l of
        Inl e \<Rightarrow> Inl (PlainError e)
      | Inr b \<Rightarrow>
          (case find (\<lambda>(k, _). k \<in> fst ` set q) b of
             Some (k, _) \<Rightarrow> Inl (PlainError (''query/body parameter conflicts: '' @ k))
           | None \<Rightarrow>
               (let values = q @ b; a = values_get values ''Action''; version = values_get values ''Version'' in
                if a = [] \<or> \<not> validOperation a then Inl (PlainError ''query Action is missing or malformed'')
                else if version = [] then Inl (PlainError ''query Version is missing'')
                else if \<not> catalogQueryOperation c service version protocol a
                then Inl (PlainError ''query Action is absent, contradictory, or ambiguous'')
                else let validated = operation_evidence service protocol a in
                  if protocol = ProtocolQuery \<and> service = ''ec2''
                  then Inl (decode_failure validated ''EC2 must use ec2-query protocol'')
                  else if protocol = ProtocolEC2Query \<and> service \<noteq> ''ec2''
                  then Inl (decode_failure validated ''ec2-query is only valid for EC2'')
                  else (case query_parameters (de_order env values) of
                          Inl e \<Rightarrow> Inl (decode_failure validated e)
                        | Inr params \<Rightarrow> Inr (a, params, values)))))"

section \<open>Bodies\<close>

definition decodeJSONBody ::
  "decode_env \<Rightarrow> string \<Rightarrow> http_header \<Rightarrow> string \<Rightarrow> string \<Rightarrow> wireIndex option \<Rightarrow> DecodeLimits \<Rightarrow>
     err_value + string \<times> parameters" where
  "decodeJSONBody env body h service protocol c l =
     (case header_values h ''X-Amz-Target'' of
        [t] \<Rightarrow>
          (case targetOperationFor t service protocol c (dl_MaxTokenBytes l) of
             Inl e \<Rightarrow> Inl (PlainError e)
           | Inr oper \<Rightarrow>
               (let validated = operation_evidence service protocol oper in
                if body = [] then Inl (decode_failure validated ''JSON body is empty'')
                else case parseJSONValue env l 0 (de_json env body) of
                  Inl e \<Rightarrow> Inl (decode_failure validated e)
                | Inr (v, s) \<Rightarrow>
                    if \<not> (js_tokens s = [] \<and> js_eof s) then Inl (decode_failure validated ''JSON body has trailing data'')
                    else if val_Kind v \<noteq> ValueObject then Inl (decode_failure validated ''JSON body must be an object'')
                    else Inr (oper, val_Object v)))
      | _ \<Rightarrow> Inl (PlainError ''JSON operation target is missing or duplicated''))"

text \<open>The members of one source are added to the others; a different value under the same name is a conflict.\<close>

fun add_members :: "string \<Rightarrow> parameters \<Rightarrow> parameters \<Rightarrow> parameters go_result" where
  "add_members conflict [] p = Inr p"
| "add_members conflict ((k, v) # rest) p =
     (case map_of p k of
        Some old \<Rightarrow> if old \<noteq> v then Inl conflict else add_members conflict rest p
      | None \<Rightarrow> add_members conflict rest (p @ [(k, v)]))"

definition decodeRESTJSONBody ::
  "decode_env \<Rightarrow> string \<Rightarrow> string \<Rightarrow> string \<Rightarrow> string \<Rightarrow> url_values \<Rightarrow> wireIndex option \<Rightarrow> DecodeLimits \<Rightarrow>
     err_value + string \<times> parameters" where
  "decodeRESTJSONBody env body service path method q c l =
     (case restOperationFromCatalog service path method q ProtocolRESTJSON c l of
        Inl e \<Rightarrow> Inl (PlainError e)
      | Inr (oper, route) \<Rightarrow>
          (let validated = operation_evidence service ProtocolRESTJSON oper; body' = trim_space body;
               p = (if body' = [] then Inr []
                    else case parseJSONValue env l 0 (de_json env body') of
                      Inl _ \<Rightarrow> Inl ''REST-JSON body is malformed''
                    | Inr (v, s) \<Rightarrow>
                        if val_Kind v \<noteq> ValueObject then Inl ''REST-JSON body is malformed''
                        else if \<not> (js_tokens s = [] \<and> js_eof s) then Inl ''REST-JSON body has trailing data''
                        else Inr (val_Object v))
           in case p of
                Inl e \<Rightarrow> Inl (decode_failure validated e)
              | Inr p \<Rightarrow>
                  (case add_members ''REST path/body evidence conflicts'' route p of
                     Inl e \<Rightarrow> Inl (decode_failure validated e)
                   | Inr params \<Rightarrow> Inr (oper, params))))"

text \<open>
  The text of the elements of an XML body. The loop keeps the number of tokens, the depth, the name
  of the last element that was opened and the values found.
\<close>

fun xml_loop ::
  "DecodeLimits \<Rightarrow> xml_token list \<Rightarrow> int \<Rightarrow> int \<Rightarrow> string \<Rightarrow> parameters \<Rightarrow> (int \<times> parameters) go_result" where
  "xml_loop l [] tokens stack current out = Inr (stack, out)"
| "xml_loop l (t # ts) tokens stack current out =
     (if tokens + 1 > 8192 \<or> tokens + 1 > wrap64 (dl_MaxParameters l * 4) then Inl ''REST-XML token limit exceeded''
      else case t of
        StartElement name \<Rightarrow>
          if stack + 1 > dl_MaxDepth l then Inl ''REST-XML nesting exceeds limit''
          else xml_loop l ts (tokens + 1) (stack + 1) name out
      | EndElement \<Rightarrow> xml_loop l ts (tokens + 1) (stack - 1) current out
      | CharData text \<Rightarrow>
          (let s = trim_space text in
           if s = [] then xml_loop l ts (tokens + 1) stack current out
           else if int (length s) > dl_MaxTokenBytes l then Inl ''REST-XML value exceeds limit''
           else xml_loop l ts (tokens + 1) stack current (AList.update current (string_value s) out))
      | Comment \<Rightarrow> xml_loop l ts (tokens + 1) stack current out
      | ProcInst \<Rightarrow> Inl ''REST-XML declaration is unsupported''
      | Directive \<Rightarrow> Inl ''REST-XML declaration is unsupported'')"

definition parseXMLParameters :: "decode_env \<Rightarrow> string \<Rightarrow> DecodeLimits \<Rightarrow> parameters go_result" where
  "parseXMLParameters env body l =
     (let stream = de_xml env body in
      case xml_loop l (xs_tokens stream) 0 0 [] [] of
        Inl e \<Rightarrow> Inl e
      | Inr (stack, out) \<Rightarrow>
          if \<not> xs_eof stream \<or> stack \<noteq> 0 then Inl ''malformed REST-XML body'' else Inr out)"

definition decodeRESTXMLBody ::
  "decode_env \<Rightarrow> string \<Rightarrow> string \<Rightarrow> string \<Rightarrow> string \<Rightarrow> url_values \<Rightarrow> wireIndex option \<Rightarrow> DecodeLimits \<Rightarrow>
     err_value + string \<times> parameters" where
  "decodeRESTXMLBody env body service path method q c l =
     (case restOperationFromCatalog service path method q ProtocolRESTXML c l of
        Inl e \<Rightarrow> Inl (PlainError e)
      | Inr (oper, p) \<Rightarrow>
          (let validated = operation_evidence service ProtocolRESTXML oper in
           if body = [] \<or> oper = ''PutObject'' then Inr (oper, p)
           else case parseXMLParameters env body l of
             Inl e \<Rightarrow> Inl (decode_failure validated e)
           | Inr x \<Rightarrow>
               (case add_members ''REST-XML path/body evidence conflicts'' x p of
                  Inl e \<Rightarrow> Inl (decode_failure validated e)
                | Inr params \<Rightarrow> Inr (oper, params))))"


section \<open>Reading a body and putting it back\<close>

text \<open>
  The body of a request: none, a source that delivers bytes and then ends or fails, the saved bytes of a body that was read, or a
  prefix in front of the rest of a body.
\<close>

datatype wire_body =
    Nil_body
  | Source_body string go_error go_error
  | Saved_body string
  | Composite_body string wire_body

record wire_request = http_request +
  wr_Body :: wire_body
  wr_GetBody :: "string option"

text \<open>What a body still delivers, and the error it ends with; what is left of it after some bytes; its close.\<close>

fun wire_content :: "wire_body \<Rightarrow> string \<times> go_error" where
  "wire_content Nil_body = ([], None)"
| "wire_content (Source_body bytes err cl) = (bytes, err)"
| "wire_content (Saved_body bytes) = (bytes, None)"
| "wire_content (Composite_body pre rest) = (case wire_content rest of (bytes, err) \<Rightarrow> (pre @ bytes, err))"

fun wire_after :: "nat \<Rightarrow> wire_body \<Rightarrow> wire_body" where
  "wire_after n Nil_body = Nil_body"
| "wire_after n (Source_body bytes err cl) = Source_body (drop n bytes) err cl"
| "wire_after n (Saved_body bytes) = Saved_body (drop n bytes)"
| "wire_after n (Composite_body pre rest) = Composite_body (drop n pre) (wire_after (n - length pre) rest)"

fun wire_Close :: "wire_body \<Rightarrow> go_error" where
  "wire_Close (Source_body bytes err cl) = cl"
| "wire_Close (Composite_body pre rest) = wire_Close rest"
| "wire_Close _ = None"

text \<open>\<^verbatim>\<open>io.ReadAll(io.LimitReader(b, n))\<close>: the limit hides an error beyond it.\<close>

definition read_limited :: "int \<Rightarrow> wire_body \<Rightarrow> string \<times> go_error" where
  "read_limited n b =
     (case wire_content b of (bytes, err) \<Rightarrow>
        if int (length bytes) \<ge> n then (take (nat n) bytes, None) else (bytes, err))"

definition readAndRestore :: "wire_request \<Rightarrow> int \<Rightarrow> (err_value + string) \<times> wire_request" where
  "readAndRestore r mx =
     (if mx \<le> 0 then (Inl (PlainError ''body limit is invalid''), r)
      else if wr_Body r = Nil_body then (Inr [], r\<lparr>wr_GetBody := Some []\<rparr>)
      else if rq_ContentLength r > mx then (Inl (PlainError ''request body exceeds decoder limit''), r)
      else case read_limited (wrap64 (mx + 1)) (wr_Body r) of (b, readErr) \<Rightarrow>
        if readErr \<noteq> None \<or> int (length b) > mx then
          (Inl (case readErr of
                  Some e \<Rightarrow> WrapError ''request body: '' (PlainError e)
                | None \<Rightarrow> PlainError ''request body exceeds decoder limit''),
           r\<lparr>wr_Body := Composite_body b (wire_after (length b) (wr_Body r))\<rparr>)
        else
          (case wire_Close (wr_Body r) of
             Some e \<Rightarrow> Inl (WrapError ''request body close: '' (PlainError e))
           | None \<Rightarrow> Inr b,
           r\<lparr>wr_Body := Saved_body b, wr_GetBody := Some b\<rparr>))"

section \<open>Decoders\<close>

record DecoderOptions =
  do_Limits :: DecodeLimits
  do_Classifier :: "(string \<Rightarrow> AWSEndpoint go_result) option"
  do_CallerAccountID :: string

record Decoder =
  dd_limits :: DecodeLimits
  dd_classifier :: "(string \<Rightarrow> AWSEndpoint go_result) option"
  dd_callerAccountID :: string
  dd_catalog :: "wireIndex option"
  dd_configErr :: go_error

text \<open>
  The package's default index, the error its construction left and the default classifier are arguments of the constructors.
  A limit that is not positive is replaced by its default.
\<close>

definition positive_or :: "int \<Rightarrow> int \<Rightarrow> int" where
  "positive_or i d = (if i > 0 then i else d)"

definition newDecoder ::
  "wireIndex option \<Rightarrow> go_error \<Rightarrow> DecodeLimits \<Rightarrow> (string \<Rightarrow> AWSEndpoint go_result) option \<Rightarrow> string \<Rightarrow> Decoder" where
  "newDecoder cat catErr x c account =
     (let d = DefaultDecodeLimits;
          limits = \<lparr>dl_MaxBodyBytes = positive_or (dl_MaxBodyBytes x) (dl_MaxBodyBytes d),
                    dl_MaxParameters = positive_or (dl_MaxParameters x) (dl_MaxParameters d),
                    dl_MaxDepth = positive_or (dl_MaxDepth x) (dl_MaxDepth d),
                    dl_MaxTokenBytes = positive_or (dl_MaxTokenBytes x) (dl_MaxTokenBytes d),
                    dl_MaxPathBytes = positive_or (dl_MaxPathBytes x) (dl_MaxPathBytes d)\<rparr>;
          configErr0 = validateCallerAccountID account;
          configErr = (if configErr0 = None \<and> cat = None
                       then (case catErr of Some e \<Rightarrow> Some e | None \<Rightarrow> Some ''wire index is unavailable'')
                       else configErr0)
      in \<lparr>dd_limits = limits, dd_classifier = c, dd_callerAccountID = account, dd_catalog = cat, dd_configErr = configErr\<rparr>)"

definition NewConfiguredDecoder ::
  "wireIndex option \<Rightarrow> go_error \<Rightarrow> (string \<Rightarrow> AWSEndpoint go_result) \<Rightarrow> DecoderOptions \<Rightarrow> Decoder go_result" where
  "NewConfiguredDecoder cat catErr defaultClassifier opts =
     (case validateCallerAccountID (do_CallerAccountID opts) of
        Some e \<Rightarrow> Inl (''caller account ID: '' @ e)
      | None \<Rightarrow>
          (let x = (if dl_MaxBodyBytes (do_Limits opts) = 0 then DefaultDecodeLimits else do_Limits opts);
               c = (case do_Classifier opts of None \<Rightarrow> Some defaultClassifier | Some c \<Rightarrow> Some c);
               d = newDecoder cat catErr x c (do_CallerAccountID opts)
           in case dd_configErr d of
                Some e \<Rightarrow> Inl (''decoder configuration: '' @ e)
              | None \<Rightarrow> Inr d))"

definition NewDecoder ::
  "wireIndex option \<Rightarrow> go_error \<Rightarrow> (string \<Rightarrow> AWSEndpoint go_result) \<Rightarrow> DecodeLimits list \<Rightarrow> Decoder" where
  "NewDecoder cat catErr defaultClassifier ls =
     (let x = (case ls of [] \<Rightarrow> DefaultDecodeLimits | l # _ \<Rightarrow> l);
          x' = \<lparr>dl_MaxBodyBytes = positive_or (dl_MaxBodyBytes x) (8 * 2 ^ 20), dl_MaxParameters = positive_or (dl_MaxParameters x) 2048,
                dl_MaxDepth = positive_or (dl_MaxDepth x) 32, dl_MaxTokenBytes = positive_or (dl_MaxTokenBytes x) 4096,
                dl_MaxPathBytes = positive_or (dl_MaxPathBytes x) 8192\<rparr>
      in newDecoder cat catErr x' (Some defaultClassifier) [])"

definition Decoder_WithClassifier :: "Decoder \<Rightarrow> (string \<Rightarrow> AWSEndpoint go_result) option \<Rightarrow> Decoder" where
  "Decoder_WithClassifier d c = (case c of None \<Rightarrow> d | Some _ \<Rightarrow> d\<lparr>dd_classifier := c\<rparr>)"

definition protocolFromHeaders :: "string \<Rightarrow> http_header \<Rightarrow> string \<Rightarrow> string go_result" where
  "protocolFromHeaders claimed h path =
     (let v = header_values h ''Content-Type'' in
      if length v > 1 then Inl ''content type is duplicated''
      else let c = (if length v = 1 then to_lower (trim_space (split_byte CHR '';'' (v ! 0) ! 0)) else []);
               inferred =
                 (if c = ''application/x-amz-json-1.0'' then Some ProtocolJSON10
                  else if c = ''application/x-amz-json-1.1'' then Some ProtocolJSON11
                  else if c = ''application/x-www-form-urlencoded'' then Some ProtocolQuery
                  else if c = ''application/json'' then Some ProtocolRESTJSON
                  else if c = ''application/xml'' \<or> c = ''text/xml'' then Some ProtocolRESTXML
                  else if c = [] then Some claimed
                  else None)
           in case inferred of
                None \<Rightarrow> Inl (''unsupported content type '' @ c)
              | Some p0 \<Rightarrow>
                  (let p = (if claimed = ProtocolEC2Query \<and> p0 = ProtocolQuery then claimed else p0) in
                   if p \<noteq> claimed then Inl ''protocol evidence disagrees''
                   else if path = [] then Inl ''invalid request path''
                   else Inr p))"

definition sensitive_header :: "string \<Rightarrow> bool" where
  "sensitive_header k \<longleftrightarrow>
     (let l = to_lower k in
      l = ''authorization'' \<or> l = ''proxy-authorization'' \<or> l = ''x-amz-security-token'' \<or> l = ''cookie'' \<or>
      sublist ''signature'' l)"

definition safeHeaders :: "http_header \<Rightarrow> http_header" where
  "safeHeaders h = filter (\<lambda>(k, _). \<not> sensitive_header k) h"

definition operationHasVariantTarget :: "wireIndex option \<Rightarrow> string \<Rightarrow> string \<Rightarrow> string \<Rightarrow> string \<Rightarrow> bool" where
  "operationHasVariantTarget c service operation protocol target =
     (case c of None \<Rightarrow> False | Some idx \<Rightarrow> wi_variants idx (service, protocol, operation, target) > 0)"


section \<open>Decoding\<close>

text \<open>The checks before the protocol is known.\<close>

definition expected_scope :: "AWSEndpoint \<Rightarrow> string \<times> string" where
  "expected_scope e =
     (if ep_SigningService e = [] then ep_Service e else ep_SigningService e,
      if ep_SigningRegion e = [] \<and> \<not> AWSEndpoint_IsGlobal e then ep_Region e else ep_SigningRegion e)"

definition request_host :: "decode_env \<Rightarrow> wire_request \<Rightarrow> url \<Rightarrow> string option" where
  "request_host env r u =
     (case NormalizeEndpointHost (de_idna env) (rq_Host r) of
        Inr (host, _) \<Rightarrow> Some host
      | Inl _ \<Rightarrow> (case NormalizeEndpointHost (de_idna env) (url_Host u) of Inr (host, _) \<Rightarrow> Some host | Inl _ \<Rightarrow> None))"

definition decode_preamble ::
  "decode_env \<Rightarrow> Decoder option \<Rightarrow> go_error \<Rightarrow> wire_request VerifiedRequest option \<Rightarrow> AWSEndpoint \<Rightarrow>
     err_value + Decoder \<times> wire_request VerifiedRequest \<times> wire_request \<times> url" where
  "decode_preamble env d ctxErr v e =
     (if ctxErr \<noteq> None then Inl (WrapError ''decode cancelled: '' (PlainError (the ctxErr)))
      else case v of
        None \<Rightarrow> Inl (PlainError ''verified request is required'')
      | Some vr \<Rightarrow>
          (case VerifiedRequest_Validate vr of
             Some err \<Rightarrow> Inl (WrapError ''verified request: '' (PlainError err))
           | None \<Rightarrow>
               (case d of
                  None \<Rightarrow> Inl (PlainError ''decoder is unavailable'')
                | Some dec \<Rightarrow>
                    (case dd_classifier dec of
                       None \<Rightarrow> Inl (PlainError ''decoder is unavailable'')
                     | Some classify \<Rightarrow>
                         if dd_configErr dec \<noteq> None
                         then Inl (WrapError ''decoder configuration: '' (PlainError (the (dd_configErr dec))))
                         else if AWSEndpoint_Validate e \<noteq> None \<or> \<not> EndpointIdentityEqual e (vr_Endpoint vr)
                         then Inl (PlainError ''endpoint evidence disagrees'')
                         else if (case classify (ep_Host e) of Inl _ \<Rightarrow> True | Inr ce \<Rightarrow> \<not> EndpointIdentityEqual ce e)
                         then Inl (PlainError ''endpoint identity could not be revalidated'')
                         else (case vr_Request vr of
                                 None \<Rightarrow> Inl (PlainError ''request URL is unavailable'')
                               | Some r \<Rightarrow>
                                   (case rq_URL r of
                                      None \<Rightarrow> Inl (PlainError ''request URL is unavailable'')
                                    | Some u \<Rightarrow>
                                        if request_host env r u \<noteq> Some (ep_Host e)
                                        then Inl (PlainError ''request host disagrees with endpoint'')
                                        else if (vr_SigningService vr, vr_SigningRegion vr) \<noteq> expected_scope e
                                        then Inl (PlainError ''credential scope disagrees with endpoint'')
                                        else if ep_AccountID e \<noteq> [] \<and> ep_AccountID e \<noteq> dd_callerAccountID dec
                                        then Inl (PlainError ''endpoint account disagrees with caller context'')
                                        else if vr_SigningScheme vr \<noteq> SigningHeaderV4 \<or> \<not> PayloadHashMode_Supported (vr_PayloadMode vr)
                                        then Inl (PlainError ''unsupported authenticated request'')
                                        else if int (length (escaped_path u)) > dl_MaxPathBytes (dd_limits dec)
                                        then Inl (PlainError ''request path exceeds limit'')
                                        else Inr (dec, vr, r, u)))))))"

text \<open>The indicators of a route, before the body is read: the parsed query, or the error.\<close>

definition route_indicators :: "Decoder \<Rightarrow> AWSEndpoint \<Rightarrow> string \<Rightarrow> wire_request \<Rightarrow> url \<Rightarrow> url_values go_result" where
  "route_indicators dec e protocol r u =
     (case parseQueryString (url_RawQuery u) (dd_limits dec) of
        Inl err \<Rightarrow> Inl err
      | Inr q \<Rightarrow>
          (let targets = header_values (rq_Header r) ''X-Amz-Target'' in
           if \<not> json_protocol protocol \<and> targets \<noteq> [] \<and> AWSProtocol_Supported protocol
           then Inl ''JSON target is not valid for this protocol''
           else if (rest_protocol protocol \<or> json_protocol protocol) \<and> ''Action'' \<in> fst ` set q
           then Inl ''query Action conflicts with protocol operation''
           else if json_protocol protocol \<or> query_protocol protocol then
             (case validateModeledWireRoute (dd_catalog dec) (ep_Service e) protocol (escaped_path u) (rq_Method r) q targets of
                Some err \<Rightarrow> Inl err
              | None \<Rightarrow> Inr q)
           else if \<not> rest_protocol protocol then Inl ''unsupported AWS protocol''
           else Inr q))"

text \<open>The operation that a route or a target establishes without the body.\<close>

definition prevalidated :: "Decoder \<Rightarrow> AWSEndpoint \<Rightarrow> string \<Rightarrow> wire_request \<Rightarrow> url \<Rightarrow> url_values \<Rightarrow> DecodeFailureEvidence" where
  "prevalidated dec e protocol r u q =
     (let none = protocol_evidence (ep_Service e) protocol;
          some = operation_evidence (ep_Service e) protocol
      in if json_protocol protocol then
           (case header_values (rq_Header r) ''X-Amz-Target'' of
              [t] \<Rightarrow> (case targetOperationFor t (ep_Service e) protocol (dd_catalog dec) (dl_MaxTokenBytes (dd_limits dec)) of
                        Inr oper \<Rightarrow> if DecodeFailureEvidence_HasOperation (some oper) then some oper else none
                      | Inl _ \<Rightarrow> none)
            | _ \<Rightarrow> none)
         else if rest_protocol protocol then
           (case restOperationFromCatalog (ep_Service e) (escaped_path u) (rq_Method r) q protocol (dd_catalog dec) (dd_limits dec) of
              Inr (oper, _) \<Rightarrow> if DecodeFailureEvidence_HasOperation (some oper) then some oper else none
            | Inl _ \<Rightarrow> none)
         else none)"

text \<open>The decoder of the body that a protocol selects: the operation, the parameters and the query.\<close>

definition decode_body ::
  "decode_env \<Rightarrow> Decoder \<Rightarrow> AWSEndpoint \<Rightarrow> string \<Rightarrow> wire_request \<Rightarrow> string \<Rightarrow> url_values \<Rightarrow> string \<Rightarrow>
     err_value + string \<times> parameters \<times> url_values" where
  "decode_body env dec e protocol r path q body =
     (let add = (\<lambda>(oper, params). (oper, params, q)) in
      if json_protocol protocol
      then map_sum id add (decodeJSONBody env body (rq_Header r) (ep_Service e) protocol (dd_catalog dec) (dd_limits dec))
      else if query_protocol protocol
      then decodeQueryBody env body q (ep_Service e) protocol (dd_catalog dec) (dd_limits dec)
      else if protocol = ProtocolRESTJSON
      then map_sum id add (decodeRESTJSONBody env body (ep_Service e) path (rq_Method r) q (dd_catalog dec) (dd_limits dec))
      else map_sum id add (decodeRESTXMLBody env body (ep_Service e) path (rq_Method r) q (dd_catalog dec) (dd_limits dec)))"

definition decoded_request ::
  "Decoder \<Rightarrow> wire_request VerifiedRequest \<Rightarrow> AWSEndpoint \<Rightarrow> string \<Rightarrow> wire_request \<Rightarrow> string \<Rightarrow> string \<Rightarrow>
     string \<times> parameters \<times> url_values \<Rightarrow> DecodedAWSRequest" where
  "decoded_request dec vr e protocol r path body = (\<lambda>(oper, params, q).
     \<lparr>dr_Partition = ep_Partition e, dr_EndpointHost = ep_Host e, dr_Service = ep_Service e,
      dr_SigningService = fst (expected_scope e), dr_SigningRegion = snd (expected_scope e), dr_Region = ep_Region e,
      dr_Scope = AWSEndpoint_EffectiveScope e, dr_FIPS = ep_FIPS e, dr_DualStack = ep_DualStack e,
      dr_AccountID = ep_AccountID e, dr_CallerAccountID = dd_callerAccountID dec, dr_Protocol = protocol,
      dr_Operation = oper, dr_Method = rq_Method r, dr_CanonicalPath = path, dr_CanonicalQuery = q,
      dr_Headers = safeHeaders (rq_Header r), dr_Parameters = params, dr_PayloadHashMode = vr_PayloadMode vr,
      dr_PayloadBytes = int (length body)\<rparr>)"

definition attach :: "err_value \<Rightarrow> DecodeFailureEvidence \<Rightarrow> err_value" where
  "attach err ev = the (AttachDecodeFailureEvidence (Some err) ev)"

text \<open>After the route: the body is read and put back, and its parameters are decoded.\<close>

definition decode_payload ::
  "decode_env \<Rightarrow> Decoder \<Rightarrow> wire_request VerifiedRequest \<Rightarrow> AWSEndpoint \<Rightarrow> string \<Rightarrow> wire_request \<Rightarrow> url \<Rightarrow> url_values \<Rightarrow>
     (err_value + DecodedAWSRequest) \<times> wire_request" where
  "decode_payload env dec vr e protocol r u q =
     (case readAndRestore r (dl_MaxBodyBytes (dd_limits dec)) of
        (Inl berr, r') \<Rightarrow> (Inl (the (NewDecodeFailureError (prevalidated dec e protocol r u q) (Some berr))), r')
      | (Inr body, r') \<Rightarrow>
          (let path = (if escaped_path u = [] then ''/'' else escaped_path u) in
           case decode_body env dec e protocol r path q body of
             Inl err \<Rightarrow> (Inl (attach err (protocol_evidence (ep_Service e) protocol)), r')
           | Inr parts \<Rightarrow>
               (let out = decoded_request dec vr e protocol r path body parts in
                case DecodedAWSRequest_Validate out of
                  Some err \<Rightarrow> (Inl (attach (WrapError ''decoded request: '' (PlainError err))
                                 (operation_evidence (ep_Service e) protocol (dr_Operation out))), r')
                | None \<Rightarrow> (Inr out, r'))))"

definition Decoder_Decode ::
  "decode_env \<Rightarrow> Decoder option \<Rightarrow> go_error \<Rightarrow> wire_request VerifiedRequest option \<Rightarrow> AWSEndpoint \<Rightarrow>
     (err_value + DecodedAWSRequest) \<times> wire_request option" where
  "Decoder_Decode env d ctxErr v e =
     (let unchanged = (case v of None \<Rightarrow> None | Some vr \<Rightarrow> vr_Request vr) in
      case decode_preamble env d ctxErr v e of
        Inl err \<Rightarrow> (Inl err, unchanged)
      | Inr (dec, vr, r, u) \<Rightarrow>
          (case protocolFromHeaders (vr_Protocol vr) (rq_Header r) (url_Path u) of
             Inl err \<Rightarrow> (Inl (PlainError err), unchanged)
           | Inr protocol \<Rightarrow>
               if authoritativeProtocolFor (dd_catalog dec) (ep_Service e) \<noteq> Some protocol
               then (Inl (PlainError ''protocol is not authoritative for endpoint service''), unchanged)
               else (case route_indicators dec e protocol r u of
                       Inl err \<Rightarrow> (Inl (decode_failure (protocol_evidence (ep_Service e) protocol) err), unchanged)
                     | Inr q \<Rightarrow> map_prod id Some (decode_payload env dec vr e protocol r u q))))"

end
