(* ===== verification/Iam_Params.thy ===== *)
theory Iam_Params
  imports Wire_Index Policy_Engine "HOL-Library.State_Monad"
begin

text \<open>
  The searches of the request parameters that the mapper and the catalog adapter share
  (\<^verbatim>\<open>internal/iammap/resources.go\<close>, \<^verbatim>\<open>internal/iammap/iamliveadapter/adapter.go\<close>).

  Every search polls the context; a computation under a context is a state transformer over the
  \<^typ>\<open>Context\<close>, so that a cancellation may fall between any two polls. The searches range over
  Go maps, whose iteration order is unspecified: the order of the association lists stands for it.
\<close>

section \<open>Computations under a context\<close>

type_synonym 'a ctx_prog = "(Context, 'a) state"

definition poll :: "bool ctx_prog" where
  "poll = State ctx_err"

text \<open>\<^verbatim>\<open>if err := ctx.Err(); err != nil { return x }\<close> before the rest of the code.\<close>

definition unless_cancelled :: "'a \<Rightarrow> 'a ctx_prog \<Rightarrow> 'a ctx_prog" where
  "unless_cancelled x m = do { cancelled \<leftarrow> poll; if cancelled then State_Monad.return x else m }"

section \<open>Strings\<close>

text \<open>\<^verbatim>\<open>strings.Fields\<close>: the maximal runs of runes that are not spaces.\<close>

fun field_runs :: "(rune option \<times> string) list \<Rightarrow> string \<Rightarrow> string list" where
  "field_runs [] acc = (if acc = [] then [] else [acc])"
| "field_runs (ch # chs) acc =
     (if space_chunk ch then (if acc = [] then [] else [acc]) @ field_runs chs []
      else field_runs chs (acc @ snd ch))"

definition strings_Fields :: "string \<Rightarrow> string list" where
  "strings_Fields s = field_runs (utf8_chunks s) []"

section \<open>One named string\<close>

text \<open>
  \<open>name_hit\<close> is the test of one map entry against the wanted name: \<^const>\<open>None\<close> makes the
  search ambiguous, otherwise the value found so far.
\<close>

definition name_hit :: "string \<Rightarrow> string \<Rightarrow> Value \<Rightarrow> string \<Rightarrow> string option" where
  "name_hit want k v found =
     (if \<not> equal_fold k want then Some found
      else if val_Kind v \<noteq> ValueString \<or> val_String v = [] then None
      else if found \<noteq> [] \<and> found \<noteq> val_String v then None
      else Some (val_String v))"

fun walk_fields :: "string \<Rightarrow> nat \<Rightarrow> parameters \<Rightarrow> string \<times> bool \<Rightarrow> (string \<times> bool) ctx_prog" where
  "walk_fields want d [] st = State_Monad.return st"
| "walk_fields want d ((k, Value kind s b i f obj arr) # rest) (found, ambiguous) =
     unless_cancelled (found, ambiguous)
       (case name_hit want k (Value kind s b i f obj arr) found of
          None \<Rightarrow> State_Monad.return (found, True)
        | Some found' \<Rightarrow> do {
            st \<leftarrow> (if kind = ValueObject \<and> \<not> (d + 1 > 16 \<or> ambiguous)
                  then unless_cancelled (found', ambiguous) (walk_fields want (d + 1) obj (found', ambiguous))
                  else State_Monad.return (found', ambiguous));
            walk_fields want d rest st })"

fun parameterStringContext :: "parameters \<Rightarrow> string list \<Rightarrow> string ctx_prog" where
  "parameterStringContext p [] = State_Monad.return []"
| "parameterStringContext p (want # names) =
     unless_cancelled [] (do {
       st \<leftarrow> unless_cancelled ([], False) (walk_fields want 0 p ([], False));
       if \<not> snd st \<and> fst st \<noteq> [] then State_Monad.return (fst st) else parameterStringContext p names })"

section \<open>A named list of strings\<close>

fun string_items :: "Value list \<Rightarrow> string list \<Rightarrow> string list ctx_prog" where
  "string_items [] r = State_Monad.return r"
| "string_items (x # xs) r =
     unless_cancelled []
       (if val_Kind x \<noteq> ValueString then State_Monad.return [] else string_items xs (r @ [val_String x]))"

fun parameterStringsContext :: "parameters \<Rightarrow> string \<Rightarrow> string list ctx_prog" where
  "parameterStringsContext [] name = State_Monad.return []"
| "parameterStringsContext ((k, v) # p) name =
     unless_cancelled []
       (if \<not> equal_fold k name then parameterStringsContext p name
        else if val_Kind v = ValueArray then string_items (val_Array v) []
        else if val_Kind v = ValueString then State_Monad.return (strings_Fields (val_String v))
        else parameterStringsContext p name)"

section \<open>All strings under a set of names\<close>

fun find_value :: "string set \<Rightarrow> string \<Rightarrow> nat \<Rightarrow> Value \<Rightarrow> string list ctx_prog"
  and find_fields :: "string set \<Rightarrow> nat \<Rightarrow> parameters \<Rightarrow> string list ctx_prog"
  and find_items :: "string set \<Rightarrow> nat \<Rightarrow> Value list \<Rightarrow> string list ctx_prog" where
  "find_value want key depth (Value kind s b i f obj arr) =
     unless_cancelled []
       (if depth > 16 then State_Monad.return []
        else do {
          inner \<leftarrow> (if kind = ValueObject then find_fields want (depth + 1) obj else State_Monad.return []);
          items \<leftarrow> (if kind = ValueArray then find_items want (depth + 1) arr else State_Monad.return []);
          State_Monad.return
            ((if kind = ValueString \<and> to_lower key \<in> want \<and> s \<noteq> [] then [s] else []) @ inner @ items) })"
| "find_fields want depth [] = State_Monad.return []"
| "find_fields want depth ((k, v) # rest) = do {
     here \<leftarrow> find_value want k depth v;
     there \<leftarrow> find_fields want depth rest;
     State_Monad.return (here @ there) }"
| "find_items want depth [] = State_Monad.return []"
| "find_items want depth (Value kind s b i f obj arr # items) =
     unless_cancelled [] (do {
       here \<leftarrow> (if kind = ValueObject then find_fields want depth obj else State_Monad.return []);
       there \<leftarrow> find_items want depth items;
       State_Monad.return (here @ there) })"

fun find_all :: "string set \<Rightarrow> parameters \<Rightarrow> string list \<Rightarrow> string list ctx_prog" where
  "find_all want [] out = State_Monad.return out"
| "find_all want ((key, v) # rest) out =
     unless_cancelled [] (do { here \<leftarrow> find_value want key 0 v; find_all want rest (out @ here) })"

definition FindContext :: "parameters \<Rightarrow> string list \<Rightarrow> string list ctx_prog" where
  "FindContext p names = find_all (to_lower ` set names) p []"

section \<open>Named values of another kind\<close>

fun invalid_fields :: "string set \<Rightarrow> nat \<Rightarrow> parameters \<Rightarrow> bool ctx_prog"
  and invalid_items :: "string set \<Rightarrow> nat \<Rightarrow> Value list \<Rightarrow> bool ctx_prog" where
  "invalid_fields wanted depth [] = State_Monad.return False"
| "invalid_fields wanted depth ((key, Value kind s b i f obj arr) # rest) =
     unless_cancelled True
       (if to_lower key \<in> wanted \<and> kind \<noteq> ValueString then State_Monad.return True
        else do {
          inner \<leftarrow> (if kind = ValueObject
                   then (if depth + 1 > 16 then State_Monad.return True else invalid_fields wanted (depth + 1) obj)
                   else State_Monad.return False);
          if inner then State_Monad.return True
          else do {
            items \<leftarrow> (if kind = ValueArray then invalid_items wanted (depth + 1) arr else State_Monad.return False);
            if items then State_Monad.return True else invalid_fields wanted depth rest } })"
| "invalid_items wanted depth [] = State_Monad.return False"
| "invalid_items wanted depth (Value kind s b i f obj arr # items) = do {
     here \<leftarrow> (if kind = ValueObject
             then (if depth > 16 then State_Monad.return True else invalid_fields wanted depth obj)
             else State_Monad.return False);
     if here then State_Monad.return True else invalid_items wanted depth items }"

definition invalidNamedValueContext :: "parameters \<Rightarrow> string list \<Rightarrow> bool ctx_prog" where
  "invalidNamedValueContext p names = invalid_fields (to_lower ` set names) 0 p"

end
