(* ===== verification/Iam_Adapter.thy ===== *)
theory Iam_Adapter
  imports Iam_Params
begin

text \<open>
  The catalog adapter of \<^verbatim>\<open>internal/iammap/iamliveadapter\<close>: it selects the one catalog record a
  wire identity names, evaluates the conditions of its compiled plan on the request parameters
  and returns the primary and dependent occurrences with their evidence. The catalog is the
  interface \<^verbatim>\<open>catalogDependency\<close> of the code, a function from service and operation name to the
  occurrences.
\<close>

section \<open>Failures\<close>

datatype FailureKind =
    FailureUnknownWireOperation | FailureAmbiguousWireOperation | FailureIncompleteWireIdentity
  | FailureCatalogInconsistency | FailureUnresolvedApplicability | FailureUnresolvedDependency

text \<open>An error of the adapter: the error of the context, or a \<^verbatim>\<open>*Failure\<close> with its static flag and detail.\<close>

datatype adapter_error = Adapter_context | Adapter_failure FailureKind bool string

abbreviation adapterFailure :: "FailureKind \<Rightarrow> adapter_error" where
  "adapterFailure kind \<equiv> Adapter_failure kind False []"

abbreviation adapterStaticFailure :: "FailureKind \<Rightarrow> string \<Rightarrow> adapter_error" where
  "adapterStaticFailure kind detail \<equiv> Adapter_failure kind True detail"

definition detail_rune :: "rune \<Rightarrow> bool" where
  "detail_rune r \<longleftrightarrow> alnum_rune r \<or> r = 58 \<or> r = 45 \<or> r = 95 \<or> r = 32"

definition safeFailureDetail :: "string \<Rightarrow> string" where
  "safeFailureDetail v =
     (let short = (if length v > 96 then take 96 v else v)
      in if list_ex (\<lambda>r. \<not> detail_rune r) (runes short) then ''catalog evidence'' else short)"

fun Failure_SafeDetail :: "adapter_error \<Rightarrow> string" where
  "Failure_SafeDetail (Adapter_failure kind static detail) = (if \<not> static then [] else safeFailureDetail detail)"
| "Failure_SafeDetail Adapter_context = []"

section \<open>Wire identities and occurrences\<close>

record WireIdentity =
  id_Protocol :: string
  id_Method :: string
  id_Path :: string
  id_Query :: url_values
  id_Target :: string

datatype Applicability = ApplicabilityUnknown | ApplicabilityInapplicable | ApplicabilityApplicable

record PrimaryOccurrence =
  po_ID :: uint32
  po_OperationID :: uint32
  po_DefinitionID :: uint32
  po_Operation :: string
  po_Action :: ActionReference
  po_Mapping :: ActionMapping
  po_Definition :: ActionDefinition
  po_ResourceType :: string
  po_ResourceTypeOccurrence :: uint32
  po_Scope :: string
  po_DefinitionDependencies :: "string list"

record DependencyOccurrence =
  do_ID :: uint32
  do_OperationID :: uint32
  do_DefinitionID :: uint32
  do_DefinitionEdgeID :: uint32
  do_MappingID :: uint32
  do_Action :: ActionReference
  do_Resources :: "string list"
  do_ParameterNames :: "string list"
  do_Applicability :: Applicability

record LookupResult =
  lr_Operation :: string
  lr_PrimaryOccurrences :: "PrimaryOccurrence list"
  lr_DependencyOccurrences :: "DependencyOccurrence list"

text \<open>
  \<^verbatim>\<open>unicode.IsLetter\<close> or \<^verbatim>\<open>unicode.IsDigit\<close>: exact on ASCII, with the letters and digits outside
  ASCII as an argument.
\<close>

definition letter_or_digit :: "(rune \<Rightarrow> bool) \<Rightarrow> rune \<Rightarrow> bool" where
  "letter_or_digit uni r \<longleftrightarrow> (if r < 128 then alnum_rune r else uni r)"

definition NormalizeOperation :: "(rune \<Rightarrow> bool) \<Rightarrow> string \<Rightarrow> string" where
  "NormalizeOperation uni operation =
     (let op = trim_space operation in
      if op = [] then []
      else if list_ex (\<lambda>r. \<not> letter_or_digit uni r) (runes op) then [] else op)"

section \<open>Selecting the record\<close>

definition recordProtocol :: "string \<Rightarrow> string \<Rightarrow> string option" where
  "recordProtocol protocol version =
     (if protocol = ''query'' then Some ProtocolQuery
      else if protocol = ''ec2'' then Some ProtocolEC2Query
      else if protocol = ''rest-json'' then Some ProtocolRESTJSON
      else if protocol = ''rest-xml'' then Some ProtocolRESTXML
      else if protocol = ''json'' \<and> version = ''1.0'' then Some ProtocolJSON10
      else if protocol = ''json'' \<and> version = ''1.1'' then Some ProtocolJSON11
      else None)"

definition jsonVersion :: "string \<Rightarrow> string" where
  "jsonVersion p = (if p = ProtocolJSON10 then ''1.0'' else ''1.1'')"

definition routeMatches :: "Operation \<Rightarrow> WireService \<Rightarrow> string \<Rightarrow> WireIdentity \<Rightarrow> bool" where
  "routeMatches rec service operation ident =
     (if \<not> equal_fold (rt_Method (op_Route rec)) (id_Method ident) then False
      else if query_protocol (id_Protocol ident) then
        map_of (id_Query ident) ''Action'' = Some [operation] \<and>
        map_of (id_Query ident) ''Version'' = Some [ws_APIVersion service]
      else if json_protocol (id_Protocol ident) then
        (case split_byte CHR ''.'' (id_Target ident) of
           [target, name] \<Rightarrow>
             target \<noteq> [] \<and> name \<noteq> [] \<and> target = ws_TargetPrefix service \<and> name = operation \<and>
             rt_TargetPrefix (op_Route rec) = target \<and> rt_JSONVersion (op_Route rec) = jsonVersion (id_Protocol ident)
         | _ \<Rightarrow> False)
      else if rest_protocol (id_Protocol ident) then
        (case MatchRESTRoute (rt_URI (op_Route rec)) (id_Path ident) (id_Query ident) (op_QueryBindings rec) DefaultDecodeLimits of
           Inl _ \<Rightarrow> False
         | Inr m \<Rightarrow> m \<noteq> None)
      else False)"

definition occurrence_selected :: "string \<Rightarrow> WireIdentity \<Rightarrow> OperationOccurrence \<Rightarrow> bool" where
  "occurrence_selected operation ident oc \<longleftrightarrow>
     op_State (oo_Operation oc) = EvidenceKnown \<and>
     recordProtocol (ws_Protocol (oo_Service oc)) (rt_JSONVersion (op_Route (oo_Operation oc))) = Some (id_Protocol ident) \<and>
     routeMatches (oo_Operation oc) (oo_Service oc) operation ident"

fun select_occurrences ::
  "string \<Rightarrow> WireIdentity \<Rightarrow> OperationOccurrence list \<Rightarrow> OperationOccurrence list \<Rightarrow> (OperationOccurrence list) option ctx_prog" where
  "select_occurrences operation ident [] selected = State_Monad.return (Some selected)"
| "select_occurrences operation ident (oc # ocs) selected =
     unless_cancelled None
       (select_occurrences operation ident ocs
          (if occurrence_selected operation ident oc then selected @ [oc] else selected))"

section \<open>Conditions\<close>

datatype conditionState = conditionUnknown | conditionFalse | conditionTrue

fun match_children :: "string \<Rightarrow> parameters \<Rightarrow> Value list \<Rightarrow> (Value list) option ctx_prog" where
  "match_children name [] next = State_Monad.return (Some next)"
| "match_children name ((key, v) # rest) next =
     unless_cancelled None (match_children name rest (if equal_fold key name then next @ [v] else next))"

fun match_parents :: "string \<Rightarrow> Value list \<Rightarrow> Value list \<Rightarrow> (Value list) option ctx_prog" where
  "match_parents name [] next = State_Monad.return (Some next)"
| "match_parents name (p # ps) next =
     unless_cancelled None
       (if val_Kind p \<noteq> ValueObject then State_Monad.return None
        else do {
          r \<leftarrow> match_children name (val_Object p) next;
          (case r of None \<Rightarrow> State_Monad.return None | Some next' \<Rightarrow> match_parents name ps next') })"

fun expand_arrays :: "Value list \<Rightarrow> Value list \<Rightarrow> (Value list) option ctx_prog" where
  "expand_arrays [] expanded = State_Monad.return (Some expanded)"
| "expand_arrays (v # vs) expanded =
     unless_cancelled None
       (if val_Kind v \<noteq> ValueArray then State_Monad.return None else expand_arrays vs (expanded @ val_Array v))"

fun leaf_strings :: "Value list \<Rightarrow> string list \<Rightarrow> (string list) option ctx_prog" where
  "leaf_strings [] out = State_Monad.return (Some out)"
| "leaf_strings (v # vs) out =
     unless_cancelled None
       (if val_Kind v \<noteq> ValueString then State_Monad.return None else leaf_strings vs (out @ [val_String v]))"

text \<open>
  \<^const>\<open>None\<close> is a path that is not valid for the value; the values found are present when the
  list is not empty.
\<close>

fun path_walk :: "Value list \<Rightarrow> string list \<Rightarrow> (string list) option ctx_prog" where
  "path_walk current [] = State_Monad.return (Some [])"
| "path_walk current (part # parts) =
     unless_cancelled None (do {
       r \<leftarrow> match_parents (trim_suffix part ''[]'') current [];
       (case r of
          None \<Rightarrow> State_Monad.return None
        | Some next \<Rightarrow>
            if next = [] then State_Monad.return (Some [])
            else do {
              e \<leftarrow> (if has_suffix part ''[]'' then expand_arrays next [] else State_Monad.return (Some next));
              (case e of
                 None \<Rightarrow> State_Monad.return None
               | Some next' \<Rightarrow> if parts = [] then leaf_strings next' [] else path_walk next' parts) }) })"

definition object_value :: "parameters \<Rightarrow> Value" where
  "object_value p = Value ValueObject [] False 0 (Finite 0 0) p []"

definition pathValues :: "parameters \<Rightarrow> string \<Rightarrow> (string list) option ctx_prog" where
  "pathValues root path =
     (if path = [] then State_Monad.return None else path_walk [object_value root] (split_byte CHR ''.'' path))"

fun anyString :: "(string \<Rightarrow> bool) \<Rightarrow> string list \<Rightarrow> bool ctx_prog" where
  "anyString P [] = State_Monad.return False"
| "anyString P (v # vs) = unless_cancelled False (if P v then State_Monad.return True else anyString P vs)"

definition present_any :: "string list \<Rightarrow> (string \<Rightarrow> bool) \<Rightarrow> bool ctx_prog" where
  "present_any values P = (if values = [] then State_Monad.return False else anyString P values)"

definition condition_result :: "string \<Rightarrow> string \<Rightarrow> string list \<Rightarrow> (bool option) ctx_prog" where
  "condition_result op rhs vals =
     (let any = (\<lambda>P. do { r \<leftarrow> present_any vals P; State_Monad.return (Some r) });
          none = (\<lambda>P. do { r \<leftarrow> present_any vals P; State_Monad.return (Some (\<not> r)) })
      in if op = ''exists'' then State_Monad.return (Some (vals \<noteq> []))
      else if op = ''notexists'' then State_Monad.return (Some (vals = []))
      else if op = ''equals'' then any (\<lambda>v. v = rhs)
      else if op = ''notequals'' then none (\<lambda>v. v = rhs)
      else if op = ''contains'' then any (\<lambda>v. sublist rhs v)
      else if op = ''icontains'' then any (\<lambda>v. sublist (to_lower rhs) (to_lower v))
      else if op = ''startswith'' then any (\<lambda>v. has_prefix v rhs)
      else if op = ''notstartswith'' then none (\<lambda>v. has_prefix v rhs)
      else State_Monad.return None)"

fun evaluateCondition :: "Condition \<Rightarrow> parameters \<Rightarrow> conditionState ctx_prog" where
  "evaluateCondition (Condition lhs op rhs nd) p =
     unless_cancelled conditionUnknown (do {
       v \<leftarrow> pathValues p lhs;
       (case v of
          None \<Rightarrow> State_Monad.return conditionUnknown
        | Some vals \<Rightarrow> do {
            r \<leftarrow> condition_result (to_lower op) rhs vals;
            (case r of
               None \<Rightarrow> State_Monad.return conditionUnknown
             | Some result \<Rightarrow>
                 (case nd of
                    None \<Rightarrow> State_Monad.return (if result then conditionTrue else conditionFalse)
                  | Some c \<Rightarrow> do {
                      right \<leftarrow> evaluateCondition c p;
                      State_Monad.return
                        (if right = conditionUnknown then conditionUnknown
                         else if right = conditionFalse \<or> \<not> result then conditionFalse
                         else conditionTrue) })) }) })"

section \<open>Templates\<close>

fun after_dollar :: "string \<Rightarrow> string option" where
  "after_dollar (c # d # r) = (if c = CHR ''$'' \<and> d = CHR ''{'' then Some r else after_dollar (d # r))"
| "after_dollar _ = None"

lemma after_dollar_length: "after_dollar t = Some r \<Longrightarrow> length r < length t"
  by (induction t rule: after_dollar.induct) (auto split: if_splits)

fun uniqueStringsContext :: "string list \<Rightarrow> string set \<Rightarrow> string list \<Rightarrow> string list ctx_prog" where
  "uniqueStringsContext [] seen out = State_Monad.return out"
| "uniqueStringsContext (v # vs) seen out =
     unless_cancelled []
       (if v \<noteq> [] \<and> to_lower v \<notin> seen then uniqueStringsContext vs (insert (to_lower v) seen) (out @ [v])
        else uniqueStringsContext vs seen out)"

definition last_component :: "string \<Rightarrow> string" where
  "last_component name = rev (takeWhile (\<lambda>c. c \<notin> set ''.[]'') (rev name))"

function template_loop :: "string \<Rightarrow> string list \<Rightarrow> string list ctx_prog" where
  "template_loop template out =
     unless_cancelled []
       (case after_dollar template of
          None \<Rightarrow> uniqueStringsContext out {} []
        | Some rest \<Rightarrow>
            (case index_byte rest CHR ''}'' of
               None \<Rightarrow> uniqueStringsContext out {} []
             | Some j \<Rightarrow>
                 (let name = last_component (take j rest)
                  in template_loop (drop (Suc j) rest) (if name \<noteq> [] then out @ [name] else out))))"
  by pat_completeness auto

termination
  by (relation "measure (\<lambda>(t, _). length t)") (auto dest!: after_dollar_length)

declare template_loop.simps [simp del]

definition templateNames :: "string \<Rightarrow> string list ctx_prog" where
  "templateNames template = template_loop template []"

fun collect_templates :: "ResourceMapping list \<Rightarrow> string list \<Rightarrow> (string list) option ctx_prog" where
  "collect_templates [] out = State_Monad.return (Some out)"
| "collect_templates (r # rs) out = unless_cancelled None (collect_templates rs (out @ [rm_Template r]))"

definition resourceTemplatesContext :: "ActionMapping \<Rightarrow> string list ctx_prog" where
  "resourceTemplatesContext m = do {
     r \<leftarrow> collect_templates (am_Resources m @ map snd (am_ConditionMappings m)) [];
     State_Monad.return (case r of None \<Rightarrow> [] | Some out \<Rightarrow> out) }"

definition default_role_names :: "string list" where
  "default_role_names = [''Role'', ''RoleArn'', ''TaskRoleArn'', ''ExecutionRoleArn'', ''IamRoleArn'']"

fun names_of_templates :: "string list \<Rightarrow> string list \<Rightarrow> (string list) option ctx_prog" where
  "names_of_templates [] names = State_Monad.return (Some names)"
| "names_of_templates (t # ts) names =
     unless_cancelled None (do { ns \<leftarrow> templateNames t; names_of_templates ts (names @ ns) })"

definition dependencyParameterNames :: "ActionMapping \<Rightarrow> string list ctx_prog" where
  "dependencyParameterNames m = do {
     templates \<leftarrow> resourceTemplatesContext m;
     r \<leftarrow> names_of_templates (am_ARNOverride m # templates) [];
     (case r of
        None \<Rightarrow> State_Monad.return []
      | Some names \<Rightarrow> uniqueStringsContext (if names = [] then default_role_names else names) {} []) }"

fun find_names :: "parameters \<Rightarrow> string list \<Rightarrow> string list \<Rightarrow> string list ctx_prog" where
  "find_names p [] out = State_Monad.return out"
| "find_names p (name # names) out =
     unless_cancelled [] (do { vs \<leftarrow> FindContext p [name]; find_names p names (out @ vs) })"

definition templateValues :: "string \<Rightarrow> parameters \<Rightarrow> string list ctx_prog" where
  "templateValues template p = do { names \<leftarrow> templateNames template; find_names p names [] }"

section \<open>The values of a dependency\<close>

datatype dependencyState = dependencyUnknown | dependencyFalse | dependencyTrue

fun template_values_loop :: "string list \<Rightarrow> parameters \<Rightarrow> string list \<Rightarrow> (string list) option ctx_prog" where
  "template_values_loop [] p vals = State_Monad.return (Some vals)"
| "template_values_loop (t # ts) p vals =
     unless_cancelled None (do { vs \<leftarrow> templateValues t p; template_values_loop ts p (vals @ vs) })"

definition dependency_evidence :: "ActionMapping \<Rightarrow> parameters \<Rightarrow> (string list) option ctx_prog" where
  "dependency_evidence m p =
     (if am_ARNOverride m \<noteq> [] then do { vs \<leftarrow> templateValues (am_ARNOverride m) p; State_Monad.return (Some vs) }
      else do { ts \<leftarrow> resourceTemplatesContext m; template_values_loop ts p [] })"

text \<open>An override with \<^verbatim>\<open>iftruthy\<close> applies only where one of its parameters is present, as a string.\<close>

definition truthy_state :: "ActionMapping \<Rightarrow> parameters \<Rightarrow> string list \<Rightarrow> dependencyState ctx_prog" where
  "truthy_state m p names =
     (if sublist ''iftruthy'' (to_lower (am_ARNOverride m)) then do {
        invalid \<leftarrow> invalidNamedValueContext p names;
        if invalid then State_Monad.return dependencyUnknown
        else do {
          vs \<leftarrow> FindContext p names;
          State_Monad.return (if vs = [] then dependencyFalse else dependencyTrue) } }
      else State_Monad.return dependencyTrue)"

definition dependency_values :: "ActionMapping \<Rightarrow> parameters \<Rightarrow> (string list \<times> dependencyState) ctx_prog" where
  "dependency_values m p = do {
     names \<leftarrow> dependencyParameterNames m;
     unless_cancelled ([], dependencyUnknown) (do {
       e \<leftarrow> dependency_evidence m p;
       (case e of
          None \<Rightarrow> State_Monad.return ([], dependencyUnknown)
        | Some vals \<Rightarrow> do {
            t \<leftarrow> truthy_state m p names;
            State_Monad.return
              (if t \<noteq> dependencyTrue then ([], t)
               else if vals = [] then ([], dependencyUnknown)
               else (vals, dependencyTrue)) }) }) }"

definition dependencyValues :: "ActionMapping \<Rightarrow> parameters \<Rightarrow> (string list \<times> dependencyState) ctx_prog" where
  "dependencyValues m p =
     unless_cancelled ([], dependencyUnknown)
       (case am_Condition m of
          None \<Rightarrow> dependency_values m p
        | Some c \<Rightarrow> do {
            state \<leftarrow> evaluateCondition c p;
            (if state = conditionFalse then State_Monad.return ([], dependencyFalse)
             else if state = conditionUnknown then State_Monad.return ([], dependencyUnknown)
             else dependency_values m p) })"

section \<open>Entries of primary actions\<close>

record Entry =
  en_Service :: string
  en_Operation :: string
  en_Action :: string
  en_Resource :: string
  en_Scope :: string
  en_Dependencies :: "string list"

definition named_resources :: "ActionDefinition \<Rightarrow> string list" where
  "named_resources d = filter (\<lambda>n. n \<noteq> []) (map ry_Name (ad_Resources d))"

definition resource_matched :: "string set \<Rightarrow> string \<Rightarrow> bool" where
  "resource_matched params name =
     (let n = to_lower (trim_suffix name ''*'') in
      (n = ''object'' \<and> (''key'' \<in> params \<or> ''objectname'' \<in> params)) \<or>
      (n = ''table'' \<and> ''tablename'' \<in> params) \<or>
      (n = ''task-definition'' \<and> (''taskdefinition'' \<in> params \<or> ''taskdefinitionfamilyname'' \<in> params)) \<or>
      (n = ''log-stream'' \<and> (''logstreamname'' \<in> params \<or> ''loggroupname'' \<in> params)))"

definition entry_resource :: "ActionReference \<Rightarrow> ActionDefinition \<Rightarrow> string \<Rightarrow> ActionMapping \<Rightarrow> string \<times> string" where
  "entry_resource action definition0 operation m =
     (let named = named_resources definition0 in
      if equal_fold (ar_Service action) ''dynamodb'' \<and> operation = ''BatchExecuteStatement'' \<and> am_Condition m \<noteq> None
      then (''table*'', ''exact'')
      else if length named = 1 then (named ! 0, ''exact'')
      else if length named > 1 then
        (let params = to_lower ` rm_Parameter ` set (am_Resources m) in
         case filter (resource_matched params) named of
           [match] \<Rightarrow> (match, ''exact'')
         | _ \<Rightarrow> (''global'', ''unresolved''))
      else if length (ad_Resources definition0) > 1 then (''global'', ''unresolved'')
      else (''global'', ''known_global''))"

definition entryForAction :: "ActionReference \<Rightarrow> ActionDefinition \<Rightarrow> string \<Rightarrow> ActionMapping \<Rightarrow> Entry" where
  "entryForAction action definition0 operation m =
     (case entry_resource action definition0 operation m of (resource, scope) \<Rightarrow>
        \<lparr>en_Service = to_lower (ar_Service action), en_Operation = operation,
         en_Action = ar_Service action @ '':'' @ ar_Name action, en_Resource = resource, en_Scope = scope,
         en_Dependencies = concat (map ry_DependentActions (ad_Resources definition0))\<rparr>)"

fun resource_position :: "string \<Rightarrow> nat \<Rightarrow> ResourceType list \<Rightarrow> uint32 option" where
  "resource_position want index [] = None"
| "resource_position want index (r # rs) =
     (if want \<noteq> [] \<and> trim_suffix (to_lower (trim_space (ry_Name r))) ''*'' = want then Some (of_nat (index + 1))
      else resource_position want (index + 1) rs)"

definition resourceTypeOccurrence :: "ActionDefinition \<Rightarrow> string \<Rightarrow> uint32" where
  "resourceTypeOccurrence d resource =
     (case resource_position (trim_suffix (to_lower (trim_space resource)) ''*'') 0 (ad_Resources d) of
        Some n \<Rightarrow> n
      | None \<Rightarrow> if length (ad_Resources d) = 1 then 1 else 0)"

section \<open>Looking an operation up\<close>

record mappingRecord =
  mc_id :: uint32
  mc_definitionID :: uint32
  mc_action :: ActionReference
  mc_definition :: ActionDefinition
  mc_mapping :: ActionMapping
  mc_inapplicable :: bool
  mc_dependent :: bool

fun runtimePlanFailure :: "ValidationDiagnostic list \<Rightarrow> FailureKind \<times> string" where
  "runtimePlanFailure [] = (FailureCatalogInconsistency, [])"
| "runtimePlanFailure (d # ds) =
     (if vd_Detail d = ''missing dependent action mapping occurrence'' \<or> vd_RelatedAction d \<noteq> []
      then (FailureUnresolvedDependency, vd_Action d)
      else if vd_Detail d = ''mapping has no primary action'' then (FailureUnresolvedApplicability, [])
      else runtimePlanFailure ds)"

text \<open>
  The first loop: one record for each compiled mapping, with the state of its condition. The
  definition numbers are given in the order in which the actions first occur.
\<close>

definition definition_key :: "ActionReference \<Rightarrow> string" where
  "definition_key a = to_lower (ar_Service a) @ [CHR 0x00] @ to_lower (ar_Name a)"

definition mapping_condition :: "ActionMapping \<Rightarrow> parameters \<Rightarrow> conditionState ctx_prog" where
  "mapping_condition m p =
     (case am_Condition m of None \<Rightarrow> State_Monad.return conditionTrue | Some c \<Rightarrow> evaluateCondition c p)"

fun plan_records ::
  "parameters \<Rightarrow> nat \<Rightarrow> StaticMapping list \<Rightarrow> (string \<Rightarrow> uint32) \<times> uint32 \<Rightarrow> mappingRecord list \<Rightarrow>
     (adapter_error + mappingRecord list) ctx_prog" where
  "plan_records p index [] ids records = State_Monad.return (Inr records)"
| "plan_records p index (compiled # rest) (ids, nextID) records =
     unless_cancelled (Inl Adapter_context)
       (let raw = sm_Mapping compiled; action = sm_Action compiled in
        if ar_Service action = [] \<or> ar_Name action = []
        then State_Monad.return (Inl (adapterFailure FailureCatalogInconsistency))
        else do {
          state \<leftarrow> mapping_condition raw p;
          if state = conditionUnknown
          then State_Monad.return (Inl (adapterFailure FailureUnresolvedApplicability))
          else (let occ = StaticMapping_Occurrence compiled;
                    ident = (if occ = 0 then of_nat (index + 1) else occ);
                    known = ids (definition_key action);
                    definitionID = (if known = 0 then nextID else known);
                    ids' = (if known = 0 then (ids(definition_key action := nextID), nextID + 1) else (ids, nextID));
                    rec = \<lparr>mc_id = ident, mc_definitionID = definitionID, mc_action = action,
                           mc_definition = sm_Definition compiled, mc_mapping = raw,
                           mc_inapplicable = (state = conditionFalse), mc_dependent = sm_Dependent compiled\<rparr>
                in plan_records p (index + 1) rest ids' (records @ [rec])) })"

text \<open>The edge numbers of the dependent actions of the roots, by lower-case action.\<close>

fun number_edges :: "string list \<Rightarrow> (string \<Rightarrow> uint32 list) \<times> uint32 \<Rightarrow> (string \<Rightarrow> uint32 list) \<times> uint32" where
  "number_edges [] st = st"
| "number_edges (d # ds) (edges, nextID) = number_edges ds (push (to_lower d) nextID edges, nextID + 1)"

fun resource_edges ::
  "ResourceType list \<Rightarrow> (string \<Rightarrow> uint32 list) \<times> uint32 \<Rightarrow> ((string \<Rightarrow> uint32 list) \<times> uint32) option ctx_prog" where
  "resource_edges [] st = State_Monad.return (Some st)"
| "resource_edges (r # rs) st = unless_cancelled None (resource_edges rs (number_edges (ry_DependentActions r) st))"

fun root_edges ::
  "mappingRecord list \<Rightarrow> (string \<Rightarrow> uint32 list) \<times> uint32 \<Rightarrow> ((string \<Rightarrow> uint32 list) \<times> uint32) option ctx_prog" where
  "root_edges [] st = State_Monad.return (Some st)"
| "root_edges (r # rs) st =
     unless_cancelled None (do {
       e \<leftarrow> resource_edges (ad_Resources (mc_definition r)) st;
       (case e of None \<Rightarrow> State_Monad.return None | Some st' \<Rightarrow> root_edges rs st') })"

definition primary_occurrence :: "uint32 \<Rightarrow> Operation \<Rightarrow> mappingRecord \<Rightarrow> PrimaryOccurrence" where
  "primary_occurrence operationID operation root =
     (let entry = entryForAction (mc_action root) (mc_definition root) (op_Name operation) (mc_mapping root) in
      \<lparr>po_ID = mc_id root, po_OperationID = operationID, po_DefinitionID = mc_definitionID root,
       po_Operation = op_Name operation, po_Action = mc_action root, po_Mapping = mc_mapping root,
       po_Definition = mc_definition root, po_ResourceType = en_Resource entry,
       po_ResourceTypeOccurrence = resourceTypeOccurrence (mc_definition root) (en_Resource entry),
       po_Scope = en_Scope entry, po_DefinitionDependencies = en_Dependencies entry\<rparr>)"

fun primary_occurrences :: "uint32 \<Rightarrow> Operation \<Rightarrow> mappingRecord list \<Rightarrow> PrimaryOccurrence list \<Rightarrow>
    (PrimaryOccurrence list) option ctx_prog" where
  "primary_occurrences operationID operation [] out = State_Monad.return (Some out)"
| "primary_occurrences operationID operation (r # rs) out =
     unless_cancelled None (primary_occurrences operationID operation rs (out @ [primary_occurrence operationID operation r]))"

text \<open>
  One dependent record: its edge number (a fresh one when the edges of its action are used up), and
  the evaluation of its values. The state is the next free edge number and the edges used so far
  for each action.
\<close>

definition dependency_key :: "ActionReference \<Rightarrow> string" where
  "dependency_key a = to_lower (ar_Service a) @ '':'' @ to_lower (ar_Name a)"

definition take_edge ::
  "(string \<Rightarrow> uint32 list) \<Rightarrow> string \<Rightarrow> (string \<Rightarrow> nat) \<times> uint32 \<Rightarrow> uint32 \<times> (string \<Rightarrow> nat) \<times> uint32" where
  "take_edge edges key = (\<lambda>(used, nextID).
     (let found = used key < length (edges key);
          edge = (if found then edges key ! used key else 0);
          used' = (if found then used(key := used key + 1) else used)
      in if edge = 0 then (nextID, used', nextID + 1) else (edge, used', nextID)))"

definition with_values :: "DependencyOccurrence \<Rightarrow> string list \<times> dependencyState \<Rightarrow> DependencyOccurrence" where
  "with_values oc r =
     (case snd r of
        dependencyFalse \<Rightarrow> oc\<lparr>do_Applicability := ApplicabilityInapplicable\<rparr>
      | dependencyUnknown \<Rightarrow> oc\<lparr>do_Applicability := ApplicabilityUnknown\<rparr>
      | dependencyTrue \<Rightarrow>
          if fst r = [] then oc\<lparr>do_Applicability := ApplicabilityUnknown\<rparr>
          else oc\<lparr>do_Resources := fst r, do_Applicability := ApplicabilityApplicable\<rparr>)"

fun dependency_occurrences ::
  "parameters \<Rightarrow> uint32 \<Rightarrow> (string \<Rightarrow> uint32 list) \<Rightarrow> mappingRecord list \<Rightarrow> (string \<Rightarrow> nat) \<times> uint32 \<Rightarrow>
     DependencyOccurrence list \<Rightarrow> (DependencyOccurrence list) option ctx_prog" where
  "dependency_occurrences p operationID edges [] st out = State_Monad.return (Some out)"
| "dependency_occurrences p operationID edges (r # rs) st out =
     unless_cancelled None
       (if \<not> mc_dependent r then dependency_occurrences p operationID edges rs st out
        else do {
          names \<leftarrow> dependencyParameterNames (mc_mapping r);
          unless_cancelled None
            (case take_edge edges (dependency_key (mc_action r)) st of (edge, st') \<Rightarrow>
               (let oc = \<lparr>do_ID = mc_id r, do_OperationID = operationID, do_DefinitionID = mc_definitionID r,
                          do_DefinitionEdgeID = edge, do_MappingID = mc_id r, do_Action = mc_action r,
                          do_Resources = [], do_ParameterNames = names, do_Applicability = ApplicabilityUnknown\<rparr>
                in if mc_inapplicable r
                   then dependency_occurrences p operationID edges rs st'
                          (out @ [oc\<lparr>do_Applicability := ApplicabilityInapplicable\<rparr>])
                   else do {
                     v \<leftarrow> dependencyValues (mc_mapping r) p;
                     unless_cancelled None
                       (dependency_occurrences p operationID edges rs st' (out @ [with_values oc v])) })) })"

definition occurrences_of ::
  "parameters \<Rightarrow> Operation \<Rightarrow> uint32 \<Rightarrow> mappingRecord list \<Rightarrow> mappingRecord list \<Rightarrow> (LookupResult option) ctx_prog" where
  "occurrences_of p operation operationID records roots = do {
     e \<leftarrow> root_edges roots ((\<lambda>_. []), 1);
     (case e of
        None \<Rightarrow> State_Monad.return None
      | Some (edges, nextID) \<Rightarrow> do {
          ps \<leftarrow> primary_occurrences operationID operation roots [];
          (case ps of
             None \<Rightarrow> State_Monad.return None
           | Some primaries \<Rightarrow> do {
               ds \<leftarrow> dependency_occurrences p operationID edges records ((\<lambda>_. 0), nextID) [];
               State_Monad.return (map_option (\<lambda>deps.
                 \<lparr>lr_Operation = op_Name operation, lr_PrimaryOccurrences = primaries,
                  lr_DependencyOccurrences = deps\<rparr>) ds) }) }) }"

definition lookupOperationContext ::
  "Operation \<Rightarrow> StaticPlan \<Rightarrow> parameters \<Rightarrow> (adapter_error + LookupResult) ctx_prog" where
  "lookupOperationContext operation plan p =
     unless_cancelled (Inl Adapter_context)
       (if \<not> StaticPlan_Valid plan
        then State_Monad.return (Inl (case runtimePlanFailure (pl_Diagnostics plan) of (kind, detail) \<Rightarrow>
               adapterStaticFailure kind detail))
        else if op_State operation \<noteq> EvidenceKnown \<or> op_MappingState operation \<noteq> EvidenceKnown
                \<or> length (pl_Mappings plan) = 0
        then State_Monad.return (Inl (adapterFailure FailureCatalogInconsistency))
        else do {
          r \<leftarrow> plan_records p 0 (pl_Mappings plan) ((\<lambda>_. 0), 1) [];
          (case r of
             Inl e \<Rightarrow> State_Monad.return (Inl e)
           | Inr records \<Rightarrow>
               (let roots = filter (\<lambda>rec. \<not> mc_dependent rec \<and> \<not> mc_inapplicable rec) records in
                if roots = [] then State_Monad.return (Inl (adapterFailure FailureUnresolvedApplicability))
                else do {
                  out \<leftarrow> occurrences_of p operation (if pl_Occurrence plan = 0 then 1 else pl_Occurrence plan) records roots;
                  State_Monad.return (case out of None \<Rightarrow> Inl Adapter_context | Some res \<Rightarrow> Inr res) })) })"

type_synonym catalog = "string \<Rightarrow> string \<Rightarrow> OperationOccurrence list"

definition LookupRequestContext ::
  "(rune \<Rightarrow> bool) \<Rightarrow> catalog option \<Rightarrow> string \<Rightarrow> string \<Rightarrow> WireIdentity \<Rightarrow> parameters \<Rightarrow> (adapter_error + LookupResult) ctx_prog" where
  "LookupRequestContext uni adapter service operation ident p =
     unless_cancelled (Inl Adapter_context)
       (case adapter of
          None \<Rightarrow> State_Monad.return (Inl (adapterFailure FailureCatalogInconsistency))
        | Some occurrences \<Rightarrow>
            (let op = NormalizeOperation uni operation in
             if op = [] \<or> \<not> AWSProtocol_Supported (id_Protocol ident) \<or> trim_space (id_Method ident) = [] \<or> id_Path ident = []
             then State_Monad.return (Inl (adapterFailure FailureIncompleteWireIdentity))
             else do {
               s \<leftarrow> select_occurrences op ident (occurrences service op) [];
               (case s of
                  None \<Rightarrow> State_Monad.return (Inl Adapter_context)
                | Some [] \<Rightarrow> State_Monad.return (Inl (adapterFailure FailureUnknownWireOperation))
                | Some [oc] \<Rightarrow> lookupOperationContext (oo_Operation oc) (oo_Plan oc) p
                | Some _ \<Rightarrow> State_Monad.return (Inl (adapterFailure FailureAmbiguousWireOperation))) }))"

end
