(* ===== verification/Iam_Resources.thy ===== *)
theory Iam_Resources
  imports Iam_Adapter
begin

text \<open>
  The resources of a primary action, \<^verbatim>\<open>internal/iammap/resources.go\<close>: the resource type of the
  catalog and the request parameters give the ARNs the action is performed on. A result is the
  list of ARNs with its scope; a request that does not determine them has the scope
  \<^verbatim>\<open>unresolved\<close>, without an error or with one.
\<close>

datatype resource_error = Resource_context | Resource_error string

type_synonym resources = "resource_error + string list \<times> string"

definition unresolved :: resources where
  "unresolved = Inr ([], ScopeUnresolved)"

section \<open>Parts of an ARN\<close>

definition iam_validPartition :: "string \<Rightarrow> bool" where
  "iam_validPartition p \<longleftrightarrow> p = ''aws'' \<or> p = ''aws-cn'' \<or> p = ''aws-us-gov''"

definition iam_validAccount :: "string \<Rightarrow> bool" where
  "iam_validAccount a \<longleftrightarrow> length a = 12 \<and> list_all digit_rune (runes a)"

definition region_rune :: "rune \<Rightarrow> bool" where
  "region_rune x \<longleftrightarrow> (97 \<le> x \<and> x \<le> 122) \<or> (48 \<le> x \<and> x \<le> 57) \<or> x = 45"

definition iam_validRegion :: "string \<Rightarrow> string \<Rightarrow> bool" where
  "iam_validRegion p r =
     (if p = ''aws'' \<and> r = [] then False
      else if p = ''aws-cn'' \<and> \<not> has_prefix r ''cn-'' then False
      else if p = ''aws-us-gov'' \<and> \<not> has_prefix r ''us-gov-'' then False
      else if p = ''aws'' \<and> (has_prefix r ''cn-'' \<or> has_prefix r ''us-gov-'') then False
      else if r = [] then False
      else if contains_any r [CHR ''/'', CHR '':'', CHR 0x5C, CHR ''*''] \<or> length r > 32 then False
      else list_all region_rune (runes r))"

definition validID :: "(rune \<Rightarrow> bool) \<Rightarrow> string \<Rightarrow> string \<Rightarrow> bool" where
  "validID uni s pre =
     (if \<not> has_prefix s pre \<or> length s \<le> length pre \<or> length s > 64 then False
      else list_all (\<lambda>r. letter_or_digit uni r \<or> r = 45 \<or> r = 95 \<or> r = 46) (runes s))"

definition wildcard_bytes :: string where
  "wildcard_bytes = [CHR 0x00, CHR 0x0D, CHR 0x0A, CHR ''*'', CHR ''?'']"

definition validResourcePart :: "string \<Rightarrow> bool" where
  "validResourcePart s =
     (if s = [] \<or> length s > 1024 \<or> contains_any s wildcard_bytes \<or> sublist ''arn:'' s then False
      else list_all (\<lambda>r. \<not> is_control_rune r) (runes s))"

definition awsARN :: "string \<Rightarrow> string \<Rightarrow> string \<Rightarrow> string \<Rightarrow> string \<Rightarrow> string" where
  "awsARN part service region account resource =
     (if \<not> iam_validPartition part \<or> service = [] \<or> \<not> validResourcePart resource \<or> \<not> iam_validAccount account then []
      else if (if service = ''iam'' then region \<noteq> [] else \<not> iam_validRegion part region) then []
      else ''arn:'' @ part @ '':'' @ service @ '':'' @ region @ '':'' @ account @ '':'' @ resource)"

definition bucket_rune :: "rune \<Rightarrow> bool" where
  "bucket_rune r \<longleftrightarrow> (97 \<le> r \<and> r \<le> 122) \<or> (48 \<le> r \<and> r \<le> 57) \<or> r = 46 \<or> r = 45"

definition s3ARN :: "string \<Rightarrow> string \<Rightarrow> string \<Rightarrow> string" where
  "s3ARN part bucket key =
     (if \<not> iam_validPartition part \<or> \<not> validResourcePart bucket \<or> contains_any bucket [CHR ''/'', CHR '':'', CHR 0x5C]
         \<or> length bucket > 63 \<or> to_lower bucket \<noteq> bucket then []
      else if list_ex (\<lambda>r. \<not> bucket_rune r) (runes bucket) then []
      else if length bucket < 3 \<or> bucket ! 0 \<in> set ''.-'' \<or> last bucket \<in> set ''.-'' \<or> sublist ''..'' bucket then []
      else if key \<noteq> [] \<and> (\<not> validResourcePart key \<or> has_prefix key ''/'') then []
      else if list_ex (\<lambda>part. part = ''.'' \<or> part = ''..'') (split_byte CHR ''/'' key) then []
      else if key = [] then ''arn:'' @ part @ '':s3:::'' @ bucket
      else ''arn:'' @ part @ '':s3:::'' @ bucket @ ''/'' @ key)"

definition validARN :: "string \<Rightarrow> string \<Rightarrow> string \<Rightarrow> string \<Rightarrow> string \<Rightarrow> string \<Rightarrow> bool" where
  "validARN val part service region account pre =
     (let p = splitn_byte 6 CHR '':'' val in
      length p = 6 \<and> p ! 0 = ''arn'' \<and> p ! 1 = part \<and> p ! 2 = service \<and> p ! 3 = region \<and> p ! 4 = account \<and>
      has_prefix (p ! 5) pre \<and> validResourcePart (p ! 5))"

definition validateRoleARN :: "string \<Rightarrow> string \<Rightarrow> string go_result" where
  "validateRoleARN v part =
     (if length v > 2048 \<or> contains_any v (wildcard_bytes @ [CHR 0x5C]) \<or> \<not> iam_validPartition part
      then Inl ''malformed PassRole ARN''
      else let p = splitn_byte 6 CHR '':'' v in
        if length p \<noteq> 6 \<or> p ! 0 \<noteq> ''arn'' \<or> p ! 1 \<noteq> part \<or> p ! 2 \<noteq> ''iam'' \<or> p ! 3 \<noteq> [] \<or> \<not> iam_validAccount (p ! 4)
           \<or> \<not> has_prefix (p ! 5) ''role/'' \<or> length (p ! 5) = 5 \<or> \<not> validResourcePart (p ! 5)
        then Inl ''malformed PassRole ARN'' else Inr v)"

definition s3PathParts :: "string \<Rightarrow> string \<times> string" where
  "s3PathParts path =
     (case path_unescape path of
        None \<Rightarrow> ([], [])
      | Some v \<Rightarrow>
          (case splitn_byte 2 CHR ''/'' (trim_prefix v ''/'') of
             [bucket, key] \<Rightarrow> (bucket, key)
           | _ \<Rightarrow> ([], [])))"

text \<open>The last steps of most cases: an ARN the parts do not form is an error.\<close>

definition exact_arn :: "string \<Rightarrow> string \<Rightarrow> resources" where
  "exact_arn message a = (if a = [] then Inl (Resource_error message) else Inr ([a], ScopeExact))"

definition set_scope :: "string list \<Rightarrow> resources" where
  "set_scope out = Inr (out, if length out = 1 then ScopeExact else ScopeSet)"

section \<open>PartiQL statements\<close>

definition quote_bytes :: string where
  "quote_bytes = [CHR 0x5C, CHR 0x22, CHR 0x27, CHR 0x60]"

definition strings_Trim :: "string \<Rightarrow> string \<Rightarrow> string" where
  "strings_Trim s cutset = rev (dropWhile (\<lambda>c. c \<in> set cutset) (rev (dropWhile (\<lambda>c. c \<in> set cutset) s)))"

text \<open>The fields after the key words of a statement, with the kind that names the action.\<close>

definition statement_rest :: "string list \<Rightarrow> (string \<times> string list) option" where
  "statement_rest flds =
     (let kind = to_upper (hd flds); rest = tl flds in
      if kind = ''SELECT'' then
        (case dropWhile (\<lambda>w. to_upper w \<noteq> ''FROM'') rest of [] \<Rightarrow> None | _ # ws \<Rightarrow> Some (''Select'', ws))
      else if kind = ''DELETE'' then
        Some (''Delete'', case rest of w # ws \<Rightarrow> if to_upper w = ''FROM'' then ws else rest | [] \<Rightarrow> [])
      else if kind = ''INSERT'' then
        (case rest of w # ws \<Rightarrow> if to_upper w \<noteq> ''INTO'' then None else Some (''Insert'', ws) | [] \<Rightarrow> None)
      else if kind = ''UPDATE'' then Some (''Update'', rest)
      else None)"

definition parseDynamoStatement :: "string \<Rightarrow> (string \<times> string) option" where
  "parseDynamoStatement statement =
     (let flds = strings_Fields statement in
      if length flds < 2 then None
      else case statement_rest flds of
        None \<Rightarrow> None
      | Some (_, []) \<Rightarrow> None
      | Some (kind, w # _) \<Rightarrow>
          (let table = strings_Trim w (quote_bytes @ '',;'')
           in if table = [] \<or> contains_any table quote_bytes then None else Some (table, kind)))"

definition validDynamoTableName :: "string \<Rightarrow> bool" where
  "validDynamoTableName name \<longleftrightarrow>
     name \<noteq> [] \<and> length name \<le> 255 \<and> list_all (\<lambda>r. alnum_rune r \<or> r = 46 \<or> r = 45 \<or> r = 95) (runes name)"

fun statement_arns ::
  "DecodedAWSRequest \<Rightarrow> string \<Rightarrow> Value list \<Rightarrow> string list \<Rightarrow> (resource_error + string list option) ctx_prog" where
  "statement_arns req want [] res = State_Monad.return (Inr (Some res))"
| "statement_arns req want (item # items) res =
     unless_cancelled (Inl Resource_context)
       (if val_Kind item \<noteq> ValueObject then State_Monad.return (Inr None)
        else do {
          statement \<leftarrow> parameterStringContext (val_Object item) [''Statement''];
          (case (if statement = [] then None else parseDynamoStatement statement) of
             None \<Rightarrow> State_Monad.return (Inr None)
           | Some (table, kind) \<Rightarrow>
               if to_lower (''dynamodb:PartiQL'' @ kind) \<noteq> want then statement_arns req want items res
               else if \<not> validDynamoTableName table
               then State_Monad.return (Inl (Resource_error ''invalid DynamoDB table name''))
               else (let arn = awsARN (dr_Partition req) ''dynamodb'' (dr_Region req) (dr_CallerAccountID req) (''table/'' @ table)
                     in if arn = [] then State_Monad.return (Inl (Resource_error ''invalid DynamoDB table ARN''))
                        else statement_arns req want items (if arn \<in> set res then res else res @ [arn]))) })"

fun find_statements :: "parameters \<Rightarrow> Value list option" where
  "find_statements [] = Some []"
| "find_statements ((key, v) # rest) =
     (if equal_fold key ''Statements'' then (if val_Kind v \<noteq> ValueArray then None else Some (val_Array v))
      else find_statements rest)"

definition dynamoStatementARNs :: "DecodedAWSRequest \<Rightarrow> string \<Rightarrow> resources ctx_prog" where
  "dynamoStatementARNs req action =
     (case find_statements (dr_Parameters req) of
        None \<Rightarrow> State_Monad.return unresolved
      | Some statements \<Rightarrow>
          if statements = [] \<or> dr_CallerAccountID req = [] \<or> dr_Region req = [] then State_Monad.return unresolved
          else do {
            r \<leftarrow> statement_arns req (to_lower action) statements [];
            State_Monad.return (case r of
              Inl e \<Rightarrow> Inl e
            | Inr None \<Rightarrow> unresolved
            | Inr (Some []) \<Rightarrow> unresolved
            | Inr (Some res) \<Rightarrow> set_scope (sort res)) })"

section \<open>The resource types\<close>

definition namedARNContext :: "DecodedAWSRequest \<Rightarrow> string \<Rightarrow> string \<Rightarrow> string \<Rightarrow> resources ctx_prog" where
  "namedARNContext req service param pre =
     unless_cancelled (Inl Resource_context)
       (if dr_CallerAccountID req = [] \<or> dr_Region req = [] then State_Monad.return unresolved
        else do {
          n \<leftarrow> parameterStringContext (dr_Parameters req) [param];
          State_Monad.return
            (if n = [] then unresolved
             else exact_arn ''invalid resource ARN''
                    (awsARN (dr_Partition req) service (dr_Region req) (dr_CallerAccountID req) (pre @ n))) })"

definition object_resource :: "DecodedAWSRequest \<Rightarrow> resources ctx_prog" where
  "object_resource req = do {
     b \<leftarrow> parameterStringContext (dr_Parameters req) [''Bucket''];
     k \<leftarrow> parameterStringContext (dr_Parameters req) [''Key''];
     State_Monad.return
       (case (if b = [] \<or> k = [] then s3PathParts (dr_CanonicalPath req) else (b, k)) of (b', k') \<Rightarrow>
          if b' = [] \<or> k' = [] then unresolved
          else exact_arn ''invalid S3 object ARN'' (s3ARN (dr_Partition req) b' k')) }"

definition bucket_resource :: "DecodedAWSRequest \<Rightarrow> resources ctx_prog" where
  "bucket_resource req = do {
     b \<leftarrow> parameterStringContext (dr_Parameters req) [''Bucket''];
     State_Monad.return
       (let b' = (if b = [] then fst (s3PathParts (dr_CanonicalPath req)) else b) in
        if b' = [] then unresolved
        else exact_arn ''invalid S3 bucket ARN'' (s3ARN (dr_Partition req) b' [])) }"

definition service_resource :: "DecodedAWSRequest \<Rightarrow> resources ctx_prog" where
  "service_resource req =
     (if dr_CallerAccountID req = [] \<or> dr_Region req = [] then State_Monad.return unresolved
      else do {
        cluster \<leftarrow> parameterStringContext (dr_Parameters req) [''Cluster'', ''ClusterArn''];
        name \<leftarrow> parameterStringContext (dr_Parameters req) [''Service'', ''ServiceName''];
        State_Monad.return
          (if cluster = [] \<or> name = [] then unresolved
           else exact_arn ''invalid ECS service ARN''
                  (awsARN (dr_Partition req) ''ecs'' (dr_Region req) (dr_CallerAccountID req)
                     (''service/'' @ cluster @ ''/'' @ name))) })"

text \<open>A name that is already an ARN, of the given service and kind, or the name of a resource of the caller.\<close>

definition name_or_arn :: "DecodedAWSRequest \<Rightarrow> string \<Rightarrow> string \<Rightarrow> string \<Rightarrow> string \<Rightarrow> string \<Rightarrow> resources" where
  "name_or_arn req service pre bad_arn bad_name n =
     (if n = [] then unresolved
      else if has_prefix n ''arn:'' then
        (if \<not> validARN n (dr_Partition req) service (dr_Region req) (dr_CallerAccountID req) pre
         then Inl (Resource_error bad_arn) else Inr ([n], ScopeExact))
      else exact_arn bad_name (awsARN (dr_Partition req) service (dr_Region req) (dr_CallerAccountID req) (pre @ n)))"

definition task_resource :: "DecodedAWSRequest \<Rightarrow> resources ctx_prog" where
  "task_resource req =
     (if dr_CallerAccountID req = [] \<or> dr_Region req = [] then State_Monad.return unresolved
      else do {
        n \<leftarrow> parameterStringContext (dr_Parameters req) [''TaskDefinition''];
        State_Monad.return (name_or_arn req ''ecs'' ''task-definition/''
          ''invalid ECS task definition ARN'' ''invalid ECS task definition'' n) })"

definition function_resource :: "DecodedAWSRequest \<Rightarrow> resources ctx_prog" where
  "function_resource req =
     (if dr_CallerAccountID req = [] \<or> dr_Region req = [] then State_Monad.return unresolved
      else do {
        n \<leftarrow> parameterStringContext (dr_Parameters req) [''FunctionName''];
        State_Monad.return (name_or_arn req ''lambda'' ''function:''
          ''invalid Lambda function ARN'' ''invalid Lambda function'' n) })"

fun instance_arns :: "(rune \<Rightarrow> bool) \<Rightarrow> DecodedAWSRequest \<Rightarrow> string list \<Rightarrow> string list \<Rightarrow> resources ctx_prog" where
  "instance_arns uni req [] out = State_Monad.return (set_scope out)"
| "instance_arns uni req (i # ids) out =
     unless_cancelled (Inl Resource_context)
       (if \<not> validID uni i ''i-'' then State_Monad.return (Inl (Resource_error ''invalid EC2 instance id''))
        else (let a = awsARN (dr_Partition req) ''ec2'' (dr_Region req) (dr_CallerAccountID req) (''instance/'' @ i) in
              if a = [] then State_Monad.return (Inl (Resource_error ''invalid EC2 instance ARN''))
              else instance_arns uni req ids (out @ [a])))"

definition instance_resource :: "(rune \<Rightarrow> bool) \<Rightarrow> DecodedAWSRequest \<Rightarrow> resources ctx_prog" where
  "instance_resource uni req =
     (if dr_CallerAccountID req = [] \<or> dr_Region req = [] then State_Monad.return unresolved
      else do {
        ids \<leftarrow> parameterStringsContext (dr_Parameters req) ''InstanceIds'';
        (if ids = [] then State_Monad.return unresolved else instance_arns uni req ids []) })"

definition dataset_resource :: "DecodedAWSRequest \<Rightarrow> resources ctx_prog" where
  "dataset_resource req = do {
     name \<leftarrow> parameterStringContext (dr_Parameters req) [''DatasetId'', ''Namespace''];
     State_Monad.return
       (if name = [] then unresolved
        else if dr_CallerAccountID req = [] \<or> dr_Region req = [] then unresolved
        else exact_arn ''invalid CloudWatch dataset ARN''
               (awsARN (dr_Partition req) ''cloudwatch'' (dr_Region req) (dr_CallerAccountID req) (''dataset/'' @ name))) }"

definition role_resource :: "DecodedAWSRequest \<Rightarrow> resources ctx_prog" where
  "role_resource req =
     (if dr_Operation req = ''AssumeRole'' then do {
        n \<leftarrow> parameterStringContext (dr_Parameters req) [''RoleArn''];
        State_Monad.return
          (if n = [] then unresolved
           else case validateRoleARN n (dr_Partition req) of
                  Inl e \<Rightarrow> Inl (Resource_error e)
                | Inr a \<Rightarrow> Inr ([a], ScopeExact)) }
      else if dr_CallerAccountID req = [] then State_Monad.return unresolved
      else do {
        n \<leftarrow> parameterStringContext (dr_Parameters req) [''RoleName''];
        State_Monad.return
          (if n = [] then unresolved
           else exact_arn ''invalid IAM role''
                  (awsARN (dr_Partition req) ''iam'' [] (dr_CallerAccountID req) (''role/'' @ n))) })"

definition log_stream_resource :: "DecodedAWSRequest \<Rightarrow> resources ctx_prog" where
  "log_stream_resource req =
     (if dr_CallerAccountID req = [] \<or> dr_Region req = [] then State_Monad.return unresolved
      else do {
        g \<leftarrow> parameterStringContext (dr_Parameters req) [''LogGroupName''];
        s \<leftarrow> parameterStringContext (dr_Parameters req) [''LogStreamName''];
        State_Monad.return
          (if g = [] \<or> s = [] then unresolved
           else exact_arn ''invalid log stream ARN''
                  (awsARN (dr_Partition req) ''logs'' (dr_Region req) (dr_CallerAccountID req)
                     (''log-group:'' @ g @ '':log-stream:'' @ s))) })"

definition resourceForContext ::
  "(rune \<Rightarrow> bool) \<Rightarrow> DecodedAWSRequest \<Rightarrow> string \<Rightarrow> string \<Rightarrow> resources ctx_prog" where
  "resourceForContext uni req kind0 action =
     unless_cancelled (Inl Resource_context)
       (let kind = trim_suffix kind0 ''*'' in
        if kind = ''global'' then State_Monad.return (Inr ([''*''], ScopeKnownGlobal))
        else if kind = ''object'' then object_resource req
        else if kind = ''bucket'' then bucket_resource req
        else if kind = ''service'' then service_resource req
        else if kind = ''task'' \<or> kind = ''task-definition'' then task_resource req
        else if kind = ''instance'' then instance_resource uni req
        else if kind = ''function'' then function_resource req
        else if kind = ''table'' then
          (if dr_Service req = ''dynamodb'' \<and> dr_Operation req = ''BatchExecuteStatement''
           then dynamoStatementARNs req action
           else namedARNContext req ''dynamodb'' ''TableName'' ''table/'')
        else if kind = ''dataset'' then dataset_resource req
        else if kind = ''role'' then role_resource req
        else if kind = ''log-group'' then namedARNContext req ''logs'' ''LogGroupName'' ''log-group:''
        else if kind = ''log-stream'' then log_stream_resource req
        else State_Monad.return (Inl (Resource_error (''unknown resource type '' @ kind))))"

definition resourceForPrimaryContext ::
  "(rune \<Rightarrow> bool) \<Rightarrow> DecodedAWSRequest \<Rightarrow> PrimaryOccurrence \<Rightarrow> string \<Rightarrow> resources ctx_prog" where
  "resourceForPrimaryContext uni req primary action =
     unless_cancelled (Inl Resource_context) (resourceForContext uni req (po_ResourceType primary) action)"

end
