(* ===== verification/Iam_Mapper.thy ===== *)
theory Iam_Mapper
  imports Iam_Resources Pipeline "HOL-Library.Product_Lexorder"
begin

text \<open>
  The mapper of \<^verbatim>\<open>internal/iammap\<close> (\<^verbatim>\<open>mapper.go\<close>, \<^verbatim>\<open>dependencies.go\<close>, \<^verbatim>\<open>normalize.go\<close>,
  \<^verbatim>\<open>errors.go\<close>): from a decoded request to the IAM requirements the policy has to allow.

  The context of \<^verbatim>\<open>Map\<close> and the one with the mapper's timeout are one \<^typ>\<open>Context\<close>, polled in
  the order of the code; \<open>cause\<close> is the error it reports once it has ended. A panic of the endpoint
  classifier, which is an interface, is the answer \<^const>\<open>None\<close>.
\<close>

section \<open>Errors\<close>

datatype context_error = Canceled | DeadlineExceeded

definition mappingFailure :: "MappingFailureKind \<Rightarrow> string \<Rightarrow> map_error" where
  "mappingFailure kind stage = MappingError kind stage None"

definition mappingFailureCause :: "MappingFailureKind \<Rightarrow> string \<Rightarrow> string \<Rightarrow> map_error" where
  "mappingFailureCause kind stage cause = MappingError kind stage (Some (Other_error cause []))"

definition mappingContextFailure :: "context_error \<Rightarrow> map_error" where
  "mappingContextFailure cause =
     (case cause of
        DeadlineExceeded \<Rightarrow> mappingFailureCause MappingFailureTimeout ''context'' ''context deadline exceeded''
      | Canceled \<Rightarrow> mappingFailureCause MappingFailureCancellation ''context'' ''context canceled'')"

text \<open>An error inside \<^verbatim>\<open>mapOne\<close>: the one of the context, or a mapping failure.\<close>

datatype map_one_error = Map_context | Map_failed map_error

section \<open>Actions\<close>

definition canonicalAction :: "string \<Rightarrow> string" where
  "canonicalAction s =
     (case splitn_byte 2 CHR '':'' s of
        [service, name] \<Rightarrow> to_lower service @ '':'' @ name
      | _ \<Rightarrow> [])"

section \<open>Dependencies\<close>

definition validateDependencyARN :: "string \<Rightarrow> string \<Rightarrow> string \<Rightarrow> string go_result" where
  "validateDependencyARN action val part =
     (if canonicalAction action = ''iam:PassRole'' then validateRoleARN val part
      else let p = splitn_byte 6 CHR '':'' val in
        if length p \<noteq> 6 \<or> p ! 0 \<noteq> ''arn'' \<or> p ! 1 \<noteq> part \<or> p ! 2 = [] \<or> p ! 5 = []
           \<or> contains_any val (wildcard_bytes @ [CHR 0x5C]) \<or> \<not> iam_validPartition part \<or> \<not> validResourcePart (p ! 5)
        then Inl ''malformed dependent ARN'' else Inr val)"

fun sameStringsContext :: "string list \<Rightarrow> string list \<Rightarrow> bool ctx_prog" where
  "sameStringsContext [] [] = State_Monad.return True"
| "sameStringsContext (a # as) (b # bs) =
     unless_cancelled False (if a \<noteq> b then State_Monad.return False else sameStringsContext as bs)"
| "sameStringsContext _ _ = State_Monad.return False"

definition dependency_failure :: map_one_error where
  "dependency_failure = Map_failed (mappingFailure MappingFailureUnresolvedDependency ''dependency'')"

fun expected_actions :: "string list \<Rightarrow> string list \<Rightarrow> (map_one_error + string list) ctx_prog" where
  "expected_actions [] acc = State_Monad.return (Inr acc)"
| "expected_actions (wanted # rest) acc =
     unless_cancelled (Inl Map_context)
       (let want = canonicalAction wanted in
        if want = [] then State_Monad.return (Inl dependency_failure) else expected_actions rest (acc @ [want]))"

definition occurrence_action :: "DependencyOccurrence \<Rightarrow> string" where
  "occurrence_action d = canonicalAction (ar_Service (do_Action d) @ '':'' @ ar_Name (do_Action d))"

fun candidate_actions :: "DependencyOccurrence list \<Rightarrow> string list \<Rightarrow> (map_one_error + string list) ctx_prog" where
  "candidate_actions [] acc = State_Monad.return (Inr acc)"
| "candidate_actions (d # rest) acc =
     unless_cancelled (Inl Map_context)
       (if occurrence_action d = [] then State_Monad.return (Inl dependency_failure)
        else if do_Applicability d = ApplicabilityUnknown then State_Monad.return (Inl dependency_failure)
        else candidate_actions rest (acc @ [occurrence_action d]))"

text \<open>The comparison of the two maps of counts.\<close>

definition counts_differ :: "string list \<Rightarrow> string list \<Rightarrow> bool" where
  "counts_differ expected candidates \<longleftrightarrow>
     length (remdups candidates) \<noteq> length (remdups expected) \<or>
     list_ex (\<lambda>a. count_list candidates a \<noteq> count_list expected a) expected \<or>
     list_ex (\<lambda>a. count_list expected a = 0) candidates"

fun validate_arns :: "string \<Rightarrow> string \<Rightarrow> string list \<Rightarrow> (map_one_error + unit) ctx_prog" where
  "validate_arns want part [] = State_Monad.return (Inr ())"
| "validate_arns want part (v # vs) =
     unless_cancelled (Inl Map_context)
       (case validateDependencyARN want v part of
          Inl _ \<Rightarrow> State_Monad.return (Inl dependency_failure)
        | Inr v' \<Rightarrow> if v' = [] then State_Monad.return (Inl dependency_failure) else validate_arns want part vs)"

text \<open>One applicable dependency: the ARNs the request names are the ones of the evidence.\<close>

definition dependency_requirement ::
  "DecodedAWSRequest \<Rightarrow> string \<Rightarrow> DependencyOccurrence \<Rightarrow> (map_one_error + IAMRequirement) ctx_prog" where
  "dependency_requirement req want candidate = do {
     expected \<leftarrow> FindContext (dr_Parameters req)
       (if do_ParameterNames candidate = [] then default_role_names else do_ParameterNames candidate);
     (if expected = [] \<or> length expected \<noteq> length (do_Resources candidate)
      then State_Monad.return (Inl dependency_failure)
      else do {
        e \<leftarrow> validate_arns want (dr_Partition req) expected;
        (case e of
           Inl err \<Rightarrow> State_Monad.return (Inl err)
         | Inr _ \<Rightarrow> do {
             a \<leftarrow> validate_arns want (dr_Partition req) (do_Resources candidate);
             (case a of
                Inl err \<Rightarrow> State_Monad.return (Inl err)
              | Inr _ \<Rightarrow> do {
                  same \<leftarrow> sameStringsContext (sort expected) (sort (do_Resources candidate));
                  State_Monad.return
                    (if \<not> same then Inl dependency_failure
                     else Inr \<lparr>rq_Action = want, rq_Resources = sort (do_Resources candidate),
                               rq_ScopeKind = (if length (do_Resources candidate) > 1 then ScopeSet else ScopeExact),
                               rq_Dependent = True, rq_ConditionHint = []\<rparr>) }) }) }) }"

fun dependency_requirements ::
  "DecodedAWSRequest \<Rightarrow> DependencyOccurrence list \<Rightarrow> IAMRequirement list \<Rightarrow> (map_one_error + IAMRequirement list) ctx_prog" where
  "dependency_requirements req [] result = State_Monad.return (Inr result)"
| "dependency_requirements req (candidate # rest) result =
     unless_cancelled (Inl Map_context)
       (if do_Applicability candidate = ApplicabilityInapplicable then dependency_requirements req rest result
        else do {
          r \<leftarrow> dependency_requirement req (occurrence_action candidate) candidate;
          (case r of
             Inl err \<Rightarrow> State_Monad.return (Inl err)
           | Inr requirement \<Rightarrow> dependency_requirements req rest (result @ [requirement])) })"

text \<open>The candidates in the order of the first occurrences of their expected actions.\<close>

definition first_occurrences :: "'a list \<Rightarrow> 'a list" where
  "first_occurrences xs = rev (remdups (rev xs))"

definition grouped :: "string list \<Rightarrow> DependencyOccurrence list \<Rightarrow> DependencyOccurrence list" where
  "grouped order candidates = concat (map (\<lambda>want. filter (\<lambda>d. occurrence_action d = want) candidates) order)"

definition dependencies ::
  "DecodedAWSRequest \<Rightarrow> string list \<Rightarrow> DependencyOccurrence list \<Rightarrow> (map_one_error + IAMRequirement list) ctx_prog" where
  "dependencies req expected candidates = do {
     e \<leftarrow> expected_actions expected [];
     (case e of
        Inl err \<Rightarrow> State_Monad.return (Inl err)
      | Inr wants \<Rightarrow> do {
          c \<leftarrow> candidate_actions candidates [];
          (case c of
             Inl err \<Rightarrow> State_Monad.return (Inl err)
           | Inr actions \<Rightarrow>
               if counts_differ wants actions then State_Monad.return (Inl dependency_failure)
               else dependency_requirements req (grouped (first_occurrences wants) candidates) []) }) }"

section \<open>The mapper\<close>

definition MapperVersion :: string where "MapperVersion = ''kordn-iammap/v4''"
definition UpstreamCommit :: string where "UpstreamCommit = ''3ec1a40e560c2f00ec82c50223add810e2567efb''"
definition AdapterVersion :: string where "AdapterVersion = ''iamlive-derived/v3@'' @ UpstreamCommit"

text \<open>
  \<open>im_wire\<close> is the default wire index, \<open>im_data_version\<close> the version of the catalog's data and
  \<open>im_uni\<close> the Unicode class: values the code reads from packages it links.
\<close>

record Mapper =
  im_timeout :: int
  im_classifier :: "string \<Rightarrow> (AWSEndpoint go_result) option"
  im_adapter :: "catalog option"
  im_wire :: "wireIndex option"
  im_data_version :: string
  im_uni :: "rune \<Rightarrow> bool"

record MapperOptions =
  mo_Timeout :: int
  mo_Classifier :: "(string \<Rightarrow> (AWSEndpoint go_result) option) option"

definition NewMapper ::
  "(string \<Rightarrow> (AWSEndpoint go_result) option) \<Rightarrow> wireIndex option \<Rightarrow> string \<Rightarrow> (rune \<Rightarrow> bool) \<Rightarrow> catalog go_result \<Rightarrow>
     MapperOptions list \<Rightarrow> Mapper go_result" where
  "NewMapper defaultClassifier wire version uni newAdapter options =
     (let o0 = (case options of [] \<Rightarrow> \<lparr>mo_Timeout = 1000000000, mo_Classifier = Some defaultClassifier\<rparr> | o1 # _ \<Rightarrow> o1) in
      if mo_Timeout o0 \<le> 0 \<or> mo_Timeout o0 > 60000000000 then Inl ''mapper timeout is invalid''
      else case newAdapter of
        Inl e \<Rightarrow> Inl e
      | Inr a \<Rightarrow> Inr \<lparr>im_timeout = mo_Timeout o0,
                      im_classifier = (case mo_Classifier o0 of None \<Rightarrow> defaultClassifier | Some c \<Rightarrow> c),
                      im_adapter = Some a, im_wire = wire, im_data_version = version, im_uni = uni\<rparr>)"

definition Mapper_Version :: "Mapper option \<Rightarrow> string" where
  "Mapper_Version m = (case m of None \<Rightarrow> [] | Some _ \<Rightarrow> MapperVersion)"

definition Mapper_IamLiveVersion :: "Mapper option \<Rightarrow> string" where
  "Mapper_IamLiveVersion m = (case m of None \<Rightarrow> [] | Some mp \<Rightarrow> (case im_adapter mp of None \<Rightarrow> [] | Some _ \<Rightarrow> AdapterVersion))"

definition mapper_endpoint :: "DecodedAWSRequest \<Rightarrow> AWSEndpoint" where
  "mapper_endpoint req =
     \<lparr>ep_Partition = dr_Partition req, ep_Host = dr_EndpointHost req, ep_Service = dr_Service req,
      ep_SigningService = dr_SigningService req, ep_SigningRegion = dr_SigningRegion req,
      ep_Region = dr_Region req, ep_Global = (dr_Region req = []), ep_Scope = dr_Scope req, ep_FIPS = dr_FIPS req,
      ep_DualStack = dr_DualStack req, ep_AccountID = dr_AccountID req\<rparr>"

definition requirement_order :: "IAMRequirement \<Rightarrow> string \<times> string" where
  "requirement_order r = (rq_Action r, join [CHR 0x00] (rq_Resources r))"

definition sortRequirements :: "IAMRequirement list \<Rightarrow> IAMRequirement list" where
  "sortRequirements v = map (\<lambda>r. r\<lparr>rq_Resources := sort (rq_Resources r)\<rparr>) (sort_key requirement_order v)"

text \<open>The wire identity of the request; \<^const>\<open>None\<close> when a JSON request has not exactly one target.\<close>

definition wire_identity :: "DecodedAWSRequest \<Rightarrow> WireIdentity option" where
  "wire_identity req =
     (let ident = \<lparr>id_Protocol = dr_Protocol req, id_Method = dr_Method req, id_Path = dr_CanonicalPath req,
                   id_Query = dr_CanonicalQuery req, id_Target = []\<rparr> in
      if json_protocol (dr_Protocol req) then
        (case header_values (dr_Headers req) ''X-Amz-Target'' of
           [target] \<Rightarrow> Some (ident\<lparr>id_Target := target\<rparr>)
         | _ \<Rightarrow> None)
      else Some ident)"

text \<open>The mapping failure for a failed lookup.\<close>

fun lookup_failure :: "adapter_error \<Rightarrow> map_one_error" where
  "lookup_failure Adapter_context = Map_context"
| "lookup_failure (Adapter_failure kind static info) = Map_failed
     (case kind of
        FailureUnknownWireOperation \<Rightarrow> mappingFailureCause MappingFailureUnknownWireOperation ''wire'' ''adapter''
      | FailureIncompleteWireIdentity \<Rightarrow> mappingFailureCause MappingFailureUnknownWireOperation ''wire'' ''adapter''
      | FailureAmbiguousWireOperation \<Rightarrow> mappingFailureCause MappingFailureAmbiguousWireOperation ''wire'' ''adapter''
      | FailureUnresolvedApplicability \<Rightarrow> mappingFailureCause MappingFailureUnresolvedPrimaryResource ''resource'' ''adapter''
      | FailureUnresolvedDependency \<Rightarrow> mappingFailureCause MappingFailureUnresolvedDependency ''dependency'' ''adapter''
      | FailureCatalogInconsistency \<Rightarrow> mappingFailureCause MappingFailureCatalogInconsistency ''catalog'' ''adapter'')"

definition catalog_failure :: map_one_error where
  "catalog_failure = Map_failed (mappingFailure MappingFailureCatalogInconsistency ''catalog'')"

text \<open>The requirement of one primary occurrence, and the loop that also collects the expected dependencies.\<close>

definition primary_requirement ::
  "(rune \<Rightarrow> bool) \<Rightarrow> DecodedAWSRequest \<Rightarrow> string \<Rightarrow> PrimaryOccurrence \<Rightarrow> (map_one_error + IAMRequirement) ctx_prog" where
  "primary_requirement uni req canonical primary =
     (let action = canonicalAction (ar_Service (po_Action primary) @ '':'' @ ar_Name (po_Action primary)) in
      if action = [] \<or> po_Operation primary \<noteq> canonical then State_Monad.return (Inl catalog_failure)
      else do {
        r \<leftarrow> resourceForPrimaryContext uni req primary action;
        State_Monad.return (case r of
          Inl Resource_context \<Rightarrow> Inl Map_context
        | Inl (Resource_error e) \<Rightarrow>
            Inl (Map_failed (mappingFailureCause MappingFailureUnresolvedPrimaryResource ''resource'' e))
        | Inr (res, scope) \<Rightarrow>
            if scope = ScopeUnresolved \<or> res = []
            then Inl (Map_failed (mappingFailure MappingFailureUnresolvedPrimaryResource ''resource''))
            else if po_Scope primary \<noteq> [] \<and> scope \<noteq> po_Scope primary \<and> \<not> (po_Scope primary = ''exact'' \<and> scope = ScopeSet)
            then Inl catalog_failure
            else Inr \<lparr>rq_Action = action, rq_Resources = res, rq_ScopeKind = scope, rq_Dependent = False,
                      rq_ConditionHint = []\<rparr>) })"

fun primary_requirements ::
  "(rune \<Rightarrow> bool) \<Rightarrow> DecodedAWSRequest \<Rightarrow> string \<Rightarrow> PrimaryOccurrence list \<Rightarrow> IAMRequirement list \<times> string list \<Rightarrow>
     (map_one_error + IAMRequirement list \<times> string list) ctx_prog" where
  "primary_requirements uni req canonical [] out = State_Monad.return (Inr out)"
| "primary_requirements uni req canonical (primary # rest) (reqs, deps) =
     unless_cancelled (Inl Map_context) (do {
       r \<leftarrow> primary_requirement uni req canonical primary;
       (case r of
          Inl e \<Rightarrow> State_Monad.return (Inl e)
        | Inr requirement \<Rightarrow>
            primary_requirements uni req canonical rest (reqs @ [requirement], deps @ po_DefinitionDependencies primary)) })"

fun append_dependencies :: "IAMRequirement list \<Rightarrow> IAMRequirement list \<Rightarrow> (map_one_error + IAMRequirement list) ctx_prog" where
  "append_dependencies reqs [] = State_Monad.return (Inr reqs)"
| "append_dependencies reqs (d # ds) =
     unless_cancelled (Inl Map_context)
       (if rq_ScopeKind d = ScopeUnresolved then State_Monad.return (Inl dependency_failure)
        else append_dependencies (reqs @ [d]) ds)"

definition mapping_result :: "Mapper \<Rightarrow> DecodedAWSRequest \<Rightarrow> string \<Rightarrow> IAMRequirement list \<Rightarrow> MappingResult" where
  "mapping_result m req canonical reqs =
     \<lparr>mr_Service = dr_Service req, mr_Operation = canonical, mr_Requirements = sortRequirements reqs,
      mr_MapperVersion = MapperVersion, mr_IamLiveVersion = AdapterVersion,
      mr_AuthorizationDataVersion = im_data_version m, mr_Confidence = ConfidenceHigh,
      mr_Evidence =
        [\<lparr>me_Source = ''endpoint'', me_Field = ''service'', me_Value = dr_Service req\<rparr>,
         \<lparr>me_Source = ''endpoint'', me_Field = ''partition'', me_Value = dr_Partition req\<rparr>,
         \<lparr>me_Source = ''endpoint'', me_Field = ''region'', me_Value = dr_Region req\<rparr>,
         \<lparr>me_Source = ''protocol'', me_Field = ''protocol'', me_Value = dr_Protocol req\<rparr>,
         \<lparr>me_Source = ''decoder'', me_Field = ''operation'', me_Value = canonical\<rparr>]\<rparr>"

definition all_requirements ::
  "(rune \<Rightarrow> bool) \<Rightarrow> DecodedAWSRequest \<Rightarrow> LookupResult \<Rightarrow> (map_one_error + IAMRequirement list) ctx_prog" where
  "all_requirements uni req lookup = do {
     r \<leftarrow> primary_requirements uni req (lr_Operation lookup) (lr_PrimaryOccurrences lookup) ([], []);
     (case r of
        Inl e \<Rightarrow> State_Monad.return (Inl e)
      | Inr (reqs, expected) \<Rightarrow>
          unless_cancelled (Inl Map_context) (do {
            d \<leftarrow> dependencies req expected (lr_DependencyOccurrences lookup);
            (case d of
               Inl e \<Rightarrow> State_Monad.return (Inl e)
             | Inr deps \<Rightarrow> append_dependencies reqs deps) })) }"

definition map_lookup :: "Mapper \<Rightarrow> DecodedAWSRequest \<Rightarrow> LookupResult \<Rightarrow> (map_one_error + MappingResult) ctx_prog" where
  "map_lookup m req lookup =
     (if lr_Operation lookup = [] \<or> lr_PrimaryOccurrences lookup = [] then State_Monad.return (Inl catalog_failure)
      else do {
        r \<leftarrow> all_requirements (im_uni m) req lookup;
        State_Monad.return (case r of
          Inl e \<Rightarrow> Inl e
        | Inr reqs \<Rightarrow>
            (let result = mapping_result m req (lr_Operation lookup) reqs in
             case MappingResult_Validate result of
               Some e \<Rightarrow> Inl (Map_failed (mappingFailureCause MappingFailureInvalidResult ''result'' e))
             | None \<Rightarrow> Inr result)) })"

text \<open>The checks of the request before the catalog is consulted: the operation name and the wire identity.\<close>

definition map_identity ::
  "Mapper \<Rightarrow> DecodedAWSRequest \<Rightarrow> AWSEndpoint go_result \<Rightarrow> map_one_error + string \<times> WireIdentity" where
  "map_identity m req answer =
     (case answer of
        Inl e \<Rightarrow> Inl (Map_failed (mappingFailureCause MappingFailureCatalogInconsistency ''endpoint'' e))
      | Inr ep \<Rightarrow>
          if \<not> EndpointIdentityEqual ep (mapper_endpoint req)
          then Inl (Map_failed (mappingFailure MappingFailureCatalogInconsistency ''endpoint''))
          else if ep_AccountID ep \<noteq> [] \<and> ep_AccountID ep \<noteq> dr_CallerAccountID req
          then Inl (Map_failed (mappingFailureCause MappingFailureCatalogInconsistency ''account''
                 ''endpoint account disagrees with caller context''))
          else if authoritativeProtocolFor (im_wire m) (dr_Service req) \<noteq> Some (dr_Protocol req)
          then Inl (Map_failed (mappingFailure MappingFailureCatalogInconsistency ''protocol''))
          else let oper = NormalizeOperation (im_uni m) (dr_Operation req) in
            if oper = [] then Inl (Map_failed (mappingFailure MappingFailureUnknownWireOperation ''wire''))
            else case wire_identity req of
              None \<Rightarrow> Inl (Map_failed (mappingFailure MappingFailureUnknownWireOperation ''wire''))
            | Some ident \<Rightarrow> Inr (oper, ident))"

definition mapOne :: "Mapper \<Rightarrow> DecodedAWSRequest \<Rightarrow> ((map_one_error + MappingResult) option) ctx_prog" where
  "mapOne m req =
     unless_cancelled (Some (Inl Map_context))
       (case im_classifier m (dr_EndpointHost req) of
          None \<Rightarrow> State_Monad.return None
        | Some answer \<Rightarrow>
            (case map_identity m req answer of
               Inl e \<Rightarrow> State_Monad.return (Some (Inl e))
             | Inr (oper, ident) \<Rightarrow> do {
                 l \<leftarrow> LookupRequestContext (im_uni m) (im_adapter m) (dr_Service req) oper ident (dr_Parameters req);
                 (case l of
                    Inl e \<Rightarrow> State_Monad.return (Some (Inl (lookup_failure e)))
                  | Inr lookup \<Rightarrow> do {
                      r \<leftarrow> map_lookup m req lookup;
                      State_Monad.return (Some r) }) }))"

definition Mapper_Map ::
  "context_error \<Rightarrow> Mapper option \<Rightarrow> DecodedAWSRequest option \<Rightarrow> (map_error + MappingResult) ctx_prog" where
  "Mapper_Map cause mapper request =
     (case mapper of
        None \<Rightarrow> State_Monad.return (Inl (mappingFailureCause MappingFailureLowConfidence ''mapper'' ''mapper unavailable''))
      | Some m \<Rightarrow>
     if im_adapter m = None
     then State_Monad.return (Inl (mappingFailureCause MappingFailureLowConfidence ''mapper'' ''mapper unavailable''))
     else case request of
        None \<Rightarrow> State_Monad.return (Inl (mappingFailureCause MappingFailureLowConfidence ''input'' ''decoded request is required''))
      | Some req \<Rightarrow>
     (case DecodedAWSRequest_Validate req of
        Some e \<Rightarrow> State_Monad.return (Inl (mappingFailureCause MappingFailureLowConfidence ''input'' e))
      | None \<Rightarrow>
     unless_cancelled (Inl (mappingContextFailure cause)) (do {
       r \<leftarrow> mapOne m req;
       (case r of
          None \<Rightarrow> State_Monad.return (Inl (MappingError MappingFailurePanic ''mapper'' (Some (MappingError MappingFailurePanic [] None))))
        | Some (Inl Map_context) \<Rightarrow> State_Monad.return (Inl (mappingContextFailure cause))
        | Some (Inl (Map_failed e)) \<Rightarrow> State_Monad.return (Inl e)
        | Some (Inr result) \<Rightarrow> unless_cancelled (Inl (mappingContextFailure cause)) (State_Monad.return (Inr result))) })))"

end
