(* ===== verification/Wire_Decode_Safety.thy ===== *)
theory Wire_Decode_Safety
  imports Wire_Decode Wire_Match Iam_Mapper
begin

text \<open>
  What a decoded request guarantees: it says what the wire says, the mapper accepts its identity, and decoding leaves the
  request's body as it was.
\<close>

section \<open>A request that decodes\<close>

lemma preamble_success:
  assumes "decode_preamble env d ctxErr v e = Inr (dec, vr, r, u)"
  shows "d = Some dec \<and> v = Some vr \<and> vr_Request vr = Some r \<and> rq_URL r = Some u \<and> AWSEndpoint_Validate e = None \<and>
     (\<exists>classify ce. dd_classifier dec = Some classify \<and> classify (ep_Host e) = Inr ce \<and> EndpointIdentityEqual ce e) \<and>
     EndpointIdentityEqual e (vr_Endpoint vr) \<and> request_host env r u = Some (ep_Host e) \<and>
     (ep_AccountID e \<noteq> [] \<longrightarrow> ep_AccountID e = dd_callerAccountID dec)"
  using assms unfolding decode_preamble_def
  by (auto split: if_splits option.splits sum.splits)

lemma decode_success:
  assumes "Decoder_Decode env d ctxErr v e = (Inr out, rest)"
  obtains dec vr r u protocol q body r' parts where
    "decode_preamble env d ctxErr v e = Inr (dec, vr, r, u)"
    "protocolFromHeaders (vr_Protocol vr) (rq_Header r) (url_Path u) = Inr protocol"
    "authoritativeProtocolFor (dd_catalog dec) (ep_Service e) = Some protocol"
    "route_indicators dec e protocol r u = Inr q"
    "readAndRestore r (dl_MaxBodyBytes (dd_limits dec)) = (Inr body, r')" "rest = Some r'"
    "decode_body env dec e protocol r (if escaped_path u = [] then ''/'' else escaped_path u) q body = Inr parts"
    "out = decoded_request dec vr e protocol r (if escaped_path u = [] then ''/'' else escaped_path u) body parts"
    "DecodedAWSRequest_Validate out = None"
  using assms unfolding Decoder_Decode_def decode_payload_def Let_def
  by (auto split: if_splits option.splits sum.splits prod.splits)

lemma decoded_request_fields:
  "dr_Protocol (decoded_request dec vr e protocol r path body parts) = protocol"
  "dr_Service (decoded_request dec vr e protocol r path body parts) = ep_Service e"
  "dr_Operation (decoded_request dec vr e protocol r path body parts) = fst parts"
  "dr_Parameters (decoded_request dec vr e protocol r path body parts) = fst (snd parts)"
  "dr_CanonicalQuery (decoded_request dec vr e protocol r path body parts) = snd (snd parts)"
  "dr_CanonicalPath (decoded_request dec vr e protocol r path body parts) = path"
  "dr_Method (decoded_request dec vr e protocol r path body parts) = rq_Method r"
  "dr_Headers (decoded_request dec vr e protocol r path body parts) = safeHeaders (rq_Header r)"
  "dr_CallerAccountID (decoded_request dec vr e protocol r path body parts) = dd_callerAccountID dec"
  "dr_PayloadBytes (decoded_request dec vr e protocol r path body parts) = int (length body)"
  "mapper_endpoint (decoded_request dec vr e protocol r path body parts) =
     e\<lparr>ep_SigningService := fst (expected_scope e), ep_SigningRegion := snd (expected_scope e),
       ep_Global := (ep_Region e = []), ep_Scope := AWSEndpoint_EffectiveScope e\<rparr>"
  by (cases parts; simp add: decoded_request_def mapper_endpoint_def)+

lemma add_members_keeps:
  assumes "add_members conflict xs p = Inr out"
  shows "(\<forall>k v. map_of p k = Some v \<longrightarrow> map_of out k = Some v) \<and> (\<forall>(k, v) \<in> set xs. map_of out k = Some v)"
  using assms
proof (induction xs arbitrary: p)
  case (Cons kv xs)
  obtain k v where kv: "kv = (k, v)" by fastforce
  define p' where "p' = (if map_of p k = None then p @ [(k, v)] else p)"
  have p': "add_members conflict xs p' = Inr out" "map_of p' k = Some v" "\<forall>k v. map_of p k = Some v \<longrightarrow> map_of p' k = Some v"
    using Cons.prems unfolding kv p'_def by (auto simp: map_add_def split: option.splits if_splits)
  from Cons.IH [OF p'(1)] p'(2,3) show ?case unfolding kv by auto
qed simp

text \<open>The operation of a request, as the wire index selects it from the identity on the wire.\<close>

definition wire_selected ::
  "wireIndex option \<Rightarrow> DecodeLimits \<Rightarrow> http_header \<Rightarrow> string \<Rightarrow> url_values \<Rightarrow> DecodedAWSRequest \<Rightarrow> bool" where
  "wire_selected catalog l h path q out \<longleftrightarrow>
     (if json_protocol (dr_Protocol out) then
        (\<exists>t. header_values h ''X-Amz-Target'' = [t] \<and>
           targetOperationFor t (dr_Service out) (dr_Protocol out) catalog (dl_MaxTokenBytes l) = Inr (dr_Operation out))
      else if query_protocol (dr_Protocol out) then
        dr_Operation out = values_get (dr_CanonicalQuery out) ''Action'' \<and>
        catalogQueryOperation catalog (dr_Service out) (values_get (dr_CanonicalQuery out) ''Version'') (dr_Protocol out) (dr_Operation out)
      else (\<exists>route. restOperationFromCatalog (dr_Service out) path (dr_Method out) q (dr_Protocol out) catalog l =
                      Inr (dr_Operation out, route) \<and>
              (\<forall>k v. map_of route k = Some v \<longrightarrow> map_of (dr_Parameters out) k = Some v)))"

lemma decodeQuery_success:
  assumes "decodeQueryBody env body q service protocol c l = Inr (a, params, values)"
  shows "a = values_get values ''Action'' \<and> catalogQueryOperation c service (values_get values ''Version'') protocol a"
  using assms unfolding decodeQueryBody_def Let_def by (auto split: sum.splits option.splits if_splits)

lemma decodeJSON_success:
  assumes "decodeJSONBody env body h service protocol c l = Inr (oper, params)"
  shows "\<exists>t. header_values h ''X-Amz-Target'' = [t] \<and> targetOperationFor t service protocol c (dl_MaxTokenBytes l) = Inr oper"
  using assms unfolding decodeJSONBody_def Let_def by (auto split: list.splits sum.splits if_splits prod.splits)

lemma decodeRESTJSON_success:
  assumes "decodeRESTJSONBody env body service path method q c l = Inr (oper, params)"
  shows "\<exists>route. restOperationFromCatalog service path method q ProtocolRESTJSON c l = Inr (oper, route) \<and>
     (\<forall>k v. map_of route k = Some v \<longrightarrow> map_of params k = Some v)"
proof -
  obtain route p where r: "restOperationFromCatalog service path method q ProtocolRESTJSON c l = Inr (oper, route)"
    and "add_members ''REST path/body evidence conflicts'' route p = Inr params"
    using assms unfolding decodeRESTJSONBody_def Let_def by (auto split: sum.splits if_splits prod.splits)
  then have "\<forall>(k, v) \<in> set route. map_of params k = Some v" using add_members_keeps by blast
  with r show ?thesis by (fast dest: map_of_SomeD)
qed

lemma decodeRESTXML_success:
  assumes "decodeRESTXMLBody env body service path method q c l = Inr (oper, params)"
  shows "\<exists>route. restOperationFromCatalog service path method q ProtocolRESTXML c l = Inr (oper, route) \<and>
     (\<forall>k v. map_of route k = Some v \<longrightarrow> map_of params k = Some v)"
  using assms add_members_keeps unfolding decodeRESTXMLBody_def Let_def
  by (auto split: sum.splits if_splits prod.splits)

lemma map_sum_Inr: "map_sum id f x = Inr y \<longleftrightarrow> (\<exists>z. x = Inr z \<and> y = f z)"
  by (cases x) auto

lemma decode_selected:
  assumes "decode_body env dec e protocol r path q body = Inr parts" "AWSProtocol_Supported protocol"
  shows "wire_selected (dd_catalog dec) (dd_limits dec) (rq_Header r) path q (decoded_request dec vr e protocol r path body parts)"
proof -
  obtain oper params q' where p: "parts = (oper, params, q')" by (metis prod_cases3)
  consider "json_protocol protocol" | "\<not> json_protocol protocol" "query_protocol protocol"
    | "protocol = ProtocolRESTJSON" | "protocol = ProtocolRESTXML"
    using assms(2) by (auto simp: AWSProtocol_Supported_def json_protocol_def query_protocol_def)
  then show ?thesis
  proof cases
    case 1
    then have "decodeJSONBody env body (rq_Header r) (ep_Service e) protocol (dd_catalog dec) (dd_limits dec) = Inr (oper, params)"
      using assms(1) by (auto simp: decode_body_def p map_sum_Inr)
    from decodeJSON_success [OF this] 1 show ?thesis by (simp add: wire_selected_def decoded_request_fields p)
  next
    case 2
    then have "decodeQueryBody env body q (ep_Service e) protocol (dd_catalog dec) (dd_limits dec) = Inr (oper, params, q')"
      using assms(1) by (simp add: decode_body_def p)
    from decodeQuery_success [OF this] 2 show ?thesis by (auto simp: wire_selected_def decoded_request_fields p)
  next
    case 3
    then have k: "\<not> json_protocol protocol" "\<not> query_protocol protocol"
      by (simp_all add: json_protocol_def query_protocol_def protocol_defs)
    with 3 assms(1) have "decodeRESTJSONBody env body (ep_Service e) path (rq_Method r) q (dd_catalog dec) (dd_limits dec) = Inr (oper, params)"
      by (auto simp: decode_body_def p map_sum_Inr)
    from decodeRESTJSON_success [OF this] k 3 show ?thesis by (simp add: wire_selected_def decoded_request_fields p)
  next
    case 4
    then have k: "\<not> json_protocol protocol" "\<not> query_protocol protocol" "protocol \<noteq> ProtocolRESTJSON"
      by (simp_all add: json_protocol_def query_protocol_def protocol_defs)
    with 4 assms(1) have "decodeRESTXMLBody env body (ep_Service e) path (rq_Method r) q (dd_catalog dec) (dd_limits dec) = Inr (oper, params)"
      by (auto simp: decode_body_def p map_sum_Inr)
    from decodeRESTXML_success [OF this] k 4 show ?thesis by (simp add: wire_selected_def decoded_request_fields p)
  qed
qed


lemma authoritative_supported:
  assumes "protocolFromHeaders claimed h path = Inr protocol" "AWSProtocol_Supported claimed"
  shows "protocol = claimed \<and> AWSProtocol_Supported protocol"
  using assms unfolding protocolFromHeaders_def Let_def by (auto split: if_splits option.splits)

lemma validated_protocol: "VerifiedRequest_Validate vr = None \<Longrightarrow> AWSProtocol_Supported (vr_Protocol vr)"
  unfolding VerifiedRequest_Validate_def by (auto split: if_splits option.splits)

lemma preamble_protocol:
  assumes "decode_preamble env d ctxErr v e = Inr (dec, vr, r, u)"
  shows "AWSProtocol_Supported (vr_Protocol vr)"
  using assms validated_protocol unfolding decode_preamble_def by (auto split: if_splits option.splits sum.splits)

lemma valid_region: "AWSEndpoint_Validate e = None \<Longrightarrow> AWSEndpoint_IsGlobal e \<longleftrightarrow> ep_Region e = []"
  using trim_space_ascii [of "[]"] unfolding AWSEndpoint_Validate_None by (cases "AWSEndpoint_IsGlobal e"; cases "ep_Region e"; simp)

lemma decoded_scope:
  assumes "AWSEndpoint_Validate e = None"
  shows "AWSEndpoint_EffectiveScope (e\<lparr>ep_SigningService := s, ep_SigningRegion := sr, ep_Global := (ep_Region e = []),
     ep_Scope := AWSEndpoint_EffectiveScope e\<rparr>) = AWSEndpoint_EffectiveScope e"
  using valid_region [OF assms]
  by (simp add: AWSEndpoint_EffectiveScope_def AWSEndpoint_IsGlobal_def ScopeGlobal_def ScopeRegional_def)



section \<open>The mapper accepts what the decoder produces\<close>

lemma safe_target: "header_values (safeHeaders h) ''X-Amz-Target'' = header_values h ''X-Amz-Target''"
proof -
  have k: "canonical_header_key ''X-Amz-Target'' = ''X-Amz-Target''" by code_simp
  have "\<not> sensitive_header ''X-Amz-Target''"
    unfolding sensitive_header_def Let_def by code_simp
  then have "map_of (safeHeaders h) ''X-Amz-Target'' = map_of h ''X-Amz-Target''"
    unfolding safeHeaders_def by (induction h) auto
  then show ?thesis by (simp add: header_values_def k)
qed

lemma identity_trans_signed:
  assumes "EndpointIdentityEqual ce e" "ep_SigningService e \<noteq> []" "AWSEndpoint_Validate e = None"
    "EndpointIdentityEqual e (e\<lparr>ep_SigningService := fst (expected_scope e), ep_SigningRegion := snd (expected_scope e),
       ep_Global := g, ep_Scope := sc\<rparr>)"
  shows "EndpointIdentityEqual ce (e\<lparr>ep_SigningService := fst (expected_scope e), ep_SigningRegion := snd (expected_scope e),
       ep_Global := g, ep_Scope := sc\<rparr>)"
proof -
  have "ep_SigningRegion e \<noteq> []" using assms(2,3) by (simp add: AWSEndpoint_Validate_None)
  with assms show ?thesis by (auto simp: EndpointIdentityEqual_def Let_def expected_scope_def)
qed


lemma valid_operation_bytes: "validOperation s \<longleftrightarrow> s \<noteq> [] \<and> list_all (\<lambda>c. alnum_rune (ord c)) s"
  by (simp add: validOperation_def list_all_runes_bytes [OF ascii_pred_rune_classes(4)])

lemma valid_operation_normal:
  assumes "validOperation s"
  shows "NormalizeOperation uni s = s"
proof -
  have b: "s \<noteq> []" "\<forall>c \<in> set s. alnum_rune (ord c)" using assms by (simp_all add: valid_operation_bytes list_all_iff)
  have small: "alnum_rune r \<Longrightarrow> r < 128 \<and> \<not> is_space_rune r" for r by (auto simp: alnum_rune_def digit_rune_def is_space_rune_def)
  have ascii: "list_all is_ascii s" using b small by (auto simp: list_all_iff is_ascii_def)
  have "\<not> is_space_rune (ord (hd s))" "\<not> is_space_rune (ord (last s))" using b small by auto
  then have "dropWhile (\<lambda>c. is_space_rune (ord c)) s = s" "dropWhile (\<lambda>c. is_space_rune (ord c)) (rev s) = rev s"
    using dropWhile_eq_self_iff [of "\<lambda>c. is_space_rune (ord c)"] b(1) hd_rev [of s] by auto
  then have t: "trim_space s = s" by (simp add: trim_space_ascii [OF ascii])
  have "list_all (letter_or_digit uni) (runes s)"
    using assms small unfolding validOperation_def by (auto simp: list_all_iff letter_or_digit_def)
  then show ?thesis using b by (auto simp: NormalizeOperation_def t list_ex_iff list_all_iff)
qed

lemma rest_scan_valid:
  "rest_scan service path method q l cs found = Inr res \<Longrightarrow> \<forall>(oper, _) \<in> set found. validOperation oper \<Longrightarrow>
     \<forall>(oper, _) \<in> set res. validOperation oper"
proof (induction cs arbitrary: found)
  case (Cons c cs)
  from Cons.prems(1) have "validOperation (wc_name c)"
    by (simp add: candidate_malformed_def validEvidenceOperation_def split: if_splits)
  moreover obtain found' where "rest_scan service path method q l cs found' = Inr res" "found' = found \<or> (\<exists>p. found' = found @ [(wc_name c, p)])"
    using Cons.prems(1) by (auto split: if_splits sum.splits option.splits)
  ultimately show ?case using Cons.IH [of found'] Cons.prems(2) by auto
qed simp

lemma target_valid: "targetOperationFor t service protocol c n = Inr oper \<Longrightarrow> validOperation oper"
  unfolding targetOperationFor_def Let_def by (simp split: option.splits if_splits list.splits)

lemma selected_valid:
  assumes "wire_selected catalog l h path q out"
  shows "(query_protocol (dr_Protocol out) \<longrightarrow> validOperation (dr_Operation out)) \<Longrightarrow> validOperation (dr_Operation out)"
proof -
  assume qv: "query_protocol (dr_Protocol out) \<longrightarrow> validOperation (dr_Operation out)"
  show ?thesis
  proof (cases "json_protocol (dr_Protocol out)")
    case True
    then show ?thesis
      using assms target_valid by (auto simp: wire_selected_def)
  next
    case False
    show ?thesis
    proof (cases "query_protocol (dr_Protocol out)")
      case rest: False
      obtain route where "restOperationFromCatalog (dr_Service out) path (dr_Method out) q (dr_Protocol out) catalog l =
          Inr (dr_Operation out, route)"
        using assms False rest by (auto simp: wire_selected_def)
      then obtain cs where "rest_scan (dr_Service out) path (to_upper (dr_Method out)) q l cs [] = Inr [(dr_Operation out, route)]"
        unfolding restOperationFromCatalog_def Let_def by (auto split: if_splits option.splits sum.splits list.splits)
      from rest_scan_valid [OF this] show ?thesis by simp
    qed (use qv in simp)
  qed
qed


lemma query_operation_valid:
  assumes "decode_body env dec e protocol r path q body = Inr parts" "query_protocol protocol"
  shows "validOperation (fst parts)"
proof -
  have "\<not> json_protocol protocol" using assms(2) by (auto simp: json_protocol_def query_protocol_def protocol_defs)
  with assms have "decodeQueryBody env body q (ep_Service e) protocol (dd_catalog dec) (dd_limits dec) = Inr parts"
    by (simp add: decode_body_def)
  then show ?thesis unfolding decodeQueryBody_def Let_def by (auto split: sum.splits option.splits if_splits)
qed

text \<open>
  Property C12. The mapper accepts the identity of what the decoder produces. When a request decodes for an endpoint with a signing identity, a
  mapper that classifies the host as the decoder does and uses the same wire index finds no disagreement of
  endpoint, account, protocol or target: it looks the operation up under the wire identity of the request.
\<close>

theorem decoded_identity_accepted:
  assumes "Decoder_Decode env (Some dec) ctxErr v e = (Inr out, rest)" "ep_SigningService e \<noteq> []"
    and "im_wire m = dd_catalog dec" "dd_classifier dec = Some classify"
  shows "\<exists>ident. wire_identity out = Some ident \<and> map_identity m out (classify (dr_EndpointHost out)) = Inr (dr_Operation out, ident)"
proof (rule decode_success [OF assms(1)])
  fix dec' vr r u protocol q body r' parts
  let ?path = "if escaped_path u = [] then ''/'' else escaped_path u"
  assume pre: "decode_preamble env (Some dec) ctxErr v e = Inr (dec', vr, r, u)"
    and p: "protocolFromHeaders (vr_Protocol vr) (rq_Header r) (url_Path u) = Inr protocol"
    and a: "authoritativeProtocolFor (dd_catalog dec') (ep_Service e) = Some protocol"
    and b: "decode_body env dec' e protocol r ?path q body = Inr parts"
    and out: "out = decoded_request dec' vr e protocol r ?path body parts"
  from preamble_success [OF pre] obtain ce where dec: "dec' = dec" and e: "AWSEndpoint_Validate e = None"
    and ce: "classify (ep_Host e) = Inr ce" "EndpointIdentityEqual ce e"
    and acc: "ep_AccountID e \<noteq> [] \<longrightarrow> ep_AccountID e = dd_callerAccountID dec"
    using assms(4) by auto
  have host: "dr_EndpointHost out = ep_Host e" unfolding out by (cases parts; simp add: decoded_request_def)
  have "AWSProtocol_Supported protocol" using authoritative_supported [OF p preamble_protocol [OF pre]] by (rule conjunct2)
  from decode_selected [OF b this] have sel: "wire_selected (dd_catalog dec') (dd_limits dec') (rq_Header r) ?path q out"
    unfolding out .
  have "query_protocol (dr_Protocol out) \<longrightarrow> validOperation (dr_Operation out)"
    using query_operation_valid [OF b] unfolding out decoded_request_fields by blast
  from selected_valid [OF sel this] have oper: "NormalizeOperation (im_uni m) (dr_Operation out) = dr_Operation out" "dr_Operation out \<noteq> []"
    by (simp_all add: valid_operation_normal valid_operation_bytes)
  have "EndpointIdentityEqual e (mapper_endpoint out)"
    unfolding EndpointIdentityEqual_def out decoded_request_fields decoded_scope [OF e] by (simp add: expected_scope_def)
  then have ident: "EndpointIdentityEqual ce (mapper_endpoint out)"
    using identity_trans_signed [OF ce(2) assms(2) e] unfolding out decoded_request_fields by blast
  have "ep_AccountID ce = ep_AccountID e" using ce(2) by (simp add: EndpointIdentityEqual_def Let_def)
  moreover have "dr_CallerAccountID out = dd_callerAccountID dec" "dr_Service out = ep_Service e" "dr_Protocol out = protocol"
    unfolding out decoded_request_fields dec by simp_all
  moreover have "json_protocol (dr_Protocol out) \<longrightarrow> (\<exists>t. header_values (dr_Headers out) ''X-Amz-Target'' = [t])"
    using sel safe_target [of "rq_Header r"] unfolding wire_selected_def by (auto simp: out decoded_request_fields)
  then obtain w where "wire_identity out = Some w"
    by (cases "json_protocol (dr_Protocol out)") (auto simp: wire_identity_def Let_def)
  ultimately show ?thesis
    using ident acc a oper unfolding host ce(1) by (auto simp: map_identity_def Let_def assms(3) dec)
qed

section \<open>A sample request\<close>

definition sample_decode_url :: url where
  "sample_decode_url = \<lparr>url_Opaque = [], url_User = False, url_Host = [], url_Path = ''/bucket/key'', url_RawPath = [], url_RawQuery = []\<rparr>"

definition sample_wire_request :: wire_request where
  "sample_wire_request = \<lparr>rq_Method = ''GET'', rq_URL = Some sample_decode_url, rq_Host = ''s3.us-east-1.amazonaws.com'',
     rq_Header = [(''Content-Type'', [''application/xml'']), (''Authorization'', [''AWS4-HMAC-SHA256''])], rq_ContentLength = 0,
     wr_Body = Source_body [] None None, wr_GetBody = None\<rparr>"

definition sample_decode_verified :: "wire_request VerifiedRequest" where
  "sample_decode_verified = \<lparr>vr_Request = Some sample_wire_request, vr_Endpoint = sample_endpoint, vr_Protocol = ''rest-xml'',
     vr_SigningScheme = SigningHeaderV4, vr_SigningRegion = ''us-east-1'', vr_SigningService = ''s3'', vr_PayloadMode = PayloadHashEmpty\<rparr>"

definition sample_decoder :: Decoder where
  "sample_decoder = newDecoder (Some sample_index) None DefaultDecodeLimits (Some (\<lambda>_. Inr sample_endpoint)) ''123456789012''"

definition sample_decode_env :: decode_env where
  "sample_decode_env = \<lparr>de_json = (\<lambda>_. \<lparr>js_tokens = [], js_more = False, js_eof = True\<rparr>), de_xml = (\<lambda>_. \<lparr>xs_tokens = [], xs_eof = True\<rparr>),
     de_float = (\<lambda>_. None), de_idna = Inr, de_order = id\<rparr>"



lemma sample_decode_verified_valid: "VerifiedRequest_Validate sample_decode_verified = None"
  using sample_endpoint_valid
  by (simp add: VerifiedRequest_Validate_def sample_decode_verified_def AWSProtocol_Supported_def protocol_defs PayloadHashMode_Supported_def
      SigningScheme_Supported_def)
    (simp add: sample_endpoint_def)

lemma sample_decode_wire:
  "request_host sample_decode_env sample_wire_request sample_decode_url = Some ''s3.us-east-1.amazonaws.com''"
  "protocolFromHeaders ''rest-xml'' (rq_Header sample_wire_request) ''/bucket/key'' = Inr ''rest-xml''"
  "escaped_path sample_decode_url = ''/bucket/key''"
  "safeHeaders (rq_Header sample_wire_request) = [(''Content-Type'', [''application/xml''])]"
  "header_values (rq_Header sample_wire_request) ''X-Amz-Target'' = []"
  by (code_simp, code_simp, code_simp, code_simp, code_simp)

lemma sample_decode_route:
  "restOperationFromCatalog ''s3'' ''/bucket/key'' ''GET'' [] ''rest-xml'' (Some sample_index) DefaultDecodeLimits =
     Inr (''GetObject'', [(''Bucket'', string_value ''bucket''), (''Key'', string_value ''key'')])"
  by code_simp

lemma sample_decode_authority: "authoritativeProtocolFor (Some sample_index) ''s3'' = Some ''rest-xml''"
  by code_simp

lemma sample_decoder_eq:
  "sample_decoder = \<lparr>dd_limits = DefaultDecodeLimits, dd_classifier = Some (\<lambda>_. Inr sample_endpoint),
     dd_callerAccountID = ''123456789012'', dd_catalog = Some sample_index, dd_configErr = None\<rparr>"
  by (simp add: sample_decoder_def newDecoder_def positive_or_def DefaultDecodeLimits_def validateCallerAccountID_def
      is_digit_byte_def byte_between_def ord_def)

lemmas sample_decode_parts = sample_decode_wire(1-4) sample_decode_route sample_decode_authority sample_decode_wire(5) sample_decoder_eq

definition sample_decoded :: DecodedAWSRequest where
  "sample_decoded = sample_request\<lparr>dr_Headers := [(''Content-Type'', [''application/xml''])], dr_CallerAccountID := ''123456789012'',
     dr_Parameters := [(''Bucket'', string_value ''bucket''), (''Key'', string_value ''key'')]\<rparr>"

lemma sample_decoded_valid: "DecodedAWSRequest_Validate sample_decoded = None"
proof -
  have "decoded_endpoint sample_decoded = sample_endpoint"
    using sample_request_endpoint by (simp add: sample_decoded_def decoded_endpoint_def)
  then show ?thesis
    unfolding DecodedAWSRequest_Validate_def guard_None
    by (simp add: sample_endpoint_valid)
      (simp add: sample_decoded_def sample_request_def validateCallerAccountID_def go_simps go_defs decoded_methods_def
        AWSProtocol_Supported_def protocol_defs PayloadHashMode_Supported_def payload_mode_defs Value_Validate_def string_value_def
        value_kind_defs)
qed

lemma sample_preamble:
  "decode_preamble sample_decode_env (Some sample_decoder) None (Some sample_decode_verified) sample_endpoint =
     Inr (sample_decoder, sample_decode_verified, sample_wire_request, sample_decode_url)"
  using sample_decode_verified_valid sample_decode_parts(1,3) sample_endpoint_valid
  by (simp add: decode_preamble_def sample_decode_parts(8))
    (simp add: sample_decode_verified_def sample_wire_request_def expected_scope_def sample_endpoint_def PayloadHashMode_Supported_def EndpointIdentityEqual_def DefaultDecodeLimits_def Let_def)

lemma sample_decodes:
  "Decoder_Decode sample_decode_env (Some sample_decoder) None (Some sample_decode_verified) sample_endpoint = (Inr sample_decoded, Some (sample_wire_request\<lparr>wr_Body := Saved_body [], wr_GetBody := Some []\<rparr>))"
proof -
  have route: "route_indicators sample_decoder sample_endpoint ''rest-xml'' sample_wire_request sample_decode_url = Inr []"
    by (simp add: route_indicators_def sample_decode_parts sample_decode_url_def parseQueryString_def json_protocol_def query_protocol_def rest_protocol_def protocol_defs)
  have read: "readAndRestore sample_wire_request (dl_MaxBodyBytes DefaultDecodeLimits) =
      (Inr [], sample_wire_request\<lparr>wr_Body := Saved_body [], wr_GetBody := Some []\<rparr>)"
    by (simp add: readAndRestore_def sample_wire_request_def read_limited_def DefaultDecodeLimits_def wrap64_def)
  have body: "decode_body sample_decode_env sample_decoder sample_endpoint ''rest-xml'' sample_wire_request ''/bucket/key'' [] [] =
      Inr (''GetObject'', [(''Bucket'', string_value ''bucket''), (''Key'', string_value ''key'')], [])"
    using sample_decode_parts(5)
    by (simp add: decode_body_def json_protocol_def query_protocol_def protocol_defs decodeRESTXMLBody_def sample_decode_parts(8))
      (simp add: sample_endpoint_def sample_wire_request_def)
  have out: "decoded_request sample_decoder sample_decode_verified sample_endpoint ''rest-xml'' sample_wire_request ''/bucket/key'' []
      (''GetObject'', [(''Bucket'', string_value ''bucket''), (''Key'', string_value ''key'')], []) = sample_decoded"
    using sample_decode_parts(4)
    by (simp add: decoded_request_def sample_decode_parts(8) sample_decoded_def sample_request_def)
      (simp add: sample_endpoint_def sample_decode_verified_def sample_wire_request_def expected_scope_def AWSEndpoint_EffectiveScope_def
        AWSEndpoint_IsGlobal_def ScopeGlobal_def ScopeRegional_def payload_mode_defs)
  have limits: "dd_limits sample_decoder = DefaultDecodeLimits" by (simp add: sample_decode_parts(8))
  have "decode_payload sample_decode_env sample_decoder sample_decode_verified sample_endpoint ''rest-xml'' sample_wire_request sample_decode_url [] =
      (Inr sample_decoded, sample_wire_request\<lparr>wr_Body := Saved_body [], wr_GetBody := Some []\<rparr>)"
    using read body out sample_decoded_valid
    by (simp add: decode_payload_def sample_decode_parts(3) limits)
  moreover have "vr_Protocol sample_decode_verified = ''rest-xml''" "url_Path sample_decode_url = ''/bucket/key''" "ep_Service sample_endpoint = ''s3''"
    "dd_catalog sample_decoder = Some sample_index"
    by (simp_all add: sample_decode_verified_def sample_decode_url_def sample_endpoint_def sample_decode_parts(8))
  ultimately show ?thesis
    using route sample_decode_parts(2,6) by (simp add: Decoder_Decode_def sample_preamble)
qed


theorem decoded_identity_accepted_witness:
  "\<exists>ident. wire_identity sample_decoded = Some ident \<and>
     map_identity (the (Some \<lparr>im_timeout = 1, im_classifier = (\<lambda>_. Some (Inr sample_endpoint)), im_adapter = None, im_wire = Some sample_index,
       im_data_version = [], im_uni = (\<lambda>_. False)\<rparr>)) sample_decoded (Inr sample_endpoint) = Inr (''GetObject'', ident)"
proof -
  let ?m = "\<lparr>im_timeout = 1, im_classifier = (\<lambda>_. Some (Inr sample_endpoint)), im_adapter = None, im_wire = Some sample_index,
       im_data_version = [], im_uni = (\<lambda>_. False)\<rparr>"
  have "\<exists>ident. wire_identity sample_decoded = Some ident \<and>
      map_identity ?m sample_decoded ((\<lambda>_. Inr sample_endpoint) (dr_EndpointHost sample_decoded)) = Inr (dr_Operation sample_decoded, ident)"
    by (rule decoded_identity_accepted [OF sample_decodes]) (simp_all add: sample_endpoint_def sample_decode_parts(8))
  then show ?thesis by (simp add: sample_decoded_def sample_request_def)
qed

section \<open>The body is put back\<close>

lemma wire_after_content: "wire_content (wire_after n b) = (drop n (fst (wire_content b)), snd (wire_content b))"
  by (induction b arbitrary: n) (auto split: prod.splits)

lemma readAndRestore_content:
  assumes "readAndRestore r mx = (res, r')" "mx < 2 ^ 63 - 1"
  shows "wire_content (wr_Body r') = wire_content (wr_Body r) \<and> http_request.truncate r' = http_request.truncate r \<and>
     (\<forall>b. res = Inr b \<longrightarrow> b = fst (wire_content (wr_Body r)) \<and> int (length b) \<le> mx)"
proof -
  obtain bytes err where c: "wire_content (wr_Body r) = (bytes, err)" by fastforce
  have w: "wrap64 (mx + 1) = mx + 1" if "0 < mx" using that assms(2) by (simp add: wrap64_def)
  show ?thesis
    using assms(1) c
    by (auto simp: readAndRestore_def read_limited_def w wire_after_content http_request.truncate_def
        split: if_splits option.splits)
qed

text \<open>
  Property C11. Decoding leaves the request as it was. For every outcome of \<^verbatim>\<open>Decode\<close>, whatever body the request has (also one that
  is too long, fails while it is read, or fails to close), the request keeps its method, URL, host, header and length, and its
  new body delivers the same bytes and ends the same way as the old one; so the bytes that are forwarded are the bytes that were decoded.
  A request that decodes reports the length of that body, which is within the decoder's limit.
\<close>

theorem decode_preserves_request:
  assumes "Decoder_Decode env (Some dec) ctxErr (Some vr) e = (res, Some r')" "vr_Request vr = Some r"
    and "dl_MaxBodyBytes (dd_limits dec) < 2 ^ 63 - 1"
  shows "wire_content (wr_Body r') = wire_content (wr_Body r) \<and> http_request.truncate r' = http_request.truncate r \<and>
     (\<forall>out. res = Inr out \<longrightarrow> dr_PayloadBytes out = int (length (fst (wire_content (wr_Body r)))) \<and>
        dr_PayloadBytes out \<le> dl_MaxBodyBytes (dd_limits dec))"
proof (cases "r' = r \<and> (\<forall>out. res \<noteq> Inr out)")
  case False
  obtain dec' vr' r0 u where pre: "decode_preamble env (Some dec) ctxErr (Some vr) e = Inr (dec', vr', r0, u)"
    using assms(1,2) False by (cases "decode_preamble env (Some dec) ctxErr (Some vr) e") (auto simp: Decoder_Decode_def)
  then have eq: "dec' = dec" "r0 = r" using preamble_success [OF pre] assms(2) by auto
  then obtain protocol q where "decode_payload env dec vr' e protocol r u q = (res, r')"
    using assms(1,2) False pre
    by (auto simp: Decoder_Decode_def Let_def map_prod_def split: sum.splits if_splits prod.splits)
  then obtain read where rd: "readAndRestore r (dl_MaxBodyBytes (dd_limits dec)) = (read, r')"
    and out: "\<forall>out. res = Inr out \<longrightarrow> (\<exists>b. read = Inr b \<and> dr_PayloadBytes out = int (length b))"
    unfolding decode_payload_def Let_def
    by (cases "readAndRestore r (dl_MaxBodyBytes (dd_limits dec))")
      (auto simp: decoded_request_fields split: sum.splits option.splits)
  from readAndRestore_content [OF rd assms(3)] out show ?thesis by auto
qed simp

theorem decode_preserves_request_witness:
  "wire_content (wr_Body (sample_wire_request\<lparr>wr_Body := Saved_body [], wr_GetBody := Some []\<rparr>)) = wire_content (wr_Body sample_wire_request) \<and>
     dr_PayloadBytes sample_decoded \<le> 8 * 2 ^ 20"
proof -
  have "dl_MaxBodyBytes (dd_limits sample_decoder) = 8 * 2 ^ 20" "vr_Request sample_decode_verified = Some sample_wire_request"
    by (simp_all add: sample_decode_parts(8) DefaultDecodeLimits_def sample_decode_verified_def)
  with decode_preserves_request [OF sample_decodes, of sample_wire_request] show ?thesis by simp
qed

end
