(* ===== verification/Wire_Json.thy ===== *)
theory Wire_Json
  imports Wire_Decode
begin

text \<open>
  The JSON parser of the decoder, \<^verbatim>\<open>parseJSONValue\<close> of \<^verbatim>\<open>src/internal/awsrequest/decode_json.go\<close>, on the tokens of a body: what it
  returns is within the limits, and every value within the limits is returned from its tokens.
\<close>

section \<open>Values within the limits\<close>

text \<open>The limits of a value that starts at a depth: nesting, members, distinct non-empty names, and the length of texts.\<close>

fun json_bounded :: "DecodeLimits \<Rightarrow> nat \<Rightarrow> Value \<Rightarrow> bool" where
  "json_bounded l d (Value kind s b i f obj arr) \<longleftrightarrow>
     int d \<le> dl_MaxDepth l \<and> int (length s) \<le> dl_MaxTokenBytes l \<and>
     int (length obj) \<le> dl_MaxParameters l \<and> int (length arr) \<le> dl_MaxParameters l \<and> distinct (map fst obj) \<and>
     (\<forall>(k, v) \<in> set obj. k \<noteq> [] \<and> int (length k) \<le> dl_MaxTokenBytes l \<and> json_bounded l (d + 1) v) \<and>
     (\<forall>v \<in> set arr. json_bounded l (d + 1) v)"

definition good_members :: "DecodeLimits \<Rightarrow> nat \<Rightarrow> parameters \<Rightarrow> bool" where
  "good_members l d m \<longleftrightarrow> int (length m) \<le> dl_MaxParameters l \<and> distinct (map fst m) \<and>
     (\<forall>(k, v) \<in> set m. k \<noteq> [] \<and> int (length k) \<le> dl_MaxTokenBytes l \<and> json_bounded l (d + 1) v)"

definition good_items :: "DecodeLimits \<Rightarrow> nat \<Rightarrow> Value list \<Rightarrow> bool" where
  "good_items l d a \<longleftrightarrow> int (length a) \<le> dl_MaxParameters l \<and> (\<forall>v \<in> set a. json_bounded l (d + 1) v)"

lemmas json_value_defs = string_value_def null_value_def bool_value_def int_value_def float_value_def members_value_def items_value_def

lemma bounded_leaves:
  assumes "0 \<le> dl_MaxParameters l" "0 \<le> dl_MaxTokenBytes l" "int d \<le> dl_MaxDepth l"
  shows "json_bounded l d (bool_value b)" "json_bounded l d null_value" "json_bounded l d (int_value i)" "json_bounded l d (float_value f)"
    "json_bounded l d (string_value x) \<longleftrightarrow> int (length x) \<le> dl_MaxTokenBytes l"
    "json_bounded l d (members_value m) \<longleftrightarrow> good_members l d m" "json_bounded l d (items_value a) \<longleftrightarrow> good_items l d a"
  using assms by (auto simp: json_value_defs good_members_def good_items_def)

lemma stream_Token_shorter: "stream_Token s = Some (t, s') \<Longrightarrow> length (js_tokens s') < length (js_tokens s)"
  by (auto simp: stream_Token_def split: list.splits)

lemma json_number_bounded:
  assumes "0 \<le> dl_MaxParameters l" "0 \<le> dl_MaxTokenBytes l" "int d \<le> dl_MaxDepth l" "json_number env x = Inr v"
  shows "json_bounded l d v"
  using assms(4) bounded_leaves [OF assms(1-3)] by (auto simp: json_number_def split: if_splits option.splits)

declare parseJSONValue.simps [simp del] json_members.simps [simp del] json_items.simps [simp del]

lemma parse_bounded:
  assumes "0 \<le> dl_MaxParameters l" "0 \<le> dl_MaxTokenBytes l"
  shows "parseJSONValue env l d s = Inr (v, s') \<Longrightarrow> json_bounded l d v \<and> length (js_tokens s') < length (js_tokens s)"
    and "json_members env l d m s = Inr (v, s') \<Longrightarrow> int d \<le> dl_MaxDepth l \<Longrightarrow> good_members l d m \<Longrightarrow>
      json_bounded l d v \<and> length (js_tokens s') < length (js_tokens s)"
    and "json_items env l d a s = Inr (v, s') \<Longrightarrow> int d \<le> dl_MaxDepth l \<Longrightarrow> good_items l d a \<Longrightarrow>
      json_bounded l d v \<and> length (js_tokens s') < length (js_tokens s)"
  using assms
proof (induction env l d s and env l d m s and env l d a s arbitrary: v s' and v s' and v s' rule: parseJSONValue_json_members_json_items.induct)
  case (1 env l depth s)
  note unfolded = "1.prems"(1) [unfolded parseJSONValue.simps [of env l depth s]]
  from unfolded obtain t s1 where d: "int depth \<le> dl_MaxDepth l" and t: "stream_Token s = Some (t, s1)"
    by (auto split: if_splits option.splits)
  note leaves = bounded_leaves [OF "1.prems"(2,3) d] and short = stream_Token_shorter [OF t]
  have ok: "good_members l depth []" "good_items l depth []" using "1.prems"(2) by (simp_all add: good_members_def good_items_def)
  show ?case
  proof (cases t)
    case (Delim c)
    consider "c = CHR ''{''" | "c = CHR ''[''" using unfolded t d Delim by (auto split: if_splits)
    then show ?thesis
    proof cases
      case 1
      then have "json_members env l depth [] s1 = Inr (v, s')" using unfolded t d Delim by simp
      then show ?thesis using "1.IH"(1) [OF _ t refl Delim] 1 d ok short "1.prems"(2,3) by fastforce
    next
      case 2
      then have "json_items env l depth [] s1 = Inr (v, s')" using unfolded t d Delim by simp
      then show ?thesis using "1.IH"(2) [OF _ t refl Delim] 2 d ok short "1.prems"(2,3) by fastforce
    qed
  next
    case (Json_number x)
    then show ?thesis using unfolded t d short json_number_bounded [OF "1.prems"(2,3) d] by (auto split: sum.splits)
  qed (use unfolded t d leaves short in \<open>auto split: if_splits\<close>)
next
  case (2 env l depth m s)
  note leaves = bounded_leaves [OF "2.prems"(4,5,2)] and unfolded = "2.prems"(1) [unfolded json_members.simps [of env l depth m s]]
  show ?case
  proof (cases "stream_More s")
    case False
    then show ?thesis using unfolded "2.prems"(3) leaves stream_Token_shorter by (auto split: option.splits)
  next
    case True
    from unfolded True obtain k s1 v1 s2 where t: "stream_Token s = Some (Json_string k, s1)"
      and k: "k \<noteq> []" "int (length k) \<le> dl_MaxTokenBytes l" "k \<notin> fst ` set m"
      and p: "parseJSONValue env l (depth + 1) s1 = Inr (v1, s2)"
      and n: "\<not> int (length m + 1) > dl_MaxParameters l" and rest: "json_members env l depth (m @ [(k, v1)]) s2 = Inr (v, s')"
      by (auto split: option.splits json_token.splits if_splits sum.splits)
    have k': "\<not> (k = [] \<or> int (length k) > dl_MaxTokenBytes l)" using k by simp
    have b: "json_bounded l (depth + 1) v1" "length (js_tokens s2) < length (js_tokens s1)"
      using "2.IH"(1) [OF _ t refl refl k' k(3) p "2.prems"(4,5)] True by simp_all
    have "good_members l depth (m @ [(k, v1)])" using "2.prems"(3) b(1) k n by (auto simp: good_members_def)
    with "2.IH"(2) [OF _ t refl refl k' k(3) p refl n rest "2.prems"(2) _ "2.prems"(4,5)] True b(2) stream_Token_shorter [OF t]
    show ?thesis by simp
  qed
next
  case (3 env l depth a s)
  note leaves = bounded_leaves [OF "3.prems"(4,5,2)] and unfolded = "3.prems"(1) [unfolded json_items.simps [of env l depth a s]]
  show ?case
  proof (cases "stream_More s")
    case False
    then show ?thesis using unfolded "3.prems"(3) leaves stream_Token_shorter by (auto split: option.splits)
  next
    case True
    from unfolded True obtain v1 s2 where p: "parseJSONValue env l (depth + 1) s = Inr (v1, s2)"
      and n: "\<not> int (length a + 1) > dl_MaxParameters l" and rest: "json_items env l depth (a @ [v1]) s2 = Inr (v, s')"
      by (auto split: if_splits sum.splits)
    have b: "json_bounded l (depth + 1) v1" "length (js_tokens s2) < length (js_tokens s)"
      using "3.IH"(1) [OF _ p "3.prems"(4,5)] True by simp_all
    have "good_items l depth (a @ [v1])" using "3.prems"(3) b(1) n by (auto simp: good_items_def)
    with "3.IH"(2) [OF _ p refl n rest "3.prems"(2) _ "3.prems"(4,5)] True b(2) show ?thesis by simp
  qed
qed


text \<open>
  Property C37. What the JSON parser accepts is within the limits. Whatever the tokens of a body are, a value \<^verbatim>\<open>parseJSONValue\<close> returns is
  nested no deeper than \<^verbatim>\<open>MaxDepth\<close>, has at most \<^verbatim>\<open>MaxParameters\<close> members in every object and items in every array, no
  object has two members of one name or one without a name, no name or text is longer than \<^verbatim>\<open>MaxTokenBytes\<close>, and at least one token is consumed.
\<close>

theorem json_value_bounded:
  assumes "parseJSONValue env l 0 s = Inr (v, s')" "0 \<le> dl_MaxParameters l" "0 \<le> dl_MaxTokenBytes l"
  shows "json_bounded l 0 v \<and> length (js_tokens s') < length (js_tokens s)"
  using parse_bounded(1) [OF assms(2,3,1)] .

section \<open>The tokens of a value\<close>

definition int_text :: "int \<Rightarrow> string" where
  "int_text i = (if i < 0 then CHR ''-'' # itoa (nat (- i)) else itoa (nat i))"

fun json_tokens :: "Value \<Rightarrow> json_token list" where
  "json_tokens (Value kind s b i f obj arr) =
     (if kind = ValueNull then [Json_null]
      else if kind = ValueString then [Json_string s]
      else if kind = ValueBoolean then [Json_bool b]
      else if kind = ValueInteger then [Json_number (int_text i)]
      else if kind = ValueObject then Delim CHR ''{'' # concat (map (\<lambda>(k, v). Json_string k # json_tokens v) obj) @ [Delim CHR ''}'']
      else Delim CHR ''['' # concat (map json_tokens arr) @ [Delim CHR '']''])"

text \<open>The values a parse can return, floating point numbers apart.\<close>

fun json_plain :: "Value \<Rightarrow> bool" where
  "json_plain (Value kind s b i f obj arr) \<longleftrightarrow>
     Value kind s b i f obj arr \<in> {null_value, string_value s, bool_value b} \<or>
     (Value kind s b i f obj arr = int_value i \<and> - (2 ^ 63) \<le> i \<and> i < 2 ^ 63) \<or>
     (Value kind s b i f obj arr = members_value obj \<and> (\<forall>(k, v) \<in> set obj. json_plain v)) \<or>
     (Value kind s b i f obj arr = items_value arr \<and> (\<forall>v \<in> set arr. json_plain v))"

lemma int_text_Atoi:
  assumes "- (2 ^ 63) \<le> i" "i < 2 ^ 63"
  shows "strconv_Atoi (int_text i) = Some i" and "\<not> contains_any (int_text i) ''.eE''"
proof -
  have nd: "\<not> is_digit_byte CHR ''-''" "\<not> is_digit_byte CHR ''+''" "\<not> is_digit_byte CHR ''.''" "\<not> is_digit_byte CHR ''e''"
    "\<not> is_digit_byte CHR ''E''" by code_simp+
  have pre: "\<not> has_prefix (itoa n) ''-''" "\<not> has_prefix (itoa n) ''+''" for n
    using itoa_digits [of n] nd by (cases "itoa n"; auto simp: has_prefix_def)+
  have digits: "\<forall>c \<in> set (itoa n). is_digit_byte c" for n using itoa_digits [of n] by (simp add: list_all_iff)
  show "strconv_Atoi (int_text i) = Some i"
  proof (cases "i < 0")
    case True
    then have "int_text i = CHR ''-'' # itoa (nat (- i))" by (simp add: int_text_def)
    then show ?thesis using True assms itoa_digits by (simp add: strconv_Atoi_def Let_def has_prefix_def atoi_itoa)
  next
    case False
    then have "int_text i = itoa (nat i)" by (simp add: int_text_def)
    then show ?thesis using False assms itoa_digits pre by (simp add: strconv_Atoi_def Let_def atoi_itoa)
  qed
  have "\<not> contains_any (itoa n) ''.eE''" for n
    using digits [of n] nd by (auto simp: contains_any_def list_ex_iff)
  then show "\<not> contains_any (int_text i) ''.eE''" by (simp add: int_text_def contains_any_def)
qed


lemma token_simps [simp]:
  "stream_Token (s\<lparr>js_tokens := t # ts\<rparr>) = Some (t, s\<lparr>js_tokens := ts\<rparr>)"
  "stream_More (s\<lparr>js_tokens := t # ts\<rparr>) \<longleftrightarrow> t \<notin> {Delim CHR ''}'', Delim CHR '']''}"
  by (simp_all add: stream_Token_def stream_More_def)

definition parses :: "decode_env \<Rightarrow> DecodeLimits \<Rightarrow> nat \<Rightarrow> Value \<Rightarrow> bool" where
  "parses env l d v \<longleftrightarrow> (\<forall>s ts. parseJSONValue env l d (s\<lparr>js_tokens := json_tokens v @ ts\<rparr>) = Inr (v, s\<lparr>js_tokens := ts\<rparr>))"

lemma tokens_start: "\<exists>t ts. json_tokens v = t # ts \<and> t \<notin> {Delim CHR ''}'', Delim CHR '']''}"
  by (cases v) auto

lemma members_parse:
  assumes "\<forall>(k, v) \<in> set obj. parses env l (d + 1) v" "good_members l d (m @ obj)"
  shows "json_members env l d m (s\<lparr>js_tokens := concat (map (\<lambda>(k, v). Json_string k # json_tokens v) obj) @ Delim CHR ''}'' # ts\<rparr>) =
     Inr (members_value (m @ obj), s\<lparr>js_tokens := ts\<rparr>)"
  using assms
proof (induction obj arbitrary: m)
  case Nil
  then show ?case by (subst json_members.simps) simp
next
  case (Cons kv obj)
  obtain k v where kv: "kv = (k, v)" by fastforce
  let ?ts = "concat (map (\<lambda>(k, v). Json_string k # json_tokens v) obj) @ Delim CHR ''}'' # ts"
  have p: "parseJSONValue env l (d + 1) (s\<lparr>js_tokens := json_tokens v @ ?ts\<rparr>) = Inr (v, s\<lparr>js_tokens := ?ts\<rparr>)"
    using Cons.prems(1) unfolding kv parses_def by simp
  have g: "k \<noteq> []" "\<not> int (length k) > dl_MaxTokenBytes l" "k \<notin> fst ` set m" "\<not> int (length m + 1) > dl_MaxParameters l"
    using Cons.prems(2) unfolding kv good_members_def by auto
  have "json_members env l d (m @ [(k, v)]) (s\<lparr>js_tokens := ?ts\<rparr>) = Inr (members_value ((m @ [(k, v)]) @ obj), s\<lparr>js_tokens := ts\<rparr>)"
    using Cons.prems unfolding kv by (intro Cons.IH) simp_all
  with p g show ?case unfolding kv by (subst json_members.simps) simp
qed

lemma items_parse:
  assumes "\<forall>v \<in> set arr. parses env l (d + 1) v" "good_items l d (a @ arr)"
  shows "json_items env l d a (s\<lparr>js_tokens := concat (map json_tokens arr) @ Delim CHR '']'' # ts\<rparr>) =
     Inr (items_value (a @ arr), s\<lparr>js_tokens := ts\<rparr>)"
  using assms
proof (induction arr arbitrary: a)
  case Nil
  then show ?case by (subst json_items.simps) simp
next
  case (Cons v arr)
  let ?ts = "concat (map json_tokens arr) @ Delim CHR '']'' # ts"
  obtain t us where t: "json_tokens v = t # us" "t \<notin> {Delim CHR ''}'', Delim CHR '']''}" using tokens_start by blast
  have p: "parseJSONValue env l (d + 1) (s\<lparr>js_tokens := json_tokens v @ ?ts\<rparr>) = Inr (v, s\<lparr>js_tokens := ?ts\<rparr>)"
    using Cons.prems(1) unfolding parses_def by simp
  have g: "\<not> int (length a + 1) > dl_MaxParameters l" using Cons.prems(2) unfolding good_items_def by auto
  have "json_items env l d (a @ [v]) (s\<lparr>js_tokens := ?ts\<rparr>) = Inr (items_value ((a @ [v]) @ arr), s\<lparr>js_tokens := ts\<rparr>)"
    using Cons.prems by (intro Cons.IH) simp_all
  with p g t show ?case by (subst json_items.simps) simp
qed

lemma plain_parses:
  assumes "json_plain v" "json_bounded l d v"
  shows "parses env l d v"
  using assms
proof (induction v arbitrary: d)
  case (Value kind str b i f obj arr)
  have d: "\<not> int d > dl_MaxDepth l" using Value.prems(2) by simp
  have m: "\<forall>(k, v) \<in> set obj. json_plain v \<longrightarrow> parses env l (d + 1) v" and a: "\<forall>v \<in> set arr. json_plain v \<longrightarrow> parses env l (d + 1) v"
    using Value.IH Value.prems(2) by fastforce+
  consider "Value kind str b i f obj arr = null_value" | "Value kind str b i f obj arr = string_value str"
    | "Value kind str b i f obj arr = bool_value b"
    | "Value kind str b i f obj arr = int_value i" "- (2 ^ 63) \<le> i" "i < 2 ^ 63"
    | "Value kind str b i f obj arr = members_value obj" "\<forall>(k, v) \<in> set obj. json_plain v"
    | "Value kind str b i f obj arr = items_value arr" "\<forall>v \<in> set arr. json_plain v"
    using Value.prems(1) by auto
  then show ?case
  proof cases
    case 4
    then show ?thesis
      using d int_text_Atoi [of i] unfolding parses_def
      by (auto simp: parseJSONValue.simps json_number_def json_value_defs value_kind_defs)
  next
    case 5
    have "good_members l d ([] @ obj)" using Value.prems(2) by (simp add: good_members_def)
    moreover have "\<forall>(k, v) \<in> set obj. parses env l (d + 1) v" using m 5(2) by auto
    ultimately have mp: "json_members env l d [] (s\<lparr>js_tokens := concat (map (\<lambda>(k, v). Json_string k # json_tokens v) obj) @ Delim CHR ''}'' # ts\<rparr>) =
        Inr (members_value obj, s\<lparr>js_tokens := ts\<rparr>)" for s ts
      using members_parse [of obj env l d "[]" ts s] by simp
    have "json_tokens (members_value obj) = Delim CHR ''{'' # concat (map (\<lambda>(k, v). Json_string k # json_tokens v) obj) @ [Delim CHR ''}'']"
      by (simp add: members_value_def value_kind_defs)
    then show ?thesis unfolding parses_def 5(1) using mp d by (simp add: parseJSONValue.simps)
  next
    case 6
    have "good_items l d ([] @ arr)" using Value.prems(2) by (simp add: good_items_def)
    moreover have "\<forall>v \<in> set arr. parses env l (d + 1) v" using a 6(2) by auto
    ultimately have ip: "json_items env l d [] (s\<lparr>js_tokens := concat (map json_tokens arr) @ Delim CHR '']'' # ts\<rparr>) =
        Inr (items_value arr, s\<lparr>js_tokens := ts\<rparr>)" for s ts
      using items_parse [of arr env l d "[]" ts s] by simp
    have "json_tokens (items_value arr) = Delim CHR ''['' # concat (map json_tokens arr) @ [Delim CHR '']'']"
      by (simp add: items_value_def value_kind_defs)
    then show ?thesis unfolding parses_def 6(1) using ip d by (simp add: parseJSONValue.simps)
  qed (use Value.prems(2) d in \<open>auto simp: parses_def parseJSONValue.simps json_value_defs value_kind_defs\<close>)
qed


text \<open>
  Property C38. Every JSON value within the limits is decoded from its tokens. For a value without floating point numbers, the
  tokens that spell it parse back to that value, and the parser stops exactly behind them.
\<close>

theorem json_roundtrip:
  assumes "json_plain v" "json_bounded l 0 v"
  shows "parseJSONValue env l 0 (s\<lparr>js_tokens := json_tokens v @ ts\<rparr>) = Inr (v, s\<lparr>js_tokens := ts\<rparr>)"
  using plain_parses [OF assms] unfolding parses_def by blast

definition sample_json :: Value where
  "sample_json = members_value [(''TableName'', string_value ''t''), (''Limit'', int_value 5), (''Keys'', items_value [null_value, bool_value True])]"

definition sample_json_env :: decode_env where
  "sample_json_env = \<lparr>de_json = (\<lambda>_. \<lparr>js_tokens = json_tokens sample_json, js_more = False, js_eof = True\<rparr>), de_xml = (\<lambda>_. \<lparr>xs_tokens = [], xs_eof = True\<rparr>),
     de_float = (\<lambda>_. None), de_idna = Inr, de_order = id\<rparr>"

lemma sample_json_ok: "json_plain sample_json" "json_bounded DefaultDecodeLimits 0 sample_json"
  by (simp_all add: sample_json_def json_value_defs DefaultDecodeLimits_def)

theorem json_roundtrip_witness:
  "parseJSONValue sample_json_env DefaultDecodeLimits 0 (de_json sample_json_env []) =
     Inr (sample_json, \<lparr>js_tokens = [], js_more = False, js_eof = True\<rparr>)"
proof -
  have "(de_json sample_json_env [])\<lparr>js_tokens := json_tokens sample_json @ []\<rparr> = de_json sample_json_env []"
    "(de_json sample_json_env [])\<lparr>js_tokens := []\<rparr> = \<lparr>js_tokens = [], js_more = False, js_eof = True\<rparr>"
    by (simp_all add: sample_json_env_def)
  with json_roundtrip [OF sample_json_ok, of sample_json_env "[]" "de_json sample_json_env []"] show ?thesis by simp
qed

theorem json_value_bounded_witness:
  "json_bounded DefaultDecodeLimits 0 sample_json \<and> 0 < length (json_tokens sample_json)"
proof -
  let ?s = "\<lparr>js_tokens = [], js_more = False, js_eof = True\<rparr>"
  have "parseJSONValue sample_json_env DefaultDecodeLimits 0 (?s\<lparr>js_tokens := json_tokens sample_json @ []\<rparr>) = Inr (sample_json, ?s\<lparr>js_tokens := []\<rparr>)"
    using plain_parses [OF sample_json_ok] unfolding parses_def by blast
  from json_value_bounded [OF this] show ?thesis by (simp add: DefaultDecodeLimits_def)
qed

end
