(* ===== verification/Iam_Context.thy ===== *)
theory Iam_Context
  imports Iam_Mapper
begin

text \<open>
  Cancellation. A computation is \<open>steady\<close> when a context that is still alive at its end was alive
  all along, and then its result is the one under a context that never ends. Every computation of
  the mapper is steady, so the properties of a successful mapping reduce to the uncancelled
  computation \<open>pure m\<close>.
\<close>

definition alive :: "Context \<Rightarrow> bool" where
  "alive c \<longleftrightarrow> \<not> fst (ctx_err c)"

definition pure :: "'a ctx_prog \<Rightarrow> 'a" where
  "pure m = fst (run_state m Background)"

definition steady :: "'a ctx_prog \<Rightarrow> bool" where
  "steady m \<longleftrightarrow> snd (run_state m Background) = Background \<and>
     (\<forall>c. alive (snd (run_state m c)) \<longrightarrow> alive c \<and> fst (run_state m c) = pure m)"

lemma run_bind: "run_state (m \<bind> k) c = (case run_state m c of (x, c') \<Rightarrow> run_state (k x) c')"
  by (simp add: State_Monad.bind_def split: prod.splits)

lemma steady_return [simp]: "steady (State_Monad.return x)"
  by (simp add: steady_def pure_def)

lemma pure_return [simp]: "pure (State_Monad.return x) = x"
  by (simp add: pure_def)

text \<open>A computation that ends with an alive context was not cancelled.\<close>

lemma steady_alive:
  "steady m \<Longrightarrow> run_state m c = (x, c') \<Longrightarrow> alive c' \<Longrightarrow> x = pure m \<and> alive c"
  unfolding steady_def by (metis fst_conv snd_conv)

lemma run_pure: "steady m \<Longrightarrow> run_state m Background = (pure m, Background)"
  by (simp add: steady_def pure_def prod_eq_iff)

lemma pure_bind [simp]: "steady m \<Longrightarrow> pure (m \<bind> k) = pure (k (pure m))"
  by (simp add: pure_def [of "m \<bind> k"] run_bind run_pure) (simp add: pure_def)

lemma steady_bind [intro!]:
  assumes "steady m" "\<And>x. steady (k x)"
  shows "steady (m \<bind> k)"
proof -
  have "alive c \<and> fst (run_state (m \<bind> k) c) = pure (m \<bind> k)" if a: "alive (snd (run_state (m \<bind> k) c))" for c
  proof -
    obtain x c' where r: "run_state m c = (x, c')" by fastforce
    with a have "alive (snd (run_state (k x) c'))" by (simp add: run_bind)
    with assms(2) have k: "alive c'" "fst (run_state (k x) c') = pure (k x)" by (auto simp: steady_def)
    with r assms(1) have "alive c" "x = pure m" using steady_alive by fast+
    with r k assms(1) show ?thesis by (simp add: run_bind)
  qed
  with assms show ?thesis by (simp add: steady_def [of "m \<bind> k"] run_bind run_pure)
qed

lemma steady_poll [simp]: "steady poll" and pure_poll [simp]: "pure poll = False"
proof -
  have "alive (snd (ctx_err c)) \<longrightarrow> alive c \<and> \<not> fst (ctx_err c)" for c
    by (cases c rule: ctx_err.cases) (simp_all add: alive_def)
  then show "steady poll" "pure poll = False" by (simp_all add: steady_def pure_def poll_def)
qed

lemma steady_unless [intro!]: "steady m \<Longrightarrow> steady (unless_cancelled x m)"
  unfolding unless_cancelled_def by (rule steady_bind) simp_all

lemma pure_unless [simp]: "pure (unless_cancelled x m) = pure m"
  by (simp add: unless_cancelled_def)

text \<open>The control structures of the code keep steadiness.\<close>

lemma steady_cases [intro!]:
  "(b \<Longrightarrow> steady m) \<Longrightarrow> (\<not> b \<Longrightarrow> steady n) \<Longrightarrow> steady (if b then m else n)"
  "(o1 = None \<Longrightarrow> steady n) \<Longrightarrow> (\<And>x. o1 = Some x \<Longrightarrow> steady (f x)) \<Longrightarrow> steady (case_option n f o1)"
  "(\<And>e. r = Inl e \<Longrightarrow> steady (g e)) \<Longrightarrow> (\<And>x. r = Inr x \<Longrightarrow> steady (f' x)) \<Longrightarrow> steady (case_sum g f' r)"
  "(\<And>x y. p = (x, y) \<Longrightarrow> steady (h x y)) \<Longrightarrow> steady (case_prod h p)"
  "(l = [] \<Longrightarrow> steady n) \<Longrightarrow> (\<And>x xs. l = x # xs \<Longrightarrow> steady (k x xs)) \<Longrightarrow> steady (case_list n k l)"
  by (simp_all split: option.split sum.split prod.split list.split)

lemma steady_Let [intro!]: "steady (f a) \<Longrightarrow> steady (Let a f)"
  by simp

lemmas steady_intros = steady_unless steady_bind steady_cases steady_Let

section \<open>The searches\<close>

lemma steady_walk_fields [simp]: "steady (walk_fields want d fs st)"
proof (induction want d fs st rule: walk_fields.induct)
  case (2 want d k kind s b i f obj arr rest found ambiguous)
  show ?case unfolding walk_fields.simps
    by (intro steady_intros; (rule "2.IH"; simp)?; simp)
qed simp

lemma steady_parameterString [simp]: "steady (parameterStringContext p names)"
  by (induction names) auto

lemma steady_string_items [simp]: "steady (string_items vs r)"
  by (induction vs arbitrary: r) auto

lemma steady_parameterStrings [simp]: "steady (parameterStringsContext p name)"
  by (induction p name rule: parameterStringsContext.induct) auto

lemma steady_find:
  "steady (find_value want key d v)" "steady (find_fields want d fs)" "steady (find_items want d vs)"
  by (induction want key d v and want d fs and want d vs rule: find_value_find_fields_find_items.induct) auto

declare steady_find [simp]

lemma steady_find_all [simp]: "steady (find_all want p out)"
  by (induction want p out rule: find_all.induct) auto

lemma steady_FindContext [simp]: "steady (FindContext p names)"
  by (simp add: FindContext_def)

lemma steady_invalid:
  "steady (invalid_fields want d fs)" "steady (invalid_items want d vs)"
  by (induction want d fs and want d vs rule: invalid_fields_invalid_items.induct) auto

lemma steady_invalidNamed [simp]: "steady (invalidNamedValueContext p names)"
  by (simp add: invalidNamedValueContext_def steady_invalid)

section \<open>The adapter\<close>

lemma steady_select [simp]: "steady (select_occurrences oper ident ocs selected)"
  by (induction ocs arbitrary: selected) auto

lemma steady_match_children [simp]: "steady (match_children name fs nx)"
  by (induction name fs nx rule: match_children.induct) auto

lemma steady_match_parents [simp]: "steady (match_parents name ps nx)"
  by (induction ps arbitrary: nx) auto

lemma steady_expand_arrays [simp]: "steady (expand_arrays vs out)"
  by (induction vs arbitrary: out) auto

lemma steady_leaf_strings [simp]: "steady (leaf_strings vs out)"
  by (induction vs arbitrary: out) auto

lemma steady_path_walk [simp]: "steady (path_walk cur parts)"
  by (induction cur parts rule: path_walk.induct) auto

lemma steady_pathValues [simp]: "steady (pathValues p path)"
  by (simp add: pathValues_def)

lemma steady_anyString [simp]: "steady (anyString P vs)"
  by (induction vs) auto

lemma steady_condition_result [simp]: "steady (condition_result oper rhs vals)"
  unfolding condition_result_def present_any_def Let_def by (intro steady_intros; simp)

lemma steady_evaluateCondition [simp]: "steady (evaluateCondition c p)"
proof (induction c p rule: evaluateCondition.induct)
  case (1 lhs oper rhs nd p)
  show ?case unfolding evaluateCondition.simps
    by (intro steady_intros; (rule "1.IH"; simp)?; simp)
qed

lemma steady_unique [simp]: "steady (uniqueStringsContext vs seen out)"
  by (induction vs arbitrary: seen out) auto

lemma steady_template_loop [simp]: "steady (template_loop t out)"
proof (induction t out rule: template_loop.induct)
  case (1 t out)
  show ?case
    by (subst template_loop.simps) (intro steady_intros; (rule "1.IH"; simp)?; simp)
qed

lemma steady_templateNames [simp]: "steady (templateNames t)"
  by (simp add: templateNames_def)

lemma steady_collect_templates [simp]: "steady (collect_templates rs out)"
  by (induction rs arbitrary: out) auto

lemma steady_resourceTemplates [simp]: "steady (resourceTemplatesContext m)"
  by (auto simp: resourceTemplatesContext_def)

lemma steady_names_of_templates [simp]: "steady (names_of_templates ts out)"
  by (induction ts arbitrary: out) auto

lemma steady_dependencyParameterNames [simp]: "steady (dependencyParameterNames m)"
  unfolding dependencyParameterNames_def by auto

lemma steady_find_names [simp]: "steady (find_names p names out)"
  by (induction names arbitrary: out) auto

lemma steady_templateValues [simp]: "steady (templateValues t p)"
  by (auto simp: templateValues_def)

lemma steady_template_values_loop [simp]: "steady (template_values_loop ts p out)"
  by (induction ts arbitrary: out) auto

lemma steady_dependency_evidence [simp]: "steady (dependency_evidence m p)"
  by (auto simp: dependency_evidence_def)

lemma steady_truthy [simp]: "steady (truthy_state m p names)"
  by (auto simp: truthy_state_def)

lemma steady_dependency_values [simp]: "steady (dependency_values m p)"
  unfolding dependency_values_def by auto

lemma steady_dependencyValues [simp]: "steady (dependencyValues m p)"
  unfolding dependencyValues_def by auto

lemma steady_mapping_condition [simp]: "steady (mapping_condition m p)"
  by (simp add: mapping_condition_def split: option.split)

lemma steady_plan_records [simp]: "steady (plan_records p index ms ids records)"
  by (induction p index ms ids records rule: plan_records.induct) auto

lemma steady_resource_edges [simp]: "steady (resource_edges rs st)"
  by (induction rs st rule: resource_edges.induct) auto

lemma steady_root_edges [simp]: "steady (root_edges rs st)"
  by (induction rs arbitrary: st) auto

lemma steady_primary_occurrences [simp]: "steady (primary_occurrences i oper rs out)"
  by (induction rs arbitrary: out) auto

lemma steady_dependency_occurrences [simp]: "steady (dependency_occurrences p i edges rs st out)"
  by (induction rs arbitrary: st out) auto

lemma steady_occurrences_of [simp]: "steady (occurrences_of p oper i records roots)"
  unfolding occurrences_of_def by auto

lemma steady_lookupOperation [simp]: "steady (lookupOperationContext oper plan p)"
  unfolding lookupOperationContext_def by auto

lemma steady_LookupRequest [simp]: "steady (LookupRequestContext uni a service oper ident p)"
  unfolding LookupRequestContext_def by auto

section \<open>Resources and dependencies\<close>

lemma steady_statement_arns [simp]: "steady (statement_arns req want items res)"
  by (induction items arbitrary: res) auto

lemma steady_instance_arns [simp]: "steady (instance_arns uni req ids out)"
  by (induction ids arbitrary: out) auto

lemma steady_resource_kinds [simp]:
  "steady (dynamoStatementARNs req action)" "steady (namedARNContext req service param pre)"
  "steady (object_resource req)" "steady (bucket_resource req)" "steady (service_resource req)"
  "steady (task_resource req)" "steady (function_resource req)" "steady (instance_resource uni req)"
  "steady (dataset_resource req)" "steady (role_resource req)" "steady (log_stream_resource req)"
  unfolding dynamoStatementARNs_def namedARNContext_def object_resource_def bucket_resource_def service_resource_def
    task_resource_def function_resource_def instance_resource_def dataset_resource_def role_resource_def log_stream_resource_def
  by auto

lemma steady_resourceFor [simp]: "steady (resourceForContext uni req kind action)"
  unfolding resourceForContext_def by (rule steady_unless) (simp add: Let_def)

lemma steady_resourceForPrimary [simp]: "steady (resourceForPrimaryContext uni req primary action)"
  unfolding resourceForPrimaryContext_def by (rule steady_unless) simp

lemma steady_sameStrings [simp]: "steady (sameStringsContext xs ys)"
  by (induction xs ys rule: sameStringsContext.induct) auto

lemma steady_expected_actions [simp]: "steady (expected_actions ws acc)"
  by (induction ws arbitrary: acc) auto

lemma steady_candidate_actions [simp]: "steady (candidate_actions ds acc)"
  by (induction ds arbitrary: acc) auto

lemma steady_validate_arns [simp]: "steady (validate_arns want part vs)"
  by (induction vs) auto

lemma steady_dependency_requirement [simp]: "steady (dependency_requirement req want candidate)"
  unfolding dependency_requirement_def by auto

lemma steady_dependency_requirements [simp]: "steady (dependency_requirements req ds result)"
  by (induction ds arbitrary: result) auto

lemma steady_dependencies [simp]: "steady (dependencies req expected candidates)"
  unfolding dependencies_def by auto

section \<open>The mapper\<close>

lemma steady_primary_requirement [simp]: "steady (primary_requirement uni req canonical primary)"
  unfolding primary_requirement_def by auto

lemma steady_primary_requirements [simp]: "steady (primary_requirements uni req canonical ps out)"
  by (induction uni req canonical ps out rule: primary_requirements.induct) auto

lemma steady_append_dependencies [simp]: "steady (append_dependencies reqs ds)"
  by (induction reqs ds rule: append_dependencies.induct) auto

lemma steady_all_requirements [simp]: "steady (all_requirements uni req lookup)"
  unfolding all_requirements_def by auto

lemma steady_map_lookup [simp]: "steady (map_lookup m req lookup)"
  unfolding map_lookup_def by auto

lemma steady_mapOne [simp]: "steady (mapOne m req)"
  unfolding mapOne_def by auto

end
