(* ===== verification/Iam_Search.thy ===== *)
theory Iam_Search
  imports Iam_Context
begin

text \<open>
  What the parameter searches return, without their polls. A named string is the one value that
  occurs under the name, at any depth the search visits; it does not depend on the order in which
  the maps are iterated. The search for a named list takes the first key that matches, and does.
\<close>

section \<open>The occurrences of a name\<close>

fun name_hits :: "string \<Rightarrow> nat \<Rightarrow> parameters \<Rightarrow> Value list" where
  "name_hits want d [] = []"
| "name_hits want d ((k, Value kind s b i f obj arr) # rest) =
     (if equal_fold k want then [Value kind s b i f obj arr] else []) @
     (if kind = ValueObject \<and> d < 16 then name_hits want (d + 1) obj else []) @ name_hits want d rest"

definition merge_hit :: "Value \<Rightarrow> string option \<Rightarrow> string option" where
  "merge_hit v st = Option.bind st (\<lambda>found.
     if val_Kind v \<noteq> ValueString \<or> val_String v = [] then None
     else if found \<noteq> [] \<and> found \<noteq> val_String v then None else Some (val_String v))"

lemma merge_hit_None [simp]: "merge_hit v None = None"
  by (simp add: merge_hit_def)

lemma fold_merge_None [simp]: "fold merge_hit vs None = None"
  by (induction vs) simp_all

definition search_state :: "string \<times> bool \<Rightarrow> string option" where
  "search_state st = (if snd st then None else Some (fst st))"

lemma name_hit_merge:
  "equal_fold k want \<Longrightarrow> merge_hit v (Some found) = name_hit want k v found"
  by (simp add: merge_hit_def name_hit_def)

lemma name_hit_other: "\<not> equal_fold k want \<Longrightarrow> name_hit want k v found = Some found"
  by (simp add: name_hit_def)

lemma walk_fields_hits:
  "search_state (pure (walk_fields want d fs st)) = fold merge_hit (name_hits want d fs) (search_state st)"
proof (induction want d fs st rule: walk_fields.induct)
  case (2 want d k kind s b i f obj arr rest found ambiguous)
  let ?v = "Value kind s b i f obj arr"
  show ?case
  proof (cases "name_hit want k ?v found")
    case None
    then have "equal_fold k want" using name_hit_other by fastforce
    then show ?thesis using None name_hit_merge [of k want ?v found]
      by (cases ambiguous) (simp_all add: search_state_def)
  next
    case (Some found')
    let ?inner = "if kind = ValueObject \<and> \<not> (d + 1 > 16 \<or> ambiguous)
       then unless_cancelled (found', ambiguous) (walk_fields want (d + 1) obj (found', ambiguous))
       else State_Monad.return (found', ambiguous)"
    have here: "fold merge_hit (if equal_fold k want then [?v] else []) (search_state (found, ambiguous)) =
        search_state (found', ambiguous)"
      using Some name_hit_merge [of k want ?v found] name_hit_other [of k want ?v found]
      by (auto simp: search_state_def)
    have inner: "search_state (pure ?inner) =
        fold merge_hit (if kind = ValueObject \<and> d < 16 then name_hits want (d + 1) obj else []) (search_state (found', ambiguous))"
      using "2.IH"(1) [OF Some] by (auto simp: search_state_def)
    have "steady ?inner" by (intro steady_cases steady_unless steady_walk_fields steady_return)
    then show ?thesis
      using Some here inner "2.IH"(2) [OF Some, of "pure ?inner"]
      by (simp only: walk_fields.simps name_hits.simps pure_unless option.case pure_bind prod.collapse fold_append comp_apply)
  qed
qed simp

text \<open>The value of a name: all its occurrences are the same non-empty string.\<close>

definition named_string :: "parameters \<Rightarrow> string \<Rightarrow> string" where
  "named_string p want =
     (case name_hits want 0 p of
        [] \<Rightarrow> []
      | v # vs \<Rightarrow> if list_all (\<lambda>w. val_Kind w = ValueString \<and> val_String w = val_String v) (v # vs) then val_String v else [])"

lemma merge_hit_Some:
  "merge_hit v (Some found) = Some r \<longleftrightarrow>
     val_Kind v = ValueString \<and> val_String v = r \<and> r \<noteq> [] \<and> (found = [] \<or> found = r)"
  by (auto simp: merge_hit_def)

lemma fold_merge_Some:
  "fold merge_hit vs (Some found) = Some r \<longleftrightarrow>
     (if vs = [] then found = r
      else (\<forall>v \<in> set vs. val_Kind v = ValueString \<and> val_String v = r) \<and> r \<noteq> [] \<and> (found = [] \<or> found = r))"
proof (induction vs arbitrary: found)
  case (Cons v vs)
  show ?case
  proof (cases "merge_hit v (Some found)")
    case None
    then show ?thesis using merge_hit_Some [of v found r] by auto
  next
    case (Some x)
    then show ?thesis using Cons.IH [of x] merge_hit_Some [of v found x] by auto
  qed
qed simp

lemma named_string_iff:
  "s \<noteq> [] \<Longrightarrow> named_string p want = s \<longleftrightarrow>
     name_hits want 0 p \<noteq> [] \<and> (\<forall>v \<in> set (name_hits want 0 p). val_Kind v = ValueString \<and> val_String v = s)"
  by (cases "name_hits want 0 p") (auto simp: named_string_def list_all_iff)

lemma search_named_string:
  "search_state st = fold merge_hit (name_hits want 0 p) (Some []) \<Longrightarrow>
     (if \<not> snd st \<and> fst st \<noteq> [] then fst st else []) = named_string p want"
proof -
  assume st: "search_state st = fold merge_hit (name_hits want 0 p) (Some [])"
  have some: "search_state st = Some s \<longleftrightarrow> named_string p want = s" if "s \<noteq> []" for s
    using fold_merge_Some [of "name_hits want 0 p" "[]" s] that unfolding st named_string_iff [OF that] by auto
  have eq: "\<not> snd st \<and> fst st = s \<longleftrightarrow> named_string p want = s" if "s \<noteq> []" for s
    unfolding some [OF that, symmetric] by (simp add: search_state_def)
  show ?thesis
  proof (cases "\<not> snd st \<and> fst st \<noteq> []")
    case True
    then show ?thesis using eq [of "fst st"] by simp
  next
    case False
    then have "named_string p want = []" using eq by metis
    with False show ?thesis by simp
  qed
qed

lemma parameterString_Cons:
  "pure (parameterStringContext p (want # names)) =
     (if named_string p want \<noteq> [] then named_string p want else pure (parameterStringContext p names))"
proof -
  let ?st = "pure (walk_fields want 0 p ([], False))"
  have "search_state ?st = fold merge_hit (name_hits want 0 p) (Some [])"
    using walk_fields_hits [of want 0 p "([], False)"] by (simp add: search_state_def [of "([], False)"])
  then have "(if \<not> snd ?st \<and> fst ?st \<noteq> [] then fst ?st else []) = named_string p want"
    by (rule search_named_string)
  moreover have "pure (parameterStringContext p (want # names)) =
      (if \<not> snd ?st \<and> fst ?st \<noteq> [] then fst ?st else pure (parameterStringContext p names))"
    using steady_unless [OF steady_walk_fields, of "([], False)" want 0 p "([], False)"] by simp
  ultimately show ?thesis by (auto split: if_splits)
qed

lemma parameterString_Nil [simp]: "pure (parameterStringContext p []) = []"
  by simp

lemma parameterString_single: "pure (parameterStringContext p [want]) = named_string p want"
  by (simp only: parameterString_Cons parameterString_Nil) simp

lemmas parameterString_simps = parameterString_Cons parameterString_Nil

section \<open>The order of the maps\<close>

text \<open>Two values that differ only in the order in which their maps are iterated, at every level.\<close>

inductive reordered :: "Value \<Rightarrow> Value \<Rightarrow> bool" where
  "mset p = mset p' \<Longrightarrow> list_all2 (rel_prod (=) reordered) p' q \<Longrightarrow> list_all2 reordered a a' \<Longrightarrow>
     reordered (Value kind s b i f p a) (Value kind s b i f q a')"
  monos list.rel_mono_strong prod.rel_mono_strong

definition reordered_map :: "parameters \<Rightarrow> parameters \<Rightarrow> bool" where
  "reordered_map p q \<longleftrightarrow> reordered (object_value p) (object_value q)"

lemma reordered_refl: "reordered v v"
proof (induction v)
  case (Value kind s b i f obj arr)
  have "list_all2 (rel_prod (=) reordered) obj obj"
    using Value(1) by (auto intro!: list.rel_refl_strong simp: rel_prod_sel)
  moreover have "list_all2 reordered arr arr"
    using Value(2) by (auto intro!: list.rel_refl_strong)
  ultimately show ?case by (intro reordered.intros) simp_all
qed

lemma reordered_swap: "mset p = mset q \<Longrightarrow> reordered_map p q"
  unfolding reordered_map_def object_value_def
  by (rule reordered.intros) (auto intro!: list.rel_refl_strong reordered_refl simp: rel_prod_sel)

definition leaf :: "Value \<Rightarrow> string \<times> string" where
  "leaf v = (val_Kind v, val_String v)"


lemma name_hits_field:
  "name_hits want d ((k, v) # rest) =
     (if equal_fold k want then [v] else []) @
     (if val_Kind v = ValueObject \<and> d < 16 then name_hits want (d + 1) (val_Object v) else []) @ name_hits want d rest"
  by (cases v) simp

definition field_hits :: "string \<Rightarrow> nat \<Rightarrow> string \<times> Value \<Rightarrow> Value list" where
  "field_hits want d kv = (if equal_fold (fst kv) want then [snd kv] else []) @
     (if val_Kind (snd kv) = ValueObject \<and> d < 16 then name_hits want (d + 1) (val_Object (snd kv)) else [])"

lemma name_hits_concat: "name_hits want d fs = concat (map (field_hits want d) fs)"
proof (induction fs)
  case (Cons kv fs)
  then show ?case by (cases kv) (simp only: name_hits_field, simp add: field_hits_def)
qed simp

lemma name_hits_perm: "mset p = mset q \<Longrightarrow> set (name_hits want d p) = set (name_hits want d q)"
  by (drule mset_eq_setD) (simp add: name_hits_concat)

text \<open>
  The invariant of a reordering: a hit keeps its kind and string, and the hits below an object are
  the same up to order.
\<close>

lemma reordered_leaf: "reordered v w \<Longrightarrow> leaf v = leaf w"
  by (cases rule: reordered.cases) (auto simp: leaf_def)

lemma reordered_hits:
  "reordered v w \<Longrightarrow> leaf ` set (name_hits want d (val_Object v)) = leaf ` set (name_hits want d (val_Object w))"
proof (induction arbitrary: d rule: reordered.induct)
  case (1 p p' q a a' kind s b i f)
  let ?R = "\<lambda>v w. reordered v w \<and> (\<forall>d. leaf ` set (name_hits want d (val_Object v)) = leaf ` set (name_hits want d (val_Object w)))"
  from "1.IH"(1) have "list_all2 (rel_prod (=) ?R) p' q"
    by (rule list_all2_mono) (auto simp: rel_prod_sel)
  then have "leaf ` set (name_hits want d p') = leaf ` set (name_hits want d q)"
  proof (induction rule: list_all2_induct)
    case (Cons x xs y ys)
    then have k: "fst x = fst y" and r: "reordered (snd x) (snd y)"
      "leaf ` set (name_hits want (d + 1) (val_Object (snd x))) = leaf ` set (name_hits want (d + 1) (val_Object (snd y)))"
      by (simp_all add: rel_prod_sel)
    have "leaf (snd x) = leaf (snd y)" using r(1) by (rule reordered_leaf)
    with k r(2) have "leaf ` set (field_hits want d x) = leaf ` set (field_hits want d y)"
      by (auto simp: field_hits_def leaf_def)
    with Cons.IH show ?case by (simp add: name_hits_concat image_Un)
  qed simp
  with name_hits_perm [OF "1.hyps"(1), of want d] show ?case by simp
qed

lemma named_string_reordered:
  assumes "reordered_map p q"
  shows "named_string p want = named_string q want"
proof -
  have l: "leaf ` set (name_hits want 0 p) = leaf ` set (name_hits want 0 q)"
    using reordered_hits [OF assms [unfolded reordered_map_def], of want 0] by (simp add: object_value_def)
  have uniform: "(name_hits want 0 r \<noteq> [] \<and> (\<forall>v \<in> set (name_hits want 0 r). val_Kind v = ValueString \<and> val_String v = s)) \<longleftrightarrow>
      leaf ` set (name_hits want 0 r) = {(ValueString, s)}" for r s
    by (cases "name_hits want 0 r") (auto simp: leaf_def)
  have "named_string p want = s \<longleftrightarrow> named_string q want = s" if "s \<noteq> []" for s
    using l by (simp only: named_string_iff [OF that] uniform)
  then show ?thesis by metis
qed

text \<open>
  A parameter looked up by name does not depend on the iteration order of the Go maps: for two
  orders of the same parameters, at every level of nesting, the search finds the same string. The search
  of \<^verbatim>\<open>parameterStringContext\<close> returns the value of the first name all of whose occurrences, down to
  sixteen levels of objects, are one and the same non-empty string.
\<close>

theorem parameter_string_order_free:
  assumes "reordered_map p q"
  shows "pure (parameterStringContext p names) = pure (parameterStringContext q names) \<and>
     (s \<noteq> [] \<longrightarrow> (pure (parameterStringContext p [want]) = s \<longleftrightarrow>
        name_hits want 0 p \<noteq> [] \<and> (\<forall>v \<in> set (name_hits want 0 p). val_Kind v = ValueString \<and> val_String v = s)))"
proof (intro conjI impI)
  show "pure (parameterStringContext p names) = pure (parameterStringContext q names)"
    using named_string_reordered [OF assms] by (induction names) (simp_all only: parameterString_simps)
  show "pure (parameterStringContext p [want]) = s \<longleftrightarrow>
      name_hits want 0 p \<noteq> [] \<and> (\<forall>v \<in> set (name_hits want 0 p). val_Kind v = ValueString \<and> val_String v = s)"
    if "s \<noteq> []"
    using named_string_iff [OF that, of p want] by (simp only: parameterString_single)
qed

definition sample_parameters :: parameters where
  "sample_parameters = [(''TableName'', string_value ''t''), (''Filter'', object_value [(''tablename'', string_value ''t'')])]"

lemma sample_folds:
  "equal_fold ''TableName'' ''TableName''" "equal_fold ''tablename'' ''TableName''" "\<not> equal_fold ''Filter'' ''TableName''"
  by (simp_all add: equal_fold_ascii is_ascii_def ascii_lower_byte_def is_upper_byte_def byte_between_def ord_def)
    code_simp

theorem parameter_string_order_free_witness:
  "pure (parameterStringContext sample_parameters [''TableName'']) = ''t'' \<and>
   pure (parameterStringContext (rev sample_parameters) [''TableName'']) = ''t''"
proof -
  have r: "reordered_map sample_parameters (rev sample_parameters)"
    by (rule reordered_swap) simp
  have "name_hits ''TableName'' 0 sample_parameters = [string_value ''t'', string_value ''t'']"
    using sample_folds
    by (simp add: sample_parameters_def string_value_def object_value_def value_kind_defs)
  then have "pure (parameterStringContext sample_parameters [''TableName'']) = ''t''"
    using parameter_string_order_free [OF r, of "[]" "''t''" "''TableName''"]
    by (simp add: string_value_def del: parameterStringContext.simps)
  moreover have "pure (parameterStringContext sample_parameters [''TableName'']) =
      pure (parameterStringContext (rev sample_parameters) [''TableName''])"
    using parameter_string_order_free [OF r] by blast
  ultimately show ?thesis by argo
qed

section \<open>The first matching list\<close>

definition array_value :: "Value list \<Rightarrow> Value" where
  "array_value vs = Value ValueArray [] False 0 (Finite 0 0) [] vs"

definition statement_value :: "string \<Rightarrow> Value" where
  "statement_value s = object_value [(''Statement'', string_value s)]"

definition sample_statements :: parameters where
  "sample_statements = [(''Statements'', array_value [statement_value ''SELECT x FROM prod'']),
     (''statements'', array_value [statement_value ''SELECT x FROM dev''])]"

definition sample_batch :: "parameters \<Rightarrow> DecodedAWSRequest" where
  "sample_batch p = sample_request\<lparr>dr_Service := ''dynamodb'', dr_Operation := ''BatchExecuteStatement'',
     dr_Partition := ''aws'', dr_Region := ''us-east-1'', dr_CallerAccountID := ''123456789012'', dr_Parameters := p\<rparr>"

lemma sample_fields_of:
  "strings_Fields ''SELECT x FROM prod'' = [''SELECT'', ''x'', ''FROM'', ''prod'']"
  "strings_Fields ''SELECT x FROM dev'' = [''SELECT'', ''x'', ''FROM'', ''dev'']"
  by (simp_all add: strings_Fields_def utf8_chunks_ascii is_ascii_def space_chunk_def rune_of_chunk_def is_space_rune_def ord_def)

lemma sample_upper: "to_upper ''SELECT'' = ''SELECT''" "to_upper ''FROM'' = ''FROM''" "to_upper ''x'' = ''X''"
  by code_simp+

lemma sample_statement_parse:
  "parseDynamoStatement ''SELECT x FROM prod'' = Some (''prod'', ''Select'')"
  "parseDynamoStatement ''SELECT x FROM dev'' = Some (''dev'', ''Select'')"
  by (simp_all add: parseDynamoStatement_def sample_fields_of statement_rest_def sample_upper strings_Trim_def quote_bytes_def contains_any_def)

lemma sample_batch_names:
  "validDynamoTableName ''prod''" "validDynamoTableName ''dev''" "iam_validRegion ''aws'' ''us-east-1''"
  "validResourcePart ''table/prod''" "validResourcePart ''table/dev''" "iam_validAccount ''123456789012''"
  by code_simp+

lemma sample_lower: "to_lower ''dynamodb:PartiQLSelect'' = ''dynamodb:partiqlselect''"
  by code_simp

lemma sample_keys: "equal_fold ''statements'' ''Statements''"
  by (simp add: equal_fold_ascii is_ascii_def ascii_lower_byte_def is_upper_byte_def byte_between_def ord_def)
    code_simp

lemma equal_fold_refl [simp]: "equal_fold s s"
  by (simp add: equal_fold_def)

lemma sample_statement_string: "pure (parameterStringContext (val_Object (statement_value s)) [''Statement'']) = s"
  by (simp only: parameterString_single) (simp add: statement_value_def object_value_def string_value_def named_string_def value_kind_defs)

lemma sample_statement_arns:
  assumes "parseDynamoStatement s = Some (table, ''Select'')" "s \<noteq> []" "validDynamoTableName table" "validResourcePart (''table/'' @ table)"
  shows "pure (statement_arns (sample_batch p) ''dynamodb:partiqlselect'' [statement_value s] []) =
     Inr (Some [''arn:aws:dynamodb:us-east-1:123456789012:table/'' @ table])"
proof -
  have "awsARN ''aws'' ''dynamodb'' ''us-east-1'' ''123456789012'' (''table/'' @ table) =
     ''arn:aws:dynamodb:us-east-1:123456789012:table/'' @ table"
    using assms(4) sample_batch_names by (simp add: awsARN_def iam_validPartition_def)
  moreover have "val_Kind (statement_value s) = ValueObject" by (simp add: statement_value_def object_value_def)
  ultimately show ?thesis
    using assms sample_statement_string [of s] sample_lower
    by (simp add: Let_def del: parameterStringContext.simps) (simp add: sample_batch_def del: parameterStringContext.simps)
qed

text \<open>
  The tables of a PartiQL batch depend on the iteration order of a Go map. The parameters hold both
  \<^verbatim>\<open>Statements\<close> and \<^verbatim>\<open>statements\<close>, which the decoder of the JSON protocols keeps as two members; the
  search ignores the case of the names and takes the first one it meets. For one order the action is
  required on the table \<^verbatim>\<open>prod\<close> of the member the service reads, for the other one only on the
  table \<^verbatim>\<open>dev\<close>, so a policy that allows \<^verbatim>\<open>dev\<close> admits a request on \<^verbatim>\<open>prod\<close>.
\<close>

theorem statement_table_depends_on_order:
  "reordered_map sample_statements (rev sample_statements) \<and>
   pure (resourceForContext uni (sample_batch sample_statements) ''table*'' ''dynamodb:PartiQLSelect'') =
     Inr ([''arn:aws:dynamodb:us-east-1:123456789012:table/prod''], ScopeExact) \<and>
   pure (resourceForContext uni (sample_batch (rev sample_statements)) ''table*'' ''dynamodb:PartiQLSelect'') =
     Inr ([''arn:aws:dynamodb:us-east-1:123456789012:table/dev''], ScopeExact)"
proof (intro conjI)
  show "reordered_map sample_statements (rev sample_statements)"
    by (rule reordered_swap) (simp add: sample_statements_def)
  have kind: "trim_suffix ''table*'' ''*'' = ''table''" by code_simp
  have batch: "dr_Service (sample_batch p) = ''dynamodb''" "dr_Operation (sample_batch p) = ''BatchExecuteStatement''"
    "dr_Region (sample_batch p) = ''us-east-1''" "dr_CallerAccountID (sample_batch p) = ''123456789012''"
    "dr_Parameters (sample_batch p) = p" for p by (simp_all add: sample_batch_def)
  have found: "find_statements sample_statements = Some [statement_value ''SELECT x FROM prod'']"
    "find_statements (rev sample_statements) = Some [statement_value ''SELECT x FROM dev'']"
    using sample_keys by (simp_all add: sample_statements_def array_value_def)
  show "pure (resourceForContext uni (sample_batch sample_statements) ''table*'' ''dynamodb:PartiQLSelect'') =
     Inr ([''arn:aws:dynamodb:us-east-1:123456789012:table/prod''], ScopeExact)"
    using sample_statement_arns [OF sample_statement_parse(1), of sample_statements] sample_batch_names
    by (simp add: resourceForContext_def kind batch dynamoStatementARNs_def found sample_lower set_scope_def del: statement_arns.simps)
  show "pure (resourceForContext uni (sample_batch (rev sample_statements)) ''table*'' ''dynamodb:PartiQLSelect'') =
     Inr ([''arn:aws:dynamodb:us-east-1:123456789012:table/dev''], ScopeExact)"
    using sample_statement_arns [OF sample_statement_parse(2), of "rev sample_statements"] sample_batch_names
    by (simp add: resourceForContext_def kind batch dynamoStatementARNs_def found sample_lower set_scope_def del: statement_arns.simps)
qed

end
