(* ===== verification/Wire_Evidence.thy ===== *)
theory Wire_Evidence
  imports Wire_Decode Wire_Match Iam_Search
begin

text \<open>
  What the decoders of REST-XML and Query bodies lose. The parameters of a body become one map from names to
  values; a name that is repeated keeps one value, which for XML is the last one and for numbered instances depends on the order of
  a Go map.
\<close>

section \<open>Repeated elements\<close>

text \<open>The tokens of a body that lists objects by their keys, as \<^verbatim>\<open>DeleteObjects\<close> of S3 does.\<close>

definition object_tokens :: "string \<Rightarrow> xml_token list" where
  "object_tokens k = [StartElement ''Object'', StartElement ''Key'', CharData k, EndElement, EndElement]"

definition delete_tokens :: "string list \<Rightarrow> xml_token list" where
  "delete_tokens ks = StartElement ''Delete'' # concat (map object_tokens ks) @ [EndElement]"

definition key_text :: "DecodeLimits \<Rightarrow> string \<Rightarrow> bool" where
  "key_text l k \<longleftrightarrow> k \<noteq> [] \<and> trim_space k = k \<and> int (length k) \<le> dl_MaxTokenBytes l"

lemma object_loop:
  assumes "\<forall>k \<in> set ks. key_text l k" "3 \<le> dl_MaxDepth l" "tokens + 5 * int (length ks) + 1 \<le> 8192"
    "tokens + 5 * int (length ks) + 1 \<le> wrap64 (dl_MaxParameters l * 4)" "out = [] \<or> (\<exists>v. out = [(''Key'', v)])"
    "0 \<le> tokens"
  shows "xml_loop l (concat (map object_tokens ks) @ [EndElement]) tokens 1 current out =
     Inr (0, if ks = [] then out else [(''Key'', string_value (last ks))])"
  using assms
proof (induction ks arbitrary: tokens current out)
  case (Cons k ks)
  have k: "trim_space k = k" "k \<noteq> []" "\<not> int (length k) > dl_MaxTokenBytes l" using Cons.prems(1) by (simp_all add: key_text_def)
  have "AList.update ''Key'' (string_value k) out = [(''Key'', string_value k)]" using Cons.prems(5) by auto
  moreover have "xml_loop l (concat (map object_tokens ks) @ [EndElement]) (5 + tokens) 1 ''Key'' [(''Key'', string_value k)] =
      Inr (0, if ks = [] then [(''Key'', string_value k)] else [(''Key'', string_value (last ks))])"
    using Cons.prems by (intro Cons.IH) auto
  ultimately show ?case using Cons.prems(2-4,6) k by (simp add: object_tokens_def [of k] Let_def)
qed auto

lemma delete_parameters:
  assumes "ks \<noteq> []" "\<forall>k \<in> set ks. key_text l k" "3 \<le> dl_MaxDepth l" "5 * length ks + 2 \<le> 8192"
    "5 * int (length ks) + 2 \<le> wrap64 (dl_MaxParameters l * 4)" "de_xml env body = \<lparr>xs_tokens = delete_tokens ks, xs_eof = True\<rparr>"
  shows "parseXMLParameters env body l = Inr [(''Key'', string_value (last ks))]"
proof -
  have "xml_loop l (concat (map object_tokens ks) @ [EndElement]) 1 1 ''Delete'' [] = Inr (0, [(''Key'', string_value (last ks))])"
    using object_loop [OF assms(2,3), of 1 "[]" "''Delete''"] assms by simp
  then have "xml_loop l (delete_tokens ks) 0 0 [] [] = Inr (0, [(''Key'', string_value (last ks))])"
    using assms(3-5) by (simp add: delete_tokens_def)
  then show ?thesis using assms(6) by (simp add: parseXMLParameters_def)
qed

lemma folded_names: "equal_fold ''Key'' ''Bucket'' = False" "equal_fold ''Bucket'' ''Key'' = False"
  by (simp_all add: equal_fold_ascii is_ascii_def ascii_lower_byte_def is_upper_byte_def byte_between_def ord_def)

lemma bucket_key_names:
  "named_string [(''Bucket'', string_value b), (''Key'', string_value k)] ''Bucket'' = b"
  "named_string [(''Bucket'', string_value b), (''Key'', string_value k)] ''Key'' = k"
  by (simp_all add: named_string_def string_value_def folded_names value_kind_defs)

text \<open>
  Property C19. A REST-XML body with several keys is mapped to the last key only. Take any list of object keys in the body of a
  request on a bucket, as the \<^verbatim>\<open>DeleteObjects\<close> operation of S3 sends it, within the limits of the decoder. The
  decoder accepts it with one parameter \<^verbatim>\<open>Key\<close>, the last of the keys, and the mapper asks the policy for that object
  alone: all other objects of the request are neither in the requirement nor unresolved.
\<close>

theorem xml_body_maps_last_key:
  assumes "ks \<noteq> []" "\<forall>k \<in> set ks. key_text l k" "3 \<le> dl_MaxDepth l" "5 * length ks + 2 \<le> 8192"
    and "5 * int (length ks) + 2 \<le> wrap64 (dl_MaxParameters l * 4)"
    and "de_xml env body = \<lparr>xs_tokens = delete_tokens ks, xs_eof = True\<rparr>" "body \<noteq> []" "oper \<noteq> ''PutObject''"
    and "restOperationFromCatalog service path method q ProtocolRESTXML c l = Inr (oper, [(''Bucket'', string_value b)])" "b \<noteq> []"
  shows "\<exists>p. decodeRESTXMLBody env body service path method q c l = Inr (oper, p) \<and>
     pure (object_resource (req\<lparr>dr_Parameters := p\<rparr>)) =
       exact_arn ''invalid S3 object ARN'' (s3ARN (dr_Partition req) b (last ks))"
proof -
  let ?p = "[(''Bucket'', string_value b), (''Key'', string_value (last ks))]"
  have "decodeRESTXMLBody env body service path method q c l = Inr (oper, ?p)"
    using delete_parameters [OF assms(1-6)] assms(7-9) by (simp add: decodeRESTXMLBody_def Let_def)
  moreover have "last ks \<noteq> []" using assms(1,2) last_in_set [of ks] by (auto simp: key_text_def)
  then have "pure (object_resource (req\<lparr>dr_Parameters := ?p\<rparr>)) = exact_arn ''invalid S3 object ARN'' (s3ARN (dr_Partition req) b (last ks))"
    using bucket_key_names [of b "last ks"] assms(10)
    by (simp add: object_resource_def parameterString_single del: parameterStringContext.simps)
  ultimately show ?thesis by blast
qed

definition sample_delete_env :: decode_env where
  "sample_delete_env = \<lparr>de_json = (\<lambda>_. \<lparr>js_tokens = [], js_more = False, js_eof = True\<rparr>),
     de_xml = (\<lambda>_. \<lparr>xs_tokens = delete_tokens [''secret'', ''public''], xs_eof = True\<rparr>),
     de_float = (\<lambda>_. None), de_idna = Inr, de_order = id\<rparr>"

definition sample_delete_operation :: WireOperation where
  "sample_delete_operation = \<lparr>wo_Name = ''DeleteObjects'', wo_State = EvidenceKnown,
     wo_Route = \<lparr>rt_Method = ''POST'', rt_URI = ''/{Bucket}?delete'', rt_ResponseCode = 200, rt_QueryDiscriminator = [],
       rt_TargetPrefix = [], rt_JSONVersion = []\<rparr>, wo_QueryBindings = []\<rparr>"

definition sample_delete_index :: wireIndex where
  "sample_delete_index = (case buildWireIndex (Some [(sample_rest_service, sample_delete_operation)]) of Inr idx \<Rightarrow> idx)"

lemma sample_delete_route:
  "restOperationFromCatalog ''s3'' ''/bucket'' ''POST'' [(''delete'', [[]])] ''rest-xml'' (Some sample_delete_index) DefaultDecodeLimits =
     Inr (''DeleteObjects'', [(''Bucket'', string_value ''bucket'')])"
  by code_simp

theorem xml_body_maps_last_key_witness:
  "\<exists>p. decodeRESTXMLBody sample_delete_env ''<Delete/>'' ''s3'' ''/bucket'' ''POST'' [(''delete'', [[]])] (Some sample_delete_index) DefaultDecodeLimits =
       Inr (''DeleteObjects'', p) \<and>
     pure (object_resource (sample_request\<lparr>dr_Parameters := p\<rparr>)) =
       exact_arn ''invalid S3 object ARN'' (s3ARN (dr_Partition sample_request) ''bucket'' ''public'')"
proof -
  have keys: "\<forall>k \<in> set [''secret'', ''public'']. key_text DefaultDecodeLimits k"
    by (simp add: key_text_def DefaultDecodeLimits_def trim_space_ascii is_ascii_def ord_def is_space_rune_def)
  show ?thesis
    using xml_body_maps_last_key [OF _ keys, of sample_delete_env "''<Delete/>''" "''DeleteObjects''" "''s3''" "''/bucket''" "''POST''"
        "[(''delete'', [[]])]" "Some sample_delete_index" "''bucket''" sample_request] sample_delete_route
    by (simp add: sample_delete_env_def DefaultDecodeLimits_def wrap64_def ProtocolRESTXML_def)
qed

section \<open>Numbered instances\<close>

text \<open>
  Numbered instances depend on the order of a Go map. \<^verbatim>\<open>Atoi\<close> reads \<^verbatim>\<open>1\<close> and
  \<^verbatim>\<open>01\<close> as the same index, so a Query body with \<^verbatim>\<open>InstanceId.1\<close> and \<^verbatim>\<open>InstanceId.01\<close> is
  accepted with one instance only, and which of the two it is depends on the order in which the map of parameters is walked: both
  orders decode, and the requirement names the one instance or the other.
\<close>

theorem instance_index_depends_on_order:
  "\<exists>p p'. query_parameters [(''InstanceId.1'', [a]), (''InstanceId.01'', [b])] = Inr p \<and>
     query_parameters [(''InstanceId.01'', [b]), (''InstanceId.1'', [a])] = Inr p' \<and>
     map_of p ''InstanceIds'' = Some (items_value [string_value b]) \<and> map_of p' ''InstanceIds'' = Some (items_value [string_value a])"
proof -
  have "strconv_Atoi ''1'' = Some 1" "strconv_Atoi ''01'' = Some 1" by code_simp+
  then show ?thesis
    by (simp add: query_parameters_def indexed_values_def has_prefix_def trim_prefix_def)
qed

end
