(* ===== verification/Wire_Verified.thy ===== *)
theory Wire_Verified
  imports Wire_Decode_Safety Sigv4_Authentic
begin

text \<open>
  The verifier and the decoder in sequence. The verifier guesses the protocol of a request from its content type; the decoder
  accepts only the protocol that the catalog gives for the service. The two meet in the field \<^verbatim>\<open>Protocol\<close> of the
  verified request.
\<close>

section \<open>The protocol of a verified request\<close>

lemma verified_protocol:
  assumes "Verifier_Verify env (Some v) cancelled fs (Some req) endpoint = (Inr vr, Some r', fs')"
  shows "vr_Protocol vr = inferProtocol (Some r')"
proof -
  obtain r where "Some r' = Some r" "verify_request env v cancelled fs req endpoint = (Inr vr, r, fs')"
    using assms by (rule Verify_ok)
  then show ?thesis by (elim verify_request_ok) simp
qed

lemma inferred_not_ec2: "inferProtocol r \<noteq> ProtocolEC2Query"
  by (simp add: inferProtocol_def protocol_defs Let_def split: option.split)

lemma inferred_without_type:
  assumes "header_values (rq_Header r) ''Content-Type'' = []"
  shows "inferProtocol (Some r) = ProtocolRESTJSON"
proof -
  have "header_get (rq_Header r) ''Content-Type'' = []" using assms by (simp add: header_get_def)
  moreover have "to_lower (trim_space (hd (splitn_byte 2 CHR '';'' []))) = []" by code_simp
  ultimately show ?thesis by (simp add: inferProtocol_def)
qed

section \<open>The decoder on such a request\<close>

text \<open>The decoder takes the claimed protocol or none: a request whose claim is not the authoritative protocol is refused unread.\<close>

lemma decode_other_protocol:
  assumes "authoritativeProtocolFor (dd_catalog dec) (ep_Service e) \<noteq> Some (vr_Protocol vd)"
  shows "\<exists>err. Decoder_Decode env (Some dec) ctxErr (Some vd) e = (Inl err, vr_Request vd)"
proof (cases "decode_preamble env (Some dec) ctxErr (Some vd) e")
  case (Inr x)
  obtain dec' vd' r u where x: "x = (dec', vd', r, u)" by (cases x)
  have eq: "dec' = dec" "vd' = vd" using preamble_success [OF Inr [unfolded x]] by auto
  have "AWSProtocol_Supported (vr_Protocol vd)" using preamble_protocol [OF Inr [unfolded x]] eq by simp
  from authoritative_supported [OF _ this, of "rq_Header r" "url_Path u"] show ?thesis
    using Inr assms
    by (cases "protocolFromHeaders (vr_Protocol vd) (rq_Header r) (url_Path u)") (auto simp: Decoder_Decode_def x eq)
qed (simp add: Decoder_Decode_def)

text \<open>
  Property C18. Two kinds of verified requests are always refused by the decoder. Whatever the verifier accepts, the protocol it
  records is never \<^verbatim>\<open>ec2-query\<close>, and is \<^verbatim>\<open>rest-json\<close> for a request without a content type. So a request to
  a service whose authoritative protocol is \<^verbatim>\<open>ec2-query\<close>, and a request without a content type to a service whose
  authoritative protocol is \<^verbatim>\<open>rest-xml\<close>, such as an S3 read, ends in a decoding error, with its body unread.
\<close>

theorem verified_protocol_refused:
  assumes "Verifier_Verify env (Some v) cancelled fs (Some req) endpoint = (Inr vr, Some r', fs')" "vr_Protocol vd = vr_Protocol vr"
    and "authoritativeProtocolFor (dd_catalog dec) (ep_Service e) = Some p"
    and "p = ProtocolEC2Query \<or> p = ProtocolRESTXML \<and> header_values (rq_Header r') ''Content-Type'' = []"
  shows "\<exists>err. Decoder_Decode denv (Some dec) ctxErr (Some vd) e = (Inl err, vr_Request vd)"
proof -
  have "p \<noteq> inferProtocol (Some r')"
    using assms(4) inferred_not_ec2 [of "Some r'"] inferred_without_type [of r'] by (auto simp: protocol_defs)
  then show ?thesis
    using assms(2,3) verified_protocol [OF assms(1)] by (intro decode_other_protocol) simp
qed

theorem verified_protocol_refused_witness:
  "\<exists>vr r fs' err. Verifier_Verify sample_env (Some sample_verifier) False Map.empty (Some sample_signed) sample_endpoint =
       (Inr vr, Some r, fs') \<and>
     Decoder_Decode sample_decode_env (Some sample_decoder) None (Some (sample_decode_verified\<lparr>vr_Protocol := vr_Protocol vr\<rparr>))
       sample_endpoint = (Inl err, Some sample_wire_request)"
proof -
  obtain vr r fs' where v: "Verifier_Verify sample_env (Some sample_verifier) False Map.empty (Some sample_signed)
      sample_endpoint = (Inr vr, Some r, fs')" "rq_Header r = rq_Header sample_signed" using sample_accepted by blast
  have "header_values (rq_Header r) ''Content-Type'' = []" unfolding v(2) by code_simp
  moreover have "authoritativeProtocolFor (dd_catalog sample_decoder) (ep_Service sample_endpoint) = Some ProtocolRESTXML"
    using sample_decode_parts(6) by (simp add: sample_decode_parts(8) ProtocolRESTXML_def) (simp add: sample_endpoint_def)
  ultimately show ?thesis
    using v(1) verified_protocol_refused [OF v(1), of "sample_decode_verified\<lparr>vr_Protocol := vr_Protocol vr\<rparr>" sample_decoder sample_endpoint
        ProtocolRESTXML sample_decode_env None]
    by (auto simp: sample_decode_verified_def)
qed

end
