(* ===== verification/Iam_Requirements.thy ===== *)
theory Iam_Requirements
  imports Iam_Search Wire_Match
begin

text \<open>
  The requirements of a successful mapping: they come from the one catalog record the wire identity
  selects, one for each applicable action of its plan, and their resources are concrete ARNs.
\<close>

section \<open>A mapping that succeeds\<close>

lemma run_unless:
  "run_state (unless_cancelled x m) c = (if fst (ctx_err c) then (x, snd (ctx_err c)) else run_state m (snd (ctx_err c)))"
  by (cases "ctx_err c") (simp add: unless_cancelled_def run_bind poll_def)

lemma run_Map:
  "run_state (Mapper_Map cause (Some m) (Some req)) c =
     (if im_adapter m = None
      then (Inl (mappingFailureCause MappingFailureLowConfidence ''mapper'' ''mapper unavailable''), c)
      else case DecodedAWSRequest_Validate req of
        Some e \<Rightarrow> (Inl (mappingFailureCause MappingFailureLowConfidence ''input'' e), c)
      | None \<Rightarrow>
          if fst (ctx_err c) then (Inl (mappingContextFailure cause), snd (ctx_err c))
          else (case run_state (mapOne m req) (snd (ctx_err c)) of
                  (None, c') \<Rightarrow> (Inl (MappingError MappingFailurePanic ''mapper'' (Some (MappingError MappingFailurePanic [] None))), c')
                | (Some (Inl Map_context), c') \<Rightarrow> (Inl (mappingContextFailure cause), c')
                | (Some (Inl (Map_failed e)), c') \<Rightarrow> (Inl e, c')
                | (Some (Inr result), c') \<Rightarrow>
                    if fst (ctx_err c') then (Inl (mappingContextFailure cause), snd (ctx_err c')) else (Inr result, snd (ctx_err c'))))"
  by (simp add: Mapper_Map_def run_unless run_bind split: option.split prod.split sum.split map_one_error.split)

lemma Map_success:
  assumes "run_state (Mapper_Map cause mapper request) c = (Inr result, c')"
  obtains m req cat where "mapper = Some m" "request = Some req" "im_adapter m = Some cat"
    "DecodedAWSRequest_Validate req = None" "pure (mapOne m req) = Some (Inr result)"
proof -
  obtain m req where some: "mapper = Some m" "request = Some req"
    using assms by (auto simp: Mapper_Map_def split: option.splits if_splits)
  with assms obtain c1 where r: "run_state (mapOne m req) (snd (ctx_err c)) = (Some (Inr result), c1)" "alive c1"
    and v: "im_adapter m \<noteq> None" "DecodedAWSRequest_Validate req = None"
    by (auto simp: run_Map alive_def split: option.splits if_splits prod.splits sum.splits map_one_error.splits)
  from steady_alive [OF steady_mapOne r] have "pure (mapOne m req) = Some (Inr result)" by simp
  with some v that show ?thesis by blast
qed

lemma mapOne_success:
  assumes "pure (mapOne m req) = Some (Inr result)"
  obtains answer oper ident lookup where "im_classifier m (dr_EndpointHost req) = Some answer"
    "map_identity m req answer = Inr (oper, ident)"
    "pure (LookupRequestContext (im_uni m) (im_adapter m) (dr_Service req) oper ident (dr_Parameters req)) = Inr lookup"
    "pure (map_lookup m req lookup) = Inr result"
  using assms that by (auto simp: mapOne_def split: option.splits sum.splits)

section \<open>The record and its plan\<close>

lemma pure_select:
  "pure (select_occurrences oper ident ocs selected) = Some (selected @ filter (occurrence_selected oper ident) ocs)"
  by (induction ocs arbitrary: selected) simp_all

lemma Lookup_success:
  assumes "pure (LookupRequestContext uni (Some cat) service oper ident p) = Inr lookup"
  obtains oc where "filter (occurrence_selected (NormalizeOperation uni oper) ident) (cat service (NormalizeOperation uni oper)) = [oc]"
    "pure (lookupOperationContext (oo_Operation oc) (oo_Plan oc) p) = Inr lookup"
  using assms that
  by (auto simp: LookupRequestContext_def Let_def pure_select split: if_splits list.splits)

text \<open>A record stands for its compiled mapping: action, definition, mapping, and the value of its condition.\<close>

definition condition_of :: "parameters \<Rightarrow> StaticMapping \<Rightarrow> conditionState" where
  "condition_of p sm = pure (mapping_condition (sm_Mapping sm) p)"

definition record_of :: "parameters \<Rightarrow> StaticMapping \<Rightarrow> mappingRecord \<Rightarrow> bool" where
  "record_of p sm r \<longleftrightarrow> mc_action r = sm_Action sm \<and> mc_definition r = sm_Definition sm \<and> mc_mapping r = sm_Mapping sm \<and>
     mc_dependent r = sm_Dependent sm \<and> condition_of p sm \<noteq> conditionUnknown \<and>
     mc_inapplicable r = (condition_of p sm = conditionFalse)"

lemma pure_plan_records:
  assumes "pure (plan_records p index sms ids records) = Inr res"
  shows "\<exists>rs. res = records @ rs \<and> list_all2 (record_of p) sms rs"
  using assms
proof (induction p index sms ids records rule: plan_records.induct)
  case (2 p index sm sms ids nextID records)
  let ?c = "condition_of p sm"
  have ok: "\<not> (ar_Service (sm_Action sm) = [] \<or> ar_Name (sm_Action sm) = [])" "?c \<noteq> conditionUnknown"
    using "2.prems" by (auto simp: Let_def condition_of_def split: if_splits)
  define k where "k = ids (definition_key (sm_Action sm))"
  define r where "r = \<lparr>mc_id = (if StaticMapping_Occurrence sm = 0 then of_nat (index + 1) else StaticMapping_Occurrence sm),
     mc_definitionID = (if k = 0 then nextID else k), mc_action = sm_Action sm,
     mc_definition = sm_Definition sm, mc_mapping = sm_Mapping sm,
     mc_inapplicable = (?c = conditionFalse), mc_dependent = sm_Dependent sm\<rparr>"
  have rec: "record_of p sm r" using ok by (simp add: record_of_def r_def)
  have step: "pure (plan_records p (index + 1) sms
      (if k = 0 then (ids(definition_key (sm_Action sm) := nextID), nextID + 1) else (ids, nextID)) (records @ [r])) = Inr res"
    using "2.prems" ok by (simp add: Let_def condition_of_def r_def k_def cong: if_cong)
  have "\<exists>rs. res = (records @ [r]) @ rs \<and> list_all2 (record_of p) sms rs"
    using "2.IH" ok step by (simp add: condition_of_def r_def k_def cong: if_cong)
  then obtain rs where "res = (records @ [r]) @ rs" "list_all2 (record_of p) sms rs" by blast
  with rec show ?case by (intro exI [of _ "r # rs"]) simp
qed simp

lemma pure_primary_occurrences:
  "pure (primary_occurrences i oper rs out) = Some (out @ map (primary_occurrence i oper) rs)"
  by (induction rs arbitrary: out) simp_all

text \<open>The applicability of a dependent record, with the resources of an applicable one.\<close>

definition dependency_state :: "parameters \<Rightarrow> mappingRecord \<Rightarrow> Applicability" where
  "dependency_state p r =
     (if mc_inapplicable r then ApplicabilityInapplicable
      else do_Applicability (with_values undefined (pure (dependencyValues (mc_mapping r) p))))"

lemma with_values_fields:
  "do_Applicability (with_values oc v) = do_Applicability (with_values oc' v)"
  "do_Action (with_values oc v) = do_Action oc"
  "do_ParameterNames (with_values oc v) = do_ParameterNames oc"
  by (cases v; cases "snd v"; simp add: with_values_def)+

definition occurrence_of :: "parameters \<Rightarrow> mappingRecord \<Rightarrow> DependencyOccurrence \<Rightarrow> bool" where
  "occurrence_of p r d \<longleftrightarrow> do_Action d = mc_action r \<and> do_Applicability d = dependency_state p r"

lemma pure_dependency_occurrences:
  assumes "pure (dependency_occurrences p i edges rs st out) = Some res"
  shows "\<exists>ds. res = out @ ds \<and> list_all2 (occurrence_of p) (filter mc_dependent rs) ds"
  using assms
proof (induction rs arbitrary: st out)
  case (Cons r rs)
  show ?case
  proof (cases "mc_dependent r")
    case False
    with Cons.prems have "pure (dependency_occurrences p i edges rs st out) = Some res" by simp
    with Cons.IH False show ?thesis by simp
  next
    case True
    obtain edge st' where e: "take_edge edges (dependency_key (mc_action r)) st = (edge, st')" by (metis surj_pair)
    define oc where "oc = \<lparr>do_ID = mc_id r, do_OperationID = i, do_DefinitionID = mc_definitionID r,
       do_DefinitionEdgeID = edge, do_MappingID = mc_id r, do_Action = mc_action r, do_Resources = [],
       do_ParameterNames = pure (dependencyParameterNames (mc_mapping r)), do_Applicability = ApplicabilityUnknown\<rparr>"
    define d where "d = (if mc_inapplicable r then oc\<lparr>do_Applicability := ApplicabilityInapplicable\<rparr>
       else with_values oc (pure (dependencyValues (mc_mapping r) p)))"
    have "pure (dependency_occurrences p i edges rs st' (out @ [d])) = Some res"
      using Cons.prems True e by (simp add: Let_def oc_def d_def split: if_splits)
    from Cons.IH [OF this] obtain ds where ds: "res = out @ d # ds" "list_all2 (occurrence_of p) (filter mc_dependent rs) ds"
      by auto
    have "occurrence_of p r d"
      by (simp add: occurrence_of_def dependency_state_def d_def with_values_fields(1) [of oc _ undefined] with_values_fields(2))
        (simp add: oc_def)
    with ds True show ?thesis by (intro exI [of _ "d # ds"]) simp
  qed
qed simp

text \<open>What the lookup returns: the primaries of the applicable roots and one occurrence for each dependent record.\<close>

definition roots_of :: "mappingRecord list \<Rightarrow> mappingRecord list" where
  "roots_of records = filter (\<lambda>rec. \<not> mc_dependent rec \<and> \<not> mc_inapplicable rec) records"

lemma occurrences_of_success:
  assumes "pure (occurrences_of p oper i records roots) = Some lookup"
  shows "lr_Operation lookup = op_Name oper \<and> lr_PrimaryOccurrences lookup = map (primary_occurrence i oper) roots \<and>
     list_all2 (occurrence_of p) (filter mc_dependent records) (lr_DependencyOccurrences lookup)"
proof -
  obtain edges nextID ds where "pure (dependency_occurrences p i edges records ((\<lambda>_. 0), nextID) []) = Some ds"
    "lookup = \<lparr>lr_Operation = op_Name oper, lr_PrimaryOccurrences = map (primary_occurrence i oper) roots,
       lr_DependencyOccurrences = ds\<rparr>"
    using assms by (auto simp: occurrences_of_def pure_primary_occurrences split: option.splits)
  with pure_dependency_occurrences show ?thesis by fastforce
qed

lemma lookupOperation_success:
  assumes "pure (lookupOperationContext oper plan p) = Inr lookup"
  obtains records i where "StaticPlan_Valid plan" "op_State oper = EvidenceKnown" "op_MappingState oper = EvidenceKnown"
    "list_all2 (record_of p) (pl_Mappings plan) records" "roots_of records \<noteq> []" "lr_Operation lookup = op_Name oper"
    "lr_PrimaryOccurrences lookup = map (primary_occurrence i oper) (roots_of records)"
    "list_all2 (occurrence_of p) (filter mc_dependent records) (lr_DependencyOccurrences lookup)"
proof -
  let ?i = "if pl_Occurrence plan = 0 then 1 else pl_Occurrence plan"
  have guards: "StaticPlan_Valid plan" "op_State oper = EvidenceKnown" "op_MappingState oper = EvidenceKnown" "pl_Mappings plan \<noteq> []"
    using assms by (auto simp: lookupOperationContext_def split: if_splits)
  then obtain records where r: "pure (plan_records p 0 (pl_Mappings plan) ((\<lambda>_. 0), 1) []) = Inr records"
    "roots_of records \<noteq> []" "pure (occurrences_of p oper ?i records (roots_of records)) = Some lookup"
    using assms by (auto simp: lookupOperationContext_def roots_of_def Let_def split: if_splits sum.splits option.splits)
  from pure_plan_records [OF r(1)] have "list_all2 (record_of p) (pl_Mappings plan) records" by simp
  with guards r(2) occurrences_of_success [OF r(3)] that [of records ?i] show ?thesis by blast
qed

section \<open>Requirements of the primary actions\<close>

definition requirement_of :: "(rune \<Rightarrow> bool) \<Rightarrow> DecodedAWSRequest \<Rightarrow> string \<Rightarrow> PrimaryOccurrence \<Rightarrow> IAMRequirement \<Rightarrow> bool" where
  "requirement_of uni req canonical primary r \<longleftrightarrow> pure (primary_requirement uni req canonical primary) = Inr r"

lemma pure_primary_requirements:
  assumes "pure (primary_requirements uni req canonical ps out) = Inr res"
  shows "\<exists>rs. list_all2 (requirement_of uni req canonical) ps rs \<and>
     res = (fst out @ rs, snd out @ concat (map po_DefinitionDependencies ps))"
  using assms
proof (induction uni req canonical ps out rule: primary_requirements.induct)
  case (2 uni req canonical primary ps reqs deps)
  then obtain r where r: "pure (primary_requirement uni req canonical primary) = Inr r"
    "pure (primary_requirements uni req canonical ps (reqs @ [r], deps @ po_DefinitionDependencies primary)) = Inr res"
    by (auto split: sum.splits)
  with "2.IH" obtain rs where "list_all2 (requirement_of uni req canonical) ps rs"
    "res = (reqs @ r # rs, deps @ po_DefinitionDependencies primary @ concat (map po_DefinitionDependencies ps))"
    by fastforce
  with r show ?case by (intro exI [of _ "r # rs"]) (simp add: requirement_of_def [of uni req canonical primary r])
qed simp

section \<open>Requirements of the dependencies\<close>

lemma pure_expected_actions:
  "pure (expected_actions ws acc) = Inr res \<Longrightarrow> res = acc @ map canonicalAction ws"
  by (induction ws arbitrary: acc) (fastforce simp: Let_def split: if_splits)+

lemma pure_candidate_actions:
  "pure (candidate_actions ds acc) = Inr res \<Longrightarrow>
     res = acc @ map occurrence_action ds \<and> (\<forall>d \<in> set ds. do_Applicability d \<noteq> ApplicabilityUnknown)"
  by (induction ds arbitrary: acc) (fastforce split: if_splits)+

lemma pure_dependency_requirements:
  assumes "pure (dependency_requirements req ds result) = Inr res"
  shows "\<exists>rs. res = result @ rs \<and> list_all2 (\<lambda>d r. pure (dependency_requirement req (occurrence_action d) d) = Inr r)
     (filter (\<lambda>d. do_Applicability d \<noteq> ApplicabilityInapplicable) ds) rs"
  using assms
proof (induction ds arbitrary: result)
  case (Cons d ds)
  show ?case
  proof (cases "do_Applicability d = ApplicabilityInapplicable")
    case True
    with Cons show ?thesis by simp
  next
    case False
    with Cons.prems obtain r where r: "pure (dependency_requirement req (occurrence_action d) d) = Inr r"
      "pure (dependency_requirements req ds (result @ [r])) = Inr res" by (auto split: sum.splits)
    from Cons.IH [OF r(2)] obtain rs where "res = result @ r # rs"
      "list_all2 (\<lambda>d r. pure (dependency_requirement req (occurrence_action d) d) = Inr r)
        (filter (\<lambda>d. do_Applicability d \<noteq> ApplicabilityInapplicable) ds) rs" by auto
    with r False show ?thesis by (intro exI [of _ "r # rs"]) simp
  qed
qed simp

lemma counts_equal:
  assumes "\<not> counts_differ expected actions"
  shows "mset expected = mset actions"
proof (rule multiset_eqI)
  fix a
  have c: "\<forall>a \<in> set expected. count_list actions a = count_list expected a" "\<forall>a \<in> set actions. count_list expected a \<noteq> 0"
    using assms by (auto simp: counts_differ_def list_ex_iff)
  show "count (mset expected) a = count (mset actions) a"
  proof (cases "a \<in> set expected \<union> set actions")
    case True
    with c have "a \<in> set expected" by (auto simp: count_list_0_iff)
    with c(1) show ?thesis by (simp add: count_mset count_list_eq_length_filter)
  next
    case False
    then show ?thesis by (simp add: count_mset filter_empty_conv)
  qed
qed

lemma grouped_append: "grouped (us @ vs) ds = grouped us ds @ grouped vs ds"
  by (simp add: grouped_def)

lemma grouped_Cons: "grouped (u # us) ds = filter (\<lambda>x. occurrence_action x = u) ds @ grouped us ds"
  by (simp add: grouped_def)

lemma grouped_skip: "occurrence_action d \<notin> set us \<Longrightarrow> grouped us (d # ds) = grouped us ds"
  by (induction us) (auto simp: grouped_def)

lemma mset_grouped:
  assumes "distinct order" "occurrence_action ` set ds \<subseteq> set order"
  shows "mset (grouped order ds) = mset ds"
  using assms
proof (induction ds)
  case Nil
  then show ?case by (induction order) (auto simp: grouped_def)
next
  case (Cons d ds)
  from Cons.prems have "occurrence_action d \<in> set order" by simp
  then obtain us vs where o: "order = us @ occurrence_action d # vs" by (meson split_list)
  with Cons.prems have "occurrence_action d \<notin> set us" "occurrence_action d \<notin> set vs" by simp_all
  then have "mset (grouped order (d # ds)) = add_mset d (mset (grouped order ds))"
    unfolding o by (simp add: grouped_append grouped_Cons grouped_skip)
  with Cons show ?case by simp
qed

lemma dependencies_success:
  assumes "pure (dependencies req expected candidates) = Inr deps"
  shows "mset (map canonicalAction expected) = mset (map occurrence_action candidates) \<and>
     (\<forall>d \<in> set candidates. do_Applicability d \<noteq> ApplicabilityUnknown) \<and>
     (\<exists>ds. mset ds = mset (filter (\<lambda>d. do_Applicability d = ApplicabilityApplicable) candidates) \<and>
        list_all2 (\<lambda>d r. pure (dependency_requirement req (occurrence_action d) d) = Inr r) ds deps)"
proof -
  let ?order = "first_occurrences (map canonicalAction expected)"
  obtain wants actions where w: "pure (expected_actions expected []) = Inr wants" "pure (candidate_actions candidates []) = Inr actions"
    "\<not> counts_differ wants actions" "pure (dependency_requirements req (grouped (first_occurrences wants) candidates) []) = Inr deps"
    using assms by (auto simp: dependencies_def split: sum.splits if_splits)
  have wants: "wants = map canonicalAction expected" and actions: "actions = map occurrence_action candidates"
    and known: "\<forall>d \<in> set candidates. do_Applicability d \<noteq> ApplicabilityUnknown"
    using pure_expected_actions [OF w(1)] pure_candidate_actions [OF w(2)] by simp_all
  have m: "mset (map canonicalAction expected) = mset (map occurrence_action candidates)"
    using counts_equal [OF w(3)] wants actions by simp
  have g: "mset (grouped ?order candidates) = mset candidates"
    using mset_eq_setD [OF m] by (intro mset_grouped) (simp_all add: first_occurrences_def)
  have two: "do_Applicability d \<noteq> ApplicabilityInapplicable \<longleftrightarrow> do_Applicability d = ApplicabilityApplicable"
    if "d \<in> set candidates" for d
    using known that by (cases "do_Applicability d") auto
  have f: "mset (filter (\<lambda>d. do_Applicability d \<noteq> ApplicabilityInapplicable) (grouped ?order candidates)) =
      mset (filter (\<lambda>d. do_Applicability d = ApplicabilityApplicable) candidates)"
    unfolding mset_filter g by (rule filter_mset_cong [OF refl]) (rule two, simp)
  have "list_all2 (\<lambda>d r. pure (dependency_requirement req (occurrence_action d) d) = Inr r)
      (filter (\<lambda>d. do_Applicability d \<noteq> ApplicabilityInapplicable) (grouped ?order candidates)) deps"
    using pure_dependency_requirements [OF w(4)] unfolding wants by simp
  with f m known show ?thesis by blast
qed

section \<open>Every applicable action is required\<close>

definition reference_action :: "ActionReference \<Rightarrow> string" where
  "reference_action a = canonicalAction (ar_Service a @ '':'' @ ar_Name a)"

definition mapping_action :: "StaticMapping \<Rightarrow> string" where
  "mapping_action sm = reference_action (sm_Action sm)"

definition applicable_primary :: "parameters \<Rightarrow> StaticMapping \<Rightarrow> bool" where
  "applicable_primary p sm \<longleftrightarrow> \<not> sm_Dependent sm \<and> condition_of p sm = conditionTrue"

definition applicable_dependent :: "parameters \<Rightarrow> StaticMapping \<Rightarrow> bool" where
  "applicable_dependent p sm \<longleftrightarrow> sm_Dependent sm \<and> condition_of p sm = conditionTrue \<and>
     snd (pure (dependencyValues (sm_Mapping sm) p)) = dependencyTrue \<and> fst (pure (dependencyValues (sm_Mapping sm) p)) \<noteq> []"

text \<open>The dependent actions the definition of a mapping declares.\<close>

definition declared_dependencies :: "StaticMapping \<Rightarrow> string list" where
  "declared_dependencies sm = concat (map ry_DependentActions (ad_Resources (sm_Definition sm)))"

lemma list_all2_filter_map:
  assumes "list_all2 R xs ys" "\<And>x y. R x y \<Longrightarrow> P x = Q y" "\<And>x y. R x y \<Longrightarrow> Q y \<Longrightarrow> f x = g y"
  shows "map f (filter P xs) = map g (filter Q ys)"
  using assms(1) by (induction rule: list_all2_induct) (auto simp: assms(2,3))

lemma list_all2_map_eq:
  assumes "list_all2 R xs ys" "\<And>x y. R x y \<Longrightarrow> f x = g y"
  shows "map f xs = map g ys"
  using assms(1) by (induction rule: list_all2_induct) (auto simp: assms(2))

lemma record_primary:
  "record_of p sm r \<Longrightarrow> applicable_primary p sm \<longleftrightarrow> \<not> mc_dependent r \<and> \<not> mc_inapplicable r"
  by (cases "condition_of p sm") (auto simp: record_of_def applicable_primary_def)

lemma record_dependent:
  "record_of p sm r \<Longrightarrow> applicable_dependent p sm \<longleftrightarrow> mc_dependent r \<and> dependency_state p r = ApplicabilityApplicable"
  by (cases "condition_of p sm"; cases "snd (pure (dependencyValues (sm_Mapping sm) p))")
    (auto simp: record_of_def applicable_dependent_def dependency_state_def with_values_def)

lemma pure_append_dependencies:
  "pure (append_dependencies reqs ds) = Inr res \<Longrightarrow> res = reqs @ ds \<and> (\<forall>d \<in> set ds. rq_ScopeKind d \<noteq> ScopeUnresolved)"
  by (induction reqs ds rule: append_dependencies.induct) (auto split: if_splits)

lemma primary_requirement_fields:
  "requirement_of uni req canonical primary r \<Longrightarrow> rq_Action r = reference_action (po_Action primary) \<and> \<not> rq_Dependent r"
  by (auto simp: requirement_of_def primary_requirement_def reference_action_def Let_def
      split: if_splits sum.splits resource_error.splits prod.splits)

lemma dependency_requirement_fields:
  "pure (dependency_requirement req want d) = Inr r \<Longrightarrow> rq_Action r = want \<and> rq_Dependent r"
  by (auto simp: dependency_requirement_def split: if_splits sum.splits)

text \<open>The requirements of a lookup: those of the primaries, then those of the dependencies.\<close>

lemma map_lookup_success:
  assumes "pure (map_lookup m req lookup) = Inr result"
  obtains reqs deps where "list_all2 (requirement_of (im_uni m) req (lr_Operation lookup)) (lr_PrimaryOccurrences lookup) reqs"
    "pure (dependencies req (concat (map po_DefinitionDependencies (lr_PrimaryOccurrences lookup))) (lr_DependencyOccurrences lookup)) = Inr deps"
    "result = mapping_result m req (lr_Operation lookup) (reqs @ deps)" "MappingResult_Validate result = None"
    "\<forall>d \<in> set deps. rq_ScopeKind d \<noteq> ScopeUnresolved"
proof -
  from assms obtain all where a: "pure (all_requirements (im_uni m) req lookup) = Inr all"
    "result = mapping_result m req (lr_Operation lookup) all" "MappingResult_Validate result = None"
    by (auto simp: map_lookup_def Let_def split: if_splits sum.splits option.splits)
  from a(1) obtain reqs expected deps where
    r: "pure (primary_requirements (im_uni m) req (lr_Operation lookup) (lr_PrimaryOccurrences lookup) ([], [])) = Inr (reqs, expected)"
    and d: "pure (dependencies req expected (lr_DependencyOccurrences lookup)) = Inr deps"
    and p: "pure (append_dependencies reqs deps) = Inr all"
    by (auto simp: all_requirements_def split: sum.splits)
  from pure_primary_requirements [OF r] have
    "list_all2 (requirement_of (im_uni m) req (lr_Operation lookup)) (lr_PrimaryOccurrences lookup) reqs"
    "expected = concat (map po_DefinitionDependencies (lr_PrimaryOccurrences lookup))" by simp_all
  with that d pure_append_dependencies [OF p] a show ?thesis by blast
qed

lemma sortRequirements_mset: "mset (sortRequirements v) = image_mset (\<lambda>r. r\<lparr>rq_Resources := sort (rq_Resources r)\<rparr>) (mset v)"
  by (simp add: sortRequirements_def)

lemma filtered_actions:
  "mset (map rq_Action (filter P (sortRequirements v))) =
     mset (map rq_Action (filter (\<lambda>r. P (r\<lparr>rq_Resources := sort (rq_Resources r)\<rparr>)) v))"
  by (simp add: sortRequirements_def filter_map comp_def image_mset.compositionality)

text \<open>The actions of the two kinds of requirements of a result.\<close>

lemma result_actions:
  assumes "list_all2 (requirement_of uni req canonical) ps reqs"
    and "list_all2 (\<lambda>d r. pure (dependency_requirement req (occurrence_action d) d) = Inr r) ds deps"
  shows "mset (map rq_Action (filter (\<lambda>r. \<not> rq_Dependent r) (sortRequirements (reqs @ deps)))) = mset (map (reference_action \<circ> po_Action) ps)"
    and "mset (map rq_Action (filter rq_Dependent (sortRequirements (reqs @ deps)))) = mset (map occurrence_action ds)"
proof -
  have "map (reference_action \<circ> po_Action) ps = map rq_Action reqs"
    using assms(1) by (rule list_all2_map_eq) (simp add: primary_requirement_fields)
  moreover have "\<forall>r \<in> set reqs. \<not> rq_Dependent r"
    using assms(1) by (induction rule: list_all2_induct) (auto simp: primary_requirement_fields)
  moreover have "map occurrence_action ds = map rq_Action deps"
    using assms(2) by (rule list_all2_map_eq) (simp add: dependency_requirement_fields)
  moreover have "\<forall>r \<in> set deps. rq_Dependent r"
    using assms(2) by (induction rule: list_all2_induct) (auto simp: dependency_requirement_fields)
  ultimately show "mset (map rq_Action (filter (\<lambda>r. \<not> rq_Dependent r) (sortRequirements (reqs @ deps)))) = mset (map (reference_action \<circ> po_Action) ps)"
    "mset (map rq_Action (filter rq_Dependent (sortRequirements (reqs @ deps)))) = mset (map occurrence_action ds)"
    unfolding filtered_actions by (simp_all add: filter_id_conv filter_empty_conv)
qed

lemma primary_occurrence_fields:
  "po_Action (primary_occurrence i oper r) = mc_action r" "po_Operation (primary_occurrence i oper r) = op_Name oper"
  "po_DefinitionDependencies (primary_occurrence i oper r) = concat (map ry_DependentActions (ad_Resources (mc_definition r)))"
  by (simp_all add: primary_occurrence_def entryForAction_def Let_def split: prod.split)

text \<open>The plan of a successful lookup, seen from the mappings.\<close>

lemma lookup_plan_actions:
  assumes "list_all2 (record_of p) sms records"
    and "list_all2 (occurrence_of p) (filter mc_dependent records) ds"
  shows "map (reference_action \<circ> mc_action) (roots_of records) = map mapping_action (filter (applicable_primary p) sms)"
    and "map (\<lambda>r. concat (map ry_DependentActions (ad_Resources (mc_definition r)))) (roots_of records) =
      map declared_dependencies (filter (applicable_primary p) sms)"
    and "map occurrence_action ds = map mapping_action (filter sm_Dependent sms)"
    and "map occurrence_action (filter (\<lambda>d. do_Applicability d = ApplicabilityApplicable) ds) =
      map mapping_action (filter (applicable_dependent p) sms)"
proof -
  show "map (reference_action \<circ> mc_action) (roots_of records) = map mapping_action (filter (applicable_primary p) sms)"
    unfolding roots_of_def
    by (rule list_all2_filter_map [OF assms(1), symmetric]) (auto simp: record_primary, simp add: mapping_action_def record_of_def)
  show "map (\<lambda>r. concat (map ry_DependentActions (ad_Resources (mc_definition r)))) (roots_of records) =
      map declared_dependencies (filter (applicable_primary p) sms)"
    unfolding roots_of_def
    by (rule list_all2_filter_map [OF assms(1), symmetric]) (auto simp: record_primary, simp add: declared_dependencies_def record_of_def)
  have dep: "map mapping_action (filter sm_Dependent sms) = map (reference_action \<circ> mc_action) (filter mc_dependent records)"
    by (rule list_all2_filter_map [OF assms(1)]) (simp_all add: mapping_action_def record_of_def)
  moreover have "map (reference_action \<circ> mc_action) (filter mc_dependent records) = map occurrence_action ds"
    by (rule list_all2_map_eq [OF assms(2)]) (simp add: occurrence_of_def occurrence_action_def reference_action_def)
  ultimately show "map occurrence_action ds = map mapping_action (filter sm_Dependent sms)" by simp
  have "map mapping_action (filter (applicable_dependent p) sms) =
      map (reference_action \<circ> mc_action) (filter (\<lambda>r. mc_dependent r \<and> dependency_state p r = ApplicabilityApplicable) records)"
    by (rule list_all2_filter_map [OF assms(1)]) (auto simp: record_dependent, simp add: mapping_action_def record_of_def)
  also have "\<dots> = map (reference_action \<circ> mc_action) (filter (\<lambda>r. dependency_state p r = ApplicabilityApplicable) (filter mc_dependent records))"
    by (simp add: conj_commute)
  also have "\<dots> = map occurrence_action (filter (\<lambda>d. do_Applicability d = ApplicabilityApplicable) ds)"
    by (rule list_all2_filter_map [OF assms(2)]) (simp_all add: occurrence_of_def occurrence_action_def reference_action_def)
  finally show "map occurrence_action (filter (\<lambda>d. do_Applicability d = ApplicabilityApplicable) ds) =
      map mapping_action (filter (applicable_dependent p) sms)" by simp
qed

lemma identity_success:
  assumes "map_identity m req answer = Inr (oper, ident)"
  shows "oper = NormalizeOperation (im_uni m) (dr_Operation req) \<and> oper \<noteq> [] \<and> wire_identity req = Some ident \<and>
     authoritativeProtocolFor (im_wire m) (dr_Service req) = Some (dr_Protocol req) \<and>
     (\<exists>ep. answer = Inr ep \<and> EndpointIdentityEqual ep (mapper_endpoint req) \<and>
        (ep_AccountID ep = [] \<or> ep_AccountID ep = dr_CallerAccountID req))"
  using assms by (auto simp: map_identity_def Let_def split: sum.splits if_splits option.splits)

text \<open>
  Property C8. No permission is lost. A mapping succeeds, under any schedule of cancellation, only when the wire
  identity of the request selects exactly one record of the catalog, whose plan passed the catalog's
  validation and whose conditions are all decided by the request. Then the actions required directly
  are, with multiplicity, those of the mappings whose condition holds; the actions required as
  dependencies are those of the dependent mappings that apply; and the dependent mappings of the
  plan are, again with multiplicity, the ones the definitions of the required actions declare.
\<close>

theorem mapping_complete:
  assumes "run_state (Mapper_Map cause mapper request) c = (Inr result, c')"
  shows "\<exists>m req cat ident oc.
     mapper = Some m \<and> request = Some req \<and> im_adapter m = Some cat \<and> wire_identity req = Some ident \<and>
     (let oper = NormalizeOperation (im_uni m) (NormalizeOperation (im_uni m) (dr_Operation req));
          sms = pl_Mappings (oo_Plan oc); p = dr_Parameters req
      in filter (occurrence_selected oper ident) (cat (dr_Service req) oper) = [oc] \<and>
         StaticPlan_Valid (oo_Plan oc) \<and> mr_Operation result = op_Name (oo_Operation oc) \<and>
         (\<forall>sm \<in> set sms. condition_of p sm \<noteq> conditionUnknown) \<and>
         mset (map rq_Action (filter (\<lambda>r. \<not> rq_Dependent r) (mr_Requirements result))) =
           mset (map mapping_action (filter (applicable_primary p) sms)) \<and>
         mset (map rq_Action (filter rq_Dependent (mr_Requirements result))) =
           mset (map mapping_action (filter (applicable_dependent p) sms)) \<and>
         mset (map mapping_action (filter sm_Dependent sms)) =
           mset (map canonicalAction (concat (map declared_dependencies (filter (applicable_primary p) sms)))))"
proof -
  obtain m req cat where m: "mapper = Some m" "request = Some req" "im_adapter m = Some cat"
    "pure (mapOne m req) = Some (Inr result)" using Map_success [OF assms] by blast
  obtain answer oper ident lookup where id: "map_identity m req answer = Inr (oper, ident)"
    and l: "pure (LookupRequestContext (im_uni m) (Some cat) (dr_Service req) oper ident (dr_Parameters req)) = Inr lookup"
    and r: "pure (map_lookup m req lookup) = Inr result"
    using mapOne_success [OF m(4)] m(3) by metis
  obtain oc where oc: "filter (occurrence_selected (NormalizeOperation (im_uni m) oper) ident) (cat (dr_Service req) (NormalizeOperation (im_uni m) oper)) = [oc]"
    "pure (lookupOperationContext (oo_Operation oc) (oo_Plan oc) (dr_Parameters req)) = Inr lookup"
    using Lookup_success [OF l] .
  let ?p = "dr_Parameters req" and ?sms = "pl_Mappings (oo_Plan oc)"
  obtain records i where rec: "StaticPlan_Valid (oo_Plan oc)" "list_all2 (record_of ?p) ?sms records"
    "lr_Operation lookup = op_Name (oo_Operation oc)"
    "lr_PrimaryOccurrences lookup = map (primary_occurrence i (oo_Operation oc)) (roots_of records)"
    "list_all2 (occurrence_of ?p) (filter mc_dependent records) (lr_DependencyOccurrences lookup)"
    using lookupOperation_success [OF oc(2)] by blast
  obtain reqs deps where q: "list_all2 (requirement_of (im_uni m) req (lr_Operation lookup)) (lr_PrimaryOccurrences lookup) reqs"
    "pure (dependencies req (concat (map po_DefinitionDependencies (lr_PrimaryOccurrences lookup))) (lr_DependencyOccurrences lookup)) = Inr deps"
    "result = mapping_result m req (lr_Operation lookup) (reqs @ deps)"
    using map_lookup_success [OF r] by blast
  obtain ds where d: "mset ds = mset (filter (\<lambda>d. do_Applicability d = ApplicabilityApplicable) (lr_DependencyOccurrences lookup))"
    "list_all2 (\<lambda>d r. pure (dependency_requirement req (occurrence_action d) d) = Inr r) ds deps"
    "mset (map canonicalAction (concat (map po_DefinitionDependencies (lr_PrimaryOccurrences lookup)))) =
       mset (map occurrence_action (lr_DependencyOccurrences lookup))"
    using dependencies_success [OF q(2)] by blast
  note acts = result_actions [OF q(1) d(2)] and plan = lookup_plan_actions [OF rec(2,5)]
  have reqs: "mr_Requirements result = sortRequirements (reqs @ deps)" "mr_Operation result = lr_Operation lookup"
    using q(3) by (simp_all add: mapping_result_def)
  have "mset (map occurrence_action ds) = mset (map mapping_action (filter (applicable_dependent ?p) ?sms))"
    unfolding plan(4) [symmetric] using d(1) by simp
  moreover have "map (reference_action \<circ> po_Action) (lr_PrimaryOccurrences lookup) = map mapping_action (filter (applicable_primary ?p) ?sms)"
    unfolding rec(4) plan(1) [symmetric] by (simp add: primary_occurrence_fields)
  moreover have "map po_DefinitionDependencies (lr_PrimaryOccurrences lookup) = map declared_dependencies (filter (applicable_primary ?p) ?sms)"
    unfolding rec(4) plan(2) [symmetric] by (simp add: primary_occurrence_fields)
  moreover have "\<forall>sm \<in> set ?sms. condition_of ?p sm \<noteq> conditionUnknown"
    using rec(2) by (induction rule: list_all2_induct) (auto simp: record_of_def)
  ultimately show ?thesis
    using m(1-3) identity_success [OF id] oc(1) rec(1,3) acts reqs d(3) plan(3)
    by (intro exI [of _ m] exI [of _ req] exI [of _ cat] exI [of _ ident] exI [of _ oc]) (simp add: Let_def)
qed

section \<open>A sample mapping\<close>

definition sample_object_type :: ResourceType where
  "sample_object_type = \<lparr>ry_Name = ''object*'', ry_ConditionKeys = [], ry_DependentActions = []\<rparr>"

definition sample_operation :: Operation where
  "sample_operation = \<lparr>op_Service = ''s3'', op_Name = ''GetObject'', op_InputShape = [], op_OutputShape = [],
     op_Route = wo_Route (sample_rest_operation ''GetObject'' ''/{Bucket}/{Key+}''), op_QueryBindings = [], op_Mappings = [],
     op_MappingState = EvidenceKnown, op_State = EvidenceKnown\<rparr>"

definition sample_static_mapping :: StaticMapping where
  "sample_static_mapping = \<lparr>sm_Action = \<lparr>ar_Service = ''s3'', ar_Name = ''GetObject''\<rparr>,
     sm_Mapping = \<lparr>am_occurrenceID = 1, am_Action = ''s3:GetObject'', am_State = EvidenceKnown, am_Resources = [],
       am_ResourceARNMappings = [], am_Condition = None, am_ConditionMappings = [], am_ARNOverride = [], am_Notice = []\<rparr>,
     sm_Definition = \<lparr>ad_Service = ''s3'', ad_Name = ''GetObject'', ad_AccessLevel = [], ad_Description = [],
       ad_Resources = [sample_object_type], ad_State = EvidenceKnown\<rparr>,
     sm_Dependent = False\<rparr>"

definition sample_occurrence :: OperationOccurrence where
  "sample_occurrence = \<lparr>oo_Service = sample_rest_service, oo_Operation = sample_operation,
     oo_Plan = \<lparr>pl_Service = ''s3'', pl_Operation = ''GetObject'', pl_Occurrence = 1, pl_Mappings = [sample_static_mapping],
       pl_Diagnostics = []\<rparr>\<rparr>"

definition sample_mapper :: Mapper where
  "sample_mapper = \<lparr>im_timeout = 1000000000, im_classifier = (\<lambda>_. Some (Inr sample_endpoint)),
     im_adapter = Some (\<lambda>service oper. if oper = ''GetObject'' then [sample_occurrence] else []), im_wire = Some sample_index,
     im_data_version = ''v'', im_uni = (\<lambda>_. False)\<rparr>"

lemma sample_protocol: "authoritativeProtocolFor (Some sample_index) ''s3'' = Some ''rest-xml''"
  by code_simp

lemma sample_normalized: "NormalizeOperation uni ''GetObject'' = ''GetObject''"
  by (simp add: NormalizeOperation_def trim_space_ascii is_ascii_def is_space_rune_def ord_def runes_ascii
      letter_or_digit_def alnum_rune_def)

lemma sample_match:
  "MatchRESTRoute ''/{Bucket}/{Key+}'' ''/bucket/key'' [] [] DefaultDecodeLimits =
     Inr (Some [(''Bucket'', string_value ''bucket''), (''Key'', string_value ''key'')])"
  by code_simp

lemma sample_wire_identity:
  "map_identity sample_mapper sample_request (Inr sample_endpoint) =
     Inr (''GetObject'', \<lparr>id_Protocol = ''rest-xml'', id_Method = ''GET'', id_Path = ''/bucket/key'', id_Query = [], id_Target = []\<rparr>)"
  using sample_protocol
  by (simp add: map_identity_def sample_request_def sample_mapper_def sample_normalized wire_identity_def json_protocol_def
      protocol_defs mapper_endpoint_def sample_endpoint_def EndpointIdentityEqual_def)

lemma sample_selected:
  "occurrence_selected ''GetObject'' \<lparr>id_Protocol = ''rest-xml'', id_Method = ''GET'', id_Path = ''/bucket/key'', id_Query = [], id_Target = []\<rparr> sample_occurrence"
  using sample_match
  by (simp add: occurrence_selected_def sample_occurrence_def sample_operation_def sample_rest_operation_def sample_rest_service_def
      recordProtocol_def routeMatches_def protocol_defs json_protocol_def query_protocol_def rest_protocol_def)

lemma sample_object_arn: "s3ARN ''aws'' ''bucket'' ''key'' = ''arn:aws:s3:::bucket/key''" "s3PathParts ''/bucket/key'' = (''bucket'', ''key'')"
  by code_simp+

lemma sample_suffix: "trim_suffix ''object*'' ''*'' = ''object''"
  by code_simp


definition sample_record :: mappingRecord where
  "sample_record = \<lparr>mc_id = 1, mc_definitionID = 1, mc_action = sm_Action sample_static_mapping,
     mc_definition = sm_Definition sample_static_mapping, mc_mapping = sm_Mapping sample_static_mapping,
     mc_inapplicable = False, mc_dependent = False\<rparr>"

definition sample_lookup :: LookupResult where
  "sample_lookup = \<lparr>lr_Operation = ''GetObject'', lr_PrimaryOccurrences = [primary_occurrence 1 sample_operation sample_record],
     lr_DependencyOccurrences = []\<rparr>"

lemma sample_records: "pure (plan_records p 0 [sample_static_mapping] ((\<lambda>_. 0), 1) []) = Inr [sample_record]"
  by (simp add: Let_def mapping_condition_def sample_static_mapping_def sample_record_def StaticMapping_Occurrence_def)

lemma sample_record_fields:
  "ad_Resources (mc_definition sample_record) = [sample_object_type]" "ry_DependentActions sample_object_type = []"
  "\<not> mc_dependent sample_record" "\<not> mc_inapplicable sample_record" "op_Name sample_operation = ''GetObject''"
  "op_State sample_operation = EvidenceKnown" "op_MappingState sample_operation = EvidenceKnown"
  by (simp_all add: sample_record_def sample_static_mapping_def sample_object_type_def sample_operation_def)

lemma sample_plan_fields:
  "StaticPlan_Valid (oo_Plan sample_occurrence)" "pl_Mappings (oo_Plan sample_occurrence) = [sample_static_mapping]"
  "pl_Occurrence (oo_Plan sample_occurrence) = 1"
  by (simp_all add: sample_occurrence_def StaticPlan_Valid_def)

lemma sample_oo_operation: "oo_Operation sample_occurrence = sample_operation"
  by (simp add: sample_occurrence_def)

lemma sample_looked_up:
  "pure (lookupOperationContext sample_operation (oo_Plan sample_occurrence) p) = Inr sample_lookup"
proof -
  have "pure (root_edges [sample_record] st) = Some st" "pure (dependency_occurrences p i edges [sample_record] ust []) = Some []" for st ust i edges
    by (simp_all add: sample_record_fields steady_unless)
  then have "pure (occurrences_of p sample_operation 1 [sample_record] [sample_record]) = Some sample_lookup"
    by (simp add: occurrences_of_def pure_primary_occurrences sample_record_fields(5) sample_lookup_def
        del: root_edges.simps primary_occurrences.simps dependency_occurrences.simps)
  then show ?thesis
    using sample_records [of p]
    by (simp add: lookupOperationContext_def Let_def sample_plan_fields sample_record_fields del: plan_records.simps)
qed

lemma sample_primary:
  "pure (primary_requirement uni sample_request ''GetObject'' (primary_occurrence 1 sample_operation sample_record)) = Inr sample_requirement"
proof -
  have "entry_resource (mc_action sample_record) (mc_definition sample_record) ''GetObject'' (mc_mapping sample_record) = (''object*'', ''exact'')"
    by (simp add: entry_resource_def sample_record_def sample_static_mapping_def named_resources_def sample_object_type_def)
  then have f: "po_ResourceType (primary_occurrence 1 sample_operation sample_record) = ''object*''"
    "po_Scope (primary_occurrence 1 sample_operation sample_record) = ''exact''"
    by (simp_all add: primary_occurrence_def entryForAction_def sample_operation_def)
  have g: "reference_action (mc_action sample_record) = ''s3:GetObject''" unfolding sample_record_def sample_static_mapping_def by code_simp
  have "pure (object_resource sample_request) = Inr ([''arn:aws:s3:::bucket/key''], ScopeExact)"
    using sample_object_arn by (simp add: object_resource_def sample_request_def exact_arn_def named_string_def parameterString_single
      del: parameterStringContext.simps)
  then have "pure (resourceForPrimaryContext uni sample_request (primary_occurrence 1 sample_operation sample_record) a) =
      Inr ([''arn:aws:s3:::bucket/key''], ScopeExact)" for a
    by (simp add: resourceForPrimaryContext_def resourceForContext_def f sample_suffix)
  then show ?thesis
    using g by (simp add: primary_requirement_def primary_occurrence_fields reference_action_def Let_def f sample_record_fields(5)
        scope_kind_defs sample_requirement_def)
qed

lemma sample_mapped:
  "\<exists>result c. run_state (Mapper_Map Canceled (Some sample_mapper) (Some sample_request)) Background = (Inr result, c)"
proof -
  let ?result = "mapping_result sample_mapper sample_request ''GetObject'' [sample_requirement]"
  have d: "pure (dependencies sample_request [] []) = Inr []"
    by (simp add: dependencies_def counts_differ_def first_occurrences_def grouped_def)
  have "po_DefinitionDependencies (primary_occurrence 1 sample_operation sample_record) = []"
    by (simp add: primary_occurrence_fields sample_record_fields)
  with sample_primary have "pure (primary_requirements (im_uni sample_mapper) sample_request ''GetObject'' (lr_PrimaryOccurrences sample_lookup) ([], [])) = Inr ([sample_requirement], [])"
    by (simp add: sample_lookup_def)
  with d have "pure (all_requirements (im_uni sample_mapper) sample_request sample_lookup) = Inr [sample_requirement]"
    by (simp add: all_requirements_def)
      (simp add: sample_lookup_def)
  moreover have "sortRequirements [sample_requirement] = [sample_requirement]"
    by (simp add: sortRequirements_def sample_requirement_def)
  then have "MappingResult_Validate ?result = None"
    unfolding MappingResult_Validate_def guard_None
    by (simp add: mapping_result_def sample_requirement_valid)
      (simp add: go_simps go_defs MappingConfidence_Valid_def confidence_defs sample_request_def MapperVersion_def)
  ultimately have r: "pure (map_lookup sample_mapper sample_request sample_lookup) = Inr ?result"
    by (simp add: map_lookup_def) (simp add: sample_lookup_def)
  have "pure (LookupRequestContext (im_uni sample_mapper) (im_adapter sample_mapper) ''s3'' ''GetObject''
      \<lparr>id_Protocol = ''rest-xml'', id_Method = ''GET'', id_Path = ''/bucket/key'', id_Query = [], id_Target = []\<rparr> []) = Inr sample_lookup"
    using sample_selected sample_looked_up
    by (simp add: LookupRequestContext_def sample_mapper_def sample_normalized pure_select AWSProtocol_Supported_def protocol_defs
        trim_space_ascii is_ascii_def is_space_rune_def ord_def sample_oo_operation del: select_occurrences.simps)
  with r sample_wire_identity have "pure (mapOne sample_mapper sample_request) = Some (Inr ?result)"
    by (simp add: mapOne_def) (simp add: sample_mapper_def sample_request_def)
  then have "run_state (mapOne sample_mapper sample_request) Background = (Some (Inr ?result), Background)"
    by (simp add: run_pure)
  then show ?thesis
    using sample_request_valid by (simp add: run_Map) (simp add: sample_mapper_def)
qed


theorem mapping_complete_witness:
  "\<exists>result c (oc :: OperationOccurrence). run_state (Mapper_Map Canceled (Some sample_mapper) (Some sample_request)) Background = (Inr result, c) \<and>
     StaticPlan_Valid (oo_Plan oc) \<and>
     mset (map rq_Action (filter (\<lambda>r. \<not> rq_Dependent r) (mr_Requirements result))) =
       mset (map mapping_action (filter (applicable_primary (dr_Parameters sample_request)) (pl_Mappings (oo_Plan oc))))"
proof -
  obtain result c where r: "run_state (Mapper_Map Canceled (Some sample_mapper) (Some sample_request)) Background = (Inr result, c)"
    using sample_mapped by blast
  then show ?thesis
    using mapping_complete [OF r] unfolding Let_def option.inject by blast
qed

end
