(* ===== verification/Iam_Concrete.thy ===== *)
theory Iam_Concrete
  imports Iam_Requirements
begin

text \<open>
  The resources of a successful mapping. Whatever the request names, a requirement is over the whole
  service, or over ARNs of the request's partition whose resource part is one concrete resource:
  of the caller's account, of S3, or the role a caller assumes.
\<close>

section \<open>ARNs\<close>

definition arn_of :: "string \<Rightarrow> string \<Rightarrow> string \<Rightarrow> string \<Rightarrow> string \<Rightarrow> string" where
  "arn_of part service region account resource =
     ''arn:'' @ part @ '':'' @ service @ '':'' @ region @ '':'' @ account @ '':'' @ resource"

definition concrete_part :: "string \<Rightarrow> bool" where
  "concrete_part s \<longleftrightarrow> s \<noteq> [] \<and> \<not> contains_any s wildcard_bytes"

text \<open>An ARN a primary requirement may name.\<close>

definition request_arn :: "DecodedAWSRequest \<Rightarrow> string \<Rightarrow> bool" where
  "request_arn req a \<longleftrightarrow> (\<exists>service region account resource.
     a = arn_of (dr_Partition req) service region account resource \<and> service \<noteq> [] \<and> concrete_part resource \<and>
     (account = dr_CallerAccountID req \<and> region \<in> {dr_Region req, []} \<or>
      service = ''s3'' \<and> region = [] \<and> account = [] \<or>
      dr_Operation req = ''AssumeRole'' \<and> service = ''iam'' \<and> region = [] \<and> iam_validAccount account \<and>
        has_prefix resource ''role/''))"

text \<open>An ARN a dependent requirement may name.\<close>

definition dependent_arn :: "DecodedAWSRequest \<Rightarrow> string \<Rightarrow> bool" where
  "dependent_arn req a \<longleftrightarrow> (\<exists>service region account resource.
     a = arn_of (dr_Partition req) service region account resource \<and> service \<noteq> [] \<and> resource \<noteq> [] \<and>
     \<not> contains_any a wildcard_bytes)"

definition concrete_requirement :: "DecodedAWSRequest \<Rightarrow> IAMRequirement \<Rightarrow> bool" where
  "concrete_requirement req r \<longleftrightarrow>
     \<not> rq_Dependent r \<and> rq_ScopeKind r = ScopeKnownGlobal \<and> rq_Resources r = [''*''] \<or>
     rq_ScopeKind r \<in> {ScopeExact, ScopeSet} \<and> rq_Resources r \<noteq> [] \<and>
       (\<forall>a \<in> set (rq_Resources r). if rq_Dependent r then dependent_arn req a else request_arn req a)"

lemma cut_found: "cut c s = (a, b, True) \<Longrightarrow> s = a @ c # b"
  by (auto simp: cut_def dropWhile_eq_Cons_conv split: list.splits)

lemma splitn_join: "0 < n \<Longrightarrow> join [c] (splitn_byte n c s) = s"
proof (induction n c s rule: splitn_byte.induct)
  case (3 n c s)
  obtain a b f where c: "cut c s = (a, b, f)" by (metis prod_cases3)
  show ?case
  proof (cases f)
    case True
    with 3 c have "join [c] (splitn_byte (Suc n) c b) = b" by simp
    moreover have "splitn_byte (Suc n) c b \<noteq> []" by (cases n) (auto split: prod.splits)
    ultimately show ?thesis using c True cut_found [of c s a b] by (simp add: neq_Nil_conv, auto)
  qed (use c in simp)
qed simp_all

lemma splitn_arn:
  assumes "length (splitn_byte 6 CHR '':'' v) = 6" "splitn_byte 6 CHR '':'' v ! 0 = ''arn''"
  shows "v = (let p = splitn_byte 6 CHR '':'' v in arn_of (p ! 1) (p ! 2) (p ! 3) (p ! 4) (p ! 5))"
proof -
  define p where p: "p = splitn_byte 6 CHR '':'' v"
  have "p = [p ! 0, p ! 1, p ! 2, p ! 3, p ! 4, p ! 5]"
    using assms(1) unfolding p [symmetric] by (simp add: length_Suc_conv eval_nat_numeral) auto
  then have "v = join [CHR '':''] [p ! 0, p ! 1, p ! 2, p ! 3, p ! 4, p ! 5]"
    using splitn_join [of 6 "CHR '':''" v] p by simp
  then show ?thesis using assms(2) unfolding p [symmetric] by (simp add: arn_of_def)
qed


lemma valid_part_concrete: "validResourcePart s \<Longrightarrow> concrete_part s"
  by (simp add: validResourcePart_def concrete_part_def split: if_splits)

section \<open>The resources of a primary requirement\<close>

declare parameterStringContext.simps [simp del]

definition concrete_out :: "DecodedAWSRequest \<Rightarrow> resources \<Rightarrow> bool" where
  "concrete_out req r \<longleftrightarrow>
     (case r of
        Inl _ \<Rightarrow> True
      | Inr (res, scope) \<Rightarrow>
          scope = ScopeUnresolved \<or> scope = ScopeKnownGlobal \<and> res = [''*''] \<or>
          scope \<in> {ScopeExact, ScopeSet} \<and> res \<noteq> [] \<and> (\<forall>a \<in> set res. request_arn req a))"

lemma concrete_out_simps [simp]:
  "concrete_out req (Inl e)" "concrete_out req unresolved" "concrete_out req (Inr ([''*''], ScopeKnownGlobal))"
  "concrete_out req (Inr ([a], ScopeExact)) \<longleftrightarrow> request_arn req a"
  "concrete_out req (set_scope out) \<longleftrightarrow> out \<noteq> [] \<and> (\<forall>a \<in> set out. request_arn req a)"
  by (simp_all add: concrete_out_def unresolved_def scope_kind_defs set_scope_def)


lemma concrete_exact: "(a \<noteq> [] \<Longrightarrow> request_arn req a) \<Longrightarrow> concrete_out req (exact_arn message a)"
  by (simp add: exact_arn_def)

lemma awsARN_request:
  assumes "awsARN (dr_Partition req) service region (dr_CallerAccountID req) resource \<noteq> []" "region \<in> {dr_Region req, []}"
  shows "request_arn req (awsARN (dr_Partition req) service region (dr_CallerAccountID req) resource)"
proof -
  let ?a = "awsARN (dr_Partition req) service region (dr_CallerAccountID req) resource"
  have "?a = arn_of (dr_Partition req) service region (dr_CallerAccountID req) resource" "concrete_part resource" "service \<noteq> []"
    using assms(1) by (auto simp: awsARN_def arn_of_def valid_part_concrete split: if_splits)
  with assms(2) show ?thesis unfolding request_arn_def by blast
qed

lemma s3ARN_request: "s3ARN (dr_Partition req) bucket key \<noteq> [] \<Longrightarrow> request_arn req (s3ARN (dr_Partition req) bucket key)"
proof -
  assume a: "s3ARN (dr_Partition req) bucket key \<noteq> []"
  let ?r = "if key = [] then bucket else bucket @ ''/'' @ key"
  from a have "concrete_part bucket" "key \<noteq> [] \<Longrightarrow> concrete_part key"
    by (auto simp: s3ARN_def valid_part_concrete split: if_splits)
  then have "concrete_part ?r" by (auto simp: concrete_part_def contains_any_def wildcard_bytes_def)
  moreover from a have "s3ARN (dr_Partition req) bucket key = arn_of (dr_Partition req) ''s3'' [] [] ?r"
    by (auto simp: s3ARN_def arn_of_def split: if_splits)
  ultimately show ?thesis unfolding request_arn_def by blast
qed

lemma validARN_request:
  assumes "validARN v (dr_Partition req) service (dr_Region req) (dr_CallerAccountID req) pre" "service \<noteq> []"
  shows "request_arn req v"
proof -
  let ?p = "splitn_byte 6 CHR '':'' v"
  have p: "length ?p = 6" "?p ! 0 = ''arn''" "?p ! 1 = dr_Partition req" "?p ! 2 = service" "?p ! 3 = dr_Region req"
    "?p ! 4 = dr_CallerAccountID req" "validResourcePart (?p ! 5)"
    using assms(1) by (simp_all add: validARN_def Let_def)
  have "v = arn_of (dr_Partition req) service (dr_Region req) (dr_CallerAccountID req) (?p ! 5)"
    using splitn_arn [OF p(1,2)] unfolding Let_def p .
  with valid_part_concrete [OF p(7)] assms(2) show ?thesis unfolding request_arn_def by blast
qed

lemma validateRoleARN_parts:
  assumes "validateRoleARN v part = Inr a"
  shows "a = v \<and> \<not> contains_any v wildcard_bytes \<and>
     (\<exists>account resource. v = arn_of part ''iam'' [] account resource \<and> iam_validAccount account \<and>
        concrete_part resource \<and> has_prefix resource ''role/'')"
  using assms splitn_arn [of v] valid_part_concrete unfolding validateRoleARN_def Let_def
  by (auto simp: contains_any_def list_ex_iff split: if_splits)


lemma concrete_instances:
  assumes "\<forall>a \<in> set out. request_arn req a" "ids \<noteq> [] \<or> out \<noteq> []"
  shows "concrete_out req (pure (instance_arns uni req ids out))"
  using assms by (induction ids arbitrary: out) (auto simp: Let_def awsARN_request)

lemma statement_arns_request:
  assumes "pure (statement_arns req want items res) = Inr (Some out)" "\<forall>a \<in> set res. request_arn req a"
  shows "\<forall>a \<in> set out. request_arn req a"
  using assms
proof (induction items arbitrary: res)
  case (Cons item items)
  obtain res' where "pure (statement_arns req want items res') = Inr (Some out)" "\<forall>a \<in> set res'. request_arn req a"
    using Cons.prems
    by (auto simp: Let_def awsARN_request split: if_splits option.splits prod.splits)
  then show ?case by (rule Cons.IH)
qed simp

lemma concrete_statements: "concrete_out req (pure (dynamoStatementARNs req action))"
  using statement_arns_request [of req "to_lower action" _ "[]"]
  by (auto simp: dynamoStatementARNs_def set_insort_key split: option.splits sum.splits list.splits)

lemma concrete_name_or_arn: "service \<noteq> [] \<Longrightarrow> concrete_out req (name_or_arn req service pre e e' n)"
  by (auto simp: name_or_arn_def intro: concrete_exact awsARN_request validARN_request)

lemma concrete_role: "concrete_out req (pure (role_resource req))"
proof -
  have "request_arn req a" if "dr_Operation req = ''AssumeRole''" "validateRoleARN n (dr_Partition req) = Inr a" for n a
    using validateRoleARN_parts [OF that(2)] that(1) unfolding request_arn_def by blast
  then show ?thesis
    by (auto simp: role_resource_def intro!: concrete_exact awsARN_request split: sum.splits)
qed

lemma concrete_resource: "concrete_out req (pure (resourceForContext uni req kind action))"
proof -
  have "concrete_out req (pure (X req))"
    if "X \<in> {object_resource, bucket_resource, service_resource, task_resource, function_resource, dataset_resource, log_stream_resource}" for X
    using that
    by (auto simp: object_resource_def bucket_resource_def service_resource_def task_resource_def function_resource_def
        dataset_resource_def log_stream_resource_def Let_def concrete_name_or_arn
        intro!: concrete_exact awsARN_request s3ARN_request split: prod.splits)
  moreover have "concrete_out req (pure (namedARNContext req service param pre))" for service param pre
    by (auto simp: namedARNContext_def intro!: concrete_exact awsARN_request)
  moreover have "concrete_out req (pure (instance_resource uni req))"
    by (simp add: instance_resource_def concrete_instances)
  ultimately show ?thesis
    by (simp add: resourceForContext_def Let_def concrete_statements concrete_role)
qed


section \<open>The requirements of a mapping\<close>

lemma requirement_concrete:
  assumes "requirement_of uni req canonical primary r"
  shows "concrete_requirement req r"
proof -
  let ?action = "canonicalAction (ar_Service (po_Action primary) @ '':'' @ ar_Name (po_Action primary))"
  have "pure (resourceForPrimaryContext uni req primary ?action) = pure (resourceForContext uni req (po_ResourceType primary) ?action)"
    by (simp add: resourceForPrimaryContext_def)
  with assms concrete_resource [of req uni "po_ResourceType primary" ?action] show ?thesis
    by (auto simp: requirement_of_def primary_requirement_def concrete_out_def concrete_requirement_def Let_def
        split: if_splits sum.splits resource_error.splits prod.splits)
qed

lemma validateDependencyARN_dependent:
  assumes "validateDependencyARN want v (dr_Partition req) = Inr a"
  shows "dependent_arn req v"
proof (cases "canonicalAction want = ''iam:PassRole''")
  case True
  with assms have "validateRoleARN v (dr_Partition req) = Inr a" by (simp add: validateDependencyARN_def)
  from validateRoleARN_parts [OF this] show ?thesis unfolding dependent_arn_def concrete_part_def by blast
next
  case False
  let ?p = "splitn_byte 6 CHR '':'' v"
  have p: "length ?p = 6" "?p ! 0 = ''arn''" "?p ! 1 = dr_Partition req" "?p ! 2 \<noteq> []" "?p ! 5 \<noteq> []" "\<not> contains_any v wildcard_bytes"
    using assms False by (auto simp: validateDependencyARN_def Let_def contains_any_def list_ex_iff split: if_splits)
  have "v = arn_of (dr_Partition req) (?p ! 2) (?p ! 3) (?p ! 4) (?p ! 5)"
    using splitn_arn [OF p(1,2)] unfolding Let_def p(3) .
  with p show ?thesis unfolding dependent_arn_def by blast
qed

lemma validate_arns_dependent:
  "pure (validate_arns want (dr_Partition req) vs) = Inr u \<Longrightarrow> v \<in> set vs \<Longrightarrow> dependent_arn req v"
  by (induction vs) (auto dest: validateDependencyARN_dependent split: sum.splits if_splits)

lemma sort_empty: "sort xs = [] \<longleftrightarrow> xs = []"
  by (metis length_0_conv length_sort)

lemma dependency_concrete:
  "pure (dependency_requirement req want d) = Inr r \<Longrightarrow> concrete_requirement req r"
  by (auto simp: dependency_requirement_def concrete_requirement_def scope_kind_defs sort_empty
      dest: validate_arns_dependent split: if_splits sum.splits)

lemma sort_concrete:
  "\<forall>r \<in> set rs. concrete_requirement req r \<Longrightarrow> r \<in> set (sortRequirements rs) \<Longrightarrow> concrete_requirement req r"
  by (auto simp: sortRequirements_def concrete_requirement_def sort_empty)

text \<open>
  Property C9. The requirements of a mapping are concrete. Whatever a request names in its parameters and its path, each
  requirement of a successful mapping is over the whole service (\<^verbatim>\<open>known_global\<close>, with the one resource
  \<^verbatim>\<open>*\<close>, and never for a dependent action), or over a non-empty list of ARNs of the request's partition whose
  resource part is not empty and has no wildcard, no line break and no NUL byte. The ARNs of a primary
  action are in the caller's account and the request's region (or in no region), or they are S3 ARNs, or they name the role
  of an \<^verbatim>\<open>AssumeRole\<close>. No scope is left unresolved.
\<close>

theorem mapping_resources_concrete:
  assumes "run_state (Mapper_Map cause mapper request) c = (Inr result, c')"
  shows "\<exists>req. request = Some req \<and> (\<forall>r \<in> set (mr_Requirements result). concrete_requirement req r)"
proof -
  obtain m req where m: "request = Some req" "pure (mapOne m req) = Some (Inr result)" using Map_success [OF assms] by blast
  obtain lookup where "pure (map_lookup m req lookup) = Inr result" using mapOne_success [OF m(2)] by metis
  then obtain reqs deps where
    r: "list_all2 (requirement_of (im_uni m) req (lr_Operation lookup)) (lr_PrimaryOccurrences lookup) reqs"
    and d: "pure (dependencies req (concat (map po_DefinitionDependencies (lr_PrimaryOccurrences lookup))) (lr_DependencyOccurrences lookup)) = Inr deps"
    and res: "result = mapping_result m req (lr_Operation lookup) (reqs @ deps)"
    using map_lookup_success by blast
  obtain ds where ds: "list_all2 (\<lambda>d r. pure (dependency_requirement req (occurrence_action d) d) = Inr r) ds deps"
    using dependencies_success [OF d] by blast
  have "\<forall>r \<in> set reqs. concrete_requirement req r"
    using r by (induction rule: list_all2_induct) (auto dest: requirement_concrete)
  moreover have "\<forall>r \<in> set deps. concrete_requirement req r"
    using ds by (induction rule: list_all2_induct) (auto dest: dependency_concrete)
  ultimately have "\<forall>r \<in> set (reqs @ deps). concrete_requirement req r" by auto
  then have "\<forall>r \<in> set (sortRequirements (reqs @ deps)). concrete_requirement req r" by (blast intro: sort_concrete)
  with m(1) show ?thesis by (simp add: res mapping_result_def)
qed

theorem mapping_resources_concrete_witness:
  "\<exists>result c. run_state (Mapper_Map Canceled (Some sample_mapper) (Some sample_request)) Background = (Inr result, c) \<and>
     (\<forall>r \<in> set (mr_Requirements result). concrete_requirement sample_request r)"
proof -
  obtain result c where r: "run_state (Mapper_Map Canceled (Some sample_mapper) (Some sample_request)) Background = (Inr result, c)"
    using sample_mapped by blast
  with mapping_resources_concrete [OF r] show ?thesis by auto
qed

end
