(* ===== verification/Sigv4_Resign.thy ===== *)
theory Sigv4_Resign
  imports Sigv4_Verify
begin

text \<open>
  Signing for the upstream, \<^verbatim>\<open>src/internal/sigv4/resign.go\<close>: a verified request is cloned, stripped of what the client signed
  with, bound to the endpoint, given the captured body and signed with the real credential.

  The signer of the AWS SDK, the credential provider and the clock are arguments; a provider that panics answers \<open>None\<close>. The
  private directory of a spool file is part of \<open>spool_io\<close>.
\<close>

section \<open>Options\<close>

record credentials =
  cr_AccessKeyID :: string
  cr_SecretAccessKey :: string
  cr_SessionToken :: string

type_synonym provider = "(string + credentials) option"

text \<open>
  The request that is signed: the cloned request with the scheme of its URL and with the body that \<^verbatim>\<open>GetBody\<close> gives views of.
\<close>

record 's outgoing = "'s body_request" +
  og_Scheme :: string
  og_GetBody :: "Body option"

type_synonym 's signer =
  "credentials \<Rightarrow> 's outgoing \<Rightarrow> string \<Rightarrow> string \<Rightarrow> string \<Rightarrow> time \<Rightarrow> 's outgoing option"

record 's ResignOptions =
  ro_Clock :: "(unit \<Rightarrow> time) option"
  ro_Signer :: "'s signer option"
  ro_MaxInMemoryBodyBytes :: int
  ro_MaxSpoolBodyBytes :: int
  ro_AllowUnsignedPayload :: bool

definition WithResignClock :: "(unit \<Rightarrow> time) option \<Rightarrow> 's ResignOptions \<Rightarrow> 's ResignOptions" where
  "WithResignClock clock options = options\<lparr>ro_Clock := clock\<rparr>"

definition WithResignSigner :: "'s signer option \<Rightarrow> 's ResignOptions \<Rightarrow> 's ResignOptions" where
  "WithResignSigner signer options = options\<lparr>ro_Signer := signer\<rparr>"

definition WithResignBodyLimits :: "int \<Rightarrow> int \<Rightarrow> 's ResignOptions \<Rightarrow> 's ResignOptions" where
  "WithResignBodyLimits memory spool options =
     options\<lparr>ro_MaxInMemoryBodyBytes := memory, ro_MaxSpoolBodyBytes := spool\<rparr>"

definition WithResignUnsignedPayload :: "bool \<Rightarrow> 's ResignOptions \<Rightarrow> 's ResignOptions" where
  "WithResignUnsignedPayload allow options = options\<lparr>ro_AllowUnsignedPayload := allow\<rparr>"

record 's Resigner =
  rs_provider :: "provider option"
  rs_options :: "'s ResignOptions"

definition NewResigner ::
  "(unit \<Rightarrow> time) \<Rightarrow> 's signer \<Rightarrow> provider option \<Rightarrow> ('s ResignOptions \<Rightarrow> 's ResignOptions) option list \<Rightarrow>
     sig_error + 's Resigner" where
  "NewResigner wall sdkSigner provider options =
     (if provider = None then
        Inl (SigError CodeMalformedRequest ''upstream credential provider is unavailable'')
      else
        (let defaults = \<lparr>ro_Clock = Some wall, ro_Signer = Some sdkSigner, ro_MaxInMemoryBodyBytes = defaultBodyMemory,
               ro_MaxSpoolBodyBytes = defaultBodySpool, ro_AllowUnsignedPayload = False\<rparr>;
             selected0 = fold (\<lambda>opt s. case opt of None \<Rightarrow> s | Some f \<Rightarrow> f s) options defaults;
             selected = (if ro_Clock selected0 = None then selected0\<lparr>ro_Clock := Some wall\<rparr> else selected0) in
         if ro_Signer selected = None then
           Inl (SigError CodeMalformedRequest ''upstream signer is unavailable'')
         else if ro_MaxInMemoryBodyBytes selected \<le> 0 \<or> ro_MaxSpoolBodyBytes selected \<le> 0
            \<or> ro_MaxInMemoryBodyBytes selected > ro_MaxSpoolBodyBytes selected then Inl bad_limits
         else Inr \<lparr>rs_provider = provider, rs_options = selected\<rparr>))"

section \<open>Credentials and payload hash\<close>

definition no_credentials :: sig_error where
  "no_credentials = SigError CodeMalformedCredential ''upstream credentials are unavailable''"

definition retrieveCredentials :: "provider option \<Rightarrow> sig_error + credentials" where
  "retrieveCredentials provider =
     (case provider of
        None \<Rightarrow> Inl (SigError CodeMalformedRequest ''upstream credential provider is unavailable'')
      | Some (Some (Inr c)) \<Rightarrow>
          if cr_AccessKeyID c = [] \<or> cr_SecretAccessKey c = []
             \<or> contains_any (cr_AccessKeyID c @ cr_SecretAccessKey c @ cr_SessionToken c) [CHR 0x00, CHR 0x0D, CHR 0x0A]
          then Inl no_credentials else Inr c
      | Some _ \<Rightarrow> Inl no_credentials)"

definition validateResignPayloadHeaders :: "http_header \<Rightarrow> bool \<Rightarrow> sig_error option" where
  "validateResignPayloadHeaders header allowUnsigned =
     (case requestHeader header ''content-type'' of (contentType, present, duplicate) \<Rightarrow>
        if duplicate then Some (SigError CodeMalformedRequest ''content type is duplicated'')
        else if present \<and> isEventStreamContentType contentType then
          Some (SigError CodeUnsupportedPayload ''event stream payloads are unsupported'')
        else
          (case requestHeader header ''x-amz-content-sha256'' of (value0, present, duplicate) \<Rightarrow>
             if duplicate then Some (SigError CodeMalformedRequest ''payload hash header is duplicated'')
             else if \<not> present then None
             else
               (let v = trim_space value0 in
                if v = ''UNSIGNED-PAYLOAD'' then
                  (if \<not> allowUnsigned then Some (SigError CodeUnsupportedPayload ''unsigned payloads are disabled'')
                   else None)
                else if v \<in> set streaming_modes then
                  Some (SigError CodeUnsupportedPayload ''streaming payloads are unsupported'')
                else if v = [] then Some (SigError CodeUnsupportedPayload ''payload hash is empty'')
                else if \<not> validPayloadHash v then
                  Some (SigError CodeUnsupportedPayload ''payload hash encoding is unsupported'')
                else None)))"

definition hexDigit :: "char \<Rightarrow> int" where
  "hexDigit c =
     (if byte_between CHR ''0'' CHR ''9'' c then int (ord c - ord CHR ''0'')
      else if byte_between CHR ''a'' CHR ''f'' c then int (ord c - ord CHR ''a'') + 10
      else if byte_between CHR ''A'' CHR ''F'' c then int (ord c - ord CHR ''A'') + 10
      else - 1)"

text \<open>Two digits for each byte of the result; an odd digit at the end is not read.\<close>

fun hexDecode :: "string \<Rightarrow> string option" where
  "hexDecode (h # l # s) =
     (if hexDigit h < 0 \<or> hexDigit l < 0 then None
      else map_option ((#) (char_of (nat (16 * hexDigit h + hexDigit l)))) (hexDecode s))"
| "hexDecode _ = Some []"

fun or_differences :: "nat \<Rightarrow> string \<Rightarrow> string \<Rightarrow> nat" where
  "or_differences acc (a # as) (b # bs) = or_differences (Bit_Operations.or acc (Bit_Operations.xor (ord a) (ord b))) as bs"
| "or_differences acc _ _ = acc"

definition subtleCompare :: "string \<Rightarrow> string \<Rightarrow> int" where
  "subtleCompare left right =
     (if length left \<noteq> length right then 0 else if or_differences 0 left right = 0 then 1 else 0)"

definition resignPayloadHash :: "http_header \<Rightarrow> Body option \<Rightarrow> bool \<Rightarrow> sig_error + string" where
  "resignPayloadHash header body allowUnsigned =
     (case requestHeader header ''content-type'' of (contentType, ctPresent, ctDuplicate) \<Rightarrow>
        if ctDuplicate then Inl (SigError CodeMalformedRequest ''content type is duplicated'')
        else if ctPresent \<and> isEventStreamContentType contentType then
          Inl (SigError CodeUnsupportedPayload ''event stream payloads are unsupported'')
        else
          (case requestHeader header ''x-amz-content-sha256'' of (value0, present, duplicate) \<Rightarrow>
             if duplicate then Inl (SigError CodeMalformedRequest ''payload hash header is duplicated'')
             else
               (let v = trim_space value0 in
                if present \<and> v = ''UNSIGNED-PAYLOAD'' then
                  (if \<not> allowUnsigned then Inl (SigError CodeUnsupportedPayload ''unsigned payloads are disabled'')
                   else Inr v)
                else if present \<and> \<not> validPayloadHash v then
                  Inl (SigError CodeUnsupportedPayload ''payload hash encoding is unsupported'')
                else if body = None then Inl (SigError CodeMalformedRequest ''request body is unavailable'')
                else
                  (let actual = Body_SHA256 body in
                   if present then
                     (case (hexDecode v, hexDecode actual) of
                        (Some provided, Some actualBytes) \<Rightarrow>
                          if length provided \<noteq> length actualBytes \<or> subtleCompare provided actualBytes \<noteq> 1
                          then Inl (SigError CodeInvalidSignature ''payload hash does not match request body'')
                          else Inr v
                      | _ \<Rightarrow> Inl (SigError CodeInvalidSignature ''payload hash does not match request body''))
                   else Inr actual))))"

section \<open>Headers and query\<close>

definition deleteHeaderFold :: "http_header \<Rightarrow> string \<Rightarrow> http_header" where
  "deleteHeaderFold header name = filter (\<lambda>(key, _). \<not> equal_fold key name) header"

definition nominated_headers :: "http_header \<Rightarrow> string list" where
  "nominated_headers header =
     filter (\<lambda>name. name \<noteq> [])
       (concat (map (\<lambda>(key, vs). if equal_fold key ''connection''
                                 then concat (map (\<lambda>v. map trim_space (split_byte CHR '','' v)) vs) else []) header))"

definition forwarding_header :: "string \<Rightarrow> bool" where
  "forwarding_header key \<longleftrightarrow> (let lower = to_lower key in has_prefix lower ''x-forwarded-'' \<or> lower = ''forwarded'')"

definition scrubbed_names :: "string list" where
  "scrubbed_names = [''authorization'', ''proxy-authorization'', ''proxy-authenticate'', ''proxy-connection'', ''connection'',
     ''keep-alive'', ''te'', ''trailer'', ''transfer-encoding'', ''upgrade'', ''via'', ''host'', ''x-amz-algorithm'',
     ''x-amz-credential'', ''x-amz-signature'', ''x-amz-signedheaders'', ''x-amz-expires'', ''x-amz-date'',
     ''x-amz-security-token'', ''date'', ''x-real-ip'']"

definition scrubForwardingHeaders :: "http_header \<Rightarrow> http_header" where
  "scrubForwardingHeaders header =
     (let h1 = foldl deleteHeaderFold header (nominated_headers header);
          h2 = foldl (\<lambda>h (key, _). if forwarding_header key then deleteHeaderFold h key else h) h1 h1
      in foldl deleteHeaderFold h2 scrubbed_names)"

definition isSigningQueryKey :: "string \<Rightarrow> bool" where
  "isSigningQueryKey v \<longleftrightarrow> to_lower v \<in> set signing_parameters"

fun kept_parts :: "string list \<Rightarrow> sig_error + string list" where
  "kept_parts [] = Inr []"
| "kept_parts (part # parts) =
     (let key = (case index_byte part CHR ''='' of None \<Rightarrow> part | Some at \<Rightarrow> take at part) in
      case percentDecodeQuery key of
        Inl e \<Rightarrow> Inl bad_query_escape
      | Inr decoded \<Rightarrow>
          if isSigningQueryKey decoded then kept_parts parts else map_sum id ((#) part) (kept_parts parts))"

definition scrubAndCanonicalizeQuery :: "string \<Rightarrow> sig_error + string" where
  "scrubAndCanonicalizeQuery raw =
     (if raw = [] then Inr []
      else (case kept_parts (split_byte CHR ''&'' raw) of
              Inl e \<Rightarrow> Inl e
            | Inr kept \<Rightarrow> canonicalRawQuery (join ''&'' kept)))"

section \<open>Bodies\<close>

text \<open>
  An inbound request: the request with its captured body and payload mode, and what its \<^verbatim>\<open>GetBody\<close> returns: it has none,
  it fails or returns nil, or it returns a reader.
\<close>

record 's inbound = "'s verified_http" +
  ib_GetBody :: "'s option option"

definition body_unavailable :: sig_error where
  "body_unavailable = SigError CodeBodyReadFailure ''request body is unavailable''"

text \<open>A view is opened and closed again: the error, and the body with its open readers.\<close>

definition validateBodyAvailable :: "files \<Rightarrow> Body \<Rightarrow> sig_error option \<times> Body" where
  "validateBodyAvailable fs b =
     (case Body_Reader fs b of
        Inl _ \<Rightarrow> (Some body_unavailable, b)
      | Inr (r, b') \<Rightarrow> (None, close_view (View_body r :: unit req_body) b'))"

definition captureBodyForResign ::
  "'s verify_env \<Rightarrow> BodyOptions \<Rightarrow> files \<Rightarrow> 's inbound \<Rightarrow> (sig_error + Body) \<times> 's inbound \<times> files" where
  "captureBodyForResign env options fs req =
     (let capture = (\<lambda>rd. NewBody (env_sha env) (env_read env) (env_io env) options rd fs) in
      case br_Body req of
        Reader_body r \<Rightarrow>
          (case ib_GetBody req of
             Some None \<Rightarrow> (Inl body_unavailable, req, fs)
           | Some (Some reader) \<Rightarrow> (case capture (Some reader) of (res, fs') \<Rightarrow> (res, req, fs'))
           | None \<Rightarrow>
               (case capture (Some r) of
                  (Inl e, fs') \<Rightarrow> (Inl e, req\<lparr>br_Body := No_body\<rparr>, fs')
                | (Inr b, fs') \<Rightarrow>
                    (case newReader fs' b of (v, b') \<Rightarrow> (Inr b', req\<lparr>br_Body := v, br_captured := Some b'\<rparr>, fs'))))
      | _ \<Rightarrow> (case capture None of (res, fs') \<Rightarrow> (res, req, fs')))"

text \<open>
  The body in the context of a request is shared with the request it was taken from: its state after an operation is stored
  in both.
\<close>

definition share_body :: "Body \<Rightarrow> 's inbound \<Rightarrow> 's inbound" where
  "share_body b req = req\<lparr>br_captured := map_option (\<lambda>_. b) (br_captured req)\<rparr>"

definition close_shared :: "'s verify_env \<Rightarrow> files \<Rightarrow> Body \<Rightarrow> 's inbound \<Rightarrow> 's inbound \<times> files" where
  "close_shared env fs b req =
     (case Body_Close (env_reader_err env) (env_remove_err env) fs b of (_, b', fs') \<Rightarrow> (share_body b' req, fs'))"

definition attachBody :: "files \<Rightarrow> 's outgoing \<Rightarrow> Body \<Rightarrow> Body \<times> 's outgoing" where
  "attachBody fs req b =
     (case newReader fs b of (v, b') \<Rightarrow>
        (b', req\<lparr>br_captured := Some b', br_Body := v, og_GetBody := Some b', rq_ContentLength := bd_size b\<rparr>))"

definition payloadModeFromRequest :: "'s inbound option \<Rightarrow> string" where
  "payloadModeFromRequest req = (case req of None \<Rightarrow> PayloadHashUnsupported | Some r \<Rightarrow> vh_payload_mode r)"

section \<open>Signing again\<close>

text \<open>The checks before the body is taken: the scope and the query of the new request.\<close>

definition resign_scope :: "AWSEndpoint \<Rightarrow> string \<times> string" where
  "resign_scope endpoint =
     (if ep_SigningRegion endpoint = [] \<and> \<not> AWSEndpoint_IsGlobal endpoint then ep_Region endpoint
      else ep_SigningRegion endpoint,
      if ep_SigningService endpoint = [] then ep_Service endpoint else ep_SigningService endpoint)"

definition resign_allows_unsigned :: "'s Resigner \<Rightarrow> 's inbound \<Rightarrow> bool" where
  "resign_allows_unsigned r req \<longleftrightarrow>
     ro_AllowUnsignedPayload (rs_options r) \<or> payloadModeFromRequest (Some req) = PayloadHashUnsigned"

definition resign_checks ::
  "'s verify_env \<Rightarrow> 's Resigner \<Rightarrow> 's inbound \<Rightarrow> url \<Rightarrow> AWSEndpoint \<Rightarrow> sig_error + string" where
  "resign_checks env r req u endpoint =
     (if AWSEndpoint_Validate endpoint \<noteq> None then Inl (SigError CodeEndpointMismatch ''endpoint metadata is invalid'')
      else
        (case verifyRequestEndpoint (env_idna env) req endpoint of
           Some e \<Rightarrow> Inl e
         | None \<Rightarrow>
             if fst (resign_scope endpoint) = [] \<or> snd (resign_scope endpoint) = [] then
               Inl (SigError CodeEndpointMismatch ''endpoint signing identity is unavailable'')
             else
               (case scrubAndCanonicalizeQuery (url_RawQuery u) of
                  Inl e \<Rightarrow> Inl e
                | Inr query \<Rightarrow>
                    (case validateResignPayloadHeaders (rq_Header req) (resign_allows_unsigned r req) of
                       Some e \<Rightarrow> Inl e
                     | None \<Rightarrow> Inr query))))"

definition resign_body ::
  "'s verify_env \<Rightarrow> 's Resigner \<Rightarrow> files \<Rightarrow> 's inbound \<Rightarrow> (sig_error + Body) \<times> 's inbound \<times> files" where
  "resign_body env r fs req =
     (case br_captured req of
        Some b \<Rightarrow>
          (case validateBodyAvailable fs b of
             (Some e, b') \<Rightarrow> (case close_shared env fs b' req of (req', fs') \<Rightarrow> (Inl e, req', fs'))
           | (None, b') \<Rightarrow> (Inr b', share_body b' req, fs))
      | None \<Rightarrow>
          captureBodyForResign env \<lparr>bo_MaxInMemoryBytes = ro_MaxInMemoryBodyBytes (rs_options r),
            bo_MaxSpoolBytes = ro_MaxSpoolBodyBytes (rs_options r)\<rparr> fs req)"

text \<open>The clone of the request before its body: bound to the endpoint and stripped.\<close>

definition outgoing_request :: "'s inbound \<Rightarrow> url \<Rightarrow> AWSEndpoint \<Rightarrow> string \<Rightarrow> 's outgoing" where
  "outgoing_request req u endpoint query =
     \<lparr>rq_Method = rq_Method req,
      rq_URL = Some (u\<lparr>url_User := False, url_Host := ep_Host endpoint, url_RawQuery := query\<rparr>),
      rq_Host = ep_Host endpoint, rq_Header = scrubForwardingHeaders (rq_Header req),
      rq_ContentLength = rq_ContentLength req, br_Body = br_Body req, br_captured = None, og_Scheme = ''https'', og_GetBody = None\<rparr>"

text \<open>The credential, the clock and the signature, in this order.\<close>

definition sign_outgoing ::
  "'s Resigner \<Rightarrow> 's outgoing \<Rightarrow> AWSEndpoint \<Rightarrow> string \<Rightarrow> sig_error + 's outgoing" where
  "sign_outgoing r out endpoint payloadHash =
     (case retrieveCredentials (rs_provider r) of
        Inl e \<Rightarrow> Inl e
      | Inr creds \<Rightarrow>
          (let signingTime = the (ro_Clock (rs_options r)) () in
           if time_is_zero signingTime then Inl (SigError CodeInvalidTimestamp ''signing clock is invalid'')
           else
             (case the (ro_Signer (rs_options r)) creds out payloadHash (snd (resign_scope endpoint)) (fst (resign_scope endpoint)) signingTime of
                None \<Rightarrow> Inl (SigError CodeInvalidSignature ''upstream signing failed'')
              | Some out' \<Rightarrow> Inr out')))"

definition resign_request ::
  "'s verify_env \<Rightarrow> 's Resigner \<Rightarrow> files \<Rightarrow> 's inbound \<Rightarrow> url \<Rightarrow> AWSEndpoint \<Rightarrow>
     (sig_error + 's outgoing) \<times> 's inbound \<times> files" where
  "resign_request env r fs req u endpoint =
     (case resign_checks env r req u endpoint of
        Inl e \<Rightarrow>
          (case br_captured req of
             None \<Rightarrow> (Inl e, req, fs)
           | Some b \<Rightarrow> (case close_shared env fs b req of (req', fs') \<Rightarrow> (Inl e, req', fs')))
      | Inr query \<Rightarrow>
          (case resign_body env r fs req of
             (Inl e, req1, fs1) \<Rightarrow> (Inl e, req1, fs1)
           | (Inr b, req1, fs1) \<Rightarrow>
               (case resignPayloadHash (rq_Header req) (Some b) (resign_allows_unsigned r req) of
                  Inl e \<Rightarrow> (case close_shared env fs1 b req1 of (req', fs') \<Rightarrow> (Inl e, req', fs'))
                | Inr payloadHash \<Rightarrow>
                    (case attachBody fs1 (outgoing_request req1 u endpoint query) b of (b', out) \<Rightarrow>
                       (case sign_outgoing r out endpoint payloadHash of
                          Inl e \<Rightarrow> (case close_shared env fs1 b' req1 of (req', fs') \<Rightarrow> (Inl e, req', fs'))
                        | Inr out' \<Rightarrow> (Inr out', share_body b' req1, fs1))))))"

definition Resigner_Resign ::
  "'s verify_env \<Rightarrow> 's Resigner option \<Rightarrow> files \<Rightarrow> 's inbound option \<Rightarrow> AWSEndpoint \<Rightarrow>
     (sig_error + 's outgoing) \<times> 's inbound option \<times> files" where
  "Resigner_Resign env resigner fs req endpoint =
     (case resigner of
        None \<Rightarrow> (Inl (SigError CodeMalformedRequest ''resigner is unavailable''), req, fs)
      | Some r \<Rightarrow>
          if rs_provider r = None then (Inl (SigError CodeMalformedRequest ''resigner is unavailable''), req, fs)
          else
            (case req of
               None \<Rightarrow> (Inl url_unavailable, None, fs)
             | Some q \<Rightarrow>
                 (case rq_URL q of
                    None \<Rightarrow> (Inl url_unavailable, Some q, fs)
                  | Some u \<Rightarrow>
                      (case resign_request env r fs q u endpoint of (res, q', fs') \<Rightarrow> (res, Some q', fs')))))"

definition ReSign ::
  "'s verify_env \<Rightarrow> (unit \<Rightarrow> time) \<Rightarrow> 's signer \<Rightarrow> files \<Rightarrow> 's inbound option \<Rightarrow> AWSEndpoint \<Rightarrow> provider option \<Rightarrow>
     ('s ResignOptions \<Rightarrow> 's ResignOptions) option list \<Rightarrow> (sig_error + 's outgoing) \<times> 's inbound option \<times> files" where
  "ReSign env wall sdkSigner fs req endpoint provider options =
     (case NewResigner wall sdkSigner provider options of
        Inl e \<Rightarrow> (Inl e, req, fs)
      | Inr r \<Rightarrow> Resigner_Resign env (Some r) fs req endpoint)"

end
