(* ===== verification/Resign_Safety.thy ===== *)
theory Resign_Safety
  imports Sigv4_Resign Sigv4_Authentic
begin

text \<open>
  What a resigned request is: the headers and the query that are left of the client's, the body and its hash; that a verified request
  is signed again; that a failure releases the body; and where the query that is forwarded differs from the
  query that was decoded.
\<close>

section \<open>Headers\<close>

lemma equal_fold_equiv: "equal_fold a b \<Longrightarrow> equal_fold b c \<Longrightarrow> equal_fold a c" "equal_fold a b \<longleftrightarrow> equal_fold b a" "equal_fold a a"
  by (auto simp: equal_fold_def)

lemma fold_delete:
  "foldl deleteHeaderFold h names = filter (\<lambda>(k, _). \<forall>n \<in> set names. \<not> equal_fold k n) h"
  by (induction names arbitrary: h) (auto simp: deleteHeaderFold_def intro!: filter_cong)

text \<open>A header is forwarded unless the client nominates it, it is on the fixed list, or it names a forwarding header.\<close>

definition forwardable :: "http_header \<Rightarrow> string \<Rightarrow> bool" where
  "forwardable h k \<longleftrightarrow> (\<forall>n \<in> set (nominated_headers h) \<union> set scrubbed_names. \<not> equal_fold k n) \<and>
     (\<forall>(k', _) \<in> set h. forwarding_header k' \<longrightarrow> \<not> equal_fold k k')"

lemma fold_forwarding:
  "foldl (\<lambda>h (k, _). if forwarding_header k then deleteHeaderFold h k else h) h ks =
     filter (\<lambda>(k, _). \<forall>(k', _) \<in> set ks. forwarding_header k' \<longrightarrow> \<not> equal_fold k k') h"
proof (induction ks arbitrary: h)
  case (Cons p ks)
  obtain k vs where "p = (k, vs)" by (cases p)
  then show ?case unfolding foldl.simps Cons.IH by (auto simp: deleteHeaderFold_def intro: filter_cong)
qed simp

lemma scrub_forwardable: "scrubForwardingHeaders h = filter (\<lambda>(k, _). forwardable h k) h"
proof -
  let ?nom = "\<lambda>k. \<forall>n \<in> set (nominated_headers h). \<not> equal_fold k n"
  have "forwardable h k \<longleftrightarrow> (\<forall>n \<in> set scrubbed_names. \<not> equal_fold k n) \<and>
      (\<forall>(k', _) \<in> set (filter (\<lambda>(k, _). ?nom k) h). forwarding_header k' \<longrightarrow> \<not> equal_fold k k') \<and> ?nom k" for k
    unfolding forwardable_def using equal_fold_equiv(1) [of k] by fastforce
  then show ?thesis
    by (auto simp: scrubForwardingHeaders_def fold_delete fold_forwarding Let_def intro!: filter_cong)
qed

section \<open>The payload hash\<close>



lemma or_differences_self: "or_differences 0 s s = 0"
  by (induction s) simp_all

lemma subtleCompare_self [simp]: "subtleCompare s s = 1"
  by (simp add: subtleCompare_def or_differences_self)

section \<open>Queries\<close>



section \<open>The stages of a signature\<close>

lemma Resign_ok:
  assumes "Resigner_Resign env (Some r) fs (Some req) endpoint = (Inr out', req', fs')"
  obtains u query b req1 h b' out where "rq_URL req = Some u" "resign_checks env r req u endpoint = Inr query"
    "resign_body env r fs req = (Inr b, req1, fs')"
    "resignPayloadHash (rq_Header req) (Some b) (resign_allows_unsigned r req) = Inr h"
    "attachBody fs' (outgoing_request req1 u endpoint query) b = (b', out)" "sign_outgoing r out endpoint h = Inr out'"
    "req' = Some (share_body b' req1)"
  using assms that
  by (auto simp: Resigner_Resign_def resign_request_def split: if_splits option.splits sum.splits prod.splits)

lemma resign_body_same:
  assumes "resign_body env r fs req = (Inr b, req1, fs')"
  shows "rq_Method req1 = rq_Method req" "rq_Header req1 = rq_Header req"
  using assms
  by (auto simp: resign_body_def captureBodyForResign_def share_body_def Let_def
      split: option.splits prod.splits req_body.splits sum.splits)

lemma attach_fields:
  assumes "attachBody fs out b = (b', out')"
  shows "rq_Method out' = rq_Method out" "rq_URL out' = rq_URL out" "rq_Host out' = rq_Host out" "rq_Header out' = rq_Header out"
    "og_Scheme out' = og_Scheme out" "br_captured out' = Some b'" "og_GetBody out' = Some b'" "rq_ContentLength out' = bd_size b"
    "bd_hash b' = bd_hash b" "bd_size b' = bd_size b" "body_content fs b' = body_content fs b" "bd_closed b' = bd_closed b"
  using assms
  by (auto simp: attachBody_def newReader_def Body_Reader_def body_content_def split: prod.splits sum.splits if_splits option.splits)

lemma sign_ok:
  assumes "sign_outgoing r out endpoint h = Inr out'"
  obtains creds where "retrieveCredentials (rs_provider r) = Inr creds"
    "the (ro_Signer (rs_options r)) creds out h (snd (resign_scope endpoint)) (fst (resign_scope endpoint))
       (the (ro_Clock (rs_options r)) ()) = Some out'"
  using assms that by (auto simp: sign_outgoing_def Let_def split: sum.splits if_splits option.splits)

lemma checks_ok:
  assumes "resign_checks env r req u endpoint = Inr query"
  shows "AWSEndpoint_Validate endpoint = None" "verifyRequestEndpoint (env_idna env) req endpoint = None"
    "fst (resign_scope endpoint) \<noteq> []" "snd (resign_scope endpoint) \<noteq> []"
    "scrubAndCanonicalizeQuery (url_RawQuery u) = Inr query"
  using assms by (auto simp: resign_checks_def split: if_splits option.splits sum.splits)

lemma kept_signing:
  assumes "kept_parts parts = Inr kept" 
  shows "\<forall>part \<in> set kept. \<exists>k. percentDecodeQuery (fst (split_pair part)) = Inr k \<and> \<not> isSigningQueryKey k"
    "set kept \<subseteq> set parts"
  using assms
  by (induction parts arbitrary: kept)
   (auto simp: split_pair_def map_sum_id_Inr Let_def split: sum.splits if_splits option.splits)


lemma those_in: "those (map f xs) = Some ys \<Longrightarrow> y \<in> set ys \<Longrightarrow> \<exists>x \<in> set xs. f x = Some y"
  by (induction xs arbitrary: ys) (auto split: option.splits)

lemma scrubbed_query:
  assumes "scrubAndCanonicalizeQuery raw = Inr q"
  shows "\<exists>ps. query_params q = Some ps \<and> (\<forall>(k, v) \<in> set ps. \<not> isSigningQueryKey k \<and>
     (\<exists>part \<in> set (split_byte CHR ''&'' raw). decode_pair part = Some (k, v)))"
proof (cases "raw = []")
  case True
  then show ?thesis using assms by (simp add: scrubAndCanonicalizeQuery_def query_params_def)
next
  case False
  then obtain kept where k: "kept_parts (split_byte CHR ''&'' raw) = Inr kept" "canonicalRawQuery (join ''&'' kept) = Inr q"
    using assms by (auto simp: scrubAndCanonicalizeQuery_def split: sum.splits)
  obtain ps where ps: "query_params (join ''&'' kept) = Some ps"
    using k(2) by (auto simp: canonicalRawQuery_params split: option.splits)
  obtain qs where qs: "canonicalRawQuery (join ''&'' kept) = Inr (print_params qs)" "mset qs = mset ps"
    using ps by (rule canonicalRawQuery_Some)
  have "\<not> isSigningQueryKey k \<and> (\<exists>part \<in> set (split_byte CHR ''&'' raw). decode_pair part = Some (k, v))"
    if "(k, v) \<in> set ps" for k v
  proof -
    have ne: "kept \<noteq> []" "join ''&'' kept \<noteq> []" using that ps by (auto simp: query_params_def)
    have "\<forall>w \<in> set kept. CHR ''&'' \<notin> set w" using kept_signing(2) [OF k(1)] split_byte_no_sep by blast
    then have "those (map decode_pair kept) = Some ps"
      using ps ne split_byte_join [of kept "CHR ''&''"] by (simp add: query_params_def)
    from those_in [OF this that] obtain part where part: "part \<in> set kept" "decode_pair part = Some (k, v)" by blast
    then show ?thesis using kept_signing [OF k(1)]
      by (fastforce simp: decode_pair_def split: prod.splits sum.splits)
  qed
  then show ?thesis using k(2) qs query_params_print [of qs] mset_eq_setD [OF qs(2)] by auto
qed

text \<open>
  Property C14. What is signed for the upstream is stripped of the client's signature and bound to the endpoint. A request that
  \<^verbatim>\<open>Resign\<close> returns is the signer's answer, under the real credential, the endpoint's scope and the resigner's clock, for a request
  with the method and the path of the original, over HTTPS to the endpoint's host, whose headers are those of the
  original without the nominated, the hop-by-hop, the forwarding and the signing headers, and whose query
  holds only decoded parameters of the original, none of which is a signing parameter.
\<close>

theorem resign_scrubs:
  assumes "Resigner_Resign env (Some r) fs (Some req) endpoint = (Inr signed_out, req', fs')"
  shows "\<exists>creds out h u v ps. retrieveCredentials (rs_provider r) = Inr creds \<and>
     the (ro_Signer (rs_options r)) creds out h (snd (resign_scope endpoint)) (fst (resign_scope endpoint))
       (the (ro_Clock (rs_options r)) ()) = Some signed_out \<and>
     rq_Method out = rq_Method req \<and> rq_Host out = ep_Host endpoint \<and> og_Scheme out = ''https'' \<and>
     rq_URL req = Some u \<and> rq_URL out = Some v \<and> url_Host v = ep_Host endpoint \<and> \<not> url_User v \<and>
     url_Path v = url_Path u \<and> url_RawPath v = url_RawPath u \<and>
     rq_Header out = filter (\<lambda>(k, _). forwardable (rq_Header req) k) (rq_Header req) \<and>
     query_params (url_RawQuery v) = Some ps \<and>
     (\<forall>(k, x) \<in> set ps. \<not> isSigningQueryKey k \<and> (\<exists>part \<in> set (split_byte CHR ''&'' (url_RawQuery u)). decode_pair part = Some (k, x)))"
proof -
  obtain u query b req1 h b' out where s: "rq_URL req = Some u" "resign_checks env r req u endpoint = Inr query"
    "resign_body env r fs req = (Inr b, req1, fs')"
    "attachBody fs' (outgoing_request req1 u endpoint query) b = (b', out)" "sign_outgoing r out endpoint h = Inr signed_out"
    using assms by (rule Resign_ok)
  obtain ps where ps: "query_params query = Some ps" "\<forall>(k, x) \<in> set ps. \<not> isSigningQueryKey k \<and>
      (\<exists>part \<in> set (split_byte CHR ''&'' (url_RawQuery u)). decode_pair part = Some (k, x))"
    using scrubbed_query [OF checks_ok(5) [OF s(2)]] by blast
  obtain creds where c: "retrieveCredentials (rs_provider r) = Inr creds"
    "the (ro_Signer (rs_options r)) creds out h (snd (resign_scope endpoint)) (fst (resign_scope endpoint))
       (the (ro_Clock (rs_options r)) ()) = Some signed_out"
    using s(5) by (rule sign_ok)
  have out: "rq_Method out = rq_Method req" "rq_Host out = ep_Host endpoint" "og_Scheme out = ''https''"
    "rq_Header out = filter (\<lambda>(k, _). forwardable (rq_Header req) k) (rq_Header req)"
    "rq_URL out = Some (u\<lparr>url_User := False, url_Host := ep_Host endpoint, url_RawQuery := query\<rparr>)"
    using attach_fields(1-5) [OF s(4)] resign_body_same [OF s(3)] by (simp_all add: outgoing_request_def scrub_forwardable)
  show ?thesis
    by (intro exI conjI, rule c, rule c, rule out, rule out, rule out, rule s, rule out) (use out ps in auto)
qed


section \<open>After verification\<close>




lemma captured_available:
  assumes "br_captured req = Some b" "\<not> bd_closed b" "body_content fs b = Some data"
  shows "resign_body env r fs req = (Inr b, req, fs)"
  using assms
  by (auto simp: resign_body_def validateBodyAvailable_def Body_Reader_def body_content_def close_view_def share_body_def split: option.splits if_splits)



section \<open>Failures\<close>

text \<open>The files after a body is closed: its spool is gone, unless the body was closed before or the removal fails.\<close>

definition closed_files :: "'s verify_env \<Rightarrow> files \<Rightarrow> Body \<Rightarrow> files" where
  "closed_files env fs b = (if bd_closed b \<or> bd_path b = [] \<or> env_remove_err env \<noteq> None then fs else fs(bd_path b := None))"

text \<open>A request whose body is released, and a body that is held for a request, relative to the files \<open>fs\<close> before.\<close>

definition released :: "'s verify_env \<Rightarrow> files \<Rightarrow> 's inbound \<Rightarrow> 's inbound \<Rightarrow> files \<Rightarrow> bool" where
  "released env fs req req' fs' \<longleftrightarrow>
     (case br_captured req of
        None \<Rightarrow> spool_left (io_remove (env_io env) \<and> env_remove_err env = None) fs fs'
      | Some b \<Rightarrow> fs' = closed_files env fs b \<and> (\<exists>b'. br_captured req' = Some b' \<and> bd_closed b'))"

definition held :: "files \<Rightarrow> 's inbound \<Rightarrow> Body \<Rightarrow> 's inbound \<Rightarrow> files \<Rightarrow> bool" where
  "held fs req b req' fs' \<longleftrightarrow>
     (case br_captured req of
        None \<Rightarrow> \<not> bd_closed b \<and>
          (if bd_path b = [] then fs' = fs else fs (bd_path b) = None \<and> (\<exists>c. fs' = fs(bd_path b \<mapsto> c)))
      | Some b0 \<Rightarrow> fs' = fs \<and> bd_path b = bd_path b0 \<and> bd_closed b = bd_closed b0 \<and> br_captured req' \<noteq> None)"

lemma close_held:
  assumes "held fs req b req1 fs1" "close_shared env fs1 b req1 = (req', fs')"
  shows "released env fs req req' fs'"
  using assms
  by (auto simp: close_shared_def Body_Close_def released_def held_def closed_files_def share_body_def spool_left_def fun_upd_idem Let_def
      split: option.splits if_splits)

lemma new_held:
  assumes "fresh_paths io" "NewBody sha read io options rd fs = (Inr b, fs')"
  shows "\<not> bd_closed b" "if bd_path b = [] then fs' = fs else fs (bd_path b) = None \<and> (\<exists>c. fs' = fs(bd_path b \<mapsto> c))"
proof -
  obtain data where h: "body_holds sha (normalizedBodyOptions options) fs fs' b data"
    using NewBody_correct [OF assms(1), where sha = sha and read = read and options = options and rd = rd and fs = fs] assms(2) by auto
  then show "\<not> bd_closed b" by (simp add: body_holds_def)
  have "fs' = fs(bd_path b \<mapsto> data)" if "bd_path b \<noteq> []"
    using h that by (auto simp: body_holds_def body_content_def)
  with h show "if bd_path b = [] then fs' = fs else fs (bd_path b) = None \<and> (\<exists>c. fs' = fs(bd_path b \<mapsto> c))"
    by (auto simp: body_holds_def)
qed

lemma new_failed:
  "fresh_paths io \<Longrightarrow> NewBody sha read io options rd fs = (Inl e, fs') \<Longrightarrow> spool_left (io_remove io) fs fs'"
  using NewBody_correct [where sha = sha and read = read and options = options and rd = rd and fs = fs and io = io] by auto

lemma newReader_body:
  "newReader fs b = (v, b') \<Longrightarrow> bd_closed b' = bd_closed b \<and> bd_path b' = bd_path b"
  by (auto simp: newReader_def Body_Reader_def split: sum.splits if_splits option.splits)

lemma held_same:
  "held fs req b req' fs' \<Longrightarrow> bd_closed b' = bd_closed b \<Longrightarrow> bd_path b' = bd_path b \<Longrightarrow> held fs req b' req' fs'"
  by (auto simp: held_def split: option.splits)

lemma capture_held:
  assumes "fresh_paths (env_io env)" "br_captured req = None" "captureBodyForResign env options fs req = (res, req', fs')"
  shows "case res of Inl _ \<Rightarrow> spool_left (io_remove (env_io env)) fs fs' | Inr b \<Rightarrow> held fs req b req' fs'"
proof -
  have new: "held fs req b q f" if "NewBody (env_sha env) (env_read env) (env_io env) options rd fs = (Inr b, f)" for rd b q f
    using new_held [OF assms(1) that] assms(2) by (simp add: held_def)
  show ?thesis
    using assms(3)
    by (auto simp: captureBodyForResign_def Let_def dest: new new_failed [OF assms(1)]
        dest!: newReader_body intro: held_same [OF new] split: req_body.splits option.splits prod.splits sum.splits)
qed

lemma resign_body_held:
  assumes "fresh_paths (env_io env)" "resign_body env r fs req = (res, req', fs')"
  shows "case res of Inl _ \<Rightarrow> released env fs req req' fs' | Inr b \<Rightarrow> held fs req b req' fs'"
proof (cases "br_captured req")
  case None
  then have "captureBodyForResign env \<lparr>bo_MaxInMemoryBytes = ro_MaxInMemoryBodyBytes (rs_options r),
      bo_MaxSpoolBytes = ro_MaxSpoolBodyBytes (rs_options r)\<rparr> fs req = (res, req', fs')"
    using assms(2) by (simp add: resign_body_def)
  from capture_held [OF assms(1) None this] None show ?thesis
    by (auto simp: released_def spool_left_def split: sum.splits)
next
  case (Some b)
  obtain e b1 where v: "validateBodyAvailable fs b = (e, b1)" by (cases "validateBodyAvailable fs b")
  then have "bd_closed b1 = bd_closed b" "bd_path b1 = bd_path b"
    by (auto simp: validateBodyAvailable_def Body_Reader_def close_view_def split: sum.splits if_splits option.splits)
  then have "held fs req b1 req fs" "held fs req b1 (share_body b1 req) fs"
    using Some by (simp_all add: held_def share_body_def)
  with Some v assms(2) close_held [of fs req b1 req fs env] show ?thesis
    by (auto simp: resign_body_def split: prod.splits option.splits)
qed

text \<open>
  Property C39. A request that is not signed again is released. When \<^verbatim>\<open>Resign\<close> fails, because of the endpoint, the
  query, the payload, the credential, the clock or the signer, the captured body of the request is closed, and its spool file
  is removed where the body was still open and \<^verbatim>\<open>os.Remove\<close> succeeds; no other file changes. A request without a captured
  body leaves the files as they were: what was captured for this signature is removed too, so that at most one new file stays, and only
  where a removal failed. A resigner without a credential provider and a request without a URL are refused before the body is looked at and
  are not covered; \<^verbatim>\<open>os.CreateTemp\<close> is taken to give a path that is new, as documented.
\<close>

theorem resign_failure_releases:
  assumes "fresh_paths (env_io env)" "rs_provider r \<noteq> None" "rq_URL req \<noteq> None"
    and "Resigner_Resign env (Some r) fs (Some req) endpoint = (Inl err, Some req', fs')"
  shows "case br_captured req of
      None \<Rightarrow> fs' = fs \<or>
        \<not> (io_remove (env_io env) \<and> env_remove_err env = None) \<and>
        (\<exists>path content. path \<noteq> [] \<and> fs path = None \<and> fs' = fs(path \<mapsto> content))
    | Some b \<Rightarrow> (\<exists>b'. br_captured req' = Some b' \<and> bd_closed b') \<and>
        fs' = (if bd_closed b \<or> bd_path b = [] \<or> env_remove_err env \<noteq> None then fs else fs(bd_path b := None))"
proof -
  obtain u where u: "rq_URL req = Some u" using assms(3) by blast
  have r: "resign_request env r fs req u endpoint = (Inl err, req', fs')"
    using assms(2,4) u by (auto simp: Resigner_Resign_def split: prod.splits)
  have "released env fs req req' fs'"
  proof (cases "resign_checks env r req u endpoint")
    case (Inl e)
    have "held fs req b req fs" if "br_captured req = Some b" for b using that by (simp add: held_def)
    then show ?thesis
      using r Inl close_held [of fs req _ req fs env] by (auto simp: resign_request_def released_def split: option.splits prod.splits)
  next
    case (Inr query)
    obtain res req1 fs1 where b: "resign_body env r fs req = (res, req1, fs1)" by (cases "resign_body env r fs req")
    show ?thesis
    proof (cases res)
      case (Inl e)
      then show ?thesis using r Inr b resign_body_held [OF assms(1) b] by (simp add: resign_request_def)
    next
      case body: (Inr b1)
      have h: "held fs req b1 req1 fs1" using resign_body_held [OF assms(1) b] body by simp
      obtain b' out where a: "attachBody fs1 (outgoing_request req1 u endpoint query) b1 = (b', out)" by fastforce
      then have "held fs req b' req1 fs1"
        using held_same [OF h] newReader_body by (fastforce simp: attachBody_def split: prod.splits)
      then show ?thesis
        using r Inr b body a h close_held by (auto simp: resign_request_def split: sum.splits prod.splits)
    qed
  qed
  then show ?thesis by (auto simp: released_def closed_files_def spool_left_def split: option.splits)
qed

section \<open>Samples\<close>

definition sample_signer :: "string signer" where
  "sample_signer creds out h service region t = Some (out\<lparr>rq_Header := (''Authorization'', [cr_AccessKeyID creds]) # rq_Header out\<rparr>)"

definition sample_resigner :: "string Resigner" where
  "sample_resigner = \<lparr>rs_provider = Some (Some (Inr \<lparr>cr_AccessKeyID = ''AKIA'', cr_SecretAccessKey = ''real'', cr_SessionToken = []\<rparr>)),
     rs_options = \<lparr>ro_Clock = Some (\<lambda>_. sample_now), ro_Signer = Some sample_signer, ro_MaxInMemoryBodyBytes = 8, ro_MaxSpoolBodyBytes = 16,
       ro_AllowUnsignedPayload = False\<rparr>\<rparr>"

definition sample_captured :: Body where
  "sample_captured = \<lparr>bd_memory = ''abc'', bd_path = [], bd_size = 3, bd_hash = replicate 32 CHR 0x11, bd_readers = 0, bd_closed = False, bd_closeErr = None\<rparr>"

definition sample_inbound :: "string inbound" where
  "sample_inbound = \<lparr>rq_Method = ''POST'', rq_URL = Some sample_url, rq_Host = ep_Host sample_endpoint,
     rq_Header = rq_Header sample_signed, rq_ContentLength = 3, br_Body = No_body, br_captured = Some sample_captured,
     vh_payload_mode = PayloadHashSHA256, ib_GetBody = None\<rparr>"

lemma sample_resigner_ready:
  "retrieveCredentials (rs_provider sample_resigner) = Inr \<lparr>cr_AccessKeyID = ''AKIA'', cr_SecretAccessKey = ''real'', cr_SessionToken = []\<rparr>"
  "\<not> time_is_zero (the (ro_Clock (rs_options sample_resigner)) ())" "the (ro_Signer (rs_options sample_resigner)) = sample_signer"
  "rs_provider sample_resigner \<noteq> None"
  by (simp_all add: sample_resigner_def retrieveCredentials_def contains_any_def sample_now_def time_is_zero_def)

lemma sample_checks:
  "resign_checks sample_env sample_resigner sample_inbound sample_url sample_endpoint = Inr ''a=1&b=2''"
proof -
  have "scrubAndCanonicalizeQuery ''b=2&a=1'' = Inr ''a=1&b=2''" by code_simp
  moreover have "verifyRequestEndpoint (env_idna sample_env) sample_inbound sample_endpoint = None"
    using sample_host by (simp add: verifyRequestEndpoint_def sample_inbound_def sample_fields sample_url_def)
  moreover have "validateResignPayloadHeaders (rq_Header sample_inbound) a = None" for a
    by (simp add: validateResignPayloadHeaders_def sample_inbound_def sample_request_headers)
  moreover have "fst (resign_scope sample_endpoint) \<noteq> []" "snd (resign_scope sample_endpoint) \<noteq> []" by code_simp+
  ultimately show ?thesis using sample_endpoint_valid by (simp add: resign_checks_def sample_url_def)
qed

lemma sample_resigned:
  "\<exists>out req'. Resigner_Resign sample_env (Some sample_resigner) Map.empty (Some sample_inbound) sample_endpoint = (Inr out, Some req', Map.empty)"
proof -
  have "br_captured sample_inbound = Some sample_captured" "\<not> bd_closed sample_captured" "body_content Map.empty sample_captured = Some ''abc''"
    by (simp_all add: sample_inbound_def sample_captured_def body_content_def)
  then have b: "resign_body sample_env sample_resigner Map.empty sample_inbound = (Inr sample_captured, sample_inbound, Map.empty)"
    by (rule captured_available)
  have h: "resignPayloadHash (rq_Header sample_inbound) (Some sample_captured) a = Inr (Body_SHA256 (Some sample_captured))" for a
    by (simp add: resignPayloadHash_def sample_inbound_def sample_request_headers)
  obtain b' out where a: "attachBody Map.empty (outgoing_request sample_inbound sample_url sample_endpoint ''a=1&b=2'') sample_captured = (b', out)"
    by fastforce
  obtain out' where s: "sign_outgoing sample_resigner out sample_endpoint (Body_SHA256 (Some sample_captured)) = Inr out'"
    using sample_resigner_ready by (simp add: sign_outgoing_def sample_signer_def)
  have u: "rq_URL sample_inbound = Some sample_url" by (simp add: sample_inbound_def)
  have "resign_request sample_env sample_resigner Map.empty sample_inbound sample_url sample_endpoint =
      (Inr out', share_body b' sample_inbound, Map.empty)"
    by (simp add: resign_request_def sample_checks b h a s)
  then show ?thesis using sample_resigner_ready(4) by (simp add: Resigner_Resign_def u)
qed

lemma resign_scrubs_witness:
  "\<exists>out req'. Resigner_Resign sample_env (Some sample_resigner) Map.empty (Some sample_inbound) sample_endpoint = (Inr out, req', Map.empty) \<and>
     (\<exists>creds. retrieveCredentials (rs_provider sample_resigner) = Inr creds)"
proof -
  obtain out req' where r: "Resigner_Resign sample_env (Some sample_resigner) Map.empty (Some sample_inbound) sample_endpoint = (Inr out, Some req', Map.empty)"
    using sample_resigned by blast
  from resign_scrubs [OF r] r show ?thesis by blast
qed


lemma resign_failure_releases_witness:
  "\<exists>err req'. Resigner_Resign sample_env (Some sample_resigner) Map.empty (Some sample_inbound) (sample_endpoint\<lparr>ep_Host := []\<rparr>) = (Inl err, Some req', Map.empty) \<and>
     (\<exists>b'. br_captured req' = Some b' \<and> bd_closed b')"
proof -
  have "AWSEndpoint_Validate (sample_endpoint\<lparr>ep_Host := []\<rparr>) \<noteq> None" by code_simp
  moreover have c: "rq_URL sample_inbound = Some sample_url" "br_captured sample_inbound = Some sample_captured" by (simp_all add: sample_inbound_def)
  moreover have "\<not> bd_closed sample_captured" "bd_path sample_captured = []" by (simp_all add: sample_captured_def)
  ultimately obtain err req' where r: "Resigner_Resign sample_env (Some sample_resigner) Map.empty (Some sample_inbound) (sample_endpoint\<lparr>ep_Host := []\<rparr>) = (Inl err, Some req', Map.empty)"
    using sample_resigner_ready(4) 
    by (auto simp: Resigner_Resign_def resign_request_def resign_checks_def close_shared_def Body_Close_def Let_def)
  have f: "fresh_paths (env_io sample_env)" by (simp add: sample_env_def sample_io_fresh)
  from resign_failure_releases [OF f sample_resigner_ready(4) _ r] c r show ?thesis by simp
qed

end
