(* ===== verification/Resign_Query.thy ===== *)
theory Resign_Query
  imports Sigv4_Resign Wire_Decode
begin

text \<open>
  The query that is decided on and the query that is forwarded. The decoder reads a query as \<^verbatim>\<open>url.QueryUnescape\<close> does, with a plus
  sign for a space; the canonical query that is signed and forwarded reads a plus sign as itself. The two agree on every query
  without a plus sign.
\<close>

section \<open>The two readings of a component\<close>

lemma hexValue_unhex: "hexValue c = (case unhex c of None \<Rightarrow> - 1 | Some x \<Rightarrow> int x)"
  by (auto simp: unhex_def hexValue_def between_iff ord_def)

lemma unescape_decode:
  "CHR ''+'' \<notin> set s \<Longrightarrow> query_unescape s = (case percentDecodeQuery s of Inl _ \<Rightarrow> None | Inr d \<Rightarrow> Some d)"
proof (induction s rule: query_unescape.induct)
  case (2 c s)
  show ?case
  proof (cases "c = CHR ''%''")
    case False
    then show ?thesis using 2 by (auto split: sum.split)
  next
    case True
    show ?thesis
    proof (cases "\<exists>a b r. s = a # b # r")
      case False
      then show ?thesis using True by (simp split: list.split)
    next
      case s: True
      then obtain a b r where "s = a # b # r" by blast
      then show ?thesis
        using True 2 by (cases "unhex a"; cases "unhex b")
          (simp_all add: hexValue_unhex nat_add_distrib nat_mult_distrib split: sum.split)
    qed
  qed
qed simp

definition form_pair :: "string \<Rightarrow> (string \<times> string) option" where
  "form_pair f = (let p = splitn_byte 2 CHR ''='' f in
     case (query_unescape (p ! 0), if length p = 2 then query_unescape (p ! 1) else Some []) of
       (Some k, Some x) \<Rightarrow> Some (k, x) | _ \<Rightarrow> None)"

lemma cut_index:
  "cut c s = (case index_byte s c of None \<Rightarrow> (s, [], False) | Some at \<Rightarrow> (take at s, drop (Suc at) s, True))"
proof (induction s)
  case (Cons x s)
  have "cut c (x # s) = (if x = c then ([], s, True) else case cut c s of (a, b, found) \<Rightarrow> (x # a, b, found))"
    by (cases "dropWhile (\<lambda>x. x \<noteq> c) s") (simp_all add: cut_def del: dropWhile_eq_Nil_conv)
  then show ?case using Cons.IH by (simp split: option.split)
qed (simp add: cut_def)

lemma splitn_pair: "splitn_byte 2 c s = (case index_byte s c of None \<Rightarrow> [s] | Some at \<Rightarrow> [take at s, drop (Suc at) s])"
  by (simp add: numeral_2_eq_2 cut_index split: option.split)

lemma form_decode:
  assumes "CHR ''+'' \<notin> set f"
  shows "form_pair f = decode_pair f"
proof -
  have "CHR ''+'' \<notin> set (take n f)" "CHR ''+'' \<notin> set (drop n f)" for n
    using assms by (auto dest: in_set_takeD in_set_dropD)
  with assms show ?thesis
    by (auto simp: form_pair_def decode_pair_def split_pair_def splitn_pair unescape_decode split: option.splits sum.splits)
qed

section \<open>The parsed query\<close>

definition fields_ok :: "DecodeLimits \<Rightarrow> string list \<Rightarrow> (string \<times> string) list \<Rightarrow> bool" where
  "fields_ok l fs ps \<longleftrightarrow> [] \<notin> set fs \<and> those (map form_pair fs) = Some ps \<and>
     (\<forall>(k, x) \<in> set ps. k \<noteq> [] \<and> int (length k) \<le> dl_MaxTokenBytes l \<and> int (length x) \<le> dl_MaxTokenBytes l)"

abbreviation values_of :: "(string \<times> string) list \<Rightarrow> url_values" where
  "values_of \<equiv> map (\<lambda>(k, x). (k, [x]))"

lemma fields_ok_Cons:
  "fields_ok l (f # fs) ps \<longleftrightarrow> (\<exists>k x ps'. ps = (k, x) # ps' \<and> f \<noteq> [] \<and> form_pair f = Some (k, x) \<and> k \<noteq> [] \<and>
     int (length k) \<le> dl_MaxTokenBytes l \<and> int (length x) \<le> dl_MaxTokenBytes l \<and> fields_ok l fs ps')"
  by (auto simp: fields_ok_def split: option.splits)

lemma query_fields_step:
  "query_fields l (f # fs) v = Inr r \<longleftrightarrow> (\<exists>k x. f \<noteq> [] \<and> form_pair f = Some (k, x) \<and> k \<noteq> [] \<and>
     int (length k) \<le> dl_MaxTokenBytes l \<and> int (length x) \<le> dl_MaxTokenBytes l \<and> k \<notin> fst ` set v \<and>
     int (length v + 1) \<le> dl_MaxParameters l \<and> query_fields l fs (v @ [(k, [x])]) = Inr r)"
  by (auto simp: form_pair_def Let_def split: option.splits if_splits)

lemma query_fields_iff:
  "query_fields l fs v = Inr r \<longleftrightarrow> (\<exists>ps. fields_ok l fs ps \<and> r = v @ values_of ps \<and>
     (fs \<noteq> [] \<longrightarrow> int (length r) \<le> dl_MaxParameters l) \<and> distinct (map fst ps) \<and> set (map fst ps) \<inter> fst ` set v = {})"
proof (induction fs arbitrary: v)
  case Nil
  show ?case by (auto simp: fields_ok_def)
next
  case (Cons f fs)
  show ?case (is "?L \<longleftrightarrow> ?R")
  proof
    assume ?L
    then obtain k x ps where *: "f \<noteq> []" "form_pair f = Some (k, x)" "k \<noteq> []" "int (length k) \<le> dl_MaxTokenBytes l"
      "int (length x) \<le> dl_MaxTokenBytes l" "k \<notin> fst ` set v" "int (length v + 1) \<le> dl_MaxParameters l" "fields_ok l fs ps"
      "r = (v @ [(k, [x])]) @ values_of ps" "fs \<noteq> [] \<longrightarrow> int (length r) \<le> dl_MaxParameters l" "distinct (map fst ps)"
      "set (map fst ps) \<inter> fst ` set (v @ [(k, [x])]) = {}"
      unfolding query_fields_step Cons.IH by blast
    have "fields_ok l (f # fs) ((k, x) # ps)" unfolding fields_ok_Cons using * by blast
    moreover have "fs = [] \<Longrightarrow> ps = []" using *(8) by (simp add: fields_ok_def)
    ultimately show ?R using * by (intro exI [of _ "(k, x) # ps"]) (cases "fs = []"; auto)
  next
    assume ?R
    then obtain k x ps where *: "f \<noteq> []" "form_pair f = Some (k, x)" "k \<noteq> []" "int (length k) \<le> dl_MaxTokenBytes l"
      "int (length x) \<le> dl_MaxTokenBytes l" "fields_ok l fs ps" "r = v @ values_of ((k, x) # ps)"
      "int (length r) \<le> dl_MaxParameters l" "distinct (map fst ((k, x) # ps))" "set (map fst ((k, x) # ps)) \<inter> fst ` set v = {}"
      unfolding fields_ok_Cons by blast
    then have "query_fields l fs (v @ [(k, [x])]) = Inr r"
      unfolding Cons.IH by (intro exI [of _ ps]) auto
    with * show ?L unfolding query_fields_step by (intro exI [of _ k] exI [of _ x]) auto
  qed
qed


section \<open>What is forwarded\<close>

lemma kept_parts_all:
  assumes "\<forall>part \<in> set parts. \<exists>p. decode_pair part = Some p \<and> \<not> isSigningQueryKey (fst p)"
  shows "kept_parts parts = Inr parts"
  using assms
  by (induction parts) (auto simp: decode_pair_def split_pair_def Let_def split: option.splits sum.splits prod.splits)

lemma those_all: "those (map f xs) = Some ys \<Longrightarrow> x \<in> set xs \<Longrightarrow> \<exists>y \<in> set ys. f x = Some y"
  by (induction xs arbitrary: ys) (auto split: option.splits)

lemma printed_fields:
  assumes "\<forall>(k, x) \<in> set qs. k \<noteq> [] \<and> int (length k) \<le> dl_MaxTokenBytes l \<and> int (length x) \<le> dl_MaxTokenBytes l"
  shows "fields_ok l (map (\<lambda>p. print_pair (encode_pair p)) qs) qs"
proof -
  have "CHR ''+'' \<notin> set (awsEncode w)" for w
    using set_awsEncode [of "CHR ''+''" w] by (auto simp: isUnreserved_ord ord_def)
  then have "CHR ''+'' \<notin> set (print_pair (encode_pair p))" for p by (simp add: print_pair_def encode_pair_def)
  then have "form_pair (print_pair (encode_pair p)) = Some p" for p by (simp add: form_decode decode_print_pair)
  then have "those (map (\<lambda>p. form_pair (print_pair (encode_pair p))) qs) = Some qs" by (rule those_Some_map)
  then show ?thesis using assms by (auto simp: fields_ok_def o_def print_pair_def)
qed

text \<open>
  Property C15. The query that is forwarded is the query that was decoded. For every query without a plus sign and without signing
  parameters that the decoder accepts, the resigner's query is one that the decoder accepts again, for any bound on its
  length that it fits, and with the same parameters and values; so the upstream reads the parameters the policy decided on.
\<close>

theorem forwarded_query_decoded:
  assumes "parseQueryString raw l = Inr q" "CHR ''+'' \<notin> set raw" "\<forall>(k, _) \<in> set q. \<not> isSigningQueryKey k"
    and "dl_MaxTokenBytes l' = dl_MaxTokenBytes l" "dl_MaxParameters l' = dl_MaxParameters l"
  shows "\<exists>out. scrubAndCanonicalizeQuery raw = Inr out \<and>
     (int (length out) \<le> dl_MaxBodyBytes l' \<longrightarrow> (\<exists>q'. parseQueryString out l' = Inr q' \<and> mset q' = mset q))"
proof (cases "raw = []")
  case True
  then show ?thesis using assms(1) by (simp add: parseQueryString_def scrubAndCanonicalizeQuery_def)
next
  case False
  let ?fs = "split_byte CHR ''&'' raw"
  have "query_fields l ?fs [] = Inr q" using assms(1) False by (auto simp: parseQueryString_def split: if_splits)
  then obtain ps where ps: "fields_ok l ?fs ps" "q = values_of ps" "int (length q) \<le> dl_MaxParameters l" "distinct (map fst ps)"
    unfolding query_fields_iff by auto
  have plus: "\<forall>f \<in> set ?fs. form_pair f = decode_pair f"
    using assms(2) set_split_byte form_decode by blast
  then have dec: "those (map decode_pair ?fs) = Some ps"
    using ps(1) by (simp add: fields_ok_def cong: map_cong)
  have "kept_parts ?fs = Inr ?fs"
  proof (rule kept_parts_all, rule ballI)
    fix part assume "part \<in> set ?fs"
    from those_all [OF dec this] obtain p where "p \<in> set ps" "decode_pair part = Some p" by blast
    then show "\<exists>p. decode_pair part = Some p \<and> \<not> isSigningQueryKey (fst p)" using assms(3) ps(2) by (auto simp: split_beta)
  qed
  then have scrub: "scrubAndCanonicalizeQuery raw = canonicalRawQuery raw" using False by (simp add: scrubAndCanonicalizeQuery_def)
  obtain qs where qs: "canonicalRawQuery raw = Inr (print_params qs)" "mset qs = mset ps"
    by (rule canonicalRawQuery_Some [of raw ps]) (use dec False in \<open>simp_all add: query_params_def\<close>)
  have "ps \<noteq> []" using those_all [OF dec list.set_sel(1) [OF split_byte_nonempty]] by auto
  then have ne: "qs \<noteq> []" using qs(2) by auto
  have "mset (map fst qs) = mset (map fst ps)" using qs(2) by simp
  then have set: "set qs = set ps" "distinct (map fst qs)" "length qs = length ps"
    using mset_eq_setD [OF qs(2)] mset_eq_length [OF qs(2)] ps(4) mset_eq_imp_distinct_iff by blast+
  have "fields_ok l' (split_byte CHR ''&'' (print_params qs)) qs"
    unfolding split_print_params [OF ne] using ps(1) set(1) assms(4) by (intro printed_fields) (simp add: fields_ok_def)
  then have "query_fields l' (split_byte CHR ''&'' (print_params qs)) [] = Inr (values_of qs)"
    unfolding query_fields_iff using set ps(2,3) assms(5) by (intro exI [of _ qs]) simp
  moreover have "mset (values_of qs) = mset q" unfolding ps(2) mset_map qs(2) ..
  ultimately show ?thesis
    using scrub qs(1) by (auto simp: parseQueryString_def print_params_empty ne)
qed


lemma forwarded_query_decoded_witness:
  "parseQueryString ''Name=a%2fb'' DefaultDecodeLimits = Inr [(''Name'', [''a/b''])] \<and>
   (\<exists>q'. parseQueryString ''Name=a%2Fb'' DefaultDecodeLimits = Inr q' \<and> mset q' = mset [(''Name'', [''a/b''])])"
proof -
  have p: "parseQueryString ''Name=a%2fb'' DefaultDecodeLimits = Inr [(''Name'', [''a/b''])]" by code_simp
  have s: "scrubAndCanonicalizeQuery ''Name=a%2fb'' = Inr ''Name=a%2Fb''" "\<not> isSigningQueryKey ''Name''" by code_simp+
  show ?thesis
    using p s forwarded_query_decoded [OF p, of DefaultDecodeLimits] by (simp add: DefaultDecodeLimits_def)
qed

section \<open>The plus sign\<close>

abbreviation plain :: "string \<Rightarrow> bool" where "plain w \<equiv> list_all isUnreserved w"

lemma plain_bytes: "plain w \<Longrightarrow> CHR ''%'' \<notin> set w \<and> CHR ''&'' \<notin> set w \<and> CHR ''='' \<notin> set w \<and> CHR ''+'' \<notin> set w"
  by (auto simp: list_all_iff isUnreserved_def byte_between_def ord_def)

lemma plain_read:
  assumes "plain w"
  shows "query_unescape (w @ s) = map_option ((@) w) (query_unescape s)"
    "percentDecodeQuery (w @ s) = map_sum id ((@) w) (percentDecodeQuery s)" "awsEncode (w @ s) = w @ awsEncode s"
proof -
  have "CHR ''%'' \<notin> set w" "CHR ''+'' \<notin> set w" using plain_bytes [OF assms] by simp_all
  then show "query_unescape (w @ s) = map_option ((@) w) (query_unescape s)"
    "percentDecodeQuery (w @ s) = map_sum id ((@) w) (percentDecodeQuery s)"
    by (induction w) (cases "query_unescape s"; cases "percentDecodeQuery s"; auto)+
  show "awsEncode (w @ s) = w @ awsEncode s" using assms by (induction w) (simp_all add: awsEncode_def)
qed

lemmas plain_ends = plain_read [where s = "[]", simplified]

lemma plain_plus:
  "query_unescape (''+'' @ s) = map_option ((#) CHR '' '') (query_unescape s)"
  "query_unescape (''%2B'' @ s) = map_option ((#) CHR ''+'') (query_unescape s)"
  "percentDecodeQuery (''+'' @ s) = map_sum id ((#) CHR ''+'') (percentDecodeQuery s)" "awsEncode (''+'' @ s) = ''%2B'' @ awsEncode s"
proof -
  have "unhex CHR ''2'' = Some 2" "unhex CHR ''B'' = Some 11" "(char_of (43 :: nat) :: char) = CHR ''+''" "awsEncode ''+'' = ''%2B''" by code_simp+
  then show "query_unescape (''+'' @ s) = map_option ((#) CHR '' '') (query_unescape s)"
    "query_unescape (''%2B'' @ s) = map_option ((#) CHR ''+'') (query_unescape s)"
    "percentDecodeQuery (''+'' @ s) = map_sum id ((#) CHR ''+'') (percentDecodeQuery s)" "awsEncode (''+'' @ s) = ''%2B'' @ awsEncode s"
    by (simp_all add: awsEncode_def)
qed

lemma single_field:
  assumes "form_pair f = Some (k, x)" "f \<noteq> []" "k \<noteq> []" "CHR ''&'' \<notin> set f" "length f \<le> 8388608" "length k \<le> 4096" "length x \<le> 4096"
  shows "parseQueryString f DefaultDecodeLimits = Inr [(k, [x])]"
proof -
  have "query_fields DefaultDecodeLimits [f] [] = Inr [(k, [x])]"
    unfolding query_fields_step using assms by (intro exI [of _ k] exI [of _ x]) (simp add: DefaultDecodeLimits_def)
  then show ?thesis using assms by (simp add: parseQueryString_def split_byte_atom DefaultDecodeLimits_def)
qed

lemma form_plain:
  assumes "plain k" "query_unescape v = Some x"
  shows "form_pair (k @ ''='' @ v) = Some (k, x)"
proof -
  have "index_byte (k @ CHR ''='' # v) CHR ''='' = Some (length k)"
    using plain_bytes [OF assms(1)] by (induction k) auto
  then show ?thesis using assms by (simp add: form_pair_def splitn_pair plain_ends)
qed

text \<open>
  Property C16. A plus sign is decided on as a space and forwarded as a plus sign. For every name and every value with a plus sign in it,
  the rest of which needs no escape, the decoder reads a space where the query has the plus sign; the resigner
  accepts the query and forwards an escaped plus sign, which decodes to a plus sign: the policy and the upstream
  see different values.
\<close>

theorem plus_forwarded_differently:
  assumes "k \<noteq> []" "list_all isUnreserved k" "list_all isUnreserved a" "list_all isUnreserved b" "\<not> isSigningQueryKey k"
    and "length k + length a + length b \<le> 4000"
  shows "parseQueryString (k @ ''='' @ a @ ''+'' @ b) DefaultDecodeLimits = Inr [(k, [a @ '' '' @ b])] \<and>
     scrubAndCanonicalizeQuery (k @ ''='' @ a @ ''+'' @ b) = Inr (k @ ''='' @ a @ ''%2B'' @ b) \<and>
     parseQueryString (k @ ''='' @ a @ ''%2B'' @ b) DefaultDecodeLimits = Inr [(k, [a @ ''+'' @ b])]"
proof -
  let ?v = "a @ ''+'' @ b" and ?e = "a @ ''%2B'' @ b"
  have bytes: "CHR ''&'' \<notin> set (k @ ''='' @ ?v)" "CHR ''&'' \<notin> set (k @ ''='' @ ?e)" "CHR ''='' \<notin> set k"
    using plain_bytes [OF assms(2)] plain_bytes [OF assms(3)] plain_bytes [OF assms(4)] by auto
  have v: "query_unescape ?v = Some (a @ '' '' @ b)" "query_unescape ?e = Some ?v" "percentDecodeQuery ?v = Inr ?v"
    "awsEncode ?v = ?e" "percentDecodeQuery k = Inr k" "awsEncode k = k"
    using plain_read [OF assms(3)] plain_plus plain_read [OF assms(4), of "[]"] plain_read [OF assms(2), of "[]"] by (simp_all add: awsEncode_def)
  have "index_byte (k @ CHR ''='' # s) CHR ''='' = Some (length k)" for s using bytes(3) by (induction k) auto
  then have "decode_pair (k @ ''='' @ ?v) = Some (k, ?v)" using v by (simp add: decode_pair_def split_pair_def)
  moreover from this have "kept_parts [k @ ''='' @ ?v] = Inr [k @ ''='' @ ?v]" using assms(5) by (intro kept_parts_all) auto
  ultimately have "scrubAndCanonicalizeQuery (k @ ''='' @ ?v) = Inr (k @ ''='' @ ?e)"
    using bytes(1) v
    by (simp add: scrubAndCanonicalizeQuery_def split_byte_atom canonicalRawQuery_params query_params_def encode_pair_def print_pair_def)
  moreover have "parseQueryString (k @ ''='' @ ?v) DefaultDecodeLimits = Inr [(k, [a @ '' '' @ b])]"
    using form_plain [OF assms(2) v(1)] bytes(1) assms(1,6) by (intro single_field) auto
  moreover have "parseQueryString (k @ ''='' @ ?e) DefaultDecodeLimits = Inr [(k, [?v])]"
    using form_plain [OF assms(2) v(2)] bytes(2) assms(1,6) by (intro single_field) auto
  ultimately show ?thesis by blast
qed

lemma plus_forwarded_differently_witness:
  "parseQueryString ''TopicArn=a+b'' DefaultDecodeLimits = Inr [(''TopicArn'', [''a b''])] \<and>
   scrubAndCanonicalizeQuery ''TopicArn=a+b'' = Inr ''TopicArn=a%2Bb''"
proof -
  have "list_all isUnreserved ''TopicArn''" "list_all isUnreserved ''a''" "list_all isUnreserved ''b''" "\<not> isSigningQueryKey ''TopicArn''"
    by code_simp+
  from plus_forwarded_differently [OF _ this] show ?thesis by simp
qed

end
