(* ===== verification/Child_Env.thy ===== *)
theory Child_Env
  imports Wire_Decode Sigv4_Verify Go_Net
begin

text \<open>
  The environment of the protected process, \<^verbatim>\<open>src/internal/runtime/env.go\<close>: the variables of the parent without its AWS and
  proxy settings, then the run's fake credential, the synthetic AWS files and the local proxy. The parent's proxy settings are
  captured for Kordn's own transport.

  \<^verbatim>\<open>url.Parse\<close> is the argument \<open>parse\<close>; a parsed URL has the fields the code reads and the text \<^verbatim>\<open>String\<close> returns.
\<close>

section \<open>Input\<close>

record AWSFiles =
  af_CredentialsPath :: string
  af_ConfigPath :: string
  af_CABundlePath :: string

record EnvironmentInput =
  ei_ParentEnv :: "string list"
  ei_Fake :: FakeCredential
  ei_Files :: AWSFiles
  ei_ProxyURL :: string
  ei_RunID :: string

record parsed_url =
  pu_Scheme :: string
  pu_Host :: string
  pu_User :: "(string \<times> string option) option"
  pu_Path :: string
  pu_RawQuery :: string
  pu_Fragment :: string
  pu_String :: string

text \<open>\<^verbatim>\<open>Hostname\<close> and \<^verbatim>\<open>Port\<close>: the host before a final port of digits, without its brackets, and that port.\<close>

definition url_splitHostPort :: "string \<Rightarrow> string \<times> string" where
  "url_splitHostPort hp =
     (let (host, port) =
        (case last_index_byte hp CHR '':'' of
           Some i \<Rightarrow> if list_all is_digit_byte (drop (Suc i) hp) then (take i hp, drop (Suc i) hp) else (hp, [])
         | None \<Rightarrow> (hp, []))
      in (if has_prefix host ''['' \<and> has_suffix host '']'' then butlast (tl host) else host, port))"

definition localNoProxy :: string where "localNoProxy = ''localhost,127.0.0.1,::1''"

section \<open>The proxy of the parent\<close>

record CapturedProxySettings =
  cs_HTTPProxy :: string
  cs_HTTPSProxy :: string
  cs_NoProxy :: string
  cs_HTTPProxyUpper :: string
  cs_HTTPProxyLower :: string
  cs_HTTPSProxyUpper :: string
  cs_HTTPSProxyLower :: string
  cs_NoProxyUpper :: string
  cs_NoProxyLower :: string
  cs_AllProxy :: string
  cs_AllProxyUpper :: string
  cs_AllProxyLower :: string

text \<open>The loop over the variables; the four flags tell which upper-case variables were seen.\<close>

fun capture_items ::
  "string list \<Rightarrow> CapturedProxySettings \<Rightarrow> bool \<times> bool \<times> bool \<times> bool \<Rightarrow> CapturedProxySettings \<times> bool \<times> bool \<times> bool \<times> bool" where
  "capture_items [] s seen = (s, seen)"
| "capture_items (item # env) s (http, https, noProxy, all) =
     (case cut CHR ''='' item of (key, v, ok) \<Rightarrow>
        if \<not> ok then capture_items env s (http, https, noProxy, all)
        else if key = ''HTTP_PROXY'' then capture_items env (s\<lparr>cs_HTTPProxyUpper := v\<rparr>) (True, https, noProxy, all)
        else if key = ''http_proxy'' then capture_items env (s\<lparr>cs_HTTPProxyLower := v\<rparr>) (http, https, noProxy, all)
        else if key = ''HTTPS_PROXY'' then capture_items env (s\<lparr>cs_HTTPSProxyUpper := v\<rparr>) (http, True, noProxy, all)
        else if key = ''https_proxy'' then capture_items env (s\<lparr>cs_HTTPSProxyLower := v\<rparr>) (http, https, noProxy, all)
        else if key = ''NO_PROXY'' then capture_items env (s\<lparr>cs_NoProxyUpper := v\<rparr>) (http, https, True, all)
        else if key = ''no_proxy'' then capture_items env (s\<lparr>cs_NoProxyLower := v\<rparr>) (http, https, noProxy, all)
        else if key = ''ALL_PROXY'' then capture_items env (s\<lparr>cs_AllProxyUpper := v\<rparr>) (http, https, noProxy, True)
        else if key = ''all_proxy'' then capture_items env (s\<lparr>cs_AllProxyLower := v\<rparr>) (http, https, noProxy, all)
        else capture_items env s (http, https, noProxy, all))"

definition no_settings :: CapturedProxySettings where
  "no_settings = \<lparr>cs_HTTPProxy = [], cs_HTTPSProxy = [], cs_NoProxy = [], cs_HTTPProxyUpper = [], cs_HTTPProxyLower = [],
     cs_HTTPSProxyUpper = [], cs_HTTPSProxyLower = [], cs_NoProxyUpper = [], cs_NoProxyLower = [], cs_AllProxy = [],
     cs_AllProxyUpper = [], cs_AllProxyLower = []\<rparr>"

definition CaptureProxySettings :: "string list \<Rightarrow> CapturedProxySettings" where
  "CaptureProxySettings env =
     (case capture_items env no_settings (False, False, False, False) of (s, http, https, noProxy, all) \<Rightarrow>
        s\<lparr>cs_HTTPProxy := if http then cs_HTTPProxyUpper s else cs_HTTPProxyLower s,
          cs_HTTPSProxy := if https then cs_HTTPSProxyUpper s else cs_HTTPSProxyLower s,
          cs_NoProxy := if noProxy then cs_NoProxyUpper s else cs_NoProxyLower s,
          cs_AllProxy := if all then cs_AllProxyUpper s else cs_AllProxyLower s\<rparr>)"

definition neturlForNoProxy :: "string \<Rightarrow> string go_result" where
  "neturlForNoProxy entry =
     (if has_prefix entry ''['' then
        (case index_byte entry CHR '']'' of
           None \<Rightarrow> Inl ''malformed no_proxy entry''
         | Some e \<Rightarrow> Inr (take (e + 1) entry))
      else if count_byte entry CHR '':'' = 1 then
        (case cut CHR '':'' entry of (host, port, ok) \<Rightarrow>
           if ok \<and> host \<noteq> [] \<and> strconv_Atoi port \<noteq> None then Inr host else Inr entry)
      else Inr entry)"

definition trim_brackets :: "string \<Rightarrow> string" where
  "trim_brackets s =
     (let b = (\<lambda>c. c = CHR ''['' \<or> c = CHR '']'') in rev (dropWhile b (rev (dropWhile b s))))"

definition excluded_by :: "string \<Rightarrow> string \<Rightarrow> bool" where
  "excluded_by host raw =
     (let entry0 = trim_space (to_lower raw) in
      if entry0 = [] then False
      else
        (let entry1 = (case neturlForNoProxy entry0 of Inr e \<Rightarrow> e | Inl _ \<Rightarrow> entry0);
             entry = trim_suffix (trim_brackets entry1) ''.'';
             bare = trim_prefix entry ''.'' in
         entry = ''*'' \<or> entry = host \<or> bare = host \<or> has_suffix host (''.'' @ bare)))"

definition proxyExcluded :: "string \<Rightarrow> string \<Rightarrow> bool" where
  "proxyExcluded host0 entries =
     (let host = trim_suffix (to_lower (trim_brackets host0)) ''.'' in
      host \<noteq> [] \<and> list_ex (excluded_by host) (split_byte CHR '','' entries))"

text \<open>The proxy for a request with a scheme and a host: none, a parsed URL, or an error.\<close>

definition ProxyFunc ::
  "(string \<Rightarrow> parsed_url option) \<Rightarrow> CapturedProxySettings \<Rightarrow> (string \<times> string) option \<Rightarrow> parsed_url option go_result" where
  "ProxyFunc parse p req =
     (case req of
        None \<Rightarrow> Inl ''proxy request is nil''
      | Some (scheme, hostname) \<Rightarrow>
          if proxyExcluded hostname (cs_NoProxy p) then Inr None
          else
            (let v0 = (if equal_fold scheme ''https'' then cs_HTTPSProxy p else cs_HTTPProxy p);
                 v = (if v0 = [] then cs_AllProxy p else v0) in
             if v = [] then Inr None
             else
               (case parse v of
                  None \<Rightarrow> Inl ''captured outbound proxy is invalid''
                | Some u \<Rightarrow>
                    if pu_Scheme u = [] \<or> pu_Host u = [] \<or> pu_Path u \<noteq> [] \<or> pu_RawQuery u \<noteq> [] \<or> pu_Fragment u \<noteq> []
                    then Inl ''captured outbound proxy is invalid''
                    else if \<not> equal_fold (pu_Scheme u) ''http'' \<and> \<not> equal_fold (pu_Scheme u) ''https''
                    then Inl ''captured outbound proxy uses an unsupported scheme''
                    else Inr (Some u))))"

section \<open>The environment of the child\<close>

definition safeEnvValue :: "string \<Rightarrow> bool" where
  "safeEnvValue v \<longleftrightarrow> v \<noteq> [] \<and> \<not> contains_any v [CHR 0x00, CHR 0x0D, CHR 0x0A]"

definition isReplacedChildKey :: "string \<Rightarrow> bool" where
  "isReplacedChildKey key \<longleftrightarrow> to_upper key \<in> set [''HTTP_PROXY'', ''HTTPS_PROXY'', ''NO_PROXY'', ''ALL_PROXY'',
     ''FTP_PROXY'', ''RSYNC_PROXY'', ''KORDN_RUN_ID'', ''KORDN_ACTIVE'']"

definition validateChildProxyURL :: "(string \<Rightarrow> parsed_url option) \<Rightarrow> string \<Rightarrow> string go_result" where
  "validateChildProxyURL parse v =
     (case parse v of
        None \<Rightarrow> Inl ''authenticated local proxy URL is required''
      | Some u \<Rightarrow>
          (case pu_User u of
             None \<Rightarrow> Inl ''authenticated local proxy URL is required''
           | Some (username, password) \<Rightarrow>
               if pu_Scheme u = [] \<or> pu_Host u = [] \<or> pu_Path u \<noteq> [] \<or> pu_RawQuery u \<noteq> [] \<or> pu_Fragment u \<noteq> []
               then Inl ''authenticated local proxy URL is required''
               else if \<not> equal_fold (pu_Scheme u) ''http'' then Inl ''local proxy must use HTTP proxy URL''
               else if username = [] then Inl ''local proxy username is required''
               else if password = None \<or> password = Some [] \<or> contains_any (the password) [CHR 0x00, CHR 0x0D, CHR 0x0A]
               then Inl ''local proxy password is required''
               else
                 (let (host, port) = url_splitHostPort (pu_Host u) in
                  if ParseIP host = None \<or> (host \<noteq> ''127.0.0.1'' \<and> host \<noteq> ''::1'') then Inl ''local proxy must be loopback''
                  else if port = [] then Inl ''local proxy port is required''
                  else
                    (case strconv_Atoi port of
                       None \<Rightarrow> Inl ''local proxy port is invalid''
                     | Some n \<Rightarrow> if n < 1 \<or> n > 65535 then Inl ''local proxy port is invalid'' else Inr (pu_String u)))))"

text \<open>A variable of the parent that the child inherits.\<close>

definition inherited :: "string \<Rightarrow> bool" where
  "inherited item \<longleftrightarrow>
     (case cut CHR ''='' item of (key, _, ok) \<Rightarrow>
        ok \<and> key \<noteq> [] \<and> \<not> (has_prefix (to_upper key) ''AWS_'' \<or> isReplacedChildKey (to_upper key)))"

definition child_variables :: "EnvironmentInput \<Rightarrow> string \<Rightarrow> (string \<times> string) list" where
  "child_variables input proxyURL =
     [(''AWS_ACCESS_KEY_ID'', fk_AccessKeyID (ei_Fake input)), (''AWS_SECRET_ACCESS_KEY'', fk_SecretAccessKey (ei_Fake input)),
      (''AWS_SESSION_TOKEN'', fk_SessionToken (ei_Fake input)), (''AWS_EC2_METADATA_DISABLED'', ''true''),
      (''AWS_EC2_METADATA_V1_DISABLED'', ''true''), (''AWS_SHARED_CREDENTIALS_FILE'', af_CredentialsPath (ei_Files input)),
      (''AWS_CONFIG_FILE'', af_ConfigPath (ei_Files input)), (''AWS_PROFILE'', ''kordn''), (''AWS_DEFAULT_PROFILE'', ''kordn''),
      (''AWS_SDK_LOAD_CONFIG'', ''1''), (''AWS_CA_BUNDLE'', af_CABundlePath (ei_Files input)), (''HTTP_PROXY'', proxyURL),
      (''HTTPS_PROXY'', proxyURL), (''http_proxy'', proxyURL), (''https_proxy'', proxyURL), (''NO_PROXY'', localNoProxy),
      (''no_proxy'', localNoProxy), (''KORDN_RUN_ID'', ei_RunID input), (''KORDN_ACTIVE'', ''1'')]"

definition BuildChildEnvironment :: "(string \<Rightarrow> parsed_url option) \<Rightarrow> EnvironmentInput \<Rightarrow> string list go_result" where
  "BuildChildEnvironment parse input =
     (if \<not> safeEnvValue (ei_RunID input) \<or> trim_space (ei_RunID input) = [] then Inl ''run identity is required''
      else if \<not> safeEnvValue (fk_AccessKeyID (ei_Fake input)) \<or> \<not> safeEnvValue (fk_SecretAccessKey (ei_Fake input))
         \<or> \<not> safeEnvValue (fk_SessionToken (ei_Fake input)) then Inl ''fake credential is incomplete''
      else if \<not> safeEnvValue (af_CredentialsPath (ei_Files input)) \<or> \<not> safeEnvValue (af_ConfigPath (ei_Files input))
         \<or> \<not> safeEnvValue (af_CABundlePath (ei_Files input)) then Inl ''synthetic AWS files are incomplete''
      else
        (case validateChildProxyURL parse (ei_ProxyURL input) of
           Inl e \<Rightarrow> Inl e
         | Inr proxyURL \<Rightarrow>
             Inr (filter inherited (ei_ParentEnv input) @
                  map (\<lambda>(key, v). key @ ''='' @ v) (child_variables input proxyURL))))"

section \<open>What the child sees\<close>

text \<open>The values of a variable in an environment, in order.\<close>

definition env_values :: "string list \<Rightarrow> string \<Rightarrow> string list" where
  "env_values env k = concat (map (\<lambda>item. case cut CHR ''='' item of (key, v, ok) \<Rightarrow> if ok \<and> key = k then [v] else []) env)"

text \<open>The names whose values the child must not inherit.\<close>

definition guarded_name :: "string \<Rightarrow> bool" where
  "guarded_name k \<longleftrightarrow> has_prefix (to_upper k) ''AWS_'' \<or>
     to_upper k \<in> {''HTTP_PROXY'', ''HTTPS_PROXY'', ''NO_PROXY'', ''ALL_PROXY'', ''FTP_PROXY'', ''RSYNC_PROXY'', ''KORDN_RUN_ID'', ''KORDN_ACTIVE''}"

lemma env_values_append: "env_values (a @ b) k = env_values a k @ env_values b k"
  by (simp add: env_values_def)

lemma upper_fixed: "to_upper k \<in> {''HTTP_PROXY'', ''HTTPS_PROXY'', ''NO_PROXY'', ''ALL_PROXY'', ''FTP_PROXY'', ''RSYNC_PROXY'', ''KORDN_RUN_ID'', ''KORDN_ACTIVE''} \<Longrightarrow>
    to_upper (to_upper k) = to_upper k"
proof -
  have "\<forall>w \<in> {''HTTP_PROXY'', ''HTTPS_PROXY'', ''NO_PROXY'', ''ALL_PROXY'', ''FTP_PROXY'', ''RSYNC_PROXY'', ''KORDN_RUN_ID'', ''KORDN_ACTIVE''}. to_upper w = w"
    by code_simp
  then show "to_upper k \<in> {''HTTP_PROXY'', ''HTTPS_PROXY'', ''NO_PROXY'', ''ALL_PROXY'', ''FTP_PROXY'', ''RSYNC_PROXY'', ''KORDN_RUN_ID'', ''KORDN_ACTIVE''} \<Longrightarrow>
    to_upper (to_upper k) = to_upper k" by blast
qed

lemma inherited_unguarded: "inherited item \<Longrightarrow> cut CHR ''='' item = (k, v, ok) \<Longrightarrow> \<not> guarded_name k"
  using upper_fixed [of k] by (auto simp: inherited_def guarded_name_def isReplacedChildKey_def)

lemma inherited_values: "guarded_name k \<Longrightarrow> env_values (filter inherited env) k = []"
  by (auto simp: env_values_def dest: inherited_unguarded split: prod.splits)

lemma upper_ascii: "list_all is_ascii k \<Longrightarrow> to_upper (to_upper k) = to_upper k"
proof -
  assume a: "list_all is_ascii k"
  have "is_ascii (ascii_upper_byte c)" "ascii_upper_byte (ascii_upper_byte c) = ascii_upper_byte c" if "is_ascii c" for c
    using that by (auto simp: go_defs)
  with a show ?thesis by (auto simp: to_upper_def list_all_iff)
qed

lemma cut_variable: "CHR ''='' \<notin> set k \<Longrightarrow> cut CHR ''='' (k @ CHR ''='' # v) = (k, v, True)"
proof -
  assume "CHR ''='' \<notin> set k"
  then have "dropWhile (\<lambda>x. x \<noteq> CHR ''='') (k @ CHR ''='' # v) = CHR ''='' # v" "takeWhile (\<lambda>x. x \<noteq> CHR ''='') (k @ CHR ''='' # v) = k"
    by (induction k) auto
  then show ?thesis by (simp add: cut_def)
qed

lemma env_values_vars:
  assumes "\<forall>(k, _) \<in> set vars. CHR ''='' \<notin> set k" "distinct (map fst vars)"
  shows "env_values (map (\<lambda>(key, v). key @ ''='' @ v) vars) k = (case map_of vars k of None \<Rightarrow> [] | Some v \<Rightarrow> [v])"
  using assms
proof (induction vars)
  case (Cons p vars)
  obtain k' v where p: "p = (k', v)" by (cases p)
  have "map_of vars k' = None" using Cons.prems(2) p by (simp add: map_of_eq_None_iff)
  then show ?case using Cons p by (auto simp: env_values_def cut_variable)
qed (simp add: env_values_def)

definition child_names :: "string list" where
  "child_names = [''AWS_ACCESS_KEY_ID'', ''AWS_SECRET_ACCESS_KEY'', ''AWS_SESSION_TOKEN'', ''AWS_EC2_METADATA_DISABLED'',
     ''AWS_EC2_METADATA_V1_DISABLED'', ''AWS_SHARED_CREDENTIALS_FILE'', ''AWS_CONFIG_FILE'', ''AWS_PROFILE'', ''AWS_DEFAULT_PROFILE'',
     ''AWS_SDK_LOAD_CONFIG'', ''AWS_CA_BUNDLE'', ''HTTP_PROXY'', ''HTTPS_PROXY'', ''http_proxy'', ''https_proxy'', ''NO_PROXY'',
     ''no_proxy'', ''KORDN_RUN_ID'', ''KORDN_ACTIVE'']"

lemma child_names: "map fst (child_variables input url) = child_names"
  by (simp add: child_variables_def child_names_def)

lemma child_names_ok: "distinct child_names" "list_all (\<lambda>k. CHR ''='' \<notin> set k) child_names" "list_all guarded_name child_names"
  by code_simp+

lemma inherited_kept:
  assumes "list_all is_ascii k" "k \<noteq> []" "\<not> guarded_name k"
  shows "env_values (filter inherited env) k = env_values env k"
proof (induction env)
  case (Cons item env)
  obtain key v ok where c: "cut CHR ''='' item = (key, v, ok)" by (cases "cut CHR ''='' item")
  have "inherited item" if "ok" "key = k"
    using that c assms upper_ascii [OF assms(1)] by (simp add: inherited_def guarded_name_def isReplacedChildKey_def)
  with Cons c show ?case by (auto simp: env_values_def)
qed simp

text \<open>
  Property C17. The protected process sees the fake credential and no other. In an environment that is built, every variable whose name
  in upper case starts with \<^verbatim>\<open>AWS_\<close>, or is one of the proxy and run variables, has exactly the value Kordn gives it, once,
  and is absent where Kordn gives none, whatever the parent had; every other ASCII name has the values it has in the
  parent; and the proxy that is set is an authenticated HTTP proxy on a loopback address.
\<close>

theorem child_environment_isolated:
  assumes "BuildChildEnvironment parse input = Inr env"
  shows "\<exists>u user password port n.
     (\<forall>k. guarded_name k \<longrightarrow> env_values env k =
        (case map_of (child_variables input (pu_String u)) k of None \<Rightarrow> [] | Some v \<Rightarrow> [v])) \<and>
     (\<forall>k. list_all is_ascii k \<and> k \<noteq> [] \<and> \<not> guarded_name k \<longrightarrow> env_values env k = env_values (ei_ParentEnv input) k) \<and>
     parse (ei_ProxyURL input) = Some u \<and> equal_fold (pu_Scheme u) ''http'' \<and> pu_User u = Some (user, Some password) \<and> user \<noteq> [] \<and>
     password \<noteq> [] \<and> url_splitHostPort (pu_Host u) \<in> {(''127.0.0.1'', port), (''::1'', port)} \<and>
     strconv_Atoi port = Some n \<and> 1 \<le> n \<and> n \<le> 65535"
proof -
  obtain url where url: "validateChildProxyURL parse (ei_ProxyURL input) = Inr url"
    and env: "env = filter inherited (ei_ParentEnv input) @ map (\<lambda>(key, v). key @ ''='' @ v) (child_variables input url)"
    using assms by (auto simp: BuildChildEnvironment_def split: if_splits sum.splits)
  obtain u user password port n where u: "parse (ei_ProxyURL input) = Some u" "pu_String u = url" "equal_fold (pu_Scheme u) ''http''"
    "pu_User u = Some (user, Some password)" "user \<noteq> []" "password \<noteq> []"
    "url_splitHostPort (pu_Host u) \<in> {(''127.0.0.1'', port), (''::1'', port)}" "strconv_Atoi port = Some n" "1 \<le> n" "n \<le> 65535"
    using url unfolding validateChildProxyURL_def
    by (auto split: option.splits prod.splits if_splits)
  have vars: "env_values (map (\<lambda>(key, v). key @ ''='' @ v) (child_variables input url)) k =
      (case map_of (child_variables input url) k of None \<Rightarrow> [] | Some v \<Rightarrow> [v])" for k
  proof (rule env_values_vars)
    show "distinct (map fst (child_variables input url))" by (simp add: child_names child_names_ok)
    have "\<forall>k \<in> set (map fst (child_variables input url)). CHR ''='' \<notin> set k"
      using child_names_ok(2) by (simp only: child_names list_all_iff)
    then show "\<forall>(k, _) \<in> set (child_variables input url). CHR ''='' \<notin> set k" by auto
  qed
  have own: "map_of (child_variables input url) k = None" if "\<not> guarded_name k" for k
  proof -
    have "k \<notin> set (map fst (child_variables input url))" using that child_names_ok(3) by (auto simp only: child_names list_all_iff)
    then show ?thesis by (simp add: map_of_eq_None_iff)
  qed
  have "env_values env k = (case map_of (child_variables input (pu_String u)) k of None \<Rightarrow> [] | Some v \<Rightarrow> [v])" if "guarded_name k" for k
    by (simp only: env env_values_append inherited_values [OF that] vars u(2) append_Nil)
  moreover have "env_values env k = env_values (ei_ParentEnv input) k" if "list_all is_ascii k \<and> k \<noteq> [] \<and> \<not> guarded_name k" for k
    using that inherited_kept [of k] own [of k] by (simp only: env env_values_append vars simp_thms option.case append_Nil2)
  ultimately show ?thesis using u by blast
qed


definition sample_parse :: "string \<Rightarrow> parsed_url option" where
  "sample_parse s = Some \<lparr>pu_Scheme = ''http'', pu_Host = ''127.0.0.1:8080'', pu_User = Some (''kordn'', Some ''pw''), pu_Path = [],
     pu_RawQuery = [], pu_Fragment = [], pu_String = s\<rparr>"

definition sample_child :: EnvironmentInput where
  "sample_child = \<lparr>ei_ParentEnv = [''PATH=/bin'', ''AWS_SECRET_ACCESS_KEY=real'', ''aws_profile=prod'', ''HTTPS_PROXY=http://corp''],
     ei_Fake = \<lparr>fk_AccessKeyID = ''KORDN0123456789A'', fk_SecretAccessKey = ''fake'', fk_SessionToken = ''token''\<rparr>,
     ei_Files = \<lparr>af_CredentialsPath = ''/s/c'', af_ConfigPath = ''/s/f'', af_CABundlePath = ''/s/b''\<rparr>,
     ei_ProxyURL = ''http://kordn:pw@127.0.0.1:8080'', ei_RunID = ''run-1''\<rparr>"

lemma sample_child_built: "\<not> isl (BuildChildEnvironment sample_parse sample_child)" by code_simp

lemma child_environment_isolated_witness:
  "\<exists>env. BuildChildEnvironment sample_parse sample_child = Inr env \<and> env_values env ''AWS_SECRET_ACCESS_KEY'' = [''fake''] \<and>
     env_values env ''aws_profile'' = [] \<and> env_values env ''PATH'' = [''/bin'']"
proof -
  obtain env where e: "BuildChildEnvironment sample_parse sample_child = Inr env"
    using sample_child_built by (cases "BuildChildEnvironment sample_parse sample_child") simp_all
  have g: "guarded_name ''AWS_SECRET_ACCESS_KEY''" "guarded_name ''aws_profile''" "\<not> guarded_name ''PATH''" "list_all is_ascii ''PATH''"
    "env_values (ei_ParentEnv sample_child) ''PATH'' = [''/bin'']" by code_simp+
  have "map_of (child_variables sample_child url) ''AWS_SECRET_ACCESS_KEY'' = Some ''fake''" "map_of (child_variables sample_child url) ''aws_profile'' = None" for url
    by (simp_all add: child_variables_def sample_child_def)
  with child_environment_isolated [OF e] g e show ?thesis by fastforce
qed

end
