(* ===== verification/Spec2Isabelle.thy ===== *)
theory Spec2Isabelle
  imports LRU_Cache Policy_Hash Endpoint Sigv4_Authentic Pipeline_Enforcement Audit_Writer_Safety Config_Policy
    Wire_Match Wire_Decode_Safety Wire_Json Wire_Evidence Wire_Verified Iam_Concrete
    Resign_Safety Resign_Query Child_Env
begin

text \<open>
  \<^bold>\<open>The program.\<close> Kordn is a local proxy between a process and AWS. It hands the process a fake
  credential, intercepts its HTTPS connections to AWS, verifies the signature made with the fake credential,
  decides with a policy whether the request may be made, writes the decision to an audit log, and only then signs the
  request again with the real credential and forwards it. The sources are under \<^verbatim>\<open>src/internal\<close>. One request goes
  through these parts, in this order:

  \<^item> \<^verbatim>\<open>awsrequest/endpoint.go\<close> classifies the host as an endpoint of a service (\<open>Endpoint\<close>);
  \<^item> \<^verbatim>\<open>sigv4\<close> captures the body and verifies the signature (\<open>Sigv4_Payload\<close>, \<open>Sigv4_Canonical\<close>, \<open>Sigv4_Verify\<close>);
  \<^item> \<^verbatim>\<open>awsrequest\<close> decodes the operation and its parameters from the wire (\<open>Aws_Types\<close>, \<open>Wire_Index\<close>,
    \<open>Wire_Decode\<close>);
  \<^item> \<^verbatim>\<open>iammap\<close> maps the operation to the IAM actions and resources it needs (\<open>Iam_Params\<close>, \<open>Iam_Adapter\<close>,
    \<open>Iam_Resources\<close>, \<open>Iam_Mapper\<close>);
  \<^item> \<^verbatim>\<open>policy\<close> decides (\<open>Policy_Glob\<close>, \<open>Policy_Engine\<close>);
  \<^item> \<^verbatim>\<open>audit\<close> records the decision (\<open>Audit_Event\<close>, \<open>Audit_Writer\<close>);
  \<^item> \<^verbatim>\<open>proxy/server.go\<close> composes them in \<^verbatim>\<open>handlePipeline\<close> (\<open>Pipeline\<close>), with caches from \<^verbatim>\<open>cache\<close>
    (\<open>LRU_Cache\<close>, \<open>Cache_Keys\<close>), denials encoded by \<^verbatim>\<open>awserror\<close> (\<open>Reasons\<close>) and headers relayed by \<open>Proxy_Http\<close>;
  \<^item> \<^verbatim>\<open>sigv4/resign.go\<close> strips the request and signs it for the upstream (\<open>Sigv4_Resign\<close>);
  \<^item> \<^verbatim>\<open>runtime/env.go\<close> builds the environment of the protected process (\<open>Child_Env\<close>);
  \<^item> \<^verbatim>\<open>config\<close> loads and validates the startup configuration that all of them are built from (\<open>Config\<close>).

  \<^bold>\<open>The model.\<close> \<open>Kordn_Prelude\<close> holds the Go vocabulary: a \<^verbatim>\<open>string\<close> is a list of bytes, a result with an error is a sum,
  runes are decoded from UTF-8, a \<^verbatim>\<open>context.Context\<close> is a state that answers each poll, and the collections
  \<open>go_defs\<close>, \<open>go_simps\<close>. \<open>Go_Http\<close>, \<open>Go_Json\<close> and \<open>Go_Net\<close> hold what the sources use of the standard library. Every other
  theory is one component and names its source files at its start; a Go function has the name it has in the
  source, a method the name of its type and its own, and a loop of a function a definition of its own.
  Mutable state is a record that is passed on, or the state of \<^verbatim>\<open>State_Monad\<close>; a goroutine with its callers
  (\<open>Audit_Writer\<close>) is a labelled step function over the points where the code can block. Integers have their width where
  it matters: the counters and the occurrence numbers are words.

  \<^bold>\<open>What is shown.\<close>

  \<^item> \<open>Pipeline_Safety\<close>, \<open>Pipeline_Enforcement\<close>: a request reaches the upstream only after authentication, decoding,
    mapping, an allow of the policy and an accepted audit event, in this order; every request is answered once; an
    allowed request is forwarded. \<open>Pipeline_Policy\<close> shows that an allow from the decision cache is the engine's, and
    \<open>Pipeline_Audit\<close> that the events are valid and reveal nothing the configuration withholds.
  \<^item> \<open>Policy_Semantics\<close>: the three nested loops with their polls decide the declarative meaning of a policy, an
    explicit deny wins, and order does not matter; \<open>Policy_Hash\<close>: the policy hash identifies the decisions.
  \<^item> \<open>Sigv4_Authentic\<close>: an accepted request was signed with the run's secret, for this endpoint, recently, and over this body;
    \<open>Sigv4_Canonical\<close>: the canonical request determines what it is made of.
  \<^item> \<open>Resign_Safety\<close>: every verified request is signed again, over the body and the canonical query that were verified; what is signed
    has no header or parameter of the client's signature and goes to the endpoint; a failure releases the body.
    \<open>Resign_Query\<close>: the query that is forwarded is the one that was decoded, except for plus signs.
  \<^item> \<open>Child_Env\<close>: the protected process sees the fake credential and the local proxy, and no AWS variable of its parent.
  \<^item> \<open>Iam_Requirements\<close>: a successful mapping comes from the one catalog record the wire identity selects, and has one
    requirement for each applicable action of its plan, primary and dependent; \<open>Iam_Concrete\<close>: its resources are
    concrete; \<open>Iam_Search\<close>: the parameter searches against the iteration order of Go maps; \<open>Iam_Context\<close>: a mapping that
    succeeds under a context that is polled is the one without polls.
  \<^item> \<open>Wire_Match\<close>: a REST operation is selected when it is the only one of the catalog that matches.
  \<^item> \<open>Wire_Decode_Safety\<close>: a decoded request has the operation the wire index selects, is bound to the classified endpoint and the
    caller's account, and passes the mapper's own checks of its identity; decoding leaves the request and the bytes of its body
    as they were. \<open>Wire_Json\<close>: parsed JSON respects the limits, and every value within them parses back from its tokens.
    \<open>Wire_Evidence\<close> and \<open>Wire_Verified\<close> show where the decoder loses parameters, and which verified requests it never accepts.
  \<^item> \<open>Audit_Writer_Safety\<close>: for every interleaving and every outcome of the file operations the file is the log of accepted events in
    order, a flush is a barrier, a close completes the file and ends. It also exhibits a deadlock of a flush.
  \<^item> \<open>Config_Policy\<close>: what a loaded configuration guarantees, tied to the document and the file it comes from, and the agreement of its policy hash with the engine's.
  \<^item> \<open>LRU_Cache\<close>, \<open>Endpoint\<close>, \<open>Cache_Keys\<close>, \<open>Policy_Glob\<close>, \<open>Reasons\<close>, \<open>Sigv4_Payload\<close>: refinement of a bounded map, transparency of the
    classifier's caches, injectivity of keys, the table matcher against the meaning of a glob, the encoded
    denials, and the faithful capture of a body.

  \<^bold>\<open>Interfaces.\<close> The locales state what one component relies on of another (the bounded map behind a cache, the decision
  cache behind the pipeline, the hash behind a key) and are interpreted on the definitions of the model.

  \<^bold>\<open>Bounds.\<close> The glob matcher, the searches of parameters (depth 16) and the capture of a body carry the bounds of
  the source. No fuel is used beside them: every recursion of the model is structural or has a measure, except for the
  writer, whose termination is shown as the existence of a bound on its steps.

  \<^bold>\<open>Parameters.\<close> Code that is not in the repository is an argument of the definitions: \<^verbatim>\<open>sha256\<close> and \<^verbatim>\<open>hmac\<close>, the IDNA
  profile of \<^verbatim>\<open>golang.org/x/net\<close>, the token streams of \<^verbatim>\<open>encoding/json\<close> and \<^verbatim>\<open>encoding/xml\<close> over a body,
  \<^verbatim>\<open>ParseFloat\<close>, the order of a \<^verbatim>\<open>range\<close> over a map, the decoded document of \<^verbatim>\<open>yaml.v3\<close>, the embedded catalog (as the operations
  it visits and the occurrences it returns), the file system, the reader of a request body, the signer of the AWS SDK and its
  credential provider, \<^verbatim>\<open>url.Parse\<close>, the clock and random identifiers, and the
  classes of non-ASCII letters.

  The file system of the request bodies is a map from paths to what an open of the path reads, so a spool that cannot be opened has no
  entry; each creation, write, \<^verbatim>\<open>Stat\<close> and removal may fail (\<open>spool_io\<close>, \<open>env_remove_err\<close>), and the theorems on failures say what a failed removal leaves. Times
  are instants in UTC, so the test of an event's time zone in \<^verbatim>\<open>audit/event.go\<close> has no counterpart.

  \<^bold>\<open>Not modelled.\<close> The pipeline takes the verifier, the decoder and the mapper as the interface values it is configured
  with, so their theories meet it through what those interfaces return. \<^verbatim>\<open>iamlivecatalog\<close> decodes and indexes generated data when it is loaded; the model starts
  from what it publishes (\<open>Iam_Catalog\<close>). \<^verbatim>\<open>credentials\<close> and \<^verbatim>\<open>pki\<close> call the AWS SDK and \<^verbatim>\<open>crypto/x509\<close>. The
  listeners, tunnels and transports of \<^verbatim>\<open>proxy\<close>, the processes of \<^verbatim>\<open>runtime\<close> and the commands of \<^verbatim>\<open>app\<close> are network and
  operating system calls around the modelled parts. Locks are left out where an operation is one critical section.
\<close>

end
